(* ===== verification/Prelude.thy ===== *)
theory Prelude
  imports Main "HOL-Library.AList"
begin

text \<open>
  What the components share: the model of the Python values and of the parts of the Python
  standard library the driver uses (\<open>str.split\<close>, \<open>str.join\<close>, \<open>str.lower\<close>, \<open>str.strip\<close>,
  slices, \<open>int(s)\<close>, \<open>str(n)\<close>, dictionaries), with the lemmas the component proofs use.

  A Python \<open>str\<close> is a \<open>string\<close> (a list of characters), \<open>None\<close> is the \<open>None\<close> of an
  option, a \<open>dict\<close> is an association list in insertion order (\<open>map_of\<close> reads it and
  \<open>AList.update\<close> writes it, in place when the key exists and at the end otherwise), an
  \<open>int\<close> is an \<open>int\<close>.  Truth values of Python objects are written out: the empty string, the
  empty list, 0 and \<open>None\<close> are false.
\<close>

named_theorems prog_simps \<open>unfolding rules of the programs with state and exceptions\<close>
named_theorems str_simps \<open>rules on strings: splitting, joining, lower case\<close>

subsection \<open>Truth values\<close>

text \<open>\<open>x or y\<close> on strings, and the truth value of an optional string.\<close>

definition truthy :: "string option \<Rightarrow> bool" where
  "truthy x = (case x of None \<Rightarrow> False | Some s \<Rightarrow> s \<noteq> [])"

lemma truthy_simps [simp]:
  "truthy None = False"
  "truthy (Some s) = (s \<noteq> [])"
  by (simp_all add: truthy_def)

lemma truthyE: "truthy x \<Longrightarrow> (\<And>s. x = Some s \<Longrightarrow> s \<noteq> [] \<Longrightarrow> P) \<Longrightarrow> P"
  by (cases x) auto

definition or_else :: "string option \<Rightarrow> string option \<Rightarrow> string option" where
  "or_else x y = (if truthy x then x else y)"

subsection \<open>Splitting and joining strings\<close>

text \<open>\<open>s.split(d)\<close> for a separator of one character: never the empty list.\<close>

fun py_split :: "char \<Rightarrow> string \<Rightarrow> string list" where
  "py_split d [] = [[]]"
| "py_split d (c # cs) =
     (if c = d then [] # py_split d cs
      else case py_split d cs of [] \<Rightarrow> [[c]] | p # ps \<Rightarrow> (c # p) # ps)"

text \<open>\<open>sep.join(xs)\<close>.\<close>

fun py_join :: "string \<Rightarrow> string list \<Rightarrow> string" where
  "py_join sep [] = []"
| "py_join sep [x] = x"
| "py_join sep (x # y # ys) = x @ sep @ py_join sep (y # ys)"

lemma py_split_nonempty [simp]: "py_split d s \<noteq> []"
  by (induction s) (auto split: list.splits)

lemma py_split_nodelim: "d \<notin> set s \<Longrightarrow> py_split d s = [s]"
  by (induction s) auto

lemma py_split_append: "d \<notin> set a \<Longrightarrow> py_split d (a @ d # s) = a # py_split d s"
  by (induction a) auto

lemma length_py_split: "length (py_split d s) = Suc (count_list s d)"
  by (induction s) (auto split: list.splits)

lemma py_split_parts: "p \<in> set (py_split d s) \<Longrightarrow> d \<notin> set p"
proof (induction s arbitrary: p)
  case Nil
  then show ?case by simp
next
  case (Cons c cs)
  then show ?case by (cases "py_split d cs") (auto split: if_splits)
qed

lemma py_split_subset: "p \<in> set (py_split d s) \<Longrightarrow> set p \<subseteq> set s"
proof (induction s arbitrary: p)
  case Nil
  then show ?case by simp
next
  case (Cons c cs)
  show ?case
  proof (cases "c = d")
    case True
    with Cons show ?thesis by auto
  next
    case False
    obtain a ps where "py_split d cs = a # ps" by (cases "py_split d cs") auto
    with False Cons.prems Cons.IH show ?thesis by fastforce
  qed
qed

lemma py_join_split [simp]: "py_join [d] (py_split d s) = s"
proof (induction s)
  case Nil
  then show ?case by simp
next
  case (Cons c cs)
  then show ?case
    by (cases "py_split d cs"; cases "tl (py_split d cs)") auto
qed

lemma py_split_join:
  "xs \<noteq> [] \<Longrightarrow> \<forall>x \<in> set xs. d \<notin> set x \<Longrightarrow> py_split d (py_join [d] xs) = xs"
  by (induction xs rule: induct_list012) (auto simp: py_split_nodelim py_split_append)

lemma length_py_join:
  "xs \<noteq> [] \<Longrightarrow> length (py_join sep xs) = sum_list (map length xs) + (length xs - 1) * length sep"
  by (induction sep xs rule: py_join.induct) auto

lemma set_py_join_subset: "set (py_join sep xs) \<subseteq> set sep \<union> (\<Union>x \<in> set xs. set x)"
  by (induction sep xs rule: py_join.induct) auto

lemma py_join_eq_Nil: "(\<forall>x \<in> set xs. x \<noteq> []) \<Longrightarrow> (py_join sep xs = []) = (xs = [])"
  by (induction sep xs rule: py_join.induct) auto

subsection \<open>Substrings, prefixes and suffixes\<close>

text \<open>\<open>p in s\<close>, \<open>s.startswith(p)\<close>, \<open>s.endswith(p)\<close> and \<open>s.find(p) >= 0\<close>.\<close>

fun py_startswith :: "string \<Rightarrow> string \<Rightarrow> bool" where
  "py_startswith s [] = True"
| "py_startswith [] (p # ps) = False"
| "py_startswith (c # cs) (p # ps) = (c = p \<and> py_startswith cs ps)"

fun py_contains :: "string \<Rightarrow> string \<Rightarrow> bool" where
  "py_contains [] p = (p = [])"
| "py_contains (c # cs) p = (py_startswith (c # cs) p \<or> py_contains cs p)"

definition py_endswith :: "string \<Rightarrow> string \<Rightarrow> bool" where
  "py_endswith s p = py_startswith (rev s) (rev p)"

lemma py_startswith_iff: "py_startswith s p = (\<exists>r. s = p @ r)"
  by (induction s p rule: py_startswith.induct) auto

lemma py_contains_iff: "py_contains s p = (\<exists>a b. s = a @ p @ b)"
proof (induction s)
  case Nil
  then show ?case by auto
next
  case (Cons c cs)
  have "(\<exists>a b. c # cs = a @ p @ b) =
        ((\<exists>b. c # cs = p @ b) \<or> (\<exists>a b. cs = a @ p @ b))" (is "?l = ?r")
  proof
    assume ?l
    then obtain a b where ab: "c # cs = a @ p @ b" by blast
    then show ?r by (cases a) auto
  next
    assume ?r
    then show ?l by (metis append_Cons append_Nil)
  qed
  with Cons.IH show ?case by (simp add: py_startswith_iff del: py_startswith.simps)
qed

lemma py_contains_char: "py_contains s [c] = (c \<in> set s)"
  by (auto simp: py_contains_iff in_set_conv_decomp)

subsection \<open>Slices\<close>

text \<open>
  \<open>s[a:b]\<close> for \<open>0 \<le> a\<close>, \<open>0 \<le> b\<close>; \<open>s[a:]\<close>, \<open>s[:b]\<close> are \<open>drop\<close> and \<open>take\<close>; \<open>s[-n:]\<close> is the
  last \<open>n\<close> elements, or all of them when there are fewer.
\<close>

definition py_slice :: "nat \<Rightarrow> nat \<Rightarrow> 'a list \<Rightarrow> 'a list" where
  "py_slice a b s = drop a (take b s)"

definition py_last_n :: "nat \<Rightarrow> 'a list \<Rightarrow> 'a list" where
  "py_last_n n s = drop (length s - n) s"

lemma length_py_slice [simp]: "length (py_slice a b s) = min (length s) b - a"
  by (simp add: py_slice_def)

lemma length_py_last_n [simp]: "length (py_last_n n s) = min n (length s)"
  by (simp add: py_last_n_def)

subsection \<open>Lower case and white space\<close>

text \<open>Characters are code points below 256: the capitals are those of ASCII and U+00C0 to U+00DE without the sign U+00D7.\<close>

definition lower_char :: "char \<Rightarrow> char" where
  "lower_char c =
     (let n = (of_char c :: nat) in
      if 65 \<le> n \<and> n \<le> 90 \<or> 192 \<le> n \<and> n \<le> 222 \<and> n \<noteq> 215 then char_of (n + 32) else c)"

definition py_lower :: "string \<Rightarrow> string" where
  "py_lower s = map lower_char s"

lemma of_char_lower_char:
  "(of_char (lower_char c) :: nat) =
     (let n = of_char c in if 65 \<le> n \<and> n \<le> 90 \<or> 192 \<le> n \<and> n \<le> 222 \<and> n \<noteq> 215 then n + 32 else n)"
  by (auto simp: lower_char_def Let_def of_char_of)

lemma lower_char_idem [simp]: "lower_char (lower_char c) = lower_char c"
proof -
  have "(of_char (lower_char (lower_char c)) :: nat) = of_char (lower_char c)"
    unfolding of_char_lower_char [of "lower_char c"] by (auto simp: of_char_lower_char Let_def)
  then show ?thesis by (simp add: of_char_eq_iff)
qed

text \<open>\<open>upper\<close>, of ASCII letters; the upper case of no other character below 256 occurs in what the code looks for.\<close>

definition py_upper :: "string \<Rightarrow> string" where
  "py_upper s = map (\<lambda>c. let n = of_char c :: nat in if 97 \<le> n \<and> n \<le> 122 then char_of (n - 32) else c) s"

lemma py_lower_idem [simp]: "py_lower (py_lower s) = py_lower s"
  by (simp add: py_lower_def comp_def)

lemma length_py_lower [simp]: "length (py_lower s) = length s"
  by (simp add: py_lower_def)

lemma py_lower_eq_Nil [simp]: "(py_lower s = []) = (s = [])"
  by (simp add: py_lower_def)

text \<open>The white space \<open>str.strip()\<close> removes, among the characters below 256.\<close>

definition is_space :: "char \<Rightarrow> bool" where
  "is_space c = (let n = (of_char c :: nat) in
     (9 \<le> n \<and> n \<le> 13) \<or> (28 \<le> n \<and> n \<le> 32) \<or> n = 133 \<or> n = 160)"

definition py_lstrip :: "string \<Rightarrow> string" where
  "py_lstrip s = dropWhile is_space s"

definition py_strip :: "string \<Rightarrow> string" where
  "py_strip s = rev (dropWhile is_space (rev (dropWhile is_space s)))"

lemma py_strip_noop: "(\<forall>c \<in> set s. \<not> is_space c) \<Longrightarrow> py_strip s = s"
proof -
  assume a: "\<forall>c \<in> set s. \<not> is_space c"
  have d: "dropWhile is_space xs = xs" if "set xs \<subseteq> set s" for xs
    using that a by (cases xs) auto
  show ?thesis by (simp add: py_strip_def d)
qed

lemma dropWhile_idem: "dropWhile P (dropWhile P xs) = dropWhile P xs"
  by (induction xs) auto

lemma py_strip_idem [simp]: "py_strip (py_strip s) = py_strip s"
proof -
  let ?t = "dropWhile is_space s"
  let ?u = "dropWhile is_space (rev ?t)"
  have "dropWhile is_space (rev ?u) = rev ?u"
  proof (cases "rev ?u")
    case Nil
    show ?thesis by (simp only: Nil dropWhile.simps)
  next
    case (Cons c cs)
    have "\<exists>ys. rev ?t = ys @ ?u"
      by (metis takeWhile_dropWhile_id)
    then obtain ys where "rev ?t = ys @ ?u" by blast
    then have "?t = rev ?u @ rev ys" by (metis rev_append rev_rev_ident)
    with Cons have "?t = c # (cs @ rev ys)" by simp
    then have "\<not> is_space c" by (metis dropWhile_eq_Cons_conv)
    with Cons show ?thesis by simp
  qed
  then show ?thesis by (simp add: py_strip_def)
qed

subsection \<open>Decimal numerals\<close>

text \<open>
  \<open>str(n)\<close> of an integer, and \<open>int(s)\<close>: white space around the number is ignored, a sign is
  allowed and so is one underscore between two digits; \<open>None\<close> is the \<open>ValueError\<close>.
\<close>

definition is_digit :: "char \<Rightarrow> bool" where
  "is_digit c = (let n = (of_char c :: nat) in 48 \<le> n \<and> n \<le> 57)"

definition digit_val :: "char \<Rightarrow> nat" where
  "digit_val c = (of_char c :: nat) - 48"

definition digit_char :: "nat \<Rightarrow> char" where
  "digit_char n = char_of (n + 48)"

fun nat_str :: "nat \<Rightarrow> string" where
  "nat_str n = (if n < 10 then [digit_char n] else nat_str (n div 10) @ [digit_char (n mod 10)])"

declare nat_str.simps [simp del]

definition int_str :: "int \<Rightarrow> string" where
  "int_str i = (if i < 0 then CHR ''-'' # nat_str (nat (- i)) else nat_str (nat i))"

definition digits_val :: "string \<Rightarrow> nat" where
  "digits_val ds = foldl (\<lambda>a d. 10 * a + digit_val d) 0 ds"

fun drop_underscores :: "string \<Rightarrow> string option" where
  "drop_underscores [] = None"
| "drop_underscores [d] = (if is_digit d then Some [d] else None)"
| "drop_underscores (d # e # cs) =
     (if \<not> is_digit d then None
      else map_option ((#) d) (drop_underscores (if e = CHR ''_'' then cs else e # cs)))"

definition py_int :: "string \<Rightarrow> int option" where
  "py_int s =
     (case py_strip s of
        [] \<Rightarrow> None
      | c # cs \<Rightarrow>
          if c = CHR ''-'' then map_option (\<lambda>ds. - int (digits_val ds)) (drop_underscores cs)
          else if c = CHR ''+'' then map_option (\<lambda>ds. int (digits_val ds)) (drop_underscores cs)
          else map_option (\<lambda>ds. int (digits_val ds)) (drop_underscores (c # cs)))"

lemma of_char_digit_char: "n < 10 \<Longrightarrow> (of_char (digit_char n) :: nat) = n + 48"
  by (simp add: digit_char_def)

lemma digit_char_props [simp]:
  assumes "n < 10"
  shows "is_digit (digit_char n)" "digit_val (digit_char n) = n" "\<not> is_space (digit_char n)"
    "digit_char n \<noteq> CHR ''_''" "digit_char n \<noteq> CHR ''-''" "digit_char n \<noteq> CHR ''+''"
proof -
  show "is_digit (digit_char n)" "digit_val (digit_char n) = n" "\<not> is_space (digit_char n)"
    using assms by (simp_all add: is_digit_def digit_val_def is_space_def of_char_digit_char)
  have "(of_char (digit_char n) :: nat) \<noteq> of_char c" if "c \<in> {CHR ''_'', CHR ''-'', CHR ''+''}" for c
    using that assms by (auto simp: of_char_digit_char)
  then show "digit_char n \<noteq> CHR ''_''" "digit_char n \<noteq> CHR ''-''" "digit_char n \<noteq> CHR ''+''"
    by blast+
qed

lemma nat_str_nonempty [simp]: "nat_str n \<noteq> []"
  by (subst nat_str.simps) simp

lemma nat_str_digits: "c \<in> set (nat_str n) \<Longrightarrow> is_digit c"
  by (induction n rule: nat_str.induct) (subst (asm) (2) nat_str.simps, auto split: if_splits)

lemma digits_val_nat_str [simp]: "digits_val (nat_str n) = n"
proof (induction n rule: nat_str.induct)
  case (1 n)
  then show ?case
    by (subst nat_str.simps) (auto simp: digits_val_def)
qed

lemma is_digit_not: "is_digit c \<Longrightarrow> c \<noteq> CHR ''_'' \<and> c \<noteq> CHR ''-'' \<and> c \<noteq> CHR ''+'' \<and> \<not> is_space c"
  by (auto simp: is_digit_def is_space_def Let_def)

lemma drop_underscores_digits:
  "ds \<noteq> [] \<Longrightarrow> \<forall>d \<in> set ds. is_digit d \<Longrightarrow> drop_underscores ds = Some ds"
  by (induction ds rule: induct_list012) (auto dest: is_digit_not)

lemma is_space_minus: "\<not> is_space (CHR ''-'')"
  by (simp add: is_space_def)

lemma py_int_int_str [simp]: "py_int (int_str i) = Some i"
proof -
  have d: "drop_underscores (nat_str n) = Some (nat_str n)" for n
    by (rule drop_underscores_digits) (auto intro: nat_str_digits)
  have sp: "\<forall>c \<in> set (nat_str n). \<not> is_space c" for n
    by (auto dest!: nat_str_digits is_digit_not)
  show ?thesis
  proof (cases "i < 0")
    case True
    then have "py_strip (int_str i) = int_str i"
      by (intro py_strip_noop) (auto simp: int_str_def is_space_minus sp)
    with True show ?thesis by (simp add: py_int_def int_str_def d)
  next
    case False
    then have s: "int_str i = nat_str (nat i)" by (simp add: int_str_def)
    obtain c cs where c: "nat_str (nat i) = c # cs"
      using nat_str_nonempty by (metis list.exhaust)
    then have "is_digit c" using nat_str_digits by (metis list.set_intros(1))
    then have "c \<noteq> CHR ''-'' \<and> c \<noteq> CHR ''+''" by (auto dest: is_digit_not)
    moreover have "py_strip (int_str i) = c # cs"
      by (metis c py_strip_noop s sp)
    ultimately show ?thesis
      using d [of "nat i"] False digits_val_nat_str [of "nat i"] by (simp add: py_int_def c)
  qed
qed

lemma int_str_inj: "int_str i = int_str j \<Longrightarrow> i = j"
  by (metis option.inject py_int_int_str)

subsection \<open>Interface of an encoding\<close>

text \<open>
  What a client of a textual or numeric encoding relies on: on the values \<open>ok\<close> describes,
  decoding gives the value back.  The client lemmas say that encoded values can serve as keys.
\<close>

locale codec =
  fixes ok :: "'a \<Rightarrow> bool"
    and enc :: "'a \<Rightarrow> 'b"
    and dec :: "'b \<Rightarrow> 'a option"
  assumes dec_enc: "ok x \<Longrightarrow> dec (enc x) = Some x"
begin

lemma enc_eq_iff: "ok x \<Longrightarrow> ok y \<Longrightarrow> (enc x = enc y) = (x = y)"
  by (metis dec_enc option.inject)

lemma enc_inj_on: "inj_on enc {x. ok x}"
  by (auto intro!: inj_onI simp: enc_eq_iff)

lemma distinct_enc: "\<forall>x \<in> set xs. ok x \<Longrightarrow> distinct (map enc xs) = distinct xs"
  by (induction xs) (auto simp: enc_eq_iff)

lemma map_of_enc:
  "\<forall>p \<in> set ps. ok (fst p) \<Longrightarrow> ok k \<Longrightarrow> map_of (map (\<lambda>(x, v). (enc x, v)) ps) (enc k) = map_of ps k"
  by (induction ps) (auto simp: enc_eq_iff)

end

end
