(* ===== verification/Errors.thy ===== *)
theory Errors
  imports Prelude
begin

text \<open>
  The exceptions of the driver as values, and the two shapes a method of the source has in this
  development: a pure result \<open>exn + 'a\<close> (\<open>Inl\<close> is a raise) and a program \<open>('s, 'a) prog\<close> that
  reads and updates a state and returns or raises.

  \<open>array_error\<close> has the classes of \<open>array_action/errors.py\<close> with the arguments of their
  constructors, \<open>validation_msg\<close> the messages of \<open>servers/messages.py\<close> a \<open>ValidationException\<close>
  carries.  The text of an exception is a function of its constructor and arguments (theory \<open>Messages\<close>);
  a \<open>grpc\<close> reply carries the exception whose text it shows.  Exceptions of the
  third-party storage clients, and the other classes of Python, are \<open>Foreign cls msg\<close>, with the name of their
  class and their text; \<open>RequestError\<close> is the one of the SANtricity client, with its \<open>status_code\<close>.
\<close>

subsection \<open>Exceptions\<close>

datatype (plugins only: code) array_error =
    NoConnectionAvailableException string
  | StorageManagementIPsNotSupportError string
  | CredentialsError string
  | UnsupportedStorageVersionError string string
  | InvalidArgumentError string
  | ObjectNotFoundError string
  | VolumeNameBelongsToSnapshotError string string
  | VolumeCreationError string
  | VolumeDeletionError string
  | VolumeAlreadyInVolumeGroup string string
  | PoolDoesNotMatchSpaceEfficiency string string string
  | SpaceEfficiencyNotSupported string
  | SpaceEfficiencyMismatch string string
  | VolumeAlreadyExists string string
  | PoolDoesNotExist string string
  | PoolParameterIsMissing string
  | FailedToFindStorageSystemType string
  | PermissionDeniedError string
  | MultipleHostsFoundError "string list" "string list"
  | HostNotFoundError string
  | NoAvailableLunError string
  | LunAlreadyInUseError string string
  | MappingError string string string
  | VolumeAlreadyUnmappedError string
  | VolumeNotMappedToHostError string string
  | UnmappingError string string string
  | VolumeAlreadyMappedToDifferentHostsError "string list"
  | NoIscsiTargetsFoundError string
  | UnsupportedConnectivityTypeError string
  | ExpectedSnapshotButFoundVolumeError string string
  | SnapshotAlreadyExists string string
  | HostAlreadyExists string string
  | VolumeGroupAlreadyExists string string
  | NoPortFoundByConnectivityType "string list" string
  | SnapshotSourcePoolMismatch string string
  | ObjectIsStillInUseError string "string list"
  | InvalidCliResponseError string
  | NotEnoughSpaceInPool string
  | VirtSnapshotFunctionNotSupportedMessage string
  | NoPortIsValid string
  | IoGroupIsInValid string
  | UnSupportedParameter string
  | UnSupportedParameterThroughPartition string
  | CannotChangeHostProtocolBecauseOfMappedPorts string

datatype (plugins only: code) validation_msg =
    INVALID_SECRET_CONFIG
  | INSUFFICIENT_DATA_TO_CHOOSE_A_STORAGE_SYSTEM
  | NO_SYSTEM_MATCH_REQUESTED_TOPOLOGIES "(string \<times> string) list"
  | SECRET_MISSING_CONNECTION_INFO
  | SECRET_MISSING_TOPOLOGIES
  | INVALID_SYSTEM_ID string
  | INVALID_JSON_PARAMETER string
  | INVALID_REPLICATION_COPY_TYPE string
  | INVALID_EAR_PARAMETER string
  | SECRET_MISSING
  | CAPABILITIES_NOT_SET
  | UNSUPPORTED_FS_TYPE string
  | UNSUPPORTED_MOUNT_FLAGS
  | UNSUPPORTED_VOLUME_ACCESS_TYPE
  | UNSUPPORTED_REPLICATION_SOURCE_TYPE
  | UNSUPPORTED_ACCESS_MODE int
  | PARAMETER_SHOULD_NOT_BE_EMPTY string
  | VOLUME_ID_SHOULD_NOT_BE_EMPTY
  | SIZE_SHOULD_NOT_BE_NEGATIVE
  | NO_CAPACITY_RANGE
  | POOL_IS_MISSING
  | POOL_SHOULD_NOT_BE_EMPTY
  | WRONG_FORMAT string
  | READONLY_NOT_SUPPORTED
  | VOLUME_SOURCE_ID_IS_MISSING string
  | SNAPSHOT_SOURCE_VOLUME_ID_IS_MISSING
  | PARAMETER_LENGTH_IS_TOO_LONG string string int
  | VOLUME_CLONING_NOT_SUPPORTED
  | VOLUME_CONTEXT_NOT_MATCH_VOLUME "(string \<times> string) list" "(string \<times> string) list"
  | SPACE_EFFICIENCY_NOT_MATCH_VOLUME string "string list"
  | POOL_NOT_MATCH_VOLUME string string
  | PREFIX_NOT_MATCH_VOLUME string string
  | REQUIRED_BYTES_MISMATCH int int
  | UNSUPPORTED_STORAGECLASS_VOLUME_GROUP
  | VOLUME_PARTITION_MISMATCH string string string
  | VOLUME_GROUP_PARTITION_MISMATCH string string string
  | PARAMETER_SHOULD_BE_INTEGER string
  | PARAMETER_SHOULD_BE_GE string int
  | PARAMETER_SHOULD_BE_LE string int

datatype py_error =
    KeyError string | IndexError | TypeError | ValueError | AttributeError | RuntimeError
  | NotImplementedError | UnboundLocalError | StopIteration

datatype exn =
    ArrayErr array_error
  | ValidationException validation_msg
  | InvalidNodeId string
  | ObjectIdError string string
  | ObjectAlreadyProcessingError string
  | PyErr py_error
  | RequestError "int option" string
  | Foreign string string

text \<open>The name of the class of an error.\<close>

primrec error_class :: "array_error \<Rightarrow> string" where
  "error_class (NoConnectionAvailableException a) = ''NoConnectionAvailableException''"
| "error_class (StorageManagementIPsNotSupportError a) = ''StorageManagementIPsNotSupportError''"
| "error_class (CredentialsError a) = ''CredentialsError''"
| "error_class (UnsupportedStorageVersionError a b) = ''UnsupportedStorageVersionError''"
| "error_class (InvalidArgumentError a) = ''InvalidArgumentError''"
| "error_class (ObjectNotFoundError a) = ''ObjectNotFoundError''"
| "error_class (VolumeNameBelongsToSnapshotError a b) = ''VolumeNameBelongsToSnapshotError''"
| "error_class (VolumeCreationError a) = ''VolumeCreationError''"
| "error_class (VolumeDeletionError a) = ''VolumeDeletionError''"
| "error_class (VolumeAlreadyInVolumeGroup a b) = ''VolumeAlreadyInVolumeGroup''"
| "error_class (PoolDoesNotMatchSpaceEfficiency a b c) = ''PoolDoesNotMatchSpaceEfficiency''"
| "error_class (SpaceEfficiencyNotSupported a) = ''SpaceEfficiencyNotSupported''"
| "error_class (SpaceEfficiencyMismatch a b) = ''SpaceEfficiencyMismatch''"
| "error_class (VolumeAlreadyExists a b) = ''VolumeAlreadyExists''"
| "error_class (PoolDoesNotExist a b) = ''PoolDoesNotExist''"
| "error_class (PoolParameterIsMissing a) = ''PoolParameterIsMissing''"
| "error_class (FailedToFindStorageSystemType a) = ''FailedToFindStorageSystemType''"
| "error_class (PermissionDeniedError a) = ''PermissionDeniedError''"
| "error_class (MultipleHostsFoundError a b) = ''MultipleHostsFoundError''"
| "error_class (HostNotFoundError a) = ''HostNotFoundError''"
| "error_class (NoAvailableLunError a) = ''NoAvailableLunError''"
| "error_class (LunAlreadyInUseError a b) = ''LunAlreadyInUseError''"
| "error_class (MappingError a b c) = ''MappingError''"
| "error_class (VolumeAlreadyUnmappedError a) = ''VolumeAlreadyUnmappedError''"
| "error_class (VolumeNotMappedToHostError a b) = ''VolumeNotMappedToHostError''"
| "error_class (UnmappingError a b c) = ''UnmappingError''"
| "error_class (VolumeAlreadyMappedToDifferentHostsError a) = ''VolumeAlreadyMappedToDifferentHostsError''"
| "error_class (NoIscsiTargetsFoundError a) = ''NoIscsiTargetsFoundError''"
| "error_class (UnsupportedConnectivityTypeError a) = ''UnsupportedConnectivityTypeError''"
| "error_class (ExpectedSnapshotButFoundVolumeError a b) = ''ExpectedSnapshotButFoundVolumeError''"
| "error_class (SnapshotAlreadyExists a b) = ''SnapshotAlreadyExists''"
| "error_class (HostAlreadyExists a b) = ''HostAlreadyExists''"
| "error_class (VolumeGroupAlreadyExists a b) = ''VolumeGroupAlreadyExists''"
| "error_class (NoPortFoundByConnectivityType a b) = ''NoPortFoundByConnectivityType''"
| "error_class (SnapshotSourcePoolMismatch a b) = ''SnapshotSourcePoolMismatch''"
| "error_class (ObjectIsStillInUseError a b) = ''ObjectIsStillInUseError''"
| "error_class (InvalidCliResponseError a) = ''InvalidCliResponseError''"
| "error_class (NotEnoughSpaceInPool a) = ''NotEnoughSpaceInPool''"
| "error_class (VirtSnapshotFunctionNotSupportedMessage a) = ''VirtSnapshotFunctionNotSupportedMessage''"
| "error_class (NoPortIsValid a) = ''NoPortIsValid''"
| "error_class (IoGroupIsInValid a) = ''IoGroupIsInValid''"
| "error_class (UnSupportedParameter a) = ''UnSupportedParameter''"
| "error_class (UnSupportedParameterThroughPartition a) = ''UnSupportedParameterThroughPartition''"
| "error_class (CannotChangeHostProtocolBecauseOfMappedPorts a) = ''CannotChangeHostProtocolBecauseOfMappedPorts''"

text \<open>\<open>isinstance(ex, errors.C)\<close> for a class \<open>C\<close> of the storage errors that has no subclass.\<close>

definition isa :: "string \<Rightarrow> exn \<Rightarrow> bool" where
  "isa C e = (case e of ArrayErr a \<Rightarrow> error_class a = C | _ \<Rightarrow> False)"

lemma isa_simps [simp]:
  "isa C (ArrayErr a) = (error_class a = C)" "isa C (ValidationException v) = False"
  "isa C (PyErr p) = False" "isa C (ObjectIdError t i) = False" "isa C (InvalidNodeId n) = False"
  "isa C (ObjectAlreadyProcessingError i) = False" "isa C (RequestError st msg) = False"
  "isa C (Foreign cls msg) = False"
  by (simp_all add: isa_def)

lemma array_error_class_connection:
  "error_class a = ''NoConnectionAvailableException'' \<Longrightarrow> \<exists>n. a = NoConnectionAvailableException n"
  by (cases a) simp_all

text \<open>
  \<open>isinstance(ex, InvalidArgumentError)\<close>: \<open>except InvalidArgumentError\<close> also catches its
  subclasses, while a dictionary indexed by \<open>type(ex)\<close> does not.
\<close>

definition is_InvalidArgumentError :: "exn \<Rightarrow> bool" where
  "is_InvalidArgumentError e =
     list_ex (\<lambda>C. isa C e)
       [''InvalidArgumentError'', ''PoolDoesNotMatchSpaceEfficiency'', ''SpaceEfficiencyNotSupported'',
        ''PoolDoesNotExist'', ''PoolParameterIsMissing'', ''UnsupportedConnectivityTypeError'',
        ''ExpectedSnapshotButFoundVolumeError'']"

end
