(* ===== verification/Prog.thy ===== *)
theory Prog
  imports Errors
begin

text \<open>
  The control structure of the methods: sequencing that stops at the first raise, \<open>try/except\<close>,
  \<open>try/finally\<close> and \<open>with\<close>, loops over lists.  \<open>exn + 'a\<close> is a method without effects,
  \<open>('s, 'a) prog\<close> one that reads and updates the state \<open>'s\<close>; a raise keeps the effects made
  before it.
\<close>

subsection \<open>Pure results\<close>

named_theorems inr_elims \<open>taking apart a computation that returned\<close>

definition bindR :: "exn + 'a \<Rightarrow> ('a \<Rightarrow> exn + 'b) \<Rightarrow> exn + 'b" where
  "bindR m f = (case m of Inl e \<Rightarrow> Inl e | Inr x \<Rightarrow> f x)"

definition thenR :: "exn + 'a \<Rightarrow> exn + 'b \<Rightarrow> exn + 'b" where
  "thenR m k = bindR m (\<lambda>_. k)"

definition raise_if :: "bool \<Rightarrow> exn \<Rightarrow> exn + unit" where
  "raise_if b e = (if b then Inl e else Inr ())"

definition catchR :: "exn + 'a \<Rightarrow> (exn \<Rightarrow> exn + 'a) \<Rightarrow> exn + 'a" where
  "catchR m h = (case m of Inl e \<Rightarrow> h e | Inr x \<Rightarrow> Inr x)"

lemma bindR_simps [simp]:
  "bindR (Inl e) f = Inl e"
  "bindR (Inr x) f = f x"
  by (simp_all add: bindR_def)

lemma thenR_simps [simp]:
  "thenR (Inl e) k = Inl e"
  "thenR (Inr x) k = k"
  by (simp_all add: thenR_def)

lemma raise_if_simps [simp]:
  "raise_if True e = Inl e"
  "raise_if False e = Inr ()"
  by (simp_all add: raise_if_def)

lemma catchR_simps [simp]:
  "catchR (Inl e) h = h e"
  "catchR (Inr x) h = Inr x"
  by (simp_all add: catchR_def)

lemma bindR_Inr_iff: "(bindR m f = Inr y) = (\<exists>x. m = Inr x \<and> f x = Inr y)"
  by (cases m) auto

lemma bindR_InrE [inr_elims]:
  assumes "bindR m f = Inr y"
  obtains x where "m = Inr x" "f x = Inr y"
  using assms by (auto simp: bindR_Inr_iff)

lemma if_InrE [inr_elims]:
  assumes "(if b then m else k) = Inr y"
  obtains "b" "m = Inr y" | "\<not> b" "k = Inr y"
  using assms by (auto split: if_splits)

lemma thenR_Inr_iff: "(thenR m k = Inr y) = ((\<exists>x. m = Inr x) \<and> k = Inr y)"
  by (cases m) auto

lemma bindR_Inl_iff: "(bindR m f = Inl e) = (m = Inl e \<or> (\<exists>x. m = Inr x \<and> f x = Inl e))"
  by (cases m) auto

lemma thenR_Inl_iff: "(thenR m k = Inl e) = (m = Inl e \<or> (\<exists>x. m = Inr x) \<and> k = Inl e)"
  by (cases m) auto

lemma raise_if_Inr_iff [simp]: "(raise_if b e = Inr u) = (\<not> b)"
  by (simp add: raise_if_def)

lemma raise_if_Inl_iff [simp]: "(raise_if b e = Inl e') = (b \<and> e' = e)"
  by (auto simp: raise_if_def)

text \<open>\<open>for x in xs: f(x)\<close>, with no result.\<close>

fun forR :: "('a \<Rightarrow> exn + unit) \<Rightarrow> 'a list \<Rightarrow> exn + unit" where
  "forR f [] = Inr ()"
| "forR f (x # xs) = thenR (f x) (forR f xs)"

lemma forR_Inr_iff: "(forR f xs = Inr ()) = (\<forall>x \<in> set xs. f x = Inr ())"
  by (induction xs) (auto simp: thenR_Inr_iff)

text \<open>\<open>[f(x) for x in xs]\<close> when \<open>f\<close> may raise.\<close>

fun mapR :: "('a \<Rightarrow> exn + 'b) \<Rightarrow> 'a list \<Rightarrow> exn + 'b list" where
  "mapR f [] = Inr []"
| "mapR f (x # xs) = bindR (f x) (\<lambda>y. bindR (mapR f xs) (\<lambda>ys. Inr (y # ys)))"

lemma mapR_Inr [simp]: "mapR (\<lambda>x. Inr (f x)) xs = Inr (map f xs)"
  by (induction xs) auto

lemma mapR_cong_Inr: "(\<And>x. x \<in> set xs \<Longrightarrow> f x = Inr (g x)) \<Longrightarrow> mapR f xs = Inr (map g xs)"
  by (induction xs) auto

lemma mapR_length: "mapR f xs = Inr ys \<Longrightarrow> length ys = length xs"
  by (induction xs arbitrary: ys) (auto simp: bindR_Inr_iff)

subsection \<open>Programs with a state\<close>

type_synonym ('s, 'a) prog = "'s \<Rightarrow> (exn + 'a) \<times> 's"

definition ret :: "'a \<Rightarrow> ('s, 'a) prog" where
  "ret x = (\<lambda>s. (Inr x, s))"

definition raiseE :: "exn \<Rightarrow> ('s, 'a) prog" where
  "raiseE e = (\<lambda>s. (Inl e, s))"

definition bindE :: "('s, 'a) prog \<Rightarrow> ('a \<Rightarrow> ('s, 'b) prog) \<Rightarrow> ('s, 'b) prog" where
  "bindE m f = (\<lambda>s. case m s of (Inl e, s') \<Rightarrow> (Inl e, s') | (Inr x, s') \<Rightarrow> f x s')"

definition thenE :: "('s, 'a) prog \<Rightarrow> ('s, 'b) prog \<Rightarrow> ('s, 'b) prog" where
  "thenE m k = bindE m (\<lambda>_. k)"

definition catchE :: "('s, 'a) prog \<Rightarrow> (exn \<Rightarrow> ('s, 'a) prog) \<Rightarrow> ('s, 'a) prog" where
  "catchE m h = (\<lambda>s. case m s of (Inl e, s') \<Rightarrow> h e s' | (Inr x, s') \<Rightarrow> (Inr x, s'))"

text \<open>\<open>try: x = m  except: h  else: k\<close>, where the handler does not cover the \<open>else\<close> branch.\<close>

definition tryE :: "('s, 'a) prog \<Rightarrow> (exn \<Rightarrow> ('s, 'b) prog) \<Rightarrow> ('a \<Rightarrow> ('s, 'b) prog) \<Rightarrow> ('s, 'b) prog" where
  "tryE m h k = (\<lambda>s. case m s of (Inl e, s') \<Rightarrow> h e s' | (Inr x, s') \<Rightarrow> k x s')"

definition finallyE :: "('s, 'a) prog \<Rightarrow> ('s \<Rightarrow> 's) \<Rightarrow> ('s, 'a) prog" where
  "finallyE m f = (\<lambda>s. case m s of (r, s') \<Rightarrow> (r, f s'))"

definition liftR :: "exn + 'a \<Rightarrow> ('s, 'a) prog" where
  "liftR r = (\<lambda>s. (r, s))"

definition getS :: "('s \<Rightarrow> 'a) \<Rightarrow> ('s, 'a) prog" where
  "getS f = (\<lambda>s. (Inr (f s), s))"

definition modifyS :: "('s \<Rightarrow> 's) \<Rightarrow> ('s, unit) prog" where
  "modifyS f = (\<lambda>s. (Inr (), f s))"

definition whenE :: "bool \<Rightarrow> ('s, unit) prog \<Rightarrow> ('s, unit) prog" where
  "whenE b m = (if b then m else ret ())"

lemma bindE_cases:
  "bindE m f s = (case m s of (Inl e, s') \<Rightarrow> (Inl e, s') | (Inr x, s') \<Rightarrow> f x s')"
  by (simp add: bindE_def)

lemma prog_run [prog_simps]:
  "ret x s = (Inr x, s)"
  "raiseE e s = (Inl e, s)"
  "liftR r s = (r, s)"
  "getS g s = (Inr (g s), s)"
  "modifyS h s = (Inr (), h s)"
  by (simp_all add: ret_def raiseE_def liftR_def getS_def modifyS_def)

lemmas prog_defs = bindE_def thenE_def catchE_def tryE_def finallyE_def whenE_def

lemma bindE_ret [simp]: "bindE (ret x) f = f x"
  by (simp add: bindE_def ret_def)

lemma bindE_raise [simp]: "bindE (raiseE e) f = raiseE e"
  by (simp add: bindE_def raiseE_def)

lemma thenE_ret [simp]: "thenE (ret x) k = k"
  by (simp add: thenE_def)

lemma thenE_raise [simp]: "thenE (raiseE e) k = raiseE e"
  by (simp add: thenE_def)

lemma catchE_ret [simp]: "catchE (ret x) h = ret x"
  by (simp add: catchE_def ret_def)

lemma catchE_raise [simp]: "catchE (raiseE e) h = h e"
  by (simp add: catchE_def raiseE_def)

lemma liftR_Inr [simp]: "liftR (Inr x) = ret x"
  by (simp add: liftR_def ret_def)

lemma liftR_Inl [simp]: "liftR (Inl e) = raiseE e"
  by (simp add: liftR_def raiseE_def)

lemma whenE_simps [simp]:
  "whenE True m = m"
  "whenE False m = ret ()"
  by (simp_all add: whenE_def)

lemma bindE_assoc: "bindE (bindE m f) g = bindE m (\<lambda>x. bindE (f x) g)"
  by (auto simp: bindE_def fun_eq_iff split: prod.splits sum.splits)

lemma bindE_run:
  "m s = (Inr x, s') \<Longrightarrow> bindE m f s = f x s'"
  "m s = (Inl e, s') \<Longrightarrow> bindE m f s = (Inl e, s')"
  by (simp_all add: bindE_def)

lemma thenE_run:
  "m s = (Inr x, s') \<Longrightarrow> thenE m k s = k s'"
  "m s = (Inl e, s') \<Longrightarrow> thenE m k s = (Inl e, s')"
  by (simp_all add: thenE_def bindE_def)

lemma catchE_run:
  "m s = (Inr x, s') \<Longrightarrow> catchE m h s = (Inr x, s')"
  "m s = (Inl e, s') \<Longrightarrow> catchE m h s = h e s'"
  by (simp_all add: catchE_def)

lemma bindE_InrE:
  assumes "bindE m f s = (Inr y, t)"
  obtains x s' where "m s = (Inr x, s')" "f x s' = (Inr y, t)"
  using assms by (auto simp: bindE_def split: prod.splits sum.splits)

lemma thenE_InrE:
  assumes "thenE m k s = (Inr y, t)"
  obtains x s' where "m s = (Inr x, s')" "k s' = (Inr y, t)"
  using assms by (auto simp: thenE_def elim: bindE_InrE)

subsection \<open>Loops over lists\<close>

fun forE :: "('a \<Rightarrow> ('s, unit) prog) \<Rightarrow> 'a list \<Rightarrow> ('s, unit) prog" where
  "forE f [] = ret ()"
| "forE f (x # xs) = thenE (f x) (forE f xs)"

fun mapE :: "('a \<Rightarrow> ('s, 'b) prog) \<Rightarrow> 'a list \<Rightarrow> ('s, 'b list) prog" where
  "mapE f [] = ret []"
| "mapE f (x # xs) = bindE (f x) (\<lambda>y. bindE (mapE f xs) (\<lambda>ys. ret (y # ys)))"

subsection \<open>Programs that keep a predicate of the state\<close>

text \<open>
  \<open>keeps P m\<close>: whatever \<open>m\<close> returns or raises, it keeps \<open>P\<close>.  The rules follow the
  combinators, so that an invariant of a component is proved by applying them to its methods.
\<close>

definition keeps :: "('s \<Rightarrow> bool) \<Rightarrow> ('s, 'a) prog \<Rightarrow> bool" where
  "keeps P m = (\<forall>s. P s \<longrightarrow> P (snd (m s)))"

named_theorems keeps_intros \<open>rules that a program keeps a predicate of the state\<close>

lemma keepsD: "keeps P m \<Longrightarrow> P s \<Longrightarrow> P (snd (m s))"
  by (simp add: keeps_def)

lemma keeps_run: "keeps P m \<Longrightarrow> P s \<Longrightarrow> m s = (r, s') \<Longrightarrow> P s'"
  by (metis keepsD snd_conv)

lemma keeps_ret [keeps_intros]: "keeps P (ret x)"
  by (simp add: keeps_def ret_def)

lemma keeps_raise [keeps_intros]: "keeps P (raiseE e)"
  by (simp add: keeps_def raiseE_def)

lemma keeps_liftR [keeps_intros]: "keeps P (liftR r)"
  by (simp add: keeps_def liftR_def)

lemma keeps_getS [keeps_intros]: "keeps P (getS g)"
  by (simp add: keeps_def getS_def)

lemma keeps_modifyS: "(\<And>s. P s \<Longrightarrow> P (g s)) \<Longrightarrow> keeps P (modifyS g)"
  by (simp add: keeps_def modifyS_def)

lemma keeps_bind [keeps_intros]: "keeps P m \<Longrightarrow> (\<And>x. keeps P (f x)) \<Longrightarrow> keeps P (bindE m f)"
  by (auto simp: keeps_def bindE_def split: prod.splits sum.splits)

lemma keeps_then [keeps_intros]: "keeps P m \<Longrightarrow> keeps P k \<Longrightarrow> keeps P (thenE m k)"
  by (simp add: thenE_def keeps_bind)

lemma keeps_catch [keeps_intros]: "keeps P m \<Longrightarrow> (\<And>e. keeps P (h e)) \<Longrightarrow> keeps P (catchE m h)"
  by (auto simp: keeps_def catchE_def split: prod.splits sum.splits)

lemma keeps_try [keeps_intros]:
  "keeps P m \<Longrightarrow> (\<And>e. keeps P (h e)) \<Longrightarrow> (\<And>x. keeps P (k x)) \<Longrightarrow> keeps P (tryE m h k)"
  by (auto simp: keeps_def tryE_def split: prod.splits sum.splits)

lemma keeps_when [keeps_intros]: "keeps P m \<Longrightarrow> keeps P (whenE b m)"
  by (simp add: whenE_def keeps_ret)

lemma keeps_if [keeps_intros]: "keeps P m \<Longrightarrow> keeps P k \<Longrightarrow> keeps P (if b then m else k)"
  by simp

lemma keeps_case_option [keeps_intros]:
  "keeps P m \<Longrightarrow> (\<And>x. keeps P (f x)) \<Longrightarrow> keeps P (case opt of None \<Rightarrow> m | Some x \<Rightarrow> f x)"
  by (cases opt) auto

lemma keeps_forE [keeps_intros]: "(\<And>x. keeps P (f x)) \<Longrightarrow> keeps P (forE f xs)"
  by (induction xs) (auto intro: keeps_intros)

lemma keeps_mapE [keeps_intros]: "(\<And>x. keeps P (f x)) \<Longrightarrow> keeps P (mapE f xs)"
  by (induction xs) (auto intro!: keeps_intros)

end
