(* ===== verification/Json.thy ===== *)
theory Json
  imports Prog
begin

text \<open>
  The part of Python's \<open>json\<close> module the driver uses: \<open>loads\<close> and \<open>dumps\<close>.  Strings hold
  characters below 256, so an escape above that range does not parse here; a number with a
  fraction or an exponent keeps its literal (\<open>JFloat\<close>).  The parser carries fuel, and
  \<open>parse_stable\<close> shows that what \<open>json_loads\<close> gives it is always enough.
\<close>

datatype json =
    JNull | JBool bool | JInt int | JFloat string | JStr string
  | JArr "json list" | JObj "(string \<times> json) list"

subsection \<open>Writing\<close>

definition hex_digit :: "nat \<Rightarrow> char" where
  "hex_digit n = (if n < 10 then digit_char n else char_of (n + 87))"

definition esc_char :: "char \<Rightarrow> string" where
  "esc_char c =
     (if c = CHR 0x22 then [CHR 0x5C, CHR 0x22]
      else if c = CHR 0x5C then [CHR 0x5C, CHR 0x5C]
      else if c = CHR 0x0A then [CHR 0x5C, CHR ''n'']
      else if c = CHR 0x0D then [CHR 0x5C, CHR ''r'']
      else if c = CHR 0x09 then [CHR 0x5C, CHR ''t'']
      else if c = CHR 0x0C then [CHR 0x5C, CHR ''f'']
      else if c = CHR 0x08 then [CHR 0x5C, CHR ''b'']
      else if 32 \<le> (of_char c :: nat) \<and> (of_char c :: nat) < 127 then [c]
      else [CHR 0x5C, CHR ''u'', CHR ''0'', CHR ''0'',
            hex_digit (of_char c div 16), hex_digit (of_char c mod 16)])"

fun esc_str :: "string \<Rightarrow> string" where
  "esc_str [] = []"
| "esc_str (c # cs) = esc_char c @ esc_str cs"

definition quoted :: "string \<Rightarrow> string" where
  "quoted s = CHR 0x22 # esc_str s @ [CHR 0x22]"

text \<open>\<open>dumps\<close>: \<open>sp\<close> is what follows a comma or a colon (\<open>'' ''\<close> by default, nothing for
  \<open>separators=(',', ':')\<close>).\<close>

fun dumps_with :: "string \<Rightarrow> json \<Rightarrow> string"
  and dumps_list :: "string \<Rightarrow> json list \<Rightarrow> string"
  and dumps_members :: "string \<Rightarrow> (string \<times> json) list \<Rightarrow> string" where
  "dumps_with sp JNull = ''null''"
| "dumps_with sp (JBool b) = (if b then ''true'' else ''false'')"
| "dumps_with sp (JInt i) = int_str i"
| "dumps_with sp (JFloat r) = r"
| "dumps_with sp (JStr s) = quoted s"
| "dumps_with sp (JArr vs) = CHR ''['' # dumps_list sp vs"
| "dumps_with sp (JObj ms) = CHR 0x7B # dumps_members sp ms"
| "dumps_list sp [] = '']''"
| "dumps_list sp [v] = dumps_with sp v @ '']''"
| "dumps_list sp (v # w # vs) = dumps_with sp v @ CHR '','' # sp @ dumps_list sp (w # vs)"
| "dumps_members sp [] = [CHR 0x7D]"
| "dumps_members sp [(k, v)] = quoted k @ CHR '':'' # sp @ dumps_with sp v @ [CHR 0x7D]"
| "dumps_members sp ((k, v) # m # ms) =
     quoted k @ CHR '':'' # sp @ dumps_with sp v @ CHR '','' # sp @ dumps_members sp (m # ms)"

definition json_dumps :: "json \<Rightarrow> string" where
  "json_dumps v = dumps_with '' '' v"

definition json_dumps_compact :: "json \<Rightarrow> string" where
  "json_dumps_compact v = dumps_with [] v"

subsection \<open>Reading\<close>

definition is_ws :: "char \<Rightarrow> bool" where
  "is_ws c = (c = CHR '' '' \<or> c = CHR 0x0A \<or> c = CHR 0x0D \<or> c = CHR 0x09)"

definition skip_ws :: "string \<Rightarrow> string" where
  "skip_ws s = dropWhile is_ws s"

definition hex_val :: "char \<Rightarrow> nat option" where
  "hex_val c =
     (let n = (of_char c :: nat) in
      if 48 \<le> n \<and> n \<le> 57 then Some (n - 48)
      else if 97 \<le> n \<and> n \<le> 102 then Some (n - 87)
      else if 65 \<le> n \<and> n \<le> 70 then Some (n - 55) else None)"

definition hex4 :: "char \<Rightarrow> char \<Rightarrow> char \<Rightarrow> char \<Rightarrow> char option" where
  "hex4 a b c d =
     (case (hex_val a, hex_val b, hex_val c, hex_val d) of
        (Some w, Some x, Some y, Some z) \<Rightarrow>
          (if w = 0 \<and> x = 0 then Some (char_of (16 * y + z)) else None)
      | _ \<Rightarrow> None)"

definition unescape :: "char \<Rightarrow> char option" where
  "unescape e =
     (if e = CHR 0x22 then Some (CHR 0x22)
      else if e = CHR 0x5C then Some (CHR 0x5C)
      else if e = CHR ''/'' then Some (CHR ''/'')
      else if e = CHR ''b'' then Some (CHR 0x08)
      else if e = CHR ''f'' then Some (CHR 0x0C)
      else if e = CHR ''n'' then Some (CHR 0x0A)
      else if e = CHR ''r'' then Some (CHR 0x0D)
      else if e = CHR ''t'' then Some (CHR 0x09) else None)"

definition cons_to :: "'a \<Rightarrow> ('a list \<times> 'b) option \<Rightarrow> ('a list \<times> 'b) option" where
  "cons_to x r = (case r of None \<Rightarrow> None | Some (xs, t) \<Rightarrow> Some (x # xs, t))"

fun scan_str :: "string \<Rightarrow> (string \<times> string) option" where
  "scan_str [] = None"
| "scan_str [c] = (if c = CHR 0x22 then Some ([], []) else None)"
| "scan_str (c # e # r) =
     (if c = CHR 0x22 then Some ([], e # r)
      else if c = CHR 0x5C then
        (if e = CHR ''u'' then
           (case r of h1 # h2 # h3 # h4 # r' \<Rightarrow>
              (case hex4 h1 h2 h3 h4 of None \<Rightarrow> None | Some x \<Rightarrow> cons_to x (scan_str r'))
            | _ \<Rightarrow> None)
         else (case unescape e of None \<Rightarrow> None | Some x \<Rightarrow> cons_to x (scan_str r)))
      else if (of_char c :: nat) < 32 then None
      else cons_to c (scan_str (e # r)))"

definition scan_frac :: "string \<Rightarrow> string \<times> string" where
  "scan_frac s =
     (case s of d # e # r \<Rightarrow>
        (if d = CHR ''.'' \<and> is_digit e
         then (d # takeWhile is_digit (e # r), dropWhile is_digit (e # r)) else ([], s))
      | _ \<Rightarrow> ([], s))"

definition scan_exp :: "string \<Rightarrow> string \<times> string" where
  "scan_exp s =
     (case s of x # r \<Rightarrow>
        (if x = CHR ''e'' \<or> x = CHR ''E'' then
           (let (sg, r') = (case r of g # t \<Rightarrow> if g = CHR ''+'' \<or> g = CHR ''-'' then ([g], t) else ([], r)
                            | [] \<Rightarrow> ([], r))
            in if takeWhile is_digit r' = [] then ([], s)
               else (x # sg @ takeWhile is_digit r', dropWhile is_digit r'))
         else ([], s))
      | [] \<Rightarrow> ([], s))"

definition scan_number :: "string \<Rightarrow> (json \<times> string) option" where
  "scan_number s =
     (let (sg, t) = (case s of c # r \<Rightarrow> if c = CHR ''-'' then ([c], r) else ([], s) | [] \<Rightarrow> ([], s))
      in case t of
           [] \<Rightarrow> None
         | c # r \<Rightarrow>
             if \<not> is_digit c then None
             else let (ip, u) = (if c = CHR ''0'' then ([c], r)
                                 else (takeWhile is_digit (c # r), dropWhile is_digit (c # r)));
                      (fr, v) = scan_frac u;
                      (ex, w) = scan_exp v
                  in if fr = [] \<and> ex = []
                     then Some (JInt (if sg = [] then int (digits_val ip) else - int (digits_val ip)), w)
                     else Some (JFloat (sg @ ip @ fr @ ex), w))"

definition scan_literal :: "string \<Rightarrow> (json \<times> string) option" where
  "scan_literal s =
     (if py_startswith s ''null'' then Some (JNull, drop 4 s)
      else if py_startswith s ''true'' then Some (JBool True, drop 4 s)
      else if py_startswith s ''false'' then Some (JBool False, drop 5 s)
      else if py_startswith s ''NaN'' then Some (JFloat ''nan'', drop 3 s)
      else if py_startswith s ''Infinity'' then Some (JFloat ''inf'', drop 8 s)
      else if py_startswith s ''-Infinity'' then Some (JFloat ''-inf'', drop 9 s)
      else scan_number s)"

text \<open>\<open>dict(pairs)\<close>: a later value replaces the one of an equal key, in its place.\<close>

definition dict_of_pairs :: "(string \<times> 'v) list \<Rightarrow> (string \<times> 'v) list" where
  "dict_of_pairs ps = foldl (\<lambda>d (k, v). AList.update k v d) [] ps"

fun parse_value :: "nat \<Rightarrow> string \<Rightarrow> (json \<times> string) option"
  and parse_elems :: "nat \<Rightarrow> string \<Rightarrow> (json list \<times> string) option"
  and parse_members :: "nat \<Rightarrow> string \<Rightarrow> ((string \<times> json) list \<times> string) option" where
  "parse_value 0 s = None"
| "parse_value (Suc n) s =
     (case s of
        [] \<Rightarrow> None
      | c # cs \<Rightarrow>
          if c = CHR 0x22 then map_option (\<lambda>(x, r). (JStr x, r)) (scan_str cs)
          else if c = CHR ''['' then
            (if skip_ws cs \<noteq> [] \<and> hd (skip_ws cs) = CHR '']'' then Some (JArr [], tl (skip_ws cs))
             else map_option (\<lambda>(vs, r). (JArr vs, r)) (parse_elems n (skip_ws cs)))
          else if c = CHR 0x7B then
            (if skip_ws cs \<noteq> [] \<and> hd (skip_ws cs) = CHR 0x7D then Some (JObj [], tl (skip_ws cs))
             else map_option (\<lambda>(ms, r). (JObj (dict_of_pairs ms), r)) (parse_members n (skip_ws cs)))
          else scan_literal s)"
| "parse_elems 0 s = None"
| "parse_elems (Suc n) s =
     (case parse_value n s of
        None \<Rightarrow> None
      | Some (v, r) \<Rightarrow>
          (case skip_ws r of
             [] \<Rightarrow> None
           | d # r' \<Rightarrow>
               if d = CHR '']'' then Some ([v], r')
               else if d = CHR '','' then cons_to v (parse_elems n (skip_ws r'))
               else None))"
| "parse_members 0 s = None"
| "parse_members (Suc n) s =
     (case s of
        [] \<Rightarrow> None
      | q # cs \<Rightarrow>
          if q \<noteq> CHR 0x22 then None
          else (case scan_str cs of
             None \<Rightarrow> None
           | Some (k, r) \<Rightarrow>
               (case skip_ws r of
                  [] \<Rightarrow> None
                | d # r' \<Rightarrow>
                    if d \<noteq> CHR '':'' then None
                    else (case parse_value n (skip_ws r') of
                       None \<Rightarrow> None
                     | Some (v, t) \<Rightarrow>
                         (case skip_ws t of
                            [] \<Rightarrow> None
                          | e # t' \<Rightarrow>
                              if e = CHR 0x7D then Some ([(k, v)], t')
                              else if e = CHR '','' then cons_to (k, v) (parse_members n (skip_ws t'))
                              else None)))))"

definition json_loads :: "string \<Rightarrow> json option" where
  "json_loads s =
     (case parse_value (2 * length s + 2) (skip_ws s) of
        None \<Rightarrow> None
      | Some (v, r) \<Rightarrow> if skip_ws r = [] then Some v else None)"

subsection \<open>Reading back what was written\<close>

text \<open>The values \<open>dumps\<close> is applied to: no floats, and the keys of an object are distinct.\<close>

fun json_ok :: "json \<Rightarrow> bool" where
  "json_ok (JFloat r) = False"
| "json_ok (JArr vs) = (\<forall>v \<in> set vs. json_ok v)"
| "json_ok (JObj ms) = (distinct (map fst ms) \<and> (\<forall>m \<in> set ms. json_ok (snd m)))"
| "json_ok _ = True"

lemma hex_val_hex_digit: "n < 16 \<Longrightarrow> hex_val (hex_digit n) = Some n"
  by (auto simp: hex_val_def hex_digit_def digit_char_def Let_def)

lemma of_char_lt: "(of_char (c::char) :: nat) < 256"
  by (metis UNIV_I atLeastLessThan_iff range_nat_of_char rangeI)

lemma hex4_code:
  "hex4 (CHR ''0'') (CHR ''0'') (hex_digit (of_char c div 16)) (hex_digit (of_char c mod 16)) = Some c"
proof -
  have "(of_char c :: nat) div 16 < 16" using of_char_lt [of c] by (intro less_mult_imp_div_less) simp
  then show ?thesis
    by (simp add: hex4_def hex_val_hex_digit) (simp add: hex_val_def)
qed

lemma scan_esc_char: "t \<noteq> [] \<Longrightarrow> scan_str (esc_char c @ t) = cons_to c (scan_str t)"
  by (cases t) (auto simp: esc_char_def unescape_def hex4_code)

lemma scan_esc_str [simp]: "scan_str (esc_str s @ CHR 0x22 # r) = Some (s, r)"
proof (induction s)
  case Nil
  then show ?case by (cases r) auto
next
  case (Cons c cs)
  then show ?case by (simp add: scan_esc_char cons_to_def)
qed

definition delim :: "string \<Rightarrow> bool" where
  "delim r = (r = [] \<or> hd r \<in> {CHR '','', CHR '']'', CHR 0x7D})"

lemma delim_simps [simp]:
  "delim []" "delim (CHR '','' # r)" "delim (CHR '']'' # r)" "delim (CHR 0x7D # r)"
  by (simp_all add: delim_def)

lemma delim_not_digit: "delim r \<Longrightarrow> takeWhile is_digit r = [] \<and> dropWhile is_digit r = r"
  by (cases r) (auto simp: delim_def is_digit_def)

lemma delim_scan: "delim r \<Longrightarrow> scan_frac r = ([], r) \<and> scan_exp r = ([], r)"
  by (auto simp: delim_def scan_frac_def scan_exp_def split: list.splits)

lemma nat_str_hd: "0 < n \<Longrightarrow> hd (nat_str n) \<noteq> CHR ''0''"
proof (induction n rule: nat_str.induct)
  case (1 n)
  show ?case
  proof (cases "n < 10")
    case True
    then have "(of_char (digit_char n) :: nat) \<noteq> of_char (CHR ''0'')"
      using 1(2) by (simp add: of_char_digit_char)
    then have "digit_char n \<noteq> CHR ''0''" by (rule contrapos_nn) (rule arg_cong)
    with True show ?thesis by (simp add: nat_str.simps [of n])
  next
    case False
    with 1 show ?thesis by (subst nat_str.simps) (simp add: hd_append)
  qed
qed

lemma nat_str_scan:
  assumes "delim r"
  shows "takeWhile is_digit (nat_str n @ r) = nat_str n" "dropWhile is_digit (nat_str n @ r) = r"
  using delim_not_digit [OF assms] nat_str_digits [of _ n]
  by (simp_all add: takeWhile_append dropWhile_append)

lemma is_digit_minus [simp]: "\<not> is_digit (CHR ''-'')"
  by (simp add: is_digit_def)

lemma nat_str_0: "nat_str 0 = ''0''"
  by code_simp

lemma nat_str_Cons: "\<exists>c cs. nat_str n = c # cs \<and> is_digit c"
  by (metis list.exhaust list.set_intros(1) nat_str_digits nat_str_nonempty)

lemma scan_nat:
  assumes "delim r" "s = nat_str n @ r"
  shows "\<exists>c t. s = c # t \<and> is_digit c \<and>
    (if c = CHR ''0'' then ([c], t) else (takeWhile is_digit (c # t), dropWhile is_digit (c # t)))
      = (nat_str n, r)"
proof (cases "n = 0")
  case True
  with assms show ?thesis by (simp add: nat_str_0 is_digit_def)
next
  case False
  obtain c cs where c: "nat_str n = c # cs" "is_digit c" using nat_str_Cons by blast
  with nat_str_hd [of n] False have "c \<noteq> CHR ''0''" by simp
  with c assms nat_str_scan [OF assms(1), of n] show ?thesis by simp
qed

lemma scan_number_int: "delim r \<Longrightarrow> scan_number (int_str i @ r) = Some (JInt i, r)"
proof -
  assume d: "delim r"
  show ?thesis
  proof (cases "i < 0")
    case True
    obtain c t where "nat_str (nat (- i)) @ r = c # t" "is_digit c"
      "(if c = CHR ''0'' then ([c], t) else (takeWhile is_digit (c # t), dropWhile is_digit (c # t)))
        = (nat_str (nat (- i)), r)"
      using scan_nat [OF d refl] by metis
    with True delim_scan [OF d] show ?thesis
      by (simp add: scan_number_def int_str_def Let_def)
  next
    case False
    obtain c t where "nat_str (nat i) @ r = c # t" "is_digit c"
      "(if c = CHR ''0'' then ([c], t) else (takeWhile is_digit (c # t), dropWhile is_digit (c # t)))
        = (nat_str (nat i), r)"
      using scan_nat [OF d refl] by metis
    moreover from this(2) have "c \<noteq> CHR ''-''" by auto
    ultimately show ?thesis using False delim_scan [OF d]
      by (simp add: scan_number_def int_str_def Let_def)
  qed
qed

lemma scan_literal_int: "delim r \<Longrightarrow> scan_literal (int_str i @ r) = Some (JInt i, r)"
proof -
  assume d: "delim r"
  obtain c cs where c: "nat_str (nat \<bar>i\<bar>) = c # cs" "is_digit c" using nat_str_Cons by blast
  have "c \<notin> {CHR ''n'', CHR ''t'', CHR ''f'', CHR ''N'', CHR ''I'', CHR ''-''}"
    using c(2) by (auto simp: is_digit_def)
  with c have "scan_literal (int_str i @ r) = scan_number (int_str i @ r)"
    by (cases "i < 0") (simp_all add: scan_literal_def int_str_def)
  with scan_number_int [OF d] show ?thesis by simp
qed

lemma skip_ws_id: "s \<noteq> [] \<Longrightarrow> \<not> is_ws (hd s) \<Longrightarrow> skip_ws s = s"
  by (cases s) (auto simp: skip_ws_def)

lemma skip_ws_append: "\<forall>c \<in> set sp. is_ws c \<Longrightarrow> skip_ws (sp @ s) = skip_ws s"
  by (auto simp: skip_ws_def dropWhile_append)

lemma int_str_hd: "\<exists>c cs. int_str i = c # cs \<and> (is_digit c \<or> c = CHR ''-'')"
  using nat_str_Cons [of "nat i"] by (auto simp: int_str_def)

definition starts_value :: "string \<Rightarrow> bool" where
  "starts_value s = (s \<noteq> [] \<and> \<not> is_ws (hd s) \<and> hd s \<noteq> CHR '']'' \<and> hd s \<noteq> CHR 0x7D)"

lemma dumps_starts: "json_ok v \<Longrightarrow> starts_value (dumps_with sp v @ r)"
proof (cases v)
  case (JInt i)
  obtain c cs where "int_str i = c # cs" "is_digit c \<or> c = CHR ''-''" using int_str_hd by blast
  with JInt show ?thesis by (auto simp: starts_value_def is_ws_def is_digit_def)
qed (auto simp: starts_value_def is_ws_def quoted_def)

lemma skip_ws_starts: "starts_value s \<Longrightarrow> skip_ws s = s"
  by (simp add: starts_value_def skip_ws_id)

lemma skip_ws_delim [simp]:
  "skip_ws (CHR '','' # r) = CHR '','' # r" "skip_ws (CHR '']'' # r) = CHR '']'' # r"
  "skip_ws (CHR 0x7D # r) = CHR 0x7D # r" "skip_ws (CHR '':'' # r) = CHR '':'' # r"
  "skip_ws (CHR 0x22 # r) = CHR 0x22 # r"
  by (simp_all add: skip_ws_def is_ws_def)

lemma dict_of_pairs_distinct: "distinct (map fst ms) \<Longrightarrow> dict_of_pairs ms = ms"
proof -
  have "distinct (map fst (acc @ ms)) \<Longrightarrow> foldl (\<lambda>d (k, v). AList.update k v d) acc ms = acc @ ms" for acc
  proof (induction ms arbitrary: acc)
    case Nil
    then show ?case by simp
  next
    case (Cons m ms)
    obtain k v where m: "m = (k, v)" by (cases m)
    have u: "AList.update k v acc = acc @ [(k, v)]"
      using Cons.prems m by (induction acc) auto
    have "distinct (map fst ((acc @ [(k, v)]) @ ms))" using Cons.prems m by simp
    from Cons.IH [OF this] show ?case by (simp add: m u)
  qed
  from this [of "[]"] show "distinct (map fst ms) \<Longrightarrow> dict_of_pairs ms = ms"
    by (simp add: dict_of_pairs_def)
qed

lemma dumps_list_starts:
  "vs \<noteq> [] \<Longrightarrow> \<forall>v \<in> set vs. json_ok v \<Longrightarrow> starts_value (dumps_list sp vs @ r)"
  by (cases "(sp, vs)" rule: dumps_list.cases) (auto intro: dumps_starts)

lemma dumps_members_starts:
  "ms \<noteq> [] \<Longrightarrow> \<exists>t. dumps_members sp ms = CHR 0x22 # t"
  by (cases "(sp, ms)" rule: dumps_members.cases) (auto simp: quoted_def)

lemma starts_value_skip:
  assumes "starts_value s" "\<forall>c \<in> set sp. is_ws c"
  shows "skip_ws (sp @ s) = s"
  using assms by (simp add: skip_ws_append skip_ws_starts)

lemma quote_skip: "\<forall>c \<in> set sp. is_ws c \<Longrightarrow> s = CHR 0x22 # t \<Longrightarrow> skip_ws (sp @ s) = s"
  by (simp add: skip_ws_append)

lemma parse_dumps:
  "\<lbrakk>json_ok v; \<forall>c \<in> set sp. is_ws c; delim r; length (dumps_with sp v) \<le> n\<rbrakk>
    \<Longrightarrow> parse_value n (dumps_with sp v @ r) = Some (v, r)"
  "\<lbrakk>\<forall>v \<in> set vs. json_ok v; \<forall>c \<in> set sp. is_ws c; vs \<noteq> []; length (dumps_list sp vs) \<le> n\<rbrakk>
    \<Longrightarrow> parse_elems n (dumps_list sp vs @ r) = Some (vs, r)"
  "\<lbrakk>\<forall>m \<in> set ms. json_ok (snd m); \<forall>c \<in> set sp. is_ws c; ms \<noteq> []; length (dumps_members sp ms) \<le> n\<rbrakk>
    \<Longrightarrow> parse_members n (dumps_members sp ms @ r) = Some (ms, r)"
proof (induction sp v and sp vs and sp ms arbitrary: n r and n r and n r
    rule: dumps_with_dumps_list_dumps_members.induct)
  case (1 sp)
  then show ?case by (cases n) (auto simp: scan_literal_def)
next
  case (2 sp b)
  then show ?case by (cases n; cases b) (auto simp: scan_literal_def)
next
  case (3 sp i)
  obtain c cs where c: "int_str i = c # cs" "is_digit c \<or> c = CHR ''-''" using int_str_hd by blast
  then have "c \<noteq> CHR 0x22 \<and> c \<noteq> CHR ''['' \<and> c \<noteq> CHR 0x7B" by (auto simp: is_digit_def)
  with c 3 scan_literal_int [of r i] show ?case by (cases n) auto
next
  case (5 sp s)
  then show ?case by (cases n) (auto simp: quoted_def)
next
  case (6 sp vs)
  show ?case
  proof (cases "vs = []")
    case True
    with 6 show ?thesis by (cases n) auto
  next
    case False
    have "starts_value (dumps_list sp vs @ r)" using False 6(2) by (simp add: dumps_list_starts)
    with False 6 show ?thesis
      by (cases n) (auto simp: skip_ws_starts starts_value_def)
  qed
next
  case (7 sp ms)
  show ?case
  proof (cases "ms = []")
    case True
    with 7 show ?thesis by (cases n) (auto simp: dict_of_pairs_def)
  next
    case False
    then obtain t where "dumps_members sp ms = CHR 0x22 # t" using dumps_members_starts by blast
    with False 7 show ?thesis by (cases n) (auto simp: dict_of_pairs_distinct)
  qed
next
  case (9 sp v)
  then show ?case by (cases n) (auto simp: cons_to_def)
next
  case (10 sp v w vs)
  have "starts_value (dumps_list sp (w # vs) @ r)" using 10(3) by (intro dumps_list_starts) auto
  then have sk: "skip_ws (sp @ dumps_list sp (w # vs) @ r) = dumps_list sp (w # vs) @ r"
    using 10(4) by (rule starts_value_skip)
  obtain m where n: "n = Suc m" using 10(6) by (cases n) auto
  have "parse_value m (dumps_with sp v @ CHR '','' # sp @ dumps_list sp (w # vs) @ r) =
      Some (v, CHR '','' # sp @ dumps_list sp (w # vs) @ r)"
    using 10(3-6) n by (intro 10(1)) auto
  moreover have "parse_elems m (dumps_list sp (w # vs) @ r) = Some (w # vs, r)"
    using 10(3-6) n by (intro 10(2)) auto
  ultimately show ?case using sk n by (simp add: cons_to_def)
next
  case (12 sp k v)
  obtain m where n: "n = Suc m" using 12(5) by (cases n) auto
  have "starts_value (dumps_with sp v @ CHR 0x7D # r)" using 12(2) by (intro dumps_starts) auto
  then have sk: "skip_ws (sp @ dumps_with sp v @ CHR 0x7D # r) = dumps_with sp v @ CHR 0x7D # r"
    using 12(3) by (rule starts_value_skip)
  have "parse_value m (dumps_with sp v @ CHR 0x7D # r) = Some (v, CHR 0x7D # r)"
    using 12(2-5) n by (intro 12(1)) auto
  with sk n show ?case by (simp add: quoted_def)
next
  case (13 sp k v m' ms)
  obtain m where n: "n = Suc m" using 13(6) by (cases n) auto
  obtain t where t: "dumps_members sp (m' # ms) = CHR 0x22 # t" using dumps_members_starts by blast
  have sk2: "skip_ws (sp @ dumps_members sp (m' # ms) @ r) = dumps_members sp (m' # ms) @ r"
    using quote_skip [OF 13(4), of "dumps_members sp (m' # ms) @ r"] t by simp
  let ?rest = "CHR '','' # sp @ dumps_members sp (m' # ms) @ r"
  have "starts_value (dumps_with sp v @ ?rest)" using 13(3) by (intro dumps_starts) auto
  then have sk: "skip_ws (sp @ dumps_with sp v @ ?rest) = dumps_with sp v @ ?rest"
    using 13(4) by (rule starts_value_skip)
  have "parse_value m (dumps_with sp v @ ?rest) = Some (v, ?rest)"
    using 13(3-6) n by (intro 13(1)) auto
  moreover have "parse_members m (dumps_members sp (m' # ms) @ r) = Some (m' # ms, r)"
    using 13(3-6) n by (intro 13(2)) auto
  ultimately show ?case using sk sk2 n by (simp add: quoted_def cons_to_def)
qed auto

theorem json_loads_dumps:
  assumes "json_ok v" "\<forall>c \<in> set sp. is_ws c"
  shows "json_loads (dumps_with sp v) = Some v"
proof -
  have "skip_ws (dumps_with sp v) = dumps_with sp v"
    using dumps_starts [OF assms(1), of sp "[]"] by (simp add: skip_ws_starts)
  moreover have "parse_value (2 * length (dumps_with sp v) + 2) (dumps_with sp v @ []) = Some (v, [])"
    using assms by (intro parse_dumps(1)) auto
  ultimately show ?thesis by (simp add: json_loads_def skip_ws_def del: parse_value.simps)
qed

subsection \<open>The fuel is enough\<close>

lemma length_skip_ws: "length (skip_ws s) \<le> length s"
  by (simp add: skip_ws_def length_dropWhile_le)

lemma scan_str_length: "scan_str s = Some (x, r) \<Longrightarrow> length r < length s"
  by (induction s arbitrary: x r rule: scan_str.induct)
     (fastforce simp: cons_to_def split: if_splits list.splits option.splits prod.splits)+

lemma scan_frac_length: "length (snd (scan_frac s)) \<le> length s"
  by (auto simp: scan_frac_def split: list.splits) (meson length_dropWhile_le le_Suc_eq)

lemma scan_exp_length: "length (snd (scan_exp s)) \<le> length s"
  using length_dropWhile_le
  by (auto simp: scan_exp_def Let_def le_Suc_eq split: list.splits prod.splits if_splits)

lemma scan_number_length: "scan_number s = Some (v, r) \<Longrightarrow> length r < length s"
proof -
  assume a: "scan_number s = Some (v, r)"
  obtain sg t where st: "(case s of c # r \<Rightarrow> if c = CHR ''-'' then ([c], r) else ([], s) | [] \<Rightarrow> ([], s)) = (sg, t)"
    by (rule that [OF prod.collapse [symmetric]])
  then have lt: "length t \<le> length s" by (auto split: list.splits if_splits)
  obtain c u where t: "t = c # u" "is_digit c"
    using a st by (auto simp: scan_number_def Let_def split: list.splits if_splits prod.splits)
  obtain ip w where ip: "(if c = CHR ''0'' then ([c], u)
      else (takeWhile is_digit (c # u), dropWhile is_digit (c # u))) = (ip, w)"
    by (rule that [OF prod.collapse [symmetric]])
  then have lw: "length w \<le> length u"
    using t(2) length_dropWhile_le [of is_digit u] by (auto split: if_splits)
  have "r = snd (scan_exp (snd (scan_frac w)))"
    using a st ip t by (auto simp: scan_number_def Let_def split: list.splits if_splits prod.splits)
  then have "length r \<le> length w" by (metis le_trans scan_exp_length scan_frac_length)
  with lw lt t show ?thesis by simp
qed

lemma startswith_drop_length:
  "py_startswith s p \<Longrightarrow> p \<noteq> [] \<Longrightarrow> length (drop (length p) s) < length s"
  by (cases s) (auto simp: py_startswith_iff)

lemma scan_literal_length: "scan_literal s = Some (v, r) \<Longrightarrow> length r < length s"
  using startswith_drop_length [of s "''null''"] startswith_drop_length [of s "''true''"]
    startswith_drop_length [of s "''false''"] startswith_drop_length [of s "''NaN''"]
    startswith_drop_length [of s "''Infinity''"] startswith_drop_length [of s "''-Infinity''"]
    scan_number_length [of s]
  by (auto simp: scan_literal_def split: if_splits)

lemma skip_ws_tl: "skip_ws s = c # t \<Longrightarrow> length t < length s"
  using length_skip_ws [of s] by simp

lemma parse_length:
  "parse_value n s = Some (v, r) \<Longrightarrow> length r < length s"
  "parse_elems n s = Some (vs, r) \<Longrightarrow> length r < length s"
  "parse_members n s = Some (ms, r) \<Longrightarrow> length r < length s"
proof (induction n s and n s and n s arbitrary: v r and vs r and ms r
    rule: parse_value_parse_elems_parse_members.induct)
  case (2 n s)
  obtain c cs where s: "s = c # cs" using 2(3) by (cases s) auto
  have sk: "length (skip_ws cs) \<le> length cs" by (rule length_skip_ws)
  from 2(3) s 2(1) [OF s] 2(2) [OF s] sk scan_str_length [of cs] scan_literal_length [of s]
  show ?case
    by (auto split: if_splits)
next
  case (4 n s)
  obtain v r' where v: "parse_value n s = Some (v, r')" using 4(3) by (cases "parse_value n s") auto
  obtain d t where d: "skip_ws r' = d # t" using 4(3) v by (cases "skip_ws r'") auto
  have "length r' < length s" using 4(1) v by blast
  moreover note skip_ws_tl [OF d] length_skip_ws [of t]
  ultimately show ?case using 4(3) v d 4(2) [OF v _ d]
    by (auto simp: cons_to_def split: if_splits option.splits) fastforce
next
  case (6 n s)
  obtain cs where s: "s = CHR 0x22 # cs" using 6(3) by (cases s) (auto split: if_splits)
  obtain k r1 where k: "scan_str cs = Some (k, r1)" using 6(3) s by (cases "scan_str cs") auto
  obtain r2 where d: "skip_ws r1 = CHR '':'' # r2"
    using 6(3) s k by (cases "skip_ws r1") (auto split: if_splits)
  obtain v t where v: "parse_value n (skip_ws r2) = Some (v, t)"
    using 6(3) s k d by (cases "parse_value n (skip_ws r2)") auto
  obtain e t' where e: "skip_ws t = e # t'" using 6(3) s k d v by (cases "skip_ws t") auto
  have "length t < length (skip_ws r2)" using 6(1) [OF s _ k _ d] v by auto
  then have "length t' < length cs"
    using length_skip_ws [of r2] skip_ws_tl [OF d] scan_str_length [OF k] skip_ws_tl [OF e] by linarith
  moreover note length_skip_ws [of t']
  ultimately show ?case using 6(3) s k d v e 6(2) [OF s _ k _ d _ v _ e]
    by (auto simp: cons_to_def split: if_splits option.splits) fastforce
qed auto

lemma parse_fuel:
  fixes k :: nat
  shows "2 * length s < n \<Longrightarrow> parse_value (n + k) s = parse_value n s"
  "2 * length s + 1 < n \<Longrightarrow> parse_elems (n + k) s = parse_elems n s"
  "2 * length s + 1 < n \<Longrightarrow> parse_members (n + k) s = parse_members n s"
proof (induction n s and n s and n s rule: parse_value_parse_elems_parse_members.induct)
  case (2 n s)
  show ?case
  proof (cases s)
    case (Cons c cs)
    have "length (skip_ws cs) \<le> length cs" by (rule length_skip_ws)
    with Cons 2(1) [OF Cons] 2(2) [OF Cons] 2(3) show ?thesis by auto
  qed simp
next
  case (4 n s)
  show ?case
  proof (cases "parse_value n s")
    case None
    with 4(1,3) show ?thesis by simp
  next
    case (Some vr)
    obtain v r where vr: "vr = (v, r)" by (cases vr)
    show ?thesis
    proof (cases "skip_ws r")
      case Nil
      with 4(1,3) Some vr show ?thesis by simp
    next
      case (Cons d t)
      have "length (skip_ws t) < length s"
        using parse_length(1) [OF Some [unfolded vr]] skip_ws_tl [OF Cons] length_skip_ws [of t]
        by linarith
      with 4(1,3) Some vr Cons 4(2) [OF Some vr [symmetric] Cons] show ?thesis by simp
    qed
  qed
next
  case (6 n s)
  show ?case
  proof (cases "\<exists>cs k r r' v t e t'. s = CHR 0x22 # cs \<and> scan_str cs = Some (k, r) \<and>
      skip_ws r = CHR '':'' # r' \<and> parse_value n (skip_ws r') = Some (v, t) \<and> skip_ws t = e # t'")
    case True
    then obtain cs k r r' v t e t' where p: "s = CHR 0x22 # cs" "scan_str cs = Some (k, r)"
      "skip_ws r = CHR '':'' # r'" "parse_value n (skip_ws r') = Some (v, t)" "skip_ws t = e # t'"
      by blast
    have l1: "length (skip_ws r') < length s"
      using p(1) length_skip_ws [of r'] skip_ws_tl [OF p(3)] scan_str_length [OF p(2)] by simp
    moreover have "length (skip_ws t') < length s"
      using l1 length_skip_ws [of t'] skip_ws_tl [OF p(5)] parse_length(1) [OF p(4)] by linarith
    moreover note 6(1) [OF p(1) _ p(2) _ p(3)] 6(2) [OF p(1) _ p(2) _ p(3) _ p(4) _ p(5)]
    ultimately show ?thesis using p 6(3) by simp
  next
    case False
    note F = this
    show ?thesis
    proof (cases "\<exists>cs key r r'. s = CHR 0x22 # cs \<and> scan_str cs = Some (key, r) \<and> skip_ws r = CHR '':'' # r'")
      case True
      then obtain cs key r r' where p: "s = CHR 0x22 # cs" "scan_str cs = Some (key, r)"
        "skip_ws r = CHR '':'' # r'" by blast
      have "length (skip_ws r') < length s"
        using p(1) length_skip_ws [of r'] skip_ws_tl [OF p(3)] scan_str_length [OF p(2)] by simp
      with 6(1) [OF p(1) _ p(2) _ p(3)] 6(3)
      have "parse_value (n + k) (skip_ws r') = parse_value n (skip_ws r')" by simp
      with p F show ?thesis by (auto split: option.splits list.splits)
    next
      case False
      then show ?thesis by (auto split: option.splits list.splits)
    qed
  qed
qed auto

text \<open>\<open>json_loads\<close> does not depend on its fuel: any larger amount gives the same value.\<close>

lemma parse_stable:
  assumes "2 * length s + 2 \<le> n"
  shows "parse_value n (skip_ws s) = parse_value (2 * length s + 2) (skip_ws s)"
proof -
  obtain k where "n = (2 * length s + 2) + k" using assms le_Suc_ex by blast
  moreover have "2 * length (skip_ws s) < 2 * length s + 2" using length_skip_ws [of s] by linarith
  ultimately show ?thesis using parse_fuel(1) by blast
qed

subsection \<open>The keys of an object that was read\<close>

lemma dict_of_pairs_keys: "distinct (map fst (dict_of_pairs ps))"
proof -
  have "distinct (map fst d) \<Longrightarrow> distinct (map fst (foldl (\<lambda>d (k, v). AList.update k v d) d ps))" for d
    by (induction ps arbitrary: d) (auto simp: distinct_update)
  then show ?thesis by (simp add: dict_of_pairs_def)
qed

lemma scan_number_no_object: "scan_number s \<noteq> Some (JObj ms, r)"
  unfolding scan_number_def Let_def case_prod_unfold
  by (auto simp only: option.simps prod.simps json.simps split: list.split if_split)

lemma scan_literal_no_object: "scan_literal s \<noteq> Some (JObj ms, r)"
  unfolding scan_literal_def
  by (auto simp only: scan_number_no_object option.simps prod.simps json.simps split: if_split)

lemma parse_value_object: "parse_value n s = Some (JObj ms, r) \<Longrightarrow> distinct (map fst ms)"
  by (cases n; cases s) (auto simp: scan_literal_no_object dict_of_pairs_keys split: if_splits)

lemma json_loads_object: "json_loads s = Some (JObj ms) \<Longrightarrow> distinct (map fst ms)"
  by (auto simp: json_loads_def simp del: parse_value.simps dest: parse_value_object split: option.splits if_splits)

end
