(* ===== verification/Types.thy ===== *)
theory Types
  imports Json
begin

text \<open>
  The data of the driver: the settings, the objects a storage system has
  (\<open>array_action/array_action_types.py\<close>), the ids, parameters and connection data of a request
  (\<open>servers/csi/controller_types.py\<close>), and the node initiators (\<open>common/node_info.py\<close>).
\<close>

type_synonym str = string
type_synonym sdict = "(string \<times> string) list"

text \<open>\<open>'{}'.format(x)\<close> of an optional text.\<close>

definition opt_str :: "str option \<Rightarrow> str" where
  "opt_str x = (case x of None \<Rightarrow> ''None'' | Some s \<Rightarrow> s)"

subsection \<open>Settings\<close>

definition ARRAY_TYPE_XIV :: str where "ARRAY_TYPE_XIV = ''A9000''"
definition ARRAY_TYPE_SVC :: str where "ARRAY_TYPE_SVC = ''SVC''"
definition ARRAY_TYPE_DS8K :: str where "ARRAY_TYPE_DS8K = ''DS8K''"
definition ARRAY_TYPE_SANTRICITY :: str where "ARRAY_TYPE_SANTRICITY = ''SANtricity''"
definition ARRAY_TYPE_SOLIDFIRE :: str where "ARRAY_TYPE_SOLIDFIRE = ''SolidFire''"

definition FULL_IO_GROUP :: str where "FULL_IO_GROUP = ''0:1:2:3''"

definition ALL_ARRAY_TYPES :: "str list" where
  "ALL_ARRAY_TYPES = [ARRAY_TYPE_XIV, ARRAY_TYPE_SVC, ARRAY_TYPE_DS8K, ARRAY_TYPE_SANTRICITY,
     ARRAY_TYPE_SOLIDFIRE]"

definition NVME_OVER_FC :: str where "NVME_OVER_FC = ''nvmeofc''"
definition NVME_OVER_ROCE :: str where "NVME_OVER_ROCE = ''nvmeoroce''"
definition FC :: str where "FC = ''fc''"
definition ISCSI :: str where "ISCSI = ''iscsi''"

lemmas connectivity_defs = NVME_OVER_FC_def NVME_OVER_ROCE_def FC_def ISCSI_def
lemmas array_type_defs = ARRAY_TYPE_XIV_def ARRAY_TYPE_SVC_def ARRAY_TYPE_DS8K_def
  ARRAY_TYPE_SANTRICITY_def ARRAY_TYPE_SOLIDFIRE_def

abbreviation OBJECT_ID_INFO_DELIMITER :: char where "OBJECT_ID_INFO_DELIMITER \<equiv> CHR '':''"
abbreviation OBJECT_IDS_DELIMITER :: char where "OBJECT_IDS_DELIMITER \<equiv> CHR '';''"
abbreviation NODE_ID_DELIMITER :: char where "NODE_ID_DELIMITER \<equiv> CHR '';''"
abbreviation FCS_DELIMITER :: char where "FCS_DELIMITER \<equiv> CHR '':''"

definition MAX_RESPONSE_STRING_LENGTH :: int where "MAX_RESPONSE_STRING_LENGTH = 128"
definition VOLUME_WWN_LENGTH :: int where "VOLUME_WWN_LENGTH = 32"
definition MAX_ARRAY_TYPE_LENGTH :: int where
  "MAX_ARRAY_TYPE_LENGTH = Max (set (map (\<lambda>t. int (length t)) ALL_ARRAY_TYPES))"
definition NUMBER_OF_DELIMITERS_IN_VOLUME_ID :: int where "NUMBER_OF_DELIMITERS_IN_VOLUME_ID = 2"
definition SECRET_SYSTEM_ID_MAX_LENGTH :: int where
  "SECRET_SYSTEM_ID_MAX_LENGTH = MAX_RESPONSE_STRING_LENGTH - VOLUME_WWN_LENGTH
     - MAX_ARRAY_TYPE_LENGTH - NUMBER_OF_DELIMITERS_IN_VOLUME_ID"

lemma SECRET_SYSTEM_ID_MAX_LENGTH_value: "SECRET_SYSTEM_ID_MAX_LENGTH = 84"
  by (simp add: SECRET_SYSTEM_ID_MAX_LENGTH_def MAX_RESPONSE_STRING_LENGTH_def
      VOLUME_WWN_LENGTH_def NUMBER_OF_DELIMITERS_IN_VOLUME_ID_def MAX_ARRAY_TYPE_LENGTH_def
      ALL_ARRAY_TYPES_def array_type_defs)

definition VOLUME_TYPE_NAME :: str where "VOLUME_TYPE_NAME = ''volume''"
definition SNAPSHOT_TYPE_NAME :: str where "SNAPSHOT_TYPE_NAME = ''snapshot''"
definition VOLUME_GROUP_TYPE_NAME :: str where "VOLUME_GROUP_TYPE_NAME = ''volumegroup''"

lemmas type_name_defs = VOLUME_TYPE_NAME_def SNAPSHOT_TYPE_NAME_def VOLUME_GROUP_TYPE_NAME_def

definition REPLICATION_COPY_TYPE_SYNC :: str where "REPLICATION_COPY_TYPE_SYNC = ''sync''"
definition REPLICATION_COPY_TYPE_ASYNC :: str where "REPLICATION_COPY_TYPE_ASYNC = ''async''"
definition REPLICATION_TYPE_MIRROR :: str where "REPLICATION_TYPE_MIRROR = ''mirror''"
definition REPLICATION_TYPE_EAR :: str where "REPLICATION_TYPE_EAR = ''ear''"

lemmas replication_defs = REPLICATION_COPY_TYPE_SYNC_def REPLICATION_COPY_TYPE_ASYNC_def
  REPLICATION_TYPE_MIRROR_def REPLICATION_TYPE_EAR_def

subsection \<open>Storage objects\<close>

text \<open>
  \<open>array_address\<close> of the source is the list of the addresses of the system, or one address;
  here it is always the list.  The aliases of a space efficiency are a set of strings, here the
  list of its elements.
\<close>

record volume =
  vol_name :: str
  vol_id :: str
  vol_internal_id :: str
  vol_array_type :: str
  vol_capacity_bytes :: int
  vol_array_address :: "str list"
  vol_source_id :: "str option"
  vol_pool :: str
  vol_space_efficiency_aliases :: "str list"
  vol_volume_group_id :: "str option"
  vol_volume_group_name :: "str option"
  vol_partition_name :: "str option"

record snapshot = volume +
  snap_is_ready :: bool

record thin_volume =
  thin_name :: str
  thin_id :: str
  thin_internal_id :: str
  thin_array_type :: str
  thin_capacity_bytes :: int
  thin_source_id :: "str option"

record volume_group =
  vg_name :: str
  vg_id :: str
  vg_internal_id :: str
  vg_array_type :: str
  vg_volumes :: "thin_volume list"
  vg_partition_name :: "str option"

record replication =
  rep_name :: str
  rep_copy_type :: "str option"
  rep_is_ready :: bool
  rep_replication_type :: str
  rep_is_primary :: "bool option"
  rep_volume_group_id :: "str option"

record replication_request =
  rr_volume_internal_id :: "str option"
  rr_other_volume_internal_id :: "str option"
  rr_other_system_id :: "str option"
  rr_copy_type :: str
  rr_replication_type :: str
  rr_replication_policy :: "str option"

record object_ids =
  ids_internal_id :: "str option"
  ids_uid :: "str option"

definition object_ids_truthy :: "object_ids \<Rightarrow> bool" where
  "object_ids_truthy i = (truthy (ids_internal_id i) \<or> truthy (ids_uid i))"

subsection \<open>Requests\<close>

record array_connection_info =
  ci_array_addresses :: "str list"
  ci_user :: str
  ci_password :: str
  ci_system_id :: "str option"
  ci_partition_name :: "str option"
  ci_partition_vg :: "str option"
  ci_port_set :: "str option"
  ci_verify_ssl :: bool

text \<open>
  \<open>ObjectIdInfo\<close>, and \<open>VolumeGroupIdInfo\<close>, whose \<open>name\<close> is in the place of the \<open>uid\<close> and which
  has no system id.
\<close>

record object_id_info =
  oi_array_type :: str
  oi_system_id :: "str option"
  oi_internal_id :: "str option"
  oi_uid :: str

definition oi_ids :: "object_id_info \<Rightarrow> object_ids" where
  "oi_ids i = \<lparr>ids_internal_id = oi_internal_id i, ids_uid = Some (oi_uid i)\<rparr>"

record object_parameters =
  op_pool :: "str option"
  op_space_efficiency :: "str option"
  op_prefix :: "str option"
  op_io_group :: "str option"
  op_volume_group :: "str option"
  op_virt_snap_func :: bool
  op_initial_repo_group_size_pct :: "int option"

subsection \<open>Dictionaries\<close>

text \<open>\<open>d.get(k)\<close>, \<open>d.get(k, x)\<close>, \<open>d[k]\<close> and \<open>k in d\<close>.\<close>

definition dict_get :: "('k \<times> 'v) list \<Rightarrow> 'k \<Rightarrow> 'v option" where
  "dict_get d k = map_of d k"

definition dict_get_or :: "('k \<times> 'v) list \<Rightarrow> 'k \<Rightarrow> 'v \<Rightarrow> 'v" where
  "dict_get_or d k x = (case map_of d k of None \<Rightarrow> x | Some v \<Rightarrow> v)"

definition dict_item :: "(string \<times> 'v) list \<Rightarrow> string \<Rightarrow> exn + 'v" where
  "dict_item d k = (case map_of d k of None \<Rightarrow> Inl (PyErr (KeyError k)) | Some v \<Rightarrow> Inr v)"

definition dict_has :: "('k \<times> 'v) list \<Rightarrow> 'k \<Rightarrow> bool" where
  "dict_has d k = (map_of d k \<noteq> None)"

lemma dict_item_Inr [simp]: "(dict_item d k = Inr v) = (map_of d k = Some v)"
  by (simp add: dict_item_def split: option.splits)

lemma dict_has_iff: "dict_has d k = (k \<in> fst ` set d)"
  by (simp add: dict_has_def dom_map_of_conv_image_fst [symmetric] dom_def)

text \<open>\<open>str(xs)\<close> of a list of texts without quotes.\<close>

definition list_repr :: "str list \<Rightarrow> str" where
  "list_repr xs = ''['' @ py_join '', '' (map (\<lambda>x. [CHR 0x27] @ x @ [CHR 0x27]) xs) @ '']''"

subsection \<open>Caches per endpoint\<close>

text \<open>
  Two components keep a dictionary per storage system in a global dictionary: the registrations of the
  plugin and the ids of volumes.  What their users rely on: an entry is found under its own two keys
  and changes no other, and, where entries can be removed, the same of the removal.
\<close>

locale endpoint_cache =
  fixes lookup :: "'d \<Rightarrow> 'a \<Rightarrow> 'k \<Rightarrow> 'v option"
    and put :: "'a \<Rightarrow> 'k \<Rightarrow> 'v \<Rightarrow> 'd \<Rightarrow> 'd"
  assumes lookup_put: "lookup (put a k v d) b j = (if a = b \<and> k = j then Some v else lookup d b j)"
begin

lemma lookup_put_same: "lookup (put a k v d) a k = Some v"
  by (simp add: lookup_put)

lemma lookup_put_other: "a \<noteq> b \<or> k \<noteq> j \<Longrightarrow> lookup (put a k v d) b j = lookup d b j"
  by (auto simp: lookup_put)

end

locale erasable_cache = endpoint_cache +
  fixes erase :: "'a \<Rightarrow> 'k \<Rightarrow> 'd \<Rightarrow> 'd"
  assumes lookup_erase: "lookup (erase a k d) b j = (if a = b \<and> k = j then None else lookup d b j)"
begin

lemma erase_put: "lookup d a k = None \<Longrightarrow> lookup (erase a k (put a k v d)) b j = lookup d b j"
  by (auto simp: lookup_erase lookup_put)

lemma put_erase: "lookup (put a k v (erase a k d)) b j = lookup (put a k v d) b j"
  by (simp add: lookup_erase lookup_put)

text \<open>An entry that is removed when it is there and made when it is not.\<close>

lemma toggle:
  assumes "t = (\<lambda>d. if lookup d a k = None then put a k v d else erase a k d)"
  shows "lookup (t d) b j = (if a = b \<and> k = j then (if lookup d a k = None then Some v else None) else lookup d b j)"
    "lookup (t (t d)) a k = None \<longleftrightarrow> lookup d a k = None"
  by (auto simp: assms lookup_put lookup_erase)

end

end
