(* ===== verification/Agent.thy ===== *)
theory Agent
  imports Types Prog
begin

text \<open>
  The connections to the storage systems: the pool of the connections of one agent
  (\<open>array_action/array_connection_pool.py\<close>), the agents by user, addresses and system id, and the
  detection of the type of a storage system (\<open>array_action/storage_agent.py\<close>).

  \<open>pool_get\<close> and \<open>pool_put\<close> are the methods run by one thread; \<open>pool_step\<close> interleaves the
  sections of the methods of several threads between two acquisitions of the pool's lock or of
  its queue.  \<open>pool_get_steps\<close> and \<open>pool_put_steps\<close> show that the methods are runs of it.  Opening
  a connection, testing whether it is alive and testing a port are parameters.
\<close>

subsection \<open>The pool, one thread\<close>

record 'c pool =
  p_current_size :: int
  p_max_size :: int
  p_channel :: "'c list"
  p_closed :: "'c list"

text \<open>
  \<open>p_closed\<close> is the history of the connections the pool called \<open>disconnect\<close> on, the last one last; \<open>get\<close> and
  \<open>put\<close> only log what such a call raises.  \<open>CheckFailed c e\<close>: \<open>is_active\<close> of the connection \<open>c\<close> raised \<open>e\<close>, which
  \<open>get\<close> raises; the connection is out of the queue then and its place stays counted.
\<close>

datatype 'c get_result = Got 'c | CreateFailed exn | CheckFailed 'c exn | QueueEmpty | Blocks

text \<open>The loop that takes connections out of the queue until one is active; the others are closed.\<close>

fun drain_inactive :: "('c \<Rightarrow> exn + bool) \<Rightarrow> 'c pool \<Rightarrow> 'c list \<Rightarrow> 'c get_result option \<times> 'c pool" where
  "drain_inactive is_active p [] = (None, p\<lparr>p_channel := []\<rparr>)"
| "drain_inactive is_active p (c # cs) =
     (case is_active c of
        Inl e \<Rightarrow> (Some (CheckFailed c e), p\<lparr>p_channel := cs\<rparr>)
      | Inr True \<Rightarrow> (Some (Got c), p\<lparr>p_channel := cs\<rparr>)
      | Inr False \<Rightarrow>
          drain_inactive is_active (p\<lparr>p_current_size := p_current_size p - 1, p_closed := p_closed p @ [c]\<rparr>) cs)"

text \<open>
  \<open>get\<close>: with no active connection in the queue a new one is opened when the pool is not full,
  otherwise the caller waits: in vain for a thread alone (\<open>Blocks\<close>) unless it gave a timeout.
\<close>

definition pool_get :: "('c \<Rightarrow> exn + bool) \<Rightarrow> (exn + 'c) \<Rightarrow> bool \<Rightarrow> 'c pool \<Rightarrow> 'c get_result \<times> 'c pool" where
  "pool_get is_active create has_timeout p =
     (case drain_inactive is_active p (p_channel p) of
        (Some g, p1) \<Rightarrow> (g, p1)
      | (None, p1) \<Rightarrow>
          if p_current_size p1 < p_max_size p1
          then (case create of
                  Inl e \<Rightarrow> (CreateFailed e, p1)
                | Inr c \<Rightarrow> (Got c, p1\<lparr>p_current_size := p_current_size p1 + 1\<rparr>))
          else if has_timeout then (QueueEmpty, p1) else (Blocks, p1))"

text \<open>\<open>put\<close>: whether the connection went back to the queue (otherwise it is closed).\<close>

definition pool_put :: "'c \<Rightarrow> 'c pool \<Rightarrow> bool \<times> 'c pool" where
  "pool_put c p =
     (if p_max_size p < p_current_size p
      then (False, p\<lparr>p_current_size := p_current_size p - 1, p_closed := p_closed p @ [c]\<rparr>)
      else if int (length (p_channel p)) < p_max_size p
      then (True, p\<lparr>p_channel := p_channel p @ [c]\<rparr>)
      else (False, p\<lparr>p_closed := p_closed p @ [c]\<rparr>))"

definition new_pool :: "int \<Rightarrow> 'c pool" where
  "new_pool max_size = \<lparr>p_current_size = 0, p_max_size = max_size, p_channel = [], p_closed = []\<rparr>"

text \<open>The constructor with \<open>min_size = 1\<close> opens a connection and puts it back.\<close>

definition pool_init :: "(exn + 'c) \<Rightarrow> int \<Rightarrow> exn + 'c pool" where
  "pool_init create max_size =
     (case pool_get (\<lambda>_. Inr True) create False (new_pool max_size) of
        (Got c, p) \<Rightarrow> Inr (snd (pool_put c p))
      | (CreateFailed e, p) \<Rightarrow> Inl e
      | (_, p) \<Rightarrow> Inl (PyErr RuntimeError))"

subsection \<open>The pool, several threads\<close>

text \<open>
  \<open>ps_lent\<close> are the connections in use (a thread whose check of a connection raised keeps it for ever), \<open>ps_putting\<close> those on their way back to the queue,
  \<open>ps_creating\<close> counts the threads that reserved a place and are opening a connection,
  \<open>ps_leaving\<close> those about to give a place back.
\<close>

record 'c pool_state =
  ps_current :: int
  ps_max :: int
  ps_channel :: "'c list"
  ps_lent :: "'c list"
  ps_putting :: "'c list"
  ps_creating :: nat
  ps_leaving :: nat

inductive pool_step :: "'c pool_state \<Rightarrow> 'c pool_state \<Rightarrow> bool" where
  take_active: "ps_channel s = c # cs \<Longrightarrow>
    pool_step s (s\<lparr>ps_channel := cs, ps_lent := c # ps_lent s\<rparr>)"
| take_inactive: "ps_channel s = c # cs \<Longrightarrow>
    pool_step s (s\<lparr>ps_channel := cs, ps_leaving := Suc (ps_leaving s)\<rparr>)"
| leave: "ps_leaving s = Suc n \<Longrightarrow>
    pool_step s (s\<lparr>ps_leaving := n, ps_current := ps_current s - 1\<rparr>)"
| reserve: "ps_current s < ps_max s \<Longrightarrow>
    pool_step s (s\<lparr>ps_current := ps_current s + 1, ps_creating := Suc (ps_creating s)\<rparr>)"
| create_ok: "ps_creating s = Suc n \<Longrightarrow> c \<notin> set (ps_channel s @ ps_lent s @ ps_putting s) \<Longrightarrow>
    pool_step s (s\<lparr>ps_creating := n, ps_lent := c # ps_lent s\<rparr>)"
| create_failed: "ps_creating s = Suc n \<Longrightarrow>
    pool_step s (s\<lparr>ps_creating := n, ps_leaving := Suc (ps_leaving s)\<rparr>)"
| put_check: "c \<in> set (ps_lent s) \<Longrightarrow> \<not> ps_max s < ps_current s \<Longrightarrow>
    pool_step s (s\<lparr>ps_lent := remove1 c (ps_lent s), ps_putting := c # ps_putting s\<rparr>)"
| put_discard: "c \<in> set (ps_lent s) \<Longrightarrow> ps_max s < ps_current s \<Longrightarrow>
    pool_step s (s\<lparr>ps_lent := remove1 c (ps_lent s), ps_current := ps_current s - 1\<rparr>)"
| put_done: "c \<in> set (ps_putting s) \<Longrightarrow> int (length (ps_channel s)) < ps_max s \<Longrightarrow>
    pool_step s (s\<lparr>ps_putting := remove1 c (ps_putting s), ps_channel := ps_channel s @ [c]\<rparr>)"
| put_full: "c \<in> set (ps_putting s) \<Longrightarrow> \<not> int (length (ps_channel s)) < ps_max s \<Longrightarrow>
    pool_step s (s\<lparr>ps_putting := remove1 c (ps_putting s)\<rparr>)"

inductive_cases pool_stepE: "pool_step s t"

definition pool_start :: "int \<Rightarrow> 'c pool_state" where
  "pool_start max_size =
     \<lparr>ps_current = 0, ps_max = max_size, ps_channel = [], ps_lent = [], ps_putting = [],
      ps_creating = 0, ps_leaving = 0\<rparr>"

definition pool_reachable :: "int \<Rightarrow> 'c pool_state \<Rightarrow> bool" where
  "pool_reachable max_size s = pool_step\<^sup>*\<^sup>* (pool_start max_size) s"

definition pool_inv :: "'c pool_state \<Rightarrow> bool" where
  "pool_inv s =
     (ps_current s = int (length (ps_channel s) + length (ps_lent s) + length (ps_putting s)
        + ps_creating s + ps_leaving s) \<and>
      ps_current s \<le> ps_max s \<and> distinct (ps_channel s @ ps_lent s @ ps_putting s))"

lemma pool_inv_start: "0 \<le> m \<Longrightarrow> pool_inv (pool_start m)"
  by (simp add: pool_inv_def pool_start_def)

lemma length_remove1_Suc: "c \<in> set xs \<Longrightarrow> int (length xs) = 1 + int (length (remove1 c xs))"
  by (induction xs) auto

lemma pool_inv_step: "pool_step s t \<Longrightarrow> pool_inv s \<Longrightarrow> pool_inv t"
proof (induction rule: pool_step.induct)
  case (put_check c s)
  then show ?case using length_remove1_Suc [OF put_check(1)]
    by (auto simp: pool_inv_def simp del: length_remove1)
next
  case (put_done c s)
  then show ?case using length_remove1_Suc [OF put_done(1)]
    by (auto simp: pool_inv_def simp del: length_remove1)
next
  case (put_discard c s)
  then show ?case by (simp add: pool_inv_def)
next
  case (put_full c s)
  from put_full(3) have "int (length (ps_channel s)) + int (length (ps_putting s)) \<le> ps_max s"
    by (simp add: pool_inv_def)
  then have False using put_full(2) length_remove1_Suc [OF put_full(1)] by linarith
  then show ?case ..
qed (auto simp: pool_inv_def)

lemma pool_step_max: "pool_step s t \<Longrightarrow> ps_max t = ps_max s"
  by (induction rule: pool_step.induct) simp_all

lemma pool_reachable_inv:
  assumes "pool_reachable m s" "0 \<le> m"
  shows "pool_inv s \<and> ps_max s = m"
  using assms(1) unfolding pool_reachable_def
proof (induction rule: rtranclp_induct)
  case base
  then show ?case using assms(2) by (simp add: pool_inv_start) (simp add: pool_start_def)
next
  case (step s t)
  then show ?case by (simp add: pool_inv_step pool_step_max)
qed

subsection \<open>The methods are runs of the steps\<close>

definition quiet :: "'c pool \<Rightarrow> 'c list \<Rightarrow> 'c pool_state" where
  "quiet p lent =
     \<lparr>ps_current = p_current_size p, ps_max = p_max_size p, ps_channel = p_channel p, ps_lent = lent,
      ps_putting = [], ps_creating = 0, ps_leaving = 0\<rparr>"

text \<open>The connection a call of \<open>get\<close> leaves in the hands of its caller.\<close>

fun taken :: "'c get_result \<Rightarrow> 'c list" where
  "taken (Got c) = [c]"
| "taken (CheckFailed c e) = [c]"
| "taken _ = []"

text \<open>
  What the loop does to a pool: the inactive connections at the head of the queue are closed, in order, and the
  one after them, when there is one, is taken.
\<close>

lemma drain_inactive_result:
  "drain_inactive act p cs = (r, p') \<Longrightarrow>
    \<exists>dead. (\<forall>c \<in> set dead. act c = Inr False) \<and>
      p_current_size p' = p_current_size p - int (length dead) \<and> p_closed p' = p_closed p @ dead \<and> p_max_size p' = p_max_size p \<and>
      cs = dead @ (case r of None \<Rightarrow> [] | Some g \<Rightarrow> taken g) @ p_channel p' \<and>
      (case r of None \<Rightarrow> p_channel p' = [] | Some (Got c) \<Rightarrow> act c = Inr True
       | Some (CheckFailed c e) \<Rightarrow> act c = Inl e | Some _ \<Rightarrow> False)"
proof (induction act p cs rule: drain_inactive.induct)
  case (1 act p)
  then show ?case by (auto intro!: exI [of _ "[]"])
next
  case (2 act p c cs)
  show ?case
  proof (cases "act c = Inr False")
    case True
    let ?q = "p\<lparr>p_current_size := p_current_size p - 1, p_closed := p_closed p @ [c]\<rparr>"
    from True 2 obtain dead where
      "(\<forall>c \<in> set dead. act c = Inr False) \<and>
      p_current_size p' = p_current_size ?q - int (length dead) \<and> p_closed p' = p_closed ?q @ dead \<and> p_max_size p' = p_max_size ?q \<and>
      cs = dead @ (case r of None \<Rightarrow> [] | Some g \<Rightarrow> taken g) @ p_channel p' \<and>
      (case r of None \<Rightarrow> p_channel p' = [] | Some (Got c) \<Rightarrow> act c = Inr True
       | Some (CheckFailed c e) \<Rightarrow> act c = Inl e | Some _ \<Rightarrow> False)"
      by auto
    with True show ?thesis by (intro exI [of _ "c # dead"]) (auto simp: algebra_simps)
  next
    case False
    with 2 show ?thesis by (intro exI [of _ "[]"]) (auto split: sum.splits bool.splits)
  qed
qed

lemma drain_steps:
  "drain_inactive act p cs = (r, p') \<Longrightarrow>
    pool_step\<^sup>*\<^sup>* (quiet (p\<lparr>p_channel := cs\<rparr>) lent)
      (quiet p' ((case r of None \<Rightarrow> [] | Some g \<Rightarrow> taken g) @ lent))"
proof (induction act p cs rule: drain_inactive.induct)
  case (1 act p)
  then show ?case by auto
next
  case (2 act p c cs)
  show ?case
  proof (cases "act c = Inr False")
    case False
    have "pool_step (quiet (p\<lparr>p_channel := c # cs\<rparr>) lent) (quiet (p\<lparr>p_channel := cs\<rparr>) (c # lent))"
      using pool_step.take_active [of "quiet (p\<lparr>p_channel := c # cs\<rparr>) lent" c cs]
      by (simp add: quiet_def)
    with False 2 show ?thesis by (auto split: sum.splits bool.splits)
  next
    case True
    let ?s = "quiet (p\<lparr>p_channel := c # cs\<rparr>) lent"
    let ?t = "?s\<lparr>ps_channel := cs, ps_leaving := Suc (ps_leaving ?s)\<rparr>"
    let ?p1 = "p\<lparr>p_current_size := p_current_size p - 1, p_closed := p_closed p @ [c]\<rparr>"
    have 1: "pool_step ?s ?t"
      using pool_step.take_inactive [of ?s c cs] by (simp add: quiet_def)
    have "pool_step ?t (?t\<lparr>ps_leaving := 0, ps_current := ps_current ?t - 1\<rparr>)"
      by (rule pool_step.leave) (simp add: quiet_def)
    then have 2: "pool_step ?t (quiet (?p1\<lparr>p_channel := cs\<rparr>) lent)" by (simp add: quiet_def)
    have "pool_step\<^sup>*\<^sup>* (quiet (?p1\<lparr>p_channel := cs\<rparr>) lent)
        (quiet p' ((case r of None \<Rightarrow> [] | Some g \<Rightarrow> taken g) @ lent))"
      using "2.IH" [OF True] "2.prems" True by simp
    with 1 2 show ?thesis by (meson converse_rtranclp_into_rtranclp)
  qed
qed

lemma drain_None_channel: "drain_inactive act p cs = (None, p') \<Longrightarrow> p_channel p' = []"
  using drain_inactive_result by fastforce

lemma pool_get_steps:
  assumes "pool_get act create tm p = (r, p')" "\<And>c. create = Inr c \<Longrightarrow> c \<notin> set lent"
  shows "pool_step\<^sup>*\<^sup>* (quiet p lent) (quiet p' (taken r @ lent))"
proof -
  obtain o1 p1 where d: "drain_inactive act p (p_channel p) = (o1, p1)" by force
  have steps: "pool_step\<^sup>*\<^sup>* (quiet p lent) (quiet p1 ((case o1 of None \<Rightarrow> [] | Some g \<Rightarrow> taken g) @ lent))"
    using drain_steps [OF d, of lent] by simp
  show ?thesis
  proof (cases o1)
    case (Some c)
    with assms(1) d steps show ?thesis by (auto simp: pool_get_def)
  next
    case None
    show ?thesis
    proof (cases "p_current_size p1 < p_max_size p1")
      case False
      with None assms(1) d steps show ?thesis by (auto simp: pool_get_def split: if_splits)
    next
      case True
      let ?s = "quiet p1 lent"
      let ?t = "?s\<lparr>ps_current := ps_current ?s + 1, ps_creating := Suc (ps_creating ?s)\<rparr>"
      have 1: "pool_step ?s ?t" using True by (intro pool_step.reserve) (simp add: quiet_def)
      show ?thesis
      proof (cases create)
        case (Inr c)
        have "pool_step ?t (?t\<lparr>ps_creating := 0, ps_lent := c # ps_lent ?t\<rparr>)"
          using drain_None_channel [of act p "p_channel p" p1] d None assms(2) [OF Inr]
          by (intro pool_step.create_ok) (simp_all add: quiet_def)
        with 1 steps None True Inr d assms(1) show ?thesis
          by (auto simp: pool_get_def quiet_def intro: rtranclp.rtrancl_into_rtrancl)
      next
        case (Inl e)
        let ?u = "?t\<lparr>ps_creating := 0, ps_leaving := Suc (ps_leaving ?t)\<rparr>"
        have 2: "pool_step ?t ?u" by (intro pool_step.create_failed) (simp add: quiet_def)
        have "pool_step ?u (?u\<lparr>ps_leaving := 0, ps_current := ps_current ?u - 1\<rparr>)"
          by (intro pool_step.leave) (simp add: quiet_def)
        then have "pool_step ?u ?s" by (simp add: quiet_def)
        with 1 2 have "pool_step\<^sup>*\<^sup>* ?s ?s" by blast
        with steps None True Inl d assms(1) show ?thesis by (auto simp: pool_get_def)
      qed
    qed
  qed
qed

lemma pool_put_steps:
  assumes "pool_put c p = (b, p')" "c \<in> set lent"
  shows "pool_step\<^sup>*\<^sup>* (quiet p lent) (quiet p' (remove1 c lent))"
proof (cases "p_max_size p < p_current_size p")
  case True
  have "pool_step (quiet p lent) (quiet p' (remove1 c lent))"
    using pool_step.put_discard [of c "quiet p lent"] True assms by (auto simp: quiet_def pool_put_def)
  then show ?thesis by blast
next
  case False
  let ?s = "quiet p lent"
  let ?t = "?s\<lparr>ps_lent := remove1 c (ps_lent ?s), ps_putting := c # ps_putting ?s\<rparr>"
  have 1: "pool_step ?s ?t" using False assms(2) by (intro pool_step.put_check) (simp_all add: quiet_def)
  have "pool_step ?t (quiet p' (remove1 c lent))"
  proof (cases "int (length (p_channel p)) < p_max_size p")
    case True
    have "pool_step ?t (?t\<lparr>ps_putting := remove1 c (ps_putting ?t), ps_channel := ps_channel ?t @ [c]\<rparr>)"
      using True by (intro pool_step.put_done) (simp_all add: quiet_def)
    with True False assms(1) show ?thesis by (auto simp: quiet_def pool_put_def)
  next
    case full: False
    have "pool_step ?t (?t\<lparr>ps_putting := remove1 c (ps_putting ?t)\<rparr>)"
      using full by (intro pool_step.put_full) (simp_all add: quiet_def)
    with full False assms(1) show ?thesis by (auto simp: quiet_def pool_put_def)
  qed
  with 1 show ?thesis by (meson converse_rtranclp_into_rtranclp r_into_rtranclp)
qed

subsection \<open>Closing the pool\<close>

text \<open>
  \<open>__del__\<close>: connections are taken out of the pool with \<open>get\<close> and closed until the pool counts none.  The \<open>i\<close>-th
  connection that \<open>get\<close> has to open is \<open>create i\<close>; \<open>None\<close> when the loop does not end.  The loop holds the lock of the
  pool, which \<open>put\<close> needs too, so that a \<open>get\<close> that waits waits for ever.
\<close>

partial_function (option) pool_close ::
  "('c \<Rightarrow> exn + bool) \<Rightarrow> (nat \<Rightarrow> exn + 'c) \<Rightarrow> ('c \<Rightarrow> exn + unit) \<Rightarrow> nat \<Rightarrow> 'c pool \<Rightarrow> ((exn + unit) \<times> 'c pool) option" where
  "pool_close is_active create disconnect i p =
     (if p_current_size p = 0 then Some (Inr (), p)
      else case pool_get is_active (create i) False p of
          (Got c, p1) \<Rightarrow>
            (let p2 = p1\<lparr>p_closed := p_closed p1 @ [c]\<rparr> in
             case disconnect c of
               Inl e \<Rightarrow> Some (Inl e, p2)
             | Inr u \<Rightarrow> pool_close is_active create disconnect (Suc i) (p2\<lparr>p_current_size := p_current_size p2 - 1\<rparr>))
        | (CreateFailed e, p1) \<Rightarrow> Some (Inl e, p1)
        | (CheckFailed c e, p1) \<Rightarrow> Some (Inl e, p1)
        | (QueueEmpty, p1) \<Rightarrow> None
        | (Blocks, p1) \<Rightarrow> None)"

text \<open>How many places are counted of connections that are not in the queue.\<close>

definition outside :: "'c pool \<Rightarrow> int" where "outside p = p_current_size p - int (length (p_channel p))"

text \<open>One call of \<open>get\<close>: the inactive connections it closes, what it takes or opens, and what is left.\<close>

lemma pool_get_result:
  assumes "pool_get act create tm p = (g, p1)"
  shows "\<exists>dead. (\<forall>c \<in> set dead. act c = Inr False) \<and> p_closed p1 = p_closed p @ dead \<and> p_max_size p1 = p_max_size p \<and>
    (case g of
       Got c \<Rightarrow> (act c = Inr True \<and> p_channel p = dead @ c # p_channel p1 \<and> p_current_size p1 = p_current_size p - int (length dead)
         \<or> create = Inr c \<and> p_channel p = dead \<and> p_channel p1 = [] \<and>
           p_current_size p1 = p_current_size p - int (length dead) + 1 \<and> p_current_size p1 \<le> p_max_size p)
     | CreateFailed e \<Rightarrow> create = Inl e \<and> p_channel p = dead \<and> p_channel p1 = [] \<and> p_current_size p1 = p_current_size p - int (length dead)
     | CheckFailed c e \<Rightarrow> act c = Inl e \<and> p_channel p = dead @ c # p_channel p1 \<and> p_current_size p1 = p_current_size p - int (length dead)
     | QueueEmpty \<Rightarrow> tm \<and> p_channel p = dead \<and> p_channel p1 = [] \<and> p_max_size p \<le> p_current_size p1 \<and>
         p_current_size p1 = p_current_size p - int (length dead)
     | Blocks \<Rightarrow> \<not> tm \<and> p_channel p = dead \<and> p_channel p1 = [] \<and> p_max_size p \<le> p_current_size p1 \<and>
         p_current_size p1 = p_current_size p - int (length dead))"
proof -
  obtain r p2 where d: "drain_inactive act p (p_channel p) = (r, p2)" by force
  obtain dead where dead: "\<forall>c \<in> set dead. act c = Inr False"
      "p_current_size p2 = p_current_size p - int (length dead)" "p_closed p2 = p_closed p @ dead" "p_max_size p2 = p_max_size p"
      "p_channel p = dead @ (case r of None \<Rightarrow> [] | Some g \<Rightarrow> taken g) @ p_channel p2"
      "case r of None \<Rightarrow> p_channel p2 = [] | Some (Got c) \<Rightarrow> act c = Inr True
       | Some (CheckFailed c e) \<Rightarrow> act c = Inl e | Some _ \<Rightarrow> False"
    using drain_inactive_result [OF d] by blast
  show ?thesis
  proof (cases r)
    case (Some h)
    with assms d have "h = g" "p2 = p1" by (auto simp: pool_get_def)
    with Some dead show ?thesis by (intro exI [of _ dead]) (auto split: get_result.splits)
  next
    case None
    with assms d dead show ?thesis
      by (intro exI [of _ dead]) (auto simp: pool_get_def split: if_splits sum.splits)
  qed
qed

text \<open>
  Closing a pool without a connection outside: the queue is closed in its order, and a last connection, that was opened
  for nothing, when the last of the queue is not active.
\<close>

definition closes_all :: "('c \<Rightarrow> exn + bool) \<Rightarrow> (nat \<Rightarrow> exn + 'c) \<Rightarrow> 'c pool \<Rightarrow> 'c pool \<Rightarrow> bool" where
  "closes_all act create p p' =
     (p_current_size p' = 0 \<and> p_channel p' = [] \<and>
      (if p_channel p = [] \<or> act (last (p_channel p)) = Inr True then p_closed p' = p_closed p @ p_channel p
       else \<exists>j c. create j = Inr c \<and> p_closed p' = p_closed p @ p_channel p @ [c]))"

definition opens_and_closes :: "('c \<Rightarrow> exn + bool) \<Rightarrow> (nat \<Rightarrow> exn + 'c) \<Rightarrow> ('c \<Rightarrow> exn + unit) \<Rightarrow> bool" where
  "opens_and_closes act create disconnect =
     ((\<forall>c. \<exists>b. act c = Inr b) \<and> (\<forall>i. \<exists>c. create i = Inr c) \<and> (\<forall>c. disconnect c = Inr ()))"

lemma opens_and_closesD:
  assumes "opens_and_closes act create disconnect"
  shows "act c \<noteq> Inl e" "create i \<noteq> Inl e" "disconnect c = Inr ()"
  using assms by (auto simp: opens_and_closes_def dest: spec [of _ c] spec [of _ i])

lemma pool_close_ends:
  assumes ok: "opens_and_closes act create disconnect"
  shows "outside p = 0 \<Longrightarrow> p_current_size p \<le> p_max_size p \<Longrightarrow> 0 < p_max_size p \<Longrightarrow>
    \<exists>p'. pool_close act create disconnect i p = Some (Inr (), p') \<and> closes_all act create p p'"
proof (induction "length (p_channel p)" arbitrary: p i rule: less_induct)
  case less
  show ?case
  proof (cases "p_current_size p = 0")
    case True
    with less.prems show ?thesis by (subst pool_close.simps) (simp add: outside_def closes_all_def)
  next
    case False
    obtain g p1 where get: "pool_get act (create i) False p = (g, p1)" by force
    note opened = opens_and_closesD [OF ok]
    obtain c where c: "g = Got c"
      using pool_get_result [OF get] opened less.prems by (cases g) (auto simp: outside_def)
    from pool_get_result [OF get] obtain dead where dead: "p_closed p1 = p_closed p @ dead" "p_max_size p1 = p_max_size p"
        "\<forall>c \<in> set dead. act c = Inr False"
      and g: "act c = Inr True \<and> p_channel p = dead @ c # p_channel p1 \<and> p_current_size p1 = p_current_size p - int (length dead)
         \<or> create i = Inr c \<and> p_channel p = dead \<and> p_channel p1 = [] \<and> p_current_size p1 = p_current_size p - int (length dead) + 1"
      unfolding c by auto
    let ?p2 = "p1\<lparr>p_closed := p_closed p1 @ [c], p_current_size := p_current_size p1 - 1\<rparr>"
    have step: "pool_close act create disconnect i p = pool_close act create disconnect (Suc i) ?p2"
      using c get opened(3) False by (subst pool_close.simps) (simp add: Let_def)
    from g show ?thesis
    proof (elim disjE conjE)
      assume taken: "act c = Inr True" "p_channel p = dead @ c # p_channel p1" "p_current_size p1 = p_current_size p - int (length dead)"
      with less.prems dead have "length (p_channel ?p2) < length (p_channel p)" "outside ?p2 = 0"
          "p_current_size ?p2 \<le> p_max_size ?p2" "0 < p_max_size ?p2"
        by (auto simp: outside_def)
      from less.hyps [OF this, of "Suc i"] step taken dead(1) show ?thesis
        by (auto simp: closes_all_def)
    next
      assume opened: "create i = Inr c" "p_channel p = dead" "p_channel p1 = []"
        "p_current_size p1 = p_current_size p - int (length dead) + 1"
      with less.prems have "p_current_size ?p2 = 0" by (simp add: outside_def)
      moreover have "dead \<noteq> []" using opened False less.prems by (auto simp: outside_def)
      ultimately show ?thesis
        using step opened dead by (subst (asm) (2) pool_close.simps) (auto simp: closes_all_def)
    qed
  qed
qed

text \<open>With a connection outside the loop never counts down to nothing, whether it opens connections or waits.\<close>

lemma pool_close_returnsD:
  "pool_close act create disconnect i p = Some y \<Longrightarrow>
    opens_and_closes act create disconnect \<longrightarrow> p_current_size p \<le> p_max_size p \<longrightarrow> \<not> 0 < outside p"
proof (erule pool_close.raw_induct [where P = "\<lambda>act create disconnect i p y.
      opens_and_closes act create disconnect \<longrightarrow> p_current_size p \<le> p_max_size p \<longrightarrow> \<not> 0 < outside p", rotated])
  fix f :: "('a \<Rightarrow> exn + bool) \<Rightarrow> (nat \<Rightarrow> exn + 'a) \<Rightarrow> ('a \<Rightarrow> exn + unit) \<Rightarrow> nat \<Rightarrow> 'a pool \<Rightarrow> ((exn + unit) \<times> 'a pool) option"
    and act create disconnect i p y
  assume IH: "\<And>act create disconnect i p y. f act create disconnect i p = Some y \<Longrightarrow>
      opens_and_closes act create disconnect \<longrightarrow> p_current_size p \<le> p_max_size p \<longrightarrow> \<not> 0 < outside p"
    and body: "(if p_current_size p = 0 then Some (Inr (), p)
      else case pool_get act (create i) False p of
          (Got c, p1) \<Rightarrow>
            (let p2 = p1\<lparr>p_closed := p_closed p1 @ [c]\<rparr> in
             case disconnect c of
               Inl e \<Rightarrow> Some (Inl e, p2)
             | Inr u \<Rightarrow> f act create disconnect (Suc i) (p2\<lparr>p_current_size := p_current_size p2 - 1\<rparr>))
        | (CreateFailed e, p1) \<Rightarrow> Some (Inl e, p1)
        | (CheckFailed c e, p1) \<Rightarrow> Some (Inl e, p1)
        | (QueueEmpty, p1) \<Rightarrow> None
        | (Blocks, p1) \<Rightarrow> None) = Some y"
  show "opens_and_closes act create disconnect \<longrightarrow> p_current_size p \<le> p_max_size p \<longrightarrow> \<not> 0 < outside p"
  proof (intro impI notI)
    assume ok: "opens_and_closes act create disconnect" and size: "p_current_size p \<le> p_max_size p" and out: "0 < outside p"
    then have pos: "0 < p_current_size p" by (simp add: outside_def)
    obtain g p1 where get: "pool_get act (create i) False p = (g, p1)" by force
    have "\<exists>c. g = Got c"
      using body get pos opens_and_closesD [OF ok] pool_get_result [OF get] by (cases g) auto
    then obtain c where c: "g = Got c" ..
    then have "f act create disconnect (Suc i) (p1\<lparr>p_closed := p_closed p1 @ [c], p_current_size := p_current_size p1 - 1\<rparr>) = Some y"
      using body get pos ok by (simp add: opens_and_closes_def Let_def)
    from IH [OF this] ok pool_get_result [OF get] c size out show False by (auto simp: outside_def)
  qed
qed

subsection \<open>Detecting the type of a storage system\<close>

text \<open>
  \<open>_socket_connect_test\<close>: \<open>connect_ex\<close> is the connecting of a socket, which gives an error number or raises; the
  port is open when the result is 0.
\<close>

definition socket_connect_test :: "(str \<Rightarrow> nat \<Rightarrow> exn + int) \<Rightarrow> str \<Rightarrow> nat \<Rightarrow> int" where
  "socket_connect_test connect_ex host port = (case connect_ex host port of Inl e \<Rightarrow> -1 | Inr n \<Rightarrow> n)"

definition socket_connects :: "(str \<Rightarrow> nat \<Rightarrow> exn + int) \<Rightarrow> str \<Rightarrow> nat \<Rightarrow> bool" where
  "socket_connects connect_ex host port = (socket_connect_test connect_ex host port = 0)"

text \<open>\<open>array_type_to_port\<close>, in its order; the port of the SVC comes from the environment.\<close>

definition array_type_to_port :: "nat \<Rightarrow> (str \<times> nat list) list" where
  "array_type_to_port svc_port =
     [(ARRAY_TYPE_SANTRICITY, [8443, 8443]), (ARRAY_TYPE_XIV, [7778]), (ARRAY_TYPE_DS8K, [8452]),
      (ARRAY_TYPE_SOLIDFIRE, [443]), (ARRAY_TYPE_SVC, [svc_port])]"

fun get_array_type_from_cache :: "sdict \<Rightarrow> str list \<Rightarrow> str option" where
  "get_array_type_from_cache cache [] = None"
| "get_array_type_from_cache cache (e # es) =
     (if truthy (map_of cache e) then map_of cache e else get_array_type_from_cache cache es)"

definition probe_order :: "(str \<times> nat list) list \<Rightarrow> str list \<Rightarrow> (str \<times> nat \<times> str) list" where
  "probe_order ports endpoints =
     concat (map (\<lambda>(t, ps). concat (map (\<lambda>p. map (\<lambda>e. (t, p, e)) endpoints) ps)) ports)"

definition detect_array_type ::
  "(str \<Rightarrow> nat \<Rightarrow> bool) \<Rightarrow> nat \<Rightarrow> str list \<Rightarrow> sdict \<Rightarrow> (exn + str) \<times> sdict" where
  "detect_array_type connects svc_port endpoints cache =
     (case get_array_type_from_cache cache endpoints of
        Some t \<Rightarrow> (Inr t, cache)
      | None \<Rightarrow>
          (case find (\<lambda>(t, p, e). connects e p) (probe_order (array_type_to_port svc_port) endpoints) of
             None \<Rightarrow> (Inl (ArrayErr (FailedToFindStorageSystemType (py_join '', '' endpoints))), cache)
           | Some (t, p, e) \<Rightarrow> (Inr t, AList.update e t cache)))"

lemma detect_cached:
  assumes "detect_array_type connects sp endpoints cache = (Inr t, cache')"
    "\<forall>e \<in> set endpoints. map_of cache e = None \<or> (\<exists>x. map_of cache e = Some x \<and> x \<noteq> [])"
  shows "detect_array_type other sp endpoints cache' = (Inr t, cache')"
proof (cases "get_array_type_from_cache cache endpoints")
  case (Some x)
  with assms(1) show ?thesis by (simp add: detect_array_type_def)
next
  case None
  then obtain p e where f: "find (\<lambda>(t, p, e). connects e p) (probe_order (array_type_to_port sp) endpoints)
      = Some (t, p, e)" and c: "cache' = AList.update e t cache"
    using assms(1) by (auto simp: detect_array_type_def split: option.splits)
  then have te: "(t, p, e) \<in> set (probe_order (array_type_to_port sp) endpoints)"
    by (auto simp: find_Some_iff in_set_conv_nth)
  then have e: "e \<in> set endpoints" and t: "t \<noteq> []"
    by (auto simp: probe_order_def array_type_to_port_def array_type_defs)
  have n: "\<not> truthy (map_of cache x)" if "x \<in> set endpoints" for x
    using None that by (induction endpoints) (auto split: if_splits elim: truthyE)
  then have "get_array_type_from_cache cache' es = Some t" if "e \<in> set es" "set es \<subseteq> set endpoints" for es
    using that t by (induction es) (auto simp: c update_conv')
  with e have "get_array_type_from_cache cache' endpoints = Some t" by blast
  then show ?thesis by (simp add: detect_array_type_def)
qed

subsection \<open>Agents\<close>

record 'c agent =
  ag_endpoints :: "str list"
  ag_username :: str
  ag_password :: str
  ag_verify_ssl :: bool
  ag_system_id :: "str option"
  ag_array_type :: str
  ag_pool :: "'c pool"

type_synonym agent_key = "str \<times> str \<times> str option"

record 'c agents =
  array_agents :: "(agent_key \<times> 'c agent) list"
  array_type_cache :: sdict

text \<open>\<open>array_type_to_mediator\<close>, with the \<open>max_connections\<close> of the mediators.\<close>

definition array_type_to_max_connections :: "(str \<times> int) list" where
  "array_type_to_max_connections =
     [(ARRAY_TYPE_XIV, 2), (ARRAY_TYPE_DS8K, 50), (ARRAY_TYPE_SVC, 2), (ARRAY_TYPE_SANTRICITY, 5),
      (ARRAY_TYPE_SOLIDFIRE, 2)]"

definition CSI_CONTROLLER_SERVER_WORKERS :: int where "CSI_CONTROLLER_SERVER_WORKERS = 10"

type_synonym 'c connector = "str \<Rightarrow> str \<Rightarrow> str \<Rightarrow> str list \<Rightarrow> bool \<Rightarrow> str option \<Rightarrow> exn + 'c"

definition agent_key_of :: "array_connection_info \<Rightarrow> agent_key" where
  "agent_key_of ci = (ci_user ci, py_join '', '' (ci_array_addresses ci), ci_system_id ci)"

definition new_storage_agent ::
  "'c connector \<Rightarrow> (str \<Rightarrow> nat \<Rightarrow> bool) \<Rightarrow> nat \<Rightarrow> array_connection_info \<Rightarrow> str option \<Rightarrow>
    ('c agents, 'c agent) prog" where
  "new_storage_agent connect connects svc_port ci array_type = (\<lambda>s.
     case (if truthy array_type then (Inr (the array_type), array_type_cache s)
           else detect_array_type connects svc_port (ci_array_addresses ci) (array_type_cache s)) of
       (Inl e, cache) \<Rightarrow> (Inl e, s\<lparr>array_type_cache := cache\<rparr>)
     | (Inr t, cache) \<Rightarrow>
         (bindR (dict_item array_type_to_max_connections t) (\<lambda>max_connections.
          bindR (pool_init (connect t (ci_user ci) (ci_password ci) (ci_array_addresses ci)
                   (ci_verify_ssl ci) (ci_system_id ci))
                  (min max_connections CSI_CONTROLLER_SERVER_WORKERS)) (\<lambda>pool.
          Inr \<lparr>ag_endpoints = ci_array_addresses ci, ag_username = ci_user ci,
               ag_password = ci_password ci, ag_verify_ssl = ci_verify_ssl ci,
               ag_system_id = ci_system_id ci, ag_array_type = t, ag_pool = pool\<rparr>)),
          s\<lparr>array_type_cache := cache\<rparr>))"

definition get_agent ::
  "'c connector \<Rightarrow> (str \<Rightarrow> nat \<Rightarrow> bool) \<Rightarrow> nat \<Rightarrow> array_connection_info \<Rightarrow> str option \<Rightarrow>
    ('c agents, 'c agent) prog" where
  "get_agent connect connects svc_port ci array_type = (\<lambda>s.
     let key = agent_key_of ci;
         create = bindE (new_storage_agent connect connects svc_port ci array_type) (\<lambda>agent.
                  thenE (modifyS (\<lambda>s. s\<lparr>array_agents := AList.update key agent (array_agents s)\<rparr>))
                    (ret agent))
     in case map_of (array_agents s) key of
          None \<Rightarrow> create s
        | Some found \<Rightarrow>
            if ag_password found \<noteq> ci_password ci
            then create (s\<lparr>array_agents := AList.delete key (array_agents s)\<rparr>)
            else (Inr found, s))"

definition clear_agents :: "'c agents \<Rightarrow> 'c agents" where
  "clear_agents s = s\<lparr>array_agents := []\<rparr>"

lemma new_storage_agent_fields:
  assumes "new_storage_agent connect connects sp ci at s = (Inr a, s')"
  shows "ag_password a = ci_password ci" "ag_username a = ci_user ci"
    "ag_endpoints a = ci_array_addresses ci" "ag_system_id a = ci_system_id ci"
    "ag_verify_ssl a = ci_verify_ssl ci" "array_agents s' = array_agents s"
  using assms
  by (auto simp: new_storage_agent_def bindR_Inr_iff split: prod.splits sum.splits if_splits)

lemma new_storage_agent_agents:
  "array_agents (snd (new_storage_agent connect connects sp ci at s)) = array_agents s"
  by (auto simp: new_storage_agent_def split: prod.splits sum.splits)

lemma new_storage_agent_pool:
  assumes "new_storage_agent connect connects sp ci at s = (Inr a, s')"
  shows "1 \<le> p_max_size (ag_pool a)" "p_max_size (ag_pool a) \<le> 10"
    "p_current_size (ag_pool a) = 1" "length (p_channel (ag_pool a)) = 1"
proof -
  obtain t n where "map_of array_type_to_max_connections t = Some n"
      "pool_init (connect t (ci_user ci) (ci_password ci) (ci_array_addresses ci) (ci_verify_ssl ci)
         (ci_system_id ci)) (min n CSI_CONTROLLER_SERVER_WORKERS) = Inr (ag_pool a)"
    using assms
    by (auto simp: new_storage_agent_def bindR_Inr_iff split: prod.splits sum.splits if_splits)
  moreover from this(1) have "2 \<le> n"
    by (auto simp: array_type_to_max_connections_def split: if_splits)
  moreover have "pool_init c m = Inr p \<Longrightarrow> 0 < m \<Longrightarrow>
      \<exists>x. p = \<lparr>p_current_size = 1, p_max_size = m, p_channel = [x], p_closed = []\<rparr>" for c :: "exn + 'a" and m p
    by (auto simp: pool_init_def pool_get_def pool_put_def new_pool_def split: sum.splits)
  ultimately obtain x where
    "ag_pool a = \<lparr>p_current_size = 1, p_max_size = min n CSI_CONTROLLER_SERVER_WORKERS, p_channel = [x], p_closed = []\<rparr>"
    "2 \<le> n"
    by (metis CSI_CONTROLLER_SERVER_WORKERS_def min_less_iff_conj zero_less_numeral less_le_trans)
  then show "1 \<le> p_max_size (ag_pool a)" "p_max_size (ag_pool a) \<le> 10"
    "p_current_size (ag_pool a) = 1" "length (p_channel (ag_pool a)) = 1"
    by (simp_all add: CSI_CONTROLLER_SERVER_WORKERS_def)
qed

subsection \<open>Using a connection\<close>

text \<open>
  \<open>with agent.get_mediator() as mediator\<close>: the connection goes back to the pool whatever the body
  does.  The body is a program on the storage system's state, given the connection.
\<close>

definition with_mediator ::
  "('c \<Rightarrow> exn + bool) \<Rightarrow> (exn + 'c) \<Rightarrow> ('c \<Rightarrow> ('s, 'a) prog) \<Rightarrow> str \<Rightarrow> ('c pool \<times> 's, 'a) prog" where
  "with_mediator is_active create body endpoint_key = (\<lambda>(p, s).
     case pool_get is_active create False p of
       (Got c, p1) \<Rightarrow> (case body c s of (r, s') \<Rightarrow> (r, (snd (pool_put c p1), s')))
     | (CreateFailed e, p1) \<Rightarrow> (Inl e, (p1, s))
     | (CheckFailed c e, p1) \<Rightarrow> (Inl e, (p1, s))
     | (QueueEmpty, p1) \<Rightarrow>
         (Inl (ArrayErr (NoConnectionAvailableException (py_join '', '' (map (\<lambda>c. [c]) endpoint_key)))), (p1, s))
     | (Blocks, p1) \<Rightarrow> (Inl (PyErr RuntimeError), (p1, s)))"

text \<open>
  A pool between two calls of one thread: every place is a connection in the queue.
\<close>

definition pool_idle :: "'c pool \<Rightarrow> bool" where
  "pool_idle p = (p_current_size p = int (length (p_channel p)) \<and> p_current_size p \<le> p_max_size p \<and> 0 < p_max_size p)"

lemma pool_get_idle:
  assumes "pool_idle p" "pool_get act create tm p = (g, p')"
  shows "p_max_size p' = p_max_size p \<and> g \<noteq> Blocks \<and> g \<noteq> QueueEmpty \<and> p_current_size p' \<le> p_max_size p \<and>
    p_current_size p' = int (length (p_channel p')) + int (length (taken g))"
  using pool_get_result [OF assms(2)] assms(1) by (cases g) (auto simp: pool_idle_def)

lemma with_mediator_idle:
  assumes "pool_idle p" "\<And>c. \<exists>b. act c = Inr b"
  shows "pool_idle (fst (snd (with_mediator act create body k (p, s))))"
proof -
  obtain g p1 where g: "pool_get act create False p = (g, p1)" by force
  from pool_get_idle [OF assms(1) g] assms(1)
  have i: "p_max_size p1 = p_max_size p" "g \<noteq> Blocks" "g \<noteq> QueueEmpty" "0 < p_max_size p"
    "p_current_size p1 \<le> p_max_size p"
    "p_current_size p1 = int (length (p_channel p1)) + int (length (taken g))"
    by (auto simp: pool_idle_def)
  show ?thesis
  proof (cases g)
    case (Got c)
    with g i show ?thesis
      by (simp add: with_mediator_def pool_idle_def pool_put_def split: prod.splits)
  next
    case (CheckFailed c e)
    with pool_get_result [OF g] assms(2) [of c] show ?thesis by auto
  qed (use g i in \<open>simp_all add: with_mediator_def pool_idle_def\<close>)
qed

subsection \<open>Properties\<close>

text \<open>
  C17. However the threads interleave, the pool never holds, lends or opens more connections than
  its maximum, no connection is lent to two threads or is in the queue while it is lent, and a
  connection that is given back is never thrown away for lack of room.
\<close>

theorem pool_never_exceeds_max:
  assumes "pool_reachable m s" "0 \<le> m"
  shows "int (length (ps_channel s) + length (ps_lent s) + length (ps_putting s) + ps_creating s) \<le> m \<and>
    distinct (ps_channel s @ ps_lent s @ ps_putting s) \<and>
    (\<forall>c \<in> set (ps_lent s). \<not> m < ps_current s) \<and>
    (\<forall>c \<in> set (ps_putting s). int (length (ps_channel s)) < m)"
proof -
  from pool_reachable_inv [OF assms] have i: "pool_inv s" "ps_max s = m" by simp_all
  moreover have "int (length (ps_channel s)) < m" if "c \<in> set (ps_putting s)" for c
    using i length_remove1_Suc [OF that] by (simp add: pool_inv_def del: length_remove1)
  ultimately show ?thesis by (auto simp: pool_inv_def)
qed

theorem pool_never_exceeds_max_witness:
  "\<exists>s. pool_reachable 1 s \<and> ps_lent s = [7 :: nat] \<and> ps_channel s = []"
proof -
  let ?s1 = "(pool_start 1)\<lparr>ps_current := 1, ps_creating := Suc 0\<rparr> :: nat pool_state"
  have 1: "pool_step (pool_start 1) ?s1"
    using pool_step.reserve [of "pool_start 1"] by (simp add: pool_start_def)
  have 2: "pool_step ?s1 (?s1\<lparr>ps_creating := 0, ps_lent := 7 # ps_lent ?s1\<rparr>)"
    by (intro pool_step.create_ok) (simp_all add: pool_start_def)
  let ?s2 = "?s1\<lparr>ps_creating := 0, ps_lent := 7 # ps_lent ?s1\<rparr>"
  have r: "pool_reachable 1 ?s2"
    unfolding pool_reachable_def using 1 2
    by (blast intro: rtranclp.rtrancl_into_rtrancl r_into_rtranclp)
  from pool_never_exceeds_max [OF r] have "length (ps_channel ?s2) = 0" by (simp add: pool_start_def)
  with r show ?thesis by (intro exI [of _ ?s2]) (simp add: pool_start_def)
qed

text \<open>
  C18. Both methods of the pool are runs of the interleaved steps: \<open>get\<close> ends with the connection
  it returns lent to the caller, \<open>put\<close> with the connection no longer lent, so the bounds above
  hold for them.
\<close>

theorem pool_methods_refine_steps:
  assumes "pool_get act create tm p = (Got c, p1)" "\<And>x. create = Inr x \<Longrightarrow> x \<notin> set lent"
    "pool_put c p1 = (b, p2)"
  shows "pool_step\<^sup>*\<^sup>* (quiet p lent) (quiet p1 (c # lent)) \<and>
    pool_step\<^sup>*\<^sup>* (quiet p1 (c # lent)) (quiet p2 lent)"
  using pool_get_steps [OF assms(1,2)] pool_put_steps [OF assms(3), of "c # lent"] by simp

theorem pool_methods_refine_steps_witness:
  "pool_step\<^sup>*\<^sup>* (quiet \<lparr>p_current_size = 1, p_max_size = 2, p_channel = [3 :: nat], p_closed = []\<rparr> [5])
     (quiet \<lparr>p_current_size = 1, p_max_size = 2, p_channel = [4], p_closed = [3]\<rparr> [5])"
proof -
  let ?p = "\<lparr>p_current_size = 1, p_max_size = 2, p_channel = [3 :: nat], p_closed = []\<rparr>"
  let ?p1 = "\<lparr>p_current_size = 1, p_max_size = 2, p_channel = [], p_closed = [3 :: nat]\<rparr>"
  let ?p2 = "\<lparr>p_current_size = 1, p_max_size = 2, p_channel = [4 :: nat], p_closed = [3]\<rparr>"
  have g: "pool_get (\<lambda>c. Inr (c \<noteq> 3)) (Inr 4) False ?p = (Got 4, ?p1)" by (simp add: pool_get_def)
  have u: "pool_put 4 ?p1 = (True, ?p2)" by (simp add: pool_put_def)
  have "pool_step\<^sup>*\<^sup>* (quiet ?p [5]) (quiet ?p1 [4, 5]) \<and> pool_step\<^sup>*\<^sup>* (quiet ?p1 [4, 5]) (quiet ?p2 [5])"
    by (rule pool_methods_refine_steps [OF g _ u]) simp
  then show ?thesis by (elim conjE) (rule rtranclp_trans)
qed

text \<open>
  C7. When no check of a connection raises and every connection can be opened and closed, closing a pool ends exactly
  when none of its connections is outside.  Then \<open>disconnect\<close> was called on every connection of the queue, in order, once
  each, on nothing else when the last of them is active, and otherwise on one more, which was opened for this only; the
  pool counts none and its queue is empty.  With a connection outside, the destructor never ends, it does not wait for
  the connection to come back as its comment says: while the pool is not full it opens and closes new connections for
  ever, and when it is full it waits with the lock that giving a connection back needs.
\<close>

theorem pool_close_terminates:
  assumes "\<And>c. \<exists>b. act c = Inr b" "\<And>i. \<exists>c. create i = Inr c" "\<And>c. disconnect c = Inr ()"
    and "int (length (p_channel p)) \<le> p_current_size p" "p_current_size p \<le> p_max_size p" "0 < p_max_size p"
  shows "(pool_close act create disconnect i p \<noteq> None \<longleftrightarrow> p_current_size p = int (length (p_channel p))) \<and>
    (\<forall>r p'. pool_close act create disconnect i p = Some (r, p') \<longrightarrow>
       r = Inr () \<and> p_current_size p' = 0 \<and> p_channel p' = [] \<and>
       (if p_channel p = [] \<or> act (last (p_channel p)) = Inr True then p_closed p' = p_closed p @ p_channel p
        else \<exists>j c. create j = Inr c \<and> p_closed p' = p_closed p @ p_channel p @ [c]))"
proof -
  have ok: "opens_and_closes act create disconnect" using assms(1-3) by (simp add: opens_and_closes_def)
  have idle: "outside p = 0" if "pool_close act create disconnect i p = Some y" for y
    using pool_close_returnsD [OF that] ok assms(4,5) by (simp add: outside_def)
  note ends = pool_close_ends [OF ok _ assms(5,6), of i]
  have "pool_close act create disconnect i p \<noteq> None \<longleftrightarrow> p_current_size p = int (length (p_channel p))"
    using idle ends by (auto simp: outside_def)
  moreover have "r = Inr () \<and> closes_all act create p p'" if "pool_close act create disconnect i p = Some (r, p')" for r p'
    using ends [OF idle [OF that]] that by auto
  ultimately show ?thesis by (simp add: closes_all_def)
qed

theorem pool_close_terminates_witness:
  "(\<exists>p'. pool_close (\<lambda>c. Inr (c \<noteq> 8)) (\<lambda>i. Inr (9 + i)) (\<lambda>c. Inr ()) 0
      \<lparr>p_current_size = 2, p_max_size = 2, p_channel = [8, 7 :: nat], p_closed = [3]\<rparr> = Some (Inr (), p') \<and> p_closed p' = [3, 8, 7]) \<and>
   pool_close (\<lambda>c. Inr True) Inr (\<lambda>c. Inr ()) 0
      \<lparr>p_current_size = 1, p_max_size = 2, p_channel = [], p_closed = [] :: nat list\<rparr> = None"
proof -
  let ?p = "\<lparr>p_current_size = 2, p_max_size = 2, p_channel = [8, 7 :: nat], p_closed = [3]\<rparr>"
  let ?close = "pool_close (\<lambda>c. Inr (c \<noteq> 8)) (\<lambda>i. Inr (9 + i)) (\<lambda>c. Inr ()) 0 ?p"
  have "(?close \<noteq> None \<longleftrightarrow> p_current_size ?p = int (length (p_channel ?p))) \<and>
    (\<forall>r p'. ?close = Some (r, p') \<longrightarrow> r = Inr () \<and> p_current_size p' = 0 \<and> p_channel p' = [] \<and>
       (if p_channel ?p = [] \<or> Inr (last (p_channel ?p) \<noteq> 8) = (Inr True :: exn + bool) then p_closed p' = p_closed ?p @ p_channel ?p
        else \<exists>j c. (Inr (9 + j) :: exn + nat) = Inr c \<and> p_closed p' = p_closed ?p @ p_channel ?p @ [c]))"
    by (rule pool_close_terminates) simp_all
  then have "\<exists>p'. ?close = Some (Inr (), p') \<and> p_closed p' = [3, 8, 7]" by fastforce
  moreover have "\<not> pool_close (\<lambda>c. Inr True) Inr (\<lambda>c. Inr ()) 0
      \<lparr>p_current_size = 1, p_max_size = 2, p_channel = [], p_closed = [] :: nat list\<rparr> \<noteq> None"
    by (subst conjunct1 [OF pool_close_terminates]) auto
  ultimately show ?thesis by blast
qed

text \<open>
  A check that raises loses the connection and keeps its place: when all places are the one of that connection, every
  further \<open>get\<close> without a timeout waits for ever, whatever the checks answer and the connections opened by then.
\<close>

theorem failed_check_blocks_pool:
  assumes "act c = Inl e" "p_channel p = [c]" "p_current_size p = p_max_size p"
  shows "\<exists>p'. pool_get act create tm p = (CheckFailed c e, p') \<and> pool_get act' create' False p' = (Blocks, p')"
  using assms by (simp add: pool_get_def)

theorem failed_check_blocks_pool_witness:
  "\<exists>p'. pool_get (\<lambda>c. Inl (PyErr AttributeError)) (Inr 1) False
      \<lparr>p_current_size = 1, p_max_size = 1, p_channel = [7 :: nat], p_closed = []\<rparr> = (CheckFailed 7 (PyErr AttributeError), p') \<and>
    pool_get (\<lambda>c. Inr True) (Inr 2) False p' = (Blocks, p')"
  by (rule failed_check_blocks_pool) simp_all

text \<open>
  \<open>get_agent\<close> never gives an agent with another password than the one asked for: after it
  returns, the agent for that user, addresses and system id has the requested password and is
  the one kept for the next call, which returns it unchanged; the agents of other systems are
  not touched.
\<close>

theorem get_agent_password:
  assumes "get_agent connect connects sp ci at s = (Inr a, s')"
  shows "ag_password a = ci_password ci \<and> map_of (array_agents s') (agent_key_of ci) = Some a \<and>
    get_agent connect connects sp ci at' s' = (Inr a, s') \<and>
    (\<forall>k. k \<noteq> agent_key_of ci \<longrightarrow> map_of (array_agents s') k = map_of (array_agents s) k)"
proof -
  have new: "ag_password a = ci_password ci \<and> array_agents s' = AList.update (agent_key_of ci) a (array_agents t)"
    if b: "bindE (new_storage_agent connect connects sp ci at) (\<lambda>agent.
          thenE (modifyS (\<lambda>s. s\<lparr>array_agents := AList.update (agent_key_of ci) agent (array_agents s)\<rparr>))
            (ret agent)) t = (Inr a, s')" for t
  proof -
    obtain s1 where n: "new_storage_agent connect connects sp ci at t = (Inr a, s1)"
        and s': "s' = s1\<lparr>array_agents := AList.update (agent_key_of ci) a (array_agents s1)\<rparr>"
      using b by (auto elim!: bindE_InrE thenE_InrE simp: prog_simps)
    from new_storage_agent_fields(1,6) [OF n] show ?thesis by (simp add: s')
  qed
  show ?thesis
  proof (cases "map_of (array_agents s) (agent_key_of ci)")
    case None
    with assms new [of s] show ?thesis by (simp add: get_agent_def Let_def update_conv')
  next
    case (Some found)
    show ?thesis
    proof (cases "ag_password found = ci_password ci")
      case True
      with Some assms show ?thesis by (auto simp: get_agent_def)
    next
      case False
      with Some assms new [of "s\<lparr>array_agents := AList.delete (agent_key_of ci) (array_agents s)\<rparr>"]
      show ?thesis by (simp add: get_agent_def Let_def update_conv' delete_conv')
    qed
  qed
qed

definition example_connection :: array_connection_info where
  "example_connection =
     \<lparr>ci_array_addresses = [''10.0.0.1'', ''10.0.0.2''], ci_user = ''u'', ci_password = ''p'',
      ci_system_id = Some ''s1'', ci_partition_name = None, ci_partition_vg = None,
      ci_port_set = None, ci_verify_ssl = False\<rparr>"

theorem get_agent_password_witness:
  "\<exists>a s'. get_agent (\<lambda>t u p e v i. Inr (1 :: nat)) (\<lambda>e p. False) 22 example_connection (Some ARRAY_TYPE_SVC)
       \<lparr>array_agents = [], array_type_cache = []\<rparr> = (Inr a, s') \<and> ag_password a = ''p''"
proof -
  obtain a s' where r: "get_agent (\<lambda>t u p e v i. Inr (1 :: nat)) (\<lambda>e p. False) 22 example_connection
      (Some ARRAY_TYPE_SVC) \<lparr>array_agents = [], array_type_cache = []\<rparr> = (Inr a, s')"
    by (simp add: get_agent_def new_storage_agent_def prog_defs prog_simps Let_def
        array_type_to_max_connections_def array_type_defs pool_init_def pool_get_def new_pool_def
        CSI_CONTROLLER_SERVER_WORKERS_def dict_item_def)
  from get_agent_password [OF r] r show ?thesis by (auto simp: example_connection_def)
qed

text \<open>
  The type of a storage system is detected once: a detected type is the first of the table, in
  its order, with an open port on one of the addresses, and asking again gives the same type
  from the cache, whichever ports are open then.
\<close>

theorem detect_array_type_cached:
  assumes "detect_array_type connects sp endpoints [] = (Inr t, cache)"
  shows "detect_array_type other sp endpoints cache = (Inr t, cache) \<and>
    (\<exists>p e. find (\<lambda>(t, p, e). connects e p) (probe_order (array_type_to_port sp) endpoints) = Some (t, p, e)
       \<and> cache = [(e, t)])"
proof -
  have "get_array_type_from_cache [] endpoints = None" by (induction endpoints) simp_all
  with assms have "\<exists>p e. find (\<lambda>(t, p, e). connects e p) (probe_order (array_type_to_port sp) endpoints)
      = Some (t, p, e) \<and> cache = [(e, t)]"
    by (auto simp: detect_array_type_def split: option.splits)
  with detect_cached [OF assms] show ?thesis by simp
qed

theorem detect_array_type_cached_witness:
  "detect_array_type (\<lambda>e p. False) 22 [''10.0.0.1''] [(''10.0.0.1'', ARRAY_TYPE_DS8K)]
     = (Inr ARRAY_TYPE_DS8K, [(''10.0.0.1'', ARRAY_TYPE_DS8K)])"
proof -
  have "detect_array_type (\<lambda>e p. p = 8452 \<or> p = 22) 22 [''10.0.0.1''] [] =
      (Inr ARRAY_TYPE_DS8K, [(''10.0.0.1'', ARRAY_TYPE_DS8K)])"
    by (simp add: detect_array_type_def probe_order_def array_type_to_port_def)
  from detect_array_type_cached [OF this] show ?thesis by blast
qed

end
