(* ===== verification/NodeInitiators.thy ===== *)
theory NodeInitiators
  imports Types
begin

text \<open>
  The ports of a node (\<open>common/node_info.py\<close>) and where the driver gets them from: the annotation
  of the Kubernetes node, a JSON text, or the old node id \<open>name;nqn;wwn:wwn;iqn\<close>
  (\<open>servers/utils.py\<close>).  Reading a node from the Kubernetes API is the parameter \<open>read_node\<close>: it
  raises, finds no node, or gives the annotations, which the API may leave unset.
\<close>

subsection \<open>NodeIdInfo and Initiators\<close>

definition node_id_info_name :: "str \<Rightarrow> str" where
  "node_id_info_name node_id =
     (if py_contains node_id [NODE_ID_DELIMITER]
      then hd (py_split NODE_ID_DELIMITER node_id) else node_id)"

record initiators =
  nvme_nqns :: "str list"
  fc_wwns :: "str list"
  iscsi_iqns :: "str list"

definition filter_empty_parts :: "str list \<Rightarrow> str list" where
  "filter_empty_parts ports = filter (\<lambda>p. p \<noteq> []) (map py_strip ports)"

definition mk_initiators :: "str list \<Rightarrow> str list \<Rightarrow> str list \<Rightarrow> initiators" where
  "mk_initiators nqns wwns iqns =
     \<lparr>nvme_nqns = filter_empty_parts nqns, fc_wwns = filter_empty_parts wwns,
      iscsi_iqns = filter_empty_parts iqns\<rparr>"

definition ports_by_type :: "initiators \<Rightarrow> (str \<times> str list) list" where
  "ports_by_type i =
     [(NVME_OVER_FC, nvme_nqns i), (NVME_OVER_ROCE, nvme_nqns i), (FC, fc_wwns i), (ISCSI, iscsi_iqns i)]"

definition initiators_iter :: "initiators \<Rightarrow> (str \<times> str) list" where
  "initiators_iter i = concat (map (\<lambda>(t, ports). map (Pair t) ports) (ports_by_type i))"

definition get_by_connectivity_type :: "initiators \<Rightarrow> str \<Rightarrow> str list option" where
  "get_by_connectivity_type i t = map_of (ports_by_type i) t"

definition lower_ports :: "str list \<Rightarrow> str list" where
  "lower_ports ports = map py_lower (filter (\<lambda>p. p \<noteq> []) ports)"

definition is_match :: "str list \<Rightarrow> str list \<Rightarrow> bool" where
  "is_match ports other_ports =
     list_ex (\<lambda>p. p \<in> set (lower_ports (filter_empty_parts other_ports))) (lower_ports ports)"

definition is_array_wwns_match :: "initiators \<Rightarrow> str list \<Rightarrow> bool" where
  "is_array_wwns_match i host_wwns = is_match (fc_wwns i) host_wwns"

definition is_array_iscsi_iqns_match :: "initiators \<Rightarrow> str list \<Rightarrow> bool" where
  "is_array_iscsi_iqns_match i host_iqns = is_match (iscsi_iqns i) host_iqns"

definition is_array_nvme_nqn_match :: "initiators \<Rightarrow> str list \<Rightarrow> bool" where
  "is_array_nvme_nqn_match i host_nqns = is_match (nvme_nqns i) host_nqns"

text \<open>\<open>other_initiators in self\<close>.\<close>

definition initiators_contains :: "initiators \<Rightarrow> initiators \<Rightarrow> bool" where
  "initiators_contains self other =
     (is_array_nvme_nqn_match other (nvme_nqns self) \<or> is_array_wwns_match other (fc_wwns self)
      \<or> is_array_iscsi_iqns_match other (iscsi_iqns self))"

subsection \<open>Reading initiators\<close>

text \<open>What iterating a JSON value gives a list comprehension that strips each element.\<close>

definition json_str :: "json \<Rightarrow> exn + str" where
  "json_str v = (case v of JStr s \<Rightarrow> Inr s | _ \<Rightarrow> Inl (PyErr AttributeError))"

definition json_iter_strs :: "json \<Rightarrow> exn + str list" where
  "json_iter_strs v =
     (case v of
        JArr vs \<Rightarrow> mapR json_str vs
      | JStr s \<Rightarrow> Inr (map (\<lambda>c. [c]) s)
      | JObj ms \<Rightarrow> Inr (map fst ms)
      | _ \<Rightarrow> Inl (PyErr TypeError))"

definition json_get_or :: "json \<Rightarrow> str \<Rightarrow> json \<Rightarrow> exn + json" where
  "json_get_or v k d = (case v of JObj ms \<Rightarrow> Inr (dict_get_or ms k d) | _ \<Rightarrow> Inl (PyErr AttributeError))"

definition loadsR :: "str \<Rightarrow> exn + json" where
  "loadsR s = (case json_loads s of None \<Rightarrow> Inl (PyErr ValueError) | Some v \<Rightarrow> Inr v)"

definition generate_node_initiators_from_string_data :: "str \<Rightarrow> exn + initiators" where
  "generate_node_initiators_from_string_data data =
     bindR (loadsR data) (\<lambda>v.
     bindR (json_get_or v NVME_OVER_FC (JArr [])) (\<lambda>nqns.
     bindR (json_get_or v FC (JArr [])) (\<lambda>wwns.
     bindR (json_get_or v ISCSI (JArr [])) (\<lambda>iqns.
     bindR (json_iter_strs nqns) (\<lambda>nqns.
     bindR (json_iter_strs wwns) (\<lambda>wwns.
     bindR (json_iter_strs iqns) (\<lambda>iqns.
     Inr (mk_initiators nqns wwns iqns))))))))"

definition initiators_json :: "initiators \<Rightarrow> json" where
  "initiators_json i =
     JObj [(NVME_OVER_FC, JArr (map JStr (nvme_nqns i))), (FC, JArr (map JStr (fc_wwns i))),
           (ISCSI, JArr (map JStr (iscsi_iqns i)))]"

definition convert_initiators_to_json_string :: "initiators \<Rightarrow> str" where
  "convert_initiators_to_json_string i = json_dumps_compact (initiators_json i)"

definition has_initiators :: "initiators \<Rightarrow> bool" where
  "has_initiators i = (nvme_nqns i \<noteq> [] \<or> fc_wwns i \<noteq> [] \<or> iscsi_iqns i \<noteq> [])"

definition lower_set :: "str list \<Rightarrow> str set" where
  "lower_set ps = set (map py_lower ps)"

definition compare_initiators :: "initiators \<Rightarrow> initiators \<Rightarrow> str option \<Rightarrow> bool" where
  "compare_initiators i1 i2 protocol =
     (let nvme_equal = (lower_set (nvme_nqns i1) = lower_set (nvme_nqns i2));
          fc_equal = (lower_set (fc_wwns i1) = lower_set (fc_wwns i2));
          iscsi_equal = (lower_set (iscsi_iqns i1) = lower_set (iscsi_iqns i2))
      in if protocol = Some ISCSI then iscsi_equal
         else if protocol = Some FC then fc_equal
         else if protocol = Some NVME_OVER_FC then nvme_equal
         else nvme_equal \<and> fc_equal \<and> iscsi_equal)"

definition are_initiators_equal :: "str \<Rightarrow> str \<Rightarrow> str option \<Rightarrow> bool" where
  "are_initiators_equal s1 s2 protocol =
     (case generate_node_initiators_from_string_data s1 of
        Inl e \<Rightarrow> False
      | Inr i1 \<Rightarrow> (case generate_node_initiators_from_string_data s2 of
           Inl e \<Rightarrow> False
         | Inr i2 \<Rightarrow> compare_initiators i1 i2 protocol))"

text \<open>
  \<open>_parse_initiators_from_legacy_node_id\<close>: \<open>None\<close> when there is no delimiter; the parts that are
  missing are empty.
\<close>

definition parse_initiators_from_legacy_node_id :: "str \<Rightarrow> initiators option" where
  "parse_initiators_from_legacy_node_id node_id =
     (let parts = py_split NODE_ID_DELIMITER node_id in
      if length parts < 2 then None
      else
        (let nvme_nqn = parts ! 1;
             fcs = (if 3 \<le> length parts then parts ! 2 else []);
             wwns = (if fcs \<noteq> [] then py_split FCS_DELIMITER fcs else []);
             iqn = (if 4 \<le> length parts then parts ! 3 else [])
         in Some (mk_initiators (if nvme_nqn \<noteq> [] then [nvme_nqn] else []) wwns
                    (if iqn \<noteq> [] then [iqn] else []))))"

definition get_initiators_with_fallback :: "str \<Rightarrow> str \<Rightarrow> initiators" where
  "get_initiators_with_fallback node_initiators_str node_id_str =
     (let fallback =
        (if node_id_str \<noteq> []
         then (case parse_initiators_from_legacy_node_id node_id_str of
                 Some i \<Rightarrow> i | None \<Rightarrow> mk_initiators [] [] [])
         else mk_initiators [] [] [])
      in if node_initiators_str \<noteq> []
         then (case generate_node_initiators_from_string_data node_initiators_str of
                 Inr i \<Rightarrow> if has_initiators i then i else fallback
               | Inl e \<Rightarrow> fallback)
         else fallback)"

definition get_initiators_from_csi_node :: "str \<Rightarrow> str \<Rightarrow> initiators" where
  "get_initiators_from_csi_node s n = get_initiators_with_fallback s n"

definition get_initiators_from_host_definition :: "str \<Rightarrow> str \<Rightarrow> initiators" where
  "get_initiators_from_host_definition s n = get_initiators_with_fallback s n"

subsection \<open>Initiators of a Kubernetes node\<close>

type_synonym read_node = "str \<Rightarrow> exn + sdict option option"

definition NODE_INITIATORS_FIELD :: str where
  "NODE_INITIATORS_FIELD = ''block.csi.ibm.com/node-initiators''"

definition annotation_get_or :: "sdict option \<Rightarrow> str \<Rightarrow> str \<Rightarrow> exn + str" where
  "annotation_get_or annotations k d =
     (case annotations of None \<Rightarrow> Inl (PyErr AttributeError) | Some a \<Rightarrow> Inr (dict_get_or a k d))"

definition get_node_initiators_data :: "read_node \<Rightarrow> str \<Rightarrow> str option \<Rightarrow> exn + str" where
  "get_node_initiators_data read_node node_name node_id =
     bindR (bindR (read_node node_name) (\<lambda>k8s_node.
              case k8s_node of
                None \<Rightarrow> Inr []
              | Some annotations \<Rightarrow> annotation_get_or annotations NODE_INITIATORS_FIELD []))
       (\<lambda>initiators_data.
         let initiators_data =
           (if initiators_data = [] \<and> truthy node_id
            then (case parse_initiators_from_legacy_node_id (the node_id) of
                    Some i \<Rightarrow> json_dumps (initiators_json i)
                  | None \<Rightarrow> initiators_data)
            else initiators_data)
         in Inr (if initiators_data \<noteq> [] then initiators_data else ''{}''))"

definition get_node_initiators_from_k8s_node :: "sdict option \<Rightarrow> exn + initiators" where
  "get_node_initiators_from_k8s_node annotations =
     bindR (annotation_get_or annotations NODE_INITIATORS_FIELD ''{}'')
       generate_node_initiators_from_string_data"

definition get_node_initiators :: "read_node \<Rightarrow> str \<Rightarrow> initiators" where
  "get_node_initiators read_node node_name =
     (let fallback = (case parse_initiators_from_legacy_node_id node_name of
                        Some i \<Rightarrow> i | None \<Rightarrow> mk_initiators [] [] [])
      in case bindR (get_node_initiators_data read_node node_name None)
                generate_node_initiators_from_string_data of
           Inr i \<Rightarrow> if has_initiators i then i else fallback
         | Inl e \<Rightarrow> fallback)"

subsection \<open>Connectivity types\<close>

definition choose_connectivity_type :: "str list \<Rightarrow> str option" where
  "choose_connectivity_type ts =
     (if NVME_OVER_ROCE \<in> set ts then Some NVME_OVER_ROCE
      else if NVME_OVER_FC \<in> set ts then Some NVME_OVER_FC
      else if FC \<in> set ts then Some FC
      else if ISCSI \<in> set ts then Some ISCSI else None)"

definition get_connectivity_type_by_initiators :: "initiators \<Rightarrow> str option" where
  "get_connectivity_type_by_initiators i =
     (if nvme_nqns i \<noteq> [] then Some NVME_OVER_FC
      else if fc_wwns i \<noteq> [] then Some FC
      else if iscsi_iqns i \<noteq> [] then Some ISCSI else None)"

definition get_initiators_connectivity_type :: "initiators \<Rightarrow> str option \<Rightarrow> str option" where
  "get_initiators_connectivity_type i t =
     (if \<not> truthy t then get_connectivity_type_by_initiators i else t)"

definition validate_connectivity_type :: "str option \<Rightarrow> exn + unit" where
  "validate_connectivity_type t =
     raise_if (truthy t \<and> the t \<notin> {NVME_OVER_FC, NVME_OVER_ROCE, FC, ISCSI})
       (ArrayErr (UnsupportedConnectivityTypeError (the t)))"

definition get_connectivity_type_ports :: "initiators \<Rightarrow> str option \<Rightarrow> exn + str list" where
  "get_connectivity_type_ports i t =
     thenR (validate_connectivity_type t)
       (case (case t of None \<Rightarrow> None | Some s \<Rightarrow> get_by_connectivity_type i s) of
          None \<Rightarrow> Inl (ArrayErr (NoPortFoundByConnectivityType (map snd (initiators_iter i))
                    (case t of None \<Rightarrow> [] | Some s \<Rightarrow> s)))
        | Some ports \<Rightarrow>
            if ports \<noteq> [] then Inr ports
            else Inl (ArrayErr (NoPortFoundByConnectivityType (map snd (initiators_iter i))
                    (case t of None \<Rightarrow> [] | Some s \<Rightarrow> s))))"

subsection \<open>Initiators after their construction\<close>

text \<open>What the constructor establishes: ports without surrounding white space, none empty.\<close>

definition clean_ports :: "str list \<Rightarrow> bool" where
  "clean_ports ps = (\<forall>p \<in> set ps. p \<noteq> [] \<and> py_strip p = p)"

definition initiators_ok :: "initiators \<Rightarrow> bool" where
  "initiators_ok i = (clean_ports (nvme_nqns i) \<and> clean_ports (fc_wwns i) \<and> clean_ports (iscsi_iqns i))"

lemma clean_filter [simp]: "clean_ports (filter_empty_parts ps)"
  by (auto simp: clean_ports_def filter_empty_parts_def)

lemma filter_clean [simp]: "clean_ports ps \<Longrightarrow> filter_empty_parts ps = ps"
  by (induction ps) (auto simp: clean_ports_def filter_empty_parts_def)

lemma mk_initiators_ok [simp]: "initiators_ok (mk_initiators a b c)"
  by (simp add: initiators_ok_def mk_initiators_def)

lemma mk_initiators_fields [simp]:
  "initiators_ok i \<Longrightarrow> mk_initiators (nvme_nqns i) (fc_wwns i) (iscsi_iqns i) = i"
  by (simp add: initiators_ok_def mk_initiators_def)

lemma is_match_clean:
  "clean_ports ps \<Longrightarrow> clean_ports qs \<Longrightarrow>
    is_match ps qs = (\<exists>p \<in> set ps. \<exists>q \<in> set qs. py_lower p = py_lower q)"
  by (auto simp: is_match_def lower_ports_def list_ex_iff clean_ports_def image_iff) (metis+)?

lemma is_match_sym: "clean_ports ps \<Longrightarrow> clean_ports qs \<Longrightarrow> is_match ps qs = is_match qs ps"
  by (simp add: is_match_clean) metis

lemma initiators_contains_iff:
  assumes "initiators_ok i" "initiators_ok j"
  shows "initiators_contains i j =
    ((\<exists>p \<in> set (nvme_nqns i). \<exists>q \<in> set (nvme_nqns j). py_lower p = py_lower q) \<or>
     (\<exists>p \<in> set (fc_wwns i). \<exists>q \<in> set (fc_wwns j). py_lower p = py_lower q) \<or>
     (\<exists>p \<in> set (iscsi_iqns i). \<exists>q \<in> set (iscsi_iqns j). py_lower p = py_lower q))"
  using assms
  by (auto simp: initiators_contains_def is_array_nvme_nqn_match_def is_array_wwns_match_def
      is_array_iscsi_iqns_match_def initiators_ok_def is_match_clean) (metis+)?

lemma initiators_contains_sym:
  "initiators_ok i \<Longrightarrow> initiators_ok j \<Longrightarrow> initiators_contains i j = initiators_contains j i"
  by (auto simp: initiators_contains_iff) (metis+)?

subsection \<open>Round trip through JSON\<close>

lemma json_ok_initiators: "json_ok (initiators_json i)"
  by (auto simp: initiators_json_def connectivity_defs)

lemma mapR_json_str [simp]: "mapR json_str (map JStr xs) = Inr xs"
  by (induction xs) (auto simp: json_str_def)

lemma generate_initiators_json:
  assumes "initiators_ok i" "json_loads s = Some (initiators_json i)"
  shows "generate_node_initiators_from_string_data s = Inr i"
  using assms
  by (simp add: generate_node_initiators_from_string_data_def loadsR_def initiators_json_def
      json_get_or_def dict_get_or_def connectivity_defs json_iter_strs_def)

lemma generate_convert:
  "initiators_ok i \<Longrightarrow>
    generate_node_initiators_from_string_data (convert_initiators_to_json_string i) = Inr i"
  by (rule generate_initiators_json)
     (simp_all add: convert_initiators_to_json_string_def json_dumps_compact_def json_loads_dumps
       json_ok_initiators)

lemma generate_dumps:
  "initiators_ok i \<Longrightarrow> generate_node_initiators_from_string_data (json_dumps (initiators_json i)) = Inr i"
  by (rule generate_initiators_json)
     (simp_all add: json_dumps_def json_loads_dumps json_ok_initiators is_ws_def)

interpretation initiators_text: codec initiators_ok convert_initiators_to_json_string
  "\<lambda>s. case generate_node_initiators_from_string_data s of Inl e \<Rightarrow> None | Inr i \<Rightarrow> Some i"
  by unfold_locales (simp add: generate_convert)

lemma generate_ok: "generate_node_initiators_from_string_data s = Inr i \<Longrightarrow> initiators_ok i"
  by (auto simp: generate_node_initiators_from_string_data_def bindR_Inr_iff)

lemma legacy_ok: "parse_initiators_from_legacy_node_id s = Some i \<Longrightarrow> initiators_ok i"
  by (auto simp: parse_initiators_from_legacy_node_id_def Let_def split: if_splits)

lemma get_node_initiators_ok [simp]: "initiators_ok (get_node_initiators read_node n)"
  by (auto simp: get_node_initiators_def Let_def bindR_Inr_iff intro: generate_ok legacy_ok
      split: sum.splits option.splits)

subsection \<open>Node ids\<close>

lemma node_name_no_delimiter: "CHR '';'' \<notin> set (node_id_info_name s)"
  using py_split_parts [OF hd_in_set [OF py_split_nonempty [of "CHR '';''" s]]]
  by (auto simp: node_id_info_name_def py_contains_char)

lemma node_id_info_name_idem: "node_id_info_name (node_id_info_name s) = node_id_info_name s"
  using node_name_no_delimiter [of s]
  by (simp add: node_id_info_name_def [of "node_id_info_name s"] py_contains_char)

lemma legacy_None_iff: "(parse_initiators_from_legacy_node_id s = None) = (CHR '';'' \<notin> set s)"
proof
  assume "CHR '';'' \<notin> set s"
  then show "parse_initiators_from_legacy_node_id s = None"
    by (simp add: parse_initiators_from_legacy_node_id_def py_split_nodelim)
next
  assume a: "parse_initiators_from_legacy_node_id s = None"
  show "CHR '';'' \<notin> set s"
  proof
    assume "CHR '';'' \<in> set s"
    then have "count_list s CHR '';'' \<noteq> 0" by (simp add: count_list_0_iff)
    then have "\<not> length (py_split CHR '';'' s) < 2" by (simp add: length_py_split)
    with a show False by (simp add: parse_initiators_from_legacy_node_id_def Let_def)
  qed
qed

lemma legacy_parse_fields:
  assumes "CHR '';'' \<notin> set n" "CHR '';'' \<notin> set q" "CHR '';'' \<notin> set w" "CHR '';'' \<notin> set i"
  shows "parse_initiators_from_legacy_node_id (py_join '';'' [n, q, w, i]) =
    Some (mk_initiators (if q \<noteq> [] then [q] else []) (if w \<noteq> [] then py_split CHR '':'' w else [])
            (if i \<noteq> [] then [i] else []))"
proof -
  have "py_split CHR '';'' (py_join '';'' [n, q, w, i]) = [n, q, w, i]"
    using assms by (intro py_split_join) auto
  then show ?thesis by (simp add: parse_initiators_from_legacy_node_id_def del: py_join.simps)
qed

text \<open>The name a \<open>NodeIdInfo\<close> keeps has no delimiter, so the old format is never read from it.\<close>

lemma get_node_initiators_of_name:
  "get_node_initiators read_node (node_id_info_name s) =
    (case bindR (get_node_initiators_data read_node (node_id_info_name s) None)
            generate_node_initiators_from_string_data of
       Inr i \<Rightarrow> i | Inl e \<Rightarrow> mk_initiators [] [] [])"
proof -
  have "parse_initiators_from_legacy_node_id (node_id_info_name s) = None"
    by (simp add: legacy_None_iff node_name_no_delimiter)
  moreover have "i = mk_initiators [] [] []" if "\<not> has_initiators i" for i
    using that by (cases i) (simp add: has_initiators_def mk_initiators_def filter_empty_parts_def)
  ultimately show ?thesis
    by (auto simp: get_node_initiators_def split: sum.splits)
qed

subsection \<open>Comparing initiators\<close>

lemma compare_initiators_sym: "compare_initiators i j p = compare_initiators j i p"
  unfolding compare_initiators_def Let_def
  by (simp only: eq_commute [of "lower_set (nvme_nqns i)" "lower_set (nvme_nqns j)"]
      eq_commute [of "lower_set (fc_wwns i)" "lower_set (fc_wwns j)"]
      eq_commute [of "lower_set (iscsi_iqns i)" "lower_set (iscsi_iqns j)"])

lemma compare_initiators_trans:
  "compare_initiators i j p \<Longrightarrow> compare_initiators j k p \<Longrightarrow> compare_initiators i k p"
  by (simp add: compare_initiators_def Let_def split: if_splits)

lemma are_initiators_equal_convert:
  assumes "initiators_ok i" "initiators_ok j"
  shows "are_initiators_equal (convert_initiators_to_json_string i)
      (convert_initiators_to_json_string j) p = compare_initiators i j p"
  using assms by (simp add: are_initiators_equal_def generate_convert)

lemma are_initiators_equal_sym: "are_initiators_equal s t p = are_initiators_equal t s p"
  by (auto simp: are_initiators_equal_def compare_initiators_sym split: sum.splits)

lemma are_initiators_equal_trans:
  "are_initiators_equal s t p \<Longrightarrow> are_initiators_equal t u p \<Longrightarrow> are_initiators_equal s u p"
  by (auto simp: are_initiators_equal_def intro: compare_initiators_trans split: sum.splits)

lemma get_connectivity_type_ports_Inr:
  "(get_connectivity_type_ports i t = Inr ps) =
    (\<exists>s. t = Some s \<and> get_by_connectivity_type i s = Some ps \<and> ps \<noteq> [])"
proof (cases t)
  case None
  then show ?thesis by (simp add: get_connectivity_type_ports_def thenR_Inr_iff)
next
  case (Some s)
  have "get_by_connectivity_type i s = Some ps \<Longrightarrow> s \<in> {NVME_OVER_FC, NVME_OVER_ROCE, FC, ISCSI}"
    by (auto simp: get_by_connectivity_type_def ports_by_type_def split: if_splits)
  with Some show ?thesis
    by (auto simp: get_connectivity_type_ports_def thenR_Inr_iff validate_connectivity_type_def
        split: option.splits)
qed

lemma connectivity_of_initiators:
  assumes "has_initiators i"
  shows "\<exists>t ps. get_initiators_connectivity_type i None = Some t \<and>
    get_connectivity_type_ports i (Some t) = Inr ps \<and> ps \<noteq> []"
  using assms
  by (auto simp: get_connectivity_type_ports_Inr get_initiators_connectivity_type_def
      get_connectivity_type_by_initiators_def get_by_connectivity_type_def ports_by_type_def
      has_initiators_def connectivity_defs)

subsection \<open>Properties\<close>

text \<open>
  C6. Initiators survive the JSON text the host definer stores them in: the text of
  \<open>convert_initiators_to_json_string\<close> is read back as the same initiators, and
  \<open>are_initiators_equal\<close> on two such texts compares the ports of each kind as sets, ignoring
  case and order.
\<close>

theorem initiators_json_roundtrip:
  "generate_node_initiators_from_string_data (convert_initiators_to_json_string (mk_initiators a b c))
     = Inr (mk_initiators a b c) \<and>
   are_initiators_equal (convert_initiators_to_json_string (mk_initiators a b c))
     (convert_initiators_to_json_string (mk_initiators d e f)) None =
     (lower_set (filter_empty_parts a) = lower_set (filter_empty_parts d) \<and>
      lower_set (filter_empty_parts b) = lower_set (filter_empty_parts e) \<and>
      lower_set (filter_empty_parts c) = lower_set (filter_empty_parts f))"
  by (simp add: generate_convert are_initiators_equal_convert)
     (simp add: compare_initiators_def mk_initiators_def)

text \<open>
  Matching a host against a node is symmetric and ignores case: two initiator objects match
  when they share a port of one kind up to case, in whichever order they are compared.
\<close>

theorem initiators_match_symmetric:
  "initiators_contains (mk_initiators a b c) (mk_initiators d e f) =
   initiators_contains (mk_initiators d e f) (mk_initiators a b c)"
  by (rule initiators_contains_sym) simp_all

text \<open>
  For a name a \<open>NodeIdInfo\<close> extracted, \<open>get_node_initiators\<close> never uses the ports written in
  an old-style node id: the result is what the annotation of the node holds, or nothing, although
  the old-style parser would have read the ports from the full id.
\<close>

theorem node_name_has_no_legacy_ports:
  "get_node_initiators read_node (node_id_info_name s) =
    (case bindR (get_node_initiators_data read_node (node_id_info_name s) None)
            generate_node_initiators_from_string_data of
       Inr i \<Rightarrow> i | Inl e \<Rightarrow> mk_initiators [] [] []) \<and>
   (parse_initiators_from_legacy_node_id s \<noteq> None) = (CHR '';'' \<in> set s)"
  using get_node_initiators_of_name [of read_node s] legacy_None_iff [of s] by auto

end
