(* ===== verification/Ids.thy ===== *)
theory Ids
  imports Types
begin

text \<open>
  The ids the driver hands out and gets back (\<open>servers/utils.py\<close>): the id of a volume, snapshot
  or volume group is \<open>array_type:[system_id:]internal_id;uid\<close>, and \<open>get_object_id_info\<close> takes it
  apart again; the names of new objects; and the two forms of a volume uid of
  \<open>array_action/utils.py\<close>.  The lemmas show the round trip, when an id is accepted, its length,
  and the bound on names.
\<close>

subsection \<open>Writing an id\<close>

definition normalize_utf8_text :: "str option \<Rightarrow> str" where
  "normalize_utf8_text v = (case v of None \<Rightarrow> [] | Some s \<Rightarrow> s)"

definition get_object_id :: "str \<Rightarrow> str \<Rightarrow> str \<Rightarrow> str option \<Rightarrow> str" where
  "get_object_id array_type internal_id strong_id system_id =
     (let internal = normalize_utf8_text (Some internal_id);
          strong = normalize_utf8_text (Some strong_id);
          ids_value = py_join [OBJECT_IDS_DELIMITER] [internal, strong];
          arr = normalize_utf8_text (Some array_type)
      in if truthy system_id
         then py_join [OBJECT_ID_INFO_DELIMITER] [arr, normalize_utf8_text system_id, ids_value]
         else py_join [OBJECT_ID_INFO_DELIMITER] [arr, ids_value])"

definition get_volume_id :: "'a volume_scheme \<Rightarrow> str option \<Rightarrow> str" where
  "get_volume_id v system_id =
     get_object_id (vol_array_type v) (vol_internal_id v) (vol_id v) system_id"

definition get_snapshot_id :: "snapshot \<Rightarrow> str option \<Rightarrow> str" where
  "get_snapshot_id v system_id =
     get_object_id (vol_array_type v) (vol_internal_id v) (vol_id v) system_id"

definition get_thin_volume_id :: "thin_volume \<Rightarrow> str option \<Rightarrow> str" where
  "get_thin_volume_id v system_id =
     get_object_id (thin_array_type v) (thin_internal_id v) (thin_id v) system_id"

definition get_volume_group_id :: "volume_group \<Rightarrow> str option \<Rightarrow> str" where
  "get_volume_group_id g system_id =
     get_object_id (vg_array_type g) (vg_internal_id g) (vg_name g) system_id"

subsection \<open>Reading an id\<close>

definition split_ids :: "str \<Rightarrow> str \<Rightarrow> str \<Rightarrow> exn + (str option \<times> str)" where
  "split_ids object_type full_object_id object_id =
     (case py_split OBJECT_IDS_DELIMITER object_id of
        [strong_id] \<Rightarrow> Inr (None, strong_id)
      | [internal_id, strong_id] \<Rightarrow> Inr (Some internal_id, strong_id)
      | _ \<Rightarrow> Inl (ObjectIdError object_type full_object_id))"

definition get_object_id_info :: "str \<Rightarrow> str \<Rightarrow> exn + object_id_info" where
  "get_object_id_info full_object_id object_type =
     bindR
       (case py_split OBJECT_ID_INFO_DELIMITER full_object_id of
          [array_type, object_id] \<Rightarrow> Inr (array_type, None, object_id)
        | [array_type, system_id, object_id] \<Rightarrow> Inr (array_type, Some system_id, object_id)
        | _ \<Rightarrow> Inl (ObjectIdError object_type full_object_id))
       (\<lambda>(array_type, system_id, object_id).
         bindR (split_ids object_type full_object_id object_id)
           (\<lambda>(internal_id, strong_id).
             Inr (if object_type = VOLUME_GROUP_TYPE_NAME
                  then \<lparr>oi_array_type = array_type, oi_system_id = None,
                        oi_internal_id = internal_id, oi_uid = strong_id\<rparr>
                  else \<lparr>oi_array_type = array_type, oi_system_id = system_id,
                        oi_internal_id = internal_id, oi_uid = strong_id\<rparr>)))"

definition get_volume_id_info :: "str \<Rightarrow> exn + object_id_info" where
  "get_volume_id_info volume_id = get_object_id_info volume_id VOLUME_TYPE_NAME"

definition get_snapshot_id_info :: "str \<Rightarrow> exn + object_id_info" where
  "get_snapshot_id_info snapshot_id = get_object_id_info snapshot_id SNAPSHOT_TYPE_NAME"

definition get_volume_group_id_info :: "str \<Rightarrow> exn + object_id_info" where
  "get_volume_group_id_info volume_group_id =
     get_object_id_info volume_group_id VOLUME_GROUP_TYPE_NAME"

definition validate_object_id :: "str \<Rightarrow> str \<Rightarrow> validation_msg \<Rightarrow> exn + unit" where
  "validate_object_id object_id object_type message =
     thenR (raise_if (object_id = []) (ValidationException message))
    (thenR (raise_if (\<not> py_contains object_id [OBJECT_ID_INFO_DELIMITER])
              (ObjectIdError object_type object_id))
      (raise_if (length (py_split OBJECT_ID_INFO_DELIMITER object_id) \<notin> {2, 3})
         (ValidationException (WRONG_FORMAT ''volume id''))))"

subsection \<open>Round trip\<close>

text \<open>What the parts of an id must not contain for it to be read back.\<close>

definition id_part :: "str \<Rightarrow> bool" where
  "id_part s = (OBJECT_ID_INFO_DELIMITER \<notin> set s \<and> OBJECT_IDS_DELIMITER \<notin> set s)"

lemma split_object_ids:
  assumes "id_part i" "id_part u"
  shows "py_split CHR '':'' (py_join [CHR '';''] [i, u]) = [py_join [CHR '';''] [i, u]]"
    "py_split CHR '';'' (py_join [CHR '';''] [i, u]) = [i, u]"
  using assms by (auto simp: id_part_def py_split_nodelim py_split_append)

lemma get_object_id_roundtrip:
  assumes "id_part a" "id_part i" "id_part u" "\<forall>s. system_id = Some s \<longrightarrow> id_part s"
  shows "get_object_id_info (get_object_id a i u system_id) t =
    Inr \<lparr>oi_array_type = a,
         oi_system_id = (if truthy system_id \<and> t \<noteq> VOLUME_GROUP_TYPE_NAME then system_id else None),
         oi_internal_id = Some i, oi_uid = u\<rparr>"
proof -
  let ?ids = "py_join [CHR '';''] [i, u]"
  have a: "CHR '':'' \<notin> set a" using assms(1) by (simp add: id_part_def)
  show ?thesis
  proof (cases "truthy system_id")
    case True
    then obtain s where s: "system_id = Some s" by (cases system_id) auto
    with assms(4) have "CHR '':'' \<notin> set s" by (simp add: id_part_def)
    then have "py_split CHR '':'' (get_object_id a i u system_id) = [a, s, ?ids]"
      using True s a split_object_ids [OF assms(2,3)]
      by (simp add: get_object_id_def normalize_utf8_text_def Let_def py_split_append)
    with True s split_object_ids [OF assms(2,3)] show ?thesis
      by (simp add: get_object_id_info_def split_ids_def)
  next
    case False
    then have "py_split CHR '':'' (get_object_id a i u system_id) = [a, ?ids]"
      using a split_object_ids [OF assms(2,3)]
      by (simp add: get_object_id_def normalize_utf8_text_def Let_def py_split_append)
    with False split_object_ids [OF assms(2,3)] show ?thesis
      by (simp add: get_object_id_info_def split_ids_def)
  qed
qed

text \<open>The id of a volume as an encoding of the parts the driver reads back.\<close>

definition oi_ok :: "object_id_info \<Rightarrow> bool" where
  "oi_ok i = (id_part (oi_array_type i) \<and> id_part (oi_uid i) \<and>
     (\<exists>x. oi_internal_id i = Some x \<and> id_part x) \<and>
     (oi_system_id i = None \<or> (\<exists>s. oi_system_id i = Some s \<and> s \<noteq> [] \<and> id_part s)))"

definition oi_enc :: "object_id_info \<Rightarrow> str" where
  "oi_enc i = get_object_id (oi_array_type i) (normalize_utf8_text (oi_internal_id i)) (oi_uid i)
     (oi_system_id i)"

definition oi_dec :: "str \<Rightarrow> object_id_info option" where
  "oi_dec s = (case get_volume_id_info s of Inl e \<Rightarrow> None | Inr i \<Rightarrow> Some i)"

interpretation volume_ids: codec oi_ok oi_enc oi_dec
proof unfold_locales
  fix x assume ok: "oi_ok x"
  then obtain i where i: "oi_internal_id x = Some i" "id_part i" by (auto simp: oi_ok_def)
  have "get_volume_id_info (oi_enc x) = Inr x"
    using ok i get_object_id_roundtrip [of "oi_array_type x" i "oi_uid x" "oi_system_id x" VOLUME_TYPE_NAME]
    by (auto simp: oi_ok_def oi_enc_def get_volume_id_info_def normalize_utf8_text_def type_name_defs)
  then show "oi_dec (oi_enc x) = Some x" by (simp add: oi_dec_def)
qed

subsection \<open>Which ids are accepted\<close>

lemma validate_object_id_Inr:
  "(validate_object_id s t m = Inr ()) = (count_list s CHR '':'' \<in> {1, 2})"
proof (cases "count_list s CHR '':'' = 0")
  case True
  then have "\<not> py_contains s [CHR '':'']" by (simp add: py_contains_char count_list_0_iff)
  then show ?thesis using True by (simp add: validate_object_id_def thenR_Inr_iff)
next
  case False
  then have "py_contains s [CHR '':'']" "s \<noteq> []"
    by (auto simp: py_contains_char count_list_0_iff)
  then show ?thesis by (simp add: validate_object_id_def length_py_split)
qed

lemma length_2_conv: "length xs = 2 \<Longrightarrow> \<exists>a b. xs = [a, b]"
  by (cases xs; cases "tl xs") (auto simp: numeral_2_eq_2)

lemma length_3_conv: "length xs = 3 \<Longrightarrow> \<exists>a b c. xs = [a, b, c]"
  by (cases xs; cases "tl xs"; cases "tl (tl xs)") (auto simp: numeral_3_eq_3)

lemma split_ids_cases:
  "split_ids t full s = (if count_list s CHR '';'' = 0 then Inr (None, s)
     else if count_list s CHR '';'' = 1
     then Inr (Some (hd (py_split CHR '';'' s)), last (py_split CHR '';'' s))
     else Inl (ObjectIdError t full))"
proof -
  consider "count_list s CHR '';'' = 0" | "count_list s CHR '';'' = 1" | "2 \<le> count_list s CHR '';''"
    by linarith
  then show ?thesis
  proof cases
    case 1
    then show ?thesis by (simp add: split_ids_def py_split_nodelim count_list_0_iff)
  next
    case 2
    then obtain a b where "py_split CHR '';'' s = [a, b]"
      using length_2_conv [of "py_split CHR '';'' s"] by (auto simp: length_py_split)
    with 2 show ?thesis by (simp add: split_ids_def)
  next
    case 3
    then have "3 \<le> length (py_split CHR '';'' s)" by (simp add: length_py_split)
    then obtain a b c r where "py_split CHR '';'' s = a # b # c # r"
      by (metis Suc_le_length_iff numeral_3_eq_3)
    with 3 show ?thesis by (simp add: split_ids_def)
  qed
qed

lemma get_object_id_info_parts:
  assumes "get_object_id_info s t = Inr i"
  shows "count_list s CHR '':'' \<in> {1, 2}"
proof -
  let ?p = "py_split CHR '':'' s"
  have "(\<exists>a b. ?p = [a, b]) \<or> (\<exists>a b c. ?p = [a, b, c])"
    using assms by (auto simp: get_object_id_info_def bindR_Inr_iff split: list.splits)
  then show ?thesis using length_py_split [of "CHR '':''" s] by auto
qed

subsection \<open>Names of new objects\<close>

text \<open>
  What \<open>get_object_final_name\<close> reads of a mediator.  \<open>hash_string\<close>, the base58 text of a
  SHA-256 digest, is a parameter.
\<close>

record name_limits =
  max_object_prefix_length :: nat
  max_object_name_length :: nat
  default_object_prefix :: "str option"

definition join_object_prefix_with_name :: "str option \<Rightarrow> str \<Rightarrow> str" where
  "join_object_prefix_with_name prefix name =
     (if truthy prefix then py_join ''_'' [the prefix, name] else name)"

definition get_object_final_name ::
  "(str \<Rightarrow> str) \<Rightarrow> name_limits \<Rightarrow> str option \<Rightarrow> str \<Rightarrow> str \<Rightarrow> exn + str" where
  "get_object_final_name hash_string lim parameters_prefix name object_type =
     (if truthy parameters_prefix \<and> max_object_prefix_length lim < length (the parameters_prefix)
      then Inl (ArrayErr (InvalidArgumentError
             (''The '' @ object_type @ '' name prefix '' @ the parameters_prefix @
              '' is too long, max allowed length is '' @ nat_str (max_object_prefix_length lim))))
      else
        (let prefix = (if truthy parameters_prefix then parameters_prefix else default_object_prefix lim);
             full_name = join_object_prefix_with_name prefix name;
             full_name = (if max_object_name_length lim < length full_name
                          then join_object_prefix_with_name prefix (hash_string name) else full_name)
         in Inr (take (max_object_name_length lim) full_name)))"

lemma final_name_error_iff:
  "(\<exists>e. get_object_final_name h lim p n t = Inl e) =
     (\<exists>s. p = Some s \<and> s \<noteq> [] \<and> max_object_prefix_length lim < length s)"
  by (cases p) (auto simp: get_object_final_name_def Let_def)

lemma final_name_length:
  "get_object_final_name h lim p n t = Inr r \<Longrightarrow> length r \<le> max_object_name_length lim"
  by (auto simp: get_object_final_name_def Let_def split: if_splits)

lemma final_name_exact:
  assumes "p = Some s" "s \<noteq> []" "length s \<le> max_object_prefix_length lim"
    "length s + 1 + length n \<le> max_object_name_length lim"
  shows "get_object_final_name h lim p n t = Inr (s @ ''_'' @ n)"
  using assms by (simp add: get_object_final_name_def join_object_prefix_with_name_def Let_def)

lemma final_name_prefix:
  assumes "p = Some s" "s \<noteq> []" "max_object_prefix_length lim < max_object_name_length lim"
    "get_object_final_name h lim p n t = Inr r"
  shows "take (length s + 1) r = s @ ''_''"
  using assms
  by (auto simp: get_object_final_name_def join_object_prefix_with_name_def Let_def split: if_splits)

subsection \<open>SCSI and NVMe forms of a volume uid\<close>

definition convert_scsi_id_to_nguid :: "str \<Rightarrow> str" where
  "convert_scsi_id_to_nguid volume_id =
     (let oui = py_slice 1 7 volume_id;
          vendor_identifier = py_slice 7 16 volume_id;
          vendor_identifier_extension = drop 16 volume_id
      in vendor_identifier_extension @ oui @ ''0'' @ vendor_identifier)"

definition convert_nguid_to_scsi_id :: "str \<Rightarrow> str" where
  "convert_nguid_to_scsi_id volume_id =
     (let oui = py_slice 16 22 volume_id;
          vendor_identifier = py_last_n 9 volume_id;
          vendor_identifier_extension = take 16 volume_id
      in oui @ vendor_identifier @ vendor_identifier_extension)"

lemma nguid_parts:
  assumes "length v = 32"
  shows "convert_scsi_id_to_nguid v = drop 16 v @ take 6 (drop 1 v) @ ''0'' @ take 9 (drop 7 v)"
  using assms by (simp add: convert_scsi_id_to_nguid_def py_slice_def drop_take Let_def)

lemma nguid_length: "length v = 32 \<Longrightarrow> length (convert_scsi_id_to_nguid v) = 32"
  by (simp add: nguid_parts)

lemma nguid_to_scsi_drops_first:
  assumes "length v = 32"
  shows "convert_nguid_to_scsi_id (convert_scsi_id_to_nguid v) = tl v"
proof -
  let ?b = "take 6 (drop 1 v)" and ?c = "take 9 (drop 7 v)" and ?d = "drop 16 v"
  have "drop 1 v = ?b @ drop 6 (drop 1 v)" by (rule append_take_drop_id [symmetric])
  moreover have "drop 7 v = ?c @ drop 9 (drop 7 v)" by (rule append_take_drop_id [symmetric])
  moreover have "drop 1 v = tl v" by (cases v) simp_all
  ultimately have v: "tl v = ?b @ ?c @ ?d" by (simp add: drop_drop)
  have "length ?b = 6" "length ?c = 9" "length ?d = 16" using assms by simp_all
  then show ?thesis
    unfolding nguid_parts [OF assms] v convert_nguid_to_scsi_id_def py_slice_def py_last_n_def
    by simp
qed

subsection \<open>Properties\<close>

text \<open>
  The name of a new object never exceeds what the storage system accepts, whatever the hash
  gives; a prefix of the parameters longer than the allowed prefix is refused; and a prefix and
  a name that fit are kept as they are, joined by an underscore.
\<close>

theorem final_name_spec:
  assumes "get_object_final_name h lim p n t = Inr r"
  shows "length r \<le> max_object_name_length lim \<and>
    (truthy p \<longrightarrow> length (the p) \<le> max_object_prefix_length lim) \<and>
    (truthy p \<longrightarrow> length (the p) + 1 + length n \<le> max_object_name_length lim \<longrightarrow> r = the p @ ''_'' @ n)"
  using assms
  by (cases p)
     (auto simp: get_object_final_name_def join_object_prefix_with_name_def Let_def split: if_splits)

theorem final_name_spec_witness:
  "\<exists>r. get_object_final_name (\<lambda>s. ''h'')
        \<lparr>max_object_prefix_length = 20, max_object_name_length = 63, default_object_prefix = None\<rparr>
        (Some ''pre'') ''pvc-1'' ''volume'' = Inr r \<and> r = ''pre_pvc-1''"
proof -
  let ?l = "\<lparr>max_object_prefix_length = 20, max_object_name_length = 63, default_object_prefix = None\<rparr>"
  obtain r where r: "get_object_final_name (\<lambda>s. ''h'') ?l (Some ''pre'') ''pvc-1'' ''volume'' = Inr r"
    by (simp add: get_object_final_name_def Let_def)
  from final_name_spec [OF r] r show ?thesis by simp
qed

text \<open>
  Converting a 32-character SCSI uid to the NVMe form keeps its length, and converting it back
  gives the uid without its first character (the code that looks volumes up by the NVMe form has
  to search for a part of the uid).
\<close>

theorem nguid_roundtrip:
  assumes "length v = 32"
  shows "length (convert_scsi_id_to_nguid v) = 32 \<and>
    convert_nguid_to_scsi_id (convert_scsi_id_to_nguid v) = tl v"
  using nguid_length [OF assms] nguid_to_scsi_drops_first [OF assms] by simp

theorem nguid_roundtrip_witness:
  "convert_nguid_to_scsi_id (convert_scsi_id_to_nguid ''60050768108106A7C800000000000A1B'')
     = ''0050768108106A7C800000000000A1B''"
  using nguid_roundtrip [of "''60050768108106A7C800000000000A1B''"] by simp

end
