(* ===== verification/Mediator.thy ===== *)
theory Mediator
  imports NodeInitiators Ids
begin

text \<open>
  The interface between the servers and the storage systems
  (\<open>array_action/array_mediator_interface.py\<close>, \<open>volume_group_interface.py\<close>) as a record of the
  operations of a mediator over the state \<open>'s\<close> of its storage system, and the methods every
  mediator inherits (\<open>array_action/array_mediator_abstract.py\<close>), which call those operations.

  The decorators \<open>retry(E, tries, delay)\<close> are a third-party package; where a method has one, the
  body is a definition of its own and the decorator is a parameter.
\<close>

subsection \<open>The interface\<close>

record host =
  host_name :: str
  host_connectivity_types :: "str list"
  host_initiators :: initiators

text \<open>What a host needs of the storage system to reach a volume: ports, or targets with addresses.\<close>

datatype array_initiators = PortList "str list" | TargetMap "(str \<times> str list) list"

fun array_initiators_truthy :: "array_initiators \<Rightarrow> bool" where
  "array_initiators_truthy (PortList ps) = (ps \<noteq> [])"
| "array_initiators_truthy (TargetMap ts) = (ts \<noteq> [])"

text \<open>
  \<open>get_object_by_id\<close> gives a volume or a snapshot, here the part they share; for the type
  \<open>volumegroup\<close> it is the separate operation \<open>md_get_group_object\<close>.  Mappings are the pairs of a
  host name and a LUN.  Of the I/O groups of a host the ids are read.
\<close>

record 's mediator =
  md_limits :: name_limits
  md_minimal_volume_size_in_bytes :: int
  md_maximal_volume_size_in_bytes :: int
  md_max_lun_retries :: nat
  md_endpoint :: str
  md_get_volume :: "str \<Rightarrow> str option \<Rightarrow> bool \<Rightarrow> ('s, volume) prog"
  md_create_volume :: "str \<Rightarrow> int \<Rightarrow> str option \<Rightarrow> str \<Rightarrow> str option \<Rightarrow> str option \<Rightarrow> object_ids \<Rightarrow>
     str option \<Rightarrow> bool \<Rightarrow> str option \<Rightarrow> str option \<Rightarrow> sdict \<Rightarrow> ('s, volume) prog"
  md_copy_to_existing_volume :: "str \<Rightarrow> str \<Rightarrow> int \<Rightarrow> int \<Rightarrow> ('s, unit) prog"
  md_delete_volume :: "str \<Rightarrow> str option \<Rightarrow> ('s, unit) prog"
  md_expand_volume :: "str \<Rightarrow> int \<Rightarrow> str option \<Rightarrow> ('s, unit) prog"
  md_get_volume_mappings :: "str \<Rightarrow> ('s, (str \<times> str) list) prog"
  md_map_volume :: "str \<Rightarrow> str \<Rightarrow> str option \<Rightarrow> ('s, str) prog"
  md_unmap_volume :: "str \<Rightarrow> str \<Rightarrow> ('s, unit) prog"
  md_get_snapshot :: "str \<Rightarrow> str \<Rightarrow> str option \<Rightarrow> bool \<Rightarrow> ('s, snapshot option) prog"
  md_get_object_by_id :: "str \<Rightarrow> str option \<Rightarrow> bool \<Rightarrow> ('s, volume option) prog"
  md_get_group_object :: "str option \<Rightarrow> ('s, volume_group option) prog"
  md_create_snapshot :: "str \<Rightarrow> str \<Rightarrow> str option \<Rightarrow> str option \<Rightarrow> bool \<Rightarrow> str option \<Rightarrow> int option \<Rightarrow>
     ('s, snapshot) prog"
  md_delete_snapshot :: "str \<Rightarrow> str option \<Rightarrow> str option \<Rightarrow> ('s, unit) prog"
  md_get_iscsi_targets_by_iqn :: "str \<Rightarrow> ('s, (str \<times> str list) list) prog"
  md_get_array_fc_wwns :: "str \<Rightarrow> ('s, str list) prog"
  md_get_nvme_target_ports :: "('s, str list) prog"
  md_get_host_by_host_identifiers :: "initiators \<Rightarrow> ('s, str \<times> str list) prog"
  md_get_host_by_name :: "str \<Rightarrow> ('s, host) prog"
  md_create_host :: "str \<Rightarrow> initiators \<Rightarrow> str option \<Rightarrow> str \<Rightarrow> str option \<Rightarrow> str option \<Rightarrow> ('s, unit) prog"
  md_delete_host :: "str \<Rightarrow> ('s, unit) prog"
  md_add_ports_to_host :: "str \<Rightarrow> initiators \<Rightarrow> str option \<Rightarrow> ('s, unit) prog"
  md_remove_ports_from_host :: "str \<Rightarrow> str list \<Rightarrow> str option \<Rightarrow> ('s, unit) prog"
  md_get_host_connectivity_ports :: "str \<Rightarrow> str option \<Rightarrow> ('s, str list) prog"
  md_get_host_connectivity_type :: "str \<Rightarrow> ('s, str option) prog"
  md_get_host_io_group :: "str \<Rightarrow> ('s, str list option) prog"
  md_add_io_group_to_host :: "str \<Rightarrow> str \<Rightarrow> ('s, unit) prog"
  md_remove_io_group_from_host :: "str \<Rightarrow> str \<Rightarrow> ('s, unit) prog"
  md_change_host_protocol :: "str \<Rightarrow> str \<Rightarrow> ('s, unit) prog"
  md_verify_host_partition :: "str \<Rightarrow> str option \<Rightarrow> ('s, bool) prog"
  md_validate_supported_space_efficiency :: "str option \<Rightarrow> ('s, unit) prog"
  md_get_replication :: "replication_request \<Rightarrow> ('s, replication option) prog"
  md_create_replication :: "replication_request \<Rightarrow> ('s, unit) prog"
  md_delete_replication :: "replication \<Rightarrow> ('s, unit) prog"
  md_promote_replication_volume :: "replication \<Rightarrow> ('s, unit) prog"
  md_demote_replication_volume :: "replication \<Rightarrow> ('s, unit) prog"
  md_get_volume_group :: "str \<Rightarrow> ('s, volume_group) prog"
  md_create_volume_group :: "str \<Rightarrow> str option \<Rightarrow> ('s, volume_group) prog"
  md_delete_volume_group :: "str \<Rightarrow> ('s, unit) prog"
  md_add_volume_to_volume_group :: "str \<Rightarrow> str \<Rightarrow> str option \<Rightarrow> ('s, unit) prog"
  md_remove_volume_from_volume_group :: "str \<Rightarrow> str option \<Rightarrow> str option \<Rightarrow> ('s, unit) prog"
  md_verify_volume_partition :: "str \<Rightarrow> str option \<Rightarrow> str option \<Rightarrow> ('s, unit) prog"
  md_verify_volume_group_partition :: "str \<Rightarrow> str option \<Rightarrow> str option \<Rightarrow> ('s, unit) prog"
  md_register_plugin :: "str \<Rightarrow> str \<Rightarrow> ('s, unit) prog"
  md_get_array_initiators :: "str \<Rightarrow> str option \<Rightarrow> ('s, array_initiators) prog"

text \<open>
  The interface class itself: every operation raises \<open>NotImplementedError\<close>.  The properties have
  the values of the abstract class.
\<close>

definition array_mediator_interface :: "str \<Rightarrow> 's mediator" where
  "array_mediator_interface endpoint = \<lparr>
     md_limits = \<lparr>max_object_prefix_length = 0, max_object_name_length = 30, default_object_prefix = None\<rparr>,
     md_minimal_volume_size_in_bytes = 1,
     md_maximal_volume_size_in_bytes = 2 ^ 64,
     md_max_lun_retries = 10,
     md_endpoint = endpoint,
     md_get_volume = (\<lambda>_ _ _. raiseE (PyErr NotImplementedError)),
     md_create_volume = (\<lambda>_ _ _ _ _ _ _ _ _ _ _ _. raiseE (PyErr NotImplementedError)),
     md_copy_to_existing_volume = (\<lambda>_ _ _ _. raiseE (PyErr NotImplementedError)),
     md_delete_volume = (\<lambda>_ _. raiseE (PyErr NotImplementedError)),
     md_expand_volume = (\<lambda>_ _ _. raiseE (PyErr NotImplementedError)),
     md_get_volume_mappings = (\<lambda>_. raiseE (PyErr NotImplementedError)),
     md_map_volume = (\<lambda>_ _ _. raiseE (PyErr NotImplementedError)),
     md_unmap_volume = (\<lambda>_ _. raiseE (PyErr NotImplementedError)),
     md_get_snapshot = (\<lambda>_ _ _ _. raiseE (PyErr NotImplementedError)),
     md_get_object_by_id = (\<lambda>_ _ _. raiseE (PyErr NotImplementedError)),
     md_get_group_object = (\<lambda>_. raiseE (PyErr NotImplementedError)),
     md_create_snapshot = (\<lambda>_ _ _ _ _ _ _. raiseE (PyErr NotImplementedError)),
     md_delete_snapshot = (\<lambda>_ _ _. raiseE (PyErr NotImplementedError)),
     md_get_iscsi_targets_by_iqn = (\<lambda>_. raiseE (PyErr NotImplementedError)),
     md_get_array_fc_wwns = (\<lambda>_. raiseE (PyErr NotImplementedError)),
     md_get_nvme_target_ports = raiseE (PyErr NotImplementedError),
     md_get_host_by_host_identifiers = (\<lambda>_. raiseE (PyErr NotImplementedError)),
     md_get_host_by_name = (\<lambda>_. raiseE (PyErr NotImplementedError)),
     md_create_host = (\<lambda>_ _ _ _ _ _. raiseE (PyErr NotImplementedError)),
     md_delete_host = (\<lambda>_. raiseE (PyErr NotImplementedError)),
     md_add_ports_to_host = (\<lambda>_ _ _. raiseE (PyErr NotImplementedError)),
     md_remove_ports_from_host = (\<lambda>_ _ _. raiseE (PyErr NotImplementedError)),
     md_get_host_connectivity_ports = (\<lambda>_ _. raiseE (PyErr NotImplementedError)),
     md_get_host_connectivity_type = (\<lambda>_. raiseE (PyErr NotImplementedError)),
     md_get_host_io_group = (\<lambda>_. raiseE (PyErr NotImplementedError)),
     md_add_io_group_to_host = (\<lambda>_ _. raiseE (PyErr NotImplementedError)),
     md_remove_io_group_from_host = (\<lambda>_ _. raiseE (PyErr NotImplementedError)),
     md_change_host_protocol = (\<lambda>_ _. raiseE (PyErr NotImplementedError)),
     md_verify_host_partition = (\<lambda>_ _. raiseE (PyErr NotImplementedError)),
     md_validate_supported_space_efficiency = (\<lambda>_. raiseE (PyErr NotImplementedError)),
     md_get_replication = (\<lambda>_. raiseE (PyErr NotImplementedError)),
     md_create_replication = (\<lambda>_. raiseE (PyErr NotImplementedError)),
     md_delete_replication = (\<lambda>_. raiseE (PyErr NotImplementedError)),
     md_promote_replication_volume = (\<lambda>_. raiseE (PyErr NotImplementedError)),
     md_demote_replication_volume = (\<lambda>_. raiseE (PyErr NotImplementedError)),
     md_get_volume_group = (\<lambda>_. raiseE (PyErr NotImplementedError)),
     md_create_volume_group = (\<lambda>_ _. raiseE (PyErr NotImplementedError)),
     md_delete_volume_group = (\<lambda>_. raiseE (PyErr NotImplementedError)),
     md_add_volume_to_volume_group = (\<lambda>_ _ _. raiseE (PyErr NotImplementedError)),
     md_remove_volume_from_volume_group = (\<lambda>_ _ _. raiseE (PyErr NotImplementedError)),
     md_verify_volume_partition = (\<lambda>_ _ _. raiseE (PyErr NotImplementedError)),
     md_verify_volume_group_partition = (\<lambda>_ _ _. raiseE (PyErr NotImplementedError)),
     md_register_plugin = (\<lambda>_ _. raiseE (PyErr NotImplementedError)),
     md_get_array_initiators = (\<lambda>_ _. raiseE (PyErr NotImplementedError))\<rparr>"

subsection \<open>Choosing LUNs\<close>

text \<open>
  A mediator that maps a volume chooses one of the LUNs that are free on the host.  The contract of
  the choice is that its candidates are not in use; what the callers rely on is that mappings made
  one after another get LUNs of their own.
\<close>

fun pick_luns :: "('l list \<Rightarrow> 'l list) \<Rightarrow> nat list \<Rightarrow> 'l list \<Rightarrow> 'l list option" where
  "pick_luns candidates [] in_use = Some in_use"
| "pick_luns candidates (n # ns) in_use =
     (if n < length (candidates in_use) then pick_luns candidates ns (candidates in_use ! n # in_use) else None)"

locale lun_choice =
  fixes candidates :: "'l list \<Rightarrow> 'l list"
  assumes candidates_fresh: "l \<in> set (candidates in_use) \<Longrightarrow> l \<notin> set in_use"
begin

lemma chosen_fresh: "n < length (candidates in_use) \<Longrightarrow> candidates in_use ! n \<notin> set in_use"
  by (simp add: candidates_fresh)

lemma picks_distinct:
  "pick_luns candidates ns in_use = Some luns \<Longrightarrow> distinct in_use \<Longrightarrow>
   distinct luns \<and> set in_use \<subseteq> set luns \<and> length luns = length in_use + length ns"
  by (induction ns arbitrary: in_use) (fastforce simp: chosen_fresh split: if_splits)+

end

subsection \<open>Inherited methods\<close>

definition abstract_get_array_initiators :: "'s mediator \<Rightarrow> str \<Rightarrow> str option \<Rightarrow> ('s, array_initiators) prog" where
  "abstract_get_array_initiators md hname connectivity_type =
     (if connectivity_type = Some NVME_OVER_FC
      then bindE (md_get_nvme_target_ports md) (\<lambda>ps. ret (PortList ps))
      else if connectivity_type = Some FC
      then bindE (md_get_array_fc_wwns md hname) (\<lambda>ps. ret (PortList ps))
      else if connectivity_type = Some ISCSI
      then bindE (md_get_iscsi_targets_by_iqn md hname) (\<lambda>ts. ret (TargetMap ts))
      else raiseE (ArrayErr (UnsupportedConnectivityTypeError
             (case connectivity_type of None \<Rightarrow> ''None'' | Some t \<Rightarrow> t))))"

text \<open>The loop over the hosts a volume is mapped to: the first that shares a port with the node.\<close>

fun find_mapped_host ::
  "'s mediator \<Rightarrow> initiators \<Rightarrow> (str \<times> str) list \<Rightarrow> ('s, (str \<times> host) option) prog" where
  "find_mapped_host md inits [] = ret None"
| "find_mapped_host md inits ((mapping_host_name, lun) # rest) =
     bindE (md_get_host_by_name md mapping_host_name) (\<lambda>host.
       if initiators_contains inits (host_initiators host) then ret (Some (lun, host))
       else find_mapped_host md inits rest)"

text \<open>The attempts after the first: \<open>n\<close> more, then the first error is raised again.\<close>

fun map_retry :: "('s, str) prog \<Rightarrow> exn \<Rightarrow> nat \<Rightarrow> ('s, str) prog" where
  "map_retry m ex 0 = raiseE ex"
| "map_retry m ex (Suc n) =
     catchE m (\<lambda>inner. if isa ''LunAlreadyInUseError'' inner then map_retry m ex n else raiseE inner)"

definition map_with_retries :: "nat \<Rightarrow> ('s, str) prog \<Rightarrow> ('s, str) prog" where
  "map_with_retries max_lun_retries m =
     catchE m (\<lambda>ex. if isa ''LunAlreadyInUseError'' ex then map_retry m ex (max_lun_retries - 1)
                    else raiseE ex)"

definition map_volume_by_initiators ::
  "'s mediator \<Rightarrow> str \<Rightarrow> initiators \<Rightarrow> bool \<Rightarrow> ('s, str \<times> str option \<times> array_initiators) prog" where
  "map_volume_by_initiators md vid inits exclusive_access =
     bindE (md_get_volume_mappings md vid) (\<lambda>mappings.
     if exclusive_access \<and> 1 < length mappings
     then raiseE (ArrayErr (VolumeAlreadyMappedToDifferentHostsError (map fst mappings)))
     else bindE (find_mapped_host md inits mappings) (\<lambda>found.
       case found of
         Some (lun, host) \<Rightarrow>
           (let connectivity_type = choose_connectivity_type (host_connectivity_types host)
            in bindE (md_get_array_initiators md (host_name host) connectivity_type) (\<lambda>ai.
               ret (lun, connectivity_type, ai)))
       | None \<Rightarrow>
           if exclusive_access \<and> length mappings = 1
           then raiseE (ArrayErr (VolumeAlreadyMappedToDifferentHostsError (map fst mappings)))
           else bindE (md_get_host_by_host_identifiers md inits) (\<lambda>(hname, connectivity_types).
             let connectivity_type = choose_connectivity_type connectivity_types in
             bindE (md_get_array_initiators md hname connectivity_type) (\<lambda>ai.
             if \<not> array_initiators_truthy ai
             then raiseE (ArrayErr (NoIscsiTargetsFoundError (md_endpoint md)))
             else bindE (map_with_retries (md_max_lun_retries md) (md_map_volume md vid hname connectivity_type))
               (\<lambda>lun. ret (lun, connectivity_type, ai))))))"

definition unmap_volume_by_initiators :: "'s mediator \<Rightarrow> str \<Rightarrow> initiators \<Rightarrow> ('s, unit) prog" where
  "unmap_volume_by_initiators md vid inits =
     bindE (md_get_host_by_host_identifiers md inits) (\<lambda>(hname, connectivity_types).
       let vid' = (if choose_connectivity_type connectivity_types = Some NVME_OVER_FC
                   then convert_scsi_id_to_nguid vid else vid)
       in md_unmap_volume md vid' hname)"

text \<open>\<open>rollback_retry\<close> is the decorator of \<open>_rollback_create_volume_from_source\<close>.\<close>

definition rollback_create_volume_from_source ::
  "'s mediator \<Rightarrow> (('s, unit) prog \<Rightarrow> ('s, unit) prog) \<Rightarrow> str \<Rightarrow> ('s, unit) prog" where
  "rollback_create_volume_from_source md rollback_retry vid = rollback_retry (md_delete_volume md vid None)"

definition copy_to_existing_volume_from_source ::
  "'s mediator \<Rightarrow> (('s, unit) prog \<Rightarrow> ('s, unit) prog) \<Rightarrow> volume \<Rightarrow> str \<Rightarrow> str option \<Rightarrow> int \<Rightarrow> ('s, unit) prog" where
  "copy_to_existing_volume_from_source md rollback_retry vol source_id source_type minimum_volume_size =
     catchE
       (bindE (md_get_object_by_id md source_id source_type False) (\<lambda>source_object.
          case source_object of
            None \<Rightarrow>
              thenE (rollback_create_volume_from_source md rollback_retry (vol_id vol))
                (raiseE (ArrayErr (ObjectNotFoundError source_id)))
          | Some src \<Rightarrow>
              md_copy_to_existing_volume md (vol_id vol) source_id (vol_capacity_bytes src) minimum_volume_size))
       (\<lambda>ex. thenE (rollback_create_volume_from_source md rollback_retry (vol_id vol)) (raiseE ex))"

subsection \<open>Lemmas\<close>

text \<open>How often a program that gives up its LUN is tried.\<close>

lemma map_retry_success:
  assumes "\<And>i. i < k \<Longrightarrow> m (st i) = (Inl (err i), st (Suc i))"
    "\<And>i. i < k \<Longrightarrow> isa ''LunAlreadyInUseError'' (err i)" "m (st k) = (Inr lun, t)" "k < n"
  shows "map_retry m ex n (st 0) = (Inr lun, t)"
  using assms
proof (induction k arbitrary: n st err)
  case 0
  then obtain n' where "n = Suc n'" by (cases n) auto
  with 0 show ?case by (simp add: catchE_def)
next
  case (Suc k)
  then obtain n' where n: "n = Suc n'" "k < n'" by (cases n) auto
  have "map_retry m ex n' (st (Suc 0)) = (Inr lun, t)"
    using Suc.IH [of "\<lambda>i. st (Suc i)" "\<lambda>i. err (Suc i)" n'] Suc.prems n(2) by simp
  with Suc.prems(1) [of 0] Suc.prems(2) [of 0] n show ?case by (simp add: catchE_def)
qed

lemma map_retry_fails:
  assumes "\<And>i. i < n \<Longrightarrow> m (st i) = (Inl (err i), st (Suc i))"
    "\<And>i. i < n \<Longrightarrow> isa ''LunAlreadyInUseError'' (err i)"
  shows "map_retry m ex n (st 0) = (Inl ex, st n)"
  using assms
proof (induction n arbitrary: st err)
  case 0
  then show ?case by (simp add: raiseE_def)
next
  case (Suc n)
  have "map_retry m ex n (st (Suc 0)) = (Inl ex, st (Suc n))"
    using Suc.IH [of "\<lambda>i. st (Suc i)" "\<lambda>i. err (Suc i)"] Suc.prems by simp
  with Suc.prems(1) [of 0] Suc.prems(2) [of 0] show ?case by (simp add: catchE_def)
qed

lemma map_with_retries_fails:
  assumes "\<And>i. i < max 1 n \<Longrightarrow> m (st i) = (Inl (err i), st (Suc i))"
    "\<And>i. i < max 1 n \<Longrightarrow> isa ''LunAlreadyInUseError'' (err i)"
  shows "map_with_retries n m (st 0) = (Inl (err 0), st (max 1 n))"
proof -
  have "map_retry m (err 0) (n - 1) (st (Suc 0)) = (Inl (err 0), st (Suc (n - 1)))"
    using map_retry_fails [of "n - 1" m "\<lambda>i. st (Suc i)" "\<lambda>i. err (Suc i)" "err 0"] assms by simp
  moreover have "Suc (n - 1) = max 1 n" by simp
  ultimately show ?thesis
    using assms(1) [of 0] assms(2) [of 0] by (simp add: map_with_retries_def catchE_def)
qed

lemma map_with_retries_success:
  assumes "\<And>i. i < k \<Longrightarrow> m (st i) = (Inl (err i), st (Suc i))"
    "\<And>i. i < k \<Longrightarrow> isa ''LunAlreadyInUseError'' (err i)" "m (st k) = (Inr lun, t)" "k < max 1 n"
  shows "map_with_retries n m (st 0) = (Inr lun, t)"
proof (cases k)
  case 0
  with assms(3) show ?thesis by (simp add: map_with_retries_def catchE_def)
next
  case (Suc k')
  have "map_retry m (err 0) (n - 1) (st (Suc 0)) = (Inr lun, t)"
    using map_retry_success [of k' m "\<lambda>i. st (Suc i)" "\<lambda>i. err (Suc i)" lun t "n - 1" "err 0"] assms Suc
    by simp
  with assms(1) [of 0] assms(2) [of 0] Suc show ?thesis
    by (simp add: map_with_retries_def catchE_def)
qed

lemma find_mapped_host_map_volume:
  "find_mapped_host (md\<lparr>md_map_volume := f\<rparr>) inits ms = find_mapped_host md inits ms"
proof (induction ms)
  case Nil
  then show ?case by simp
next
  case (Cons m ms)
  then show ?case by (cases m) (simp cong: if_cong)
qed

lemma find_mapped_host_match:
  "find_mapped_host md inits ms s = (Inr (Some (lun, h)), s') \<Longrightarrow>
    (\<exists>n. (n, lun) \<in> set ms) \<and> initiators_contains inits (host_initiators h)"
proof (induction ms arbitrary: s)
  case Nil
  then show ?case by (simp add: ret_def)
next
  case (Cons m ms)
  obtain n l where m: "m = (n, l)" by (cases m)
  with Cons.prems obtain h1 s1 where "md_get_host_by_name md n s = (Inr h1, s1)"
    "(if initiators_contains inits (host_initiators h1) then ret (Some (l, h1))
      else find_mapped_host md inits ms) s1 = (Inr (Some (lun, h)), s')"
    by (auto elim: bindE_InrE)
  with Cons.IH m show ?case by (auto simp: prog_simps split: if_splits)
qed

text \<open>Exclusive access: a volume that is mapped, but to no host of the node, is not mapped again.\<close>

lemma exclusive_map_fails:
  assumes "md_get_volume_mappings md vid s = (Inr mappings, s1)" "mappings \<noteq> []"
    "length mappings = 1 \<longrightarrow> find_mapped_host md inits mappings s1 = (Inr None, s2)"
  shows "\<exists>t. map_volume_by_initiators (md\<lparr>md_map_volume := f\<rparr>) vid inits True s =
    (Inl (ArrayErr (VolumeAlreadyMappedToDifferentHostsError (map fst mappings))), t)"
proof (cases "length mappings = 1")
  case True
  with assms show ?thesis
    by (simp add: map_volume_by_initiators_def bindE_def find_mapped_host_map_volume prog_simps)
next
  case False
  with assms(2) have "1 < length mappings" by (cases mappings) auto
  with assms(1) show ?thesis by (simp add: map_volume_by_initiators_def bindE_def prog_simps)
qed

subsection \<open>Properties\<close>

text \<open>
  Publishing a volume that is already mapped to a host of the node is idempotent: when the
  search over the mappings finds such a host, the reply has the LUN of that mapping and the
  storage system is never asked to map the volume (the result is the same with any other
  \<open>map_volume\<close>).
\<close>

theorem map_volume_idempotent:
  assumes "md_get_volume_mappings md vid s = (Inr mappings, s1)" "exclusive \<longrightarrow> length mappings \<le> 1"
    "find_mapped_host md inits mappings s1 = (Inr (Some (lun, h)), s2)"
    "md_get_array_initiators md (host_name h) (choose_connectivity_type (host_connectivity_types h)) s2
       = (Inr ai, s3)"
  shows "map_volume_by_initiators (md\<lparr>md_map_volume := f\<rparr>) vid inits exclusive s =
      (Inr (lun, choose_connectivity_type (host_connectivity_types h), ai), s3) \<and>
    (\<exists>n. (n, lun) \<in> set mappings) \<and> initiators_contains inits (host_initiators h)"
  using find_mapped_host_match [OF assms(3)] assms
  by (auto simp: map_volume_by_initiators_def bindE_def find_mapped_host_map_volume prog_simps Let_def)

definition mapped_mediator :: "(str \<times> str) list \<Rightarrow> unit mediator" where
  "mapped_mediator mappings =
     (array_mediator_interface ''10.0.0.1'')
       \<lparr>md_get_volume_mappings := (\<lambda>v. ret mappings),
        md_get_host_by_name := (\<lambda>n. ret \<lparr>host_name = n, host_connectivity_types = [ISCSI],
          host_initiators = \<lparr>nvme_nqns = [], fc_wwns = [], iscsi_iqns = [n]\<rparr>\<rparr>),
        md_get_array_initiators := (\<lambda>h t. ret (TargetMap [(''iqn.array'', [''10.0.0.1''])]))\<rparr>"

definition node_initiators :: "str \<Rightarrow> initiators" where
  "node_initiators iqn = \<lparr>nvme_nqns = [], fc_wwns = [], iscsi_iqns = [iqn]\<rparr>"

lemma node_initiators_contains:
  "initiators_contains (node_initiators ''IQN.a'') \<lparr>nvme_nqns = [], fc_wwns = [], iscsi_iqns = [''iqn.a'']\<rparr>"
  "\<not> initiators_contains (node_initiators ''IQN.a'') \<lparr>nvme_nqns = [], fc_wwns = [], iscsi_iqns = [''iqn.b'']\<rparr>"
  by code_simp+

theorem map_volume_idempotent_witness:
  "map_volume_by_initiators (mapped_mediator [(''iqn.a'', ''3'')]) ''v'' (node_initiators ''IQN.a'') True () =
    (Inr (''3'', Some ISCSI, TargetMap [(''iqn.array'', [''10.0.0.1''])]), ())"
  using map_volume_idempotent [of "mapped_mediator [(''iqn.a'', ''3'')]" "''v''" "()" "[(''iqn.a'', ''3'')]" "()"
      True "node_initiators ''IQN.a''" "''3''"
      "\<lparr>host_name = ''iqn.a'', host_connectivity_types = [ISCSI],
        host_initiators = \<lparr>nvme_nqns = [], fc_wwns = [], iscsi_iqns = [''iqn.a'']\<rparr>\<rparr>" "()"
      "TargetMap [(''iqn.array'', [''10.0.0.1''])]" "()"
      "md_map_volume (mapped_mediator [(''iqn.a'', ''3'')])"]
  by (simp add: mapped_mediator_def prog_simps node_initiators_contains choose_connectivity_type_def
      connectivity_defs)

text \<open>
  A LUN that another request took in between is retried, at most \<open>max_lun_retries\<close> times in all:
  the first attempt that is not refused decides, and when every attempt is refused the first
  error is raised.
\<close>

theorem lun_retry_bound:
  assumes "\<And>i. i < k \<Longrightarrow> m (st i) = (Inl (err i), st (Suc i))"
    "\<And>i. i < k \<Longrightarrow> isa ''LunAlreadyInUseError'' (err i)"
    "k < max 1 n \<longrightarrow> m (st k) = (Inr lun, t)" "k \<le> max 1 n"
  shows "map_with_retries n m (st 0) = (if k < max 1 n then (Inr lun, t) else (Inl (err 0), st (max 1 n)))"
proof (cases "k < max 1 n")
  case True
  with assms map_with_retries_success [of k m st err lun t n] show ?thesis by simp
next
  case False
  with assms(4) have "k = max 1 n" by linarith
  with assms(1,2) map_with_retries_fails [of n m st err] show ?thesis by simp
qed

definition busy_lun :: "nat \<Rightarrow> (nat, str) prog" where
  "busy_lun free_after =
     (\<lambda>n. if n < free_after then (Inl (ArrayErr (LunAlreadyInUseError ''5'' ''host'')), Suc n)
          else (Inr ''5'', n))"

theorem lun_retry_bound_witness:
  "map_with_retries 10 (busy_lun 9) 0 = (Inr ''5'', 9) \<and>
   map_with_retries 10 (busy_lun 10) 0 = (Inl (ArrayErr (LunAlreadyInUseError ''5'' ''host'')), 10)"
  using lun_retry_bound [of 9 "busy_lun 9" "\<lambda>i. i" "\<lambda>i. ArrayErr (LunAlreadyInUseError ''5'' ''host'')" 10 "''5''" 9]
    lun_retry_bound [of 10 "busy_lun 10" "\<lambda>i. i" "\<lambda>i. ArrayErr (LunAlreadyInUseError ''5'' ''host'')" 10]
  by (simp add: busy_lun_def)

text \<open>
  C12. A new volume does not stay behind when filling it from its source fails: whatever error the
  copy raises, the volume is deleted and the error is raised again; and when the source does
  not exist the deletion runs twice, and the error of the second one, if it fails, hides that
  the source was not found.
\<close>

theorem copy_failure_rolls_back:
  assumes "md_get_object_by_id md source_id source_type False s = (Inr src, s1)"
    "src \<noteq> None \<longrightarrow>
      md_copy_to_existing_volume md (vol_id vol) source_id (vol_capacity_bytes (the src)) min_size s1 = (Inl ex, s2)"
    "src = None \<longrightarrow> rollback_retry (md_delete_volume md (vol_id vol) None) s1 = (Inr (), s2)"
    "rollback_retry (md_delete_volume md (vol_id vol) None) s2 = (r, s3)"
  shows "copy_to_existing_volume_from_source md rollback_retry vol source_id source_type min_size s =
    (case r of Inl e \<Rightarrow> Inl e
     | Inr u \<Rightarrow> Inl (if src = None then ArrayErr (ObjectNotFoundError source_id) else ex), s3)"
  using assms
  by (cases src; cases r)
     (simp_all add: copy_to_existing_volume_from_source_def rollback_create_volume_from_source_def
       prog_defs prog_simps)

definition copy_mediator :: "str list mediator" where
  "copy_mediator =
     (array_mediator_interface ''10.0.0.1'')
       \<lparr>md_get_object_by_id := (\<lambda>i t b. ret None),
        md_delete_volume := (\<lambda>v p s. if v \<in> set s then (Inr (), removeAll v s)
                                  else (Inl (ArrayErr (ObjectNotFoundError v)), s))\<rparr>"

theorem copy_failure_rolls_back_witness:
  "copy_to_existing_volume_from_source copy_mediator (\<lambda>m. m)
     \<lparr>vol_name = ''v'', vol_id = ''uid'', vol_internal_id = ''1'', vol_array_type = ARRAY_TYPE_SVC,
      vol_capacity_bytes = 512, vol_array_address = [], vol_source_id = None, vol_pool = ''p'',
      vol_space_efficiency_aliases = [], vol_volume_group_id = None, vol_volume_group_name = None,
      vol_partition_name = None\<rparr> ''src'' (Some ''snapshot'') 512 [''uid'']
    = (Inl (ArrayErr (ObjectNotFoundError ''uid'')), [])"
  using copy_failure_rolls_back [of copy_mediator "''src''" "Some ''snapshot''" "[''uid'']" None "[''uid'']"
      "\<lparr>vol_name = ''v'', vol_id = ''uid'', vol_internal_id = ''1'', vol_array_type = ARRAY_TYPE_SVC,
      vol_capacity_bytes = 512, vol_array_address = [], vol_source_id = None, vol_pool = ''p'',
      vol_space_efficiency_aliases = [], vol_volume_group_id = None, vol_volume_group_name = None,
      vol_partition_name = None\<rparr>" 512 "PyErr IndexError" "[]" "\<lambda>m. m"
      "Inl (ArrayErr (ObjectNotFoundError ''uid''))" "[]"]
  by (simp add: copy_mediator_def prog_simps)

end
