(* ===== verification/Params.thy ===== *)
theory Params
  imports NodeInitiators
begin

text \<open>
  What the server reads of the secrets and parameters of a request (\<open>servers/utils.py\<close>): the
  connection data of the storage system, chosen by system id or by topology when the secret holds
  a \<open>config\<close> text, and the parameters of an object, where an entry of \<open>by_management_id\<close> for the
  chosen system takes precedence.  Both texts are JSON a user wrote, so any value may stand
  anywhere: the definitions say what the code does with each (an \<open>AttributeError\<close> where a
  dictionary method is called on another value, and so on).  Where the code stores such a value
  without using it and the later code needs text, another value is a \<open>TypeError\<close> here already.
\<close>

subsection \<open>JSON values as Python objects\<close>

definition float_is_zero :: "str \<Rightarrow> bool" where
  "float_is_zero r =
     (\<forall>c \<in> set (takeWhile (\<lambda>c. c \<noteq> CHR ''e'' \<and> c \<noteq> CHR ''E'') r). c \<in> {CHR ''0'', CHR ''.'', CHR ''-''})"

fun json_truthy :: "json \<Rightarrow> bool" where
  "json_truthy JNull = False"
| "json_truthy (JBool b) = b"
| "json_truthy (JInt i) = (i \<noteq> 0)"
| "json_truthy (JFloat r) = (\<not> float_is_zero r)"
| "json_truthy (JStr s) = (s \<noteq> [])"
| "json_truthy (JArr vs) = (vs \<noteq> [])"
| "json_truthy (JObj ms) = (ms \<noteq> [])"

definition json_get :: "json \<Rightarrow> str \<Rightarrow> exn + json" where
  "json_get v k = json_get_or v k JNull"

definition json_item :: "json \<Rightarrow> str \<Rightarrow> exn + json" where
  "json_item v k = (case v of JObj ms \<Rightarrow> dict_item ms k | _ \<Rightarrow> Inl (PyErr TypeError))"

text \<open>\<open>k in v\<close> for a text \<open>k\<close>.\<close>

definition json_contains :: "json \<Rightarrow> str \<Rightarrow> exn + bool" where
  "json_contains v k =
     (case v of
        JObj ms \<Rightarrow> Inr (dict_has ms k)
      | JArr vs \<Rightarrow> Inr (list_ex (\<lambda>w. case w of JStr s \<Rightarrow> s = k | _ \<Rightarrow> False) vs)
      | JStr s \<Rightarrow> Inr (py_contains s k)
      | _ \<Rightarrow> Inl (PyErr TypeError))"

definition json_items :: "json \<Rightarrow> exn + (str \<times> json) list" where
  "json_items v = (case v of JObj ms \<Rightarrow> Inr ms | _ \<Rightarrow> Inl (PyErr AttributeError))"

definition json_text :: "json \<Rightarrow> exn + str" where
  "json_text v = (case v of JStr s \<Rightarrow> Inr s | _ \<Rightarrow> Inl (PyErr TypeError))"

definition json_opt_text :: "json \<Rightarrow> exn + str option" where
  "json_opt_text v =
     (case v of JNull \<Rightarrow> Inr None | JStr s \<Rightarrow> Inr (Some s) | _ \<Rightarrow> Inl (PyErr TypeError))"

definition sdict_json :: "sdict \<Rightarrow> json" where
  "sdict_json d = JObj (map (\<lambda>(k, v). (k, JStr v)) d)"

definition opt_json :: "str option \<Rightarrow> json" where
  "opt_json x = (case x of None \<Rightarrow> JNull | Some s \<Rightarrow> JStr s)"

lemma map_of_sdict_json: "map_of (map (\<lambda>(k, v). (k, JStr v)) d) k = map_option JStr (map_of d k)"
  by (induction d) auto

definition parse_raw_json :: "str \<Rightarrow> exn + json" where
  "parse_raw_json raw =
     (case json_loads raw of
        None \<Rightarrow> Inl (ValidationException (INVALID_JSON_PARAMETER raw))
      | Some v \<Rightarrow> Inr v)"

subsection \<open>Choosing a system by topology\<close>

text \<open>\<open>topologies.items() <= node_topologies.items()\<close>.\<close>

definition topology_subset :: "(str \<times> json) list \<Rightarrow> sdict \<Rightarrow> bool" where
  "topology_subset ms node =
     list_all (\<lambda>(k, v). case v of JStr s \<Rightarrow> map_of node k = Some s | _ \<Rightarrow> False) ms"

fun topology_match_in :: "json list \<Rightarrow> sdict \<Rightarrow> exn + bool" where
  "topology_match_in [] node = Inr False"
| "topology_match_in (v # vs) node =
     bindR (json_items v) (\<lambda>ms. if topology_subset ms node then Inr True else topology_match_in vs node)"

definition is_topology_match :: "json \<Rightarrow> sdict \<Rightarrow> exn + bool" where
  "is_topology_match system_topologies node =
     (case system_topologies of
        JArr vs \<Rightarrow> topology_match_in vs node
      | JStr s \<Rightarrow> topology_match_in (map (\<lambda>c. JStr [c]) s) node
      | JObj ms \<Rightarrow> topology_match_in (map (\<lambda>m. JStr (fst m)) ms) node
      | _ \<Rightarrow> Inl (PyErr TypeError))"

text \<open>\<open>get_volume_topologies\<close>: the segments of the first preferred topology of the request.\<close>

definition get_volume_topologies :: "sdict list option \<Rightarrow> sdict option" where
  "get_volume_topologies preferred =
     (case preferred of None \<Rightarrow> None | Some [] \<Rightarrow> None | Some (segments # _) \<Rightarrow> Some segments)"

fun system_for_topologies :: "(str \<times> json) list \<Rightarrow> sdict \<Rightarrow> exn + (json \<times> str)" where
  "system_for_topologies [] node = Inl (ValidationException (NO_SYSTEM_MATCH_REQUESTED_TOPOLOGIES node))"
| "system_for_topologies ((system_id, system_info) # rest) node =
     bindR (json_get system_info ''supported_topologies'') (\<lambda>topologies.
     bindR (is_topology_match topologies node) (\<lambda>b.
       if b then Inr (system_info, system_id) else system_for_topologies rest node))"

definition get_system_info_for_topologies :: "json \<Rightarrow> sdict \<Rightarrow> exn + (json \<times> str)" where
  "get_system_info_for_topologies secrets_config node =
     bindR (json_items secrets_config) (\<lambda>items. system_for_topologies items node)"

definition get_system_info_from_secrets ::
  "sdict \<Rightarrow> sdict option \<Rightarrow> str option \<Rightarrow> exn + (json \<times> str option)" where
  "get_system_info_from_secrets secrets topologies system_id =
     (case map_of secrets ''config'' of
        None \<Rightarrow> Inr (sdict_json secrets, system_id)
      | Some raw \<Rightarrow>
          if raw = [] then Inr (sdict_json secrets, system_id)
          else bindR (parse_raw_json raw) (\<lambda>config.
            if truthy system_id
            then bindR (json_get config (the system_id)) (\<lambda>info. Inr (info, system_id))
            else case topologies of
                None \<Rightarrow> Inl (ValidationException INSUFFICIENT_DATA_TO_CHOOSE_A_STORAGE_SYSTEM)
              | Some t \<Rightarrow>
                  if t = [] then Inl (ValidationException INSUFFICIENT_DATA_TO_CHOOSE_A_STORAGE_SYSTEM)
                  else bindR (get_system_info_for_topologies config t)
                         (\<lambda>(info, sid). Inr (info, Some sid))))"

definition get_array_connection_info_from_system_info ::
  "json \<Rightarrow> str option \<Rightarrow> exn + array_connection_info" where
  "get_array_connection_info_from_system_info secrets system_id =
     bindR (json_item secrets ''username'') (\<lambda>user.
     bindR (json_item secrets ''password'') (\<lambda>password.
     bindR (json_get secrets ''partition_name'') (\<lambda>partition_name.
     bindR (json_get secrets ''partition_default_vg'') (\<lambda>partition_vg.
     bindR (json_get secrets ''port_set'') (\<lambda>port_set.
     bindR (json_get_or secrets ''verify_ssl'' (JStr ''false'')) (\<lambda>verify.
     bindR (json_str verify) (\<lambda>verify_text.
     bindR (json_item secrets ''management_address'') (\<lambda>addresses.
     bindR (json_str addresses) (\<lambda>addresses_text.
     bindR (json_text user) (\<lambda>user. bindR (json_text password) (\<lambda>password.
     bindR (json_opt_text partition_name) (\<lambda>partition_name.
     bindR (json_opt_text partition_vg) (\<lambda>partition_vg.
     bindR (json_opt_text port_set) (\<lambda>port_set.
     Inr \<lparr>ci_array_addresses = py_split (CHR '','') addresses_text, ci_user = user,
          ci_password = password, ci_system_id = system_id, ci_partition_name = partition_name,
          ci_partition_vg = partition_vg, ci_port_set = port_set,
          ci_verify_ssl = (py_lower verify_text = ''true'')\<rparr>))))))))))))))"

definition get_array_connection_info_from_secrets ::
  "sdict \<Rightarrow> sdict option \<Rightarrow> str option \<Rightarrow> exn + array_connection_info" where
  "get_array_connection_info_from_secrets secrets topologies system_id =
     bindR (get_system_info_from_secrets secrets topologies system_id)
       (\<lambda>(info, sid). get_array_connection_info_from_system_info info sid)"

subsection \<open>Parameters of an object\<close>

definition str_to_bool :: "json \<Rightarrow> exn + bool" where
  "str_to_bool parameter =
     (if \<not> json_truthy parameter then Inr False
      else bindR (json_str parameter) (\<lambda>s. Inr (py_lower s = ''true'')))"

text \<open>
  \<open>int(str(parameter).strip())\<close>: the text of a JSON number with a fraction or an exponent, of a
  list or of a dictionary is not an integer, whatever it is.
\<close>

definition json_to_int :: "json \<Rightarrow> int option" where
  "json_to_int v =
     (case v of JInt i \<Rightarrow> Some i | JStr s \<Rightarrow> py_int (py_strip s) | _ \<Rightarrow> None)"

definition parse_optional_int_parameter ::
  "json \<Rightarrow> str \<Rightarrow> int option \<Rightarrow> int option \<Rightarrow> exn + int option" where
  "parse_optional_int_parameter parameter name minimum maximum =
     (if parameter = JNull then Inr None
      else case json_to_int parameter of
          None \<Rightarrow> Inl (ValidationException (PARAMETER_SHOULD_BE_INTEGER name))
        | Some value \<Rightarrow>
            if (case minimum of None \<Rightarrow> False | Some m \<Rightarrow> value < m)
            then Inl (ValidationException (PARAMETER_SHOULD_BE_GE name (the minimum)))
            else if (case maximum of None \<Rightarrow> False | Some m \<Rightarrow> m < value)
            then Inl (ValidationException (PARAMETER_SHOULD_BE_LE name (the maximum)))
            else Inr (Some value))"

definition system_parameters_of :: "sdict \<Rightarrow> str option \<Rightarrow> exn + json" where
  "system_parameters_of parameters system_id =
     (case map_of parameters ''by_management_id'' of
        None \<Rightarrow> Inr (JObj [])
      | Some raw \<Rightarrow>
          if raw \<noteq> [] \<and> truthy system_id
          then bindR (parse_raw_json raw) (\<lambda>by_system. json_get_or by_system (the system_id) (JObj []))
          else Inr (JObj []))"

text \<open>
  The parameters of a storage class, those of the chosen system first.  They are texts; the code would store a value
  of another JSON type and fail, or not, where it is used, which is a \<open>TypeError\<close> here.
\<close>

definition get_object_parameters :: "sdict \<Rightarrow> str \<Rightarrow> str option \<Rightarrow> exn + object_parameters" where
  "get_object_parameters parameters prefix_param_name system_id =
     bindR (system_parameters_of parameters system_id) (\<lambda>sp.
     let param = (\<lambda>k. json_get_or sp k (opt_json (map_of parameters k))) in
     bindR (param ''virt_snap_func'') (\<lambda>virt.
     bindR (str_to_bool virt) (\<lambda>is_virt_snap_func.
     bindR (param ''initial_repo_group_size_pct'') (\<lambda>pct_raw.
     bindR (parse_optional_int_parameter pct_raw ''initial_repo_group_size_pct'' (Some 1) (Some 100)) (\<lambda>pct.
     bindR (bindR (param ''pool'') json_opt_text) (\<lambda>pool.
     bindR (bindR (param ''SpaceEfficiency'') json_opt_text) (\<lambda>space_efficiency.
     bindR (bindR (param prefix_param_name) json_opt_text) (\<lambda>prefix.
     bindR (bindR (param ''io_group'') json_opt_text) (\<lambda>io_group.
     bindR (bindR (param ''volume_group'') json_opt_text) (\<lambda>volume_group.
     Inr \<lparr>op_pool = pool, op_space_efficiency = space_efficiency, op_prefix = prefix,
          op_io_group = io_group, op_volume_group = volume_group,
          op_virt_snap_func = is_virt_snap_func,
          op_initial_repo_group_size_pct = pct\<rparr>))))))))))"

definition get_volume_parameters :: "sdict \<Rightarrow> str option \<Rightarrow> exn + object_parameters" where
  "get_volume_parameters parameters system_id =
     get_object_parameters parameters ''volume_name_prefix'' system_id"

definition get_snapshot_parameters :: "sdict \<Rightarrow> str option \<Rightarrow> exn + object_parameters" where
  "get_snapshot_parameters parameters system_id =
     get_object_parameters parameters ''snapshot_name_prefix'' system_id"

definition get_volume_group_prefix :: "sdict \<Rightarrow> str option" where
  "get_volume_group_prefix parameters = map_of parameters ''volume_group_name_prefix''"

subsection \<open>Which system is chosen\<close>

text \<open>
  A secret that passed validation with well-formed topologies: every system is a dictionary whose
  topologies are a list of dictionaries.
\<close>

definition system_topologies :: "json \<Rightarrow> (str \<times> json) list list option" where
  "system_topologies info =
     (case info of
        JObj ms \<Rightarrow> (case map_of ms ''supported_topologies'' of
            Some (JArr vs) \<Rightarrow>
              (if list_all (\<lambda>v. case v of JObj _ \<Rightarrow> True | _ \<Rightarrow> False) vs
               then Some (map (\<lambda>v. case v of JObj t \<Rightarrow> t | _ \<Rightarrow> []) vs) else None)
          | _ \<Rightarrow> None)
      | _ \<Rightarrow> None)"

definition system_matches :: "sdict \<Rightarrow> json \<Rightarrow> bool" where
  "system_matches node info =
     (case system_topologies info of None \<Rightarrow> False | Some ts \<Rightarrow> list_ex (\<lambda>t. topology_subset t node) ts)"

lemma topology_match_in_objs:
  "list_all (\<lambda>v. case v of JObj _ \<Rightarrow> True | _ \<Rightarrow> False) vs \<Longrightarrow>
    topology_match_in vs node =
      Inr (list_ex (\<lambda>t. topology_subset t node) (map (\<lambda>v. case v of JObj t \<Rightarrow> t | _ \<Rightarrow> []) vs))"
  by (induction vs) (auto simp: json_items_def split: json.splits)

lemma is_topology_match_system:
  assumes "system_topologies info \<noteq> None"
  shows "bindR (json_get info ''supported_topologies'') (\<lambda>t. is_topology_match t node) =
    Inr (system_matches node info)"
  using assms
  by (auto simp: system_topologies_def system_matches_def json_get_def json_get_or_def dict_get_or_def
      is_topology_match_def topology_match_in_objs split: json.splits option.splits if_splits)

lemma system_for_topologies_find:
  assumes "\<forall>(sid, info) \<in> set items. system_topologies info \<noteq> None"
  shows "system_for_topologies items node =
    (case find (\<lambda>(sid, info). system_matches node info) items of
       None \<Rightarrow> Inl (ValidationException (NO_SYSTEM_MATCH_REQUESTED_TOPOLOGIES node))
     | Some (sid, info) \<Rightarrow> Inr (info, sid))"
  using assms
proof (induction items)
  case Nil
  then show ?case by simp
next
  case (Cons m items)
  obtain sid info where m: "m = (sid, info)" by (cases m)
  obtain v where v: "json_get info ''supported_topologies'' = Inr v"
      "is_topology_match v node = Inr (system_matches node info)"
    using is_topology_match_system [of info node] Cons.prems m by (auto simp: bindR_Inr_iff)
  with Cons m show ?case by simp
qed

subsection \<open>Object parameters\<close>

lemma parse_optional_int_range:
  "parse_optional_int_parameter v n (Some lo) (Some hi) = Inr r \<Longrightarrow>
    (v = JNull \<and> r = None) \<or> (\<exists>x. r = Some x \<and> json_to_int v = Some x \<and> lo \<le> x \<and> x \<le> hi)"
  by (auto simp: parse_optional_int_parameter_def split: if_splits option.splits)

lemma parse_optional_int_str:
  "parse_optional_int_parameter (JStr (int_str i)) n (Some lo) (Some hi) =
    (if i < lo then Inl (ValidationException (PARAMETER_SHOULD_BE_GE n lo))
     else if hi < i then Inl (ValidationException (PARAMETER_SHOULD_BE_LE n hi))
     else Inr (Some i))"
proof -
  have "py_strip (int_str i) = int_str i"
    by (intro py_strip_noop)
       (auto simp: int_str_def is_space_minus dest!: nat_str_digits is_digit_not split: if_splits)
  then show ?thesis by (simp add: parse_optional_int_parameter_def json_to_int_def)
qed

lemma get_object_parameters_pct:
  assumes "get_object_parameters parameters pn sid = Inr p"
  shows "op_initial_repo_group_size_pct p = None \<or>
    (\<exists>x. op_initial_repo_group_size_pct p = Some x \<and> 1 \<le> x \<and> x \<le> 100)"
  using assms
  by (auto simp: get_object_parameters_def Let_def bindR_Inr_iff dest!: parse_optional_int_range)

lemma json_opt_text_opt_json [simp]: "json_opt_text (opt_json x) = Inr x"
  by (cases x) (simp_all add: json_opt_text_def opt_json_def)

text \<open>A parameter of the chosen system wins over the general one, key by key.\<close>

definition system_or_default :: "(str \<times> json) list \<Rightarrow> sdict \<Rightarrow> str \<Rightarrow> str option" where
  "system_or_default sp parameters k =
     (case map_of sp k of
        None \<Rightarrow> map_of parameters k
      | Some v \<Rightarrow> (case v of JStr s \<Rightarrow> Some s | _ \<Rightarrow> None))"

lemma param_text:
  assumes "bindR (json_get_or (JObj sp) k (opt_json (map_of parameters k))) json_opt_text = Inr x"
  shows "x = system_or_default sp parameters k"
proof (cases "map_of sp k")
  case None
  with assms show ?thesis by (simp add: json_get_or_def dict_get_or_def system_or_default_def)
next
  case (Some v)
  with assms show ?thesis
    by (cases v) (auto simp: json_get_or_def dict_get_or_def system_or_default_def json_opt_text_def)
qed

lemma get_object_parameters_by_system:
  assumes "get_object_parameters parameters pn sid = Inr p"
    "system_parameters_of parameters sid = Inr (JObj sp)"
  shows "op_pool p = system_or_default sp parameters ''pool''"
    "op_space_efficiency p = system_or_default sp parameters ''SpaceEfficiency''"
    "op_prefix p = system_or_default sp parameters pn"
    "op_io_group p = system_or_default sp parameters ''io_group''"
    "op_volume_group p = system_or_default sp parameters ''volume_group''"
proof -
  let ?b = "\<lambda>k. bindR (json_get_or (JObj sp) k (opt_json (map_of parameters k))) json_opt_text"
  have "?b ''pool'' = Inr (op_pool p) \<and> ?b ''SpaceEfficiency'' = Inr (op_space_efficiency p) \<and>
      ?b pn = Inr (op_prefix p) \<and> ?b ''io_group'' = Inr (op_io_group p) \<and>
      ?b ''volume_group'' = Inr (op_volume_group p)"
    using assms by (auto simp only: get_object_parameters_def Let_def bindR_Inr_iff bindR_simps
        sum.inject object_parameters.simps)
  then show "op_pool p = system_or_default sp parameters ''pool''"
    "op_space_efficiency p = system_or_default sp parameters ''SpaceEfficiency''"
    "op_prefix p = system_or_default sp parameters pn"
    "op_io_group p = system_or_default sp parameters ''io_group''"
    "op_volume_group p = system_or_default sp parameters ''volume_group''"
    using param_text by blast+
qed

lemma get_object_parameters_defaults:
  assumes "map_of parameters ''by_management_id'' = None \<or> \<not> truthy sid"
    "get_object_parameters parameters pn sid = Inr p"
  shows "op_pool p = map_of parameters ''pool''" "op_prefix p = map_of parameters pn"
proof -
  have "system_parameters_of parameters sid = Inr (JObj [])"
    using assms(1) by (auto simp: system_parameters_of_def split: option.splits)
  from get_object_parameters_by_system [OF assms(2) this]
  show "op_pool p = map_of parameters ''pool''" "op_prefix p = map_of parameters pn"
    by (simp_all add: system_or_default_def)
qed

subsection \<open>Properties\<close>

text \<open>
  C4. The system a request with topologies uses is the first one of the secret, in the order of the
  text, one of whose supported topologies is contained in the requested one; the request fails
  exactly when there is none.
\<close>

theorem topology_selects_first_match:
  assumes "map_of secrets ''config'' = Some raw" "json_loads raw = Some (JObj systems)"
    "raw \<noteq> []" "topologies \<noteq> []" "\<forall>(sid, info) \<in> set systems. system_topologies info \<noteq> None"
  shows "get_system_info_from_secrets secrets (Some topologies) None =
    (case find (\<lambda>(sid, info). system_matches topologies info) systems of
       None \<Rightarrow> Inl (ValidationException (NO_SYSTEM_MATCH_REQUESTED_TOPOLOGIES topologies))
     | Some (sid, info) \<Rightarrow> Inr (info, Some sid))"
  using assms(1-4) system_for_topologies_find [OF assms(5), of topologies]
  by (simp add: get_system_info_from_secrets_def parse_raw_json_def get_system_info_for_topologies_def
      json_items_def split: option.splits)

definition example_systems :: "(str \<times> json) list" where
  "example_systems =
     [(''s1'', JObj [(''supported_topologies'', JArr [JObj [(''zone'', JStr ''z1'')]])]),
      (''s2'', JObj [(''supported_topologies'', JArr [JObj [(''zone'', JStr ''z2'')]])])]"

theorem topology_selects_first_match_witness:
  "get_system_info_from_secrets [(''config'', json_dumps (JObj example_systems))]
     (Some [(''zone'', ''z2''), (''region'', ''r'')]) None =
   Inr (snd (example_systems ! 1), Some ''s2'')"
proof -
  have ok: "json_loads (json_dumps (JObj example_systems)) = Some (JObj example_systems)"
    unfolding json_dumps_def by (rule json_loads_dumps) (auto simp: example_systems_def is_ws_def)
  have "json_dumps (JObj example_systems) \<noteq> []" by (simp add: json_dumps_def)
  with ok topology_selects_first_match [of "[(''config'', json_dumps (JObj example_systems))]"
      "json_dumps (JObj example_systems)" example_systems "[(''zone'', ''z2''), (''region'', ''r'')]"]
  show ?thesis
    by (simp add: example_systems_def system_topologies_def system_matches_def topology_subset_def)
qed


definition example_parameters :: sdict where
  "example_parameters =
     [(''pool'', ''gold''), (''io_group'', ''0''), (''initial_repo_group_size_pct'', int_str 20),
      (''by_management_id'', json_dumps (JObj [(''s1'', JObj [(''pool'', JStr ''silver'')])]))]"


lemma system_for_topologies_member: "system_for_topologies items node = Inr (info, sid) \<Longrightarrow> (sid, info) \<in> set items"
  by (induction items node rule: system_for_topologies.induct) (auto simp: bindR_Inr_iff split: if_splits)

end
