(* ===== verification/Validation.thy ===== *)
theory Validation
  imports Params Ids
begin

text \<open>
  The requests of the CSI controller service and their validation (\<open>servers/utils.py\<close>).  A
  request is a record of the fields the driver reads; a message field that is not set is \<open>None\<close>.
  Each validator returns or raises the first error, in the order of the source.  The lemmas
  characterise when a validator accepts.
\<close>

subsection \<open>Requests\<close>

text \<open>The access modes of the CSI protocol are numbers.\<close>

definition SINGLE_NODE_WRITER :: int where "SINGLE_NODE_WRITER = 1"
definition MULTI_NODE_MULTI_WRITER :: int where "MULTI_NODE_MULTI_WRITER = 5"

definition SUPPORTED_ACCESS_MODE :: "int list" where
  "SUPPORTED_ACCESS_MODE = [SINGLE_NODE_WRITER, MULTI_NODE_MULTI_WRITER]"

definition EXCLUSIVE_ACCESS_ACCESS_MODE :: "int list" where
  "EXCLUSIVE_ACCESS_ACCESS_MODE = [SINGLE_NODE_WRITER]"

definition SUPPORTED_FS_TYPES :: "str list" where "SUPPORTED_FS_TYPES = [''ext4'', ''xfs'']"

record mount_volume =
  fs_type :: str
  mount_flags :: "str list"

record volume_capability =
  cap_mount :: "mount_volume option"
  cap_block :: bool
  cap_access_mode :: int

datatype content_source = SnapshotSource str | VolumeSource str

record create_volume_request =
  cv_name :: str
  cv_secrets :: sdict
  cv_required_bytes :: "int option"
  cv_capabilities :: "volume_capability list"
  cv_parameters :: sdict
  cv_source :: "content_source option"
  cv_preferred_topologies :: "sdict list option"

record create_snapshot_request =
  cs_name :: str
  cs_secrets :: sdict
  cs_source_volume_id :: str
  cs_parameters :: sdict

record object_request =
  or_object_id :: str
  or_secrets :: sdict

record publish_request =
  pr_volume_id :: str
  pr_node_id :: str
  pr_secrets :: sdict
  pr_readonly :: bool
  pr_capability :: volume_capability

record unpublish_request =
  ur_volume_id :: str
  ur_node_id :: str
  ur_secrets :: sdict

record expand_request =
  er_volume_id :: str
  er_secrets :: sdict
  er_required_bytes :: "int option"

record validate_capabilities_request =
  vr_volume_id :: str
  vr_secrets :: sdict
  vr_parameters :: sdict
  vr_volume_context :: sdict
  vr_capabilities :: "volume_capability list"

subsection \<open>Secrets\<close>

definition is_alnum :: "char \<Rightarrow> bool" where
  "is_alnum c = (let n = (of_char c :: nat) in
     (48 \<le> n \<and> n \<le> 57) \<or> (65 \<le> n \<and> n \<le> 90) \<or> (97 \<le> n \<and> n \<le> 122))"

definition is_id_char :: "char \<Rightarrow> bool" where
  "is_id_char c = (is_alnum c \<or> c = CHR ''-'' \<or> c = CHR ''_'' \<or> c = CHR ''.'')"

text \<open>
  \<open>re.match('^[a-zA-Z0-9][a-zA-Z0-9-_.]*[a-zA-Z0-9]$', s)\<close>; the dollar also matches before a
  final newline.
\<close>

definition matches_id_regex :: "str \<Rightarrow> bool" where
  "matches_id_regex s =
     (2 \<le> length s \<and> is_alnum (hd s) \<and> list_all is_id_char s \<and> is_alnum (last s))"

definition is_system_id_valid :: "str \<Rightarrow> bool" where
  "is_system_id_valid s =
     (s \<noteq> [] \<and> (matches_id_regex s \<or> (last s = CHR 0x0A \<and> matches_id_regex (butlast s))))"

definition validate_system_id :: "str \<Rightarrow> exn + unit" where
  "validate_system_id s =
     thenR (raise_if (\<not> is_system_id_valid s) (ValidationException (INVALID_SYSTEM_ID s)))
       (raise_if (SECRET_SYSTEM_ID_MAX_LENGTH < int (length s))
          (ValidationException (PARAMETER_LENGTH_IS_TOO_LONG ''system id'' s SECRET_SYSTEM_ID_MAX_LENGTH)))"

definition validate_secrets_of :: "json \<Rightarrow> exn + unit" where
  "validate_secrets_of secrets =
     bindR (json_contains secrets ''username'') (\<lambda>u.
     bindR (if u then json_contains secrets ''password'' else Inr False) (\<lambda>p.
     bindR (if p then json_contains secrets ''management_address'' else Inr False) (\<lambda>m.
       raise_if (\<not> m) (ValidationException SECRET_MISSING_CONNECTION_INFO))))"

definition all_truthy :: "json \<Rightarrow> exn + bool" where
  "all_truthy v =
     (case v of
        JArr vs \<Rightarrow> Inr (list_all json_truthy vs)
      | JStr s \<Rightarrow> Inr True
      | JObj ms \<Rightarrow> Inr (list_all (\<lambda>m. fst m \<noteq> []) ms)
      | _ \<Rightarrow> Inl (PyErr TypeError))"

definition validate_topologies :: "json \<Rightarrow> exn + unit" where
  "validate_topologies topologies =
     (if json_truthy topologies
      then bindR (all_truthy topologies)
             (\<lambda>b. raise_if (\<not> b) (ValidationException SECRET_MISSING_TOPOLOGIES))
      else Inl (ValidationException SECRET_MISSING_TOPOLOGIES))"

definition validate_system :: "str \<times> json \<Rightarrow> exn + unit" where
  "validate_system m =
     (case m of (system_id, system_info) \<Rightarrow>
        if system_id \<noteq> [] \<and> json_truthy system_info
        then thenR (validate_system_id system_id)
            (thenR (validate_secrets_of system_info)
              (bindR (json_get system_info ''supported_topologies'') validate_topologies))
        else Inl (ValidationException INVALID_SECRET_CONFIG))"

definition validate_secrets_config :: "json \<Rightarrow> exn + unit" where
  "validate_secrets_config config = bindR (json_items config) (forR validate_system)"

definition validate_secrets :: "sdict \<Rightarrow> exn + unit" where
  "validate_secrets secrets =
     (if secrets = [] then Inl (ValidationException SECRET_MISSING)
      else if truthy (map_of secrets ''config'')
      then bindR (parse_raw_json (the (map_of secrets ''config''))) validate_secrets_config
      else validate_secrets_of (sdict_json secrets))"

subsection \<open>Capabilities\<close>

definition validate_csi_volume_capability :: "volume_capability \<Rightarrow> exn + unit" where
  "validate_csi_volume_capability cap =
     thenR
       (case cap_mount cap of
          Some m \<Rightarrow>
            thenR (raise_if (fs_type m \<noteq> [] \<and> fs_type m \<notin> set SUPPORTED_FS_TYPES)
                     (ValidationException (UNSUPPORTED_FS_TYPE (fs_type m))))
              (raise_if (mount_flags m \<noteq> []) (ValidationException UNSUPPORTED_MOUNT_FLAGS))
        | None \<Rightarrow> raise_if (\<not> cap_block cap) (ValidationException UNSUPPORTED_VOLUME_ACCESS_TYPE))
       (raise_if (cap_access_mode cap \<notin> set SUPPORTED_ACCESS_MODE)
          (ValidationException (UNSUPPORTED_ACCESS_MODE (cap_access_mode cap))))"

definition validate_csi_volume_capabilities :: "volume_capability list \<Rightarrow> exn + unit" where
  "validate_csi_volume_capabilities caps =
     (if caps = [] then Inl (ValidationException CAPABILITIES_NOT_SET)
      else forR validate_csi_volume_capability caps)"

subsection \<open>Requests\<close>

definition validate_create_volume_source :: "content_source option \<Rightarrow> exn + unit" where
  "validate_create_volume_source source =
     (case source of
        None \<Rightarrow> Inr ()
      | Some (SnapshotSource i) \<Rightarrow>
          validate_object_id i SNAPSHOT_TYPE_NAME (VOLUME_SOURCE_ID_IS_MISSING SNAPSHOT_TYPE_NAME)
      | Some (VolumeSource i) \<Rightarrow>
          validate_object_id i VOLUME_TYPE_NAME (VOLUME_SOURCE_ID_IS_MISSING VOLUME_TYPE_NAME))"

definition validate_pool_parameter :: "sdict \<Rightarrow> exn + unit" where
  "validate_pool_parameter parameters =
     (case map_of parameters ''pool'' of
        Some p \<Rightarrow> raise_if (p = []) (ValidationException POOL_SHOULD_NOT_BE_EMPTY)
      | None \<Rightarrow> raise_if (\<not> truthy (map_of parameters ''by_management_id''))
                  (ValidationException POOL_IS_MISSING))"

definition validate_minimum_request_fields :: "(str \<times> str) list \<Rightarrow> sdict \<Rightarrow> exn + unit" where
  "validate_minimum_request_fields required secrets =
     thenR (forR (\<lambda>(name, value). raise_if (value = [])
              (ValidationException (PARAMETER_SHOULD_NOT_BE_EMPTY name))) required)
       (validate_secrets secrets)"

text \<open>
  \<open>None\<close> is a capacity range that counts as false.  The messages of protobuf never do, so that a request of the driver
  without a capacity range arrives as \<open>Some 0\<close>, the value of an unset field.
\<close>

definition validate_capacity :: "int option \<Rightarrow> exn + unit" where
  "validate_capacity required_bytes =
     (case required_bytes of
        None \<Rightarrow> Inl (ValidationException NO_CAPACITY_RANGE)
      | Some n \<Rightarrow> raise_if (n < 0) (ValidationException SIZE_SHOULD_NOT_BE_NEGATIVE))"

definition validate_create_volume_request :: "create_volume_request \<Rightarrow> exn + unit" where
  "validate_create_volume_request r =
     thenR (validate_minimum_request_fields [(''name'', cv_name r)] (cv_secrets r))
    (thenR (validate_capacity (cv_required_bytes r))
    (thenR (validate_csi_volume_capabilities (cv_capabilities r))
    (thenR (if cv_parameters r \<noteq> [] then validate_pool_parameter (cv_parameters r)
            else Inl (ValidationException POOL_IS_MISSING))
      (validate_create_volume_source (cv_source r)))))"

definition validate_create_snapshot_request :: "create_snapshot_request \<Rightarrow> exn + unit" where
  "validate_create_snapshot_request r =
     thenR (validate_minimum_request_fields [(''name'', cs_name r)] (cs_secrets r))
       (raise_if (cs_source_volume_id r = []) (ValidationException SNAPSHOT_SOURCE_VOLUME_ID_IS_MISSING))"

definition validate_delete_snapshot_request :: "object_request \<Rightarrow> exn + unit" where
  "validate_delete_snapshot_request r =
     validate_minimum_request_fields [(''snapshot_id'', or_object_id r)] (or_secrets r)"

definition validate_delete_volume_request :: "object_request \<Rightarrow> exn + unit" where
  "validate_delete_volume_request r =
     validate_minimum_request_fields [(''volume_id'', or_object_id r)] (or_secrets r)"

definition validate_validate_volume_capabilities_request :: "validate_capabilities_request \<Rightarrow> exn + unit" where
  "validate_validate_volume_capabilities_request r =
     thenR (validate_minimum_request_fields [(''volume_id'', vr_volume_id r)] (vr_secrets r))
    (thenR (validate_object_id (vr_volume_id r) VOLUME_TYPE_NAME VOLUME_ID_SHOULD_NOT_BE_EMPTY)
    (thenR (if vr_parameters r \<noteq> [] then validate_pool_parameter (vr_parameters r) else Inr ())
      (validate_csi_volume_capabilities (vr_capabilities r))))"

definition validate_expand_volume_request :: "expand_request \<Rightarrow> exn + unit" where
  "validate_expand_volume_request r =
     thenR (validate_minimum_request_fields [(''volume_id'', er_volume_id r)] (er_secrets r))
       (validate_capacity (er_required_bytes r))"

definition validate_node_id :: "str \<Rightarrow> exn + unit" where
  "validate_node_id node_id = raise_if (node_id = []) (InvalidNodeId node_id)"

definition validate_publish_volume_request :: "publish_request \<Rightarrow> exn + unit" where
  "validate_publish_volume_request r =
     thenR (raise_if (pr_readonly r) (ValidationException READONLY_NOT_SUPPORTED))
    (thenR (validate_csi_volume_capability (pr_capability r))
    (thenR (validate_minimum_request_fields [(''node_id'', pr_node_id r)] (pr_secrets r))
      (validate_node_id (pr_node_id r))))"

definition is_publish_volume_request_exclusive_access :: "publish_request \<Rightarrow> bool" where
  "is_publish_volume_request_exclusive_access r =
     (cap_access_mode (pr_capability r) \<in> set EXCLUSIVE_ACCESS_ACCESS_MODE)"

definition validate_unpublish_volume_request :: "unpublish_request \<Rightarrow> exn + unit" where
  "validate_unpublish_volume_request r =
     thenR (validate_object_id (ur_volume_id r) VOLUME_TYPE_NAME VOLUME_ID_SHOULD_NOT_BE_EMPTY)
    (thenR (validate_minimum_request_fields [(''volume_id'', ur_volume_id r)] (ur_secrets r))
      (validate_node_id (ur_node_id r)))"

subsection \<open>When the validators accept\<close>

lemma validate_csi_volume_capability_Inr:
  "(validate_csi_volume_capability cap = Inr ()) =
    (cap_access_mode cap \<in> {1, 5} \<and>
     (case cap_mount cap of
        Some m \<Rightarrow> (fs_type m = [] \<or> fs_type m = ''ext4'' \<or> fs_type m = ''xfs'') \<and> mount_flags m = []
      | None \<Rightarrow> cap_block cap))"
  by (auto simp: validate_csi_volume_capability_def thenR_Inr_iff SUPPORTED_FS_TYPES_def
      SUPPORTED_ACCESS_MODE_def SINGLE_NODE_WRITER_def MULTI_NODE_MULTI_WRITER_def split: option.splits)

lemma validate_csi_volume_capabilities_Inr:
  "(validate_csi_volume_capabilities caps = Inr ()) =
    (caps \<noteq> [] \<and> (\<forall>c \<in> set caps. validate_csi_volume_capability c = Inr ()))"
  by (simp add: validate_csi_volume_capabilities_def forR_Inr_iff)

lemma is_alnum_delim: "is_alnum c \<Longrightarrow> c \<noteq> CHR '':'' \<and> c \<noteq> CHR '';''"
  by (auto simp: is_alnum_def Let_def)

lemma matches_id_regex_part: "matches_id_regex s \<Longrightarrow> id_part s"
  by (auto simp: matches_id_regex_def id_part_def list_all_iff is_id_char_def dest: is_alnum_delim)

lemma valid_system_id_part:
  assumes "validate_system_id s = Inr ()"
  shows "id_part s" "s \<noteq> []" "length s \<le> 84"
proof -
  have v: "is_system_id_valid s" and l: "int (length s) \<le> 84"
    using assms by (auto simp: validate_system_id_def thenR_Inr_iff SECRET_SYSTEM_ID_MAX_LENGTH_value)
  from v show "s \<noteq> []" by (simp add: is_system_id_valid_def)
  from l show "length s \<le> 84" by simp
  from v consider "matches_id_regex s" | "last s = CHR 0x0A" "matches_id_regex (butlast s)"
    by (auto simp: is_system_id_valid_def)
  then show "id_part s"
  proof cases
    case 1
    then show ?thesis by (rule matches_id_regex_part)
  next
    case 2
    then have "id_part (butlast s)" by (intro matches_id_regex_part)
    moreover have "set s = set (butlast s) \<union> {CHR 0x0A}"
      using \<open>s \<noteq> []\<close> 2(1) append_butlast_last_id [of s]
      by (metis list.set(1) list.simps(15) set_append)
    ultimately show ?thesis by (auto simp: id_part_def)
  qed
qed

lemma validate_secrets_of_sdict:
  "(validate_secrets_of (sdict_json d) = Inr ()) =
    (dict_has d ''username'' \<and> dict_has d ''password'' \<and> dict_has d ''management_address'')"
  by (auto simp: validate_secrets_of_def json_contains_def sdict_json_def dict_has_def
      map_of_sdict_json)

lemma validate_secrets_plain:
  "\<not> truthy (map_of d ''config'') \<Longrightarrow>
    (validate_secrets d = Inr ()) =
      (dict_has d ''username'' \<and> dict_has d ''password'' \<and> dict_has d ''management_address'')"
  by (cases "d = []") (auto simp: validate_secrets_def validate_secrets_of_sdict dict_has_def)

text \<open>A secret with a \<open>config\<close> text: every system of it is complete.\<close>

lemma validate_secrets_config_system:
  assumes "validate_secrets d = Inr ()" "truthy (map_of d ''config'')"
    "json_loads (the (map_of d ''config'')) = Some (JObj systems)" "(sid, info) \<in> set systems"
  shows "validate_system_id sid = Inr ()" "json_truthy info"
    "\<exists>t. json_get info ''supported_topologies'' = Inr t \<and> json_truthy t"
proof -
  have "d \<noteq> []" using assms(2) by auto
  then have "forR validate_system systems = Inr ()"
    using assms(1-3)
    by (simp add: validate_secrets_def parse_raw_json_def validate_secrets_config_def json_items_def)
  with assms(4) have v: "validate_system (sid, info) = Inr ()" by (auto simp: forR_Inr_iff)
  then show "validate_system_id sid = Inr ()" "json_truthy info"
    by (auto simp: validate_system_def thenR_Inr_iff split: if_splits)
  from v show "\<exists>t. json_get info ''supported_topologies'' = Inr t \<and> json_truthy t"
    by (auto simp: validate_system_def thenR_Inr_iff bindR_Inr_iff validate_topologies_def split: if_splits)
qed

lemma validate_minimum_Inr:
  "(validate_minimum_request_fields req sec = Inr ()) =
    ((\<forall>(n, v) \<in> set req. v \<noteq> []) \<and> validate_secrets sec = Inr ())"
  by (auto simp: validate_minimum_request_fields_def thenR_Inr_iff forR_Inr_iff)

lemma validate_create_volume_Inr:
  assumes "validate_create_volume_request r = Inr ()"
  shows "cv_name r \<noteq> []" "validate_secrets (cv_secrets r) = Inr ()"
    "\<exists>n. cv_required_bytes r = Some n \<and> 0 \<le> n"
    "validate_csi_volume_capabilities (cv_capabilities r) = Inr ()"
    "truthy (map_of (cv_parameters r) ''pool'') \<or>
     map_of (cv_parameters r) ''pool'' = None \<and> truthy (map_of (cv_parameters r) ''by_management_id'')"
  using assms
  by (auto simp: validate_create_volume_request_def thenR_Inr_iff validate_minimum_Inr
      validate_capacity_def validate_pool_parameter_def split: option.splits if_splits)

lemma validate_create_volume_source_Inr:
  "(validate_create_volume_source src = Inr ()) =
    (case src of None \<Rightarrow> True
     | Some (SnapshotSource i) \<Rightarrow> count_list i CHR '':'' \<in> {1, 2}
     | Some (VolumeSource i) \<Rightarrow> count_list i CHR '':'' \<in> {1, 2})"
  by (auto simp: validate_create_volume_source_def validate_object_id_Inr
      split: option.splits content_source.splits)

subsection \<open>Properties\<close>

text \<open>
  C1. The id of a volume is read back as it was made: for a storage type, an internal id and a uid
  without the delimiters, and any system id that passed the validation of the secret,
  \<open>get_volume_id_info\<close> of \<open>get_volume_id\<close> gives the same four parts.
\<close>

theorem volume_id_roundtrip:
  assumes "id_part (vol_array_type v)" "id_part (vol_internal_id v)" "id_part (vol_id v)"
    "system_id = None \<or> (\<exists>s. system_id = Some s \<and> validate_system_id s = Inr ())"
  shows "get_volume_id_info (get_volume_id v system_id) =
    Inr \<lparr>oi_array_type = vol_array_type v, oi_system_id = system_id,
         oi_internal_id = Some (vol_internal_id v), oi_uid = vol_id v\<rparr>"
proof -
  have "\<forall>s. system_id = Some s \<longrightarrow> id_part s \<and> s \<noteq> []" using assms(4) valid_system_id_part by auto
  then show ?thesis
    using assms(1-3) get_object_id_roundtrip [of "vol_array_type v" "vol_internal_id v" "vol_id v" system_id]
    by (cases system_id) (auto simp: get_volume_id_def get_volume_id_info_def type_name_defs)
qed

definition example_volume :: volume where
  "example_volume =
     \<lparr>vol_name = ''vol1'', vol_id = ''60050768108106A7C800000000000A1B'', vol_internal_id = ''17'',
      vol_array_type = ''SVC'', vol_capacity_bytes = 1073741824, vol_array_address = [''10.0.0.1''],
      vol_source_id = None, vol_pool = ''pool1'', vol_space_efficiency_aliases = [''thin''],
      vol_volume_group_id = None, vol_volume_group_name = None, vol_partition_name = None\<rparr>"

theorem volume_id_roundtrip_witness:
  "get_volume_id_info (get_volume_id example_volume (Some ''sys-1'')) =
    Inr \<lparr>oi_array_type = ''SVC'', oi_system_id = Some ''sys-1'', oi_internal_id = Some ''17'',
         oi_uid = ''60050768108106A7C800000000000A1B''\<rparr>"
proof -
  have "validate_system_id ''sys-1'' = Inr ()"
    by (simp add: validate_system_id_def is_system_id_valid_def matches_id_regex_def is_alnum_def
        is_id_char_def SECRET_SYSTEM_ID_MAX_LENGTH_value)
  then show ?thesis
    using volume_id_roundtrip [of example_volume "Some ''sys-1''"]
    by (simp add: example_volume_def id_part_def)
qed

text \<open>
  Which ids are accepted: \<open>_validate_object_id\<close> accepts an id exactly when it has one or two
  colons, and every id that \<open>get_object_id_info\<close> takes apart passes that validation.
\<close>

theorem object_id_acceptance:
  "(validate_object_id s t m = Inr ()) = (count_list s CHR '':'' \<in> {1, 2}) \<and>
   (case get_object_id_info s t of Inl e \<Rightarrow> e = ObjectIdError t s
    | Inr i \<Rightarrow> validate_object_id s t m = Inr ())"
proof (cases "get_object_id_info s t")
  case (Inl e)
  then have "e = ObjectIdError t s"
    by (auto simp: get_object_id_info_def bindR_Inl_iff split_ids_cases split: list.splits if_splits)
  with Inl show ?thesis by (simp add: validate_object_id_Inr)
next
  case (Inr i)
  with get_object_id_info_parts [OF Inr] show ?thesis by (simp only: validate_object_id_Inr sum.case)
qed

text \<open>
  A volume capability is accepted exactly when its access mode is single-node-writer or
  multi-node-multi-writer and it is a mount with a supported file system (or none) and no mount
  flags, or, when it is no mount, a block volume; a list of capabilities is accepted exactly when
  it is not empty and each of them is.
\<close>

theorem capabilities_accepted:
  "(validate_csi_volume_capabilities caps = Inr ()) =
    (caps \<noteq> [] \<and> list_all (\<lambda>cap. cap_access_mode cap \<in> {1, 5} \<and>
       (case cap_mount cap of
          Some m \<Rightarrow> fs_type m \<in> {[], ''ext4'', ''xfs''} \<and> mount_flags m = []
        | None \<Rightarrow> cap_block cap)) caps)"
  by (auto simp: validate_csi_volume_capabilities_Inr validate_csi_volume_capability_Inr list_all_iff
      split: option.splits)

text \<open>
  The length of a volume id: with a validated system id, a uid of at most 32 characters and one
  of the five storage types it is at most 129 characters plus the internal id, which the limit on
  system ids does not count.
\<close>

theorem volume_id_length:
  assumes "validate_system_id s = Inr ()" "length (vol_id v) \<le> 32"
    "vol_array_type v \<in> set ALL_ARRAY_TYPES"
  shows "length (get_volume_id v (Some s)) =
      length (vol_array_type v) + length s + length (vol_internal_id v) + length (vol_id v) + 3 \<and>
    length (get_volume_id v (Some s)) \<le> 129 + length (vol_internal_id v)"
proof -
  have "length (vol_array_type v) \<le> 10"
    using assms(3) by (auto simp: ALL_ARRAY_TYPES_def array_type_defs)
  moreover have "length (get_volume_id v (Some s)) =
      length (vol_array_type v) + length s + length (vol_internal_id v) + length (vol_id v) + 3"
    using valid_system_id_part(2) [OF assms(1)]
    by (simp add: get_volume_id_def get_object_id_def normalize_utf8_text_def Let_def)
  ultimately show ?thesis using valid_system_id_part(3) [OF assms(1)] assms(2) by linarith
qed

theorem volume_id_length_witness:
  "128 < length (get_volume_id (example_volume\<lparr>vol_array_type := ''SANtricity''\<rparr>) (Some (replicate 84 CHR ''a'')))"
proof -
  have "validate_system_id (replicate 84 CHR ''a'') = Inr ()"
    by (simp add: validate_system_id_def is_system_id_valid_def matches_id_regex_def is_alnum_def
        is_id_char_def SECRET_SYSTEM_ID_MAX_LENGTH_value list_all_iff)
  from volume_id_length [OF this, of "example_volume\<lparr>vol_array_type := ''SANtricity''\<rparr>"]
  show ?thesis by (simp add: example_volume_def ALL_ARRAY_TYPES_def array_type_defs)
qed

subsection \<open>Finding the system again\<close>

text \<open>The system that is chosen by the topology is found again by its id.\<close>

lemma connection_by_system_id:
  assumes "get_array_connection_info_from_secrets secrets topologies None = Inr ci" and "validate_secrets secrets = Inr ()"
  shows "get_array_connection_info_from_secrets secrets None (ci_system_id ci) = Inr ci"
    and "ci_system_id ci = None \<or> (\<exists>sid. ci_system_id ci = Some sid \<and> validate_system_id sid = Inr ())"
proof -
  obtain info sid where info: "get_system_info_from_secrets secrets topologies None = Inr (info, sid)"
      "get_array_connection_info_from_system_info info sid = Inr ci"
    using assms(1) by (auto simp: get_array_connection_info_from_secrets_def bindR_Inr_iff)
  then have sid: "ci_system_id ci = sid"
    by (auto simp: get_array_connection_info_from_system_info_def bindR_Inr_iff)
  have "get_system_info_from_secrets secrets None sid = Inr (info, sid) \<and>
      (sid = None \<or> (\<exists>i. sid = Some i \<and> validate_system_id i = Inr ()))"
  proof (cases "truthy (map_of secrets ''config'')")
    case False
    then show ?thesis using info(1) by (auto simp: get_system_info_from_secrets_def split: option.splits if_splits)
  next
    case True
    then obtain raw where raw: "map_of secrets ''config'' = Some raw" "raw \<noteq> []" by (auto simp: truthy_def split: option.splits)
    from info(1) raw obtain items i where items: "parse_raw_json raw = Inr (JObj items)" "sid = Some i" "(i, info) \<in> set items"
      by (auto simp: get_system_info_from_secrets_def get_system_info_for_topologies_def json_items_def bindR_Inr_iff
          dest!: system_for_topologies_member split: option.splits if_splits json.splits)
    have "forR validate_system items = Inr ()"
      using assms(2) raw items(1) by (auto simp: validate_secrets_def validate_secrets_config_def json_items_def split: if_splits)
    then have valid: "validate_system (i, info) = Inr ()" using items(3) by (simp add: forR_Inr_iff)
    then have i: "i \<noteq> []" "validate_system_id i = Inr ()"
      by (auto simp: validate_system_def thenR_def bindR_Inr_iff split: if_splits)
    have "distinct (map fst items)"
      using items(1) by (auto simp: parse_raw_json_def dest: json_loads_object split: option.splits)
    then have "map_of items i = Some info" using items(3) by simp
    then show ?thesis
      using raw items i by (simp add: get_system_info_from_secrets_def json_get_def json_get_or_def dict_get_or_def)
  qed
  with info(2) sid show "get_array_connection_info_from_secrets secrets None (ci_system_id ci) = Inr ci"
    and "ci_system_id ci = None \<or> (\<exists>sid. ci_system_id ci = Some sid \<and> validate_system_id sid = Inr ())"
    by (simp_all add: get_array_connection_info_from_secrets_def)
qed

end
