(* ===== verification/Server.thy ===== *)
theory Server
  imports Types Prog
begin

text \<open>
  What every handler of the gRPC servers goes through: the lock on the object of the request
  (\<open>servers/csi/sync_lock.py\<close>), the decorator that takes it (\<open>servers/csi/decorators.py\<close>) and the
  translation of exceptions to status codes (\<open>servers/csi/exception_handler.py\<close>).  \<open>lock_step\<close>
  interleaves the handlers of several threads over the shared table of locks.

  A reply is \<open>Ok r\<close>, the response message, or \<open>Fail code detail type\<close>: the code and details set
  in the context and an empty message of the type.
\<close>

subsection \<open>Replies\<close>

datatype status_code =
    StatusOK | INVALID_ARGUMENT | NOT_FOUND | ALREADY_EXISTS | PERMISSION_DENIED
  | RESOURCE_EXHAUSTED | FAILED_PRECONDITION | ABORTED | OUT_OF_RANGE | UNIMPLEMENTED
  | INTERNAL | UNAUTHENTICATED

datatype detail = Exc exn | Msg str

datatype 'r reply = Ok 'r | Fail status_code detail str

fun reply_code :: "'r reply \<Rightarrow> status_code" where
  "reply_code (Ok r) = StatusOK"
| "reply_code (Fail c d t) = c"

text \<open>\<open>status_codes_by_exception.get(type(exception), INTERNAL)\<close>.\<close>

definition status_of_exception :: "exn \<Rightarrow> status_code" where
  "status_of_exception e =
     (case e of
        PyErr NotImplementedError \<Rightarrow> UNIMPLEMENTED
      | ValidationException m \<Rightarrow> INVALID_ARGUMENT
      | ArrayErr a \<Rightarrow>
          (case a of
             InvalidArgumentError m \<Rightarrow> INVALID_ARGUMENT
           | PoolParameterIsMissing t \<Rightarrow> INVALID_ARGUMENT
           | VirtSnapshotFunctionNotSupportedMessage i \<Rightarrow> INVALID_ARGUMENT
           | ObjectNotFoundError n \<Rightarrow> NOT_FOUND
           | HostNotFoundError h \<Rightarrow> NOT_FOUND
           | PermissionDeniedError p \<Rightarrow> PERMISSION_DENIED
           | ObjectIsStillInUseError i u \<Rightarrow> FAILED_PRECONDITION
           | CredentialsError p \<Rightarrow> UNAUTHENTICATED
           | _ \<Rightarrow> INTERNAL)
      | _ \<Rightarrow> INTERNAL)"

definition build_error_response :: "str \<Rightarrow> status_code \<Rightarrow> str \<Rightarrow> 'r reply" where
  "build_error_response message code response_type = Fail code (Msg message) response_type"

definition handle_exception :: "exn \<Rightarrow> status_code \<Rightarrow> str \<Rightarrow> 'r reply" where
  "handle_exception e code response_type = Fail code (Exc e) response_type"

definition handle_common_exceptions :: "('s, 'r reply) prog \<Rightarrow> str \<Rightarrow> 's \<Rightarrow> 'r reply \<times> 's" where
  "handle_common_exceptions method response_type = (\<lambda>s.
     case method s of
       (Inl e, s') \<Rightarrow> (handle_exception e (status_of_exception e) response_type, s')
     | (Inr r, s') \<Rightarrow> (r, s'))"

subsection \<open>Locks\<close>

text \<open>
  \<open>ids_in_use\<close> as the set of its (key, id) pairs.  An empty key takes no lock: such a method is
  declared without a lock attribute.
\<close>

type_synonym lock_id = "str \<times> str option"

definition ids_add :: "lock_id \<Rightarrow> lock_id set \<Rightarrow> lock_id set" where
  "ids_add k locks = insert k locks"

definition ids_remove :: "lock_id \<Rightarrow> lock_id set \<Rightarrow> lock_id set" where
  "ids_remove k locks = (if k \<in> locks then locks - {k} else locks)"

definition add_object_lock :: "lock_id \<Rightarrow> lock_id set \<Rightarrow> exn + lock_id set" where
  "add_object_lock k locks =
     (if k \<in> locks
      then Inl (ObjectAlreadyProcessingError (case snd k of None \<Rightarrow> ''None'' | Some i \<Rightarrow> i))
      else Inr (ids_add k locks))"

definition lock_enter :: "lock_id \<Rightarrow> lock_id set \<Rightarrow> exn + lock_id set" where
  "lock_enter k locks = (if fst k \<noteq> [] then add_object_lock k locks else Inr locks)"

definition lock_exit :: "lock_id \<Rightarrow> lock_id set \<Rightarrow> lock_id set" where
  "lock_exit k locks = (if fst k \<noteq> [] then ids_remove k locks else locks)"

record 's server =
  ids_in_use :: "lock_id set"
  world :: 's

text \<open>\<open>_set_sync_lock\<close>: the method runs with the lock held, and the lock is released after it.\<close>

definition set_sync_lock ::
  "str option \<Rightarrow> str \<Rightarrow> str \<Rightarrow> ('s, 'r reply) prog \<Rightarrow> 's server \<Rightarrow> 'r reply \<times> 's server" where
  "set_sync_lock lock_id lock_attribute response_type method = (\<lambda>sv.
     case lock_enter (lock_attribute, lock_id) (ids_in_use sv) of
       Inl e \<Rightarrow> (handle_exception e ABORTED response_type, sv)
     | Inr locks \<Rightarrow>
         (case handle_common_exceptions method response_type (world sv) of
            (r, w) \<Rightarrow> (r, \<lparr>ids_in_use = lock_exit (lock_attribute, lock_id) locks, world = w\<rparr>)))"

text \<open>\<open>csi_method(error_response_type, lock_request_attribute)\<close>.\<close>

definition csi_method ::
  "str \<Rightarrow> str \<Rightarrow> ('q \<Rightarrow> str option) \<Rightarrow> ('q \<Rightarrow> ('s, 'r reply) prog) \<Rightarrow> 'q \<Rightarrow> 's server \<Rightarrow> 'r reply \<times> 's server" where
  "csi_method response_type lock_attribute get_attribute method request =
     set_sync_lock (get_attribute request) lock_attribute response_type (method request)"

text \<open>
  What the replication requests hold in \<open>replication_source\<close> (\<open>SourceUnset\<close> is a message without
  fields, \<open>SourceOther\<close> one with another field), and \<open>csi_replication_method\<close>: with
  no replication source the variable \<open>lock_id\<close> is not assigned before it is read, which raises
  outside of every handler.
\<close>

datatype replication_source = SourceVolumeGroup str | SourceVolume str | SourceOther | SourceUnset

definition replication_lock_id :: "replication_source option \<Rightarrow> exn + str option" where
  "replication_lock_id source =
     (case source of
        None \<Rightarrow> Inl (PyErr UnboundLocalError)
      | Some (SourceVolumeGroup i) \<Rightarrow> Inr (Some i)
      | Some (SourceVolume i) \<Rightarrow> Inr (Some i)
      | Some _ \<Rightarrow> Inr None)"

definition csi_replication_method ::
  "str \<Rightarrow> ('q \<Rightarrow> replication_source option) \<Rightarrow> ('q \<Rightarrow> ('s, 'r reply) prog) \<Rightarrow> 'q \<Rightarrow> 's server
    \<Rightarrow> (exn + 'r reply) \<times> 's server" where
  "csi_replication_method response_type get_source method request = (\<lambda>sv.
     case replication_lock_id (get_source request) of
       Inl e \<Rightarrow> (Inl e, sv)
     | Inr lock_id \<Rightarrow>
         (case set_sync_lock lock_id ''replication_source'' response_type (method request) sv of
            (r, sv') \<Rightarrow> (Inr r, sv')))"

subsection \<open>The table of locks as an interface\<close>

text \<open>What a client of a table of locks relies on.\<close>

locale lock_table =
  fixes acquire :: "'k \<Rightarrow> 't \<Rightarrow> 'e + 't"
    and release :: "'k \<Rightarrow> 't \<Rightarrow> 't"
    and held :: "'t \<Rightarrow> 'k set"
    and locking :: "'k \<Rightarrow> bool"
  assumes acquire_fails: "(\<exists>e. acquire k t = Inl e) = (locking k \<and> k \<in> held t)"
    and acquire_held: "acquire k t = Inr t' \<Longrightarrow> held t' = (if locking k then insert k (held t) else held t)"
    and release_held: "held (release k t) = (if locking k then held t - {k} else held t)"
begin

lemma acquire_free: "locking k \<Longrightarrow> acquire k t = Inr t' \<Longrightarrow> k \<notin> held t"
  using acquire_fails [of k t] by auto

lemma acquire_twice: "locking k \<Longrightarrow> acquire k t = Inr t' \<Longrightarrow> \<exists>e. acquire k t' = Inl e"
  using acquire_fails [of k t'] acquire_held [of k t t'] by auto

lemma bracket: "acquire k t = Inr t' \<Longrightarrow> held (release k t') = held t"
  using acquire_free [of k t t'] by (auto simp: release_held acquire_held)

lemma release_available: "locking k \<Longrightarrow> \<exists>t'. acquire k (release k t) = Inr t'"
  using acquire_fails [of k "release k t"] by (cases "acquire k (release k t)") (auto simp: release_held)

lemma other_unaffected:
  "acquire k t = Inr t' \<Longrightarrow> j \<noteq> k \<Longrightarrow> (\<exists>e. acquire j t' = Inl e) = (\<exists>e. acquire j t = Inl e)"
  by (auto simp: acquire_fails acquire_held)

end

interpretation sync_lock: lock_table lock_enter lock_exit "\<lambda>t. t" "\<lambda>k. fst k \<noteq> []"
  by unfold_locales
    (auto simp: lock_enter_def lock_exit_def add_object_lock_def ids_add_def ids_remove_def split: if_splits)

subsection \<open>One call\<close>

lemma set_sync_lock_busy:
  assumes "attr \<noteq> []" "(attr, i) \<in> ids_in_use sv"
  shows "set_sync_lock i attr t m sv =
    (Fail ABORTED (Exc (ObjectAlreadyProcessingError (case i of None \<Rightarrow> ''None'' | Some x \<Rightarrow> x))) t, sv)"
  using assms by (simp add: set_sync_lock_def lock_enter_def add_object_lock_def handle_exception_def)

lemma set_sync_lock_free:
  assumes "attr = [] \<or> (attr, i) \<notin> ids_in_use sv"
    "handle_common_exceptions m t (world sv) = (r, w)"
  shows "set_sync_lock i attr t m sv = (r, \<lparr>ids_in_use = ids_in_use sv, world = w\<rparr>)"
proof -
  obtain locks where l: "lock_enter (attr, i) (ids_in_use sv) = Inr locks"
    using assms(1) by (cases "attr = []") (simp_all add: lock_enter_def add_object_lock_def)
  from sync_lock.bracket [OF l] have "lock_exit (attr, i) locks = ids_in_use sv" by simp
  with l assms(2) show ?thesis by (simp add: set_sync_lock_def)
qed

text \<open>Whatever the method returns or raises, the locks after a call are those before it.\<close>

lemma set_sync_lock_locks: "ids_in_use (snd (set_sync_lock i attr t m sv)) = ids_in_use sv"
proof (cases "attr = [] \<or> (attr, i) \<notin> ids_in_use sv")
  case True
  obtain r w where "handle_common_exceptions m t (world sv) = (r, w)" by force
  from set_sync_lock_free [OF True this] show ?thesis by simp
next
  case False
  then show ?thesis by (simp add: set_sync_lock_busy)
qed

subsection \<open>Interleaved calls\<close>

text \<open>
  A thread that handles a request for lock \<open>k\<close> is \<open>Waiting k\<close> before it enters, \<open>Running k\<close> while
  its handler runs, then \<open>Finished\<close>; or \<open>Aborted\<close>, when the id was in use.
\<close>

datatype thread = Waiting lock_id | Running lock_id | Finished | Aborted

record threads =
  table :: "lock_id set"
  pool_of :: "nat \<Rightarrow> thread"

inductive lock_step :: "threads \<Rightarrow> threads \<Rightarrow> bool" where
  enter: "pool_of c t = Waiting k \<Longrightarrow> lock_enter k (table c) = Inr locks \<Longrightarrow>
    lock_step c (c\<lparr>table := locks, pool_of := (pool_of c)(t := Running k)\<rparr>)"
| abort: "pool_of c t = Waiting k \<Longrightarrow> lock_enter k (table c) = Inl e \<Longrightarrow>
    lock_step c (c\<lparr>pool_of := (pool_of c)(t := Aborted)\<rparr>)"
| leave: "pool_of c t = Running k \<Longrightarrow>
    lock_step c (c\<lparr>table := lock_exit k (table c), pool_of := (pool_of c)(t := Finished)\<rparr>)"
| request: "pool_of c t = Finished \<or> pool_of c t = Aborted \<Longrightarrow>
    lock_step c (c\<lparr>pool_of := (pool_of c)(t := Waiting k)\<rparr>)"

inductive_cases lock_stepE: "lock_step c d"

inductive lock_reachable :: "threads \<Rightarrow> bool" where
  start: "table c = {} \<Longrightarrow> \<forall>t. pool_of c t = Finished \<Longrightarrow> lock_reachable c"
| step: "lock_reachable c \<Longrightarrow> lock_step c d \<Longrightarrow> lock_reachable d"

definition running :: "threads \<Rightarrow> lock_id \<Rightarrow> bool" where
  "running c k = (\<exists>t. pool_of c t = Running k)"

definition lock_inv :: "threads \<Rightarrow> bool" where
  "lock_inv c =
     ((\<forall>k. k \<in> table c \<longleftrightarrow> fst k \<noteq> [] \<and> running c k) \<and>
      (\<forall>t u k. pool_of c t = Running k \<longrightarrow> pool_of c u = Running k \<longrightarrow> fst k \<noteq> [] \<longrightarrow> t = u))"

lemma running_set:
  assumes "pool_of c t = Waiting k"
  shows "running (c\<lparr>table := l, pool_of := (pool_of c)(t := Running k)\<rparr>) j = (j = k \<or> running c j)"
proof -
  have "u \<noteq> t" if "pool_of c u = Running j" for u using that assms by auto
  then show ?thesis by (auto simp: running_def)
qed

lemma running_other:
  assumes "\<forall>i. pool_of c t \<noteq> Running i" "\<forall>i. th \<noteq> Running i"
  shows "running (c\<lparr>pool_of := (pool_of c)(t := th)\<rparr>) j = running c j"
proof -
  have "u \<noteq> t" if "pool_of c u = Running j" for u using that assms(1) by blast
  with assms(2) show ?thesis by (auto simp: running_def simp del: split_paired_All)
qed

lemma running_finish:
  "running (c\<lparr>table := l, pool_of := (pool_of c)(t := Finished)\<rparr>) j = (\<exists>u. u \<noteq> t \<and> pool_of c u = Running j)"
  by (auto simp: running_def)

lemma lock_inv_step: "lock_step c d \<Longrightarrow> lock_inv c \<Longrightarrow> lock_inv d"
proof (induction rule: lock_step.induct)
  case (enter c t k locks)
  have l: "j \<in> locks \<longleftrightarrow> j \<in> table c \<or> (fst k \<noteq> [] \<and> j = k)" for j
    using enter(2) by (auto simp: lock_enter_def add_object_lock_def ids_add_def split: if_splits)
  have "k \<notin> table c" if "fst k \<noteq> []"
    using sync_lock.acquire_free [OF that enter(2)] .
  then have free: "pool_of c u \<noteq> Running k" if "fst k \<noteq> []" for u
    using that enter(3) unfolding lock_inv_def running_def by blast
  show ?case unfolding lock_inv_def
  proof (intro conjI allI impI, goal_cases)
    case (1 j)
    show ?case using l [of j] enter(3) unfolding running_set [OF enter(1)] lock_inv_def by auto
  next
    case (2 u v j)
    then show ?case using free enter(3) unfolding lock_inv_def
      by (cases "u = t"; cases "v = t") (auto simp del: split_paired_All)
  qed
next
  case (abort c t k e)
  then have "running (c\<lparr>pool_of := (pool_of c)(t := Aborted)\<rparr>) j = running c j" for j
    by (intro running_other) simp_all
  with abort show ?case by (simp add: lock_inv_def del: split_paired_All)
next
  case (leave c t k)
  have l: "j \<in> lock_exit k (table c) \<longleftrightarrow> j \<in> table c \<and> \<not> (fst k \<noteq> [] \<and> j = k)" for j
    by (auto simp: lock_exit_def ids_remove_def)
  have only: "u = t" if "fst k \<noteq> []" "pool_of c u = Running k" for u
    using that leave unfolding lock_inv_def by blast
  show ?case unfolding lock_inv_def
  proof (intro conjI allI impI, goal_cases)
    case (1 j)
    have "(\<exists>u. u \<noteq> t \<and> pool_of c u = Running j) = (running c j \<and> j \<noteq> k)" if "fst j \<noteq> []"
      using that only leave(1) unfolding running_def by (metis thread.inject(2))
    then show ?case using l [of j] leave(2) unfolding running_finish lock_inv_def by auto
  next
    case (2 u v j)
    then show ?case using leave(2) unfolding lock_inv_def
      by (cases "u = t"; cases "v = t") (auto simp del: split_paired_All)
  qed
next
  case (request c t k)
  then have "running (c\<lparr>pool_of := (pool_of c)(t := Waiting k)\<rparr>) j = running c j" for j
    by (intro running_other) auto
  with request show ?case by (auto simp: lock_inv_def simp del: split_paired_All)
qed

lemma lock_inv_reachable: "lock_reachable c \<Longrightarrow> lock_inv c"
proof (induction rule: lock_reachable.induct)
  case (start c)
  then show ?case by (auto simp: lock_inv_def running_def)
next
  case (step c d)
  then show ?case by (blast intro: lock_inv_step)
qed

subsection \<open>Properties\<close>

text \<open>
  C2. Mutual exclusion: in every state the interleaved handlers can reach, the handlers of two
  threads never run for the same object under the same lock key, and the table of locks holds
  exactly the ids that are being processed.
\<close>

theorem sync_lock_mutual_exclusion:
  assumes "lock_reachable c" "fst k \<noteq> []" "pool_of c t = Running k" "pool_of c u = Running k"
  shows "t = u \<and> k \<in> table c"
  using lock_inv_reachable [OF assms(1)] assms(2-4) unfolding lock_inv_def running_def by blast

theorem sync_lock_mutual_exclusion_witness:
  "\<exists>c. lock_reachable c \<and> pool_of c 7 = Running (''name'', Some ''vol1'') \<and> (''name'', Some ''vol1'') \<in> table c"
proof -
  let ?k = "(''name'', Some ''vol1'')"
  let ?c0 = "\<lparr>table = {}, pool_of = (\<lambda>t. Finished)\<rparr>"
  have 0: "lock_reachable ?c0" by (intro lock_reachable.start) auto
  have "lock_step ?c0 \<lparr>table = {}, pool_of = (\<lambda>t. Finished)(7 := Waiting ?k)\<rparr>"
    using lock_step.request [of ?c0 7 ?k] by simp
  with 0 have 1: "lock_reachable \<lparr>table = {}, pool_of = (\<lambda>t. Finished)(7 := Waiting ?k)\<rparr>"
    by (rule lock_reachable.step)
  have "lock_step \<lparr>table = {}, pool_of = (\<lambda>t. Finished)(7 := Waiting ?k)\<rparr>
      \<lparr>table = {?k}, pool_of = (\<lambda>t. Finished)(7 := Running ?k)\<rparr>"
    using lock_step.enter [of "\<lparr>table = {}, pool_of = (\<lambda>t. Finished)(7 := Waiting ?k)\<rparr>" 7 ?k "{?k}"]
    by (simp add: lock_enter_def add_object_lock_def ids_add_def)
  with 1 have r: "lock_reachable \<lparr>table = {?k}, pool_of = (\<lambda>t. Finished)(7 := Running ?k)\<rparr>"
    by (rule lock_reachable.step)
  from sync_lock_mutual_exclusion [OF r, of ?k 7 7] r show ?thesis by (intro exI) auto
qed

text \<open>
  C3. One call: when the id is in use the reply is ABORTED and nothing of the state changes; the
  locks after a call are those before it, whatever the method does; and no exception of the
  method leaves the call: it becomes the status of its exact class.
\<close>

theorem set_sync_lock_spec:
  "ids_in_use (snd (set_sync_lock i attr t m sv)) = ids_in_use sv \<and>
   (if attr \<noteq> [] \<and> (attr, i) \<in> ids_in_use sv
    then reply_code (fst (set_sync_lock i attr t m sv)) = ABORTED \<and> snd (set_sync_lock i attr t m sv) = sv
    else world (snd (set_sync_lock i attr t m sv)) = snd (m (world sv)) \<and>
      fst (set_sync_lock i attr t m sv) =
        (case fst (m (world sv)) of Inl e \<Rightarrow> Fail (status_of_exception e) (Exc e) t | Inr r \<Rightarrow> r))"
proof (cases "attr \<noteq> [] \<and> (attr, i) \<in> ids_in_use sv")
  case True
  then show ?thesis by (simp add: set_sync_lock_busy)
next
  case False
  obtain r w where rw: "handle_common_exceptions m t (world sv) = (r, w)" by force
  then have "w = snd (m (world sv)) \<and>
      r = (case fst (m (world sv)) of Inl e \<Rightarrow> Fail (status_of_exception e) (Exc e) t | Inr r \<Rightarrow> r)"
    by (auto simp: handle_common_exceptions_def handle_exception_def split: prod.splits sum.splits)
  with False set_sync_lock_free [of attr i sv m t r w] rw show ?thesis by auto
qed

text \<open>
  Exceptions become statuses by their exact class: INVALID_ARGUMENT comes from a
  \<open>ValidationException\<close> and exactly three classes of storage errors, so a subclass of
  \<open>InvalidArgumentError\<close> such as \<open>PoolDoesNotExist\<close>, which \<open>except InvalidArgumentError\<close> would
  catch, is reported as INTERNAL by a handler that does not catch it itself.
\<close>

theorem status_by_exact_class:
  "(status_of_exception e = INVALID_ARGUMENT) =
     ((\<exists>m. e = ValidationException m) \<or> isa ''InvalidArgumentError'' e \<or> isa ''PoolParameterIsMissing'' e
      \<or> isa ''VirtSnapshotFunctionNotSupportedMessage'' e) \<and>
   status_of_exception (ArrayErr (PoolDoesNotExist p a)) = INTERNAL \<and>
   is_InvalidArgumentError (ArrayErr (PoolDoesNotExist p a))"
proof (cases e)
  case (ArrayErr x)
  then show ?thesis by (cases x) (simp_all add: status_of_exception_def is_InvalidArgumentError_def)
next
  case (PyErr x)
  then show ?thesis by (cases x) (simp_all add: status_of_exception_def is_InvalidArgumentError_def)
qed (simp_all add: status_of_exception_def is_InvalidArgumentError_def)

end
