(* ===== verification/Controller.thy ===== *)
theory Controller
  imports Mediator Validation Server
begin

text \<open>
  The CSI controller service (\<open>servers/csi/csi_controller_server.py\<close>) over the interface of the
  mediators, with the responses and the checks of existing objects of \<open>servers/utils.py\<close>.  Each
  handler is the method the decorator \<open>csi_method\<close> wraps; \<open>csi_*\<close> is the wrapped handler.

  The environment of the handlers is a parameter: the detection of the type of a storage system,
  the pool that lends a mediator for a connection and takes it back, the Kubernetes nodes and the
  hash of names.
\<close>

subsection \<open>The environment\<close>

text \<open>A mediator with the methods that are inherited or overridden.\<close>

record 's full_mediator = "'s mediator" +
  fm_map_volume_by_initiators :: "str \<Rightarrow> initiators \<Rightarrow> bool \<Rightarrow> ('s, str \<times> str option \<times> array_initiators) prog"
  fm_unmap_volume_by_initiators :: "str \<Rightarrow> initiators \<Rightarrow> ('s, unit) prog"
  fm_copy_to_existing_volume_from_source :: "volume \<Rightarrow> str \<Rightarrow> str option \<Rightarrow> int \<Rightarrow> ('s, unit) prog"

text \<open>
  The methods of the abstract class; the three arguments are its decorators \<open>retry\<close>.
\<close>

definition inherit_methods ::
  "'s mediator \<Rightarrow>
   (('s, str \<times> str option \<times> array_initiators) prog \<Rightarrow> ('s, str \<times> str option \<times> array_initiators) prog) \<Rightarrow>
   (('s, unit) prog \<Rightarrow> ('s, unit) prog) \<Rightarrow> (('s, unit) prog \<Rightarrow> ('s, unit) prog) \<Rightarrow> 's full_mediator" where
  "inherit_methods md retry_map retry_unmap retry_rollback =
     mediator.extend md
       (full_mediator.fields
          (\<lambda>v i e. retry_map (map_volume_by_initiators md v i e))
          (\<lambda>v i. retry_unmap (unmap_volume_by_initiators md v i))
          (copy_to_existing_volume_from_source md retry_rollback))"

record 's env =
  env_detect :: "str list \<Rightarrow> ('s, str) prog"
  env_acquire :: "array_connection_info \<Rightarrow> str \<Rightarrow> ('s, 's full_mediator) prog"
  env_release :: "'s \<Rightarrow> 's"
  env_read_node :: read_node
  env_hash :: "str \<Rightarrow> str"

text \<open>\<open>with get_agent(info, array_type).get_mediator() as md\<close>.\<close>

definition with_agent ::
  "'s env \<Rightarrow> array_connection_info \<Rightarrow> str \<Rightarrow> ('s full_mediator \<Rightarrow> ('s, 'a) prog) \<Rightarrow> ('s, 'a) prog" where
  "with_agent env ci array_type body =
     bindE (env_acquire env ci array_type) (\<lambda>md. finallyE (body md) (env_release env))"

subsection \<open>Responses\<close>

record csi_volume =
  csi_capacity_bytes :: int
  csi_volume_id :: str
  csi_content_source :: "content_source option"

record csi_snapshot =
  csi_size_bytes :: int
  csi_snapshot_id :: str
  csi_source_volume_id :: str
  csi_ready_to_use :: bool

definition generate_csi_create_volume_response ::
  "volume \<Rightarrow> str option \<Rightarrow> str option \<Rightarrow> csi_volume" where
  "generate_csi_create_volume_response v system_id source_type =
     \<lparr>csi_capacity_bytes = vol_capacity_bytes v, csi_volume_id = get_volume_id v system_id,
      csi_content_source =
        (if truthy (vol_source_id v)
         then Some (if source_type = Some SNAPSHOT_TYPE_NAME then SnapshotSource (the (vol_source_id v))
                    else VolumeSource (the (vol_source_id v)))
         else None)\<rparr>"

definition generate_csi_create_snapshot_response ::
  "snapshot \<Rightarrow> str option \<Rightarrow> str \<Rightarrow> csi_snapshot" where
  "generate_csi_create_snapshot_response sn system_id source_volume_id =
     \<lparr>csi_size_bytes = vol_capacity_bytes sn, csi_snapshot_id = get_snapshot_id sn system_id,
      csi_source_volume_id = source_volume_id, csi_ready_to_use = snap_is_ready sn\<rparr>"

definition publish_targets :: "(str \<times> str list) list \<Rightarrow> sdict \<Rightarrow> sdict \<times> str list" where
  "publish_targets items context =
     foldl (\<lambda>(context, array_iqns) (initiator, ips).
         if initiator = ''ARRAY_SERIAL_PARAM''
         then (AList.update ''PUBLISH_CONTEXT_ARRAY_SERIAL'' (py_join '','' ips) context, array_iqns)
         else (AList.update initiator (py_join '','' ips) context, array_iqns @ [initiator]))
       (context, []) items"

text \<open>
  \<open>generate_csi_publish_volume_response\<close>: the publish context.  With no connectivity type the
  message cannot be built; a dictionary where ports are joined gives its keys, a list has no items.
\<close>

definition generate_csi_publish_volume_response ::
  "str \<Rightarrow> str option \<Rightarrow> array_initiators \<Rightarrow> exn + sdict" where
  "generate_csi_publish_volume_response lun connectivity_type ai =
     (case connectivity_type of
        None \<Rightarrow> Inl (PyErr TypeError)
      | Some t \<Rightarrow>
          (let context = [(''PUBLISH_CONTEXT_LUN'', lun), (''PUBLISH_CONTEXT_CONNECTIVITY'', t)];
               joined = py_join '','' (case ai of PortList ps \<Rightarrow> ps | TargetMap ts \<Rightarrow> map fst ts)
           in if t = FC then Inr (AList.update ''PUBLISH_CONTEXT_ARRAY_FC_INITIATORS'' joined context)
              else if t = ISCSI \<or> t = NVME_OVER_ROCE
              then (case ai of
                      PortList ps \<Rightarrow> Inl (PyErr AttributeError)
                    | TargetMap ts \<Rightarrow>
                        (case publish_targets ts context of (context', iqns) \<Rightarrow>
                           Inr (AList.update ''PUBLISH_CONTEXT_ARRAY_IQN'' (py_join '','' iqns) context')))
              else if t = NVME_OVER_FC
              then Inr (AList.update ''PUBLISH_CONTEXT_ARRAY_NVME_INITIATORS'' joined context)
              else Inr context))"

subsection \<open>Checks of existing objects\<close>

definition validate_space_efficiency_match :: "str option \<Rightarrow> str list \<Rightarrow> exn + unit" where
  "validate_space_efficiency_match space_efficiency aliases =
     (if truthy space_efficiency
      then raise_if (py_lower (the space_efficiency) \<notin> set aliases)
             (ValidationException (SPACE_EFFICIENCY_NOT_MATCH_VOLUME (py_lower (the space_efficiency)) aliases))
      else Inr ())"

definition validate_parameters_match_source_volume :: "str option \<Rightarrow> int \<Rightarrow> volume \<Rightarrow> exn + unit" where
  "validate_parameters_match_source_volume space_efficiency required_bytes v =
     thenR (validate_space_efficiency_match space_efficiency (vol_space_efficiency_aliases v))
       (raise_if (vol_capacity_bytes v < required_bytes)
          (ValidationException (REQUIRED_BYTES_MISMATCH required_bytes (vol_capacity_bytes v))))"

definition validate_parameters_match_volume :: "sdict \<Rightarrow> volume \<Rightarrow> exn + unit" where
  "validate_parameters_match_volume parameters v =
     (let pool = map_of parameters ''pool''; prefix = map_of parameters ''volume_name_prefix''
      in thenR (validate_space_efficiency_match (map_of parameters ''SpaceEfficiency'')
                  (vol_space_efficiency_aliases v))
        (thenR (raise_if (truthy pool \<and> the pool \<noteq> vol_pool v)
                  (ValidationException (POOL_NOT_MATCH_VOLUME (the pool) (vol_pool v))))
          (raise_if (truthy prefix \<and> \<not> py_startswith (vol_name v) (the prefix @ ''_''))
             (ValidationException (PREFIX_NOT_MATCH_VOLUME (the prefix) (vol_name v))))))"

definition get_context_from_volume :: "volume \<Rightarrow> sdict" where
  "get_context_from_volume v =
     [(''volume_name'', vol_name v), (''array_address'', py_join '','' (vol_array_address v)),
      (''pool_name'', vol_pool v), (''storage_type'', vol_array_type v)]"

definition dict_eq :: "sdict \<Rightarrow> sdict \<Rightarrow> bool" where
  "dict_eq a b = list_all (\<lambda>k. map_of a k = map_of b k) (map fst a @ map fst b)"

definition validate_volume_context_match_volume :: "sdict \<Rightarrow> volume \<Rightarrow> exn + unit" where
  "validate_volume_context_match_volume volume_context v =
     raise_if (volume_context \<noteq> [] \<and> \<not> dict_eq volume_context (get_context_from_volume v))
       (ValidationException (VOLUME_CONTEXT_NOT_MATCH_VOLUME volume_context (get_context_from_volume v)))"

subsection \<open>CreateVolume\<close>

definition get_source_type_and_ids :: "content_source option \<Rightarrow> exn + (str option \<times> object_ids)" where
  "get_source_type_and_ids source =
     (case source of
        None \<Rightarrow> Inr (None, \<lparr>ids_internal_id = Some [], ids_uid = Some []\<rparr>)
      | Some (SnapshotSource i) \<Rightarrow>
          bindR (get_object_id_info i SNAPSHOT_TYPE_NAME) (\<lambda>info. Inr (Some SNAPSHOT_TYPE_NAME, oi_ids info))
      | Some (VolumeSource i) \<Rightarrow>
          bindR (get_object_id_info i VOLUME_TYPE_NAME) (\<lambda>info. Inr (Some VOLUME_TYPE_NAME, oi_ids info)))"

definition SIZE_OUT_OF_RANGE :: "int \<Rightarrow> int \<Rightarrow> str" where
  "SIZE_OUT_OF_RANGE required max_size =
     ''requested size is out of limits. requested: '' @ int_str required @ '', max_in_byte: '' @ int_str max_size"

definition different_source_message :: "volume \<Rightarrow> str option \<Rightarrow> str option \<Rightarrow> str" where
  "different_source_message v source_id source_type =
     (if truthy source_id
      then ''Volume '' @ vol_name v @ '' already exists but was not created from the requested source '' @
           opt_str source_type @ '' '' @ opt_str source_id @ ''. actual source: '' @ opt_str (vol_source_id v)
      else ''Volume '' @ vol_name v @ '' already exists but was created from a source: '' @ opt_str (vol_source_id v))"

text \<open>
  \<open>_get_create_volume_response_for_existing_volume_source\<close>: \<open>None\<close> when neither the request nor the
  volume has a source.
\<close>

definition existing_volume_source_response ::
  "volume \<Rightarrow> str option \<Rightarrow> str option \<Rightarrow> str option \<Rightarrow> csi_volume reply option" where
  "existing_volume_source_response v source_id source_type system_id =
     (if \<not> truthy source_id \<and> \<not> truthy (vol_source_id v) then None
      else if vol_source_id v = source_id
      then Some (Ok (generate_csi_create_volume_response v system_id source_type))
      else Some (build_error_response (different_source_message v source_id source_type)
             ALREADY_EXISTS ''CreateVolumeResponse''))"

text \<open>
  The source of a volume the storage system copies itself: it has to exist, to match the request
  outside of a partition, and to be in the partition.  \<open>Some r\<close> is an early return of \<open>r\<close>.  A snapshot object
  without a source id is looked up under the empty text in the place of \<open>None\<close>.
\<close>

definition check_source_object ::
  "'s full_mediator \<Rightarrow> array_connection_info \<Rightarrow> str option \<Rightarrow> int \<Rightarrow> bool \<Rightarrow> str \<Rightarrow> str option \<Rightarrow>
    ('s, csi_volume reply option) prog" where
  "check_source_object md ci space_efficiency required_bytes use_snap_object source_id source_type =
     bindE (md_get_object_by_id md source_id source_type use_snap_object) (\<lambda>found.
       case found of
         None \<Rightarrow> ret (Some (Fail NOT_FOUND (Msg (''source '' @ opt_str source_type @ '': '' @ source_id @ '' not found'')) ''CreateVolumeResponse''))
       | Some source_object \<Rightarrow>
           bindE (if use_snap_object \<and> source_type = Some SNAPSHOT_TYPE_NAME
                  then md_get_object_by_id md (case vol_source_id source_object of None \<Rightarrow> [] | Some i \<Rightarrow> i)
                         (Some VOLUME_TYPE_NAME) False
                  else ret (Some source_object)) (\<lambda>source_volume.
             case source_volume of
               None \<Rightarrow> ret (Some (Fail INVALID_ARGUMENT (Msg (''source volume: '' @ opt_str (vol_source_id source_object) @ '' not found'')) ''CreateVolumeResponse''))
             | Some v \<Rightarrow>
                 thenE (if \<not> truthy (ci_partition_name ci)
                        then liftR (validate_parameters_match_source_volume space_efficiency required_bytes v)
                        else ret ())
                (thenE (md_verify_volume_partition md (vol_name v) (vol_partition_name v) (ci_partition_name ci))
                  (ret None))))"

text \<open>The volume to answer with: \<open>Inl r\<close> is an early return, \<open>Inr v\<close> the volume found or created.\<close>

definition get_or_create_volume ::
  "'s full_mediator \<Rightarrow> array_connection_info \<Rightarrow> object_parameters \<Rightarrow> create_volume_request \<Rightarrow> str \<Rightarrow> int \<Rightarrow>
    bool \<Rightarrow> str option \<Rightarrow> object_ids \<Rightarrow> str option \<Rightarrow> ('s, csi_volume reply + volume) prog" where
  "get_or_create_volume md ci vp r name required_bytes use_snap_object source_type source_ids source_id =
     tryE (md_get_volume md name (op_pool vp) use_snap_object)
       (\<lambda>e. if isa ''ObjectNotFoundError'' e then
            thenE (md_validate_supported_space_efficiency md (op_space_efficiency vp))
           (thenE (if (case get_volume_topologies (cv_preferred_topologies r) of None \<Rightarrow> False | Some t \<Rightarrow> t \<noteq> [])
                   then md_register_plugin md ''topology'' '''' else ret ())
             (bindE (md_create_volume md name required_bytes (op_space_efficiency vp) (the (op_pool vp))
                (op_io_group vp) (op_volume_group vp) source_ids source_type use_snap_object
                (ci_partition_name ci) (ci_partition_vg ci) (cv_parameters r)) (\<lambda>v. ret (Inr v))))
          else raiseE e)
       (\<lambda>v. thenE (md_verify_volume_partition md (vol_name v) (vol_partition_name v) (ci_partition_name ci))
          (if \<not> truthy source_id \<and> vol_capacity_bytes v < required_bytes
           then ret (Inl (build_error_response
                  (''Volume was already created with different size. volume size: '' @
                   int_str (vol_capacity_bytes v) @ '', requested size: '' @ int_str required_bytes)
                  ALREADY_EXISTS ''CreateVolumeResponse''))
           else if \<not> use_snap_object
           then (case existing_volume_source_response v source_id source_type (ci_system_id ci) of
                   Some reply \<Rightarrow> ret (Inl reply) | None \<Rightarrow> ret (Inr v))
           else ret (Inr v)))"

definition create_volume_on ::
  "'s env \<Rightarrow> 's full_mediator \<Rightarrow> array_connection_info \<Rightarrow> object_parameters \<Rightarrow> create_volume_request \<Rightarrow>
    str option \<Rightarrow> object_ids \<Rightarrow> str option \<Rightarrow> ('s, csi_volume reply) prog" where
  "create_volume_on env md ci vp r source_type source_ids source_id =
     bindE (liftR (get_object_final_name (env_hash env) (md_limits md) (op_prefix vp) (cv_name r) VOLUME_TYPE_NAME))
       (\<lambda>name.
     let requested = the (cv_required_bytes r);
         required_bytes = (if requested = 0 then md_minimal_volume_size_in_bytes md else requested);
         use_snap_object = (op_virt_snap_func vp \<and> \<not> truthy (ci_partition_name ci));
         no_flash_copy = (op_virt_snap_func vp \<or> truthy (ci_partition_name ci))
     in if md_maximal_volume_size_in_bytes md < requested
        then ret (build_error_response (SIZE_OUT_OF_RANGE requested (md_maximal_volume_size_in_bytes md))
               OUT_OF_RANGE ''CreateVolumeResponse'')
        else bindE (if no_flash_copy \<and> truthy source_id
                    then check_source_object md ci (op_space_efficiency vp) required_bytes use_snap_object
                           (the source_id) source_type
                    else ret None) (\<lambda>early.
          case early of
            Some reply \<Rightarrow> ret reply
          | None \<Rightarrow>
              bindE (get_or_create_volume md ci vp r name required_bytes use_snap_object source_type source_ids source_id)
                (\<lambda>res. case res of
                   Inl reply \<Rightarrow> ret reply
                 | Inr v \<Rightarrow>
                     thenE (if truthy source_id \<and> \<not> no_flash_copy
                            then fm_copy_to_existing_volume_from_source md v (the source_id) source_type required_bytes
                            else ret ())
                       (ret (Ok (generate_csi_create_volume_response (v\<lparr>vol_source_id := source_id\<rparr>)
                               (ci_system_id ci) source_type))))))"

definition CreateVolume_body ::
  "'s env \<Rightarrow> create_volume_request \<Rightarrow> str option \<Rightarrow> object_ids \<Rightarrow> ('s, csi_volume reply) prog" where
  "CreateVolume_body env r source_type source_ids =
     (let source_id = (if truthy (ids_uid source_ids) then ids_uid source_ids else ids_internal_id source_ids)
      in bindE (liftR (get_array_connection_info_from_secrets (cv_secrets r)
                  (get_volume_topologies (cv_preferred_topologies r)) None)) (\<lambda>ci.
         bindE (liftR (get_volume_parameters (cv_parameters r) (ci_system_id ci))) (\<lambda>vp.
         if \<not> truthy (op_pool vp) then raiseE (ValidationException POOL_SHOULD_NOT_BE_EMPTY)
         else bindE (env_detect env (ci_array_addresses ci)) (\<lambda>array_type.
           with_agent env ci array_type (\<lambda>md. create_volume_on env md ci vp r source_type source_ids source_id)))))"

definition CreateVolume :: "'s env \<Rightarrow> create_volume_request \<Rightarrow> ('s, csi_volume reply) prog" where
  "CreateVolume env r =
     (case validate_create_volume_request r of
        Inl e \<Rightarrow> (case e of ObjectIdError t i \<Rightarrow> ret (handle_exception e NOT_FOUND ''CreateVolumeResponse'')
                          | _ \<Rightarrow> raiseE e)
      | Inr u \<Rightarrow>
          bindE (liftR (get_source_type_and_ids (cv_source r))) (\<lambda>(source_type, source_ids).
            catchE (CreateVolume_body env r source_type source_ids)
              (\<lambda>ex. if is_InvalidArgumentError ex
                    then ret (handle_exception ex INVALID_ARGUMENT ''CreateVolumeResponse'')
                    else if isa ''VolumeAlreadyExists'' ex
                    then ret (handle_exception ex ALREADY_EXISTS ''CreateVolumeResponse'')
                    else raiseE ex)))"

definition csi_CreateVolume :: "'s env \<Rightarrow> create_volume_request \<Rightarrow> 's server \<Rightarrow> csi_volume reply \<times> 's server" where
  "csi_CreateVolume env =
     csi_method ''CreateVolumeResponse'' ''name'' (\<lambda>r. Some (cv_name r)) (CreateVolume env)"

subsection \<open>DeleteVolume\<close>

definition DeleteVolume :: "'s env \<Rightarrow> object_request \<Rightarrow> ('s, unit reply) prog" where
  "DeleteVolume env r =
     thenE (liftR (validate_delete_volume_request r))
       (case get_volume_id_info (or_object_id r) of
          Inl e \<Rightarrow> (case e of ObjectIdError t i \<Rightarrow> ret (Ok ()) | _ \<Rightarrow> raiseE e)
        | Inr info \<Rightarrow>
            bindE (liftR (get_array_connection_info_from_secrets (or_secrets r) None (oi_system_id info))) (\<lambda>ci.
            thenE (with_agent env ci (oi_array_type info) (\<lambda>md.
                     catchE (md_delete_volume md (oi_uid info) (ci_partition_name ci))
                       (\<lambda>e. if isa ''ObjectNotFoundError'' e then ret () else raiseE e)))
              (ret (Ok ()))))"

definition csi_DeleteVolume :: "'s env \<Rightarrow> object_request \<Rightarrow> 's server \<Rightarrow> unit reply \<times> 's server" where
  "csi_DeleteVolume env =
     csi_method ''DeleteVolumeResponse'' ''volume_id'' (\<lambda>r. Some (or_object_id r)) (DeleteVolume env)"

subsection \<open>Publish and unpublish\<close>

text \<open>
  What publish and unpublish do while they hold the mediator: when the volume exists it has to be
  in the partition of the secret.
\<close>

definition verify_mapped_volume ::
  "('s, 'z) mediator_scheme \<Rightarrow> array_connection_info \<Rightarrow> object_id_info \<Rightarrow> ('s, unit) prog" where
  "verify_mapped_volume md ci info =
     bindE (md_get_object_by_id md (oi_uid info) (Some VOLUME_TYPE_NAME) False) (\<lambda>found.
       case found of
         None \<Rightarrow> ret ()
       | Some v \<Rightarrow> md_verify_volume_partition md (vol_name v) (vol_partition_name v) (ci_partition_name ci))"

definition publish_on ::
  "array_connection_info \<Rightarrow> object_id_info \<Rightarrow> initiators \<Rightarrow> bool \<Rightarrow> 's full_mediator \<Rightarrow>
    ('s, str \<times> str option \<times> array_initiators) prog" where
  "publish_on ci info inits exclusive_access md =
     thenE (verify_mapped_volume md ci info)
       (fm_map_volume_by_initiators md (oi_uid info) inits exclusive_access)"

definition unpublish_on ::
  "array_connection_info \<Rightarrow> object_id_info \<Rightarrow> initiators \<Rightarrow> 's full_mediator \<Rightarrow> ('s, unit) prog" where
  "unpublish_on ci info inits md =
     thenE (verify_mapped_volume md ci info) (fm_unmap_volume_by_initiators md (oi_uid info) inits)"

definition ControllerPublishVolume_body :: "'s env \<Rightarrow> publish_request \<Rightarrow> ('s, sdict reply) prog" where
  "ControllerPublishVolume_body env r =
     thenE (liftR (validate_publish_volume_request r))
    (bindE (liftR (get_volume_id_info (pr_volume_id r))) (\<lambda>info.
     let inits = get_node_initiators (env_read_node env) (node_id_info_name (pr_node_id r)) in
     bindE (liftR (get_array_connection_info_from_secrets (pr_secrets r) None (oi_system_id info))) (\<lambda>ci.
     bindE (with_agent env ci (oi_array_type info)
              (publish_on ci info inits (is_publish_volume_request_exclusive_access r))) (\<lambda>(lun, connectivity_type, ai).
     bindE (liftR (generate_csi_publish_volume_response lun connectivity_type ai)) (\<lambda>context.
     ret (Ok context))))))"

definition ControllerPublishVolume :: "'s env \<Rightarrow> publish_request \<Rightarrow> ('s, sdict reply) prog" where
  "ControllerPublishVolume env r =
     catchE (ControllerPublishVolume_body env r)
       (\<lambda>ex. if isa ''VolumeAlreadyMappedToDifferentHostsError'' ex
             then ret (handle_exception ex FAILED_PRECONDITION ''ControllerPublishVolumeResponse'')
             else if isa ''LunAlreadyInUseError'' ex \<or> isa ''NoAvailableLunError'' ex
             then ret (handle_exception ex RESOURCE_EXHAUSTED ''ControllerPublishVolumeResponse'')
             else if isa ''NoIscsiTargetsFoundError'' ex \<or>
                     (case ex of ObjectIdError t i \<Rightarrow> True | InvalidNodeId n \<Rightarrow> True | _ \<Rightarrow> False)
             then ret (handle_exception ex NOT_FOUND ''ControllerPublishVolumeResponse'')
             else if isa ''UnsupportedConnectivityTypeError'' ex
             then ret (handle_exception ex INVALID_ARGUMENT ''ControllerPublishVolumeResponse'')
             else raiseE ex)"

definition csi_ControllerPublishVolume :: "'s env \<Rightarrow> publish_request \<Rightarrow> 's server \<Rightarrow> sdict reply \<times> 's server" where
  "csi_ControllerPublishVolume env =
     csi_method ''ControllerPublishVolumeResponse'' ''volume_id'' (\<lambda>r. Some (pr_volume_id r))
       (ControllerPublishVolume env)"

definition ControllerUnpublishVolume_body :: "'s env \<Rightarrow> unpublish_request \<Rightarrow> ('s, unit reply) prog" where
  "ControllerUnpublishVolume_body env r =
     thenE (liftR (validate_unpublish_volume_request r))
    (bindE (liftR (get_volume_id_info (ur_volume_id r))) (\<lambda>info.
     let inits = get_node_initiators (env_read_node env) (node_id_info_name (ur_node_id r)) in
     bindE (liftR (get_array_connection_info_from_secrets (ur_secrets r) None (oi_system_id info))) (\<lambda>ci.
     thenE (with_agent env ci (oi_array_type info) (unpublish_on ci info inits)) (ret (Ok ())))))"

definition unpublish_idempotent :: "exn \<Rightarrow> bool" where
  "unpublish_idempotent ex =
     (isa ''HostNotFoundError'' ex \<or> (case ex of InvalidNodeId n \<Rightarrow> True | _ \<Rightarrow> False) \<or>
      isa ''VolumeAlreadyUnmappedError'' ex \<or> isa ''ObjectNotFoundError'' ex \<or>
      isa ''VolumeNotMappedToHostError'' ex)"

definition ControllerUnpublishVolume :: "'s env \<Rightarrow> unpublish_request \<Rightarrow> ('s, unit reply) prog" where
  "ControllerUnpublishVolume env r =
     catchE (ControllerUnpublishVolume_body env r)
       (\<lambda>ex. case ex of
          ObjectIdError t i \<Rightarrow> ret (handle_exception ex INVALID_ARGUMENT ''ControllerUnpublishVolumeResponse'')
        | _ \<Rightarrow> if unpublish_idempotent ex then ret (Ok ()) else raiseE ex)"

definition csi_ControllerUnpublishVolume :: "'s env \<Rightarrow> unpublish_request \<Rightarrow> 's server \<Rightarrow> unit reply \<times> 's server" where
  "csi_ControllerUnpublishVolume env =
     csi_method ''ControllerUnpublishVolumeResponse'' ''volume_id'' (\<lambda>r. Some (ur_volume_id r))
       (ControllerUnpublishVolume env)"

subsection \<open>ValidateVolumeCapabilities\<close>

definition get_supported_capability :: "volume_capability \<Rightarrow> volume_capability" where
  "get_supported_capability cap =
     (case cap_mount cap of
        Some m \<Rightarrow> \<lparr>cap_mount = Some \<lparr>fs_type = fs_type m, mount_flags = []\<rparr>, cap_block = False,
                   cap_access_mode = cap_access_mode cap\<rparr>
      | None \<Rightarrow> \<lparr>cap_mount = None, cap_block = True, cap_access_mode = cap_access_mode cap\<rparr>)"

text \<open>The partition of the volume is checked after the mediator went back to the pool.\<close>

definition ValidateVolumeCapabilities ::
  "'s env \<Rightarrow> validate_capabilities_request \<Rightarrow> ('s, (sdict \<times> volume_capability list \<times> sdict) reply) prog" where
  "ValidateVolumeCapabilities env r =
     catchE
       (thenE (liftR (validate_validate_volume_capabilities_request r))
       (bindE (liftR (get_volume_id_info (vr_volume_id r))) (\<lambda>info.
        bindE (liftR (get_array_connection_info_from_secrets (vr_secrets r) None (oi_system_id info))) (\<lambda>ci.
        bindE (with_agent env ci (oi_array_type info) (\<lambda>md.
                 bindE (md_get_object_by_id md (oi_uid info) (Some VOLUME_TYPE_NAME) False) (\<lambda>found. ret (md, found))))
          (\<lambda>(md, found).
          case found of
            None \<Rightarrow> raiseE (ArrayErr (ObjectNotFoundError (oi_uid info)))
          | Some v \<Rightarrow>
              thenE (md_verify_volume_partition md (vol_name v) (vol_partition_name v) (ci_partition_name ci))
             (thenE (if vr_volume_context r \<noteq> []
                     then liftR (validate_volume_context_match_volume (vr_volume_context r) v) else ret ())
             (thenE (if vr_parameters r \<noteq> []
                     then liftR (validate_parameters_match_volume (vr_parameters r) v) else ret ())
               (ret (Ok (vr_volume_context r, map get_supported_capability (vr_capabilities r),
                         vr_parameters r))))))))))
       (\<lambda>ex. case ex of
          ObjectIdError t i \<Rightarrow> ret (handle_exception ex NOT_FOUND ''ValidateVolumeCapabilitiesResponse'')
        | _ \<Rightarrow> raiseE ex)"

subsection \<open>Snapshots\<close>

definition SNAPSHOT_WRONG_VOLUME :: "str \<Rightarrow> str option \<Rightarrow> str \<Rightarrow> str" where
  "SNAPSHOT_WRONG_VOLUME name actual vid =
     ''Snapshot '' @ name @ '' exists but it is of Volume '' @ opt_str actual @ '' and not '' @ vid"

definition create_snapshot_on ::
  "'s env \<Rightarrow> 's full_mediator \<Rightarrow> array_connection_info \<Rightarrow> object_parameters \<Rightarrow> create_snapshot_request \<Rightarrow>
    object_id_info \<Rightarrow> bool \<Rightarrow> ('s, csi_snapshot reply) prog" where
  "create_snapshot_on env md ci sp r info use_snap_object =
     bindE (liftR (get_object_final_name (env_hash env) (md_limits md) (op_prefix sp) (cs_name r) SNAPSHOT_TYPE_NAME))
       (\<lambda>name.
     bindE (md_get_snapshot md (oi_uid info) name (op_pool sp) use_snap_object) (\<lambda>found.
       case found of
         Some sn \<Rightarrow>
           thenE (md_verify_volume_partition md (vol_name sn) (vol_partition_name sn) (ci_partition_name ci))
             (if vol_source_id sn \<noteq> Some (oi_uid info)
              then ret (build_error_response (SNAPSHOT_WRONG_VOLUME name (vol_source_id sn) (oi_uid info))
                     ALREADY_EXISTS ''CreateSnapshotResponse'')
              else ret (Ok (generate_csi_create_snapshot_response sn (oi_system_id info) (cs_source_volume_id r))))
       | None \<Rightarrow>
           thenE (md_validate_supported_space_efficiency md (op_space_efficiency sp))
          (bindE (md_get_object_by_id md (oi_uid info) (Some VOLUME_TYPE_NAME) False) (\<lambda>vol.
             case vol of
               None \<Rightarrow> raiseE (ArrayErr (ObjectNotFoundError (oi_uid info)))
             | Some v \<Rightarrow>
                 thenE (md_verify_volume_partition md (vol_name v) (vol_partition_name v) (ci_partition_name ci))
                (bindE (md_create_snapshot md (oi_uid info) name (op_space_efficiency sp) (op_pool sp)
                          use_snap_object (ci_partition_name ci) (op_initial_repo_group_size_pct sp)) (\<lambda>sn.
                   ret (Ok (generate_csi_create_snapshot_response sn (oi_system_id info)
                          (cs_source_volume_id r)))))))))"

definition CreateSnapshot_body :: "'s env \<Rightarrow> create_snapshot_request \<Rightarrow> ('s, csi_snapshot reply) prog" where
  "CreateSnapshot_body env r =
     bindE (liftR (get_volume_id_info (cs_source_volume_id r))) (\<lambda>info.
     bindE (liftR (get_array_connection_info_from_secrets (cs_secrets r) None (oi_system_id info))) (\<lambda>ci.
     bindE (liftR (get_snapshot_parameters (cs_parameters r) (ci_system_id ci))) (\<lambda>sp.
     let use_snap_object = (op_virt_snap_func sp \<and> \<not> truthy (ci_partition_name ci)) in
     if use_snap_object \<and> truthy (op_space_efficiency sp)
     then raiseE (ArrayErr (SpaceEfficiencyNotSupported (the (op_space_efficiency sp))))
     else with_agent env ci (oi_array_type info)
            (\<lambda>md. create_snapshot_on env md ci sp r info use_snap_object))))"

definition CreateSnapshot :: "'s env \<Rightarrow> create_snapshot_request \<Rightarrow> ('s, csi_snapshot reply) prog" where
  "CreateSnapshot env r =
     thenE (liftR (validate_create_snapshot_request r))
       (catchE (CreateSnapshot_body env r)
          (\<lambda>ex. if (case ex of ObjectIdError t i \<Rightarrow> True | _ \<Rightarrow> False) \<or>
                   isa ''SnapshotSourcePoolMismatch'' ex \<or> isa ''SpaceEfficiencyNotSupported'' ex
                then ret (handle_exception ex INVALID_ARGUMENT ''CreateSnapshotResponse'')
                else if isa ''NotEnoughSpaceInPool'' ex
                then ret (handle_exception ex RESOURCE_EXHAUSTED ''CreateSnapshotResponse'')
                else raiseE ex))"

definition csi_CreateSnapshot :: "'s env \<Rightarrow> create_snapshot_request \<Rightarrow> 's server \<Rightarrow> csi_snapshot reply \<times> 's server" where
  "csi_CreateSnapshot env =
     csi_method ''CreateSnapshotResponse'' ''name'' (\<lambda>r. Some (cs_name r)) (CreateSnapshot env)"

text \<open>Not found is success, wherever in the method it is raised.\<close>

definition DeleteSnapshot :: "'s env \<Rightarrow> object_request \<Rightarrow> ('s, unit reply) prog" where
  "DeleteSnapshot env r =
     thenE (liftR (validate_delete_snapshot_request r))
       (catchE
          (case get_snapshot_id_info (or_object_id r) of
             Inl e \<Rightarrow> (case e of ObjectIdError t i \<Rightarrow> ret (Ok ()) | _ \<Rightarrow> raiseE e)
           | Inr info \<Rightarrow>
               bindE (liftR (get_array_connection_info_from_secrets (or_secrets r) None (oi_system_id info))) (\<lambda>ci.
               thenE (with_agent env ci (oi_array_type info) (\<lambda>md.
                        catchE (md_delete_snapshot md (oi_uid info) (oi_internal_id info) (ci_partition_name ci))
                          (\<lambda>e. if isa ''ObjectNotFoundError'' e then ret () else raiseE e)))
                 (ret (Ok ()))))
          (\<lambda>ex. if isa ''ObjectNotFoundError'' ex then ret (Ok ()) else raiseE ex))"

definition csi_DeleteSnapshot :: "'s env \<Rightarrow> object_request \<Rightarrow> 's server \<Rightarrow> unit reply \<times> 's server" where
  "csi_DeleteSnapshot env =
     csi_method ''DeleteSnapshotResponse'' ''snapshot_id'' (\<lambda>r. Some (or_object_id r)) (DeleteSnapshot env)"

subsection \<open>ControllerExpandVolume\<close>

text \<open>The response: the capacity and whether the node has to expand the file system.\<close>

definition generate_csi_expand_volume_response :: "int \<Rightarrow> bool \<Rightarrow> int \<times> bool" where
  "generate_csi_expand_volume_response capacity_bytes node_expansion_required =
     (capacity_bytes, node_expansion_required)"

definition expand_volume_on ::
  "'s full_mediator \<Rightarrow> array_connection_info \<Rightarrow> str \<Rightarrow> int \<Rightarrow> ('s, (int \<times> bool) reply) prog" where
  "expand_volume_on md ci vid required_bytes =
     bindE (md_get_object_by_id md vid (Some VOLUME_TYPE_NAME) False) (\<lambda>before.
       case before of
         None \<Rightarrow> raiseE (ArrayErr (ObjectNotFoundError vid))
       | Some v \<Rightarrow>
           thenE (md_verify_volume_partition md (vol_name v) (vol_partition_name v) (ci_partition_name ci))
             (if required_bytes \<le> vol_capacity_bytes v
              then ret (Ok (generate_csi_expand_volume_response (vol_capacity_bytes v) False))
              else if md_maximal_volume_size_in_bytes md < required_bytes
              then ret (build_error_response (SIZE_OUT_OF_RANGE required_bytes (md_maximal_volume_size_in_bytes md))
                     OUT_OF_RANGE ''ControllerExpandVolumeResponse'')
              else thenE (md_expand_volume md vid required_bytes (ci_partition_name ci))
                  (bindE (md_get_object_by_id md vid (Some VOLUME_TYPE_NAME) False) (\<lambda>after.
                     case after of
                       None \<Rightarrow> raiseE (ArrayErr (ObjectNotFoundError vid))
                     | Some w \<Rightarrow> ret (Ok (generate_csi_expand_volume_response (vol_capacity_bytes w) True))))))"

definition ControllerExpandVolume :: "'s env \<Rightarrow> expand_request \<Rightarrow> ('s, (int \<times> bool) reply) prog" where
  "ControllerExpandVolume env r =
     thenE (liftR (validate_expand_volume_request r))
       (case get_volume_id_info (er_volume_id r) of
          Inl e \<Rightarrow> (case e of
              ObjectIdError t i \<Rightarrow> ret (handle_exception e INVALID_ARGUMENT ''ControllerExpandVolumeResponse'')
            | _ \<Rightarrow> raiseE e)
        | Inr info \<Rightarrow>
            catchE
              (bindE (liftR (get_array_connection_info_from_secrets (er_secrets r) None (oi_system_id info))) (\<lambda>ci.
               with_agent env ci (oi_array_type info)
                 (\<lambda>md. expand_volume_on md ci (oi_uid info) (the (er_required_bytes r)))))
              (\<lambda>ex. if isa ''NotEnoughSpaceInPool'' ex
                    then ret (handle_exception ex RESOURCE_EXHAUSTED ''ControllerExpandVolumeResponse'')
                    else if isa ''ObjectIsStillInUseError'' ex
                    then ret (handle_exception ex INTERNAL ''ControllerExpandVolumeResponse'')
                    else raiseE ex))"

definition csi_ControllerExpandVolume :: "'s env \<Rightarrow> expand_request \<Rightarrow> 's server \<Rightarrow> (int \<times> bool) reply \<times> 's server" where
  "csi_ControllerExpandVolume env =
     csi_method ''ControllerExpandVolumeResponse'' ''volume_id'' (\<lambda>r. Some (er_volume_id r))
       (ControllerExpandVolume env)"

subsection \<open>The other methods\<close>

definition ListVolumes :: "('s, unit reply) prog" where
  "ListVolumes = raiseE (PyErr NotImplementedError)"

definition GetCapacity :: "('s, unit reply) prog" where
  "GetCapacity = raiseE (PyErr NotImplementedError)"

definition ControllerGetCapabilities :: "str list" where
  "ControllerGetCapabilities =
     [''CREATE_DELETE_VOLUME'', ''CREATE_DELETE_SNAPSHOT'', ''PUBLISH_UNPUBLISH_VOLUME'', ''CLONE_VOLUME'',
      ''EXPAND_VOLUME'']"

definition GetPluginInfo :: "str \<Rightarrow> str \<Rightarrow> ('s, (str \<times> str) reply) prog" where
  "GetPluginInfo name version =
     ret (if name = [] \<or> version = []
          then build_error_response ''plugin name or version cannot be empty'' INTERNAL ''GetPluginInfoResponse''
          else Ok (name, version))"

datatype plugin_capability = ServiceCapability str | VolumeExpansionCapability str

text \<open>
  The capabilities of the plugin are those of the configuration file; the names the generated protocol code knows are
  parameters, and a name it does not know is a \<open>ValueError\<close>.
\<close>

definition enum_value :: "(str \<Rightarrow> bool) \<Rightarrow> str \<Rightarrow> exn + str" where
  "enum_value known name = (if known name then Inr name else Inl (PyErr ValueError))"

definition GetPluginCapabilities ::
  "(str \<Rightarrow> bool) \<Rightarrow> (str \<Rightarrow> bool) \<Rightarrow> str list option \<Rightarrow> str option \<Rightarrow> exn + plugin_capability list" where
  "GetPluginCapabilities is_service is_expansion service_capabilities volume_expansion_capability =
     bindR (mapR (enum_value is_service) (case service_capabilities of None \<Rightarrow> [] | Some cs \<Rightarrow> cs)) (\<lambda>services.
     bindR (if truthy volume_expansion_capability
            then bindR (enum_value is_expansion (the volume_expansion_capability)) (\<lambda>c. Inr [VolumeExpansionCapability c])
            else Inr []) (\<lambda>expansion.
     Inr (map ServiceCapability services @ expansion)))"

definition Probe :: "unit reply" where "Probe = Ok ()"

subsection \<open>Running the handlers\<close>

lemma with_agent_run:
  assumes "env_acquire env ci at s = (Inr md, s1)" "body md s1 = (r, s2)"
  shows "with_agent env ci at body s = (r, env_release env s2)"
  using assms by (simp add: with_agent_def bindE_def finallyE_def)

text \<open>
  A create request that reaches the storage system: it is valid, its secret and parameters give a
  connection and a pool, and the pool lends the mediator \<open>md\<close> in the state \<open>s1\<close>.
\<close>

definition create_reaches ::
  "'s env \<Rightarrow> create_volume_request \<Rightarrow> 's \<Rightarrow> array_connection_info \<Rightarrow> object_parameters \<Rightarrow> 's full_mediator \<Rightarrow> 's
    \<Rightarrow> str option \<Rightarrow> object_ids \<Rightarrow> bool" where
  "create_reaches env r s ci vp md s1 source_type source_ids =
     (validate_create_volume_request r = Inr () \<and>
      get_source_type_and_ids (cv_source r) = Inr (source_type, source_ids) \<and>
      get_array_connection_info_from_secrets (cv_secrets r)
        (get_volume_topologies (cv_preferred_topologies r)) None = Inr ci \<and>
      get_volume_parameters (cv_parameters r) (ci_system_id ci) = Inr vp \<and> truthy (op_pool vp) \<and>
      (\<exists>t s0. env_detect env (ci_array_addresses ci) s = (Inr t, s0) \<and> env_acquire env ci t s0 = (Inr md, s1)))"

lemma CreateVolume_reaches:
  assumes "create_reaches env r s ci vp md s1 source_type source_ids"
    "source_id = (if truthy (ids_uid source_ids) then ids_uid source_ids else ids_internal_id source_ids)"
    "create_volume_on env md ci vp r source_type source_ids source_id s1 = (Inr reply, s2)"
  shows "CreateVolume env r s = (Inr reply, env_release env s2)"
proof -
  obtain t s0 where "env_detect env (ci_array_addresses ci) s = (Inr t, s0)"
      "env_acquire env ci t s0 = (Inr md, s1)"
    using assms(1) by (auto simp: create_reaches_def)
  moreover from this(2) assms(3)
  have "with_agent env ci t (\<lambda>md. create_volume_on env md ci vp r source_type source_ids source_id) s0
      = (Inr reply, env_release env s2)" by (rule with_agent_run)
  ultimately have "CreateVolume_body env r source_type source_ids s = (Inr reply, env_release env s2)"
    using assms(1)
    by (simp add: create_reaches_def CreateVolume_body_def Let_def bindE_def prog_simps assms(2) [symmetric])
  with assms(1) show ?thesis by (simp add: CreateVolume_def create_reaches_def catchE_def)
qed

text \<open>A request for a volume without a source.\<close>

lemma no_source:
  assumes "create_reaches env r s ci vp md s1 st ids" "cv_source r = None"
  shows "st = None" "ids = \<lparr>ids_internal_id = Some [], ids_uid = Some []\<rparr>"
  using assms by (auto simp: create_reaches_def get_source_type_and_ids_def)

subsection \<open>An example environment\<close>

definition example_secrets :: sdict where
  "example_secrets = [(''username'', ''u''), (''password'', ''p''), (''management_address'', ''10.0.0.1'')]"

definition example_info :: array_connection_info where
  "example_info =
     \<lparr>ci_array_addresses = [''10.0.0.1''], ci_user = ''u'', ci_password = ''p'', ci_system_id = None,
      ci_partition_name = None, ci_partition_vg = None, ci_port_set = None, ci_verify_ssl = False\<rparr>"

lemma example_connection_info:
  "get_array_connection_info_from_secrets example_secrets t i =
     Inr (example_info\<lparr>ci_system_id := i\<rparr>)"
  by (simp add: get_array_connection_info_from_secrets_def get_system_info_from_secrets_def
      example_secrets_def sdict_json_def get_array_connection_info_from_system_info_def json_item_def
      dict_item_def json_get_def json_get_or_def dict_get_or_def json_str_def json_text_def
      json_opt_text_def py_lower_def lower_char_def example_info_def)

lemma example_secrets_valid: "validate_secrets example_secrets = Inr ()"
  by (subst validate_secrets_plain) (simp_all add: example_secrets_def dict_has_def)

definition example_request :: "int \<Rightarrow> create_volume_request" where
  "example_request n =
     \<lparr>cv_name = ''pvc-1'', cv_secrets = example_secrets, cv_required_bytes = Some n,
      cv_capabilities = [\<lparr>cap_mount = None, cap_block = True, cap_access_mode = 1\<rparr>],
      cv_parameters = [(''pool'', ''gold'')], cv_source = None, cv_preferred_topologies = None\<rparr>"

definition example_vp :: object_parameters where
  "example_vp =
     \<lparr>op_pool = Some ''gold'', op_space_efficiency = None, op_prefix = None, op_io_group = None,
      op_volume_group = None, op_virt_snap_func = False, op_initial_repo_group_size_pct = None\<rparr>"

lemma example_parameters_read: "get_volume_parameters [(''pool'', ''gold'')] None = Inr example_vp"
  by (simp add: get_volume_parameters_def get_object_parameters_def system_parameters_of_def Let_def
      json_get_or_def dict_get_or_def opt_json_def str_to_bool_def parse_optional_int_parameter_def
      json_opt_text_def example_vp_def)

lemma example_request_valid: "0 \<le> n \<Longrightarrow> validate_create_volume_request (example_request n) = Inr ()"
  by (simp add: validate_create_volume_request_def example_request_def validate_minimum_request_fields_def
      thenR_Inr_iff example_secrets_valid validate_capacity_def validate_csi_volume_capabilities_Inr
      validate_csi_volume_capability_Inr validate_pool_parameter_def validate_create_volume_source_def)

definition example_env :: "'s full_mediator \<Rightarrow> 's env" where
  "example_env md =
     \<lparr>env_detect = (\<lambda>es. ret ARRAY_TYPE_SVC), env_acquire = (\<lambda>ci t. ret md), env_release = (\<lambda>s. s),
      env_read_node = (\<lambda>n. Inr None), env_hash = (\<lambda>s. s)\<rparr>"

lemma example_reaches:
  "0 \<le> n \<Longrightarrow> create_reaches (example_env md) (example_request n) s example_info example_vp md s None
     \<lparr>ids_internal_id = Some [], ids_uid = Some []\<rparr>"
  using example_connection_info [of None None]
  by (simp add: create_reaches_def example_request_valid)
     (simp add: example_request_def get_source_type_and_ids_def get_volume_topologies_def
      example_info_def example_parameters_read example_vp_def example_env_def prog_simps)

subsection \<open>A storage system for the examples\<close>

text \<open>A mediator over the list of the volumes of a storage system, for the witnesses.\<close>

definition store_mediator :: "volume list full_mediator" where
  "store_mediator =
     inherit_methods
       ((array_mediator_interface ''10.0.0.1'')
         \<lparr>md_limits := \<lparr>max_object_prefix_length = 20, max_object_name_length = 63, default_object_prefix = None\<rparr>,
          md_minimal_volume_size_in_bytes := 512,
          md_maximal_volume_size_in_bytes := 1099511627776,
          md_get_volume := (\<lambda>n p b s. case find (\<lambda>v. vol_name v = n) s of
             None \<Rightarrow> (Inl (ArrayErr (ObjectNotFoundError n)), s) | Some v \<Rightarrow> (Inr v, s)),
          md_create_volume := (\<lambda>n required_bytes se pool iog vg ids st b part partvg extra s.
             let v = \<lparr>vol_name = n, vol_id = ''uid-'' @ n, vol_internal_id = nat_str (length s),
                      vol_array_type = ARRAY_TYPE_SVC, vol_capacity_bytes = required_bytes,
                      vol_array_address = [''10.0.0.1''], vol_source_id = None, vol_pool = pool,
                      vol_space_efficiency_aliases = [], vol_volume_group_id = None,
                      vol_volume_group_name = None, vol_partition_name = None\<rparr> in (Inr v, v # s)),
          md_get_object_by_id := (\<lambda>i st b s. (Inr (find (\<lambda>v. vol_id v = i) s), s)),
          md_delete_volume := (\<lambda>i part s. if \<exists>v \<in> set s. vol_id v = i
             then (Inr (), filter (\<lambda>v. vol_id v \<noteq> i) s) else (Inl (ArrayErr (ObjectNotFoundError i)), s)),
          md_expand_volume := (\<lambda>i n part s.
             (Inr (), map (\<lambda>v. if vol_id v = i then v\<lparr>vol_capacity_bytes := n\<rparr> else v) s)),
          md_validate_supported_space_efficiency := (\<lambda>se. ret ()),
          md_verify_volume_partition := (\<lambda>n p q. ret ())\<rparr>)
       (\<lambda>m. m) (\<lambda>m. m) (\<lambda>m. m)"

definition stored_volume :: "int \<Rightarrow> volume" where
  "stored_volume n =
     \<lparr>vol_name = ''pvc-1'', vol_id = ''uid-1'', vol_internal_id = ''7'', vol_array_type = ARRAY_TYPE_SVC,
      vol_capacity_bytes = n, vol_array_address = [''10.0.0.1''], vol_source_id = None, vol_pool = ''gold'',
      vol_space_efficiency_aliases = [], vol_volume_group_id = None, vol_volume_group_name = None,
      vol_partition_name = None\<rparr>"

lemmas store_simps = store_mediator_def inherit_methods_def mediator.extend_def full_mediator.fields_def
  prog_simps

subsection \<open>Properties\<close>

text \<open>
  The state in which the volume of a request is looked up: the mediator was lent in \<open>s\<close>, and \<open>s'\<close> is that state, or the
  one after the check of the source, when the storage system copies the source itself and the check passes.
\<close>

definition source_checked ::
  "'s full_mediator \<Rightarrow> array_connection_info \<Rightarrow> object_parameters \<Rightarrow> int \<Rightarrow> str option \<Rightarrow> str option \<Rightarrow> 's \<Rightarrow> 's \<Rightarrow> bool" where
  "source_checked md ci vp required source_type source_id s s' =
     (if (op_virt_snap_func vp \<or> truthy (ci_partition_name ci)) \<and> truthy source_id
      then check_source_object md ci (op_space_efficiency vp) required (op_virt_snap_func vp \<and> \<not> truthy (ci_partition_name ci))
             (the source_id) source_type s = (Inr None, s')
      else s' = s)"

definition size_to_create :: "('s, 'z) mediator_scheme \<Rightarrow> create_volume_request \<Rightarrow> int" where
  "size_to_create md r =
     (if the (cv_required_bytes r) = 0 then md_minimal_volume_size_in_bytes md else the (cv_required_bytes r))"

lemma source_checked_inert [simp]:
  "source_checked (md\<lparr>md_create_volume := create, fm_copy_to_existing_volume_from_source := copy\<rparr>) = source_checked md"
  by (simp add: source_checked_def check_source_object_def fun_eq_iff cong: option.case_cong if_cong)

text \<open>The answer for a volume that is there, whatever the request's source and the volume's.\<close>

definition answers_for_existing ::
  "array_connection_info \<Rightarrow> object_parameters \<Rightarrow> int \<Rightarrow> str option \<Rightarrow> str option \<Rightarrow> volume \<Rightarrow> csi_volume reply \<Rightarrow> bool" where
  "answers_for_existing ci vp required source_type source_id v reply =
     (if \<not> truthy source_id \<and> vol_capacity_bytes v < required then reply_code reply = ALREADY_EXISTS
      else if \<not> (op_virt_snap_func vp \<and> \<not> truthy (ci_partition_name ci)) \<and>
              (truthy source_id \<or> truthy (vol_source_id v)) \<and> vol_source_id v \<noteq> source_id
      then reply_code reply = ALREADY_EXISTS
      else reply = Ok \<lparr>csi_capacity_bytes = vol_capacity_bytes v, csi_volume_id = get_volume_id v (ci_system_id ci),
             csi_content_source =
               (if \<not> truthy source_id then None
                else if source_type = Some SNAPSHOT_TYPE_NAME then Some (SnapshotSource (the source_id))
                else Some (VolumeSource (the source_id)))\<rparr>)"

lemma create_on_found:
  assumes "get_object_final_name (env_hash env) (md_limits md) (op_prefix vp) (cv_name r) VOLUME_TYPE_NAME = Inr name"
    "the (cv_required_bytes r) \<le> md_maximal_volume_size_in_bytes md"
    "source_checked md ci vp (size_to_create md r) st sid s1 s2"
    "md_get_volume md name (op_pool vp) (op_virt_snap_func vp \<and> \<not> truthy (ci_partition_name ci)) s2 = (Inr v, s3)"
    "md_verify_volume_partition md (vol_name v) (vol_partition_name v) (ci_partition_name ci) s3 = (Inr (), s4)"
  shows "\<exists>reply. create_volume_on env md ci vp r st ids sid s1 = (Inr reply, s4) \<and>
    answers_for_existing ci vp (size_to_create md r) st sid v reply"
proof -
  let ?use = "op_virt_snap_func vp \<and> \<not> truthy (ci_partition_name ci)"
  let ?n = "size_to_create md r"
  have check: "(if (op_virt_snap_func vp \<or> truthy (ci_partition_name ci)) \<and> truthy sid
      then check_source_object md ci (op_space_efficiency vp) ?n ?use (the sid) st else ret None) s1 = (Inr None, s2)"
    using assms(3) by (auto simp: source_checked_def ret_def)
  let ?found = "if \<not> truthy sid \<and> vol_capacity_bytes v < ?n
       then Inl (build_error_response (''Volume was already created with different size. volume size: '' @
                   int_str (vol_capacity_bytes v) @ '', requested size: '' @ int_str ?n) ALREADY_EXISTS ''CreateVolumeResponse'')
       else if \<not> ?use then (case existing_volume_source_response v sid st (ci_system_id ci) of Some reply \<Rightarrow> Inl reply | None \<Rightarrow> Inr v)
       else Inr v"
  have found: "get_or_create_volume md ci vp r name ?n ?use st ids sid s2 = (Inr ?found, s4)"
    unfolding get_or_create_volume_def tryE_def using assms(4,5)
    by (simp add: thenE_def bindE_def) (simp add: ret_def split: option.split)
  have "create_volume_on env md ci vp r st ids sid s1 =
    (case ?found of Inl reply \<Rightarrow> ret reply
     | Inr v \<Rightarrow>
         thenE (if truthy sid \<and> \<not> (op_virt_snap_func vp \<or> truthy (ci_partition_name ci))
                then fm_copy_to_existing_volume_from_source md v (the sid) st ?n else ret ())
           (ret (Ok (generate_csi_create_volume_response (v\<lparr>vol_source_id := sid\<rparr>) (ci_system_id ci) st)))) s4"
    unfolding create_volume_on_def assms(1) liftR_Inr bindE_ret Let_def size_to_create_def [symmetric]
    using assms(2)
    by (simp only: not_less [symmetric] if_False bindE_cases check found prod.case sum.case option.case)
  then show ?thesis
    by (auto simp: answers_for_existing_def existing_volume_source_response_def build_error_response_def
        generate_csi_create_volume_response_def get_volume_id_def prog_run)
qed

text \<open>A request without a source, on the mediator: for a volume that is there, and for one that is not.\<close>

lemma create_on_existing:
  assumes "get_object_final_name (env_hash env) (md_limits md) (op_prefix vp) (cv_name r) VOLUME_TYPE_NAME = Inr name"
    "the (cv_required_bytes r) \<le> md_maximal_volume_size_in_bytes md" "\<not> op_virt_snap_func vp"
    "md_get_volume md name (op_pool vp) False s1 = (Inr v, s2)" "\<not> truthy (vol_source_id v)"
    "md_verify_volume_partition md (vol_name v) (vol_partition_name v) (ci_partition_name ci) s2 = (Inr (), s3)"
    "required = (if the (cv_required_bytes r) = 0 then md_minimal_volume_size_in_bytes md
                 else the (cv_required_bytes r))"
  shows "\<exists>reply. create_volume_on env md ci vp r None ids (Some []) s1 = (Inr reply, s3) \<and>
    (if vol_capacity_bytes v < required then reply_code reply = ALREADY_EXISTS
     else reply = Ok \<lparr>csi_capacity_bytes = vol_capacity_bytes v,
                      csi_volume_id = get_volume_id v (ci_system_id ci), csi_content_source = None\<rparr>)"
  using create_on_found [OF assms(1,2), of ci None "Some []" s1 s1 v s2 s3 ids] assms(3-7)
  by (auto simp: source_checked_def answers_for_existing_def size_to_create_def)

lemma create_on_new:
  assumes "\<not> op_virt_snap_func vp"
    "get_object_final_name (env_hash env) (md_limits md) (op_prefix vp) (cv_name r) VOLUME_TYPE_NAME = Inr name"
    "the (cv_required_bytes r) \<le> md_maximal_volume_size_in_bytes md" "cv_preferred_topologies r = None"
    "md_get_volume md name (op_pool vp) False s1 = (Inl (ArrayErr (ObjectNotFoundError x)), s2)"
    "md_validate_supported_space_efficiency md (op_space_efficiency vp) s2 = (Inr (), s3)"
    "required = (if the (cv_required_bytes r) = 0 then md_minimal_volume_size_in_bytes md
                 else the (cv_required_bytes r))"
    "md_create_volume md name required (op_space_efficiency vp) (the (op_pool vp)) (op_io_group vp)
       (op_volume_group vp) ids None False (ci_partition_name ci) (ci_partition_vg ci) (cv_parameters r) s3
       = (Inr v, s4)"
  shows "create_volume_on env md ci vp r None ids (Some []) s1 =
    (Inr (Ok \<lparr>csi_capacity_bytes = vol_capacity_bytes v, csi_volume_id = get_volume_id v (ci_system_id ci),
             csi_content_source = None\<rparr>), s4)"
  using assms unfolding create_volume_on_def get_or_create_volume_def
  by (simp add: Let_def prog_defs prog_simps get_volume_topologies_def
      generate_csi_create_volume_response_def get_volume_id_def)



text \<open>
  A request for a volume larger than the maximum of the storage system is refused with
  OUT_OF_RANGE before anything is looked up or created: the state is the one the mediator was
  lent in.
\<close>

theorem CreateVolume_out_of_range:
  assumes "create_reaches env r s ci vp md s1 st ids"
    "get_object_final_name (env_hash env) (md_limits md) (op_prefix vp) (cv_name r) VOLUME_TYPE_NAME = Inr name"
    "md_maximal_volume_size_in_bytes md < the (cv_required_bytes r)"
  shows "\<exists>m. CreateVolume env r s = (Inr (Fail OUT_OF_RANGE m ''CreateVolumeResponse''), env_release env s1)"
proof -
  have "\<exists>m. create_volume_on env md ci vp r st ids i s1 = (Inr (Fail OUT_OF_RANGE m ''CreateVolumeResponse''), s1)" for i
    using assms(2,3) by (simp add: create_volume_on_def Let_def prog_defs prog_simps build_error_response_def)
  then show ?thesis using CreateVolume_reaches [OF assms(1) refl] by blast
qed

theorem CreateVolume_out_of_range_witness:
  "\<exists>m. CreateVolume (example_env store_mediator) (example_request (2 * 1099511627776)) [] =
     (Inr (Fail OUT_OF_RANGE m ''CreateVolumeResponse''), [])"
proof -
  have "\<exists>m. CreateVolume (example_env store_mediator) (example_request (2 * 1099511627776)) [] =
     (Inr (Fail OUT_OF_RANGE m ''CreateVolumeResponse''), env_release (example_env store_mediator) [])"
    by (rule CreateVolume_out_of_range [OF example_reaches [of "2 * 1099511627776" store_mediator], where name = "''pvc-1''"])
       (simp_all add: example_request_def example_env_def example_vp_def store_simps
        get_object_final_name_def join_object_prefix_with_name_def)
  then show ?thesis by (simp add: example_env_def)
qed



text \<open>
  Deleting a volume is idempotent: the reply is success when the storage system deletes it and
  when it answers that there is no such object; every other error is raised; and the mediator
  goes back to the pool in each case.
\<close>

theorem DeleteVolume_not_found:
  assumes "validate_delete_volume_request r = Inr ()" "get_volume_id_info (or_object_id r) = Inr info"
    "get_array_connection_info_from_secrets (or_secrets r) None (oi_system_id info) = Inr ci"
    "env_acquire env ci (oi_array_type info) s = (Inr md, s1)"
    "md_delete_volume md (oi_uid info) (ci_partition_name ci) s1 = (res, s2)"
  shows "DeleteVolume env r s =
    (case res of Inr u \<Rightarrow> Inr (Ok ())
     | Inl e \<Rightarrow> if isa ''ObjectNotFoundError'' e then Inr (Ok ()) else Inl e, env_release env s2)"
  using assms
  by (cases res) (simp_all add: DeleteVolume_def with_agent_def prog_defs prog_simps)

definition example_object_request :: object_request where
  "example_object_request = \<lparr>or_object_id = ''SVC:0;uid-1'', or_secrets = example_secrets\<rparr>"

lemma example_volume_id:
  "get_volume_id_info ''SVC:0;uid-1'' = Inr \<lparr>oi_array_type = ''SVC'', oi_system_id = None,
     oi_internal_id = Some ''0'', oi_uid = ''uid-1''\<rparr>"
  by (simp add: get_volume_id_info_def get_object_id_info_def split_ids_def type_name_defs)

theorem DeleteVolume_not_found_witness:
  "DeleteVolume (example_env store_mediator) example_object_request [] = (Inr (Ok ()), [])"
proof -
  have "DeleteVolume (example_env store_mediator) example_object_request [] =
    (case Inl (ArrayErr (ObjectNotFoundError ''uid-1'')) of Inr (u :: unit) \<Rightarrow> Inr (Ok ())
     | Inl e \<Rightarrow> if isa ''ObjectNotFoundError'' e then Inr (Ok ()) else Inl e,
     env_release (example_env store_mediator) [])"
    by (rule DeleteVolume_not_found [where md = store_mediator and ?s1.0 = "[]" and
          info = "\<lparr>oi_array_type = ''SVC'', oi_system_id = None, oi_internal_id = Some ''0'', oi_uid = ''uid-1''\<rparr>"])
       (simp_all add: example_object_request_def validate_delete_volume_request_def
        validate_minimum_request_fields_def example_secrets_valid example_volume_id
        example_connection_info example_env_def store_simps)
  then show ?thesis by (simp add: example_env_def)
qed

text \<open>
  C13. Expanding never shrinks a volume and never exceeds the maximum, and asks for exactly the requested size: when the
  volume already has the requested size the reply is its size, with nothing left to do on the node; when the request is
  too large the reply is OUT_OF_RANGE; in both cases the storage system is not asked to expand anything (the state is the
  one after the volume was looked up).  Otherwise it is asked once, to expand this volume to the requested size in the
  partition of the secret: when it does, the reply is the size that the volume has then, to be made known on the node,
  or ObjectNotFoundError when the volume is gone; a pool without space is RESOURCE_EXHAUSTED, a volume in use INTERNAL,
  and any other error is passed on.
\<close>

theorem ControllerExpandVolume_bounds:
  assumes "validate_expand_volume_request r = Inr ()" "get_volume_id_info (er_volume_id r) = Inr info"
    "get_array_connection_info_from_secrets (er_secrets r) None (oi_system_id info) = Inr ci"
    "env_acquire env ci (oi_array_type info) s = (Inr md, s1)"
    "md_get_object_by_id md (oi_uid info) (Some VOLUME_TYPE_NAME) False s1 = (Inr (Some v), s2)"
    "md_verify_volume_partition md (vol_name v) (vol_partition_name v) (ci_partition_name ci) s2 = (Inr (), s3)"
    "er_required_bytes r = Some n" "ControllerExpandVolume env r s = (res, t)"
  shows "if n \<le> vol_capacity_bytes v then res = Inr (Ok (vol_capacity_bytes v, False)) \<and> t = env_release env s3
    else if md_maximal_volume_size_in_bytes md < n
    then (\<exists>m. res = Inr (Fail OUT_OF_RANGE m ''ControllerExpandVolumeResponse'')) \<and> t = env_release env s3
    else (\<exists>answer s4. md_expand_volume md (oi_uid info) n (ci_partition_name ci) s3 = (answer, s4) \<and>
      (case answer of
         Inl e \<Rightarrow> t = env_release env s4 \<and>
           (if isa ''NotEnoughSpaceInPool'' e then \<exists>m. res = Inr (Fail RESOURCE_EXHAUSTED m ''ControllerExpandVolumeResponse'')
            else if isa ''ObjectIsStillInUseError'' e then \<exists>m. res = Inr (Fail INTERNAL m ''ControllerExpandVolumeResponse'')
            else res = Inl e)
       | Inr u \<Rightarrow> (\<forall>w s5. md_get_object_by_id md (oi_uid info) (Some VOLUME_TYPE_NAME) False s4 = (Inr w, s5) \<longrightarrow>
           t = env_release env s5 \<and>
           res = (case w of None \<Rightarrow> Inl (ArrayErr (ObjectNotFoundError (oi_uid info)))
                  | Some w \<Rightarrow> Inr (Ok (vol_capacity_bytes w, True))))))"
proof -
  obtain answer s4 where expand: "md_expand_volume md (oi_uid info) n (ci_partition_name ci) s3 = (answer, s4)" by fastforce
  have run: "expand_volume_on md ci (oi_uid info) n s1 =
    (if n \<le> vol_capacity_bytes v then (Inr (Ok (vol_capacity_bytes v, False)), s3)
     else if md_maximal_volume_size_in_bytes md < n
     then (Inr (build_error_response (SIZE_OUT_OF_RANGE n (md_maximal_volume_size_in_bytes md)) OUT_OF_RANGE
            ''ControllerExpandVolumeResponse''), s3)
     else case answer of
         Inl e \<Rightarrow> (Inl e, s4)
       | Inr u \<Rightarrow> bindE (md_get_object_by_id md (oi_uid info) (Some VOLUME_TYPE_NAME) False) (\<lambda>after.
           case after of None \<Rightarrow> raiseE (ArrayErr (ObjectNotFoundError (oi_uid info)))
             | Some w \<Rightarrow> ret (Ok (vol_capacity_bytes w, True))) s4)"
    using assms(5,6) expand
    by (simp add: expand_volume_on_def thenE_def bindE_def prog_simps generate_csi_expand_volume_response_def split: sum.splits)
  obtain r1 t1 where on: "expand_volume_on md ci (oi_uid info) n s1 = (r1, t1)" by fastforce
  have body: "with_agent env ci (oi_array_type info) (\<lambda>md. expand_volume_on md ci (oi_uid info) n) s = (r1, env_release env t1)"
    using assms(4) on by (rule with_agent_run)
  have res: "t = env_release env t1 \<and>
    (case r1 of Inr reply \<Rightarrow> res = Inr reply
     | Inl e \<Rightarrow> if isa ''NotEnoughSpaceInPool'' e then \<exists>m. res = Inr (Fail RESOURCE_EXHAUSTED m ''ControllerExpandVolumeResponse'')
         else if isa ''ObjectIsStillInUseError'' e then \<exists>m. res = Inr (Fail INTERNAL m ''ControllerExpandVolumeResponse'')
         else res = Inl e)"
    using assms(1-3,7,8) body
    by (auto simp: ControllerExpandVolume_def thenE_def bindE_def catchE_def prog_simps handle_exception_def
        split: sum.splits if_splits)
  show ?thesis
    using res on run expand
    by (auto simp: build_error_response_def bindE_def prog_simps isa_def split: sum.splits option.splits if_splits)
qed

definition example_expand_request :: "int \<Rightarrow> expand_request" where
  "example_expand_request n =
     \<lparr>er_volume_id = ''SVC:0;uid-1'', er_secrets = example_secrets, er_required_bytes = Some n\<rparr>"

theorem ControllerExpandVolume_bounds_witness:
  "ControllerExpandVolume (example_env store_mediator) (example_expand_request 1024) [stored_volume 512]
     = (Inr (Ok (1024, True)), [stored_volume 1024])"
proof -
  let ?run = "ControllerExpandVolume (example_env store_mediator) (example_expand_request 1024) [stored_volume 512]"
  let ?info = "\<lparr>oi_array_type = ''SVC'', oi_system_id = None, oi_internal_id = Some ''0'', oi_uid = ''uid-1''\<rparr>"
  obtain res t where run: "?run = (res, t)" by fastforce
  have "if 1024 \<le> vol_capacity_bytes (stored_volume 512)
      then res = Inr (Ok (vol_capacity_bytes (stored_volume 512), False)) \<and> t = env_release (example_env store_mediator) [stored_volume 512]
    else if md_maximal_volume_size_in_bytes store_mediator < 1024
    then (\<exists>m. res = Inr (Fail OUT_OF_RANGE m ''ControllerExpandVolumeResponse'')) \<and> t = env_release (example_env store_mediator) [stored_volume 512]
    else (\<exists>answer s4. md_expand_volume store_mediator (oi_uid ?info) 1024 (ci_partition_name example_info) [stored_volume 512] = (answer, s4) \<and>
      (case answer of
         Inl e \<Rightarrow> t = env_release (example_env store_mediator) s4 \<and>
           (if isa ''NotEnoughSpaceInPool'' e then \<exists>m. res = Inr (Fail RESOURCE_EXHAUSTED m ''ControllerExpandVolumeResponse'')
            else if isa ''ObjectIsStillInUseError'' e then \<exists>m. res = Inr (Fail INTERNAL m ''ControllerExpandVolumeResponse'')
            else res = Inl e)
       | Inr u \<Rightarrow> (\<forall>w s5. md_get_object_by_id store_mediator (oi_uid ?info) (Some VOLUME_TYPE_NAME) False s4 = (Inr w, s5) \<longrightarrow>
           t = env_release (example_env store_mediator) s5 \<and>
           res = (case w of None \<Rightarrow> Inl (ArrayErr (ObjectNotFoundError (oi_uid ?info)))
                  | Some w \<Rightarrow> Inr (Ok (vol_capacity_bytes w, True))))))"
    by (rule ControllerExpandVolume_bounds [OF _ _ _ _ _ _ _ run, where ?s1.0 = "[stored_volume 512]" and ?s2.0 = "[stored_volume 512]"])
       (simp_all add: example_expand_request_def validate_expand_volume_request_def
        validate_minimum_request_fields_def example_secrets_valid validate_capacity_def example_volume_id
        example_connection_info example_env_def store_simps stored_volume_def, simp_all add: example_info_def)
  then show ?thesis using run by (simp add: example_env_def stored_volume_def store_simps)
qed

text \<open>
  The decorator \<open>retry(NoConnectionAvailableException, tries, delay)\<close>: it passes a result on, and an
  error of any other class at the first attempt.
\<close>

definition passes_other_errors :: "(('s, 'a) prog \<Rightarrow> ('s, 'a) prog) \<Rightarrow> bool" where
  "passes_other_errors retry =
     (\<forall>m s. (case fst (m s) of Inl e \<Rightarrow> \<not> isa ''NoConnectionAvailableException'' e | Inr x \<Rightarrow> True)
        \<longrightarrow> retry m s = m s)"

lemma passes_other_errorsD:
  "passes_other_errors retry \<Longrightarrow> m s = (Inr x, s') \<Longrightarrow> retry m s = (Inr x, s')"
  "passes_other_errors retry \<Longrightarrow> m s = (Inl e, s') \<Longrightarrow> \<not> isa ''NoConnectionAvailableException'' e \<Longrightarrow>
    retry m s = (Inl e, s')"
  by (simp_all add: passes_other_errors_def)

lemma passes_other_errors_id: "passes_other_errors (\<lambda>m. m)"
  by (simp add: passes_other_errors_def)

lemma inherit_methods_fields [simp]:
  "fm_map_volume_by_initiators (inherit_methods md r1 r2 r3) v i x = r1 (map_volume_by_initiators md v i x)"
  "fm_unmap_volume_by_initiators (inherit_methods md r1 r2 r3) v i = r2 (unmap_volume_by_initiators md v i)"
  "md_get_object_by_id (inherit_methods md r1 r2 r3) = md_get_object_by_id md"
  "md_verify_volume_partition (inherit_methods md r1 r2 r3) = md_verify_volume_partition md"
  by (cases md; simp add: inherit_methods_def mediator.extend_def full_mediator.fields_def)+

lemma verify_mapped_volume_inherited [simp]:
  "verify_mapped_volume (inherit_methods md r1 r2 r3) ci info = verify_mapped_volume md ci info"
  "verify_mapped_volume (md\<lparr>md_map_volume := f\<rparr>) ci info = verify_mapped_volume md ci info"
  by (simp_all add: verify_mapped_volume_def cong: option.case_cong)

lemma unlocked_call:
  assumes "(attr, i) \<notin> ids_in_use sv" "m (world sv) = (res, w)"
  shows "set_sync_lock i attr t m sv =
    (case res of Inl e \<Rightarrow> Fail (status_of_exception e) (Exc e) t | Inr r \<Rightarrow> r, sv\<lparr>world := w\<rparr>)"
  by (subst set_sync_lock_free [where w = w and r = "case res of Inl e \<Rightarrow> Fail (status_of_exception e) (Exc e) t | Inr r \<Rightarrow> r"])
     (use assms in \<open>auto simp: handle_common_exceptions_def handle_exception_def split: sum.splits\<close>)

text \<open>
  C11. Publishing with exclusive access a volume that is mapped, but to no host of the node, fails
  with FAILED_PRECONDITION and the names of the hosts; the storage system is never asked to map
  the volume, the mediator goes back to the pool and the lock on the volume is released.
\<close>

theorem csi_publish_exclusive:
  assumes "validate_publish_volume_request r = Inr ()" "get_volume_id_info (pr_volume_id r) = Inr info"
    "get_array_connection_info_from_secrets (pr_secrets r) None (oi_system_id info) = Inr ci"
    "is_publish_volume_request_exclusive_access r" "(''volume_id'', Some (pr_volume_id r)) \<notin> ids_in_use sv"
    "env_acquire env ci (oi_array_type info) (world sv)
       = (Inr (inherit_methods (md\<lparr>md_map_volume := f\<rparr>) retry_map retry_unmap retry_rollback), s1)"
    "passes_other_errors retry_map" "verify_mapped_volume md ci info s1 = (Inr (), s2)"
    "md_get_volume_mappings md (oi_uid info) s2 = (Inr mappings, s3)" "mappings \<noteq> []"
    "length mappings = 1 \<longrightarrow>
      find_mapped_host md (get_node_initiators (env_read_node env) (node_id_info_name (pr_node_id r))) mappings s3
        = (Inr None, s4)"
  shows "\<exists>w. csi_ControllerPublishVolume env r sv =
    (Fail FAILED_PRECONDITION (Exc (ArrayErr (VolumeAlreadyMappedToDifferentHostsError (map fst mappings))))
       ''ControllerPublishVolumeResponse'', sv\<lparr>world := env_release env w\<rparr>)"
proof -
  let ?i = "get_node_initiators (env_read_node env) (node_id_info_name (pr_node_id r))"
  let ?md = "md\<lparr>md_map_volume := f\<rparr>"
  let ?e = "ArrayErr (VolumeAlreadyMappedToDifferentHostsError (map fst mappings))"
  obtain w where w: "map_volume_by_initiators ?md (oi_uid info) ?i True s2 = (Inl ?e, w)"
    using exclusive_map_fails [OF assms(9-11)] by blast
  then have m: "retry_map (map_volume_by_initiators ?md (oi_uid info) ?i True) s2 = (Inl ?e, w)"
    by (rule passes_other_errorsD(2) [where m = "map_volume_by_initiators ?md (oi_uid info) ?i True", OF assms(7)]) simp
  note a = with_agent_run [where body = "publish_on ci info ?i True", OF assms(6), of "Inl ?e" w]
  have "publish_on ci info ?i True (inherit_methods ?md retry_map retry_unmap retry_rollback) s1 = (Inl ?e, w)"
    using assms(8) m by (simp add: publish_on_def thenE_run)
  from a [OF this] have "bindE (with_agent env ci (oi_array_type info) (publish_on ci info ?i True)) k (world sv)
      = (Inl ?e, env_release env w)" for k :: "_ \<Rightarrow> ('a, sdict reply) prog" by (rule bindE_run(2))
  then have "ControllerPublishVolume_body env r (world sv) = (Inl ?e, env_release env w)"
    using assms(1-4) by (simp add: ControllerPublishVolume_body_def Let_def)
  then have "ControllerPublishVolume env r (world sv) =
    (Inr (Fail FAILED_PRECONDITION (Exc ?e) ''ControllerPublishVolumeResponse''), env_release env w)"
    by (simp add: ControllerPublishVolume_def catchE_def handle_exception_def prog_simps)
  from unlocked_call [where m = "ControllerPublishVolume env r", OF assms(5) this]
  show ?thesis by (auto simp: csi_ControllerPublishVolume_def csi_method_def)
qed

text \<open>
  Unpublishing is idempotent: once the host is found, the volume is unmapped under the id the
  host's connectivity needs, and every answer that says that there is nothing to unmap is a
  success; any other error has the status of its class, and in each case the mediator goes back
  to the pool and the lock is released.
\<close>

theorem csi_unpublish_outcome:
  assumes "validate_unpublish_volume_request r = Inr ()" "get_volume_id_info (ur_volume_id r) = Inr info"
    "get_array_connection_info_from_secrets (ur_secrets r) None (oi_system_id info) = Inr ci"
    "(''volume_id'', Some (ur_volume_id r)) \<notin> ids_in_use sv"
    "env_acquire env ci (oi_array_type info) (world sv)
       = (Inr (inherit_methods md retry_map retry_unmap retry_rollback), s1)"
    "passes_other_errors retry_unmap" "verify_mapped_volume md ci info s1 = (Inr (), s2)"
    "md_get_host_by_host_identifiers md (get_node_initiators (env_read_node env) (node_id_info_name (ur_node_id r))) s2
       = (Inr (hname, types), s3)"
    "md_unmap_volume md (if choose_connectivity_type types = Some NVME_OVER_FC
        then convert_scsi_id_to_nguid (oi_uid info) else oi_uid info) hname s3 = (res, s4)"
    "\<forall>n. res \<noteq> Inl (ArrayErr (NoConnectionAvailableException n))" "\<forall>t i. res \<noteq> Inl (ObjectIdError t i)"
  shows "csi_ControllerUnpublishVolume env r sv =
    (case res of
       Inr u \<Rightarrow> Ok ()
     | Inl ex \<Rightarrow> if unpublish_idempotent ex then Ok ()
                 else Fail (status_of_exception ex) (Exc ex) ''ControllerUnpublishVolumeResponse'',
     sv\<lparr>world := env_release env s4\<rparr>)"
proof -
  let ?i = "get_node_initiators (env_read_node env) (node_id_info_name (ur_node_id r))"
  have u: "unmap_volume_by_initiators md (oi_uid info) ?i s2 = (res, s4)"
    using assms(8,9) by (simp add: unmap_volume_by_initiators_def bindE_def)
  have "retry_unmap (unmap_volume_by_initiators md (oi_uid info) ?i) s2 = (res, s4)"
  proof (cases res)
    case (Inl ex)
    then have "\<not> isa ''NoConnectionAvailableException'' ex"
      using assms(10) by (auto simp: isa_def split: exn.splits dest: array_error_class_connection)
    with u Inl show ?thesis
      using passes_other_errorsD(2) [where m = "unmap_volume_by_initiators md (oi_uid info) ?i" and s = s2,
          OF assms(6)] by simp
  next
    case (Inr x)
    with u show ?thesis
      using passes_other_errorsD(1) [where m = "unmap_volume_by_initiators md (oi_uid info) ?i" and s = s2,
          OF assms(6)] by simp
  qed
  then have "unpublish_on ci info ?i (inherit_methods md retry_map retry_unmap retry_rollback) s1 = (res, s4)"
    using assms(7) by (simp add: unpublish_on_def thenE_run)
  from with_agent_run [where body = "unpublish_on ci info ?i", OF assms(5) this]
  have "ControllerUnpublishVolume_body env r (world sv)
      = (case res of Inl e \<Rightarrow> Inl e | Inr x \<Rightarrow> Inr (Ok ()), env_release env s4)"
    using assms(1-3)
    by (cases res) (simp_all add: ControllerUnpublishVolume_body_def Let_def thenE_run prog_simps)
  then have "ControllerUnpublishVolume env r (world sv)
      = (case res of Inl ex \<Rightarrow> if unpublish_idempotent ex then Inr (Ok ()) else Inl ex | Inr x \<Rightarrow> Inr (Ok ()),
         env_release env s4)"
    using assms(11)
    by (auto simp: ControllerUnpublishVolume_def catchE_def prog_simps split: sum.splits exn.splits)
  from unlocked_call [where m = "ControllerUnpublishVolume env r", OF assms(4) this]
  show ?thesis
    by (auto simp: csi_ControllerUnpublishVolume_def csi_method_def split: sum.splits)
qed

definition example_publish_request :: publish_request where
  "example_publish_request =
     \<lparr>pr_volume_id = ''SVC:0;uid-1'', pr_node_id = ''node1'', pr_secrets = example_secrets,
      pr_readonly = False, pr_capability = \<lparr>cap_mount = None, cap_block = True, cap_access_mode = 1\<rparr>\<rparr>"

definition example_unpublish_request :: unpublish_request where
  "example_unpublish_request =
     \<lparr>ur_volume_id = ''SVC:0;uid-1'', ur_node_id = ''node1'', ur_secrets = example_secrets\<rparr>"

definition host_mediator :: "unit mediator" where
  "host_mediator =
     (mapped_mediator [(''iqn.b'', ''3'')])
       \<lparr>md_get_object_by_id := (\<lambda>i t b. ret None),
        md_get_host_by_host_identifiers := (\<lambda>i. ret (''host1'', [ISCSI])),
        md_unmap_volume := (\<lambda>v h. raiseE (ArrayErr (VolumeNotMappedToHostError v h)))\<rparr>"

definition host_env :: "unit env" where
  "host_env = example_env (inherit_methods host_mediator (\<lambda>m. m) (\<lambda>m. m) (\<lambda>m. m))"

lemma empty_node_text:
  "generate_node_initiators_from_string_data ''{}'' = Inr (mk_initiators [] [] [])"
  "\<not> has_initiators (mk_initiators [] [] [])"
  by code_simp+

lemma example_node_has_no_ports:
  "get_node_initiators (\<lambda>n. Inr None) ''node1'' = mk_initiators [] [] []"
  by (simp add: get_node_initiators_def get_node_initiators_data_def parse_initiators_from_legacy_node_id_def
      empty_node_text Let_def)

lemma example_volume_id_valid: "validate_object_id ''SVC:0;uid-1'' VOLUME_TYPE_NAME m = Inr ()"
  by (simp add: validate_object_id_def type_name_defs)

lemma no_ports_contain_nothing:
  "\<not> initiators_contains (mk_initiators [] [] [])
     \<lparr>nvme_nqns = [], fc_wwns = [], iscsi_iqns = [''iqn.b'']\<rparr>"
  by code_simp

theorem csi_publish_exclusive_witness:
  "\<exists>w. csi_ControllerPublishVolume host_env example_publish_request \<lparr>ids_in_use = {}, world = ()\<rparr> =
    (Fail FAILED_PRECONDITION (Exc (ArrayErr (VolumeAlreadyMappedToDifferentHostsError [''iqn.b''])))
       ''ControllerPublishVolumeResponse'', \<lparr>ids_in_use = {}, world = w\<rparr>)"
  using csi_publish_exclusive [where r = example_publish_request and info = "\<lparr>oi_array_type = ''SVC'', oi_system_id = None,
      oi_internal_id = Some ''0'', oi_uid = ''uid-1''\<rparr>" and ci = example_info
      and sv = "\<lparr>ids_in_use = {}, world = ()\<rparr>" and env = host_env and md = host_mediator
      and f = "md_map_volume host_mediator" and retry_map = "\<lambda>m. m" and retry_unmap = "\<lambda>m. m"
      and retry_rollback = "\<lambda>m. m" and mappings = "[(''iqn.b'', ''3'')]"]
    example_connection_info [of None None]
  by (simp add: example_publish_request_def validate_publish_volume_request_def thenR_Inr_iff
      validate_csi_volume_capability_Inr validate_minimum_request_fields_def example_secrets_valid validate_node_id_def
      example_volume_id example_info_def is_publish_volume_request_exclusive_access_def EXCLUSIVE_ACCESS_ACCESS_MODE_def SINGLE_NODE_WRITER_def
      host_env_def example_env_def passes_other_errors_id verify_mapped_volume_def host_mediator_def mapped_mediator_def
      prog_simps node_id_info_name_def example_node_has_no_ports no_ports_contain_nothing)

theorem csi_unpublish_outcome_witness:
  "csi_ControllerUnpublishVolume host_env example_unpublish_request \<lparr>ids_in_use = {}, world = ()\<rparr> =
    (Ok (), \<lparr>ids_in_use = {}, world = ()\<rparr>)"
  using csi_unpublish_outcome [of example_unpublish_request "\<lparr>oi_array_type = ''SVC'', oi_system_id = None,
      oi_internal_id = Some ''0'', oi_uid = ''uid-1''\<rparr>" example_info "\<lparr>ids_in_use = {}, world = ()\<rparr>" host_env
      host_mediator "\<lambda>m. m" "\<lambda>m. m" "\<lambda>m. m" "()" "()" "''host1''" "[ISCSI]" "()"
      "Inl (ArrayErr (VolumeNotMappedToHostError ''uid-1'' ''host1''))" "()"]
    example_connection_info [of None None]
  by (simp add: example_unpublish_request_def validate_unpublish_volume_request_def thenR_Inr_iff
      validate_minimum_request_fields_def example_secrets_valid validate_node_id_def
      example_volume_id example_volume_id_valid example_info_def
      host_env_def example_env_def passes_other_errors_id verify_mapped_volume_def host_mediator_def mapped_mediator_def
      prog_simps choose_connectivity_type_def connectivity_defs unpublish_idempotent_def)

end
