(* ===== verification/Addons.thy ===== *)
theory Addons
  imports Controller
begin

text \<open>
  The replication service (\<open>servers/csi/addons_server.py\<close>): enabling and disabling the replication
  of a volume or a volume group, promoting and demoting it, and asking whether it is in sync.
  A request with a replication policy is for policy-based replication (\<open>ear\<close>), any other one for
  a mirror of two volumes.  All methods start with the same checks, here \<open>with_replication\<close>.
\<close>

subsection \<open>Requests\<close>

record addons_request =
  ar_volume_id :: str
  ar_replication_id :: str
  ar_parameters :: sdict
  ar_secrets :: sdict
  ar_source :: "replication_source option"

definition get_addons_replication_type :: "addons_request \<Rightarrow> str" where
  "get_addons_replication_type r =
     (if dict_has (ar_parameters r) ''replication_policy'' then REPLICATION_TYPE_EAR else REPLICATION_TYPE_MIRROR)"

definition validate_addons_request :: "addons_request \<Rightarrow> str \<Rightarrow> exn + unit" where
  "validate_addons_request r replication_type =
     thenR (validate_minimum_request_fields
              ((if ar_source r = None then [(''volume_id'', ar_volume_id r)] else []) @
               (if replication_type = REPLICATION_TYPE_MIRROR then [(''replication_id'', ar_replication_id r)] else []))
              (ar_secrets r))
    (thenR (if replication_type = REPLICATION_TYPE_EAR
            then thenR (raise_if (ar_replication_id r \<noteq> []) (ValidationException (INVALID_EAR_PARAMETER ''replicationHandle'')))
                   (raise_if (truthy (map_of (ar_parameters r) ''system_id''))
                      (ValidationException (INVALID_EAR_PARAMETER ''system_id'')))
            else Inr ())
      (case map_of (ar_parameters r) ''copy_type'' of
         None \<Rightarrow> Inr ()
       | Some copy_type \<Rightarrow>
           raise_if (copy_type \<notin> {REPLICATION_COPY_TYPE_SYNC, REPLICATION_COPY_TYPE_ASYNC})
             (ValidationException (INVALID_REPLICATION_COPY_TYPE copy_type))))"

definition get_replication_object_type_and_id_info :: "addons_request \<Rightarrow> exn + (str \<times> object_id_info)" where
  "get_replication_object_type_and_id_info r =
     bindR (case ar_source r of
              Some (SourceVolumeGroup i) \<Rightarrow> Inr (VOLUME_GROUP_TYPE_NAME, i)
            | Some (SourceVolume i) \<Rightarrow> Inr (VOLUME_TYPE_NAME, i)
            | Some SourceOther \<Rightarrow> Inl (ValidationException UNSUPPORTED_REPLICATION_SOURCE_TYPE)
            | _ \<Rightarrow> Inr (VOLUME_TYPE_NAME, ar_volume_id r))
       (\<lambda>(object_type, object_id).
          bindR (get_object_id_info object_id object_type) (\<lambda>info. Inr (object_type, info)))"

definition get_other_volume_internal_id :: "addons_request \<Rightarrow> str \<Rightarrow> exn + str option" where
  "get_other_volume_internal_id r replication_type =
     (if replication_type = REPLICATION_TYPE_MIRROR
      then bindR (get_volume_id_info (ar_replication_id r)) (\<lambda>info. Inr (oi_internal_id info))
      else Inr None)"

definition generate_addons_replication_request ::
  "addons_request \<Rightarrow> str \<Rightarrow> str option \<Rightarrow> exn + replication_request" where
  "generate_addons_replication_request r replication_type volume_internal_id =
     bindR (get_other_volume_internal_id r replication_type) (\<lambda>other.
     Inr \<lparr>rr_volume_internal_id = volume_internal_id, rr_other_volume_internal_id = other,
          rr_other_system_id = map_of (ar_parameters r) ''system_id'',
          rr_copy_type = dict_get_or (ar_parameters r) ''copy_type'' REPLICATION_COPY_TYPE_SYNC,
          rr_replication_type = replication_type,
          rr_replication_policy = map_of (ar_parameters r) ''replication_policy''\<rparr>)"

subsection \<open>Checks\<close>

definition ensure_replication_idempotency :: "replication_request \<Rightarrow> replication \<Rightarrow> str option" where
  "ensure_replication_idempotency rr rep =
     (if rr_replication_type rr = REPLICATION_TYPE_MIRROR \<and> rep_copy_type rep \<noteq> Some (rr_copy_type rr)
      then Some (''replication already exists but has copy type of '' @ opt_str (rep_copy_type rep) @
             '' and not '' @ rr_copy_type rr)
      else None)"

definition validate_replication_object :: "str \<Rightarrow> str \<Rightarrow> str option" where
  "validate_replication_object object_type replication_type =
     (if object_type = VOLUME_TYPE_NAME \<and> replication_type = REPLICATION_TYPE_EAR
      then Some ''EAR replication is supported only on volume group level'' else None)"

text \<open>The object has to exist, in the partition of the secret.\<close>

definition get_replication_object ::
  "'s full_mediator \<Rightarrow> array_connection_info \<Rightarrow> str \<Rightarrow> object_id_info \<Rightarrow> ('s, unit) prog" where
  "get_replication_object md ci object_type info =
     (if object_type = VOLUME_TYPE_NAME
      then bindE (md_get_object_by_id md (oi_uid info) (Some object_type) False) (\<lambda>found.
             case found of
               None \<Rightarrow> raiseE (ArrayErr (ObjectNotFoundError (oi_uid info)))
             | Some v \<Rightarrow> md_verify_volume_partition md (vol_name v) (vol_partition_name v) (ci_partition_name ci))
      else bindE (md_get_group_object md (oi_internal_id info)) (\<lambda>found.
             case found of
               None \<Rightarrow> raiseE (ArrayErr (ObjectNotFoundError (opt_str (oi_internal_id info))))
             | Some g \<Rightarrow> md_verify_volume_partition md (vg_name g) (vg_partition_name g) (ci_partition_name ci)))"

text \<open>
  What every method does before its own step: the reply of a failed precondition has the type
  \<open>EnableVolumeReplicationResponse\<close> in every method.
\<close>

definition with_replication ::
  "'s env \<Rightarrow> addons_request \<Rightarrow>
    ('s full_mediator \<Rightarrow> replication_request \<Rightarrow> replication option \<Rightarrow> ('s, 'r reply) prog) \<Rightarrow> ('s, 'r reply) prog" where
  "with_replication env r step =
     (let replication_type = get_addons_replication_type r in
      thenE (liftR (validate_addons_request r replication_type))
     (bindE (liftR (get_replication_object_type_and_id_info r)) (\<lambda>(object_type, info).
      case validate_replication_object object_type replication_type of
        Some message \<Rightarrow> ret (build_error_response message FAILED_PRECONDITION ''EnableVolumeReplicationResponse'')
      | None \<Rightarrow>
          bindE (liftR (generate_addons_replication_request r replication_type (oi_internal_id info))) (\<lambda>rr.
          bindE (liftR (get_array_connection_info_from_secrets (ar_secrets r) None None)) (\<lambda>ci.
          with_agent env ci (oi_array_type info) (\<lambda>md.
            thenE (get_replication_object md ci object_type info)
              (bindE (md_get_replication md rr) (\<lambda>replication. step md rr replication))))))))"

subsection \<open>The methods\<close>

definition enable_step ::
  "'s full_mediator \<Rightarrow> replication_request \<Rightarrow> replication option \<Rightarrow> ('s, unit reply) prog" where
  "enable_step md rr replication =
     (case replication of
        Some rep \<Rightarrow>
          (case ensure_replication_idempotency rr rep of
             Some message \<Rightarrow> ret (build_error_response message ALREADY_EXISTS ''EnableVolumeReplicationResponse'')
           | None \<Rightarrow> ret (Ok ()))
      | None \<Rightarrow> thenE (md_create_replication md rr) (ret (Ok ())))"

definition EnableVolumeReplication :: "'s env \<Rightarrow> addons_request \<Rightarrow> ('s, unit reply) prog" where
  "EnableVolumeReplication env r = with_replication env r enable_step"

definition disable_step ::
  "'s full_mediator \<Rightarrow> replication_request \<Rightarrow> replication option \<Rightarrow> ('s, unit reply) prog" where
  "disable_step md rr replication =
     (case replication of
        Some rep \<Rightarrow> thenE (md_delete_replication md rep) (ret (Ok ()))
      | None \<Rightarrow> ret (Ok ()))"

definition DisableVolumeReplication :: "'s env \<Rightarrow> addons_request \<Rightarrow> ('s, unit reply) prog" where
  "DisableVolumeReplication env r = with_replication env r disable_step"

definition ensure_volume_role_for_replication ::
  "'s full_mediator \<Rightarrow> replication \<Rightarrow> bool \<Rightarrow> ('s, unit) prog" where
  "ensure_volume_role_for_replication md rep is_to_promote =
     (if is_to_promote
      then if rep_is_primary rep = Some True then ret () else md_promote_replication_volume md rep
      else if rep_is_primary rep = Some True \<or> rep_is_primary rep = None
      then md_demote_replication_volume md rep else ret ())"

definition replication_not_found :: "replication_request \<Rightarrow> str" where
  "replication_not_found rr =
     ''could not find replication for volume internal id: '' @ opt_str (rr_volume_internal_id rr) @
     '' with volume internal id: '' @ opt_str (rr_other_volume_internal_id rr) @
     '' of system: '' @ opt_str (rr_other_system_id rr)"

definition role_step ::
  "bool \<Rightarrow> str \<Rightarrow> 's full_mediator \<Rightarrow> replication_request \<Rightarrow> replication option \<Rightarrow> ('s, unit reply) prog" where
  "role_step is_to_promote response_type md rr replication =
     (case replication of
        None \<Rightarrow> ret (build_error_response (replication_not_found rr) FAILED_PRECONDITION response_type)
      | Some rep \<Rightarrow> thenE (ensure_volume_role_for_replication md rep is_to_promote) (ret (Ok ())))"

definition ensure_volume_role :: "'s env \<Rightarrow> addons_request \<Rightarrow> bool \<Rightarrow> str \<Rightarrow> ('s, unit reply) prog" where
  "ensure_volume_role env r is_to_promote response_type =
     with_replication env r (role_step is_to_promote response_type)"

definition PromoteVolume :: "'s env \<Rightarrow> addons_request \<Rightarrow> ('s, unit reply) prog" where
  "PromoteVolume env r = ensure_volume_role env r True ''PromoteVolumeResponse''"

definition DemoteVolume :: "'s env \<Rightarrow> addons_request \<Rightarrow> ('s, unit reply) prog" where
  "DemoteVolume env r = ensure_volume_role env r False ''DemoteVolumeResponse''"

text \<open>The response of a resync says whether the replication is ready.\<close>

definition resync_step ::
  "'s full_mediator \<Rightarrow> replication_request \<Rightarrow> replication option \<Rightarrow> ('s, bool reply) prog" where
  "resync_step md rr replication =
     (case replication of
        None \<Rightarrow> ret (build_error_response (replication_not_found rr) FAILED_PRECONDITION ''ResyncVolumeResponse'')
      | Some rep \<Rightarrow> ret (Ok (rep_is_ready rep)))"

definition ResyncVolume :: "'s env \<Rightarrow> addons_request \<Rightarrow> ('s, bool reply) prog" where
  "ResyncVolume env r = with_replication env r resync_step"

definition addons_call ::
  "str \<Rightarrow> ('s env \<Rightarrow> addons_request \<Rightarrow> ('s, 'r reply) prog) \<Rightarrow> 's env \<Rightarrow> addons_request \<Rightarrow> 's server \<Rightarrow> 'r reply \<times> 's server" where
  "addons_call response_type method env =
     csi_method response_type ''volume_id'' (\<lambda>r. Some (ar_volume_id r)) (method env)"

subsection \<open>Running the methods\<close>

text \<open>
  A request that reaches the storage system: it is valid, its object exists in the right
  partition, and the storage system answers \<open>found\<close> when asked for the replication.
\<close>

definition replication_reaches ::
  "'s env \<Rightarrow> addons_request \<Rightarrow> 's \<Rightarrow> 's full_mediator \<Rightarrow> replication_request \<Rightarrow> replication option \<Rightarrow> 's \<Rightarrow> bool" where
  "replication_reaches env r s md rr found t =
     (\<exists>object_type info ci s1 s2.
        validate_addons_request r (get_addons_replication_type r) = Inr () \<and>
        get_replication_object_type_and_id_info r = Inr (object_type, info) \<and>
        validate_replication_object object_type (get_addons_replication_type r) = None \<and>
        generate_addons_replication_request r (get_addons_replication_type r) (oi_internal_id info) = Inr rr \<and>
        get_array_connection_info_from_secrets (ar_secrets r) None None = Inr ci \<and>
        env_acquire env ci (oi_array_type info) s = (Inr md, s1) \<and>
        get_replication_object md ci object_type info s1 = (Inr (), s2) \<and>
        md_get_replication md rr s2 = (Inr found, t))"

lemma with_replication_run:
  assumes "replication_reaches env r s md rr found t" "step md rr found t = (res, t')"
  shows "with_replication env r step s = (res, env_release env t')"
proof -
  let ?rt = "get_addons_replication_type r"
  from assms(1) obtain object_type info ci s1 s2 where
    v: "validate_addons_request r ?rt = Inr ()" "get_replication_object_type_and_id_info r = Inr (object_type, info)"
      "validate_replication_object object_type ?rt = None"
      "generate_addons_replication_request r ?rt (oi_internal_id info) = Inr rr"
      "get_array_connection_info_from_secrets (ar_secrets r) None None = Inr ci" and
    a: "env_acquire env ci (oi_array_type info) s = (Inr md, s1)" and
    o: "get_replication_object md ci object_type info s1 = (Inr (), s2)" "md_get_replication md rr s2 = (Inr found, t)"
    unfolding replication_reaches_def by blast
  from o assms(2) have "thenE (get_replication_object md ci object_type info)
      (bindE (md_get_replication md rr) (\<lambda>replication. step md rr replication)) s1 = (res, t')"
    by (simp add: prog_defs)
  from with_agent_run [OF a, where body = "\<lambda>md. thenE (get_replication_object md ci object_type info)
      (bindE (md_get_replication md rr) (\<lambda>replication. step md rr replication))", OF this] v
  show ?thesis by (simp add: with_replication_def Let_def)
qed

subsection \<open>Properties\<close>

text \<open>
  C15. Enabling replication is idempotent: an existing replication is never created again; it is a
  success, unless it is a mirror with another copy type than the request's, which is
  ALREADY_EXISTS; and when there is none it is created from the request, whose errors are raised.
\<close>

theorem EnableVolumeReplication_outcome:
  assumes "replication_reaches env r s md rr found t"
  shows "EnableVolumeReplication env r s =
    (case found of
       Some rep \<Rightarrow>
         (if rr_replication_type rr = REPLICATION_TYPE_MIRROR \<and> rep_copy_type rep \<noteq> Some (rr_copy_type rr)
          then (Inr (Fail ALREADY_EXISTS (Msg (the (ensure_replication_idempotency rr rep)))
                  ''EnableVolumeReplicationResponse''), env_release env t)
          else (Inr (Ok ()), env_release env t))
     | None \<Rightarrow> (case md_create_replication md rr t of
           (Inl e, t') \<Rightarrow> (Inl e, env_release env t')
         | (Inr u, t') \<Rightarrow> (Inr (Ok ()), env_release env t')))"
proof -
  obtain res t' where "enable_step md rr found t = (res, t')" by force
  from with_replication_run [where step = enable_step, OF assms this] this show ?thesis
    by (auto simp: EnableVolumeReplication_def enable_step_def ensure_replication_idempotency_def
        build_error_response_def prog_defs prog_simps split: option.splits prod.splits sum.splits if_splits)
qed

text \<open>
  Promote and demote give the role they are asked for: when the storage system answers with
  the role a volume has, and promoting and demoting set it, a reply of success means that the
  volume is primary after promote and secondary after demote.
\<close>

theorem volume_role_reached:
  assumes "replication_reaches env r s md rr (Some rep) t" "rep_is_primary rep = role t"
    "\<And>u u'. md_promote_replication_volume md rep u = (Inr (), u') \<Longrightarrow> role u' = Some True"
    "\<And>u u'. md_demote_replication_volume md rep u = (Inr (), u') \<Longrightarrow> role u' = Some False"
    "\<And>u. role (env_release env u) = role u"
    "ensure_volume_role env r is_to_promote response_type s = (Inr (Ok ()), s')"
  shows "role s' = Some is_to_promote \<and> (role t = Some is_to_promote \<longrightarrow> s' = env_release env t)"
proof -
  obtain res t' where step: "role_step is_to_promote response_type md rr (Some rep) t = (res, t')" by force
  from with_replication_run [where step = "role_step is_to_promote response_type", OF assms(1) this] assms(6)
  have "res = Inr (Ok ())" and s': "s' = env_release env t'" by (auto simp: ensure_volume_role_def)
  with step have "ensure_volume_role_for_replication md rep is_to_promote t = (Inr (), t')"
    by (auto simp: role_step_def prog_defs prog_simps split: prod.splits sum.splits)
  then have "role t' = Some is_to_promote \<and> (role t = Some is_to_promote \<longrightarrow> t' = t)"
    using assms(2-4)
    by (cases "rep_is_primary rep")
       (auto simp: ensure_volume_role_for_replication_def prog_simps split: if_splits)
  with s' assms(5) show ?thesis by auto
qed

text \<open>
  C16. Policy-based replication of a single volume is refused with FAILED_PRECONDITION by every
  method before the storage system is contacted, and the empty reply has the type of enable's
  response in all of them.
\<close>

theorem ear_volume_refused:
  assumes "dict_has (ar_parameters r) ''replication_policy''"
    "validate_addons_request r REPLICATION_TYPE_EAR = Inr ()"
    "get_replication_object_type_and_id_info r = Inr (VOLUME_TYPE_NAME, info)"
  shows "\<exists>m. EnableVolumeReplication env r s = (Inr (Fail FAILED_PRECONDITION m ''EnableVolumeReplicationResponse''), s) \<and>
    DisableVolumeReplication env r s = (Inr (Fail FAILED_PRECONDITION m ''EnableVolumeReplicationResponse''), s) \<and>
    PromoteVolume env r s = (Inr (Fail FAILED_PRECONDITION m ''EnableVolumeReplicationResponse''), s) \<and>
    DemoteVolume env r s = (Inr (Fail FAILED_PRECONDITION m ''EnableVolumeReplicationResponse''), s) \<and>
    ResyncVolume env r s = (Inr (Fail FAILED_PRECONDITION m ''EnableVolumeReplicationResponse''), s)"
  using assms
  by (simp add: EnableVolumeReplication_def DisableVolumeReplication_def PromoteVolume_def DemoteVolume_def
      ResyncVolume_def ensure_volume_role_def with_replication_def get_addons_replication_type_def
      validate_replication_object_def build_error_response_def Let_def prog_simps)

subsection \<open>Witnesses\<close>

definition example_addons_request :: "sdict \<Rightarrow> str \<Rightarrow> addons_request" where
  "example_addons_request parameters rid =
     \<lparr>ar_volume_id = ''SVC:0;uid-1'', ar_replication_id = rid, ar_parameters = parameters,
      ar_secrets = example_secrets, ar_source = Some SourceUnset\<rparr>"

text \<open>A storage system whose state is the role of one replicated volume, if it is replicated.\<close>

definition role_mediator :: "bool option full_mediator" where
  "role_mediator =
     inherit_methods
       ((array_mediator_interface ''10.0.0.1'')
         \<lparr>md_get_object_by_id := (\<lambda>i t b s. (Inr (Some (stored_volume 512)), s)),
          md_verify_volume_partition := (\<lambda>n p q. ret ()),
          md_get_replication := (\<lambda>rr s. (Inr (case s of None \<Rightarrow> None | Some p \<Rightarrow>
             Some \<lparr>rep_name = ''rc0'', rep_copy_type = Some ''sync'', rep_is_ready = True,
               rep_replication_type = ''mirror'', rep_is_primary = Some p, rep_volume_group_id = None\<rparr>), s)),
          md_create_replication := (\<lambda>rr s. (Inr (), Some True)),
          md_promote_replication_volume := (\<lambda>rep s. (Inr (), Some True)),
          md_demote_replication_volume := (\<lambda>rep s. (Inr (), Some False))\<rparr>)
       (\<lambda>m. m) (\<lambda>m. m) (\<lambda>m. m)"

lemma role_mediator_simps:
  "md_create_replication role_mediator rr b = (Inr (), Some True)"
  "md_promote_replication_volume role_mediator rep b = (Inr (), Some True)"
  "md_demote_replication_volume role_mediator rep b = (Inr (), Some False)"
  by (simp_all add: role_mediator_def inherit_methods_def mediator.extend_def full_mediator.fields_def)

lemma example_env_release: "env_release (example_env md) s = s"
  by (simp add: example_env_def)

definition example_rr :: replication_request where
  "example_rr =
     \<lparr>rr_volume_internal_id = Some ''0'', rr_other_volume_internal_id = Some ''0'', rr_other_system_id = None,
      rr_copy_type = ''async'', rr_replication_type = ''mirror'', rr_replication_policy = None\<rparr>"

lemma example_replication_reaches:
  "replication_reaches (example_env role_mediator) (example_addons_request [(''copy_type'', ''async'')] ''SVC:0;uid-1'') s
     role_mediator example_rr
     (case s of None \<Rightarrow> None | Some p \<Rightarrow>
       Some \<lparr>rep_name = ''rc0'', rep_copy_type = Some ''sync'', rep_is_ready = True,
         rep_replication_type = ''mirror'', rep_is_primary = Some p, rep_volume_group_id = None\<rparr>) s"
proof -
  have "get_object_id_info ''SVC:0;uid-1'' VOLUME_TYPE_NAME =
      Inr \<lparr>oi_array_type = ''SVC'', oi_system_id = None, oi_internal_id = Some ''0'', oi_uid = ''uid-1''\<rparr>"
    using example_volume_id by (simp add: get_volume_id_info_def)
  then show ?thesis
    using example_connection_info [of None None] example_volume_id unfolding replication_reaches_def
    by (intro exI [of _ VOLUME_TYPE_NAME] exI [of _ "\<lparr>oi_array_type = ''SVC'', oi_system_id = None,
          oi_internal_id = Some ''0'', oi_uid = ''uid-1''\<rparr>"] exI [of _ example_info] exI [of _ s])
       (simp add: example_addons_request_def validate_addons_request_def get_addons_replication_type_def
        dict_has_def validate_minimum_request_fields_def example_secrets_valid replication_defs
        get_replication_object_type_and_id_info_def validate_replication_object_def
        generate_addons_replication_request_def get_other_volume_internal_id_def dict_get_or_def example_rr_def
        example_env_def get_replication_object_def role_mediator_def inherit_methods_def mediator.extend_def
        full_mediator.fields_def prog_defs prog_simps example_info_def type_name_defs)
qed

theorem EnableVolumeReplication_outcome_witness:
  "reply_code (case fst (EnableVolumeReplication (example_env role_mediator)
      (example_addons_request [(''copy_type'', ''async'')] ''SVC:0;uid-1'') (Some False)) of Inr x \<Rightarrow> x) = ALREADY_EXISTS \<and>
   EnableVolumeReplication (example_env role_mediator)
      (example_addons_request [(''copy_type'', ''async'')] ''SVC:0;uid-1'') None = (Inr (Ok ()), Some True)"
  using EnableVolumeReplication_outcome [OF example_replication_reaches, of "Some False"]
    EnableVolumeReplication_outcome [OF example_replication_reaches, of None]
  by (simp add: example_rr_def replication_defs role_mediator_simps example_env_release)

lemma example_role_call:
  "ensure_volume_role (example_env role_mediator) (example_addons_request [(''copy_type'', ''async'')] ''SVC:0;uid-1'')
     True t (Some False) = (Inr (Ok ()), Some True)"
  unfolding ensure_volume_role_def
  by (subst with_replication_run [OF example_replication_reaches, where t' = "Some True" and res = "Inr (Ok ())"])
     (simp_all add: role_step_def ensure_volume_role_for_replication_def role_mediator_simps
       prog_defs prog_simps example_env_release)

theorem volume_role_reached_witness:
  "\<exists>t. ensure_volume_role (example_env role_mediator)
      (example_addons_request [(''copy_type'', ''async'')] ''SVC:0;uid-1'') True ''PromoteVolumeResponse'' (Some False)
      = (Inr (Ok ()), t) \<and> t = Some True"
proof -
  have "Some True = Some True \<and> (Some False = Some True \<longrightarrow> Some True = env_release (example_env role_mediator) (Some False))"
    by (rule volume_role_reached [where role = "\<lambda>s. s" and is_to_promote = True, OF example_replication_reaches
          [of "Some False", simplified]])
       (simp_all add: example_role_call example_env_release role_mediator_simps)
  then show ?thesis by (auto simp: example_role_call)
qed

theorem ear_volume_refused_witness:
  "\<exists>m. ResyncVolume (example_env role_mediator) (example_addons_request [(''replication_policy'', ''p'')] []) None =
    (Inr (Fail FAILED_PRECONDITION m ''EnableVolumeReplicationResponse''), None)"
proof -
  have "get_replication_object_type_and_id_info (example_addons_request [(''replication_policy'', ''p'')] []) =
      Inr (VOLUME_TYPE_NAME, \<lparr>oi_array_type = ''SVC'', oi_system_id = None, oi_internal_id = Some ''0'', oi_uid = ''uid-1''\<rparr>)"
    using example_volume_id
    by (simp add: get_replication_object_type_and_id_info_def example_addons_request_def get_volume_id_info_def)
  from ear_volume_refused [OF _ _ this, of "example_env role_mediator" None] show ?thesis
    by (auto simp: example_addons_request_def dict_has_def validate_addons_request_def replication_defs
        validate_minimum_request_fields_def example_secrets_valid)
qed

end
