(* ===== verification/VolumeGroup.thy ===== *)
theory VolumeGroup
  imports Controller
begin

text \<open>
  The volume group service (\<open>servers/csi/volume_group_server.py\<close>): creating and deleting groups
  and setting their members, with its validators and responses of \<open>servers/utils.py\<close>.  Setting the
  members adds what is missing from the group and removes what is missing from the request;
  a storage system may list its members by SCSI uid or by NVMe nguid, so the two are compared
  through the conversions of the theory \<open>Ids\<close>.
\<close>

subsection \<open>Requests and responses\<close>

record create_group_request =
  gc_name :: str
  gc_secrets :: sdict
  gc_parameters :: sdict

record modify_group_request =
  gm_volume_group_id :: str
  gm_secrets :: sdict
  gm_volume_ids :: "str list"

record csi_volume_group =
  csi_volume_group_id :: str
  csi_group_volumes :: "csi_volume list"

definition validate_create_volume_group_request :: "create_group_request \<Rightarrow> exn + unit" where
  "validate_create_volume_group_request r =
     validate_minimum_request_fields [(''name'', gc_name r)] (gc_secrets r)"

definition validate_delete_volume_group_request :: "object_request \<Rightarrow> exn + unit" where
  "validate_delete_volume_group_request r =
     validate_minimum_request_fields [(''volume_group_id'', or_object_id r)] (or_secrets r)"

definition validate_modify_volume_group_request :: "modify_group_request \<Rightarrow> exn + unit" where
  "validate_modify_volume_group_request r =
     validate_minimum_request_fields [(''volume_group_id'', gm_volume_group_id r)] (gm_secrets r)"

definition generate_volumegroup_volume_response :: "thin_volume \<Rightarrow> csi_volume" where
  "generate_volumegroup_volume_response v =
     \<lparr>csi_capacity_bytes = thin_capacity_bytes v, csi_volume_id = get_thin_volume_id v None,
      csi_content_source =
        (if truthy (thin_source_id v) then Some (VolumeSource (the (thin_source_id v))) else None)\<rparr>"

definition generate_csi_create_volume_group_response :: "volume_group \<Rightarrow> csi_volume_group" where
  "generate_csi_create_volume_group_response g =
     \<lparr>csi_volume_group_id = get_volume_group_id g None, csi_group_volumes = []\<rparr>"

definition generate_csi_modify_volume_group_response :: "volume_group \<Rightarrow> csi_volume_group" where
  "generate_csi_modify_volume_group_response g =
     \<lparr>csi_volume_group_id = get_volume_group_id g None,
      csi_group_volumes = map generate_volumegroup_volume_response (vg_volumes g)\<rparr>"

subsection \<open>Create and delete\<close>

definition create_group_on ::
  "'s env \<Rightarrow> array_connection_info \<Rightarrow> create_group_request \<Rightarrow> 's full_mediator \<Rightarrow> ('s, csi_volume_group reply) prog" where
  "create_group_on env ci r md =
     bindE (liftR (get_object_final_name (env_hash env) (md_limits md) (get_volume_group_prefix (gc_parameters r))
              (gc_name r) VOLUME_GROUP_TYPE_NAME)) (\<lambda>name.
     tryE (md_get_volume_group md name)
       (\<lambda>e. if isa ''ObjectNotFoundError'' e
            then bindE (md_create_volume_group md name (ci_partition_name ci)) (\<lambda>g.
                 ret (Ok (generate_csi_create_volume_group_response g)))
            else raiseE e)
       (\<lambda>g. thenE (md_verify_volume_group_partition md (vg_name g) (vg_partition_name g) (ci_partition_name ci))
          (if vg_volumes g \<noteq> []
           then ret (build_error_response (''Volume group '' @ vg_name g @ '' is not empty'') ALREADY_EXISTS
                  ''CreateVolumeGroupResponse'')
           else ret (Ok (generate_csi_create_volume_group_response g)))))"

definition CreateVolumeGroup :: "'s env \<Rightarrow> create_group_request \<Rightarrow> ('s, csi_volume_group reply) prog" where
  "CreateVolumeGroup env r =
     thenE (liftR (validate_create_volume_group_request r))
       (catchE
          (bindE (liftR (get_array_connection_info_from_secrets (gc_secrets r) None None)) (\<lambda>ci.
           bindE (env_detect env (ci_array_addresses ci)) (\<lambda>array_type.
           with_agent env ci array_type (create_group_on env ci r))))
          (\<lambda>ex. if isa ''VolumeGroupAlreadyExists'' ex
                then ret (handle_exception ex ALREADY_EXISTS ''CreateVolumeGroupResponse'')
                else raiseE ex))"

text \<open>\<open>_get_volume_group\<close>: the error names the group that was asked for.\<close>

definition get_existing_group :: "'s full_mediator \<Rightarrow> str \<Rightarrow> ('s, volume_group) prog" where
  "get_existing_group md name =
     catchE (md_get_volume_group md name)
       (\<lambda>e. raiseE (if isa ''ObjectNotFoundError'' e then ArrayErr (ObjectNotFoundError name) else e))"

definition DeleteVolumeGroup :: "'s env \<Rightarrow> object_request \<Rightarrow> ('s, unit reply) prog" where
  "DeleteVolumeGroup env r =
     thenE (liftR (validate_delete_volume_group_request r))
       (case get_volume_group_id_info (or_object_id r) of
          Inl e \<Rightarrow> (case e of ObjectIdError t i \<Rightarrow> ret (Ok ()) | _ \<Rightarrow> raiseE e)
        | Inr info \<Rightarrow>
            bindE (liftR (get_array_connection_info_from_secrets (or_secrets r) None None)) (\<lambda>ci.
            thenE (with_agent env ci (oi_array_type info) (\<lambda>md.
                     catchE
                       (bindE (get_existing_group md (oi_uid info)) (\<lambda>g.
                        thenE (md_verify_volume_group_partition md (vg_name g) (vg_partition_name g) (ci_partition_name ci))
                          (md_delete_volume_group md (oi_uid info))))
                       (\<lambda>e. if isa ''ObjectNotFoundError'' e then ret () else raiseE e)))
              (ret (Ok ()))))"

subsection \<open>Membership\<close>

definition is_volume_id_in_volume_group :: "str \<Rightarrow> str list \<Rightarrow> bool" where
  "is_volume_id_in_volume_group volume_id ids_in_group =
     (volume_id \<in> set ids_in_group \<or> convert_scsi_id_to_nguid volume_id \<in> set ids_in_group)"

definition add_volumes_missing_from_group ::
  "'s full_mediator \<Rightarrow> str list \<Rightarrow> str list \<Rightarrow> str \<Rightarrow> str option \<Rightarrow> ('s, unit) prog" where
  "add_volumes_missing_from_group md ids_in_request ids_in_group group_name partition_name =
     forE (\<lambda>v. if is_volume_id_in_volume_group v ids_in_group then ret ()
               else md_add_volume_to_volume_group md group_name v partition_name) ids_in_request"

definition is_volume_id_in_request :: "str \<Rightarrow> str \<Rightarrow> bool" where
  "is_volume_id_in_request volume_id volume_id_in_request =
     (volume_id = volume_id_in_request \<or>
      py_contains volume_id_in_request (convert_nguid_to_scsi_id volume_id))"

definition remove_volumes_missing_from_request ::
  "'s full_mediator \<Rightarrow> str list \<Rightarrow> str list \<Rightarrow> str option \<Rightarrow> str option \<Rightarrow> ('s, unit) prog" where
  "remove_volumes_missing_from_request md ids_in_request ids_in_group partition_name partition_vg =
     forE (\<lambda>m. if list_ex (is_volume_id_in_request m) ids_in_request then ret ()
               else md_remove_volume_from_volume_group md m partition_name partition_vg) ids_in_group"

definition get_volume_ids_from_request :: "str list \<Rightarrow> exn + str list" where
  "get_volume_ids_from_request volume_ids =
     mapR (\<lambda>i. bindR (get_volume_id_info i) (\<lambda>info. Inr (oi_uid info))) volume_ids"

definition set_members ::
  "'s full_mediator \<Rightarrow> array_connection_info \<Rightarrow> str \<Rightarrow> str list \<Rightarrow> str list \<Rightarrow> ('s, unit) prog" where
  "set_members md ci group_name ids_in_request ids_in_group =
     thenE (add_volumes_missing_from_group md ids_in_request ids_in_group group_name (ci_partition_name ci))
       (remove_volumes_missing_from_request md ids_in_request ids_in_group (ci_partition_name ci) (ci_partition_vg ci))"

definition modify_group_on ::
  "array_connection_info \<Rightarrow> object_id_info \<Rightarrow> str list \<Rightarrow> 's full_mediator \<Rightarrow> ('s, csi_volume_group reply) prog" where
  "modify_group_on ci info volume_ids md =
     bindE (get_existing_group md (oi_uid info)) (\<lambda>g.
     thenE (md_verify_volume_group_partition md (vg_name g) (vg_partition_name g) (ci_partition_name ci))
    (bindE (liftR (get_volume_ids_from_request volume_ids)) (\<lambda>ids_in_request.
     thenE (set_members md ci (oi_uid info) ids_in_request (map thin_id (vg_volumes g)))
    (bindE (get_existing_group md (oi_uid info)) (\<lambda>g'.
     ret (Ok (generate_csi_modify_volume_group_response g')))))))"

definition ModifyVolumeGroupMembership :: "'s env \<Rightarrow> modify_group_request \<Rightarrow> ('s, csi_volume_group reply) prog" where
  "ModifyVolumeGroupMembership env r =
     thenE (liftR (validate_modify_volume_group_request r))
       (case get_volume_group_id_info (gm_volume_group_id r) of
          Inl e \<Rightarrow> (case e of
              ObjectIdError t i \<Rightarrow> ret (handle_exception e INVALID_ARGUMENT ''ModifyVolumeGroupMembershipResponse'')
            | _ \<Rightarrow> raiseE e)
        | Inr info \<Rightarrow>
            bindE (liftR (get_array_connection_info_from_secrets (gm_secrets r) None None)) (\<lambda>ci.
            with_agent env ci (oi_array_type info) (modify_group_on ci info (gm_volume_ids r))))"

definition csi_CreateVolumeGroup :: "'s env \<Rightarrow> create_group_request \<Rightarrow> 's server \<Rightarrow> csi_volume_group reply \<times> 's server" where
  "csi_CreateVolumeGroup env =
     csi_method ''CreateVolumeGroupResponse'' ''name'' (\<lambda>r. Some (gc_name r)) (CreateVolumeGroup env)"

definition csi_DeleteVolumeGroup :: "'s env \<Rightarrow> object_request \<Rightarrow> 's server \<Rightarrow> unit reply \<times> 's server" where
  "csi_DeleteVolumeGroup env =
     csi_method ''DeleteVolumeGroupResponse'' ''volume_group_id'' (\<lambda>r. Some (or_object_id r)) (DeleteVolumeGroup env)"

definition csi_ModifyVolumeGroupMembership ::
  "'s env \<Rightarrow> modify_group_request \<Rightarrow> 's server \<Rightarrow> csi_volume_group reply \<times> 's server" where
  "csi_ModifyVolumeGroupMembership env =
     csi_method ''ModifyVolumeGroupMembershipResponse'' ''volume_group_id''
       (\<lambda>r. Some (gm_volume_group_id r)) (ModifyVolumeGroupMembership env)"

subsection \<open>What the two loops do to the members\<close>

text \<open>
  \<open>members\<close> are the ids a storage system lists for the group.  A storage system \<open>keeps_members\<close>
  when adding a volume lists it under its SCSI uid or its nguid, and removing one takes exactly
  it off the list.
\<close>

definition keeps_members :: "'s full_mediator \<Rightarrow> ('s \<Rightarrow> str set) \<Rightarrow> str \<Rightarrow> array_connection_info \<Rightarrow> bool" where
  "keeps_members md members group_name ci =
     ((\<forall>v s s'. md_add_volume_to_volume_group md group_name v (ci_partition_name ci) s = (Inr (), s') \<longrightarrow>
         members s' = insert v (members s) \<or> members s' = insert (convert_scsi_id_to_nguid v) (members s)) \<and>
      (\<forall>v s s'. md_remove_volume_from_volume_group md v (ci_partition_name ci) (ci_partition_vg ci) s = (Inr (), s') \<longrightarrow>
         members s' = members s - {v}) \<and>
      (\<forall>s g s'. md_get_volume_group md group_name s = (Inr g, s') \<longrightarrow> members s' = members s))"

lemma forE_Inr_Cons:
  "forE f (x # xs) s = (Inr (), t) \<Longrightarrow> \<exists>s'. f x s = (Inr (), s') \<and> forE f xs s' = (Inr (), t)"
  by (auto elim!: thenE_InrE)

lemma add_missing_members:
  assumes "keeps_members md members n ci"
    "add_volumes_missing_from_group md req g n (ci_partition_name ci) s = (Inr (), t)"
  shows "members s \<subseteq> members t"
    "\<forall>v \<in> set req. is_volume_id_in_volume_group v g \<or> v \<in> members t \<or> convert_scsi_id_to_nguid v \<in> members t"
    "\<forall>m \<in> members t. m \<in> members s \<or> (\<exists>v \<in> set req. m = v \<or> m = convert_scsi_id_to_nguid v)"
proof -
  let ?f = "\<lambda>v. if is_volume_id_in_volume_group v g then ret ()
               else md_add_volume_to_volume_group md n v (ci_partition_name ci)"
  have "members s \<subseteq> members t \<and>
    (\<forall>v \<in> set req. is_volume_id_in_volume_group v g \<or> v \<in> members t \<or> convert_scsi_id_to_nguid v \<in> members t) \<and>
    (\<forall>m \<in> members t. m \<in> members s \<or> (\<exists>v \<in> set req. m = v \<or> m = convert_scsi_id_to_nguid v))"
    if "forE ?f req s = (Inr (), t)" for req s using that
  proof (induction req arbitrary: s)
    case Nil
    then show ?case by (simp add: prog_simps)
  next
    case (Cons v req)
    from forE_Inr_Cons [OF Cons.prems] obtain s' where
      v: "?f v s = (Inr (), s')" and rest: "forE ?f req s' = (Inr (), t)" by blast
    show ?case
    proof (cases "is_volume_id_in_volume_group v g")
      case True
      with v have "s' = s" by (simp add: prog_simps)
      with True Cons.IH [OF rest] show ?thesis by auto
    next
      case False
      with v assms(1) have "members s' = insert v (members s) \<or>
          members s' = insert (convert_scsi_id_to_nguid v) (members s)"
        by (simp add: keeps_members_def)
      with Cons.IH [OF rest] show ?thesis by auto
    qed
  qed
  with assms(2) show "members s \<subseteq> members t"
    "\<forall>v \<in> set req. is_volume_id_in_volume_group v g \<or> v \<in> members t \<or> convert_scsi_id_to_nguid v \<in> members t"
    "\<forall>m \<in> members t. m \<in> members s \<or> (\<exists>v \<in> set req. m = v \<or> m = convert_scsi_id_to_nguid v)"
    unfolding add_volumes_missing_from_group_def by blast+
qed

lemma remove_missing_members:
  assumes "keeps_members md members n ci"
    "remove_volumes_missing_from_request md req g (ci_partition_name ci) (ci_partition_vg ci) s = (Inr (), t)"
  shows "members t = members s - {m \<in> set g. \<not> (\<exists>v \<in> set req. is_volume_id_in_request m v)}"
  using assms(2) unfolding remove_volumes_missing_from_request_def
proof (induction g arbitrary: s)
  case Nil
  then show ?case by (simp add: prog_simps)
next
  case (Cons m g)
  let ?f = "\<lambda>m. if list_ex (is_volume_id_in_request m) req then ret ()
               else md_remove_volume_from_volume_group md m (ci_partition_name ci) (ci_partition_vg ci)"
  from forE_Inr_Cons [OF Cons.prems] obtain s' where
    m: "?f m s = (Inr (), s')" and rest: "forE ?f g s' = (Inr (), t)" by blast
  from m assms(1) have "members s' = (if \<exists>v \<in> set req. is_volume_id_in_request m v then members s else members s - {m})"
    by (auto simp: keeps_members_def list_ex_iff prog_simps split: if_splits)
  with Cons.IH [OF rest] show ?case by auto
qed

subsection \<open>Which members belong to a requested volume\<close>

text \<open>
  The uid of a volume of IBM Storage Virtualize: 32 digits that begin with the format 6 and the identifier 005076 of the
  vendor and its 8, which do not occur again in the second half.  The storage system lists the volume by this uid or by
  its nguid.
\<close>

definition svc_uid :: "str \<Rightarrow> bool" where
  "svc_uid v = (length v = 32 \<and> take 7 v = ''6005076'' \<and> \<not> py_contains (drop 15 v) ''6005076'')"

definition listed_as :: "str \<Rightarrow> str \<Rightarrow> bool" where
  "listed_as v m = (m = v \<or> m = convert_scsi_id_to_nguid v)"

lemma svc_uid_head:
  assumes "svc_uid v"
  shows "length v = 32" "v = CHR ''6'' # tl v" "hd (tl v) = CHR ''0''" "length (tl v) = 31"
proof -
  have v: "length v = 32" "take 7 v = ''6005076''" using assms by (simp_all add: svc_uid_def)
  from v obtain c d cs where "v = c # d # cs" by (cases v; cases "tl v") auto
  with v show "length v = 32" "v = CHR ''6'' # tl v" "hd (tl v) = CHR ''0''" "length (tl v) = 31" by simp_all
qed

lemma in_request_own:
  assumes "length v = 32" "listed_as v m"
  shows "is_volume_id_in_request m v"
proof -
  have "v = [hd v] @ tl v @ []" using assms(1) by (cases v) auto
  then have "py_contains v (tl v)" unfolding py_contains_iff by blast
  with assms show ?thesis by (auto simp: listed_as_def is_volume_id_in_request_def nguid_to_scsi_drops_first)
qed

lemma in_uid_31:
  assumes "py_contains v w" "length v = 32" "length w = 31"
  shows "tl v = w \<or> take 31 v = w"
proof -
  obtain a b where v: "v = a @ w @ b" using assms(1) by (auto simp: py_contains_iff)
  with assms(2,3) consider "a = []" "length b = 1" | "length a = 1" "b = []"
    by (cases a) auto
  then show ?thesis
  proof cases
    case 1
    with v assms(3) show ?thesis by simp
  next
    case 2
    then obtain c where "a = [c]" by (cases a) auto
    with 2 v show ?thesis by simp
  qed
qed

text \<open>The test of the code, a search for a part of the uid, finds the volume itself and no other.\<close>

lemma in_request_iff:
  assumes v: "svc_uid v" and u: "svc_uid u" "listed_as u m"
  shows "is_volume_id_in_request m v = listed_as v m"
proof
  assume "listed_as v m"
  then show "is_volume_id_in_request m v" using in_request_own svc_uid_head(1) [OF v] by blast
next
  assume match: "is_volume_id_in_request m v"
  note vs = svc_uid_head [OF v] and us = svc_uid_head [OF u(1)]
  show "listed_as v m"
  proof (cases "m = v")
    case False
    with match have sub: "py_contains v (convert_nguid_to_scsi_id m)" by (simp add: is_volume_id_in_request_def)
    show ?thesis
    proof (cases "m = u")
      case uid: True
      let ?x = "py_slice 16 22 u @ py_last_n 9 u"
      have w: "convert_nguid_to_scsi_id m = ?x @ take 16 u" "length ?x = 15"
        using uid us(1) by (simp_all add: convert_nguid_to_scsi_id_def)
      have "length (convert_nguid_to_scsi_id m) = 31" using w us(1) by simp
      from in_uid_31 [OF sub vs(1) this] have "py_contains (drop 15 v) (take 16 u)"
      proof
        assume "tl v = convert_nguid_to_scsi_id m"
        moreover have "drop 16 v = drop 15 (tl v)" by (cases v) simp_all
        moreover have "drop 15 (?x @ take 16 u) = take 16 u" using w(2) by (metis append_eq_conv_conj)
        ultimately have "drop 16 v = take 16 u" using w(1) by simp
        then have "drop 15 v = [v ! 15] @ take 16 u @ []" using vs(1) by (simp add: Cons_nth_drop_Suc [symmetric])
        then show ?thesis unfolding py_contains_iff by blast
      next
        assume "take 31 v = convert_nguid_to_scsi_id m"
        then have "v = (?x @ take 16 u) @ drop 31 v" using w append_take_drop_id [of 31 v] by simp
        then have "drop 15 v = [] @ take 16 u @ drop 31 v" using w(2) by (metis append_assoc append_eq_conv_conj append_Nil)
        then show ?thesis unfolding py_contains_iff by blast
      qed
      moreover have "take 16 u = ''6005076'' @ drop 7 (take 16 u)"
        using u(1) append_take_drop_id [of 7 "take 16 u"] by (simp add: svc_uid_def min_def)
      ultimately have "py_contains (drop 15 v) ''6005076''"
        unfolding py_contains_iff by (metis append.assoc)
      with v show ?thesis by (simp add: svc_uid_def)
    next
      case False
      with u(2) have m: "m = convert_scsi_id_to_nguid u" by (simp add: listed_as_def)
      with sub have "py_contains v (tl u)" by (simp add: nguid_to_scsi_drops_first [OF us(1)])
      from in_uid_31 [OF this vs(1) us(4)] have "tl v = tl u"
      proof
        assume "take 31 v = tl u"
        then have "hd (take 31 v) = CHR ''0''" using us(3) by simp
        moreover obtain cs where "v = CHR ''6'' # cs" using vs(2) by blast
        ultimately show ?thesis by simp
      qed
      with vs(2) us(2) have "v = u" by (rule_tac box_equals [OF _ vs(2) [symmetric] us(2) [symmetric]]) simp
      with m show ?thesis by (simp add: listed_as_def)
    qed
  qed (simp add: listed_as_def)
qed

lemma in_group_iff: "is_volume_id_in_volume_group v ids = (\<exists>m \<in> set ids. listed_as v m)"
  by (auto simp: is_volume_id_in_volume_group_def listed_as_def)

lemma forE_filter: "forE (\<lambda>x. if P x then ret () else f x) xs = forE f (filter (\<lambda>x. \<not> P x) xs)"
  by (induction xs) auto

lemma forE_cong: "(\<And>x. x \<in> set xs \<Longrightarrow> f x = g x) \<Longrightarrow> forE f xs = forE g xs"
  by (induction xs) auto

text \<open>Setting the members, without the tests of the code.\<close>

lemma set_members_calls:
  assumes "\<forall>v \<in> set req. svc_uid v" "\<forall>m \<in> set ids. \<exists>u. svc_uid u \<and> listed_as u m"
  shows "set_members md ci n req ids =
    thenE (forE (\<lambda>v. md_add_volume_to_volume_group md n v (ci_partition_name ci))
             (filter (\<lambda>v. \<forall>m \<in> set ids. \<not> listed_as v m) req))
      (forE (\<lambda>m. md_remove_volume_from_volume_group md m (ci_partition_name ci) (ci_partition_vg ci))
             (filter (\<lambda>m. \<forall>v \<in> set req. \<not> listed_as v m) ids))"
proof -
  have "list_ex (is_volume_id_in_request m) req = (\<exists>v \<in> set req. listed_as v m)" if "m \<in> set ids" for m
    using assms that in_request_iff by (fastforce simp: list_ex_iff)
  then have "filter (\<lambda>m. \<not> list_ex (is_volume_id_in_request m) req) ids = filter (\<lambda>m. \<forall>v \<in> set req. \<not> listed_as v m) ids"
    by (intro filter_cong) auto
  then show ?thesis
    by (simp add: set_members_def add_volumes_missing_from_group_def remove_volumes_missing_from_request_def forE_filter in_group_iff)
qed

lemma set_members_result:
  assumes "keeps_members md members n ci" "set_members md ci n req g s = (Inr (), t)" "members s = set g"
    "\<forall>v \<in> set req. svc_uid v" "\<forall>m \<in> set g. \<exists>u. svc_uid u \<and> listed_as u m"
  shows "\<forall>v \<in> set req. \<exists>m \<in> members t. listed_as v m" "\<forall>m \<in> members t. \<exists>v \<in> set req. listed_as v m"
proof -
  obtain s' where
    a: "add_volumes_missing_from_group md req g n (ci_partition_name ci) s = (Inr (), s')" and
    r: "remove_volumes_missing_from_request md req g (ci_partition_name ci) (ci_partition_vg ci) s' = (Inr (), t)"
    using assms(2) unfolding set_members_def by (auto elim!: thenE_InrE)
  note add = add_missing_members [OF assms(1) a] and rem = remove_missing_members [OF assms(1) r]
  have own: "is_volume_id_in_request m v" if "v \<in> set req" "listed_as v m" for v m
    using that in_request_own svc_uid_head(1) assms(4) by blast
  show "\<forall>v \<in> set req. \<exists>m \<in> members t. listed_as v m"
  proof
    fix v assume v: "v \<in> set req"
    have "(\<exists>m \<in> set g. listed_as v m) \<or> v \<in> members s' \<or> convert_scsi_id_to_nguid v \<in> members s'"
      using add(2) v in_group_iff by blast
    then have "\<exists>m \<in> members s'. listed_as v m"
      using add(1) assms(3) by (elim disjE) (auto simp: listed_as_def)
    with own [OF v] v show "\<exists>m \<in> members t. listed_as v m" unfolding rem by blast
  qed
  show "\<forall>m \<in> members t. \<exists>v \<in> set req. listed_as v m"
  proof
    fix m assume "m \<in> members t"
    then have m: "m \<in> members s'" "m \<in> set g \<longrightarrow> (\<exists>v \<in> set req. is_volume_id_in_request m v)"
      unfolding rem by auto
    show "\<exists>v \<in> set req. listed_as v m"
    proof (cases "m \<in> set g")
      case True
      with m(2) assms(4,5) in_request_iff show ?thesis by blast
    next
      case False
      with m(1) add(3) assms(3) show ?thesis unfolding listed_as_def by blast
    qed
  qed
qed

lemma get_existing_group_run: "md_get_volume_group md n s = (Inr g, t) \<Longrightarrow> get_existing_group md n s = (Inr g, t)"
  by (simp add: get_existing_group_def catchE_def)

lemma get_existing_group_InrD:
  "get_existing_group md n s = (Inr g, t) \<Longrightarrow> md_get_volume_group md n s = (Inr g, t)"
  by (auto simp: get_existing_group_def catchE_def prog_simps split: prod.splits sum.splits)

subsection \<open>Properties\<close>

text \<open>
  C14. Setting the members of a group reconciles it with the request, on any storage system: with the group \<open>g\<close> as the
  storage system lists it, it is asked to add exactly the requested volumes that are listed under neither their SCSI uid nor
  their nguid, in the order of the request, then to remove exactly the members that are neither the SCSI uid nor the nguid of
  a requested volume, in the order of the group, and nothing else; the first of these calls that raises ends the request, and
  otherwise the reply is the group as it is listed then.  The mediator goes back to the pool in every case.  The uids are
  those of IBM Storage Virtualize; for them the code's search for a part of the uid finds no other volume.
\<close>

theorem ModifyVolumeGroupMembership_reconciles:
  assumes "validate_modify_volume_group_request r = Inr ()" "get_volume_group_id_info (gm_volume_group_id r) = Inr info"
    "get_array_connection_info_from_secrets (gm_secrets r) None None = Inr ci"
    "env_acquire env ci (oi_array_type info) s = (Inr md, s1)"
    "md_get_volume_group md (oi_uid info) s1 = (Inr g, s2)" "ids = map thin_id (vg_volumes g)"
    "md_verify_volume_group_partition md (vg_name g) (vg_partition_name g) (ci_partition_name ci) s2 = (Inr (), s3)"
    "get_volume_ids_from_request (gm_volume_ids r) = Inr req" "\<forall>v \<in> set req. svc_uid v"
    "\<forall>m \<in> set ids. \<exists>u. svc_uid u \<and> (m = u \<or> m = convert_scsi_id_to_nguid u)"
  shows "ModifyVolumeGroupMembership env r s =
    finallyE
      (thenE (forE (\<lambda>v. md_add_volume_to_volume_group md (oi_uid info) v (ci_partition_name ci))
               (filter (\<lambda>v. v \<notin> set ids \<and> convert_scsi_id_to_nguid v \<notin> set ids) req))
      (thenE (forE (\<lambda>m. md_remove_volume_from_volume_group md m (ci_partition_name ci) (ci_partition_vg ci))
               (filter (\<lambda>m. \<forall>v \<in> set req. m \<noteq> v \<and> m \<noteq> convert_scsi_id_to_nguid v) ids))
      (bindE (get_existing_group md (oi_uid info)) (\<lambda>g'. ret (Ok (generate_csi_modify_volume_group_response g'))))))
      (env_release env) s3"
proof -
  let ?show = "bindE (get_existing_group md (oi_uid info)) (\<lambda>g'. ret (Ok (generate_csi_modify_volume_group_response g')))"
  have "modify_group_on ci info (gm_volume_ids r) md s1 = thenE (set_members md ci (oi_uid info) req ids) ?show s3"
    using assms(5-8) get_existing_group_run [OF assms(5)]
    by (simp add: modify_group_on_def thenE_def bindE_cases)
  moreover have "(\<forall>m \<in> set ids. \<not> listed_as v m) = (v \<notin> set ids \<and> convert_scsi_id_to_nguid v \<notin> set ids)" for v
    by (auto simp: listed_as_def)
  ultimately have "modify_group_on ci info (gm_volume_ids r) md s1 =
      thenE (forE (\<lambda>v. md_add_volume_to_volume_group md (oi_uid info) v (ci_partition_name ci))
               (filter (\<lambda>v. v \<notin> set ids \<and> convert_scsi_id_to_nguid v \<notin> set ids) req))
      (thenE (forE (\<lambda>m. md_remove_volume_from_volume_group md m (ci_partition_name ci) (ci_partition_vg ci))
               (filter (\<lambda>m. \<forall>v \<in> set req. m \<noteq> v \<and> m \<noteq> convert_scsi_id_to_nguid v) ids)) ?show) s3"
    using set_members_calls [OF assms(9), of ids md ci "oi_uid info"] assms(10)
    by (simp add: listed_as_def thenE_def bindE_assoc)
  then show ?thesis
    using assms(1-4)
    by (simp add: ModifyVolumeGroupMembership_def with_agent_def finallyE_def bindE_run(1) [where m = "env_acquire env ci (oi_array_type info)"] thenE_ret)
qed

text \<open>
  On a storage system that keeps the members of the group as it is told, a call that succeeds leaves every requested volume in
  the group, under its SCSI uid or its nguid, and nothing else.
\<close>

theorem ModifyVolumeGroupMembership_members:
  assumes "validate_modify_volume_group_request r = Inr ()" "get_volume_group_id_info (gm_volume_group_id r) = Inr info"
    "get_array_connection_info_from_secrets (gm_secrets r) None None = Inr ci"
    "env_acquire env ci (oi_array_type info) s = (Inr md, s1)"
    "keeps_members md members (oi_uid info) ci" "\<And>u. members (env_release env u) = members u"
    "\<And>g u. md_get_volume_group md (oi_uid info) s1 = (Inr g, u) \<Longrightarrow> members s1 = set (map thin_id (vg_volumes g))"
    "\<And>g p u u'. md_verify_volume_group_partition md g p (ci_partition_name ci) u = (Inr (), u') \<Longrightarrow> members u' = members u"
    "get_volume_ids_from_request (gm_volume_ids r) = Inr req" "\<forall>v \<in> set req. svc_uid v"
    "\<forall>m \<in> members s1. \<exists>u. svc_uid u \<and> listed_as u m"
    "ModifyVolumeGroupMembership env r s = (Inr (Ok response), t)"
  shows "(\<forall>v \<in> set req. v \<in> members t \<or> convert_scsi_id_to_nguid v \<in> members t) \<and>
    (\<forall>m \<in> members t. \<exists>v \<in> set req. m = v \<or> m = convert_scsi_id_to_nguid v)"
proof -
  obtain t' where t: "t = env_release env t'" and run: "modify_group_on ci info (gm_volume_ids r) md s1 = (Inr (Ok response), t')"
    using assms(1-4,12)
    by (auto simp: ModifyVolumeGroupMembership_def with_agent_def bindE_def finallyE_def prog_simps
        split: prod.splits)
  obtain g s2 where g: "get_existing_group md (oi_uid info) s1 = (Inr g, s2)" and
    run2: "thenE (md_verify_volume_group_partition md (vg_name g) (vg_partition_name g) (ci_partition_name ci))
      (bindE (liftR (get_volume_ids_from_request (gm_volume_ids r))) (\<lambda>ids_in_request.
       thenE (set_members md ci (oi_uid info) ids_in_request (map thin_id (vg_volumes g)))
      (bindE (get_existing_group md (oi_uid info)) (\<lambda>g'.
       ret (Ok (generate_csi_modify_volume_group_response g')))))) s2 = (Inr (Ok response), t')"
    using run unfolding modify_group_on_def by (rule bindE_InrE)
  obtain u s3 where v: "md_verify_volume_group_partition md (vg_name g) (vg_partition_name g) (ci_partition_name ci) s2 = (Inr u, s3)" and
    run3: "thenE (set_members md ci (oi_uid info) req (map thin_id (vg_volumes g)))
      (bindE (get_existing_group md (oi_uid info)) (\<lambda>g'. ret (Ok (generate_csi_modify_volume_group_response g')))) s3
      = (Inr (Ok response), t')"
    using run2 assms(9) by (elim thenE_InrE) simp
  obtain u' s4 where set: "set_members md ci (oi_uid info) req (map thin_id (vg_volumes g)) s3 = (Inr u', s4)" and
    run4: "bindE (get_existing_group md (oi_uid info)) (\<lambda>g'. ret (Ok (generate_csi_modify_volume_group_response g'))) s4
      = (Inr (Ok response), t')"
    using run3 by (rule thenE_InrE)
  obtain g' where "get_existing_group md (oi_uid info) s4 = (Inr g', t')"
    using run4 by (auto elim!: bindE_InrE simp: prog_simps)
  then have "members t' = members s4"
    using assms(5) get_existing_group_InrD by (fastforce simp: keeps_members_def)
  moreover have "members s3 = set (map thin_id (vg_volumes g))"
    using v assms(5,7,8) get_existing_group_InrD [OF g] by (simp add: keeps_members_def)
  moreover have "\<forall>m \<in> set (map thin_id (vg_volumes g)). \<exists>u. svc_uid u \<and> listed_as u m"
    using assms(11) assms(7) [OF get_existing_group_InrD [OF g]] by simp
  ultimately show ?thesis
    using set_members_result [OF assms(5) _ _ assms(10), of "map thin_id (vg_volumes g)" s3 s4] set
    unfolding t assms(6) listed_as_def by fastforce
qed

text \<open>A storage system whose state is the list of the members of its one group.\<close>

definition group_mediator :: "str list full_mediator" where
  "group_mediator =
     inherit_methods
       ((array_mediator_interface ''10.0.0.1'')
         \<lparr>md_get_volume_group := (\<lambda>n s. (Inr \<lparr>vg_name = n, vg_id = ''1'', vg_internal_id = ''1'',
             vg_array_type = ARRAY_TYPE_SVC,
             vg_volumes = map (\<lambda>i. \<lparr>thin_name = i, thin_id = i, thin_internal_id = i, thin_array_type = ARRAY_TYPE_SVC,
               thin_capacity_bytes = 512, thin_source_id = None\<rparr>) s,
             vg_partition_name = None\<rparr>, s)),
          md_add_volume_to_volume_group := (\<lambda>g v p s. (Inr (), v # s)),
          md_remove_volume_from_volume_group := (\<lambda>v p q s. (Inr (), removeAll v s)),
          md_verify_volume_group_partition := (\<lambda>g p q. ret ())\<rparr>)
       (\<lambda>m. m) (\<lambda>m. m) (\<lambda>m. m)"

lemma group_mediator_simps:
  "md_get_volume_group group_mediator n s = (Inr \<lparr>vg_name = n, vg_id = ''1'', vg_internal_id = ''1'',
     vg_array_type = ARRAY_TYPE_SVC,
     vg_volumes = map (\<lambda>i. \<lparr>thin_name = i, thin_id = i, thin_internal_id = i, thin_array_type = ARRAY_TYPE_SVC,
       thin_capacity_bytes = 512, thin_source_id = None\<rparr>) s, vg_partition_name = None\<rparr>, s)"
  "md_add_volume_to_volume_group group_mediator g v p s = (Inr (), v # s)"
  "md_remove_volume_from_volume_group group_mediator v p q s = (Inr (), removeAll v s)"
  "md_verify_volume_group_partition group_mediator n p q s = (Inr (), s)"
  by (simp_all add: group_mediator_def inherit_methods_def mediator.extend_def full_mediator.fields_def prog_simps)

definition example_uid :: str where "example_uid = ''60050768108106A7C800000000000A1B''"

definition example_modify_request :: modify_group_request where
  "example_modify_request =
     \<lparr>gm_volume_group_id = ''SVC:1;grp'', gm_secrets = example_secrets, gm_volume_ids = [''SVC:0;'' @ example_uid]\<rparr>"

lemma example_group_id:
  "get_volume_group_id_info ''SVC:1;grp'' = Inr \<lparr>oi_array_type = ''SVC'', oi_system_id = None,
     oi_internal_id = Some ''1'', oi_uid = ''grp''\<rparr>"
  by (simp add: get_volume_group_id_info_def get_object_id_info_def split_ids_def type_name_defs)

lemma example_member_ids: "get_volume_ids_from_request (gm_volume_ids example_modify_request) = Inr [example_uid]"
  by (simp add: get_volume_ids_from_request_def example_modify_request_def example_uid_def get_volume_id_info_def
      get_object_id_info_def split_ids_def type_name_defs)

definition example_stale :: str where "example_stale = ''60050768108106A7C800000000000A1C''"

lemma example_uids: "svc_uid example_uid" "svc_uid example_stale"
  by code_simp+

lemma example_members:
  "filter (\<lambda>v. v \<notin> set [convert_scsi_id_to_nguid example_uid, example_stale] \<and>
     convert_scsi_id_to_nguid v \<notin> set [convert_scsi_id_to_nguid example_uid, example_stale]) [example_uid] = []"
  "filter (\<lambda>m. \<forall>v \<in> set [example_uid]. m \<noteq> v \<and> m \<noteq> convert_scsi_id_to_nguid v)
     [convert_scsi_id_to_nguid example_uid, example_stale] = [example_stale]"
  "convert_scsi_id_to_nguid example_uid \<noteq> example_stale"
  by code_simp+

theorem ModifyVolumeGroupMembership_reconciles_witness:
  "\<exists>response. ModifyVolumeGroupMembership (example_env group_mediator) example_modify_request
      [convert_scsi_id_to_nguid example_uid, example_stale]
    = (Inr (Ok response), [convert_scsi_id_to_nguid example_uid])"
proof -
  let ?s = "[convert_scsi_id_to_nguid example_uid, example_stale]"
  let ?i = "\<lparr>oi_array_type = ''SVC'', oi_system_id = None, oi_internal_id = Some ''1'', oi_uid = ''grp''\<rparr>"
  let ?g = "\<lparr>vg_name = ''grp'', vg_id = ''1'', vg_internal_id = ''1'', vg_array_type = ARRAY_TYPE_SVC,
     vg_volumes = map (\<lambda>i. \<lparr>thin_name = i, thin_id = i, thin_internal_id = i, thin_array_type = ARRAY_TYPE_SVC,
       thin_capacity_bytes = 512, thin_source_id = None\<rparr>) ?s, vg_partition_name = None\<rparr>"
  have ids: "?s = map thin_id (vg_volumes ?g)" by simp
  have wf: "\<forall>v \<in> set [example_uid]. svc_uid v"
    "\<forall>m \<in> set ?s. \<exists>u. svc_uid u \<and> (m = u \<or> m = convert_scsi_id_to_nguid u)"
    using example_uids by auto
  have "ModifyVolumeGroupMembership (example_env group_mediator) example_modify_request ?s =
    finallyE
      (thenE (forE (\<lambda>v. md_add_volume_to_volume_group group_mediator (oi_uid ?i) v (ci_partition_name example_info))
               (filter (\<lambda>v. v \<notin> set ?s \<and> convert_scsi_id_to_nguid v \<notin> set ?s) [example_uid]))
      (thenE (forE (\<lambda>m. md_remove_volume_from_volume_group group_mediator m (ci_partition_name example_info) (ci_partition_vg example_info))
               (filter (\<lambda>m. \<forall>v \<in> set [example_uid]. m \<noteq> v \<and> m \<noteq> convert_scsi_id_to_nguid v) ?s))
      (bindE (get_existing_group group_mediator (oi_uid ?i)) (\<lambda>g'. ret (Ok (generate_csi_modify_volume_group_response g'))))))
      (env_release (example_env group_mediator)) ?s"
    by (rule ModifyVolumeGroupMembership_reconciles [OF _ _ _ _ _ ids _ example_member_ids wf, where ?s1.0 = ?s and ?s2.0 = ?s])
       (use example_connection_info [of None None] in \<open>simp_all add: validate_modify_volume_group_request_def
         example_modify_request_def validate_minimum_request_fields_def example_secrets_valid example_group_id
         example_env_def prog_simps group_mediator_simps example_info_def\<close>)
  then show ?thesis
    unfolding example_members using example_members(3)
    by (simp add: finallyE_def thenE_def bindE_def get_existing_group_def catchE_def prog_simps group_mediator_simps example_env_def)
qed

end
