(* ===== verification/SvcCli.thy ===== *)
theory SvcCli
  imports Mediator Server
begin

text \<open>
  What the SVC mediator (\<open>array_action/array_mediator_svc.py\<close>) is made of: the command line client of
  the storage system, which is a third-party package and therefore a parameter (\<open>svc_client\<close>, one
  operation per \<open>svcinfo\<close> command with the attributes of its rows that the mediator reads, and one
  operation for all \<open>svctask\<close> commands); the arguments of the commands; and how errors of the
  client are told apart by the message codes in their text.

  A row's numeric attributes are \<open>int\<close>; an attribute that the code tests with \<open>hasattr\<close> is an
  option.  \<open>as_single_element\<close> of a response is part of the client.
\<close>

subsection \<open>Arguments of commands\<close>

datatype carg = CStr str | CInt int | CBool bool | CNone

type_synonym kwargs = "(str \<times> carg) list"

definition arg_opt :: "str option \<Rightarrow> carg" where
  "arg_opt x = (case x of None \<Rightarrow> CNone | Some s \<Rightarrow> CStr s)"

text \<open>\<open>str(value)\<close> and \<open>repr\<close> of a dictionary of arguments (of texts without quotes).\<close>

definition carg_repr :: "carg \<Rightarrow> str" where
  "carg_repr a = (case a of CStr s \<Rightarrow> [CHR 0x27] @ s @ [CHR 0x27] | CInt n \<Rightarrow> int_str n
     | CBool b \<Rightarrow> (if b then ''True'' else ''False'') | CNone \<Rightarrow> ''None'')"

definition kwargs_repr :: "kwargs \<Rightarrow> str" where
  "kwargs_repr kw = ''{'' @ py_join '', '' (map (\<lambda>(k, v). carg_repr (CStr k) @ '': '' @ carg_repr v) kw) @ ''}''"

subsection \<open>Rows\<close>

record cli_volume =
  cl_id :: str
  cl_name :: str
  cl_vdisk_UID :: str
  cl_capacity :: int
  cl_mdisk_grp_name :: "str + str list"
  cl_FC_id :: str
  cl_se_copy :: str
  cl_compressed_copy :: str
  cl_deduplicated_copy :: "str option"
  cl_volume_group_name :: str
  cl_volume_group_id :: str
  cl_source_volume_name :: str
  cl_IO_group_name :: str
  cl_replication_mode :: str
  cl_fc_map_count :: str

record cli_fcmap =
  fc_id :: str
  fc_source_vdisk_name :: str
  fc_target_vdisk_name :: str
  fc_status :: str
  fc_copy_rate :: str
  fc_rc_controlled :: str

record cli_volume_group =
  cg_id :: str
  cg_uid :: "str option"
  cg_name :: str
  cg_volume_count :: int
  cg_partition_name :: "str option"

text \<open>A replication of a volume group, with the modes of its locations and partitions by attribute.\<close>

record cli_group_replication =
  cr_replication_policy_name :: str
  cr_local_partition_location :: "str option"
  cr_local_location :: str
  cr_modes :: sdict

record cli_rcrelationship =
  rc_id :: str
  rc_name :: str
  rc_state :: str
  rc_primary :: str
  rc_copy_type :: str
  rc_master_cluster_id :: str
  rc_aux_vdisk_name :: str

record cli_snapshot =
  cs_snapshot_id :: str
  cs_snapshot_name :: str
  cs_volume_name :: str

record cli_host =
  ch_name :: str
  ch_nqn :: "str list option"
  ch_WWPN :: "str list option"
  ch_iscsi_name :: "str list option"
  ch_port_count :: int
  ch_portset_id :: "str option"
  ch_partition_name :: "str option"

record cli_port =
  po_node_id :: str
  po_IP_address :: "str option"
  po_IP_address_6 :: "str option"

record cli_target_port =
  tp_protocol :: "str option"
  tp_host_io_permitted :: "str option"
  tp_WWPN :: "str option"
  tp_WWNN :: "str option"

text \<open>A node: its id, its IQN and its status.\<close>

record cli_node =
  cn_id :: str
  cn_iscsi_name :: str
  cn_status :: str

record cli_system =
  cy_location :: str
  cy_id_alias :: str
  cy_code_level :: str

subsection \<open>The client\<close>

text \<open>
  \<open>sc_random lo hi\<close> is \<open>randint(lo, hi)\<close>, which also stands for the choice of an element of a list;
  \<open>sc_now\<close> is the clock, in seconds.
\<close>

record 's svc_client =
  sc_lssystem :: "('s, cli_system list) prog"
  sc_lsvdisk_single :: "kwargs \<Rightarrow> ('s, cli_volume option) prog"
  sc_lsvdisk_list :: "kwargs \<Rightarrow> ('s, cli_volume list) prog"
  sc_lsfcmap :: "kwargs \<Rightarrow> ('s, cli_fcmap list) prog"
  sc_lsvolumegroup :: "kwargs \<Rightarrow> ('s, cli_volume_group option) prog"
  sc_lsvolumegroupreplication :: "kwargs \<Rightarrow> ('s, cli_group_replication option) prog"
  sc_lspartition :: "kwargs \<Rightarrow> ('s, str option) prog"
  sc_lsreplicationpolicy :: "kwargs \<Rightarrow> ('s, str option) prog"
  sc_lsmdiskgrp :: "kwargs \<Rightarrow> ('s, str option) prog"
  sc_lsrcrelationship :: "kwargs \<Rightarrow> ('s, cli_rcrelationship list) prog"
  sc_lsrcrelationship_single :: "kwargs \<Rightarrow> ('s, cli_rcrelationship option) prog"
  sc_lsvolumesnapshot :: "kwargs \<Rightarrow> ('s, cli_snapshot option) prog"
  sc_lshost_ids :: "('s, str list) prog"
  sc_send_raw_command :: "str \<Rightarrow> ('s, cli_host list) prog"
  sc_lshost_single :: "kwargs \<Rightarrow> ('s, cli_host option) prog"
  sc_lshostiogrp :: "kwargs \<Rightarrow> ('s, (str \<times> str)) prog"
  sc_lsfabric :: "kwargs \<Rightarrow> ('s, sdict list) prog"
  sc_lsnvmefabric :: "kwargs \<Rightarrow> ('s, str list) prog"
  sc_lshostiplogin :: "kwargs \<Rightarrow> ('s, str option) prog"
  sc_lsvdiskhostmap :: "kwargs \<Rightarrow> ('s, (str \<times> str) list) prog"
  sc_lshostvdiskmap :: "kwargs \<Rightarrow> ('s, str list) prog"
  sc_lsnode :: "('s, cli_node list) prog"
  sc_lsip :: "kwargs \<Rightarrow> ('s, cli_port list) prog"
  sc_lsportip :: "kwargs \<Rightarrow> ('s, cli_port list) prog"
  sc_lstargetportfc :: "('s, cli_target_port list) prog"
  sc_task :: "str \<Rightarrow> kwargs \<Rightarrow> ('s, str) prog"
  sc_has_command :: "str \<Rightarrow> bool"
  sc_random :: "int \<Rightarrow> int \<Rightarrow> ('s, int) prog"
  sc_now :: "('s, int) prog"

text \<open>
  The state the methods work on: the storage system, the system row the mediator keeps
  (\<open>_cluster\<close>) and the time of the last registration by endpoint and key
  (\<open>array_action/registration_cache.py\<close>).
\<close>

record 's svc_world =
  sw_array :: 's
  sw_cluster :: "cli_system option"
  sw_registrations :: "(str \<times> (str \<times> int) list) list"

text \<open>
  A mediator: its client and endpoint, what it reads of the process environment, and the third-party
  decorator \<open>retry(StorageArrayClientException, tries, delay)\<close> of its two rollbacks.
\<close>

record 's svc =
  sv_client :: "'s svc_client"
  sv_endpoint :: str
  sv_call_home_enabled :: bool
  sv_odf_version :: str
  sv_identity_version :: str
  sv_metadata :: str
  sv_port_set_env :: "str option"
  sv_retry :: "('s svc_world, unit) prog \<Rightarrow> ('s svc_world, unit) prog"

text \<open>
  The examples of the properties run against a client without any command, to which they add the
  commands that matter, and a mediator of it.
\<close>

definition bare_client :: "'s svc_client" where
  "bare_client = \<lparr>
     sc_lssystem = raiseE (PyErr NotImplementedError),
     sc_lsvdisk_single = (\<lambda>_. raiseE (PyErr NotImplementedError)),
     sc_lsvdisk_list = (\<lambda>_. raiseE (PyErr NotImplementedError)),
     sc_lsfcmap = (\<lambda>_. raiseE (PyErr NotImplementedError)),
     sc_lsvolumegroup = (\<lambda>_. raiseE (PyErr NotImplementedError)),
     sc_lsvolumegroupreplication = (\<lambda>_. raiseE (PyErr NotImplementedError)),
     sc_lspartition = (\<lambda>_. raiseE (PyErr NotImplementedError)),
     sc_lsreplicationpolicy = (\<lambda>_. raiseE (PyErr NotImplementedError)),
     sc_lsmdiskgrp = (\<lambda>_. raiseE (PyErr NotImplementedError)),
     sc_lsrcrelationship = (\<lambda>_. raiseE (PyErr NotImplementedError)),
     sc_lsrcrelationship_single = (\<lambda>_. raiseE (PyErr NotImplementedError)),
     sc_lsvolumesnapshot = (\<lambda>_. raiseE (PyErr NotImplementedError)),
     sc_lshost_ids = raiseE (PyErr NotImplementedError),
     sc_send_raw_command = (\<lambda>_. raiseE (PyErr NotImplementedError)),
     sc_lshost_single = (\<lambda>_. raiseE (PyErr NotImplementedError)),
     sc_lshostiogrp = (\<lambda>_. raiseE (PyErr NotImplementedError)),
     sc_lsfabric = (\<lambda>_. raiseE (PyErr NotImplementedError)),
     sc_lsnvmefabric = (\<lambda>_. raiseE (PyErr NotImplementedError)),
     sc_lshostiplogin = (\<lambda>_. raiseE (PyErr NotImplementedError)),
     sc_lsvdiskhostmap = (\<lambda>_. raiseE (PyErr NotImplementedError)),
     sc_lshostvdiskmap = (\<lambda>_. raiseE (PyErr NotImplementedError)),
     sc_lsnode = raiseE (PyErr NotImplementedError),
     sc_lsip = (\<lambda>_. raiseE (PyErr NotImplementedError)),
     sc_lsportip = (\<lambda>_. raiseE (PyErr NotImplementedError)),
     sc_lstargetportfc = raiseE (PyErr NotImplementedError),
     sc_task = (\<lambda>_ _. raiseE (PyErr NotImplementedError)),
     sc_has_command = (\<lambda>_. False),
     sc_random = (\<lambda>_ _. raiseE (PyErr NotImplementedError)),
     sc_now = raiseE (PyErr NotImplementedError)\<rparr>"

definition bare_svc :: "'s svc_client \<Rightarrow> 's svc" where
  "bare_svc c = \<lparr>sv_client = c, sv_endpoint = ''svc'', sv_call_home_enabled = False, sv_odf_version = [],
     sv_identity_version = [], sv_metadata = [], sv_port_set_env = None, sv_retry = (\<lambda>m. m)\<rparr>"

definition bare_world :: "'s \<Rightarrow> 's svc_world" where
  "bare_world s = \<lparr>sw_array = s, sw_cluster = None, sw_registrations = []\<rparr>"

lemmas bare_defs = bare_client_def bare_svc_def bare_world_def

definition cli :: "('s, 'a) prog \<Rightarrow> ('s svc_world, 'a) prog" where
  "cli m = (\<lambda>w. case m (sw_array w) of (r, s) \<Rightarrow> (r, w\<lparr>sw_array := s\<rparr>))"

definition svctask :: "'s svc \<Rightarrow> str \<Rightarrow> kwargs \<Rightarrow> ('s svc_world, str) prog" where
  "svctask sv command kw = cli (sc_task (sv_client sv) command kw)"

lemma cli_run:
  "m (sw_array w) = (r, s) \<Longrightarrow> cli m w = (r, w\<lparr>sw_array := s\<rparr>)"
  by (simp add: cli_def)

subsection \<open>Errors of the client\<close>

text \<open>\<open>except (svc_errors.CommandExecutionError, CLIFailureError) as ex\<close>, with \<open>ex.my_message\<close>.\<close>

definition cli_message :: "exn \<Rightarrow> str option" where
  "cli_message e =
     (case e of
        Foreign cls m \<Rightarrow> if cls = ''CommandExecutionError'' \<or> cls = ''CLIFailureError'' then Some m else None
      | _ \<Rightarrow> None)"

definition on_cli_error :: "('w, 'a) prog \<Rightarrow> (str \<Rightarrow> exn \<Rightarrow> ('w, 'a) prog) \<Rightarrow> ('w, 'a) prog" where
  "on_cli_error m h =
     catchE m (\<lambda>e. case cli_message e of None \<Rightarrow> raiseE e | Some msg \<Rightarrow> h msg e)"

fun py_words_acc :: "str \<Rightarrow> str \<Rightarrow> str list" where
  "py_words_acc w [] = (if w = [] then [] else [w])"
| "py_words_acc w (c # cs) =
     (if is_space c then (if w = [] then [] else [w]) @ py_words_acc [] cs else py_words_acc (w @ [c]) cs)"

text \<open>\<open>s.split()\<close>: the words of a text.\<close>

definition py_words :: "str \<Rightarrow> str list" where "py_words s = py_words_acc [] s"

text \<open>
  A message is a warning when the first word after its first double quote ends in \<open>W\<close>; a text
  without a double quote, or without a word after it, raises an \<open>IndexError\<close>.
\<close>

definition is_warning_message :: "str \<Rightarrow> exn + bool" where
  "is_warning_message m =
     (case py_split (CHR 0x22) m of
        _ # q # _ \<Rightarrow>
          (case py_words q of [] \<Rightarrow> Inl (PyErr IndexError) | tag # _ \<Rightarrow> Inr (last tag = CHR ''W''))
      | _ \<Rightarrow> Inl (PyErr IndexError))"

text \<open>The handler of most commands: a warning is only logged.\<close>

definition unless_warning :: "('w, 'a) prog \<Rightarrow> ('w, 'a) prog \<Rightarrow> (str \<Rightarrow> exn \<Rightarrow> ('w, 'a) prog) \<Rightarrow> ('w, 'a) prog" where
  "unless_warning m on_warning h =
     on_cli_error m (\<lambda>msg e. bindE (liftR (is_warning_message msg)) (\<lambda>warning.
       if warning then on_warning else h msg e))"

text \<open>A task without a result: \<open>h\<close> is what follows an error that is not a warning.\<close>

definition run_task :: "'s svc \<Rightarrow> str \<Rightarrow> kwargs \<Rightarrow> (str \<Rightarrow> exn \<Rightarrow> ('s svc_world, unit) prog) \<Rightarrow> ('s svc_world, unit) prog" where
  "run_task sv command kw h =
     unless_warning (bindE (svctask sv command kw) (\<lambda>_. ret ())) (ret ()) h"

definition mentions :: "str \<Rightarrow> str list \<Rightarrow> bool" where
  "mentions msg codes = list_ex (py_contains msg) codes"

definition OBJ_NOT_FOUND :: str where "OBJ_NOT_FOUND = ''CMMVC5753E''"
definition SNAPSHOT_NOT_EXIST :: str where "SNAPSHOT_NOT_EXIST = ''CMMVC9755E''"
definition NAME_NOT_EXIST_OR_MEET_RULES :: str where "NAME_NOT_EXIST_OR_MEET_RULES = ''CMMVC5754E''"
definition NON_ASCII_CHARS :: str where "NON_ASCII_CHARS = ''CMMVC6017E''"
definition INVALID_NAME :: str where "INVALID_NAME = ''CMMVC6527E''"
definition TOO_MANY_CHARS :: str where "TOO_MANY_CHARS = ''CMMVC5738E''"
definition VALUE_TOO_LONG :: str where "VALUE_TOO_LONG = ''CMMVC5703E''"
definition OBJECT_NOT_OF_TYPE_OF_HOST :: str where "OBJECT_NOT_OF_TYPE_OF_HOST = ''CMMVC9699E''"
definition ENTITY_DOES_NOT_EXIST :: str where "ENTITY_DOES_NOT_EXIST = ''CMMVC5868E''"
definition INVALID_FILTER_VALUE :: str where "INVALID_FILTER_VALUE = ''CMMVC5741E''"
definition SPECIFIED_OBJ_NOT_EXIST :: str where "SPECIFIED_OBJ_NOT_EXIST = ''CMMVC5804E''"
definition LUN_ALREADY_IN_USE :: str where "LUN_ALREADY_IN_USE = ''CMMVC5879E''"
definition VOL_ALREADY_UNMAPPED :: str where "VOL_ALREADY_UNMAPPED = ''CMMVC5842E''"
definition OBJ_ALREADY_EXIST :: str where "OBJ_ALREADY_EXIST = ''CMMVC6035E''"
definition FC_PORT_IS_NOT_VALID :: str where "FC_PORT_IS_NOT_VALID = ''CMMVC5867E''"
definition ISCSI_PORT_IS_NOT_VALID :: str where "ISCSI_PORT_IS_NOT_VALID = ''CMMVC6578E''"
definition NVME_PORT_IS_ALREADY_ASSIGNED :: str where "NVME_PORT_IS_ALREADY_ASSIGNED = ''CMMVC9328E''"
definition FCMAP_ALREADY_EXIST :: str where "FCMAP_ALREADY_EXIST = ''CMMVC6466E''"
definition FCMAP_ALREADY_COPYING :: str where "FCMAP_ALREADY_COPYING = ''CMMVC5907E''"
definition FCMAP_ALREADY_IN_THE_STOPPED_STATE :: str where "FCMAP_ALREADY_IN_THE_STOPPED_STATE = ''CMMVC5912E''"
definition VOL_NOT_FOUND :: str where "VOL_NOT_FOUND = ''CMMVC8957E''"
definition POOL_NOT_MATCH_VOL_SPACE_EFFICIENCY :: str where "POOL_NOT_MATCH_VOL_SPACE_EFFICIENCY = ''CMMVC9292E''"
definition NOT_CHILD_POOL :: str where "NOT_CHILD_POOL = ''CMMVC9760E''"
definition NOT_REDUCTION_POOL :: str where "NOT_REDUCTION_POOL = ''CMMVC9301E''"
definition NOT_ENOUGH_EXTENTS_IN_POOL_EXPAND :: str where "NOT_ENOUGH_EXTENTS_IN_POOL_EXPAND = ''CMMVC5860E''"
definition NOT_ENOUGH_EXTENTS_IN_POOL_CREATE :: str where "NOT_ENOUGH_EXTENTS_IN_POOL_CREATE = ''CMMVC8710E''"
definition NOT_VALID_IO_GROUP :: str where "NOT_VALID_IO_GROUP = ''CMMVC5729E''"
definition NOT_SUPPORTED_PARAMETER :: str where "NOT_SUPPORTED_PARAMETER = ''CMMVC5709E''"
definition CANNOT_CHANGE_HOST_PROTOCOL_BECAUSE_OF_MAPPED_PORTS :: str where
  "CANNOT_CHANGE_HOST_PROTOCOL_BECAUSE_OF_MAPPED_PORTS = ''CMMVC9331E''"
definition COMMAND_NOT_SUPPORTED :: str where "COMMAND_NOT_SUPPORTED = ''CMMVC7205E''"
definition LUN_ID_IS_NOT_VALID :: str where "LUN_ID_IS_NOT_VALID = ''CMMVC5844E''"

definition YES :: str where "YES = ''yes''"

subsection \<open>Space efficiency\<close>

definition SPACE_EFFICIENCY_THIN :: str where "SPACE_EFFICIENCY_THIN = ''thin''"
definition SPACE_EFFICIENCY_COMPRESSED :: str where "SPACE_EFFICIENCY_COMPRESSED = ''compressed''"
definition SPACE_EFFICIENCY_DEDUPLICATED :: str where "SPACE_EFFICIENCY_DEDUPLICATED = ''deduplicated''"
definition SPACE_EFFICIENCY_DEDUPLICATED_THIN :: str where "SPACE_EFFICIENCY_DEDUPLICATED_THIN = ''dedup_thin''"
definition SPACE_EFFICIENCY_DEDUPLICATED_COMPRESSED :: str where
  "SPACE_EFFICIENCY_DEDUPLICATED_COMPRESSED = ''dedup_compressed''"
definition SPACE_EFFICIENCY_THICK :: str where "SPACE_EFFICIENCY_THICK = ''thick''"
definition SPACE_EFFICIENCY_NONE :: str where "SPACE_EFFICIENCY_NONE = ''none''"

lemmas space_efficiency_defs = SPACE_EFFICIENCY_THIN_def SPACE_EFFICIENCY_COMPRESSED_def
  SPACE_EFFICIENCY_DEDUPLICATED_def SPACE_EFFICIENCY_DEDUPLICATED_THIN_def
  SPACE_EFFICIENCY_DEDUPLICATED_COMPRESSED_def SPACE_EFFICIENCY_THICK_def SPACE_EFFICIENCY_NONE_def

definition get_space_efficiency_kwargs :: "str option \<Rightarrow> kwargs" where
  "get_space_efficiency_kwargs space_efficiency =
     (if truthy space_efficiency
      then (let se = py_lower (the space_efficiency) in
            if se = SPACE_EFFICIENCY_THIN then [(''thin'', CBool True)]
            else if se = SPACE_EFFICIENCY_COMPRESSED then [(''compressed'', CBool True)]
            else if se = SPACE_EFFICIENCY_DEDUPLICATED_THIN
            then [(''deduplicated'', CBool True), (''thin'', CBool True)]
            else if se \<in> {SPACE_EFFICIENCY_DEDUPLICATED, SPACE_EFFICIENCY_DEDUPLICATED_COMPRESSED}
            then [(''deduplicated'', CBool True), (''compressed'', CBool True)]
            else [])
      else [])"

definition svc_validate_supported_space_efficiency :: "str option \<Rightarrow> exn + unit" where
  "svc_validate_supported_space_efficiency space_efficiency =
     raise_if (truthy space_efficiency \<and>
         py_lower (the space_efficiency) \<notin> {SPACE_EFFICIENCY_THIN, SPACE_EFFICIENCY_THICK,
           SPACE_EFFICIENCY_COMPRESSED, SPACE_EFFICIENCY_DEDUPLICATED, SPACE_EFFICIENCY_DEDUPLICATED_THIN,
           SPACE_EFFICIENCY_DEDUPLICATED_COMPRESSED})
       (ArrayErr (SpaceEfficiencyNotSupported (the space_efficiency)))"

text \<open>The set of the aliases as the list of its elements; later assignments replace earlier ones.\<close>

definition get_cli_volume_space_efficiency_aliases :: "cli_volume \<Rightarrow> str list" where
  "get_cli_volume_space_efficiency_aliases v =
     (let aliases = [SPACE_EFFICIENCY_THICK, []];
          aliases = (if cl_se_copy v = YES then [SPACE_EFFICIENCY_THIN] else aliases);
          aliases = (if cl_compressed_copy v = YES then [SPACE_EFFICIENCY_COMPRESSED] else aliases)
      in if cl_deduplicated_copy v = Some YES
         then (if cl_se_copy v = YES then [SPACE_EFFICIENCY_DEDUPLICATED_THIN]
               else [SPACE_EFFICIENCY_DEDUPLICATED_COMPRESSED, SPACE_EFFICIENCY_DEDUPLICATED])
         else aliases)"

subsection \<open>Arguments by command\<close>

definition build_create_volume_in_volume_group_kwargs :: "str \<Rightarrow> str option \<Rightarrow> str option \<Rightarrow> kwargs" where
  "build_create_volume_in_volume_group_kwargs pool io_group source_id =
     [(''type'', CStr ''clone''), (''fromsnapshotid'', arg_opt source_id), (''pool'', CStr pool)] @
     (if truthy io_group then [(''iogroup'', arg_opt io_group)] else [])"

definition add_port_to_command_kwargs :: "str option \<Rightarrow> str \<Rightarrow> kwargs \<Rightarrow> exn + kwargs" where
  "add_port_to_command_kwargs connectivity_type port kw =
     (if connectivity_type = Some NVME_OVER_FC then Inr (kw @ [(''nqn'', CStr port)])
      else if connectivity_type = Some FC then Inr (kw @ [(''fcwwpn'', CStr port)])
      else if connectivity_type = Some ISCSI then Inr (kw @ [(''iscsiname'', CStr port)])
      else Inl (ArrayErr (UnsupportedConnectivityTypeError
             (case connectivity_type of None \<Rightarrow> ''None'' | Some t \<Rightarrow> t))))"

definition build_create_host_kwargs ::
  "str option \<Rightarrow> str \<Rightarrow> str option \<Rightarrow> str \<Rightarrow> str \<Rightarrow> str option \<Rightarrow> str option \<Rightarrow> exn + kwargs" where
  "build_create_host_kwargs port_set_env hname connectivity_type port io_group partition_name port_set =
     bindR (add_port_to_command_kwargs connectivity_type port [(''name'', CStr hname)]) (\<lambda>kw.
     let portset = (if truthy port_set then port_set else port_set_env) in
     Inr (kw @
       (if connectivity_type = Some NVME_OVER_FC then [(''protocol'', CStr ''fcnvme'')] else []) @
       (if io_group \<noteq> [] then [(''iogrp'', CStr io_group)]
        else if \<not> truthy partition_name then [(''iogrp'', CStr FULL_IO_GROUP)] else []) @
       (if truthy portset then [(''portset'', arg_opt portset)] else []) @
       (if truthy partition_name then [(''partition'', arg_opt partition_name)] else [])))"

definition build_host_port_command_kwargs :: "str \<Rightarrow> str option \<Rightarrow> str \<Rightarrow> exn + kwargs" where
  "build_host_port_command_kwargs hname connectivity_type port =
     add_port_to_command_kwargs connectivity_type port [(''host_name'', CStr hname)]"

definition build_kwargs_from_parameters ::
  "str option \<Rightarrow> str \<Rightarrow> str option \<Rightarrow> str option \<Rightarrow> str \<Rightarrow> int \<Rightarrow> kwargs" where
  "build_kwargs_from_parameters space_efficiency pool_name io_group volume_group volume_name volume_size =
     [(''name'', CStr volume_name), (''unit'', CStr ''b''), (''size'', CInt volume_size), (''pool'', CStr pool_name)] @
     get_space_efficiency_kwargs space_efficiency @
     (if truthy io_group then [(''iogrp'', arg_opt io_group)] else []) @
     (if truthy volume_group then [(''volumegroup'', arg_opt volume_group)] else [])"

definition build_create_replication_kwargs :: "str option \<Rightarrow> str option \<Rightarrow> str option \<Rightarrow> str \<Rightarrow> kwargs" where
  "build_create_replication_kwargs master aux other_system_id copy_type =
     [(''master'', arg_opt master), (''aux'', arg_opt aux), (''cluster'', arg_opt other_system_id)] @
     (if copy_type = REPLICATION_COPY_TYPE_ASYNC then [(''global'', CBool True)] else [])"

definition build_start_replication_kwargs :: "carg \<Rightarrow> str option \<Rightarrow> bool \<Rightarrow> kwargs" where
  "build_start_replication_kwargs rcrelationship_id primary_endpoint_type force =
     [(''object_id'', rcrelationship_id)] @
     (if truthy primary_endpoint_type then [(''primary'', arg_opt primary_endpoint_type)] else []) @
     (if force then [(''force'', CBool True)] else [])"

definition build_stop_replication_kwargs :: "str \<Rightarrow> bool \<Rightarrow> kwargs" where
  "build_stop_replication_kwargs rcrelationship_id add_access =
     [(''object_id'', CStr rcrelationship_id)] @ (if add_access then [(''access'', CBool True)] else [])"

definition build_change_host_protocol_kwargs :: "str \<Rightarrow> str \<Rightarrow> kwargs" where
  "build_change_host_protocol_kwargs hname protocol = [(''object_id'', CStr hname), (''protocol'', CStr protocol)]"

definition build_register_plugin_kwargs :: "str \<Rightarrow> str \<Rightarrow> str \<Rightarrow> kwargs" where
  "build_register_plugin_kwargs unique_key metadata version =
     [(''uniquekey'', CStr unique_key), (''version'', CStr version)] @
     (if metadata \<noteq> [] then [(''metadata'', CStr metadata)] else [])"

subsection \<open>Registration of the plugin\<close>

definition MINIMUM_SECONDS_BETWEEN_REGISTRATIONS :: int where
  "MINIMUM_SECONDS_BETWEEN_REGISTRATIONS = 2 * 3600"

definition last_registration :: "'s svc_world \<Rightarrow> str \<Rightarrow> str \<Rightarrow> int option" where
  "last_registration w endpoint unique_key =
     (case map_of (sw_registrations w) endpoint of None \<Rightarrow> None | Some cache \<Rightarrow> map_of cache unique_key)"

definition is_plugin_needs_to_be_registered :: "'s svc \<Rightarrow> str \<Rightarrow> ('s svc_world, bool) prog" where
  "is_plugin_needs_to_be_registered sv unique_key =
     bindE (cli (sc_now (sv_client sv))) (\<lambda>now.
     bindE (getS (\<lambda>w. last_registration w (sv_endpoint sv) unique_key)) (\<lambda>last.
     ret (case last of None \<Rightarrow> True
          | Some t \<Rightarrow> MINIMUM_SECONDS_BETWEEN_REGISTRATIONS \<le> now - t)))"

definition record_registration :: "str \<Rightarrow> str \<Rightarrow> int \<Rightarrow> 's svc_world \<Rightarrow> 's svc_world" where
  "record_registration endpoint unique_key now w =
     (let cache = (case map_of (sw_registrations w) endpoint of None \<Rightarrow> [] | Some c \<Rightarrow> c)
      in w\<lparr>sw_registrations := AList.update endpoint (AList.update unique_key now cache) (sw_registrations w)\<rparr>)"

interpretation registrations: endpoint_cache last_registration record_registration
  by unfold_locales
     (auto simp: last_registration_def record_registration_def Let_def update_conv' split: option.splits)

definition update_registration_cache :: "'s svc \<Rightarrow> str \<Rightarrow> ('s svc_world, unit) prog" where
  "update_registration_cache sv unique_key =
     bindE (cli (sc_now (sv_client sv))) (\<lambda>now.
     modifyS (record_registration (sv_endpoint sv) unique_key now))"

text \<open>Whatever the registration raises is logged only.\<close>

definition registerplugin :: "'s svc \<Rightarrow> str \<Rightarrow> str \<Rightarrow> str \<Rightarrow> str \<Rightarrow> ('s svc_world, unit) prog" where
  "registerplugin sv plugin_name unique_key metadata version =
     catchE (bindE (svctask sv ''registerplugin''
               ((''name'', CStr plugin_name) # build_register_plugin_kwargs unique_key metadata version)) (\<lambda>_. ret ()))
       (\<lambda>e. ret ())"

definition svc_register_plugin :: "'s svc \<Rightarrow> str \<Rightarrow> str \<Rightarrow> ('s svc_world, unit) prog" where
  "svc_register_plugin sv unique_key metadata =
     (if sv_call_home_enabled sv \<and> sc_has_command (sv_client sv) ''registerplugin''
      then bindE (is_plugin_needs_to_be_registered sv unique_key) (\<lambda>needed.
           if needed
           then thenE (update_registration_cache sv unique_key)
               (thenE (registerplugin sv ''block.csi.ibm.com'' unique_key metadata (sv_identity_version sv))
                 (if sv_odf_version sv \<noteq> [] then registerplugin sv ''odf.ibm.com'' ''basic'' [] (sv_odf_version sv)
                  else ret ()))
           else ret ())
      else ret ())"

definition REGISTRATION_MAP :: sdict where
  "REGISTRATION_MAP =
     [(''create_volume'', ''basic''), (''delete_volume'', ''basic''), (''map_volume'', ''basic''),
      (''unmap_volume'', ''basic''), (''create_replication'', ''replication''),
      (''delete_replication'', ''replication''), (''promote_replication_volume'', ''replication''),
      (''demote_replication_volume'', ''replication''), (''create_volume_group'', ''volume_group''),
      (''delete_volume_group'', ''volume_group''), (''add_volume_to_volume_group'', ''volume_group''),
      (''remove_volume_from_volume_group'', ''volume_group''), (''create_snapshot'', ''snapshot''),
      (''delete_snapshot'', ''snapshot''), (''create_host'', ''host_definition''),
      (''delete_host'', ''host_definition''), (''add_ports_to_host'', ''host_definition''),
      (''remove_ports_from_host'', ''host_definition'')]"

text \<open>The decorator \<open>register_csi_plugin\<close> around the method \<open>name\<close>.\<close>

definition registered :: "'s svc \<Rightarrow> str \<Rightarrow> ('s svc_world, 'a) prog \<Rightarrow> ('s svc_world, 'a) prog" where
  "registered sv name m =
     (case map_of REGISTRATION_MAP name of
        None \<Rightarrow> m
      | Some unique_key \<Rightarrow> thenE (svc_register_plugin sv unique_key (sv_metadata sv)) m)"

subsection \<open>Properties\<close>

lemma last_registration_array [simp]: "last_registration (w\<lparr>sw_array := s\<rparr>) e k = last_registration w e k"
  by (simp add: last_registration_def)

lemma registerplugin_keeps [keeps_intros]:
  "keeps (\<lambda>w. sw_registrations w = rs) (registerplugin sv plugin_name unique_key metadata version)"
  unfolding registerplugin_def svctask_def
  by (intro keeps_intros) (auto simp: keeps_def cli_def split: prod.splits)

lemma updated_registration:
  assumes "update_registration_cache sv unique_key w = (Inr (), w1)"
  shows "\<exists>t s. sc_now (sv_client sv) (sw_array w) = (Inr t, s) \<and>
    w1 = record_registration (sv_endpoint sv) unique_key t (w\<lparr>sw_array := s\<rparr>)"
  using assms
  by (auto simp: update_registration_cache_def prog_simps cli_def elim!: bindE_InrE split: prod.splits)

lemma registration_needed:
  assumes "is_plugin_needs_to_be_registered sv unique_key w = (Inr needed, wa)"
  shows "\<exists>now s. sc_now (sv_client sv) (sw_array w) = (Inr now, s) \<and> wa = w\<lparr>sw_array := s\<rparr> \<and>
    needed = (case last_registration w (sv_endpoint sv) unique_key of None \<Rightarrow> True | Some t \<Rightarrow> 7200 \<le> now - t)"
  using assms
  by (auto simp: is_plugin_needs_to_be_registered_def prog_simps cli_def MINIMUM_SECONDS_BETWEEN_REGISTRATIONS_def
      elim!: bindE_InrE split: prod.splits option.splits)

text \<open>
  C24. Registrations are throttled.  A call to \<open>register_plugin\<close> for a key that returned read the clock first.  When a
  registration for the key was recorded less than two hours (7200 seconds) before, the call did nothing else.  Otherwise the
  time recorded for the key is what the clock showed then, and after it was recorded the plugin was registered.  In both
  cases a time is recorded for the key, and until two hours after it a further call for the key issues no command, it only
  reads the clock.
\<close>

theorem registration_throttled:
  assumes on: "sv_call_home_enabled sv" "sc_has_command (sv_client sv) ''registerplugin''"
    and first: "svc_register_plugin sv unique_key metadata w = (Inr (), w1)"
  shows "\<exists>now0 s0 t. sc_now (sv_client sv) (sw_array w) = (Inr now0, s0) \<and>
     last_registration w1 (sv_endpoint sv) unique_key = Some t \<and>
     (if \<exists>t0. last_registration w (sv_endpoint sv) unique_key = Some t0 \<and> now0 < t0 + 7200
      then last_registration w (sv_endpoint sv) unique_key = Some t \<and> w1 = w\<lparr>sw_array := s0\<rparr>
      else \<exists>s2. sc_now (sv_client sv) s0 = (Inr t, s2) \<and>
        thenE (registerplugin sv ''block.csi.ibm.com'' unique_key metadata (sv_identity_version sv))
          (if sv_odf_version sv \<noteq> [] then registerplugin sv ''odf.ibm.com'' ''basic'' [] (sv_odf_version sv) else ret ())
          (record_registration (sv_endpoint sv) unique_key t (w\<lparr>sw_array := s2\<rparr>)) = (Inr (), w1)) \<and>
     (\<forall>now s metadata'. sc_now (sv_client sv) (sw_array w1) = (Inr now, s) \<longrightarrow> now < t + 7200 \<longrightarrow>
        svc_register_plugin sv unique_key metadata' w1 = (Inr (), w1\<lparr>sw_array := s\<rparr>))"
proof -
  let ?last = "\<lambda>w. last_registration w (sv_endpoint sv) unique_key"
  let ?reg = "thenE (registerplugin sv ''block.csi.ibm.com'' unique_key metadata (sv_identity_version sv))
    (if sv_odf_version sv \<noteq> [] then registerplugin sv ''odf.ibm.com'' ''basic'' [] (sv_odf_version sv) else ret ())"
  from first on obtain needed wa where "is_plugin_needs_to_be_registered sv unique_key w = (Inr needed, wa)"
    and rest: "(if needed then thenE (update_registration_cache sv unique_key) ?reg else ret ()) wa = (Inr (), w1)"
    unfolding svc_register_plugin_def by (auto elim!: bindE_InrE)
  from registration_needed [OF this(1)] obtain now0 s0 where now: "sc_now (sv_client sv) (sw_array w) = (Inr now0, s0)"
    and wa: "wa = w\<lparr>sw_array := s0\<rparr>" and needed: "needed = (case ?last w of None \<Rightarrow> True | Some t \<Rightarrow> 7200 \<le> now0 - t)"
    by blast
  have later: "svc_register_plugin sv unique_key metadata' w1 = (Inr (), w1\<lparr>sw_array := s\<rparr>)"
    if "?last w1 = Some t" "sc_now (sv_client sv) (sw_array w1) = (Inr u, s)" "u < t + 7200" for t u s metadata'
    using that on
    by (simp add: svc_register_plugin_def is_plugin_needs_to_be_registered_def bindE_def cli_def prog_simps
        MINIMUM_SECONDS_BETWEEN_REGISTRATIONS_def)
  show ?thesis
  proof (cases needed)
    case False
    with rest wa have w1: "w1 = w\<lparr>sw_array := s0\<rparr>" by (simp add: prog_simps)
    from False needed obtain t where t: "?last w = Some t" "now0 < t + 7200" by (auto split: option.splits)
    then have "?last w1 = Some t" by (simp add: w1)
    with now t w1 later [OF this] show ?thesis by auto
  next
    case True
    with rest obtain wb where upd: "update_registration_cache sv unique_key wa = (Inr (), wb)" and reg: "?reg wb = (Inr (), w1)"
      by (auto elim: thenE_InrE)
    from updated_registration [OF upd] obtain t s2 where t: "sc_now (sv_client sv) s0 = (Inr t, s2)"
      and wb: "wb = record_registration (sv_endpoint sv) unique_key t (w\<lparr>sw_array := s2\<rparr>)"
      unfolding wa by auto
    have "keeps (\<lambda>w. sw_registrations w = sw_registrations wb) ?reg" by (intro keeps_intros)
    then have "sw_registrations w1 = sw_registrations wb"
      by (rule keeps_run [where P = "\<lambda>w. sw_registrations w = sw_registrations wb" and m = "?reg" and s = wb, OF _ _ reg]) simp
    moreover have "?last wb = Some t" by (simp add: wb registrations.lookup_put_same)
    ultimately have last: "?last w1 = Some t" by (simp add: last_registration_def)
    have "\<not> (\<exists>t0. ?last w = Some t0 \<and> now0 < t0 + 7200)" using True needed by auto
    with now last t reg later [OF last] show ?thesis unfolding wb by auto
  qed
qed

theorem registration_throttled_witness:
  "let sv = (bare_svc (bare_client\<lparr>sc_now := (\<lambda>s. (Inr s, s + 60)), sc_task := (\<lambda>_ _. ret []),
       sc_has_command := (\<lambda>_. True)\<rparr>))\<lparr>sv_call_home_enabled := True\<rparr>;
     w1 = snd (svc_register_plugin sv ''basic'' ''m'' (bare_world (0::int)))
   in last_registration w1 (sv_endpoint sv) ''basic'' = Some 60 \<and>
      svc_register_plugin sv ''basic'' ''m'' w1 = (Inr (), w1\<lparr>sw_array := 180\<rparr>)"
proof -
  let ?sv = "(bare_svc (bare_client\<lparr>sc_now := (\<lambda>s. (Inr s, s + 60)), sc_task := (\<lambda>_ _. ret []),
       sc_has_command := (\<lambda>_. True)\<rparr>))\<lparr>sv_call_home_enabled := True\<rparr>"
  let ?w1 = "(bare_world (120::int))\<lparr>sw_registrations := [(''svc'', [(''basic'', 60)])]\<rparr>"
  have run: "svc_register_plugin ?sv ''basic'' ''m'' (bare_world (0::int)) = (Inr (), ?w1)"
    by (simp add: svc_register_plugin_def is_plugin_needs_to_be_registered_def update_registration_cache_def
        record_registration_def registerplugin_def svctask_def last_registration_def bare_defs prog_simps prog_defs cli_def)
  have on: "sv_call_home_enabled ?sv" "sc_has_command (sv_client ?sv) ''registerplugin''"
    by (simp_all add: bare_defs)
  obtain t where last: "last_registration ?w1 (sv_endpoint ?sv) ''basic'' = Some t"
    and later: "\<forall>now s metadata'. sc_now (sv_client ?sv) (sw_array ?w1) = (Inr now, s) \<longrightarrow> now < t + 7200 \<longrightarrow>
        svc_register_plugin ?sv ''basic'' metadata' ?w1 = (Inr (), ?w1\<lparr>sw_array := s\<rparr>)"
    using registration_throttled [OF on run] by (elim exE conjE) (rule that)
  then have "t = 60" by (simp add: last_registration_def bare_defs)
  with later [rule_format, of 120 180 "''m''"]
  have "svc_register_plugin ?sv ''basic'' ''m'' ?w1 = (Inr (), ?w1\<lparr>sw_array := 180\<rparr>)"
    by (simp add: bare_defs)
  with run last \<open>t = 60\<close> show ?thesis by (simp add: Let_def)
qed

end
