(* ===== verification/SvcVolumes.thy ===== *)
theory SvcVolumes
  imports SvcCli
begin

text \<open>
  Volumes and snapshots of the SVC mediator (\<open>array_action/array_mediator_svc.py\<close>): looking a volume
  up, creating, expanding, copying and deleting it, FlashCopy mappings, snapshots of both kinds
  (FlashCopy targets and \<open>addsnapshot\<close>), and volumes of partitions, which are cloned through a
  snapshot of their volume group.  Names are those of the source with the leading underscore
  dropped, or with the prefix \<open>svc_\<close> where a name of the interface would be hidden.
\<close>

subsection \<open>Looking up\<close>

definition lsvdisk_errors :: "('s svc_world, 'a) prog \<Rightarrow> ('s svc_world, 'a option) prog" where
  "lsvdisk_errors m =
     on_cli_error (bindE m (\<lambda>x. ret (Some x))) (\<lambda>msg e.
       if mentions msg [OBJ_NOT_FOUND, NAME_NOT_EXIST_OR_MEET_RULES] then ret None
       else if mentions msg [NON_ASCII_CHARS, VALUE_TOO_LONG, INVALID_FILTER_VALUE]
       then raiseE (ArrayErr (InvalidArgumentError msg)) else raiseE e)"

definition lsvdisk_single_element :: "'s svc \<Rightarrow> kwargs \<Rightarrow> ('s svc_world, cli_volume option) prog" where
  "lsvdisk_single_element sv kw =
     bindE (lsvdisk_errors (cli (sc_lsvdisk_single (sv_client sv) (kw @ [(''bytes'', CBool True)])))) (\<lambda>r.
     ret (case r of None \<Rightarrow> None | Some v \<Rightarrow> v))"

definition lsvdisk_list :: "'s svc \<Rightarrow> kwargs \<Rightarrow> ('s svc_world, cli_volume list option) prog" where
  "lsvdisk_list sv kw =
     lsvdisk_errors (cli (sc_lsvdisk_list (sv_client sv) (kw @ [(''bytes'', CBool True)])))"

definition get_cli_volume_if_exists :: "'s svc \<Rightarrow> str \<Rightarrow> ('s svc_world, cli_volume option) prog" where
  "get_cli_volume_if_exists sv volume_name = lsvdisk_single_element sv [(''object_id'', CStr volume_name)]"

definition get_cli_volume :: "'s svc \<Rightarrow> str \<Rightarrow> ('s svc_world, cli_volume) prog" where
  "get_cli_volume sv volume_name =
     bindE (get_cli_volume_if_exists sv volume_name) (\<lambda>v. case v of
       None \<Rightarrow> raiseE (ArrayErr (ObjectNotFoundError volume_name)) | Some c \<Rightarrow> ret c)"

definition lsvdisk_by_uid :: "'s svc \<Rightarrow> str \<Rightarrow> ('s svc_world, cli_volume option) prog" where
  "lsvdisk_by_uid sv vdisk_uid = lsvdisk_single_element sv [(''filtervalue'', CStr (''vdisk_UID='' @ vdisk_uid))]"

text \<open>By the SCSI uid, then by the nguid.\<close>

definition get_cli_volume_by_wwn_if_exists :: "'s svc \<Rightarrow> str \<Rightarrow> ('s svc_world, cli_volume option) prog" where
  "get_cli_volume_by_wwn_if_exists sv volume_id =
     bindE (lsvdisk_by_uid sv volume_id) (\<lambda>v. case v of
       Some c \<Rightarrow> ret (Some c) | None \<Rightarrow> lsvdisk_by_uid sv (convert_scsi_id_to_nguid volume_id))"

definition get_cli_volume_by_wwn :: "'s svc \<Rightarrow> str \<Rightarrow> ('s svc_world, cli_volume) prog" where
  "get_cli_volume_by_wwn sv volume_id =
     bindE (get_cli_volume_by_wwn_if_exists sv volume_id) (\<lambda>v. case v of
       None \<Rightarrow> raiseE (ArrayErr (ObjectNotFoundError volume_id)) | Some c \<Rightarrow> ret c)"

definition get_volume_name_by_wwn :: "'s svc \<Rightarrow> str \<Rightarrow> ('s svc_world, str) prog" where
  "get_volume_name_by_wwn sv volume_id =
     bindE (get_cli_volume_by_wwn_if_exists sv volume_id) (\<lambda>v.
     let name = (case v of None \<Rightarrow> [] | Some c \<Rightarrow> cl_name c) in
     if name = [] then raiseE (ArrayErr (ObjectNotFoundError volume_id)) else ret name)"

definition get_wwn_by_volume_name_if_exists :: "'s svc \<Rightarrow> str \<Rightarrow> ('s svc_world, str option) prog" where
  "get_wwn_by_volume_name_if_exists sv volume_name =
     bindE (get_cli_volume_if_exists sv volume_name) (\<lambda>v. ret (map_option cl_vdisk_UID v))"

definition volumegroup_errors ::
  "('s svc_world, 'a option) prog \<Rightarrow> ('s svc_world, 'a option) prog" where
  "volumegroup_errors m =
     on_cli_error m (\<lambda>msg e.
       if mentions msg [SPECIFIED_OBJ_NOT_EXIST, NAME_NOT_EXIST_OR_MEET_RULES] then ret None
       else if mentions msg [NON_ASCII_CHARS, VALUE_TOO_LONG] then raiseE (ArrayErr (InvalidArgumentError msg))
       else raiseE e)"

definition lsvolumegroup :: "'s svc \<Rightarrow> carg \<Rightarrow> ('s svc_world, cli_volume_group option) prog" where
  "lsvolumegroup sv id_or_name =
     volumegroup_errors (cli (sc_lsvolumegroup (sv_client sv) [(''object_id'', id_or_name)]))"

definition get_partition_name_of_cli_volume :: "'s svc \<Rightarrow> cli_volume \<Rightarrow> ('s svc_world, str option) prog" where
  "get_partition_name_of_cli_volume sv v =
     (if cl_volume_group_name v = [] then ret None
      else bindE (lsvolumegroup sv (CStr (cl_volume_group_name v))) (\<lambda>g. ret (case g of
             None \<Rightarrow> None | Some g \<Rightarrow> if truthy (cg_partition_name g) then cg_partition_name g else None)))"

definition get_volume_pools :: "cli_volume \<Rightarrow> exn + str list" where
  "get_volume_pools v =
     (case cl_mdisk_grp_name v of
        Inl pool \<Rightarrow> Inr [pool]
      | Inr pools \<Rightarrow> if ''many'' \<in> set pools then Inr (remove1 ''many'' pools) else Inl (PyErr ValueError))"

definition get_volume_pool :: "cli_volume \<Rightarrow> exn + str" where
  "get_volume_pool v = bindR (get_volume_pools v) (\<lambda>ps. Inr (py_join '':'' ps))"

definition mdisk_grp_text :: "cli_volume \<Rightarrow> str" where
  "mdisk_grp_text v = (case cl_mdisk_grp_name v of Inl p \<Rightarrow> p | Inr ps \<Rightarrow> list_repr ps)"

subsection \<open>FlashCopy mappings\<close>

definition ENDPOINT_TYPE_SOURCE :: str where "ENDPOINT_TYPE_SOURCE = ''source''"
definition ENDPOINT_TYPE_TARGET :: str where "ENDPOINT_TYPE_TARGET = ''target''"
definition FCMAP_STATUS_DONE :: str where "FCMAP_STATUS_DONE = ''idle_or_copied''"

definition get_fcmaps :: "'s svc \<Rightarrow> str \<Rightarrow> str \<Rightarrow> ('s svc_world, cli_fcmap list) prog" where
  "get_fcmaps sv volume_name endpoint_type =
     cli (sc_lsfcmap (sv_client sv) [(''filtervalue'', CStr (endpoint_type @ ''_vdisk_name='' @ volume_name))])"

definition get_fcmap_as_target_if_exists :: "'s svc \<Rightarrow> str \<Rightarrow> ('s svc_world, cli_fcmap option) prog" where
  "get_fcmap_as_target_if_exists sv volume_name =
     bindE (get_fcmaps sv volume_name ENDPOINT_TYPE_TARGET) (\<lambda>fcmaps.
     ret (case fcmaps of [f] \<Rightarrow> Some f | _ \<Rightarrow> None))"

definition get_fcmaps_as_source_if_exist :: "'s svc \<Rightarrow> str \<Rightarrow> ('s svc_world, cli_fcmap list) prog" where
  "get_fcmaps_as_source_if_exist sv volume_name = get_fcmaps sv volume_name ENDPOINT_TYPE_SOURCE"

definition get_object_fcmaps :: "'s svc \<Rightarrow> str \<Rightarrow> ('s svc_world, cli_fcmap list) prog" where
  "get_object_fcmaps sv object_name =
     bindE (get_fcmap_as_target_if_exists sv object_name) (\<lambda>as_target.
     bindE (get_fcmaps_as_source_if_exist sv object_name) (\<lambda>as_source.
     ret ((case as_target of None \<Rightarrow> [] | Some f \<Rightarrow> [f]) @ as_source)))"

definition is_in_remote_copy_relationship :: "cli_fcmap \<Rightarrow> bool" where
  "is_in_remote_copy_relationship f = (fc_rc_controlled f = YES)"

definition get_source_volume_wwn_if_exists :: "'s svc \<Rightarrow> str \<Rightarrow> ('s svc_world, str option) prog" where
  "get_source_volume_wwn_if_exists sv target_name =
     bindE (get_fcmap_as_target_if_exists sv target_name) (\<lambda>f. case f of
       None \<Rightarrow> ret None
     | Some f \<Rightarrow> if is_in_remote_copy_relationship f then ret None
                 else get_wwn_by_volume_name_if_exists sv (fc_source_vdisk_name f))"

definition create_fcmap :: "'s svc \<Rightarrow> str \<Rightarrow> str \<Rightarrow> bool \<Rightarrow> ('s svc_world, unit) prog" where
  "create_fcmap sv source target is_copy =
     run_task sv ''mkfcmap''
       ([(''source'', CStr source), (''target'', CStr target)] @ (if is_copy then [] else [(''copyrate'', CInt 0)]))
       (\<lambda>msg e. if mentions msg [FCMAP_ALREADY_EXIST] then ret () else raiseE e)"

definition start_fcmap :: "'s svc \<Rightarrow> str \<Rightarrow> ('s svc_world, unit) prog" where
  "start_fcmap sv fcmap_id =
     run_task sv ''startfcmap'' [(''prep'', CBool True), (''object_id'', CStr fcmap_id)]
       (\<lambda>msg e. if mentions msg [FCMAP_ALREADY_COPYING] then ret () else raiseE e)"

definition create_and_start_fcmap :: "'s svc \<Rightarrow> str \<Rightarrow> str \<Rightarrow> bool \<Rightarrow> ('s svc_world, cli_volume) prog" where
  "create_and_start_fcmap sv source target is_copy =
     thenE (create_fcmap sv source target is_copy)
    (bindE (get_cli_volume sv target) (\<lambda>v.
     thenE (start_fcmap sv (cl_FC_id v)) (ret v)))"

definition delete_fcmap :: "'s svc \<Rightarrow> str \<Rightarrow> bool \<Rightarrow> ('s svc_world, unit) prog" where
  "delete_fcmap sv fcmap_id force =
     run_task sv ''rmfcmap'' [(''object_id'', CStr fcmap_id), (''force'', CBool force)] (\<lambda>msg e. raiseE e)"

definition stop_fcmap :: "'s svc \<Rightarrow> str \<Rightarrow> ('s svc_world, unit) prog" where
  "stop_fcmap sv fcmap_id =
     run_task sv ''stopfcmap'' [(''object_id'', CStr fcmap_id)]
       (\<lambda>msg e. if mentions msg [FCMAP_ALREADY_IN_THE_STOPPED_STATE] then ret () else raiseE e)"

definition safe_stop_and_delete_fcmap :: "'s svc \<Rightarrow> cli_fcmap \<Rightarrow> ('s svc_world, unit) prog" where
  "safe_stop_and_delete_fcmap sv f =
     (if is_in_remote_copy_relationship f then ret ()
      else thenE (stop_fcmap sv (fc_id f)) (delete_fcmap sv (fc_id f) True))"

definition fcmap_in_use :: "cli_fcmap \<Rightarrow> bool" where
  "fcmap_in_use f = (fc_status f \<noteq> FCMAP_STATUS_DONE \<or> fc_copy_rate f = ''0'')"

definition safe_delete_fcmaps :: "'s svc \<Rightarrow> str \<Rightarrow> cli_fcmap list \<Rightarrow> ('s svc_world, unit) prog" where
  "safe_delete_fcmaps sv object_name fcmaps =
     (let own = filter (\<lambda>f. \<not> is_in_remote_copy_relationship f) fcmaps;
          fcmaps_in_use = filter fcmap_in_use own;
          fcmaps_to_delete = filter (\<lambda>f. \<not> fcmap_in_use f) own
      in if fcmaps_in_use \<noteq> []
         then raiseE (ArrayErr (ObjectIsStillInUseError object_name (map fc_id fcmaps_in_use)))
         else forE (\<lambda>f. delete_fcmap sv (fc_id f) False) fcmaps_to_delete)"

subsection \<open>Responses\<close>

definition svc_generate_volume_response :: "'s svc \<Rightarrow> cli_volume \<Rightarrow> bool \<Rightarrow> ('s svc_world, volume) prog" where
  "svc_generate_volume_response sv v is_virt_snap_func =
     bindE (liftR (get_volume_pool v)) (\<lambda>pool.
     bindE (get_partition_name_of_cli_volume sv v) (\<lambda>partition_name.
     bindE (if truthy partition_name then get_wwn_by_volume_name_if_exists sv (cl_source_volume_name v)
            else if is_virt_snap_func then ret None
            else get_source_volume_wwn_if_exists sv (cl_name v)) (\<lambda>source_id.
     ret \<lparr>vol_name = cl_name v, vol_id = cl_vdisk_UID v, vol_internal_id = cl_id v,
          vol_array_type = ARRAY_TYPE_SVC, vol_capacity_bytes = cl_capacity v,
          vol_array_address = [sv_endpoint sv], vol_source_id = source_id, vol_pool = pool,
          vol_space_efficiency_aliases = get_cli_volume_space_efficiency_aliases v,
          vol_volume_group_id = Some (cl_volume_group_id v), vol_volume_group_name = Some (cl_volume_group_name v),
          vol_partition_name = partition_name\<rparr>)))"

text \<open>The attribute \<open>pool\<close> of a snapshot is \<open>None\<close>, here the empty text.\<close>

definition svc_generate_snapshot_response ::
  "'s svc \<Rightarrow> int \<Rightarrow> str \<Rightarrow> str option \<Rightarrow> str \<Rightarrow> str \<Rightarrow> str option \<Rightarrow> snapshot" where
  "svc_generate_snapshot_response sv capacity name source_id internal_id vdisk_uid partition_name =
     \<lparr>vol_name = name, vol_id = vdisk_uid, vol_internal_id = internal_id, vol_array_type = ARRAY_TYPE_SVC,
      vol_capacity_bytes = capacity, vol_array_address = [sv_endpoint sv], vol_source_id = source_id,
      vol_pool = [], vol_space_efficiency_aliases = [], vol_volume_group_id = None,
      vol_volume_group_name = None, vol_partition_name = partition_name, snap_is_ready = True\<rparr>"

definition generate_snapshot_response_from_cli_volume ::
  "'s svc \<Rightarrow> cli_volume \<Rightarrow> str option \<Rightarrow> str option \<Rightarrow> snapshot" where
  "generate_snapshot_response_from_cli_volume sv v source_id partition_name =
     svc_generate_snapshot_response sv (cl_capacity v) (cl_name v) source_id (cl_id v) (cl_vdisk_UID v) partition_name"

definition generate_snapshot_response_from_cli_snapshot :: "'s svc \<Rightarrow> cli_snapshot \<Rightarrow> cli_volume \<Rightarrow> snapshot" where
  "generate_snapshot_response_from_cli_snapshot sv c source =
     svc_generate_snapshot_response sv (cl_capacity source) (cs_snapshot_name c) (Some (cl_vdisk_UID source))
       (cs_snapshot_id c) [] None"

text \<open>
  A volume is a snapshot when it is in a partition, or the target of one FlashCopy mapping with
  copy rate 0.
\<close>

definition generate_snapshot_response_with_verification :: "'s svc \<Rightarrow> cli_volume \<Rightarrow> ('s svc_world, snapshot) prog" where
  "generate_snapshot_response_with_verification sv v =
     bindE (get_partition_name_of_cli_volume sv v) (\<lambda>partition_name.
     if truthy partition_name
     then bindE (get_cli_volume sv (cl_name v)) (\<lambda>full.
          bindE (get_wwn_by_volume_name_if_exists sv (cl_source_volume_name full)) (\<lambda>source_id.
          ret (generate_snapshot_response_from_cli_volume sv full source_id partition_name)))
     else if cl_FC_id v = []
     then raiseE (ArrayErr (ExpectedSnapshotButFoundVolumeError (cl_name v) (sv_endpoint sv)))
     else bindE (get_fcmap_as_target_if_exists sv (cl_name v)) (\<lambda>f. case f of
            None \<Rightarrow> raiseE (ArrayErr (ExpectedSnapshotButFoundVolumeError (cl_name v) (sv_endpoint sv)))
          | Some f \<Rightarrow>
              if fc_copy_rate f \<noteq> ''0''
              then raiseE (ArrayErr (ExpectedSnapshotButFoundVolumeError (cl_name v) (sv_endpoint sv)))
              else bindE (get_wwn_by_volume_name_if_exists sv (fc_source_vdisk_name f)) (\<lambda>source_id.
                   ret (generate_snapshot_response_from_cli_volume sv v source_id None))))"

subsection \<open>Sizes\<close>

definition BLOCK_SIZE_IN_BYTES :: int where "BLOCK_SIZE_IN_BYTES = 512"

definition convert_size_bytes :: "int \<Rightarrow> int" where
  "convert_size_bytes size_in_bytes =
     (let r = size_in_bytes mod BLOCK_SIZE_IN_BYTES in if 0 < r then size_in_bytes - r + 512 else size_in_bytes)"

lemma convert_size_bytes_props:
  "n \<le> convert_size_bytes n" "convert_size_bytes n < n + 512" "512 dvd convert_size_bytes n"
proof -
  have r: "0 \<le> n mod 512" "n mod 512 < 512" by simp_all
  have d: "512 dvd n - n mod 512" by (simp add: minus_mod_eq_mult_div)
  show "n \<le> convert_size_bytes n" "convert_size_bytes n < n + 512"
    using r by (auto simp: convert_size_bytes_def BLOCK_SIZE_IN_BYTES_def Let_def)
  show "512 dvd convert_size_bytes n"
  proof (cases "0 < n mod 512")
    case True
    with d show ?thesis
      by (simp add: convert_size_bytes_def BLOCK_SIZE_IN_BYTES_def Let_def)
  next
    case False
    with r have "n mod 512 = 0" by linarith
    then show ?thesis by (auto simp: convert_size_bytes_def BLOCK_SIZE_IN_BYTES_def Let_def)
  qed
qed

subsection \<open>Creating\<close>

definition create_cli_volume ::
  "'s svc \<Rightarrow> str \<Rightarrow> int \<Rightarrow> str option \<Rightarrow> str \<Rightarrow> str option \<Rightarrow> str option \<Rightarrow> ('s svc_world, unit) prog" where
  "create_cli_volume sv name size_in_bytes space_efficiency pool io_group volume_group =
     run_task sv ''mkvolume''
       (build_kwargs_from_parameters space_efficiency pool io_group volume_group name (convert_size_bytes size_in_bytes))
       (\<lambda>msg e.
          if mentions msg [OBJ_ALREADY_EXIST] then raiseE (ArrayErr (VolumeAlreadyExists name (sv_endpoint sv)))
          else if mentions msg [NAME_NOT_EXIST_OR_MEET_RULES] then raiseE (ArrayErr (InvalidArgumentError msg))
          else if mentions msg [POOL_NOT_MATCH_VOL_SPACE_EFFICIENCY, NOT_REDUCTION_POOL]
          then raiseE (ArrayErr (PoolDoesNotMatchSpaceEfficiency pool (opt_str space_efficiency) msg))
          else if mentions msg [NOT_ENOUGH_EXTENTS_IN_POOL_CREATE] then raiseE (ArrayErr (NotEnoughSpaceInPool pool))
          else if mentions msg [NON_ASCII_CHARS, INVALID_NAME, TOO_MANY_CHARS]
          then raiseE (ArrayErr (InvalidArgumentError msg))
          else raiseE e)"

text \<open>The id in a response such as \<open>Virtual Disk, id [5], successfully created\<close>.\<close>

definition get_id_from_response :: "str \<Rightarrow> exn + int" where
  "get_id_from_response message =
     (let id_start = (if CHR ''['' \<in> set message then length (takeWhile (\<lambda>c. c \<noteq> CHR ''['') message) + 1 else 0);
          id_end = (if CHR '']'' \<in> set message then length (takeWhile (\<lambda>c. c \<noteq> CHR '']'') message)
                    else length message - 1)
      in case py_int (py_slice id_start id_end message) of None \<Rightarrow> Inl (PyErr ValueError) | Some n \<Rightarrow> Inr n)"

definition kwargs_pool :: "kwargs \<Rightarrow> str" where
  "kwargs_pool kw = (case map_of kw ''pool'' of Some (CStr p) \<Rightarrow> p | _ \<Rightarrow> ''None'')"

definition mkvolumegroup :: "'s svc \<Rightarrow> str \<Rightarrow> kwargs \<Rightarrow> ('s svc_world, int option) prog" where
  "mkvolumegroup sv name kw =
     unless_warning
       (bindE (svctask sv ''mkvolumegroup'' ((''name'', CStr name) # kw)) (\<lambda>response.
        bindE (liftR (get_id_from_response response)) (\<lambda>i. ret (Some i))))
       (ret None)
       (\<lambda>msg e.
          if mentions msg [OBJ_ALREADY_EXIST] then raiseE (ArrayErr (VolumeAlreadyExists name (sv_endpoint sv)))
          else if mentions msg [NOT_ENOUGH_EXTENTS_IN_POOL_CREATE]
          then raiseE (ArrayErr (NotEnoughSpaceInPool (kwargs_pool kw)))
          else if mentions msg [NAME_NOT_EXIST_OR_MEET_RULES, NON_ASCII_CHARS, INVALID_NAME, TOO_MANY_CHARS]
          then raiseE (ArrayErr (InvalidArgumentError msg)) else raiseE e)"

definition create_volume_in_volume_group ::
  "'s svc \<Rightarrow> str \<Rightarrow> str \<Rightarrow> str option \<Rightarrow> str option \<Rightarrow> ('s svc_world, unit) prog" where
  "create_volume_in_volume_group sv name pool io_group source_id =
     bindE (mkvolumegroup sv name (build_create_volume_in_volume_group_kwargs pool io_group source_id)) (\<lambda>_. ret ())"

definition chvdisk :: "'s svc \<Rightarrow> str option \<Rightarrow> str \<Rightarrow> kwargs \<Rightarrow> ('s svc_world, unit) prog" where
  "chvdisk sv partition_name cli_volume_id kw =
     run_task sv (if truthy partition_name then ''chvolume'' else ''chvdisk'')
       ((''vdisk_id'', CStr cli_volume_id) # kw)
       (\<lambda>msg e. if mentions msg [OBJ_ALREADY_EXIST]
                then raiseE (ArrayErr (VolumeAlreadyExists (kwargs_repr kw) (sv_endpoint sv))) else raiseE e)"

definition change_volume_group :: "'s svc \<Rightarrow> str option \<Rightarrow> str \<Rightarrow> str option \<Rightarrow> ('s svc_world, unit) prog" where
  "change_volume_group sv partition_name cli_volume_id volume_group =
     chvdisk sv partition_name cli_volume_id
       (if truthy volume_group then [(''volumegroup'', arg_opt volume_group)] else [(''novolumegroup'', CBool True)])"

definition rename_volume :: "'s svc \<Rightarrow> str \<Rightarrow> str \<Rightarrow> ('s svc_world, unit) prog" where
  "rename_volume sv cli_volume_id name = chvdisk sv None cli_volume_id [(''name'', CStr name)]"

definition rmvolumegroup :: "'s svc \<Rightarrow> str \<Rightarrow> ('s svc_world, unit) prog" where
  "rmvolumegroup sv id_or_name =
     run_task sv ''rmvolumegroup'' [(''object_id'', CStr id_or_name)]
       (\<lambda>msg e. if mentions msg [OBJ_NOT_FOUND, VOL_NOT_FOUND] then ret () else raiseE e)"

definition rmvolume :: "'s svc \<Rightarrow> str \<Rightarrow> bool \<Rightarrow> ('s svc_world, unit) prog" where
  "rmvolume sv volume_id_or_name not_exist_err =
     run_task sv ''rmvolume'' [(''vdisk_id'', CStr volume_id_or_name)]
       (\<lambda>msg e. if mentions msg [OBJ_NOT_FOUND, VOL_NOT_FOUND] \<and> not_exist_err
                then raiseE (ArrayErr (ObjectNotFoundError volume_id_or_name)) else raiseE e)"

definition get_cli_volume_id_from_volume_group :: "'s svc \<Rightarrow> str \<Rightarrow> str \<Rightarrow> ('s svc_world, str) prog" where
  "get_cli_volume_id_from_volume_group sv flt parameter =
     bindE (lsvdisk_single_element sv [(''filtervalue'', CStr (flt @ ''='' @ parameter))]) (\<lambda>v. case v of
       None \<Rightarrow> raiseE (PyErr AttributeError) | Some c \<Rightarrow> ret (cl_id c))"

definition fix_creation_side_effects :: "'s svc \<Rightarrow> str \<Rightarrow> str \<Rightarrow> str option \<Rightarrow> ('s svc_world, unit) prog" where
  "fix_creation_side_effects sv name cli_volume_id volume_group =
     thenE (change_volume_group sv None cli_volume_id volume_group)
    (thenE (rmvolumegroup sv name) (rename_volume sv cli_volume_id name))"

definition rollback_create_volume_from_snapshot :: "'s svc \<Rightarrow> str \<Rightarrow> str \<Rightarrow> ('s svc_world, unit) prog" where
  "rollback_create_volume_from_snapshot sv cli_volume_id volume_group_name =
     thenE (rmvolume sv cli_volume_id True) (rmvolumegroup sv volume_group_name)"

text \<open>The volume is created in a group of its own, which is then dissolved.\<close>

definition create_cli_volume_from_snapshot ::
  "'s svc \<Rightarrow> str \<Rightarrow> str \<Rightarrow> str option \<Rightarrow> str option \<Rightarrow> str option \<Rightarrow> ('s svc_world, unit) prog" where
  "create_cli_volume_from_snapshot sv name pool io_group volume_group source_id =
     thenE (create_volume_in_volume_group sv name pool io_group source_id)
    (bindE (get_cli_volume_id_from_volume_group sv ''volume_group_name'' name) (\<lambda>cli_volume_id.
     catchE (fix_creation_side_effects sv name cli_volume_id volume_group)
       (\<lambda>e. if cli_message e \<noteq> None \<or> isa ''VolumeAlreadyExists'' e
            then thenE (rollback_create_volume_from_snapshot sv cli_volume_id name) (raiseE e)
            else raiseE e)))"

subsection \<open>Snapshots of \<open>addsnapshot\<close>\<close>

definition is_addsnapshot_supported :: "'s svc \<Rightarrow> bool" where
  "is_addsnapshot_supported sv = sc_has_command (sv_client sv) ''addsnapshot''"

definition is_earreplication_supported :: "'s svc \<Rightarrow> bool" where
  "is_earreplication_supported sv = sc_has_command (sv_client sv) ''chvolumereplicationinternals''"

definition addsnapshotcommon :: "'s svc \<Rightarrow> str \<Rightarrow> kwargs \<Rightarrow> ('s svc_world, str option) prog" where
  "addsnapshotcommon sv name kw =
     unless_warning (bindE (svctask sv ''addsnapshot'' (kw @ [(''name'', CStr name)])) (\<lambda>response. ret (Some response)))
       (ret None)
       (\<lambda>msg e.
          if mentions msg [OBJ_ALREADY_EXIST] then raiseE (ArrayErr (SnapshotAlreadyExists name (sv_endpoint sv)))
          else if mentions msg [NAME_NOT_EXIST_OR_MEET_RULES, NOT_CHILD_POOL]
          then raiseE (ArrayErr (PoolDoesNotExist (kwargs_pool kw) (sv_endpoint sv)))
          else if mentions msg [NOT_ENOUGH_EXTENTS_IN_POOL_CREATE]
          then raiseE (ArrayErr (NotEnoughSpaceInPool (kwargs_pool kw)))
          else if mentions msg [NON_ASCII_CHARS, INVALID_NAME, TOO_MANY_CHARS]
          then raiseE (ArrayErr (InvalidArgumentError msg)) else raiseE e)"

definition lsvolumesnapshot :: "'s svc \<Rightarrow> kwargs \<Rightarrow> ('s svc_world, cli_snapshot option) prog" where
  "lsvolumesnapshot sv kw =
     on_cli_error (cli (sc_lsvolumesnapshot (sv_client sv) kw)) (\<lambda>msg e.
       if mentions msg [OBJ_NOT_FOUND, NAME_NOT_EXIST_OR_MEET_RULES] then ret None
       else if mentions msg [NON_ASCII_CHARS, VALUE_TOO_LONG] then raiseE (ArrayErr (InvalidArgumentError msg))
       else raiseE e)"

definition get_cli_snapshot_by_name :: "'s svc \<Rightarrow> str \<Rightarrow> ('s svc_world, cli_snapshot option) prog" where
  "get_cli_snapshot_by_name sv name = lsvolumesnapshot sv [(''filtervalue'', CStr (''snapshot_name='' @ name))]"

text \<open>After a warning there is no response to read the id of the snapshot from.\<close>

definition add_snapshot :: "'s svc \<Rightarrow> str \<Rightarrow> str option \<Rightarrow> str \<Rightarrow> ('s svc_world, cli_snapshot) prog" where
  "add_snapshot sv snapshot_name source_id pool =
     bindE (addsnapshotcommon sv snapshot_name [(''volumes'', arg_opt source_id), (''pool'', CStr pool)]) (\<lambda>response.
     bindE (case response of None \<Rightarrow> raiseE (PyErr AttributeError) | Some m \<Rightarrow> liftR (get_id_from_response m)) (\<lambda>i.
     bindE (lsvolumesnapshot sv [(''object_id'', CInt i)]) (\<lambda>s. case s of
       None \<Rightarrow> raiseE (ArrayErr (ObjectNotFoundError (int_str i))) | Some s \<Rightarrow> ret s)))"

definition add_vg_snapshot :: "'s svc \<Rightarrow> str \<Rightarrow> str \<Rightarrow> ('s svc_world, cli_snapshot) prog" where
  "add_vg_snapshot sv snapshot_name volume_group =
     bindE (addsnapshotcommon sv snapshot_name [(''volumegroup'', CStr volume_group), (''retentionminutes'', CInt 5)]) (\<lambda>_.
     bindE (get_cli_snapshot_by_name sv snapshot_name) (\<lambda>s. case s of
       None \<Rightarrow> raiseE (ArrayErr (ObjectNotFoundError snapshot_name)) | Some s \<Rightarrow> ret s))"

definition rmsnapshot :: "'s svc \<Rightarrow> carg \<Rightarrow> str \<Rightarrow> ('s svc_world, unit) prog" where
  "rmsnapshot sv internal_snapshot_id text_of_id =
     on_cli_error (bindE (svctask sv ''rmsnapshot'' [(''snapshotid'', internal_snapshot_id)]) (\<lambda>_. ret ()))
       (\<lambda>msg e. if mentions msg [SNAPSHOT_NOT_EXIST] then raiseE (ArrayErr (ObjectNotFoundError text_of_id))
                else raiseE e)"

definition is_vdisk_has_fcmaps :: "'s svc \<Rightarrow> str option \<Rightarrow> ('s svc_world, bool) prog" where
  "is_vdisk_has_fcmaps sv vdisk_uid =
     (if \<not> truthy vdisk_uid then ret False
      else bindE (get_cli_volume_by_wwn_if_exists sv (the vdisk_uid)) (\<lambda>v. ret (case v of
             None \<Rightarrow> False
           | Some c \<Rightarrow> if is_earreplication_supported sv
                       then cl_replication_mode c \<noteq> [] \<and> cl_fc_map_count c \<noteq> ''2'' else cl_FC_id c \<noteq> [])))"

definition is_vdisk_support_addsnapshot :: "'s svc \<Rightarrow> str option \<Rightarrow> ('s svc_world, bool) prog" where
  "is_vdisk_support_addsnapshot sv vdisk_uid =
     (if is_addsnapshot_supported sv
      then bindE (is_vdisk_has_fcmaps sv vdisk_uid) (\<lambda>b. ret (\<not> b)) else ret False)"

definition create_cli_volume_from_volume ::
  "'s svc \<Rightarrow> str \<Rightarrow> str \<Rightarrow> str option \<Rightarrow> str option \<Rightarrow> str option \<Rightarrow> ('s svc_world, unit) prog" where
  "create_cli_volume_from_volume sv name pool io_group volume_group source_id =
     bindE (add_snapshot sv name source_id pool) (\<lambda>s.
     thenE (create_cli_volume_from_snapshot sv name pool io_group volume_group (Some (cs_snapshot_id s)))
       (rmsnapshot sv (CStr (cs_snapshot_id s)) (cs_snapshot_id s)))"

definition create_cli_volume_from_source ::
  "'s svc \<Rightarrow> str \<Rightarrow> str \<Rightarrow> str option \<Rightarrow> str option \<Rightarrow> object_ids \<Rightarrow> str option \<Rightarrow> ('s svc_world, unit) prog" where
  "create_cli_volume_from_source sv name pool io_group volume_group source_ids source_type =
     (if source_type = Some SNAPSHOT_TYPE_NAME
      then create_cli_volume_from_snapshot sv name pool io_group volume_group (ids_internal_id source_ids)
      else create_cli_volume_from_volume sv name pool io_group volume_group (ids_internal_id source_ids))"

end
