(* ===== verification/SvcOperations.thy ===== *)
theory SvcOperations
  imports SvcVolumes
begin

text \<open>
  The operations of the SVC mediator on volumes and snapshots
  (\<open>array_action/array_mediator_svc.py\<close>), made of the commands of the theory \<open>SvcVolumes\<close>.
\<close>

subsection \<open>Volumes of a partition\<close>

definition verify_volume_group_of_partition_name :: "'s svc \<Rightarrow> str \<Rightarrow> str \<Rightarrow> ('s svc_world, bool) prog" where
  "verify_volume_group_of_partition_name sv partition_name volume_group =
     on_cli_error
       (bindE (cli (sc_lsvolumegroup (sv_client sv)
           [(''filtervalue'', CStr (''partition_name='' @ partition_name @ '':name='' @ volume_group))])) (\<lambda>g.
        ret (case g of None \<Rightarrow> False | Some g \<Rightarrow> cg_name g \<noteq> [] \<and> cg_partition_name g = Some partition_name)))
       (\<lambda>msg e. if mentions msg [NON_ASCII_CHARS, VALUE_TOO_LONG] then raiseE (ArrayErr (InvalidArgumentError msg))
                else raiseE e)"

definition create_cli_volume_from_vg_snapshot ::
  "'s svc \<Rightarrow> str \<Rightarrow> str \<Rightarrow> str option \<Rightarrow> str \<Rightarrow> str \<Rightarrow> str \<Rightarrow> str \<Rightarrow> str option \<Rightarrow> bool \<Rightarrow> ('s svc_world, unit) prog" where
  "create_cli_volume_from_vg_snapshot sv name pool io_group volume_group vg_snapshot_name volume_name volume_vg
     space_efficiency use_thin_clone =
     bindE (svctask sv ''mkvolume''
       ([(''name'', CStr name), (''type'', CStr (if use_thin_clone then ''thinclone'' else ''clone'')),
         (''snapshot'', CStr vg_snapshot_name), (''fromsourcegroup'', CStr volume_vg), (''pool'', CStr pool),
         (''fromsourcevolume'', CStr volume_name), (''volumegroup'', CStr volume_group)] @
        (if truthy io_group then [(''iogrp'', arg_opt io_group)] else []) @
        (if use_thin_clone then [] else get_space_efficiency_kwargs space_efficiency))) (\<lambda>_. ret ())"

text \<open>\<open>try: m finally: cleanup\<close>, where an error of the clean-up replaces the outcome of \<open>m\<close>.\<close>

definition finally_do :: "('w, 'a) prog \<Rightarrow> ('w, unit) prog \<Rightarrow> ('w, 'a) prog" where
  "finally_do m cleanup = (\<lambda>w. case m w of (r, w') \<Rightarrow>
     (case cleanup w' of (Inl e, w'') \<Rightarrow> (Inl e, w'') | (Inr u, w'') \<Rightarrow> (r, w'')))"

text \<open>Whether a partition is replicated between two sites for high availability.\<close>

definition partition_uses_thin_clone :: "'s svc \<Rightarrow> str \<Rightarrow> ('s svc_world, bool) prog" where
  "partition_uses_thin_clone sv partition_name =
     bindE (cli (sc_lspartition (sv_client sv) [(''filtervalue'', CStr (''name='' @ partition_name))])) (\<lambda>p. case p of
       None \<Rightarrow> raiseE (ArrayErr (InvalidArgumentError ''partition not found''))
     | Some policy \<Rightarrow>
         if policy = [] then ret False
         else bindE (cli (sc_lsreplicationpolicy (sv_client sv) [(''filtervalue'', CStr (''name='' @ policy))])) (\<lambda>rp.
              case rp of
                None \<Rightarrow> raiseE (ArrayErr (InvalidArgumentError ''partition replication policy not found''))
              | Some topology \<Rightarrow> ret (topology = ''2-site-ha'')))"

text \<open>
  The clone is made through a temporary snapshot of the source's volume group, which is removed
  whether or not the clone was created.  \<open>set.pop\<close> gives any of the aliases.
\<close>

definition partition_create_cli_volume_from_cli_vol ::
  "'s svc \<Rightarrow> str \<Rightarrow> str \<Rightarrow> str option \<Rightarrow> str \<Rightarrow> cli_volume \<Rightarrow> str option \<Rightarrow> str \<Rightarrow> ('s svc_world, unit) prog" where
  "partition_create_cli_volume_from_cli_vol sv name pool io_group volume_group v space_efficiency partition_name =
     (if cl_volume_group_name v = [] then raiseE (ArrayErr (InvalidArgumentError ''volume group not specified''))
      else bindE (verify_volume_group_of_partition_name sv partition_name (cl_volume_group_name v)) (\<lambda>ok.
        if \<not> ok then raiseE (ArrayErr (InvalidArgumentError ''volume group not part of partition''))
        else bindE (partition_uses_thin_clone sv partition_name) (\<lambda>use_thin_clone.
          bindE (add_vg_snapshot sv name (cl_volume_group_name v)) (\<lambda>s.
          let se = (if truthy space_efficiency then space_efficiency
                    else Some (hd (get_cli_volume_space_efficiency_aliases v))) in
          finally_do
            (create_cli_volume_from_vg_snapshot sv name pool io_group volume_group (cs_snapshot_name s)
               (cl_name v) (cl_volume_group_name v) se use_thin_clone)
            (bindE (svctask sv ''rmsnapshot'' [(''snapshot'', CStr (cs_snapshot_name s)),
                (''volumegroup'', CStr (cl_volume_group_name v))]) (\<lambda>_. ret ()))))))"

definition partition_create_cli_volume_from_volume ::
  "'s svc \<Rightarrow> str \<Rightarrow> str \<Rightarrow> str option \<Rightarrow> str \<Rightarrow> str \<Rightarrow> str option \<Rightarrow> int \<Rightarrow> str \<Rightarrow> ('s svc_world, unit) prog" where
  "partition_create_cli_volume_from_volume sv name pool io_group volume_group source_id space_efficiency
     size_in_bytes partition_name =
     bindE (get_cli_volume_by_wwn sv source_id) (\<lambda>concise.
     bindE (get_cli_volume sv (cl_name concise)) (\<lambda>v.
     if convert_size_bytes size_in_bytes \<noteq> cl_capacity v
     then raiseE (ArrayErr (InvalidArgumentError
            (''clone not created because the source and target volumes are different sizes '' @
             int_str size_in_bytes @ '' '' @ int_str (cl_capacity v))))
     else partition_create_cli_volume_from_cli_vol sv name pool io_group volume_group v space_efficiency partition_name))"

definition partition_create_volume ::
  "'s svc \<Rightarrow> str \<Rightarrow> int \<Rightarrow> str option \<Rightarrow> str \<Rightarrow> str option \<Rightarrow> str option \<Rightarrow> object_ids \<Rightarrow> str \<Rightarrow> str option
    \<Rightarrow> ('s svc_world, volume) prog" where
  "partition_create_volume sv name size_in_bytes space_efficiency pool io_group volume_group source_ids
     partition_name partition_vg =
     (let group = (if truthy volume_group then volume_group else partition_vg) in
      if \<not> truthy group then raiseE (ArrayErr (InvalidArgumentError ''volume group not specified''))
      else bindE (verify_volume_group_of_partition_name sv partition_name (the group)) (\<lambda>ok.
        if \<not> ok then raiseE (ArrayErr (InvalidArgumentError ''volume group not part of partition''))
        else thenE (if object_ids_truthy source_ids
                    then partition_create_cli_volume_from_volume sv name pool io_group (the group)
                           (opt_str (ids_uid source_ids)) space_efficiency size_in_bytes partition_name
                    else create_cli_volume sv name size_in_bytes space_efficiency pool io_group group)
               (bindE (get_cli_volume sv name) (\<lambda>v. svc_generate_volume_response sv v False))))"

subsection \<open>Volumes\<close>

definition svc_get_volume :: "'s svc \<Rightarrow> str \<Rightarrow> str option \<Rightarrow> bool \<Rightarrow> ('s svc_world, volume) prog" where
  "svc_get_volume sv name pool is_virt_snap_func =
     bindE (get_cli_volume sv name) (\<lambda>v. svc_generate_volume_response sv v is_virt_snap_func)"

definition svc_create_volume ::
  "'s svc \<Rightarrow> str \<Rightarrow> int \<Rightarrow> str option \<Rightarrow> str \<Rightarrow> str option \<Rightarrow> str option \<Rightarrow> object_ids \<Rightarrow> str option \<Rightarrow> bool \<Rightarrow>
    str option \<Rightarrow> str option \<Rightarrow> sdict \<Rightarrow> ('s svc_world, volume) prog" where
  "svc_create_volume sv name size_in_bytes space_efficiency pool io_group volume_group source_ids source_type
     is_virt_snap_func partition_name partition_vg extra_parameters =
     registered sv ''create_volume''
       (if truthy partition_name
        then partition_create_volume sv name size_in_bytes space_efficiency pool io_group volume_group source_ids
               (the partition_name) partition_vg
        else thenE
          (if is_virt_snap_func \<and> object_ids_truthy source_ids
           then bindE (is_vdisk_support_addsnapshot sv (ids_uid source_ids)) (\<lambda>ok.
                if ok then create_cli_volume_from_source sv name pool io_group volume_group source_ids source_type
                else raiseE (ArrayErr (VirtSnapshotFunctionNotSupportedMessage name)))
           else create_cli_volume sv name size_in_bytes space_efficiency pool io_group volume_group)
          (bindE (get_cli_volume sv name) (\<lambda>v. svc_generate_volume_response sv v is_virt_snap_func)))"

definition svc_delete_volume_impl :: "'s svc \<Rightarrow> str \<Rightarrow> bool \<Rightarrow> bool \<Rightarrow> ('s svc_world, unit) prog" where
  "svc_delete_volume_impl sv volume_id is_snapshot is_partition =
     bindE (get_cli_volume_by_wwn sv volume_id) (\<lambda>v.
     thenE
       (if is_partition then ret ()
        else if is_snapshot \<and> cl_FC_id v = [] then raiseE (ArrayErr (ObjectNotFoundError (cl_name v)))
        else bindE (get_fcmap_as_target_if_exists sv (cl_name v)) (\<lambda>as_target.
          if is_snapshot \<and> as_target = None then raiseE (ArrayErr (ObjectNotFoundError (cl_name v)))
          else bindE (get_fcmaps_as_source_if_exist sv (cl_name v)) (\<lambda>as_source.
            thenE (if as_source \<noteq> [] then safe_delete_fcmaps sv (cl_name v) as_source else ret ())
              (case as_target of None \<Rightarrow> ret () | Some f \<Rightarrow> safe_stop_and_delete_fcmap sv f))))
       (rmvolume sv (cl_name v) True))"

definition svc_delete_volume :: "'s svc \<Rightarrow> str \<Rightarrow> str option \<Rightarrow> ('s svc_world, unit) prog" where
  "svc_delete_volume sv volume_id partition_name =
     registered sv ''delete_volume'' (svc_delete_volume_impl sv volume_id False (partition_name \<noteq> None))"

definition expand_errors :: "cli_volume \<Rightarrow> str \<Rightarrow> exn \<Rightarrow> ('s svc_world, unit) prog" where
  "expand_errors v msg e =
     (if mentions msg [OBJ_NOT_FOUND, VOL_NOT_FOUND] then raiseE (ArrayErr (ObjectNotFoundError (cl_name v)))
      else if mentions msg [NOT_ENOUGH_EXTENTS_IN_POOL_EXPAND]
      then raiseE (ArrayErr (NotEnoughSpaceInPool (mdisk_grp_text v))) else raiseE e)"

definition expand_cli_volume :: "'s svc \<Rightarrow> cli_volume \<Rightarrow> int \<Rightarrow> bool \<Rightarrow> ('s svc_world, unit) prog" where
  "expand_cli_volume sv v increase_in_bytes is_hyperswap =
     run_task sv (if is_hyperswap then ''expandvolume'' else ''expandvdisksize'')
       [(if is_hyperswap then ''object_id'' else ''vdisk_id'', CStr (cl_name v)), (''unit'', CStr ''b''),
        (''size'', CInt increase_in_bytes)] (expand_errors v)"

definition change_volume_size :: "'s svc \<Rightarrow> cli_volume \<Rightarrow> int \<Rightarrow> ('s svc_world, unit) prog" where
  "change_volume_size sv v size_in_bytes =
     run_task sv ''chvolume'' [(''size'', CInt size_in_bytes), (''unit'', CStr ''b''), (''vdisk_id'', CStr (cl_name v))]
       (expand_errors v)"

definition svc_expand_volume :: "'s svc \<Rightarrow> str \<Rightarrow> int \<Rightarrow> str option \<Rightarrow> ('s svc_world, unit) prog" where
  "svc_expand_volume sv volume_id required_bytes partition_name =
     bindE (get_cli_volume_by_wwn sv volume_id) (\<lambda>v.
     let final_size = convert_size_bytes required_bytes; increase_in_bytes = final_size - cl_capacity v in
     if final_size < cl_capacity v
     then raiseE (ArrayErr (InvalidArgumentError ''New volume size smaller than current''))
     else if truthy partition_name then change_volume_size sv v final_size
     else bindE (get_object_fcmaps sv (cl_name v)) (\<lambda>fcmaps.
          thenE (safe_delete_fcmaps sv (cl_name v) fcmaps)
            (expand_cli_volume sv v increase_in_bytes (list_ex is_in_remote_copy_relationship fcmaps))))"

definition delete_unstarted_fcmap_if_exists :: "'s svc \<Rightarrow> str \<Rightarrow> ('s svc_world, cli_volume option) prog" where
  "delete_unstarted_fcmap_if_exists sv target_volume_name =
     bindE (get_cli_volume_if_exists sv target_volume_name) (\<lambda>v.
     thenE (case v of None \<Rightarrow> ret () | Some c \<Rightarrow> if cl_FC_id c \<noteq> [] then delete_fcmap sv (cl_FC_id c) False else ret ())
       (ret v))"

definition rollback_copy_to_target_volume :: "'s svc \<Rightarrow> str \<Rightarrow> ('s svc_world, unit) prog" where
  "rollback_copy_to_target_volume sv target_volume_name =
     sv_retry sv (bindE (delete_unstarted_fcmap_if_exists sv target_volume_name) (\<lambda>_. ret ()))"

definition copy_to_target_volume :: "'s svc \<Rightarrow> str \<Rightarrow> str \<Rightarrow> ('s svc_world, unit) prog" where
  "copy_to_target_volume sv target_volume_name source_volume_name =
     on_cli_error (bindE (create_and_start_fcmap sv source_volume_name target_volume_name True) (\<lambda>_. ret ()))
       (\<lambda>msg e. thenE (rollback_copy_to_target_volume sv target_volume_name) (raiseE e))"

definition svc_copy_to_existing_volume :: "'s svc \<Rightarrow> str \<Rightarrow> str \<Rightarrow> int \<Rightarrow> int \<Rightarrow> ('s svc_world, unit) prog" where
  "svc_copy_to_existing_volume sv volume_id source_id source_capacity_in_bytes minimum_volume_size_in_bytes =
     bindE (get_volume_name_by_wwn sv source_id) (\<lambda>source_name.
     bindE (get_volume_name_by_wwn sv volume_id) (\<lambda>target_volume_name.
     copy_to_target_volume sv target_volume_name source_name))"

text \<open>\<open>verify_volume_partition\<close> and \<open>verify_volume_group_partition\<close>.\<close>

definition svc_verify_volume_partition :: "str \<Rightarrow> str option \<Rightarrow> str option \<Rightarrow> exn + unit" where
  "svc_verify_volume_partition name actual partition_name =
     raise_if (actual \<noteq> partition_name)
       (ValidationException (VOLUME_PARTITION_MISMATCH name (opt_str actual) (opt_str partition_name)))"

definition svc_verify_volume_group_partition :: "str \<Rightarrow> str option \<Rightarrow> str option \<Rightarrow> exn + unit" where
  "svc_verify_volume_group_partition name actual partition_name =
     raise_if (actual \<noteq> partition_name)
       (ValidationException (VOLUME_GROUP_PARTITION_MISMATCH name (opt_str actual) (opt_str partition_name)))"

subsection \<open>Snapshots\<close>

definition svc_get_snapshot :: "'s svc \<Rightarrow> str \<Rightarrow> str \<Rightarrow> str option \<Rightarrow> bool \<Rightarrow> ('s svc_world, snapshot option) prog" where
  "svc_get_snapshot sv volume_id snapshot_name pool is_virt_snap_func =
     (if is_virt_snap_func
      then if is_addsnapshot_supported sv
           then bindE (get_cli_snapshot_by_name sv snapshot_name) (\<lambda>s. case s of
                  None \<Rightarrow> ret None
                | Some s \<Rightarrow>
                    bindE (get_cli_volume_by_wwn_if_exists sv volume_id) (\<lambda>v. case v of
                      None \<Rightarrow> raiseE (PyErr AttributeError)
                    | Some v \<Rightarrow> ret (Some (generate_snapshot_response_from_cli_snapshot sv s v))))
           else raiseE (ArrayErr (VirtSnapshotFunctionNotSupportedMessage volume_id))
      else bindE (get_cli_volume_if_exists sv snapshot_name) (\<lambda>v. case v of
             None \<Rightarrow> ret None
           | Some v \<Rightarrow> bindE (generate_snapshot_response_with_verification sv v) (\<lambda>s. ret (Some s))))"

definition svc_get_object_by_id :: "'s svc \<Rightarrow> str \<Rightarrow> str option \<Rightarrow> bool \<Rightarrow> ('s svc_world, volume option) prog" where
  "svc_get_object_by_id sv object_id object_type is_virt_snap_func =
     (if is_virt_snap_func \<and> object_type = Some SNAPSHOT_TYPE_NAME
      then bindE (lsvolumesnapshot sv [(''object_id'', CStr object_id)]) (\<lambda>s. case s of
             None \<Rightarrow> ret None
           | Some s \<Rightarrow>
               bindE (get_cli_volume sv (cs_volume_name s)) (\<lambda>v.
               ret (Some (volume.truncate (generate_snapshot_response_from_cli_snapshot sv s v)))))
      else bindE (get_cli_volume_by_wwn_if_exists sv object_id) (\<lambda>v. case v of
             None \<Rightarrow> ret None
           | Some v \<Rightarrow>
               if object_type = Some SNAPSHOT_TYPE_NAME
               then bindE (generate_snapshot_response_with_verification sv v) (\<lambda>s. ret (Some (volume.truncate s)))
               else bindE (get_cli_volume sv (cl_name v)) (\<lambda>full.
                    bindE (svc_generate_volume_response sv full is_virt_snap_func) (\<lambda>r. ret (Some r)))))"

definition create_similar_volume ::
  "'s svc \<Rightarrow> cli_volume \<Rightarrow> str \<Rightarrow> str option \<Rightarrow> str \<Rightarrow> ('s svc_world, unit) prog" where
  "create_similar_volume sv source target_volume_name space_efficiency pool =
     create_cli_volume sv target_volume_name (cl_capacity source)
       (if truthy space_efficiency then space_efficiency
        else Some (hd (get_cli_volume_space_efficiency_aliases source)))
       pool (Some (cl_IO_group_name source)) None"

definition rollback_create_snapshot :: "'s svc \<Rightarrow> str \<Rightarrow> ('s svc_world, unit) prog" where
  "rollback_create_snapshot sv target_volume_name =
     sv_retry sv
       (bindE (delete_unstarted_fcmap_if_exists sv target_volume_name) (\<lambda>v. case v of
          None \<Rightarrow> ret () | Some c \<Rightarrow> rmvolume sv (cl_name c) False))"

definition create_flashcopy_snapshot ::
  "'s svc \<Rightarrow> str \<Rightarrow> cli_volume \<Rightarrow> str option \<Rightarrow> str \<Rightarrow> ('s svc_world, cli_volume) prog" where
  "create_flashcopy_snapshot sv target_volume_name source space_efficiency pool =
     on_cli_error
       (thenE (create_similar_volume sv source target_volume_name space_efficiency pool)
          (create_and_start_fcmap sv (cl_name source) target_volume_name False))
       (\<lambda>msg e. thenE (rollback_create_snapshot sv target_volume_name) (raiseE e))"

definition get_pool_site :: "'s svc \<Rightarrow> str \<Rightarrow> ('s svc_world, str) prog" where
  "get_pool_site sv pool =
     bindE (cli (sc_lsmdiskgrp (sv_client sv) [(''filtervalue'', CStr (''name='' @ pool))])) (\<lambda>site. case site of
       None \<Rightarrow> raiseE (ArrayErr (PoolDoesNotExist pool (sv_endpoint sv))) | Some s \<Rightarrow> ret s)"

fun any_pool_in_site :: "'s svc \<Rightarrow> str \<Rightarrow> str list \<Rightarrow> ('s svc_world, bool) prog" where
  "any_pool_in_site sv site_name [] = ret False"
| "any_pool_in_site sv site_name (pool # pools) =
     bindE (get_pool_site sv pool) (\<lambda>s. if s = site_name then ret True else any_pool_in_site sv site_name pools)"

definition is_cli_volume_in_site :: "'s svc \<Rightarrow> cli_volume \<Rightarrow> str \<Rightarrow> ('s svc_world, bool) prog" where
  "is_cli_volume_in_site sv v site_name = bindE (liftR (get_volume_pools v)) (any_pool_in_site sv site_name)"

text \<open>The system row is read once; the last row whose location is \<open>local\<close> is kept.\<close>

definition system_info :: "'s svc \<Rightarrow> ('s svc_world, cli_system option) prog" where
  "system_info sv =
     bindE (getS sw_cluster) (\<lambda>c. case c of
       Some x \<Rightarrow> ret (Some x)
     | None \<Rightarrow>
         bindE (cli (sc_lssystem (sv_client sv))) (\<lambda>systems.
         let found = find (\<lambda>s. cy_location s = ''local'') (rev systems) in
         thenE (modifyS (\<lambda>w. w\<lparr>sw_cluster := found\<rparr>)) (ret found)))"

definition system_identifier :: "'s svc \<Rightarrow> ('s svc_world, str) prog" where
  "system_identifier sv =
     bindE (system_info sv) (\<lambda>c. case c of None \<Rightarrow> raiseE (PyErr AttributeError) | Some x \<Rightarrow> ret (cy_id_alias x))"

definition lsrcrelationship :: "'s svc \<Rightarrow> str \<Rightarrow> ('s svc_world, cli_rcrelationship list) prog" where
  "lsrcrelationship sv filter_value =
     cli (sc_lsrcrelationship (sv_client sv) [(''filtervalue'', CStr filter_value)])"

definition get_rcrelationships_as_master_in_cluster :: "'s svc \<Rightarrow> str \<Rightarrow> ('s svc_world, cli_rcrelationship list) prog" where
  "get_rcrelationships_as_master_in_cluster sv volume_name =
     bindE (system_identifier sv) (\<lambda>i.
     lsrcrelationship sv (''master_vdisk_name='' @ volume_name @ '':aux_cluster_id='' @ i))"

fun first_aux_in_site :: "'s svc \<Rightarrow> str \<Rightarrow> cli_rcrelationship list \<Rightarrow> ('s svc_world, cli_volume) prog" where
  "first_aux_in_site sv site_name [] = raiseE (PyErr RuntimeError)"
| "first_aux_in_site sv site_name (r # rs) =
     bindE (get_cli_volume sv (rc_aux_vdisk_name r)) (\<lambda>other.
     bindE (is_cli_volume_in_site sv other site_name) (\<lambda>here.
     if here then ret other else first_aux_in_site sv site_name rs))"

definition get_cli_volume_in_pool_site :: "'s svc \<Rightarrow> str \<Rightarrow> str option \<Rightarrow> ('s svc_world, cli_volume) prog" where
  "get_cli_volume_in_pool_site sv volume_name pool_name =
     bindE (get_cli_volume sv volume_name) (\<lambda>v.
     if \<not> truthy pool_name \<or> py_contains (the pool_name) '':'' then ret v
     else bindE (get_pool_site sv (the pool_name)) (\<lambda>site_name.
          bindE (is_cli_volume_in_site sv v site_name) (\<lambda>here.
          if here then ret v
          else bindE (get_rcrelationships_as_master_in_cluster sv volume_name) (first_aux_in_site sv site_name))))"

definition svc_create_snapshot ::
  "'s svc \<Rightarrow> str \<Rightarrow> str \<Rightarrow> str option \<Rightarrow> str option \<Rightarrow> bool \<Rightarrow> str option \<Rightarrow> int option \<Rightarrow> ('s svc_world, snapshot) prog" where
  "svc_create_snapshot sv volume_id snapshot_name space_efficiency pool is_virt_snap_func partition_name pct =
     registered sv ''create_snapshot''
       (bindE (get_volume_name_by_wwn sv volume_id) (\<lambda>source_volume_name.
        bindE (get_cli_volume_in_pool_site sv source_volume_name pool) (\<lambda>source.
        bindE (if truthy pool then ret (the pool)
               else liftR (bindR (get_volume_pools source) (\<lambda>ps. case ps of [] \<Rightarrow> Inl (PyErr IndexError) | p # _ \<Rightarrow> Inr p)))
          (\<lambda>pool_name.
        if truthy partition_name
        then thenE (partition_create_cli_volume_from_cli_vol sv snapshot_name pool_name (Some (cl_IO_group_name source))
                      (cl_volume_group_name source) source space_efficiency (the partition_name))
               (bindE (get_cli_volume sv snapshot_name) (\<lambda>target.
                ret (generate_snapshot_response_from_cli_volume sv target (Some (cl_vdisk_UID source)) partition_name)))
        else if is_virt_snap_func
        then bindE (is_vdisk_support_addsnapshot sv (Some volume_id)) (\<lambda>ok.
             if ok
             then bindE (add_snapshot sv snapshot_name (Some (cl_id source)) pool_name) (\<lambda>s.
                  ret (generate_snapshot_response_from_cli_snapshot sv s source))
             else raiseE (ArrayErr (VirtSnapshotFunctionNotSupportedMessage volume_id)))
        else bindE (create_flashcopy_snapshot sv snapshot_name source space_efficiency pool_name) (\<lambda>target.
             ret (generate_snapshot_response_from_cli_volume sv target (Some (cl_vdisk_UID source)) None))))))"

definition svc_delete_snapshot :: "'s svc \<Rightarrow> str \<Rightarrow> str option \<Rightarrow> str option \<Rightarrow> ('s svc_world, unit) prog" where
  "svc_delete_snapshot sv snapshot_id internal_snapshot_id partition_name =
     registered sv ''delete_snapshot''
       (if truthy partition_name
        then bindE (get_cli_volume_by_wwn sv snapshot_id) (\<lambda>v.
             bindE (get_partition_name_of_cli_volume sv v) (\<lambda>p.
             if p \<noteq> partition_name
             then raiseE (ArrayErr (InvalidArgumentError ''volume group not part of partition''))
             else svc_delete_volume_impl sv snapshot_id False True))
        else if is_addsnapshot_supported sv \<and> snapshot_id = []
        then rmsnapshot sv (arg_opt internal_snapshot_id) (opt_str internal_snapshot_id)
        else svc_delete_volume_impl sv snapshot_id True False)"

lemma keeps_forE_set: "(\<And>x. x \<in> set xs \<Longrightarrow> keeps P (f x)) \<Longrightarrow> keeps P (forE f xs)"
  by (induction xs) (auto intro: keeps_intros)

subsection \<open>Properties\<close>


definition example_cli_volume :: cli_volume where
  "example_cli_volume = \<lparr>cl_id = ''7'', cl_name = ''v'', cl_vdisk_UID = ''6005'', cl_capacity = 1024,
     cl_mdisk_grp_name = Inl ''pool'', cl_FC_id = [], cl_se_copy = ''no'', cl_compressed_copy = ''no'',
     cl_deduplicated_copy = None, cl_volume_group_name = [], cl_volume_group_id = [], cl_source_volume_name = [],
     cl_IO_group_name = ''io_grp0'', cl_replication_mode = [], cl_fc_map_count = ''0''\<rparr>"

definition example_fcmap :: "str \<Rightarrow> str \<Rightarrow> str \<Rightarrow> cli_fcmap" where
  "example_fcmap i status rc = \<lparr>fc_id = i, fc_source_vdisk_name = ''v'', fc_target_vdisk_name = ''t'', fc_status = status,
     fc_copy_rate = ''50'', fc_rc_controlled = rc\<rparr>"

text \<open>A storage system with the example volume, whose state is the list of the commands it was given.\<close>

definition example_svc :: "cli_fcmap list \<Rightarrow> (str \<times> kwargs) list svc" where
  "example_svc fcmaps = bare_svc (bare_client\<lparr>sc_lsvdisk_single := (\<lambda>_. ret (Some example_cli_volume)),
     sc_lsfcmap := (\<lambda>kw. ret (if map_of kw ''filtervalue'' = Some (CStr ''source_vdisk_name=v'') then fcmaps else [])),
     sc_task := (\<lambda>command kw log. (Inr [], log @ [(command, kw)]))\<rparr>)"

lemma example_found: "get_cli_volume_by_wwn (example_svc fs) i (bare_world log) = (Inr example_cli_volume, bare_world log)"
  by (simp add: get_cli_volume_by_wwn_def get_cli_volume_by_wwn_if_exists_def lsvdisk_by_uid_def
      lsvdisk_single_element_def lsvdisk_errors_def on_cli_error_def example_svc_def bare_defs bindE_def catchE_def
      cli_def prog_simps)




text \<open>
  C22. Remote copies are left alone: a property of the storage system that is kept whenever a mapping
  that is no part of a remote copy is stopped or removed, is kept by the clean-up of the mappings of a volume that
  is expanded and of one that is deleted; so mappings of a remote copy survive both.
\<close>

theorem svc_remote_copies_untouched:
  assumes own: "\<And>f force. f \<in> set fcmaps \<Longrightarrow> \<not> is_in_remote_copy_relationship f \<Longrightarrow>
      keeps P (delete_fcmap sv (fc_id f) force) \<and> keeps P (stop_fcmap sv (fc_id f))"
  shows "keeps P (safe_delete_fcmaps sv name fcmaps) \<and> keeps P (forE (safe_stop_and_delete_fcmap sv) fcmaps)"
proof
  have "keeps P (forE (\<lambda>f. delete_fcmap sv (fc_id f) False)
      (filter (\<lambda>f. \<not> fcmap_in_use f) (filter (\<lambda>f. \<not> is_in_remote_copy_relationship f) fcmaps)))"
    by (rule keeps_forE_set) (use own in auto)
  then show "keeps P (safe_delete_fcmaps sv name fcmaps)"
    by (auto simp: safe_delete_fcmaps_def Let_def intro: keeps_intros)
  show "keeps P (forE (safe_stop_and_delete_fcmap sv) fcmaps)"
    by (rule keeps_forE_set) (use own in \<open>auto simp: safe_stop_and_delete_fcmap_def intro!: keeps_intros\<close>)
qed

theorem svc_remote_copies_untouched_witness:
  "let fs = [example_fcmap ''3'' ''copying'' ''yes'', example_fcmap ''4'' FCMAP_STATUS_DONE ''no''];
       P = (\<lambda>w. \<forall>(command, kw) \<in> set (sw_array w). map_of kw ''object_id'' = Some (CStr ''4''))
   in keeps P (safe_delete_fcmaps (example_svc fs) ''v'' fs) \<and> keeps P (forE (safe_stop_and_delete_fcmap (example_svc fs)) fs)"
proof -
  let ?fs = "[example_fcmap ''3'' ''copying'' ''yes'', example_fcmap ''4'' FCMAP_STATUS_DONE ''no'']"
  let ?P = "\<lambda>w. \<forall>(command, kw) \<in> set (sw_array w). map_of kw ''object_id'' = Some (CStr ''4'')"
  have task: "keeps ?P (run_task (example_svc ?fs) command ((''object_id'', CStr ''4'') # kw) h)" for command kw h
    by (auto simp: keeps_def run_task_def unless_warning_def on_cli_error_def svctask_def example_svc_def bare_defs
        bindE_def catchE_def cli_def prog_simps)
  have own: "keeps ?P (delete_fcmap (example_svc ?fs) (fc_id f) force) \<and> keeps ?P (stop_fcmap (example_svc ?fs) (fc_id f))"
    if "f \<in> set ?fs" "\<not> is_in_remote_copy_relationship f" for f force
    using that task [of _ "[]"] task [of _ "[_]"]
    by (auto simp: example_fcmap_def is_in_remote_copy_relationship_def YES_def delete_fcmap_def stop_fcmap_def)
  show ?thesis
    unfolding Let_def by (rule svc_remote_copies_untouched) (rule own)
qed

end
