(* ===== verification/SvcReplication.thy ===== *)
theory SvcReplication
  imports SvcOperations
begin

text \<open>
  Replication and volume groups of the SVC mediator (\<open>array_action/array_mediator_svc.py\<close>): mirrors of
  two volumes (remote copy relationships), policy-based replication of volume groups (\<open>ear\<close>), and
  the groups themselves.
\<close>

subsection \<open>Remote copy relationships\<close>

definition ENDPOINT_TYPE_MASTER :: str where "ENDPOINT_TYPE_MASTER = ''master''"
definition ENDPOINT_TYPE_AUX :: str where "ENDPOINT_TYPE_AUX = ''aux''"
definition RCRELATIONSHIP_STATE_IDLE :: str where "RCRELATIONSHIP_STATE_IDLE = ''idling''"
definition RCRELATIONSHIP_STATE_READY :: str where "RCRELATIONSHIP_STATE_READY = ''consistent_synchronized''"
definition ENDPOINT_TYPE_PRODUCTION :: str where "ENDPOINT_TYPE_PRODUCTION = ''production''"
definition ENDPOINT_TYPE_INDEPENDENT :: str where "ENDPOINT_TYPE_INDEPENDENT = ''independent''"
definition ENDPOINT_TYPE_RECOVERY :: str where "ENDPOINT_TYPE_RECOVERY = ''recovery''"

lemmas endpoint_defs = ENDPOINT_TYPE_MASTER_def ENDPOINT_TYPE_AUX_def ENDPOINT_TYPE_PRODUCTION_def
  ENDPOINT_TYPE_INDEPENDENT_def ENDPOINT_TYPE_RECOVERY_def

definition get_replication_endpoint_type :: "'s svc \<Rightarrow> cli_rcrelationship \<Rightarrow> ('s svc_world, str) prog" where
  "get_replication_endpoint_type sv r =
     bindE (system_identifier sv) (\<lambda>i.
     ret (if i = rc_master_cluster_id r then ENDPOINT_TYPE_MASTER else ENDPOINT_TYPE_AUX))"

definition get_other_endpoint_type :: "str \<Rightarrow> str" where
  "get_other_endpoint_type endpoint_type =
     (if endpoint_type = ENDPOINT_TYPE_MASTER then ENDPOINT_TYPE_AUX else ENDPOINT_TYPE_MASTER)"

definition is_replication_idle :: "cli_rcrelationship \<Rightarrow> bool" where
  "is_replication_idle r = (rc_state r = RCRELATIONSHIP_STATE_IDLE)"

definition is_replication_disconnected :: "cli_rcrelationship \<Rightarrow> bool" where
  "is_replication_disconnected r = py_contains (rc_state r) ''disconnected''"

definition is_replication_ready :: "cli_rcrelationship \<Rightarrow> bool" where
  "is_replication_ready r = (rc_state r = RCRELATIONSHIP_STATE_READY)"

definition endpoint_is_primary :: "cli_rcrelationship \<Rightarrow> str \<Rightarrow> bool option" where
  "endpoint_is_primary r endpoint_type =
     (if rc_primary r \<noteq> [] then Some (rc_primary r = endpoint_type) else None)"

definition get_replication_copy_type :: "cli_rcrelationship \<Rightarrow> str" where
  "get_replication_copy_type r =
     (if rc_copy_type r = ''global'' then REPLICATION_COPY_TYPE_ASYNC else REPLICATION_COPY_TYPE_SYNC)"

definition generate_replication_response :: "'s svc \<Rightarrow> cli_rcrelationship \<Rightarrow> ('s svc_world, replication) prog" where
  "generate_replication_response sv r =
     bindE (get_replication_endpoint_type sv r) (\<lambda>endpoint_type.
     ret \<lparr>rep_name = rc_name r, rep_copy_type = Some (get_replication_copy_type r),
          rep_is_ready = is_replication_ready r, rep_replication_type = REPLICATION_TYPE_MIRROR,
          rep_is_primary = endpoint_is_primary r endpoint_type, rep_volume_group_id = None\<rparr>)"

definition get_rcrelationship_by_name :: "'s svc \<Rightarrow> str \<Rightarrow> ('s svc_world, cli_rcrelationship option) prog" where
  "get_rcrelationship_by_name sv name =
     cli (sc_lsrcrelationship_single (sv_client sv) [(''filtervalue'', CStr (''RC_rel_name='' @ name))])"

definition get_existing_rcrelationship :: "'s svc \<Rightarrow> str \<Rightarrow> ('s svc_world, cli_rcrelationship) prog" where
  "get_existing_rcrelationship sv name =
     bindE (get_rcrelationship_by_name sv name) (\<lambda>r. case r of
       None \<Rightarrow> raiseE (ArrayErr (ObjectNotFoundError name)) | Some r \<Rightarrow> ret r)"

definition get_rcrelationships ::
  "'s svc \<Rightarrow> str option \<Rightarrow> str option \<Rightarrow> str option \<Rightarrow> bool \<Rightarrow> ('s svc_world, cli_rcrelationship list) prog" where
  "get_rcrelationships sv volume_id other_volume_id other_system_id as_master =
     (let endpoint = (if as_master then ENDPOINT_TYPE_MASTER else ENDPOINT_TYPE_AUX);
          other = (if as_master then ENDPOINT_TYPE_AUX else ENDPOINT_TYPE_MASTER)
      in lsrcrelationship sv
           (endpoint @ ''_vdisk_id='' @ opt_str volume_id @ '':'' @ other @ ''_vdisk_id='' @ opt_str other_volume_id @
            '':'' @ other @ ''_cluster_id='' @ opt_str other_system_id))"

definition get_rcrelationship ::
  "'s svc \<Rightarrow> str option \<Rightarrow> str option \<Rightarrow> str option \<Rightarrow> ('s svc_world, cli_rcrelationship option) prog" where
  "get_rcrelationship sv volume_id other_volume_id other_system_id =
     bindE (get_rcrelationships sv volume_id other_volume_id other_system_id True) (\<lambda>as_master.
     bindE (get_rcrelationships sv volume_id other_volume_id other_system_id False) (\<lambda>as_aux.
     case as_master @ as_aux of [] \<Rightarrow> ret None | [r] \<Rightarrow> ret (Some r) | _ \<Rightarrow> raiseE (PyErr RuntimeError)))"

text \<open>The id of the new relationship, or \<open>None\<close> after a warning.\<close>

definition create_rcrelationship ::
  "'s svc \<Rightarrow> str option \<Rightarrow> str option \<Rightarrow> str option \<Rightarrow> str \<Rightarrow> ('s svc_world, int option) prog" where
  "create_rcrelationship sv master aux other_system_id copy_type =
     unless_warning
       (bindE (svctask sv ''mkrcrelationship'' (build_create_replication_kwargs master aux other_system_id copy_type)) (\<lambda>m.
        bindE (liftR (get_id_from_response m)) (\<lambda>i. ret (Some i))))
       (ret None) (\<lambda>msg e. raiseE e)"

text \<open>Errors of starting, stopping and removing a relationship are logged, warnings or not.\<close>

definition start_rcrelationship :: "'s svc \<Rightarrow> carg \<Rightarrow> str option \<Rightarrow> bool \<Rightarrow> ('s svc_world, unit) prog" where
  "start_rcrelationship sv rel_id primary_endpoint_type force =
     run_task sv ''startrcrelationship'' (build_start_replication_kwargs rel_id primary_endpoint_type force)
       (\<lambda>msg e. ret ())"

definition stop_rcrelationship :: "'s svc \<Rightarrow> str \<Rightarrow> bool \<Rightarrow> ('s svc_world, unit) prog" where
  "stop_rcrelationship sv rel_id add_access_to_secondary =
     run_task sv ''stoprcrelationship'' (build_stop_replication_kwargs rel_id add_access_to_secondary) (\<lambda>msg e. ret ())"

definition delete_rcrelationship :: "'s svc \<Rightarrow> str \<Rightarrow> ('s svc_world, unit) prog" where
  "delete_rcrelationship sv rel_id = run_task sv ''rmrcrelationship'' [(''object_id'', CStr rel_id)] (\<lambda>msg e. ret ())"

definition create_mirror :: "'s svc \<Rightarrow> replication_request \<Rightarrow> ('s svc_world, unit) prog" where
  "create_mirror sv rr =
     bindE (create_rcrelationship sv (rr_volume_internal_id rr) (rr_other_volume_internal_id rr)
              (rr_other_system_id rr) (rr_copy_type rr)) (\<lambda>rc.
     start_rcrelationship sv (case rc of None \<Rightarrow> CNone | Some i \<Rightarrow> CInt i) None False)"

definition delete_mirror :: "'s svc \<Rightarrow> str \<Rightarrow> ('s svc_world, unit) prog" where
  "delete_mirror sv name =
     bindE (get_rcrelationship_by_name sv name) (\<lambda>r. case r of
       None \<Rightarrow> ret ()
     | Some r \<Rightarrow> thenE (stop_rcrelationship sv (rc_id r) False) (delete_rcrelationship sv (rc_id r)))"

definition promote_replication_endpoint :: "'s svc \<Rightarrow> str \<Rightarrow> str \<Rightarrow> ('s svc_world, unit) prog" where
  "promote_replication_endpoint sv endpoint_type name =
     run_task sv ''switchrcrelationship'' [(''primary'', CStr endpoint_type), (''object_id'', CStr name)]
       (\<lambda>msg e. raiseE e)"

definition ensure_endpoint_is_primary :: "'s svc \<Rightarrow> cli_rcrelationship \<Rightarrow> str \<Rightarrow> ('s svc_world, unit) prog" where
  "ensure_endpoint_is_primary sv r endpoint_type =
     (if endpoint_is_primary r endpoint_type = Some True then ret ()
      else thenE (if is_replication_idle r
                  then start_rcrelationship sv (CStr (rc_id r)) (Some (get_other_endpoint_type endpoint_type)) True
                  else ret ())
             (promote_replication_endpoint sv endpoint_type (rc_name r)))"

definition promote_mirror :: "'s svc \<Rightarrow> str \<Rightarrow> ('s svc_world, unit) prog" where
  "promote_mirror sv name =
     bindE (get_existing_rcrelationship sv name) (\<lambda>r.
     if is_replication_disconnected r then stop_rcrelationship sv (rc_id r) True
     else bindE (get_replication_endpoint_type sv r) (ensure_endpoint_is_primary sv r))"

definition demote_mirror :: "'s svc \<Rightarrow> str \<Rightarrow> ('s svc_world, unit) prog" where
  "demote_mirror sv name =
     bindE (get_existing_rcrelationship sv name) (\<lambda>r.
     bindE (get_replication_endpoint_type sv r) (\<lambda>t. ensure_endpoint_is_primary sv r (get_other_endpoint_type t)))"

subsection \<open>Policy-based replication\<close>

definition lsvolumegroupreplication :: "'s svc \<Rightarrow> str option \<Rightarrow> ('s svc_world, cli_group_replication option) prog" where
  "lsvolumegroupreplication sv id_or_name =
     volumegroup_errors (cli (sc_lsvolumegroupreplication (sv_client sv) [(''object_id'', arg_opt id_or_name)]))"

definition chvolumegroup_command :: "'s svc \<Rightarrow> str \<Rightarrow> str option \<Rightarrow> kwargs \<Rightarrow> ('s svc_world, unit) prog" where
  "chvolumegroup_command sv command id_or_name kw =
     run_task sv command ((''object_id'', arg_opt id_or_name) # kw)
       (\<lambda>msg e. if mentions msg [OBJ_ALREADY_EXIST]
                then raiseE (ArrayErr (VolumeAlreadyExists (kwargs_repr kw) (sv_endpoint sv))) else raiseE e)"

definition chvolumegroup :: "'s svc \<Rightarrow> str option \<Rightarrow> kwargs \<Rightarrow> ('s svc_world, unit) prog" where
  "chvolumegroup sv = chvolumegroup_command sv ''chvolumegroup''"

definition chvolumegroupreplication :: "'s svc \<Rightarrow> str option \<Rightarrow> kwargs \<Rightarrow> ('s svc_world, unit) prog" where
  "chvolumegroupreplication sv = chvolumegroup_command sv ''chvolumegroupreplication''"

definition mode_attribute :: "cli_group_replication \<Rightarrow> str" where
  "mode_attribute g =
     (if truthy (cr_local_partition_location g)
      then the (cr_local_partition_location g) @ ''_partition_replication_mode''
      else ''location'' @ cr_local_location g @ ''_replication_mode'')"

definition get_replication_mode :: "'s svc \<Rightarrow> str option \<Rightarrow> ('s svc_world, str option) prog" where
  "get_replication_mode sv volume_group_id =
     bindE (lsvolumegroupreplication sv volume_group_id) (\<lambda>g. ret (case g of
       None \<Rightarrow> None | Some g \<Rightarrow> map_of (cr_modes g) (mode_attribute g)))"

definition get_replication_policy :: "'s svc \<Rightarrow> str option \<Rightarrow> ('s svc_world, str option) prog" where
  "get_replication_policy sv volume_group_id =
     bindE (lsvolumegroupreplication sv volume_group_id) (\<lambda>g. ret (map_option cr_replication_policy_name g))"

definition get_ear_replication :: "'s svc \<Rightarrow> replication_request \<Rightarrow> ('s svc_world, replication option) prog" where
  "get_ear_replication sv rr =
     (if \<not> is_earreplication_supported sv then ret None
      else bindE (get_replication_policy sv (rr_volume_internal_id rr)) (\<lambda>policy.
        if policy \<noteq> rr_replication_policy rr then ret None
        else bindE (get_replication_mode sv (rr_volume_internal_id rr)) (\<lambda>mode.
          ret (if \<not> truthy mode then None
               else Some \<lparr>rep_name = opt_str (rr_replication_policy rr), rep_copy_type = Some REPLICATION_COPY_TYPE_ASYNC,
                      rep_is_ready = True, rep_replication_type = REPLICATION_TYPE_EAR,
                      rep_is_primary = Some (mode = Some ENDPOINT_TYPE_PRODUCTION),
                      rep_volume_group_id = rr_volume_internal_id rr\<rparr>))))"

definition change_volume_group_policy :: "'s svc \<Rightarrow> str option \<Rightarrow> str option \<Rightarrow> ('s svc_world, unit) prog" where
  "change_volume_group_policy sv id_or_name replication_policy =
     chvolumegroup sv id_or_name
       (if truthy replication_policy then [(''replicationpolicy'', arg_opt replication_policy)]
        else [(''noreplicationpolicy'', CBool True)])"

definition create_ear_replication :: "'s svc \<Rightarrow> replication_request \<Rightarrow> ('s svc_world, unit) prog" where
  "create_ear_replication sv rr =
     (if \<not> is_earreplication_supported sv then ret ()
      else thenE (change_volume_group_policy sv (rr_volume_internal_id rr) None)
             (change_volume_group_policy sv (rr_volume_internal_id rr) (rr_replication_policy rr)))"

definition delete_ear_replication :: "'s svc \<Rightarrow> str option \<Rightarrow> ('s svc_world, unit) prog" where
  "delete_ear_replication sv volume_group_id =
     (if \<not> is_earreplication_supported sv then ret () else change_volume_group_policy sv volume_group_id None)"

text \<open>A recovery copy is made independent, and an independent copy is made the production copy.\<close>

definition promote_ear_replication_volume :: "'s svc \<Rightarrow> str option \<Rightarrow> ('s svc_world, unit) prog" where
  "promote_ear_replication_volume sv volume_group_id =
     (if \<not> is_earreplication_supported sv then ret ()
      else bindE (get_replication_mode sv volume_group_id) (\<lambda>mode.
        thenE (if mode = Some ENDPOINT_TYPE_RECOVERY
               then chvolumegroupreplication sv volume_group_id [(''mode'', CStr ENDPOINT_TYPE_INDEPENDENT)]
               else ret ())
          (bindE (get_replication_mode sv volume_group_id) (\<lambda>mode.
           if mode = Some ENDPOINT_TYPE_INDEPENDENT
           then chvolumegroupreplication sv volume_group_id [(''mode'', CStr ENDPOINT_TYPE_PRODUCTION)]
           else ret ()))))"

text \<open>Demotion of a volume group is only logged as not supported.\<close>

definition demote_ear_replication_volume :: "('s svc_world, unit) prog" where
  "demote_ear_replication_volume = ret ()"

subsection \<open>The operations of the interface\<close>

definition svc_get_replication :: "'s svc \<Rightarrow> replication_request \<Rightarrow> ('s svc_world, replication option) prog" where
  "svc_get_replication sv rr =
     (if rr_replication_type rr = REPLICATION_TYPE_MIRROR
      then bindE (get_rcrelationship sv (rr_volume_internal_id rr) (rr_other_volume_internal_id rr) (rr_other_system_id rr))
             (\<lambda>r. case r of
                None \<Rightarrow> ret None | Some r \<Rightarrow> bindE (generate_replication_response sv r) (\<lambda>x. ret (Some x)))
      else if rr_replication_type rr = REPLICATION_TYPE_EAR then get_ear_replication sv rr else ret None)"

definition by_replication_type ::
  "str \<Rightarrow> ('s svc_world, unit) prog \<Rightarrow> ('s svc_world, unit) prog \<Rightarrow> ('s svc_world, unit) prog" where
  "by_replication_type replication_type mirror ear =
     (if replication_type = REPLICATION_TYPE_MIRROR then mirror
      else if replication_type = REPLICATION_TYPE_EAR then ear else ret ())"

definition svc_create_replication :: "'s svc \<Rightarrow> replication_request \<Rightarrow> ('s svc_world, unit) prog" where
  "svc_create_replication sv rr =
     registered sv ''create_replication''
       (by_replication_type (rr_replication_type rr) (create_mirror sv rr) (create_ear_replication sv rr))"

definition svc_delete_replication :: "'s svc \<Rightarrow> replication \<Rightarrow> ('s svc_world, unit) prog" where
  "svc_delete_replication sv rep =
     registered sv ''delete_replication''
       (by_replication_type (rep_replication_type rep) (delete_mirror sv (rep_name rep))
          (delete_ear_replication sv (rep_volume_group_id rep)))"

definition svc_promote_replication_volume :: "'s svc \<Rightarrow> replication \<Rightarrow> ('s svc_world, unit) prog" where
  "svc_promote_replication_volume sv rep =
     registered sv ''promote_replication_volume''
       (by_replication_type (rep_replication_type rep) (promote_mirror sv (rep_name rep))
          (promote_ear_replication_volume sv (rep_volume_group_id rep)))"

definition svc_demote_replication_volume :: "'s svc \<Rightarrow> replication \<Rightarrow> ('s svc_world, unit) prog" where
  "svc_demote_replication_volume sv rep =
     registered sv ''demote_replication_volume''
       (by_replication_type (rep_replication_type rep) (demote_mirror sv (rep_name rep)) demote_ear_replication_volume)"

subsection \<open>Volume groups\<close>

definition generate_thin_volume_response :: "cli_volume \<Rightarrow> thin_volume" where
  "generate_thin_volume_response v =
     \<lparr>thin_name = cl_name v, thin_id = cl_vdisk_UID v, thin_internal_id = cl_id v, thin_array_type = ARRAY_TYPE_SVC,
      thin_capacity_bytes = cl_capacity v, thin_source_id = Some []\<rparr>"

definition get_cli_volumes_from_volume_group :: "'s svc \<Rightarrow> str \<Rightarrow> ('s svc_world, thin_volume list) prog" where
  "get_cli_volumes_from_volume_group sv volume_group_name =
     bindE (lsvdisk_list sv [(''filtervalue'', CStr (''volume_group_name='' @ volume_group_name))]) (\<lambda>vs. case vs of
       None \<Rightarrow> raiseE (PyErr TypeError) | Some vs \<Rightarrow> ret (map generate_thin_volume_response vs))"

definition generate_volume_group_response :: "'s svc \<Rightarrow> cli_volume_group \<Rightarrow> ('s svc_world, volume_group) prog" where
  "generate_volume_group_response sv g =
     bindE (if 0 < cg_volume_count g then get_cli_volumes_from_volume_group sv (cg_name g) else ret []) (\<lambda>volumes.
     ret \<lparr>vg_name = cg_name g, vg_id = (case cg_uid g of None \<Rightarrow> cg_id g | Some u \<Rightarrow> u), vg_internal_id = cg_id g,
          vg_array_type = ARRAY_TYPE_SVC, vg_volumes = volumes,
          vg_partition_name = (if truthy (cg_partition_name g) then cg_partition_name g else None)\<rparr>)"

definition svc_create_volume_group :: "'s svc \<Rightarrow> str \<Rightarrow> str option \<Rightarrow> ('s svc_world, volume_group) prog" where
  "svc_create_volume_group sv name partition_name =
     registered sv ''create_volume_group''
       (bindE (mkvolumegroup sv name (if truthy partition_name then [(''partition'', arg_opt partition_name)] else [])) (\<lambda>_.
        bindE (lsvolumegroup sv (CStr name)) (\<lambda>g. case g of
          None \<Rightarrow> raiseE (PyErr AttributeError) | Some g \<Rightarrow> generate_volume_group_response sv g)))"

definition svc_get_group :: "'s svc \<Rightarrow> str option \<Rightarrow> ('s svc_world, volume_group) prog" where
  "svc_get_group sv volume_group_id =
     bindE (lsvolumegroup sv (arg_opt volume_group_id)) (\<lambda>g. case g of
       None \<Rightarrow> raiseE (ArrayErr (ObjectNotFoundError (opt_str volume_group_id)))
     | Some g \<Rightarrow> generate_volume_group_response sv g)"

definition svc_delete_volume_group :: "'s svc \<Rightarrow> str \<Rightarrow> ('s svc_world, unit) prog" where
  "svc_delete_volume_group sv volume_group_id =
     registered sv ''delete_volume_group''
       (bindE (lsvolumegroup sv (CStr volume_group_id)) (\<lambda>g. case g of
          None \<Rightarrow> raiseE (ArrayErr (ObjectNotFoundError volume_group_id))
        | Some g \<Rightarrow> rmvolumegroup sv volume_group_id))"

definition svc_add_volume_to_volume_group :: "'s svc \<Rightarrow> str \<Rightarrow> str \<Rightarrow> str option \<Rightarrow> ('s svc_world, unit) prog" where
  "svc_add_volume_to_volume_group sv volume_group_id volume_id partition_name =
     registered sv ''add_volume_to_volume_group''
       (bindE (get_volume_name_by_wwn sv volume_id) (\<lambda>name.
        bindE (get_cli_volume sv name) (\<lambda>v.
        if \<not> truthy partition_name \<and> cl_volume_group_name v \<noteq> [] \<and> cl_volume_group_name v \<noteq> volume_group_id
        then raiseE (ArrayErr (VolumeAlreadyInVolumeGroup volume_id (cl_volume_group_name v)))
        else change_volume_group sv partition_name (if truthy partition_name then cl_name v else cl_id v)
               (Some volume_group_id))))"

definition svc_remove_volume_from_volume_group ::
  "'s svc \<Rightarrow> str \<Rightarrow> str option \<Rightarrow> str option \<Rightarrow> ('s svc_world, unit) prog" where
  "svc_remove_volume_from_volume_group sv volume_id partition_name partition_vg =
     registered sv ''remove_volume_from_volume_group''
       (bindE (get_cli_volume_by_wwn sv volume_id) (\<lambda>v.
        if truthy partition_name then change_volume_group sv partition_name (cl_name v) partition_vg
        else change_volume_group sv partition_name (cl_id v) None))"

subsection \<open>Properties\<close>

text \<open>
  C23. Promoting a volume group under policy-based replication ends with the production copy: if the
  storage system reports and changes the mode of the group as it is told, a copy in the mode recovery, independent
  or production is in the mode production afterwards; in any other mode the method reports success and
  changes nothing.
\<close>

theorem svc_ear_promotion:
  assumes supported: "is_earreplication_supported sv"
    and reported: "\<And>w. get_replication_mode sv vg w = (Inr (mode_of (sw_array w)), w)"
    and changed: "\<And>w m. chvolumegroupreplication sv vg [(''mode'', CStr m)] w = (Inr (), w\<lparr>sw_array := become m (sw_array w)\<rparr>)"
    and becomes: "\<And>s m. mode_of (become m s) = Some m"
  shows "\<exists>w'. promote_ear_replication_volume sv vg w = (Inr (), w') \<and>
     (if mode_of (sw_array w) \<in> Some ` {ENDPOINT_TYPE_RECOVERY, ENDPOINT_TYPE_INDEPENDENT, ENDPOINT_TYPE_PRODUCTION}
      then mode_of (sw_array w') = Some ENDPOINT_TYPE_PRODUCTION else w' = w)"
  by (auto simp: promote_ear_replication_volume_def supported bindE_def thenE_def reported changed becomes ret_def
      endpoint_defs)

definition example_group_svc :: "str option svc" where
  "example_group_svc = bare_svc (bare_client\<lparr>sc_has_command := (\<lambda>_. True),
     sc_lsvolumegroupreplication := (\<lambda>_ mode. (Inr (Some \<lparr>cr_replication_policy_name = ''policy'',
       cr_local_partition_location = None, cr_local_location = ''1'',
       cr_modes = (case mode of None \<Rightarrow> [] | Some m \<Rightarrow> [(''location1_replication_mode'', m)])\<rparr>), mode)),
     sc_task := (\<lambda>command kw mode. (Inr [], case map_of kw ''mode'' of Some (CStr m) \<Rightarrow> Some m | _ \<Rightarrow> mode))\<rparr>)"

theorem svc_ear_promotion_witness:
  "\<exists>w'. promote_ear_replication_volume example_group_svc (Some ''0'') (bare_world (Some ''recovery'')) = (Inr (), w') \<and>
     sw_array w' = Some ''production''"
proof -
  have supported: "is_earreplication_supported example_group_svc"
    by (simp add: is_earreplication_supported_def example_group_svc_def bare_defs)
  have reported: "get_replication_mode example_group_svc (Some ''0'') w = (Inr (id (sw_array w)), w)" for w
    by (cases "sw_array w")
       (simp_all add: get_replication_mode_def lsvolumegroupreplication_def volumegroup_errors_def on_cli_error_def
         example_group_svc_def bare_defs bindE_def catchE_def cli_def prog_simps mode_attribute_def truthy_def)
  have changed: "chvolumegroupreplication example_group_svc (Some ''0'') [(''mode'', CStr m)] w =
      (Inr (), w\<lparr>sw_array := (\<lambda>m _. Some m) m (sw_array w)\<rparr>)" for m w
    by (simp add: chvolumegroupreplication_def chvolumegroup_command_def run_task_def unless_warning_def
        on_cli_error_def svctask_def example_group_svc_def bare_defs bindE_def catchE_def cli_def prog_simps)
  have becomes: "id ((\<lambda>m _. Some m) m s) = Some m" for m :: str and s :: "str option" by simp
  show ?thesis
    using svc_ear_promotion [where sv = example_group_svc and vg = "Some ''0''" and mode_of = id
        and become = "\<lambda>m _. Some m" and w = "bare_world (Some ''recovery'')", OF supported reported changed becomes]
    by (simp add: endpoint_defs bare_defs)
qed

end
