(* ===== verification/SvcHosts.thy ===== *)
theory SvcHosts
  imports SvcVolumes
begin

text \<open>
  Hosts and mappings of the SVC mediator (\<open>array_action/array_mediator_svc.py\<close>): finding the host of
  a node by its ports, the LUN of a new mapping, mapping and unmapping, the ports of the storage
  system a host logs in to, and the definition of hosts with their ports and I/O groups.

  Sets of names and of connectivity types are lists without repetition; the text of an error shows
  the ports of the initiators.
\<close>

subsection \<open>Finding a host\<close>

definition get_host_ports :: "str list option \<Rightarrow> str list" where
  "get_host_ports attribute = (case attribute of None \<Rightarrow> [] | Some ps \<Rightarrow> ps)"

definition initiators_ports :: "initiators \<Rightarrow> str list" where
  "initiators_ports i = nvme_nqns i @ fc_wwns i @ iscsi_iqns i"

definition set_add :: "'a \<Rightarrow> 'a list \<Rightarrow> 'a list" where
  "set_add x xs = (if x \<in> set xs then xs else xs @ [x])"

text \<open>One step of the scan of all hosts: the last match per connectivity type.\<close>

record host_scan =
  hs_nvme :: "str option"
  hs_fc :: "str option"
  hs_iscsi :: "str option"
  hs_types :: "str list"

definition scan_host :: "initiators \<Rightarrow> cli_host \<Rightarrow> host_scan \<Rightarrow> host_scan" where
  "scan_host i h s =
     (let s = (if is_array_nvme_nqn_match i (get_host_ports (ch_nqn h))
               then s\<lparr>hs_nvme := Some (ch_name h), hs_types := set_add NVME_OVER_FC (hs_types s)\<rparr> else s);
          s = (if is_array_wwns_match i (get_host_ports (ch_WWPN h))
               then s\<lparr>hs_fc := Some (ch_name h), hs_types := set_add FC (hs_types s)\<rparr> else s)
      in if is_array_iscsi_iqns_match i (get_host_ports (ch_iscsi_name h))
         then s\<lparr>hs_iscsi := Some (ch_name h), hs_types := set_add ISCSI (hs_types s)\<rparr> else s)"

definition get_host_name_if_equal :: "str option \<Rightarrow> str option \<Rightarrow> str option \<Rightarrow> str option" where
  "get_host_name_if_equal nvme_host fc_host iscsi_host =
     (case remdups (filter (\<lambda>x. x \<noteq> None) [nvme_host, iscsi_host, fc_host]) of [x] \<Rightarrow> x | _ \<Rightarrow> None)"

definition get_detailed_hosts_list :: "'s svc \<Rightarrow> ('s svc_world, cli_host list) prog" where
  "get_detailed_hosts_list sv =
     bindE (cli (sc_lshost_ids (sv_client sv))) (\<lambda>ids.
     if ids = [] then ret []
     else cli (sc_send_raw_command (sv_client sv) (concat (map (\<lambda>i. ''lshost '' @ i @ '';echo;'') ids))))"

definition get_host_by_host_identifiers_slow :: "'s svc \<Rightarrow> initiators \<Rightarrow> ('s svc_world, str \<times> str list) prog" where
  "get_host_by_host_identifiers_slow sv i =
     bindE (get_detailed_hosts_list sv) (\<lambda>hosts.
     let s = fold (scan_host i) hosts \<lparr>hs_nvme = None, hs_fc = None, hs_iscsi = None, hs_types = []\<rparr> in
     if hs_types s = [] then raiseE (ArrayErr (HostNotFoundError (list_repr (initiators_ports i))))
     else let name = get_host_name_if_equal (hs_nvme s) (hs_fc s) (hs_iscsi s) in
          if \<not> truthy name
          then raiseE (ArrayErr (MultipleHostsFoundError (initiators_ports i)
                 (case hs_fc s of None \<Rightarrow> [] | Some h \<Rightarrow> [h])))
          else ret (the name, hs_types s))"

definition get_host_names_by_wwpn :: "'s svc \<Rightarrow> str \<Rightarrow> ('s svc_world, str list) prog" where
  "get_host_names_by_wwpn sv host_wwpn =
     bindE (cli (sc_lsfabric (sv_client sv) [(''wwpn'', CStr host_wwpn)])) (\<lambda>fabrics.
     bindE (liftR (mapR (\<lambda>f. case map_of f ''name'' of None \<Rightarrow> Inl (PyErr AttributeError) | Some n \<Rightarrow> Inr n) fabrics)) (\<lambda>names.
     ret (remdups (filter (\<lambda>n. n \<noteq> []) names))))"

definition get_host_names_by_nqn :: "'s svc \<Rightarrow> str \<Rightarrow> ('s svc_world, str list) prog" where
  "get_host_names_by_nqn sv nqn =
     (if \<not> sc_has_command (sv_client sv) ''lsnvmefabric'' then ret []
      else on_cli_error (bindE (cli (sc_lsnvmefabric (sv_client sv) [(''remotenqn'', CStr nqn)])) (\<lambda>ns. ret (remdups ns)))
             (\<lambda>msg e. if mentions msg [COMMAND_NOT_SUPPORTED] then ret [] else raiseE e))"

definition get_host_name_by_iqn :: "'s svc \<Rightarrow> str \<Rightarrow> ('s svc_world, str option) prog" where
  "get_host_name_by_iqn sv iqn =
     (if \<not> sc_has_command (sv_client sv) ''lshostiplogin'' then ret None
      else on_cli_error (cli (sc_lshostiplogin (sv_client sv) [(''object_id'', CStr iqn)]))
             (\<lambda>msg e. if mentions msg [SPECIFIED_OBJ_NOT_EXIST] then ret None else raiseE e))"

definition names_of_initiator :: "'s svc \<Rightarrow> str \<Rightarrow> str \<Rightarrow> ('s svc_world, str list) prog" where
  "names_of_initiator sv connectivity_type initiator =
     (if connectivity_type = NVME_OVER_FC then get_host_names_by_nqn sv initiator
      else if connectivity_type = FC then get_host_names_by_wwpn sv initiator
      else if connectivity_type = ISCSI
      then bindE (get_host_name_by_iqn sv initiator) (\<lambda>n. ret (if truthy n then [the n] else []))
      else ret [])"

fun get_host_names_and_connectivity_types ::
  "'s svc \<Rightarrow> (str \<times> str) list \<Rightarrow> str list \<Rightarrow> str list \<Rightarrow> ('s svc_world, str list \<times> str list) prog" where
  "get_host_names_and_connectivity_types sv [] names types = ret (names, types)"
| "get_host_names_and_connectivity_types sv ((t, p) # ps) names types =
     bindE (names_of_initiator sv t p) (\<lambda>ns.
       get_host_names_and_connectivity_types sv ps (fold set_add ns names)
         (if ns \<noteq> [] then set_add t types else types))"

definition svc_get_host_by_host_identifiers :: "'s svc \<Rightarrow> initiators \<Rightarrow> ('s svc_world, str \<times> str list) prog" where
  "svc_get_host_by_host_identifiers sv i =
     bindE (get_host_names_and_connectivity_types sv (initiators_iter i) [] []) (\<lambda>(names, types).
     case filter (\<lambda>n. n \<noteq> []) names of
       [] \<Rightarrow> get_host_by_host_identifiers_slow sv i
     | [n] \<Rightarrow> ret (n, types)
     | ns \<Rightarrow> raiseE (ArrayErr (MultipleHostsFoundError (initiators_ports i) ns)))"

definition get_cli_host :: "'s svc \<Rightarrow> str \<Rightarrow> ('s svc_world, cli_host) prog" where
  "get_cli_host sv id_or_name =
     bindE (cli (sc_lshost_single (sv_client sv) [(''object_id'', CStr id_or_name)])) (\<lambda>h. case h of
       None \<Rightarrow> raiseE (ArrayErr (HostNotFoundError id_or_name)) | Some h \<Rightarrow> ret h)"

definition svc_get_host_by_name :: "'s svc \<Rightarrow> str \<Rightarrow> ('s svc_world, host) prog" where
  "svc_get_host_by_name sv hname =
     bindE (get_cli_host sv hname) (\<lambda>h.
     let nqns = get_host_ports (ch_nqn h); wwns = get_host_ports (ch_WWPN h); iqns = get_host_ports (ch_iscsi_name h) in
     ret \<lparr>host_name = ch_name h,
          host_connectivity_types = (if nqns \<noteq> [] then [NVME_OVER_FC] else []) @ (if wwns \<noteq> [] then [FC] else []) @
            (if iqns \<noteq> [] then [ISCSI] else []),
          host_initiators = mk_initiators nqns wwns iqns\<rparr>)"

subsection \<open>Mappings and LUNs\<close>

definition svc_get_volume_mappings :: "'s svc \<Rightarrow> str \<Rightarrow> ('s svc_world, (str \<times> str) list) prog" where
  "svc_get_volume_mappings sv volume_id =
     bindE (get_volume_name_by_wwn sv volume_id) (\<lambda>volume_name.
     bindE (on_cli_error (cli (sc_lsvdiskhostmap (sv_client sv) [(''vdisk_name'', CStr volume_name)]))
              (\<lambda>msg e. raiseE (ArrayErr (ObjectNotFoundError volume_name)))) (\<lambda>rows.
     ret (fold (\<lambda>(h, lun) m. AList.update h lun m) rows [])))"

definition MAX_LUN_NUMBER :: int where "MAX_LUN_NUMBER = 511"
definition MAX_LUN_NUMBER_INCREMENT :: int where "MAX_LUN_NUMBER_INCREMENT = 512"
definition MIN_LUN_NUMBER :: int where "MIN_LUN_NUMBER = 0"
definition LUN_INTERVAL :: nat where "LUN_INTERVAL = 128"

text \<open>The highest LUN that is offered: 511, or the next 512 steps above it that cover the LUNs in use.\<close>

definition max_lun_number :: "int list \<Rightarrow> int" where
  "max_lun_number used =
     (let highest = foldl max 0 used;
          increments = (if MAX_LUN_NUMBER < highest
            then (highest - MAX_LUN_NUMBER + MAX_LUN_NUMBER_INCREMENT - 1) div MAX_LUN_NUMBER_INCREMENT else 0)
      in MAX_LUN_NUMBER + increments * MAX_LUN_NUMBER_INCREMENT)"

definition py_int_of :: "str \<Rightarrow> exn + int" where
  "py_int_of s = (case py_int s of None \<Rightarrow> Inl (PyErr ValueError) | Some n \<Rightarrow> Inr n)"

definition get_used_lun_ids_from_host :: "'s svc \<Rightarrow> str \<Rightarrow> ('s svc_world, str list \<times> int) prog" where
  "get_used_lun_ids_from_host sv hname =
     bindE (on_cli_error (cli (sc_lshostvdiskmap (sv_client sv) [(''host'', CStr hname)]))
              (\<lambda>msg e. raiseE (ArrayErr (HostNotFoundError hname)))) (\<lambda>luns.
     bindE (liftR (mapR py_int_of luns)) (\<lambda>used. ret (luns, max_lun_number used)))"

definition free_luns :: "int \<Rightarrow> str list \<Rightarrow> str list" where
  "free_luns max_lun luns_in_use =
     filter (\<lambda>l. l \<notin> set luns_in_use) (map int_str [MIN_LUN_NUMBER..max_lun])"

text \<open>\<open>choice(xs)\<close> of a non-empty list.\<close>

definition py_choice :: "'s svc \<Rightarrow> 'a list \<Rightarrow> ('s svc_world, 'a) prog" where
  "py_choice sv xs = bindE (cli (sc_random (sv_client sv) 0 (int (length xs) - 1))) (\<lambda>n. ret (xs ! nat n))"

definition get_free_lun :: "'s svc \<Rightarrow> str \<Rightarrow> ('s svc_world, str) prog" where
  "get_free_lun sv hname =
     bindE (get_used_lun_ids_from_host sv hname) (\<lambda>(luns_in_use, max_lun).
     let free = free_luns max_lun luns_in_use in
     if free \<noteq> [] then py_choice sv (take LUN_INTERVAL free)
     else bindE (cli (sc_random (sv_client sv) (max_lun + 1) (max_lun + MAX_LUN_NUMBER_INCREMENT))) (\<lambda>n. ret (int_str n)))"

lemma foldl_max_ge: "a \<le> foldl max a (xs :: int list) \<and> (\<forall>x \<in> set xs. x \<le> foldl max a xs)"
proof (induction xs arbitrary: a)
  case (Cons x xs)
  from Cons.IH [of "max a x"] show ?case by auto
qed simp

text \<open>Every LUN in use is at most the highest LUN that is offered.\<close>

lemma max_lun_number_ge:
  assumes "x \<in> set used"
  shows "x \<le> max_lun_number used"
proof -
  let ?h = "foldl max 0 used"
  have h: "x \<le> ?h" using foldl_max_ge [of 0 used] assms by blast
  show ?thesis
  proof (cases "MAX_LUN_NUMBER < ?h")
    case True
    have "?h - 511 \<le> (?h - 511 + 512 - 1) div 512 * 512"
      using div_mult_mod_eq [of "?h - 511 + 512 - 1" 512] pos_mod_bound [of 512 "?h - 511 + 512 - 1"] by linarith
    with h True show ?thesis
      by (simp add: max_lun_number_def MAX_LUN_NUMBER_def MAX_LUN_NUMBER_INCREMENT_def Let_def)
  next
    case False
    with h show ?thesis
      by (simp add: max_lun_number_def MAX_LUN_NUMBER_def MAX_LUN_NUMBER_INCREMENT_def Let_def)
  qed
qed

lemma max_lun_number_nonneg: "511 \<le> max_lun_number used"
  by (auto simp: max_lun_number_def MAX_LUN_NUMBER_def MAX_LUN_NUMBER_INCREMENT_def Let_def)

lemma free_luns_iff:
  "l \<in> set (free_luns m in_use) \<longleftrightarrow> l \<notin> set in_use \<and> (\<exists>n. l = int_str n \<and> 0 \<le> n \<and> n \<le> m)"
  by (auto simp: free_luns_def MIN_LUN_NUMBER_def)

interpretation svc_luns: lun_choice "\<lambda>in_use. take LUN_INTERVAL (free_luns m in_use)" for m
  by unfold_locales (auto simp: free_luns_iff dest: in_set_takeD)

lemma used_lun_ids_cases:
  assumes "get_used_lun_ids_from_host sv hname w = (Inr (luns, m), w')"
  obtains s used where "sc_lshostvdiskmap (sv_client sv) [(''host'', CStr hname)] (sw_array w) = (Inr luns, s)"
    "mapR py_int_of luns = Inr used" "m = max_lun_number used"
proof -
  let ?call = "cli (sc_lshostvdiskmap (sv_client sv) [(''host'', CStr hname)])"
  let ?h = "\<lambda>msg e. raiseE (ArrayErr (HostNotFoundError hname))"
  from assms obtain ls w1 where 1: "on_cli_error ?call ?h w = (Inr ls, w1)"
    and 2: "bindE (liftR (mapR py_int_of ls)) (\<lambda>used. ret (ls, max_lun_number used)) w1 = (Inr (luns, m), w')"
    unfolding get_used_lun_ids_from_host_def by (rule bindE_InrE)
  from 2 obtain used where u: "mapR py_int_of ls = Inr used" "ls = luns" "m = max_lun_number used"
    by (cases "mapR py_int_of ls") (auto simp: prog_simps)
  from 1 obtain s where "sc_lshostvdiskmap (sv_client sv) [(''host'', CStr hname)] (sw_array w) = (Inr ls, s)"
    by (auto simp: on_cli_error_def catchE_def cli_def prog_simps split: prod.splits sum.splits option.splits)
  with u that show ?thesis by blast
qed

lemma mapR_py_int_of: "mapR py_int_of luns = Inr used \<Longrightarrow> int_str n \<in> set luns \<Longrightarrow> n \<in> set used"
  by (induction luns arbitrary: used) (auto simp: bindR_Inr_iff py_int_of_def split: option.splits)



definition svc_map_volume :: "'s svc \<Rightarrow> str \<Rightarrow> str \<Rightarrow> str option \<Rightarrow> ('s svc_world, str) prog" where
  "svc_map_volume sv volume_id hname connectivity_type =
     registered sv ''map_volume''
       (bindE (get_volume_name_by_wwn sv volume_id) (\<lambda>volume_name.
        bindE (if connectivity_type \<noteq> Some NVME_OVER_FC then bindE (get_free_lun sv hname) (\<lambda>l. ret (Some l)) else ret None)
          (\<lambda>lun.
        let lun_text = (case lun of None \<Rightarrow> [] | Some l \<Rightarrow> l) in
        thenE
          (run_task sv ''mkvdiskhostmap''
             ([(''host'', CStr hname), (''object_id'', CStr volume_name), (''force'', CBool True)] @
              (case lun of None \<Rightarrow> [] | Some l \<Rightarrow> [(''scsi'', CStr l)]))
             (\<lambda>msg e.
                if mentions msg [NAME_NOT_EXIST_OR_MEET_RULES] then raiseE (ArrayErr (HostNotFoundError hname))
                else if mentions msg [SPECIFIED_OBJ_NOT_EXIST] then raiseE (ArrayErr (ObjectNotFoundError volume_name))
                else if mentions msg [LUN_ALREADY_IN_USE] then raiseE (ArrayErr (LunAlreadyInUseError lun_text hname))
                else if mentions msg [LUN_ID_IS_NOT_VALID] then raiseE (ArrayErr (NoAvailableLunError hname))
                else raiseE (ArrayErr (MappingError volume_name hname msg))))
          (ret lun_text))))"

definition svc_unmap_volume :: "'s svc \<Rightarrow> str \<Rightarrow> str \<Rightarrow> ('s svc_world, unit) prog" where
  "svc_unmap_volume sv volume_id hname =
     registered sv ''unmap_volume''
       (bindE (get_volume_name_by_wwn sv volume_id) (\<lambda>volume_name.
        run_task sv ''rmvdiskhostmap'' [(''host'', CStr hname), (''vdisk_id'', CStr volume_name)]
          (\<lambda>msg e.
             if mentions msg [NAME_NOT_EXIST_OR_MEET_RULES] then raiseE (ArrayErr (HostNotFoundError hname))
             else if mentions msg [OBJ_NOT_FOUND] then raiseE (ArrayErr (ObjectNotFoundError volume_name))
             else if mentions msg [VOL_ALREADY_UNMAPPED] then raiseE (ArrayErr (VolumeAlreadyUnmappedError volume_name))
             else if mentions msg [SPECIFIED_OBJ_NOT_EXIST]
             then raiseE (ArrayErr (VolumeNotMappedToHostError volume_name hname))
             else raiseE (ArrayErr (UnmappingError volume_name hname msg)))))"

subsection \<open>Ports of the storage system\<close>

definition get_array_iqns_by_node_id :: "'s svc \<Rightarrow> ('s svc_world, sdict) prog" where
  "get_array_iqns_by_node_id sv =
     bindE (cli (sc_lsnode (sv_client sv))) (\<lambda>nodes.
     ret (fold (\<lambda>n m. AList.update (cn_id n) (cn_iscsi_name n) m)
            (filter (\<lambda>n. py_lower (cn_status n) = ''online'') nodes) []))"

definition list_ip_ports :: "'s svc \<Rightarrow> str option \<Rightarrow> ('s svc_world, cli_port list) prog" where
  "list_ip_ports sv portset_id =
     on_cli_error
       (cli (if truthy portset_id
             then sc_lsip (sv_client sv) [(''filtervalue'', CStr (''portset_id='' @ the portset_id))]
             else sc_lsportip (sv_client sv) [(''filtervalue'', CStr ''state=configured:failover=no'')]))
       (\<lambda>msg e. raiseE (ArrayErr (NoIscsiTargetsFoundError (sv_endpoint sv))))"

text \<open>A dictionary of lists with a default: appending under a key.\<close>

definition dict_extend :: "str \<Rightarrow> str list \<Rightarrow> (str \<times> str list) list \<Rightarrow> (str \<times> str list) list" where
  "dict_extend k xs d = AList.update k (dict_get_or d k [] @ xs) d"

definition add_port_ips :: "cli_port \<Rightarrow> (str \<times> str list) list \<Rightarrow> (str \<times> str list) list" where
  "add_port_ips p d =
     (let d = (if truthy (po_IP_address p) then dict_extend (po_node_id p) [the (po_IP_address p)] d else d)
      in if truthy (po_IP_address_6 p) then dict_extend (po_node_id p) [''['' @ the (po_IP_address_6 p) @ '']''] d else d)"

definition create_ips_by_node_id_map :: "cli_port list \<Rightarrow> (str \<times> str list) list" where
  "create_ips_by_node_id_map ports = fold add_port_ips ports []"

definition unify_ips_by_iqn :: "sdict \<Rightarrow> (str \<times> str list) list \<Rightarrow> (str \<times> str list) list" where
  "unify_ips_by_iqn iqns_by_node_id ips_by_node_id =
     fold (\<lambda>(node_id, iqn) d. dict_extend iqn (dict_get_or ips_by_node_id node_id []) d) iqns_by_node_id []"

definition svc_get_iscsi_targets_by_iqn :: "'s svc \<Rightarrow> str \<Rightarrow> ('s svc_world, (str \<times> str list) list) prog" where
  "svc_get_iscsi_targets_by_iqn sv hname =
     bindE (get_array_iqns_by_node_id sv) (\<lambda>iqns.
     bindE (get_cli_host sv hname) (\<lambda>h.
     bindE (list_ip_ports sv (ch_portset_id h)) (\<lambda>ports.
     let ips_by_iqn = unify_ips_by_iqn iqns (create_ips_by_node_id_map ports) in
     if list_ex (\<lambda>(iqn, ips). ips \<noteq> []) ips_by_iqn then ret ips_by_iqn
     else raiseE (ArrayErr (NoIscsiTargetsFoundError (sv_endpoint sv))))))"

definition svc_get_nvme_target_ports :: "'s svc \<Rightarrow> ('s svc_world, str list) prog" where
  "svc_get_nvme_target_ports sv =
     bindE (cli (sc_lstargetportfc (sv_client sv))) (\<lambda>ports.
     ret (map (\<lambda>p. ''nn-'' @ py_lower (the (tp_WWNN p)) @ '':pn-'' @ py_lower (the (tp_WWPN p)))
       (filter (\<lambda>p. tp_protocol p = Some ''nvme'' \<and> tp_host_io_permitted p = Some YES \<and>
          truthy (tp_WWPN p) \<and> truthy (tp_WWNN p)) ports)))"

definition svc_get_array_fc_wwns :: "'s svc \<Rightarrow> str \<Rightarrow> ('s svc_world, str list) prog" where
  "svc_get_array_fc_wwns sv hname =
     bindE (cli (sc_lsfabric (sv_client sv) [(''host'', CStr hname)])) (\<lambda>rows.
     ret (map (\<lambda>r. dict_get_or r ''local_wwpn'' [])
       (filter (\<lambda>r. dict_get_or r ''state'' [] \<in> {''active'', ''inactive''}) rows)))"

subsection \<open>Defining hosts\<close>

definition is_port_invalid :: "str \<Rightarrow> bool" where
  "is_port_invalid msg = mentions msg [FC_PORT_IS_NOT_VALID, ISCSI_PORT_IS_NOT_VALID, NVME_PORT_IS_ALREADY_ASSIGNED]"

text \<open>The codes 200 and 400 of the source: whether the host was created with the port.\<close>

definition mkhost ::
  "'s svc \<Rightarrow> str \<Rightarrow> str option \<Rightarrow> str \<Rightarrow> str \<Rightarrow> str option \<Rightarrow> str option \<Rightarrow> ('s svc_world, bool) prog" where
  "mkhost sv hname connectivity_type port io_group partition_name port_set =
     bindE (liftR (build_create_host_kwargs (sv_port_set_env sv) hname connectivity_type port io_group partition_name port_set))
       (\<lambda>kw.
     on_cli_error (bindE (svctask sv ''mkhost'' kw) (\<lambda>_. ret True))
       (\<lambda>msg e.
          if mentions msg [NOT_VALID_IO_GROUP] then raiseE (ArrayErr (IoGroupIsInValid io_group))
          else if mentions msg [OBJ_ALREADY_EXIST] then raiseE (ArrayErr (HostAlreadyExists hname (sv_endpoint sv)))
          else if is_port_invalid msg then ret False
          else if mentions msg [OBJECT_NOT_OF_TYPE_OF_HOST, VALUE_TOO_LONG, ENTITY_DOES_NOT_EXIST] then ret False
          else bindE (liftR (is_warning_message msg)) (\<lambda>_. raiseE e)))"

definition rmhost :: "'s svc \<Rightarrow> str \<Rightarrow> ('s svc_world, unit) prog" where
  "rmhost sv hname = run_task sv ''rmhost'' [(''object_id'', CStr hname)] (\<lambda>msg e. raiseE e)"

text \<open>In a partition each port is tried with a host that is removed again.\<close>

fun verified_ports ::
  "'s svc \<Rightarrow> str \<Rightarrow> str option \<Rightarrow> str \<Rightarrow> str option \<Rightarrow> str option \<Rightarrow> str list \<Rightarrow> ('s svc_world, str list) prog" where
  "verified_ports sv hname t iog part portset [] = ret []"
| "verified_ports sv hname t iog part portset (p # ps) =
     bindE (mkhost sv hname t p iog part portset) (\<lambda>ok.
     thenE (if ok then rmhost sv hname else ret ())
       (bindE (verified_ports sv hname t iog part portset ps) (\<lambda>good. ret (if ok then p # good else good))))"

text \<open>The host is created with the first port that is valid.\<close>

fun create_with_first_port ::
  "'s svc \<Rightarrow> str \<Rightarrow> str option \<Rightarrow> str \<Rightarrow> str option \<Rightarrow> str option \<Rightarrow> str list \<Rightarrow> ('s svc_world, unit) prog" where
  "create_with_first_port sv hname t iog part portset [] = raiseE (ArrayErr (NoPortIsValid hname))"
| "create_with_first_port sv hname t iog part portset (p # ps) =
     bindE (mkhost sv hname t p iog part portset) (\<lambda>ok.
     if ok then ret () else create_with_first_port sv hname t iog part portset ps)"

definition svc_create_host ::
  "'s svc \<Rightarrow> str \<Rightarrow> initiators \<Rightarrow> str option \<Rightarrow> str \<Rightarrow> str option \<Rightarrow> str option \<Rightarrow> ('s svc_world, unit) prog" where
  "svc_create_host sv hname i connectivity_type io_group partition_name port_set =
     registered sv ''create_host''
       (bindE (liftR (get_connectivity_type_ports i connectivity_type)) (\<lambda>ports.
        bindE (if truthy partition_name
               then if io_group \<noteq> [] then raiseE (ArrayErr (UnSupportedParameterThroughPartition ''iogrp''))
                    else bindE (verified_ports sv hname connectivity_type io_group partition_name port_set ports) (\<lambda>good.
                         if good = [] then raiseE (ArrayErr (NoPortIsValid hname))
                         else ret [py_join (if connectivity_type = Some FC then '':'' else '','') good])
               else ret ports)
          (create_with_first_port sv hname connectivity_type io_group partition_name port_set)))"

definition svc_delete_host :: "'s svc \<Rightarrow> str \<Rightarrow> ('s svc_world, unit) prog" where
  "svc_delete_host sv hname = registered sv ''delete_host'' (rmhost sv hname)"

definition port_command :: "'s svc \<Rightarrow> str \<Rightarrow> str \<Rightarrow> str option \<Rightarrow> str \<Rightarrow> ('s svc_world, unit) prog" where
  "port_command sv command hname connectivity_type port =
     bindE (liftR (build_host_port_command_kwargs hname connectivity_type port)) (\<lambda>kw.
     on_cli_error (bindE (svctask sv command kw) (\<lambda>_. ret ()))
       (\<lambda>msg e. if is_port_invalid msg then ret ()
                else bindE (liftR (is_warning_message msg)) (\<lambda>_. raiseE e)))"

definition addhostport :: "'s svc \<Rightarrow> str \<Rightarrow> str option \<Rightarrow> str \<Rightarrow> ('s svc_world, unit) prog" where
  "addhostport sv = port_command sv ''addhostport''"

definition rmhostport :: "'s svc \<Rightarrow> str \<Rightarrow> str option \<Rightarrow> str \<Rightarrow> ('s svc_world, unit) prog" where
  "rmhostport sv = port_command sv ''rmhostport''"

definition raise_error_when_no_ports_added :: "'s svc \<Rightarrow> str \<Rightarrow> ('s svc_world, unit) prog" where
  "raise_error_when_no_ports_added sv hname =
     bindE (get_cli_host sv hname) (\<lambda>h.
     if ch_port_count h = 0 then thenE (svc_delete_host sv hname) (raiseE (ArrayErr (NoPortIsValid hname)))
     else ret ())"

definition svc_add_ports_to_host :: "'s svc \<Rightarrow> str \<Rightarrow> initiators \<Rightarrow> str option \<Rightarrow> ('s svc_world, unit) prog" where
  "svc_add_ports_to_host sv hname i connectivity_type =
     registered sv ''add_ports_to_host''
       (bindE (liftR (get_connectivity_type_ports i connectivity_type)) (\<lambda>ports.
        thenE (forE (addhostport sv hname connectivity_type) ports) (raise_error_when_no_ports_added sv hname)))"

definition svc_remove_ports_from_host :: "'s svc \<Rightarrow> str \<Rightarrow> str list \<Rightarrow> str option \<Rightarrow> ('s svc_world, unit) prog" where
  "svc_remove_ports_from_host sv hname ports connectivity_type =
     registered sv ''remove_ports_from_host'' (forE (rmhostport sv hname connectivity_type) ports)"

definition svc_get_host_connectivity_ports :: "'s svc \<Rightarrow> str \<Rightarrow> str option \<Rightarrow> ('s svc_world, str list) prog" where
  "svc_get_host_connectivity_ports sv hname connectivity_type =
     bindE (get_cli_host sv hname) (\<lambda>h.
     let ports = (if connectivity_type = Some NVME_OVER_FC then get_host_ports (ch_nqn h)
                  else if connectivity_type = Some FC then get_host_ports (ch_WWPN h)
                  else if connectivity_type = Some ISCSI then get_host_ports (ch_iscsi_name h) else [])
     in if ports \<noteq> [] then ret ports
        else raiseE (ArrayErr (UnsupportedConnectivityTypeError (opt_str connectivity_type))))"

definition svc_get_host_connectivity_type :: "'s svc \<Rightarrow> str \<Rightarrow> ('s svc_world, str option) prog" where
  "svc_get_host_connectivity_type sv hname =
     bindE (get_cli_host sv hname) (\<lambda>h.
     ret (if ch_nqn h \<noteq> None then Some NVME_OVER_FC
          else if ch_WWPN h \<noteq> None then Some FC
          else if ch_iscsi_name h \<noteq> None then Some ISCSI else None))"

definition io_group_command :: "'s svc \<Rightarrow> str \<Rightarrow> str \<Rightarrow> str \<Rightarrow> ('s svc_world, unit) prog" where
  "io_group_command sv command hname io_group =
     (if io_group = [] then ret ()
      else on_cli_error
        (bindE (svctask sv command [(''object_id'', CStr hname), (''iogrp'', CStr io_group)]) (\<lambda>_. ret ()))
        (\<lambda>msg e.
           if mentions msg [NAME_NOT_EXIST_OR_MEET_RULES] then raiseE (ArrayErr (HostNotFoundError hname))
           else if mentions msg [NOT_VALID_IO_GROUP] then raiseE (ArrayErr (IoGroupIsInValid io_group))
           else bindE (liftR (is_warning_message msg)) (\<lambda>warning. if warning then ret () else raiseE e)))"

definition svc_add_io_group_to_host :: "'s svc \<Rightarrow> str \<Rightarrow> str \<Rightarrow> ('s svc_world, unit) prog" where
  "svc_add_io_group_to_host sv = io_group_command sv ''addhostiogrp''"

definition svc_remove_io_group_from_host :: "'s svc \<Rightarrow> str \<Rightarrow> str \<Rightarrow> ('s svc_world, unit) prog" where
  "svc_remove_io_group_from_host sv = io_group_command sv ''rmhostiogrp''"

text \<open>The ids of the I/O groups; after a warning there is no row to read.\<close>

definition svc_get_host_io_group :: "'s svc \<Rightarrow> str \<Rightarrow> ('s svc_world, str list option) prog" where
  "svc_get_host_io_group sv hname =
     on_cli_error (bindE (cli (sc_lshostiogrp (sv_client sv) [(''object_id'', CStr hname)])) (\<lambda>(ids, names).
         ret (Some (py_split (CHR '' '') ids))))
       (\<lambda>msg e.
          if mentions msg [NAME_NOT_EXIST_OR_MEET_RULES] then raiseE (ArrayErr (HostNotFoundError hname))
          else bindE (liftR (is_warning_message msg)) (\<lambda>warning.
               if warning then raiseE (PyErr AttributeError) else raiseE e))"

definition svc_verify_host_partition :: "'s svc \<Rightarrow> str \<Rightarrow> str option \<Rightarrow> ('s svc_world, bool) prog" where
  "svc_verify_host_partition sv hname new_partition_name =
     bindE (get_cli_host sv hname) (\<lambda>h.
     ret ((if truthy (ch_partition_name h) then ch_partition_name h else None) = new_partition_name))"

definition svc_change_host_protocol :: "'s svc \<Rightarrow> str \<Rightarrow> str \<Rightarrow> ('s svc_world, unit) prog" where
  "svc_change_host_protocol sv hname protocol =
     on_cli_error (bindE (svctask sv ''chhost'' (build_change_host_protocol_kwargs hname protocol)) (\<lambda>_. ret ()))
       (\<lambda>msg e.
          if mentions msg [OBJ_NOT_FOUND] then raiseE (ArrayErr (HostNotFoundError hname))
          else if mentions msg [NOT_SUPPORTED_PARAMETER] then raiseE (ArrayErr (UnSupportedParameter ''protocol''))
          else if mentions msg [CANNOT_CHANGE_HOST_PROTOCOL_BECAUSE_OF_MAPPED_PORTS]
          then raiseE (ArrayErr (CannotChangeHostProtocolBecauseOfMappedPorts hname))
          else bindE (liftR (is_warning_message msg)) (\<lambda>_. raiseE e))"

end
