(* ===== verification/SvcMediator.thy ===== *)
theory SvcMediator
  imports SvcReplication SvcHosts Controller
begin

text \<open>
  The SVC mediator as a whole: the record of its operations, in the place of the methods of
  \<open>SVCArrayMediator\<close> (\<open>array_action/array_mediator_svc.py\<close>), and its properties.
\<close>

definition new_svc_mediator :: "str list \<Rightarrow> exn + str" where
  "new_svc_mediator endpoint =
     (case endpoint of [e] \<Rightarrow> Inr e
      | _ \<Rightarrow> Inl (ArrayErr (StorageManagementIPsNotSupportError (list_repr endpoint))))"

definition svc_mediator :: "'s svc \<Rightarrow> 's svc_world mediator" where
  "svc_mediator sv = \<lparr>
     md_limits = \<lparr>max_object_prefix_length = 20, max_object_name_length = 63, default_object_prefix = Some ''CSI''\<rparr>,
     md_minimal_volume_size_in_bytes = 512,
     md_maximal_volume_size_in_bytes = 256 * 1024 * 1024 * 1024 * 1024,
     md_max_lun_retries = 10,
     md_endpoint = sv_endpoint sv,
     md_get_volume = svc_get_volume sv,
     md_create_volume = svc_create_volume sv,
     md_copy_to_existing_volume = svc_copy_to_existing_volume sv,
     md_delete_volume = svc_delete_volume sv,
     md_expand_volume = svc_expand_volume sv,
     md_get_volume_mappings = svc_get_volume_mappings sv,
     md_map_volume = svc_map_volume sv,
     md_unmap_volume = svc_unmap_volume sv,
     md_get_snapshot = svc_get_snapshot sv,
     md_get_object_by_id = svc_get_object_by_id sv,
     md_get_group_object = (\<lambda>i. bindE (svc_get_group sv i) (\<lambda>g. ret (Some g))),
     md_create_snapshot = svc_create_snapshot sv,
     md_delete_snapshot = svc_delete_snapshot sv,
     md_get_iscsi_targets_by_iqn = svc_get_iscsi_targets_by_iqn sv,
     md_get_array_fc_wwns = svc_get_array_fc_wwns sv,
     md_get_nvme_target_ports = svc_get_nvme_target_ports sv,
     md_get_host_by_host_identifiers = svc_get_host_by_host_identifiers sv,
     md_get_host_by_name = svc_get_host_by_name sv,
     md_create_host = svc_create_host sv,
     md_delete_host = svc_delete_host sv,
     md_add_ports_to_host = svc_add_ports_to_host sv,
     md_remove_ports_from_host = svc_remove_ports_from_host sv,
     md_get_host_connectivity_ports = svc_get_host_connectivity_ports sv,
     md_get_host_connectivity_type = svc_get_host_connectivity_type sv,
     md_get_host_io_group = svc_get_host_io_group sv,
     md_add_io_group_to_host = svc_add_io_group_to_host sv,
     md_remove_io_group_from_host = svc_remove_io_group_from_host sv,
     md_change_host_protocol = svc_change_host_protocol sv,
     md_verify_host_partition = svc_verify_host_partition sv,
     md_validate_supported_space_efficiency = (\<lambda>se. liftR (svc_validate_supported_space_efficiency se)),
     md_get_replication = svc_get_replication sv,
     md_create_replication = svc_create_replication sv,
     md_delete_replication = svc_delete_replication sv,
     md_promote_replication_volume = svc_promote_replication_volume sv,
     md_demote_replication_volume = svc_demote_replication_volume sv,
     md_get_volume_group = (\<lambda>n. svc_get_group sv (Some n)),
     md_create_volume_group = svc_create_volume_group sv,
     md_delete_volume_group = svc_delete_volume_group sv,
     md_add_volume_to_volume_group = svc_add_volume_to_volume_group sv,
     md_remove_volume_from_volume_group = svc_remove_volume_from_volume_group sv,
     md_verify_volume_partition = (\<lambda>n a p. liftR (svc_verify_volume_partition n a p)),
     md_verify_volume_group_partition = (\<lambda>n a p. liftR (svc_verify_volume_group_partition n a p)),
     md_register_plugin = svc_register_plugin sv,
     md_get_array_initiators = (\<lambda>hname t.
       if t = Some NVME_OVER_FC then bindE (svc_get_nvme_target_ports sv) (\<lambda>ps. ret (PortList ps))
       else if t = Some FC then bindE (svc_get_array_fc_wwns sv hname) (\<lambda>ps. ret (PortList ps))
       else if t = Some ISCSI then bindE (svc_get_iscsi_targets_by_iqn sv hname) (\<lambda>ts. ret (TargetMap ts))
       else raiseE (ArrayErr (UnsupportedConnectivityTypeError (opt_str t))))\<rparr>"

text \<open>\<open>_get_array_initiators\<close> is the inherited method.\<close>

lemma svc_array_initiators_inherited:
  "md_get_array_initiators (svc_mediator sv) = abstract_get_array_initiators (svc_mediator sv)"
  by (intro ext) (simp add: svc_mediator_def abstract_get_array_initiators_def opt_str_def)

subsection \<open>Properties\<close>

text \<open>
  What the storage system reports of a volume made with some arguments: the kinds of its copies are
  those asked for.
\<close>

definition made_with :: "kwargs \<Rightarrow> cli_volume \<Rightarrow> bool" where
  "made_with kw v =
     (((cl_se_copy v = YES) = (map_of kw ''thin'' = Some (CBool True))) \<and>
      ((cl_compressed_copy v = YES) = (map_of kw ''compressed'' = Some (CBool True))) \<and>
      ((cl_deduplicated_copy v = Some YES) = (map_of kw ''deduplicated'' = Some (CBool True))))"

lemma se_kwargs_of_parameters:
  "k \<in> {''thin'', ''compressed'', ''deduplicated''} \<Longrightarrow>
   map_of (build_kwargs_from_parameters se pool iog vg name n) k = map_of (get_space_efficiency_kwargs se) k"
  by (auto simp: build_kwargs_from_parameters_def map_add_def split: option.splits)

text \<open>
  The space efficiency of a volume survives the round trip through the storage system: a volume made
  with the arguments for an accepted value, and reported with the copies that were asked for, is accepted as
  matching that value, in whatever letter case it was written; and a similar volume made with any of the values read
  back from it gets the same arguments.
\<close>

theorem svc_space_efficiency_roundtrip:
  assumes accepted: "svc_validate_supported_space_efficiency se = Inr ()"
    and made: "made_with (build_kwargs_from_parameters se pool io_group vg name n) v"
  shows "validate_space_efficiency_match se (get_cli_volume_space_efficiency_aliases v) = Inr () \<and>
     (\<forall>alias \<in> set (get_cli_volume_space_efficiency_aliases v).
        get_space_efficiency_kwargs (Some alias) = get_space_efficiency_kwargs se)"
proof -
  let ?kw = "get_space_efficiency_kwargs se"
  have made': "made_with ?kw v"
    using made by (simp add: made_with_def se_kwargs_of_parameters)
  let ?s = "py_lower (the se)"
  have cases: "\<not> truthy se \<or> truthy se \<and> (?s = ''thin'' \<or> ?s = ''thick'' \<or> ?s = ''compressed'' \<or> ?s = ''deduplicated'' \<or>
      ?s = ''dedup_thin'' \<or> ?s = ''dedup_compressed'')"
    using accepted by (auto simp: svc_validate_supported_space_efficiency_def space_efficiency_defs)
  have lower: "py_lower ''thin'' = ''thin''" "py_lower ''thick'' = ''thick''" "py_lower ''compressed'' = ''compressed''"
    "py_lower ''deduplicated'' = ''deduplicated''" "py_lower ''dedup_thin'' = ''dedup_thin''"
    "py_lower ''dedup_compressed'' = ''dedup_compressed''"
    by code_simp+
  from cases show ?thesis
    using made'
    by (elim disjE conjE)
       (simp_all add: made_with_def get_space_efficiency_kwargs_def get_cli_volume_space_efficiency_aliases_def
          validate_space_efficiency_match_def space_efficiency_defs lower truthy_def Let_def)
qed

theorem svc_space_efficiency_roundtrip_witness:
  "validate_space_efficiency_match (Some ''Thin'')
      (get_cli_volume_space_efficiency_aliases (example_cli_volume\<lparr>cl_se_copy := ''yes''\<rparr>)) = Inr ()"
proof -
  have "svc_validate_supported_space_efficiency (Some ''Thin'') = Inr ()" by code_simp
  moreover have "made_with (build_kwargs_from_parameters (Some ''Thin'') ''pool'' None None ''v'' 1024)
      (example_cli_volume\<lparr>cl_se_copy := ''yes''\<rparr>)"
    by code_simp
  ultimately show ?thesis by (blast dest: svc_space_efficiency_roundtrip)
qed

end
