(* ===== verification/Floats.thy ===== *)
theory Floats
  imports Prelude "HOL-Library.Log_Nat" Complex_Main
begin

text \<open>
  Python's floats, as far as the driver computes with them: a float is the rational number it stands for, and
  every operation gives the exact result rounded to 53 significant bits, ties to even.  Overflow, underflow,
  infinities and not-a-number do not occur with the sizes and percentages that are computed here.
\<close>

definition round_to_53_bits :: "nat \<Rightarrow> nat" where
  "round_to_53_bits n =
     (let e = floorlog 2 n - 53; q = n div 2 ^ e; r = n mod 2 ^ e
      in if 2 * r > 2 ^ e \<or> (2 * r = 2 ^ e \<and> odd q) then (q + 1) * 2 ^ e else q * 2 ^ e)"

lemma round_exact: "n < 2 ^ 53 \<Longrightarrow> round_to_53_bits n = n"
  by (simp add: round_to_53_bits_def floorlog_le_iff)

text \<open>
  The float nearest to \<open>p / q\<close>: the quotient is taken with more than 53 bits and one more bit that says
  whether anything was cut off.  The result is the numerator, and the exponent of its denominator \<open>2 ^ s\<close>.
\<close>

definition nearest_ratio :: "nat \<Rightarrow> nat \<Rightarrow> nat \<times> nat" where
  "nearest_ratio p q =
     (let s = floorlog 2 q + 55; n = p * 2 ^ s div q; sticky = (if p * 2 ^ s mod q = 0 then 0 else 1)
      in (round_to_53_bits (2 * n + sticky), s + 1))"

definition nearest_float :: "rat \<Rightarrow> rat" where
  "nearest_float x =
     (case quotient_of x of (p, q) \<Rightarrow>
      case nearest_ratio (nat \<bar>p\<bar>) (nat q) of (m, s) \<Rightarrow> of_int (sgn p * int m) / of_int (2 ^ s))"

text \<open>\<open>float(i)\<close>, \<open>i / j\<close> on integers, and \<open>int(x)\<close>.\<close>

definition float_of_int :: "int \<Rightarrow> rat" where
  "float_of_int i = of_int (sgn i * int (round_to_53_bits (nat \<bar>i\<bar>)))"

definition int_ratio :: "int \<Rightarrow> int \<Rightarrow> rat" where
  "int_ratio i j = nearest_float (of_int i / of_int j)"

definition float_mult :: "rat \<Rightarrow> rat \<Rightarrow> rat" where
  "float_mult x y = nearest_float (x * y)"

definition float_trunc :: "rat \<Rightarrow> int" where
  "float_trunc x = (if x < 0 then - \<lfloor>- x\<rfloor> else \<lfloor>x\<rfloor>)"

text \<open>The number a literal of a JSON text stands for: an optional sign, digits, a fraction and an exponent.\<close>

definition float_value :: "string \<Rightarrow> rat option" where
  "float_value r =
     (let neg = (r \<noteq> [] \<and> hd r = CHR ''-'');
          s = (if neg then tl r else r);
          whole = takeWhile is_digit s;
          s1 = dropWhile is_digit s;
          frac = (if s1 \<noteq> [] \<and> hd s1 = CHR ''.'' then takeWhile is_digit (tl s1) else []);
          s2 = (if s1 \<noteq> [] \<and> hd s1 = CHR ''.'' then dropWhile is_digit (tl s1) else s1);
          expo = (if s2 = [] then Some 0 else py_int (tl s2));
          digits = (rat_of_nat (digits_val (whole @ frac))) / 10 ^ length frac
      in if whole = [] then None
         else map_option (\<lambda>e. (if neg then -1 else 1) *
                (if e < 0 then digits / 10 ^ nat (- e) else digits * 10 ^ nat e)) expo)"

end
