(* ===== verification/Xiv.thy ===== *)
theory Xiv
  imports Controller Floats "HOL-Library.List_Lexorder" "HOL-Library.Char_ord"
begin

text \<open>
  The mediator of XIV and A9000 storage systems (\<open>array_action/array_mediator_xiv.py\<close>).  The command
  line client (pyxcli) is a third-party package and a parameter: \<open>xcli\<close> has one operation per command,
  over the state \<open>'s\<close> of the storage system, and \<open>xc_isinstance\<close>, which says of the names of two of its
  error classes whether an instance of the first is one of the second; an error of the client is
  \<open>Foreign\<close> with its class and its \<open>status\<close>.  Numeric attributes of rows are \<open>int\<close>.
\<close>

subsection \<open>The client\<close>

text \<open>\<open>xo_copy_master_wwn\<close> is \<open>None\<close> when the row has no such attribute (\<open>_is_gen3\<close>).\<close>

record xcli_object =
  xo_name :: str
  xo_wwn :: str
  xo_id :: str
  xo_capacity :: int
  xo_pool_name :: str
  xo_master_name :: str
  xo_copy_master_wwn :: "str option"

record xcli_host =
  xh_name :: str
  xh_fc_ports :: str
  xh_iscsi_ports :: str

record xcli_interface =
  xi_type :: str
  xi_address :: str
  xi_address6 :: str

record xcli_fc_port =
  xp_wwpn :: str
  xp_port_state :: str
  xp_role :: str

record 's xcli =
  xc_isinstance :: "str \<Rightarrow> str \<Rightarrow> bool"
  xc_vol_list :: "str \<Rightarrow> ('s, xcli_object option) prog"
  xc_vol_list_wwn :: "str \<Rightarrow> ('s, xcli_object option) prog"
  xc_vol_create :: "str \<Rightarrow> int \<Rightarrow> str \<Rightarrow> ('s, xcli_object) prog"
  xc_vol_resize :: "str \<Rightarrow> int \<Rightarrow> ('s, unit) prog"
  xc_vol_format :: "str \<Rightarrow> ('s, unit) prog"
  xc_vol_copy :: "str \<Rightarrow> str \<Rightarrow> ('s, unit) prog"
  xc_vol_delete :: "str \<Rightarrow> ('s, unit) prog"
  xc_snapshot_list :: "str \<Rightarrow> ('s, str list) prog"
  xc_snapshot_create :: "str \<Rightarrow> str \<Rightarrow> ('s, xcli_object) prog"
  xc_snapshot_delete :: "str \<Rightarrow> ('s, unit) prog"
  xc_host :: "str \<Rightarrow> ('s, xcli_host option) prog"
  xc_host_list :: "('s, xcli_host list) prog"
  xc_vol_mapping_list :: "str \<Rightarrow> ('s, (str \<times> str) list) prog"
  xc_mapping_list :: "str \<Rightarrow> ('s, str list) prog"
  xc_map_vol :: "str \<Rightarrow> str \<Rightarrow> int \<Rightarrow> ('s, unit) prog"
  xc_unmap_vol :: "str \<Rightarrow> str \<Rightarrow> ('s, unit) prog"
  xc_ipinterface_list :: "('s, xcli_interface list) prog"
  xc_config_get :: "('s, (str \<times> str) list) prog"
  xc_fc_port_list :: "('s, xcli_fc_port list) prog"
  xc_random :: "int \<Rightarrow> int \<Rightarrow> ('s, int) prog"

record 's xiv =
  xv_client :: "'s xcli"
  xv_endpoint :: "str list"

text \<open>The \<open>except\<close> clauses of a \<open>try\<close>: the first that names a class of the error handles it.\<close>

fun except_clauses ::
  "'s xcli \<Rightarrow> (str list \<times> (str \<Rightarrow> exn \<Rightarrow> ('s, 'a) prog)) list \<Rightarrow> exn \<Rightarrow> ('s, 'a) prog" where
  "except_clauses x [] e = raiseE e"
| "except_clauses x ((classes, h) # rest) e =
     (case e of
        Foreign cls status \<Rightarrow>
          if list_ex (xc_isinstance x cls) classes then h status e else except_clauses x rest e
      | _ \<Rightarrow> raiseE e)"

definition try_xcli ::
  "'s xiv \<Rightarrow> ('s, 'a) prog \<Rightarrow> (str list \<times> (str \<Rightarrow> exn \<Rightarrow> ('s, 'a) prog)) list \<Rightarrow> ('s, 'a) prog" where
  "try_xcli x m clauses = catchE m (except_clauses (xv_client x) clauses)"

text \<open>The clause that every such \<open>try\<close> has for a given class: it raises an error of the driver.\<close>

definition becomes :: "str \<Rightarrow> (str \<Rightarrow> array_error) \<Rightarrow> str list \<times> (str \<Rightarrow> exn \<Rightarrow> ('s, 'a) prog)" where
  "becomes cls err = ([cls], \<lambda>status e. raiseE (ArrayErr (err status)))"

definition LUN_IS_ALREADY_IN_USE_ERROR :: str where "LUN_IS_ALREADY_IN_USE_ERROR = ''LUN is already in use''"
definition UNDEFINED_MAPPING_ERROR :: str where "UNDEFINED_MAPPING_ERROR = ''The requested mapping is not defined''"
definition NO_ALLOCATION_SPACE_ERROR :: str where "NO_ALLOCATION_SPACE_ERROR = ''No space to allocate to the volume''"
definition NOT_AVAILABLE :: str where "NOT_AVAILABLE = ''Not Available''"
definition XIV_BLOCK_SIZE_IN_BYTES :: int where "XIV_BLOCK_SIZE_IN_BYTES = 512"
definition XIV_MAX_LUN_NUMBER :: int where "XIV_MAX_LUN_NUMBER = 250"
definition XIV_MIN_LUN_NUMBER :: int where "XIV_MIN_LUN_NUMBER = 1"

subsection \<open>Sizes\<close>

definition convert_size_blocks_to_bytes :: "int \<Rightarrow> int" where
  "convert_size_blocks_to_bytes size_in_blocks = size_in_blocks * XIV_BLOCK_SIZE_IN_BYTES"

text \<open>
  \<open>int(size_in_bytes / 512)\<close>: the division is one of floating point numbers, correctly rounded to 53
  significant bits (ties to even), and \<open>int\<close> drops what is after the point.  Dividing by a power of two
  only shifts the exponent, so the size itself is rounded.
\<close>

definition convert_size_bytes_to_blocks :: "int \<Rightarrow> int" where
  "convert_size_bytes_to_blocks size_in_bytes =
     sgn size_in_bytes * (int (round_to_53_bits (nat \<bar>size_in_bytes\<bar>)) div XIV_BLOCK_SIZE_IN_BYTES)"

subsection \<open>Looking up\<close>

definition is_gen3 :: "xcli_object \<Rightarrow> bool" where
  "is_gen3 cli_object = (xo_copy_master_wwn cli_object = None)"

definition get_cli_object_by_name :: "'s xiv \<Rightarrow> str \<Rightarrow> ('s, xcli_object option) prog" where
  "get_cli_object_by_name x name =
     try_xcli x (xc_vol_list (xv_client x) name) [becomes ''IllegalNameForObjectError'' InvalidArgumentError]"

definition get_snapshot_source_wwn :: "'s xiv \<Rightarrow> xcli_object \<Rightarrow> ('s, str) prog" where
  "get_snapshot_source_wwn x cli_snapshot =
     (case xo_copy_master_wwn cli_snapshot of
        None \<Rightarrow> bindE (get_cli_object_by_name x (xo_master_name cli_snapshot)) (\<lambda>source. case source of
                  None \<Rightarrow> raiseE (PyErr AttributeError) | Some s \<Rightarrow> ret (xo_wwn s))
      | Some wwn \<Rightarrow> ret wwn)"

definition get_volume_source_wwn :: "xcli_object \<Rightarrow> str option" where
  "get_volume_source_wwn cli_volume =
     (if is_gen3 cli_volume \<or> xo_copy_master_wwn cli_volume = Some NOT_AVAILABLE then None
      else xo_copy_master_wwn cli_volume)"

definition xiv_generate_volume_response :: "'s xiv \<Rightarrow> xcli_object \<Rightarrow> volume" where
  "xiv_generate_volume_response x v =
     \<lparr>vol_name = xo_name v, vol_id = xo_wwn v, vol_internal_id = xo_id v, vol_array_type = ARRAY_TYPE_XIV,
      vol_capacity_bytes = convert_size_blocks_to_bytes (xo_capacity v), vol_array_address = xv_endpoint x,
      vol_source_id = get_volume_source_wwn v, vol_pool = xo_pool_name v, vol_space_efficiency_aliases = [],
      vol_volume_group_id = None, vol_volume_group_name = None, vol_partition_name = None\<rparr>"

text \<open>The attribute \<open>pool\<close> of a snapshot is \<open>None\<close>, here the empty text.\<close>

definition xiv_generate_snapshot_response :: "'s xiv \<Rightarrow> xcli_object \<Rightarrow> ('s, snapshot) prog" where
  "xiv_generate_snapshot_response x s =
     bindE (get_snapshot_source_wwn x s) (\<lambda>source_id.
     ret \<lparr>vol_name = xo_name s, vol_id = xo_wwn s, vol_internal_id = xo_id s, vol_array_type = ARRAY_TYPE_XIV,
          vol_capacity_bytes = convert_size_blocks_to_bytes (xo_capacity s), vol_array_address = xv_endpoint x,
          vol_source_id = Some source_id, vol_pool = [], vol_space_efficiency_aliases = [],
          vol_volume_group_id = None, vol_volume_group_name = None, vol_partition_name = None, snap_is_ready = True\<rparr>)"

definition get_cli_object_by_wwn_if_exists :: "'s xiv \<Rightarrow> str \<Rightarrow> ('s, xcli_object option) prog" where
  "get_cli_object_by_wwn_if_exists x volume_id =
     try_xcli x (xc_vol_list_wwn (xv_client x) volume_id)
       [becomes ''IllegalValueForArgumentError'' InvalidArgumentError]"

definition get_cli_object_by_wwn :: "'s xiv \<Rightarrow> str \<Rightarrow> ('s, xcli_object) prog" where
  "get_cli_object_by_wwn x volume_id =
     bindE (get_cli_object_by_wwn_if_exists x volume_id) (\<lambda>v. case v of
       None \<Rightarrow> raiseE (ArrayErr (ObjectNotFoundError volume_id)) | Some c \<Rightarrow> ret c)"

definition get_object_name_by_wwn :: "'s xiv \<Rightarrow> str \<Rightarrow> ('s, str) prog" where
  "get_object_name_by_wwn x volume_id = bindE (get_cli_object_by_wwn x volume_id) (\<lambda>v. ret (xo_name v))"

subsection \<open>Volumes\<close>

definition xiv_get_volume :: "'s xiv \<Rightarrow> str \<Rightarrow> str option \<Rightarrow> bool \<Rightarrow> ('s, volume) prog" where
  "xiv_get_volume x name pool is_virt_snap_func =
     bindE (get_cli_object_by_name x name) (\<lambda>v. case v of
       None \<Rightarrow> raiseE (ArrayErr (ObjectNotFoundError name))
     | Some v \<Rightarrow>
         if xo_master_name v \<noteq> []
         then raiseE (ArrayErr (VolumeNameBelongsToSnapshotError name (list_repr (xv_endpoint x))))
         else ret (xiv_generate_volume_response x v))"

definition no_space_in :: "str \<Rightarrow> str list \<times> (str \<Rightarrow> exn \<Rightarrow> ('s, 'a) prog)" where
  "no_space_in pool = ([''CommandFailedRuntimeError''], \<lambda>status e.
     if py_contains status NO_ALLOCATION_SPACE_ERROR then raiseE (ArrayErr (NotEnoughSpaceInPool pool)) else raiseE e)"

definition xiv_expand_cli_volume :: "'s xiv \<Rightarrow> xcli_object \<Rightarrow> int \<Rightarrow> ('s, unit) prog" where
  "xiv_expand_cli_volume x v increase_in_blocks =
     try_xcli x (xc_vol_resize (xv_client x) (xo_name v) increase_in_blocks)
       [becomes ''VolumeBadNameError'' (\<lambda>_. ObjectNotFoundError (xo_id v)), no_space_in (xo_pool_name v)]"

definition xiv_expand_volume :: "'s xiv \<Rightarrow> str \<Rightarrow> int \<Rightarrow> str option \<Rightarrow> ('s, unit) prog" where
  "xiv_expand_volume x volume_id required_bytes partition_name =
     bindE (get_cli_object_by_wwn x volume_id) (\<lambda>v.
     xiv_expand_cli_volume x v (convert_size_bytes_to_blocks required_bytes))"

definition xiv_validate_supported_space_efficiency :: "str option \<Rightarrow> exn + unit" where
  "xiv_validate_supported_space_efficiency space_efficiency =
     raise_if (truthy space_efficiency) (ArrayErr (SpaceEfficiencyNotSupported (the space_efficiency)))"

definition xiv_create_volume ::
  "'s xiv \<Rightarrow> str \<Rightarrow> int \<Rightarrow> str option \<Rightarrow> str \<Rightarrow> str option \<Rightarrow> str option \<Rightarrow> object_ids \<Rightarrow> str option \<Rightarrow> bool \<Rightarrow>
    str option \<Rightarrow> str option \<Rightarrow> sdict \<Rightarrow> ('s, volume) prog" where
  "xiv_create_volume x name size_in_bytes space_efficiency pool io_group volume_group source_ids source_type
     is_virt_snap_func partition_name partition_vg extra_parameters =
     try_xcli x
       (bindE (xc_vol_create (xv_client x) name (convert_size_bytes_to_blocks size_in_bytes) pool) (\<lambda>v.
        ret (xiv_generate_volume_response x v)))
       [becomes ''IllegalNameForObjectError'' InvalidArgumentError,
        becomes ''VolumeExistsError'' (\<lambda>_. VolumeAlreadyExists name (list_repr (xv_endpoint x))),
        becomes ''PoolDoesNotExistError'' (\<lambda>_. PoolDoesNotExist pool (list_repr (xv_endpoint x))),
        becomes ''OperationForbiddenForUserCategoryError'' (\<lambda>_. PermissionDeniedError (''create volume : '' @ name)),
        no_space_in pool]"

definition xiv_copy_to_existing_volume :: "'s xiv \<Rightarrow> str \<Rightarrow> str \<Rightarrow> int \<Rightarrow> int \<Rightarrow> ('s, unit) prog" where
  "xiv_copy_to_existing_volume x volume_id source_id source_capacity_in_bytes minimum_volume_size_in_bytes =
     try_xcli x
       (bindE (get_object_name_by_wwn x volume_id) (\<lambda>name.
        bindE (get_object_name_by_wwn x source_id) (\<lambda>source_name.
        thenE (xc_vol_format (xv_client x) name)
       (thenE (xc_vol_copy (xv_client x) source_name name)
         (if source_capacity_in_bytes < minimum_volume_size_in_bytes
          then xc_vol_resize (xv_client x) name (convert_size_bytes_to_blocks minimum_volume_size_in_bytes)
          else ret ())))))
       [becomes ''IllegalNameForObjectError'' InvalidArgumentError,
        becomes ''SourceVolumeBadNameError'' (\<lambda>_. ObjectNotFoundError source_id),
        ([''VolumeBadNameError'', ''TargetVolumeBadNameError''],
         \<lambda>status e. raiseE (ArrayErr (ObjectNotFoundError volume_id))),
        becomes ''OperationForbiddenForUserCategoryError''
          (\<lambda>_. PermissionDeniedError (''copy to '' @ volume_id @ '' from source: '' @ source_id))]"

definition xiv_delete_volume :: "'s xiv \<Rightarrow> str \<Rightarrow> str option \<Rightarrow> ('s, unit) prog" where
  "xiv_delete_volume x volume_id partition_name =
     bindE (get_object_name_by_wwn x volume_id) (\<lambda>volume_name.
     bindE (xc_snapshot_list (xv_client x) volume_name) (\<lambda>cli_snapshots.
     if cli_snapshots \<noteq> [] then raiseE (ArrayErr (ObjectIsStillInUseError volume_id cli_snapshots))
     else try_xcli x (xc_vol_delete (xv_client x) volume_name)
       [becomes ''VolumeBadNameError'' (\<lambda>_. ObjectNotFoundError volume_name),
        becomes ''OperationForbiddenForUserCategoryError''
          (\<lambda>_. PermissionDeniedError (''delete volume : '' @ volume_name))]))"

subsection \<open>Snapshots\<close>

definition xiv_get_snapshot :: "'s xiv \<Rightarrow> str \<Rightarrow> str \<Rightarrow> str option \<Rightarrow> bool \<Rightarrow> ('s, snapshot option) prog" where
  "xiv_get_snapshot x volume_id snapshot_name pool is_virt_snap_func =
     bindE (get_cli_object_by_name x snapshot_name) (\<lambda>s. case s of
       None \<Rightarrow> ret None
     | Some s \<Rightarrow>
         if xo_master_name s = []
         then raiseE (ArrayErr (ExpectedSnapshotButFoundVolumeError (xo_name s) (list_repr (xv_endpoint x))))
         else bindE (xiv_generate_snapshot_response x s) (\<lambda>r. ret (Some r)))"

definition xiv_get_object_by_id :: "'s xiv \<Rightarrow> str \<Rightarrow> str option \<Rightarrow> bool \<Rightarrow> ('s, volume option) prog" where
  "xiv_get_object_by_id x object_id object_type is_virt_snap_func =
     bindE (get_cli_object_by_wwn_if_exists x object_id) (\<lambda>v. case v of
       None \<Rightarrow> ret None
     | Some v \<Rightarrow>
         if object_type = Some SNAPSHOT_TYPE_NAME
         then if xo_master_name v = []
              then raiseE (ArrayErr (ExpectedSnapshotButFoundVolumeError object_id (list_repr (xv_endpoint x))))
              else bindE (xiv_generate_snapshot_response x v) (\<lambda>r. ret (Some (volume.truncate r)))
         else ret (Some (xiv_generate_volume_response x v)))"

text \<open>A source that does not exist is not tested for: reading its pool or its name is an \<open>AttributeError\<close>.\<close>

definition xiv_create_snapshot ::
  "'s xiv \<Rightarrow> str \<Rightarrow> str \<Rightarrow> str option \<Rightarrow> str option \<Rightarrow> bool \<Rightarrow> str option \<Rightarrow> int option \<Rightarrow> ('s, snapshot) prog" where
  "xiv_create_snapshot x volume_id snapshot_name space_efficiency pool is_virt_snap_func partition_name pct =
     bindE (get_cli_object_by_wwn_if_exists x volume_id) (\<lambda>source. case source of
       None \<Rightarrow> raiseE (PyErr AttributeError)
     | Some source \<Rightarrow>
         if truthy pool \<and> pool \<noteq> Some (xo_pool_name source)
         then raiseE (ArrayErr (SnapshotSourcePoolMismatch (the pool) (xo_pool_name source)))
         else try_xcli x
           (bindE (xc_snapshot_create (xv_client x) snapshot_name (xo_name source)) (xiv_generate_snapshot_response x))
           [becomes ''IllegalNameForObjectError'' InvalidArgumentError,
            becomes ''VolumeExistsError'' (\<lambda>_. SnapshotAlreadyExists snapshot_name (list_repr (xv_endpoint x))),
            becomes ''VolumeBadNameError'' (\<lambda>_. ObjectNotFoundError volume_id),
            becomes ''OperationForbiddenForUserCategoryError''
              (\<lambda>_. PermissionDeniedError (''create snapshot '' @ snapshot_name @ '' from volume '' @ volume_id))])"

definition xiv_delete_snapshot :: "'s xiv \<Rightarrow> str \<Rightarrow> str option \<Rightarrow> str option \<Rightarrow> ('s, unit) prog" where
  "xiv_delete_snapshot x snapshot_id internal_snapshot_id partition_name =
     bindE (get_object_name_by_wwn x snapshot_id) (\<lambda>snapshot_name.
     try_xcli x (xc_snapshot_delete (xv_client x) snapshot_name)
       [becomes ''VolumeBadNameError'' (\<lambda>_. ObjectNotFoundError snapshot_name),
        becomes ''OperationForbiddenForUserCategoryError''
          (\<lambda>_. PermissionDeniedError (''delete snapshot : '' @ snapshot_name))])"

subsection \<open>Hosts and mappings\<close>

definition string_to_array :: "str \<Rightarrow> char \<Rightarrow> str list" where
  "string_to_array str_val separator = (if str_val = [] then [] else py_split separator str_val)"

definition xiv_get_host_by_name :: "'s xiv \<Rightarrow> str \<Rightarrow> ('s, host) prog" where
  "xiv_get_host_by_name x hname =
     bindE (xc_host (xv_client x) hname) (\<lambda>h. case h of
       None \<Rightarrow> raiseE (ArrayErr (HostNotFoundError hname))
     | Some h \<Rightarrow>
         let fc_wwns = string_to_array (xh_fc_ports h) (CHR '',''); iscsi_iqn = string_to_array (xh_iscsi_ports h) (CHR '','')
         in ret \<lparr>host_name = xh_name h,
                 host_connectivity_types = (if fc_wwns \<noteq> [] then [FC] else []) @ (if iscsi_iqn \<noteq> [] then [ISCSI] else []),
                 host_initiators = mk_initiators [] fc_wwns iscsi_iqn\<rparr>)"

text \<open>One step of the scan: the names of the matching hosts and the types of the matching ports.\<close>

definition match_host :: "initiators \<Rightarrow> xcli_host \<Rightarrow> str list \<times> str list \<Rightarrow> str list \<times> str list" where
  "match_host i h acc =
     (case acc of (names, types) \<Rightarrow>
        let by_fc = is_array_wwns_match i (string_to_array (xh_fc_ports h) (CHR '',''));
            by_iscsi = is_array_iscsi_iqns_match i (string_to_array (xh_iscsi_ports h) (CHR '',''))
        in (names @ (if by_fc then [xh_name h] else []) @ (if by_iscsi then [xh_name h] else []),
            types @ (if by_fc then [FC] else []) @ (if by_iscsi then [ISCSI] else [])))"

definition xiv_get_host_by_host_identifiers :: "'s xiv \<Rightarrow> initiators \<Rightarrow> ('s, str \<times> str list) prog" where
  "xiv_get_host_by_host_identifiers x i =
     bindE (xc_host_list (xv_client x)) (\<lambda>hosts.
     case fold (match_host i) hosts ([], []) of (names, types) \<Rightarrow>
       (case sort (remdups names) of
          [] \<Rightarrow> raiseE (ArrayErr (HostNotFoundError (list_repr (map snd (initiators_iter i)))))
        | [n] \<Rightarrow> ret (n, types)
        | ns \<Rightarrow> raiseE (ArrayErr (MultipleHostsFoundError (map snd (initiators_iter i)) ns))))"

definition xiv_get_volume_mappings :: "'s xiv \<Rightarrow> str \<Rightarrow> ('s, (str \<times> str) list) prog" where
  "xiv_get_volume_mappings x volume_id =
     bindE (get_object_name_by_wwn x volume_id) (\<lambda>vol_name.
     bindE (xc_vol_mapping_list (xv_client x) vol_name) (\<lambda>rows.
     ret (fold (\<lambda>(h, lun) m. AList.update h lun m) rows [])))"

definition available_luns :: "int list \<Rightarrow> int list" where
  "available_luns luns_in_use = filter (\<lambda>i. i \<notin> set luns_in_use) [XIV_MIN_LUN_NUMBER..XIV_MAX_LUN_NUMBER]"

definition get_next_available_lun :: "'s xiv \<Rightarrow> str \<Rightarrow> ('s, int) prog" where
  "get_next_available_lun x hname =
     bindE (try_xcli x (xc_mapping_list (xv_client x) hname)
              [becomes ''HostBadNameError'' (\<lambda>_. HostNotFoundError hname)]) (\<lambda>rows.
     bindE (liftR (mapR (\<lambda>l. case py_int l of None \<Rightarrow> Inl (PyErr ValueError) | Some n \<Rightarrow> Inr n) rows)) (\<lambda>luns_in_use.
     let available = available_luns luns_in_use in
     if available = [] then raiseE (ArrayErr (NoAvailableLunError hname))
     else bindE (xc_random (xv_client x) 0 (int (length available) - 1)) (\<lambda>index. ret (available ! nat index))))"

definition xiv_map_volume :: "'s xiv \<Rightarrow> str \<Rightarrow> str \<Rightarrow> str option \<Rightarrow> ('s, str) prog" where
  "xiv_map_volume x volume_id hname connectivity_type =
     bindE (get_object_name_by_wwn x volume_id) (\<lambda>vol_name.
     bindE (get_next_available_lun x hname) (\<lambda>lun.
     thenE
       (try_xcli x (xc_map_vol (xv_client x) hname vol_name lun)
          [becomes ''OperationForbiddenForUserCategoryError''
             (\<lambda>_. PermissionDeniedError (''map volume : '' @ volume_id @ '' to host : '' @ hname)),
           becomes ''VolumeBadNameError'' (\<lambda>_. ObjectNotFoundError vol_name),
           becomes ''HostBadNameError'' (\<lambda>_. HostNotFoundError hname),
           ([''CommandFailedRuntimeError''], \<lambda>status e.
              if py_contains status LUN_IS_ALREADY_IN_USE_ERROR
              then raiseE (ArrayErr (LunAlreadyInUseError (int_str lun) hname))
              else raiseE (ArrayErr (MappingError vol_name hname status)))])
       (ret (int_str lun))))"

definition xiv_unmap_volume :: "'s xiv \<Rightarrow> str \<Rightarrow> str \<Rightarrow> ('s, unit) prog" where
  "xiv_unmap_volume x volume_id hname =
     bindE (get_object_name_by_wwn x volume_id) (\<lambda>volume_name.
     try_xcli x (xc_unmap_vol (xv_client x) hname volume_name)
       [becomes ''VolumeBadNameError'' (\<lambda>_. ObjectNotFoundError volume_name),
        becomes ''HostBadNameError'' (\<lambda>_. HostNotFoundError hname),
        becomes ''OperationForbiddenForUserCategoryError''
          (\<lambda>_. PermissionDeniedError (''unmap volume : '' @ volume_id @ '' from host : '' @ hname)),
        ([''CommandFailedRuntimeError''], \<lambda>status e.
           if py_contains status UNDEFINED_MAPPING_ERROR
           then raiseE (ArrayErr (VolumeAlreadyUnmappedError volume_name))
           else raiseE (ArrayErr (UnmappingError volume_name hname status)))])"

subsection \<open>Ports of the storage system\<close>

definition interface_ips :: "xcli_interface \<Rightarrow> str list" where
  "interface_ips i = (if xi_address i \<noteq> [] then [xi_address i] else []) @
     (if xi_address6 i \<noteq> [] then [''['' @ xi_address6 i @ '']''] else [])"

definition get_iscsi_targets :: "'s xiv \<Rightarrow> ('s, str list) prog" where
  "get_iscsi_targets x =
     bindE (xc_ipinterface_list (xv_client x)) (\<lambda>is.
     ret (concat (map interface_ips (filter (\<lambda>i. xi_type i = ''iSCSI'') is))))"

definition get_array_iqn :: "'s xiv \<Rightarrow> ('s, str) prog" where
  "get_array_iqn x =
     bindE (xc_config_get (xv_client x)) (\<lambda>config. case map_of config ''iscsi_name'' of
       None \<Rightarrow> raiseE (PyErr StopIteration) | Some v \<Rightarrow> ret v)"

definition xiv_get_iscsi_targets_by_iqn :: "'s xiv \<Rightarrow> str \<Rightarrow> ('s, (str \<times> str list) list) prog" where
  "xiv_get_iscsi_targets_by_iqn x hname =
     bindE (get_array_iqn x) (\<lambda>array_iqn. bindE (get_iscsi_targets x) (\<lambda>targets. ret [(array_iqn, targets)]))"

definition xiv_get_array_fc_wwns :: "'s xiv \<Rightarrow> str \<Rightarrow> ('s, str list) prog" where
  "xiv_get_array_fc_wwns x hname =
     bindE (xc_fc_port_list (xv_client x)) (\<lambda>ports.
     ret (map xp_wwpn (filter (\<lambda>p. xp_port_state p = ''Online'' \<and> xp_role p = ''Target'') ports)))"

text \<open>\<open>get_fully_qualified_serial\<close>.\<close>

definition get_fully_qualified_serial :: "'s xiv \<Rightarrow> ('s, str) prog" where
  "get_fully_qualified_serial x =
     bindE (xc_config_get (xv_client x)) (\<lambda>config.
     case (map_of config ''machine_type'', map_of config ''machine_model'', map_of config ''machine_serial_number'') of
       (Some t, Some m, Some n) \<Rightarrow> ret (t @ ''-'' @ m @ ''-'' @ n)
     | (t, m, n) \<Rightarrow> raiseE (PyErr (KeyError (if t = None then ''machine_type'' else if m = None then ''machine_model''
                      else ''machine_serial_number''))))"

subsection \<open>The mediator\<close>

text \<open>
  Operations on hosts and replication raise \<open>NotImplementedError\<close>, as in the interface; the class has no
  operations on volume groups at all, so calling one is an \<open>AttributeError\<close>.  The checks of a partition
  accept everything and registration does nothing.
\<close>

definition xiv_mediator :: "'s xiv \<Rightarrow> 's mediator" where
  "xiv_mediator x =
     (let base = (array_mediator_interface (list_repr (xv_endpoint x)))\<lparr>
        md_limits := \<lparr>max_object_prefix_length = 20, max_object_name_length = 63, default_object_prefix = None\<rparr>,
        md_minimal_volume_size_in_bytes := 1024 * 1024 * 1024,
        md_maximal_volume_size_in_bytes := 1024 * 1024 * 1024 * 1024 * 1024,
        md_max_lun_retries := 10,
        md_get_volume := xiv_get_volume x,
        md_create_volume := xiv_create_volume x,
        md_copy_to_existing_volume := xiv_copy_to_existing_volume x,
        md_delete_volume := xiv_delete_volume x,
        md_expand_volume := xiv_expand_volume x,
        md_get_volume_mappings := xiv_get_volume_mappings x,
        md_map_volume := xiv_map_volume x,
        md_unmap_volume := xiv_unmap_volume x,
        md_get_snapshot := xiv_get_snapshot x,
        md_get_object_by_id := xiv_get_object_by_id x,
        md_create_snapshot := xiv_create_snapshot x,
        md_delete_snapshot := xiv_delete_snapshot x,
        md_get_iscsi_targets_by_iqn := xiv_get_iscsi_targets_by_iqn x,
        md_get_array_fc_wwns := xiv_get_array_fc_wwns x,
        md_get_host_by_host_identifiers := xiv_get_host_by_host_identifiers x,
        md_get_host_by_name := xiv_get_host_by_name x,
        md_validate_supported_space_efficiency := (\<lambda>se. liftR (xiv_validate_supported_space_efficiency se)),
        md_get_volume_group := (\<lambda>_. raiseE (PyErr AttributeError)),
        md_create_volume_group := (\<lambda>_ _. raiseE (PyErr AttributeError)),
        md_delete_volume_group := (\<lambda>_. raiseE (PyErr AttributeError)),
        md_add_volume_to_volume_group := (\<lambda>_ _ _. raiseE (PyErr AttributeError)),
        md_remove_volume_from_volume_group := (\<lambda>_ _ _. raiseE (PyErr AttributeError)),
        md_verify_host_partition := (\<lambda>_ _. ret True),
        md_verify_volume_partition := (\<lambda>_ _ _. ret ()),
        md_verify_volume_group_partition := (\<lambda>_ _ _. ret ()),
        md_register_plugin := (\<lambda>_ _. ret ())\<rparr>
      in base\<lparr>md_get_array_initiators := abstract_get_array_initiators base\<rparr>)"

subsection \<open>Properties\<close>

lemma blocks_of_bytes: "0 \<le> n \<Longrightarrow> n < 2 ^ 53 \<Longrightarrow> convert_size_bytes_to_blocks n = n div 512"
  by (cases "n = 0")
     (simp_all add: convert_size_bytes_to_blocks_def round_exact nat_less_iff XIV_BLOCK_SIZE_IN_BYTES_def)

lemma bytes_of_blocks_of_bytes:
  assumes "0 \<le> n" "n < 2 ^ 53"
  shows "convert_size_blocks_to_bytes (convert_size_bytes_to_blocks n) = n - n mod 512"
  by (simp add: blocks_of_bytes [OF assms] convert_size_blocks_to_bytes_def XIV_BLOCK_SIZE_IN_BYTES_def
      minus_mod_eq_div_mult)

text \<open>When every clause of a \<open>try\<close> raises, a result is that of the body.\<close>

lemma except_clauses_result:
  "except_clauses c clauses e t = (Inr v, s') \<Longrightarrow> \<exists>(cs, h) \<in> set clauses. \<exists>st. h st e t = (Inr v, s')"
  by (induction clauses) (auto simp: raiseE_def split: exn.splits if_splits)

lemma try_xcli_result:
  "try_xcli x m clauses s = (Inr v, s') \<Longrightarrow>
   m s = (Inr v, s') \<or> (\<exists>e t. \<exists>(cs, h) \<in> set clauses. \<exists>st. h st e t = (Inr v, s'))"
  using except_clauses_result
  by (fastforce simp: try_xcli_def catchE_def split: prod.splits sum.splits)

lemma xiv_create_volume_result:
  assumes "xiv_create_volume x name n se pool iog vg ids st virt p pvg extra s = (Inr v, s')"
  shows "\<exists>w. xc_vol_create (xv_client x) name (convert_size_bytes_to_blocks n) pool s = (Inr w, s') \<and>
    v = xiv_generate_volume_response x w"
  using assms unfolding xiv_create_volume_def
  by (auto dest!: try_xcli_result simp: becomes_def no_space_in_def raiseE_def ret_def elim!: bindE_InrE split: if_splits)

text \<open>
  The size of a new volume: when the storage system makes a volume of as many blocks as it is asked for,
  the volume is at most as large as requested, less than a block smaller, and as large as requested only when the
  request is a whole number of blocks.  (The sizes are those below the precision of a floating point number,
  which includes all that are allowed.)
\<close>

theorem xiv_new_volume_size:
  assumes created: "\<And>name blocks pool s v s'. xc_vol_create (xv_client x) name blocks pool s = (Inr v, s') \<Longrightarrow>
      xo_capacity v = blocks"
    and run: "xiv_create_volume x name n se pool iog vg ids st virt p pvg extra s = (Inr v, s')"
    and "0 \<le> n" "n < 2 ^ 53"
  shows "vol_capacity_bytes v \<le> n \<and> n < vol_capacity_bytes v + 512 \<and> (vol_capacity_bytes v = n \<longleftrightarrow> 512 dvd n)"
proof -
  have c: "vol_capacity_bytes v = n - n mod 512"
    using xiv_create_volume_result [OF run] created bytes_of_blocks_of_bytes [OF assms(3,4)]
    by (auto simp: xiv_generate_volume_response_def)
  moreover have "0 \<le> n mod 512" "n mod 512 < 512" by simp_all
  ultimately show ?thesis by (auto simp: dvd_eq_mod_eq_0)
qed

definition bare_xcli :: "'s xcli" where
  "bare_xcli = \<lparr>
     xc_isinstance = (\<lambda>cls C. cls = C),
     xc_vol_list = (\<lambda>_. ret None),
     xc_vol_list_wwn = (\<lambda>_. ret None),
     xc_vol_create = (\<lambda>name blocks pool. ret \<lparr>xo_name = name, xo_wwn = ''6001'', xo_id = ''1'', xo_capacity = blocks,
        xo_pool_name = pool, xo_master_name = [], xo_copy_master_wwn = None\<rparr>),
     xc_vol_resize = (\<lambda>_ _. ret ()),
     xc_vol_format = (\<lambda>_. ret ()),
     xc_vol_copy = (\<lambda>_ _. ret ()),
     xc_vol_delete = (\<lambda>_. ret ()),
     xc_snapshot_list = (\<lambda>_. ret []),
     xc_snapshot_create = (\<lambda>_ _. raiseE (Foreign ''VolumeBadNameError'' [])),
     xc_snapshot_delete = (\<lambda>_. ret ()),
     xc_host = (\<lambda>_. ret None),
     xc_host_list = ret [],
     xc_vol_mapping_list = (\<lambda>_. ret []),
     xc_mapping_list = (\<lambda>_. ret [''1'', ''2'']),
     xc_map_vol = (\<lambda>_ _ _. ret ()),
     xc_unmap_vol = (\<lambda>_ _. ret ()),
     xc_ipinterface_list = ret [],
     xc_config_get = ret [],
     xc_fc_port_list = ret [],
     xc_random = (\<lambda>lo hi. ret lo)\<rparr>"

theorem xiv_new_volume_size_witness:
  "\<exists>v. fst (xiv_create_volume \<lparr>xv_client = bare_xcli, xv_endpoint = [''xiv'']\<rparr> ''v'' 1030 None ''pool'' None None
       \<lparr>ids_internal_id = None, ids_uid = None\<rparr> None False None None [] ()) = Inr v \<and> vol_capacity_bytes v \<noteq> 1030"
proof -
  let ?x = "\<lparr>xv_client = bare_xcli, xv_endpoint = [''xiv'']\<rparr> :: unit xiv"
  let ?run = "xiv_create_volume ?x ''v'' 1030 None ''pool'' None None \<lparr>ids_internal_id = None, ids_uid = None\<rparr>
    None False None None [] ()"
  obtain v where run: "?run = (Inr v, ())"
    by (simp add: xiv_create_volume_def try_xcli_def bare_xcli_def bindE_def catchE_def ret_def)
  have law: "xo_capacity v = blocks" if "xc_vol_create (xv_client ?x) name blocks pool s = (Inr v, s')"
    for name blocks pool s v s'
    using that by (auto simp: bare_xcli_def ret_def)
  have "vol_capacity_bytes v \<noteq> 1030"
    using xiv_new_volume_size [OF law run] by simp
  with run show ?thesis by auto
qed

lemma xiv_mediator_fields:
  assumes "mediator.truncate md = xiv_mediator x"
  shows "md_get_volume md = xiv_get_volume x" "md_create_volume md = xiv_create_volume x"
    "md_validate_supported_space_efficiency md = (\<lambda>se. liftR (xiv_validate_supported_space_efficiency se))"
    "md_verify_volume_partition md = (\<lambda>_ _ _. ret ())" "md_maximal_volume_size_in_bytes md = 1024 ^ 5"
    "md_limits md = \<lparr>max_object_prefix_length = 20, max_object_name_length = 63, default_object_prefix = None\<rparr>"
proof -
  have "md_get_volume md = md_get_volume (mediator.truncate md)" "md_create_volume md = md_create_volume (mediator.truncate md)"
    "md_validate_supported_space_efficiency md = md_validate_supported_space_efficiency (mediator.truncate md)"
    "md_verify_volume_partition md = md_verify_volume_partition (mediator.truncate md)"
    "md_maximal_volume_size_in_bytes md = md_maximal_volume_size_in_bytes (mediator.truncate md)"
    "md_limits md = md_limits (mediator.truncate md)"
    by (simp_all add: mediator.truncate_def)
  then show "md_get_volume md = xiv_get_volume x" "md_create_volume md = xiv_create_volume x"
    "md_validate_supported_space_efficiency md = (\<lambda>se. liftR (xiv_validate_supported_space_efficiency se))"
    "md_verify_volume_partition md = (\<lambda>_ _ _. ret ())" "md_maximal_volume_size_in_bytes md = 1024 ^ 5"
    "md_limits md = \<lparr>max_object_prefix_length = 20, max_object_name_length = 63, default_object_prefix = None\<rparr>"
    unfolding assms by (simp_all add: xiv_mediator_def Let_def)
qed


definition example_xcli :: "xcli_object list xcli" where
  "example_xcli = bare_xcli
     \<lparr>xc_vol_list := (\<lambda>name s. (Inr (find (\<lambda>v. xo_name v = name) s), s)),
      xc_vol_create := (\<lambda>name blocks pool s.
         let v = \<lparr>xo_name = name, xo_wwn = ''6001'', xo_id = ''1'', xo_capacity = blocks, xo_pool_name = pool,
                  xo_master_name = [], xo_copy_master_wwn = None\<rparr> in (Inr v, s @ [v]))\<rparr>"


interpretation xiv_luns: lun_choice available_luns
  by unfold_locales (simp add: available_luns_def)

text \<open>
  The LUN of a new mapping: when \<open>randint\<close> stays within its bounds, it is one from 1 to 250
  that no mapping of the host uses, and there is none exactly when all of these are in use.
\<close>

theorem xiv_lun_fresh:
  assumes random: "\<And>lo hi s n s'. xc_random (xv_client x) lo hi s = (Inr n, s') \<Longrightarrow> lo \<le> hi \<Longrightarrow> lo \<le> n \<and> n \<le> hi"
    and listed: "xc_mapping_list (xv_client x) hname s = (Inr (map int_str luns), s1)"
  shows "(case get_next_available_lun x hname s of
       (Inr lun, s') \<Rightarrow> lun \<notin> set luns \<and> 1 \<le> lun \<and> lun \<le> 250
     | (Inl e, s') \<Rightarrow> {1..250} \<subseteq> set luns \<longrightarrow> e = ArrayErr (NoAvailableLunError hname))"
proof -
  have rows: "mapR (\<lambda>l. case py_int l of None \<Rightarrow> Inl (PyErr ValueError) | Some n \<Rightarrow> Inr n) (map int_str luns) = Inr luns"
    by (induction luns) auto
  have run: "get_next_available_lun x hname s =
      (if available_luns luns = [] then (Inl (ArrayErr (NoAvailableLunError hname)), s1)
       else bindE (xc_random (xv_client x) 0 (int (length (available_luns luns)) - 1))
              (\<lambda>index. ret (available_luns luns ! nat index)) s1)"
    by (simp add: get_next_available_lun_def try_xcli_def catchE_def bindE_def listed rows raiseE_def ret_def liftR_def Let_def)
  show ?thesis
  proof (cases "available_luns luns = []")
    case True
    then show ?thesis by (simp add: run)
  next
    case False
    obtain r s2 where r: "xc_random (xv_client x) 0 (int (length (available_luns luns)) - 1) s1 = (r, s2)" by force
    show ?thesis
    proof (cases r)
      case (Inl e)
      have "\<not> {1..250} \<subseteq> set luns"
        using False by (fastforce simp: available_luns_def XIV_MIN_LUN_NUMBER_def XIV_MAX_LUN_NUMBER_def filter_empty_conv)
      with False Inl r show ?thesis by (simp add: run bindE_def)
    next
      case (Inr n)
      have "1 \<le> int (length (available_luns luns))" using False by (cases "available_luns luns") auto
      then have "0 \<le> n \<and> n \<le> int (length (available_luns luns)) - 1"
        using random [OF r [unfolded Inr]] by linarith
      then have i: "nat n < length (available_luns luns)" by linarith
      then have "available_luns luns ! nat n \<in> set (available_luns luns)" by simp
      then show ?thesis
        using False Inr r xiv_luns.chosen_fresh [OF i]
        by (simp add: run bindE_def ret_def available_luns_def XIV_MIN_LUN_NUMBER_def XIV_MAX_LUN_NUMBER_def)
    qed
  qed
qed

theorem xiv_lun_fresh_witness:
  "\<exists>lun. fst (get_next_available_lun \<lparr>xv_client = bare_xcli, xv_endpoint = [''xiv'']\<rparr> ''h'' ()) = Inr lun \<and> lun \<notin> {1, 2}"
proof -
  let ?x = "\<lparr>xv_client = bare_xcli, xv_endpoint = [''xiv'']\<rparr> :: unit xiv"
  have law: "lo \<le> n \<and> n \<le> hi" if "xc_random (xv_client ?x) lo hi s = (Inr n, s')" "lo \<le> hi" for lo hi s n s'
    using that by (auto simp: bare_xcli_def ret_def)
  have listed: "xc_mapping_list (xv_client ?x) ''h'' () = (Inr (map int_str [1, 2]), ())"
    by (simp add: bare_xcli_def ret_def) code_simp
  have "\<exists>lun. get_next_available_lun ?x ''h'' () = (Inr lun, ())"
  proof -
    have "available_luns [1, 2] \<noteq> []" by (simp add: available_luns_def XIV_MIN_LUN_NUMBER_def XIV_MAX_LUN_NUMBER_def
          filter_empty_conv) (rule bexI [of _ 3], simp_all)
    moreover have "mapR (\<lambda>l. case py_int l of None \<Rightarrow> Inl (PyErr ValueError) | Some n \<Rightarrow> Inr n) [''1'', ''2''] = Inr [1, 2]"
      by code_simp
    ultimately show ?thesis
      by (simp add: get_next_available_lun_def try_xcli_def catchE_def bindE_def bare_xcli_def ret_def liftR_def Let_def
          del: mapR.simps)
  qed
  with xiv_lun_fresh [OF law listed] show ?thesis by fastforce
qed

end
