(* ===== verification/JsonValues.thy ===== *)
theory JsonValues
  imports Params Floats
begin

text \<open>
  What the clients that read JSON answers do with their values: Python's \<open>str\<close>, \<open>int\<close>, loops, membership and
  the updating of dictionaries on the values of \<open>json\<close>, with the exceptions they raise on values of other types.
\<close>

text \<open>\<open>repr\<close> of a text: the quote is double when the text has a single one and no double one.\<close>

definition repr_char :: "char \<Rightarrow> char \<Rightarrow> str" where
  "repr_char q c =
     (if c = q \<or> c = CHR 0x5C then [CHR 0x5C, c]
      else if c = CHR 0x0A then [CHR 0x5C, CHR ''n'']
      else if c = CHR 0x0D then [CHR 0x5C, CHR ''r'']
      else if c = CHR 0x09 then [CHR 0x5C, CHR ''t'']
      else let n = (of_char c :: nat) in
           if n < 32 \<or> (127 \<le> n \<and> n \<le> 160) \<or> n = 173
           then [CHR 0x5C, CHR ''x'', hex_digit (n div 16), hex_digit (n mod 16)] else [c])"

definition str_repr :: "str \<Rightarrow> str" where
  "str_repr s =
     (let q = (if CHR 0x27 \<in> set s \<and> CHR 0x22 \<notin> set s then CHR 0x22 else CHR 0x27)
      in [q] @ concat (map (repr_char q) s) @ [q])"

text \<open>\<open>repr(v)\<close>, and \<open>str(v)\<close>, which differs for texts only.\<close>

fun json_repr :: "json \<Rightarrow> str" where
  "json_repr JNull = ''None''"
| "json_repr (JBool b) = (if b then ''True'' else ''False'')"
| "json_repr (JInt i) = int_str i"
| "json_repr (JFloat r) = r"
| "json_repr (JStr s) = str_repr s"
| "json_repr (JArr vs) = ''['' @ py_join '', '' (map json_repr vs) @ '']''"
| "json_repr (JObj ms) =
     [CHR 0x7B] @ py_join '', '' (map (\<lambda>(k, v). str_repr k @ '': '' @ json_repr v) ms) @ [CHR 0x7D]"

definition json_show :: "json \<Rightarrow> str" where
  "json_show v = (case v of JStr s \<Rightarrow> s | _ \<Rightarrow> json_repr v)"

lemma json_show_simps [simp]:
  "json_show (JStr s) = s" "json_show (JInt i) = int_str i" "json_show JNull = ''None''"
  by (simp_all add: json_show_def)

definition py_value_error :: "str \<Rightarrow> exn" where
  "py_value_error s = Foreign ''ValueError'' (''invalid literal for int() with base 10: '' @ [CHR 0x27] @ s @ [CHR 0x27])"

text \<open>\<open>int(v)\<close>.\<close>

definition json_int :: "json \<Rightarrow> exn + int" where
  "json_int v =
     (case v of
        JInt i \<Rightarrow> Inr i
      | JBool b \<Rightarrow> Inr (if b then 1 else 0)
      | JFloat r \<Rightarrow>
          (case float_value r of
             Some x \<Rightarrow> Inr (float_trunc (nearest_float x))
           | None \<Rightarrow> Inl (if r = ''nan'' then PyErr ValueError else Foreign ''OverflowError'' []))
      | JStr s \<Rightarrow> (case py_int s of Some n \<Rightarrow> Inr n | None \<Rightarrow> Inl (py_value_error s))
      | _ \<Rightarrow> Inl (PyErr TypeError))"

text \<open>What a \<open>for\<close> loop over a value runs through.\<close>

definition json_iter :: "json \<Rightarrow> exn + json list" where
  "json_iter v =
     (case v of
        JArr vs \<Rightarrow> Inr vs
      | JObj ms \<Rightarrow> Inr (map (JStr \<circ> fst) ms)
      | JStr s \<Rightarrow> Inr (map (\<lambda>c. JStr [c]) s)
      | _ \<Rightarrow> Inl (PyErr TypeError))"

text \<open>
  \<open>str(e)\<close> of the exceptions that reach the clients that read JSON: those of third-party code and of the SANtricity client,
  and \<open>KeyError\<close>.  The other classes of the interpreter carry no text in this model.
\<close>

definition exn_text :: "exn \<Rightarrow> str" where
  "exn_text e =
     (case e of
        Foreign cls m \<Rightarrow> m
      | RequestError status m \<Rightarrow> m
      | PyErr (KeyError k) \<Rightarrow> [CHR 0x27] @ k @ [CHR 0x27]
      | _ \<Rightarrow> [])"

text \<open>\<open>next((v for v in vs if p(v)), None)\<close>, where the test may raise.\<close>

fun first_where :: "(json \<Rightarrow> exn + bool) \<Rightarrow> json list \<Rightarrow> exn + json option" where
  "first_where p [] = Inr None"
| "first_where p (v # vs) = bindR (p v) (\<lambda>b. if b then Inr (Some v) else first_where p vs)"

definition has_member :: "str \<Rightarrow> json \<Rightarrow> json \<Rightarrow> exn + bool" where
  "has_member k x v = bindR (json_item v k) (\<lambda>y. Inr (y = x))"

end
