(* ===== verification/SolidFire.thy ===== *)
theory SolidFire
  imports Controller JsonValues
begin

text \<open>
  The SolidFire mediator (\<open>array_action/array_mediator_solidfire.py\<close>) and its JSON-RPC client
  (\<open>array_action/solidfire_client.py\<close>).  The HTTP session of the third-party package requests is the
  parameter \<open>sf_post\<close>: it takes the payload of a request and gives the decoded body of the answer, or raises.
  The text of an exception is what the
  driver tests, for the interpreter's own errors only where a message is built from the arguments.
\<close>

subsection \<open>The client\<close>

record 's sf_world =
  sfw_array :: 's
  sfw_request_id :: int

record 's solidfire =
  sf_post :: "json \<Rightarrow> ('s, json) prog"
  sf_endpoint :: "str list"
  sf_prefix :: str

definition sf_payload :: "str \<Rightarrow> (str \<times> json) list \<Rightarrow> int \<Rightarrow> json" where
  "sf_payload rpc params i = JObj [(''method'', JStr rpc), (''params'', JObj params), (''id'', JInt i)]"

definition sf_send :: "'s solidfire \<Rightarrow> json \<Rightarrow> ('s sf_world, json) prog" where
  "sf_send sf payload = (\<lambda>w. case sf_post sf payload (sfw_array w) of (r, s) \<Rightarrow> (r, w\<lparr>sfw_array := s\<rparr>))"

definition sf_result :: "json \<Rightarrow> exn + json" where
  "sf_result data =
     bindR (json_contains data ''error'') (\<lambda>failed.
     if failed
     then bindR (json_item data ''error'') (\<lambda>err. bindR (json_item err ''message'') (\<lambda>m. Inl (Foreign ''Exception'' (json_show m))))
     else json_get data ''result'')"

definition sf_request :: "'s solidfire \<Rightarrow> str \<Rightarrow> (str \<times> json) list \<Rightarrow> ('s sf_world, json) prog" where
  "sf_request sf rpc params =
     thenE (modifyS (\<lambda>w. w\<lparr>sfw_request_id := sfw_request_id w + 1\<rparr>))
    (bindE (getS sfw_request_id) (\<lambda>i.
     bindE (sf_send sf (sf_payload rpc params i)) (\<lambda>data. liftR (sf_result data))))"

definition sf_get_cluster_info :: "'s solidfire \<Rightarrow> ('s sf_world, json) prog" where
  "sf_get_cluster_info sf = sf_request sf ''GetClusterInfo'' []"

definition sf_client_create_volume :: "'s solidfire \<Rightarrow> str \<Rightarrow> int \<Rightarrow> json \<Rightarrow> ('s sf_world, json) prog" where
  "sf_client_create_volume sf name size_bytes account_id =
     sf_request sf ''CreateVolume''
       [(''name'', JStr name), (''totalSize'', JInt size_bytes), (''accountID'', account_id), (''enable512e'', JBool True)]"

definition sf_client_delete_volume :: "'s solidfire \<Rightarrow> json \<Rightarrow> ('s sf_world, json) prog" where
  "sf_client_delete_volume sf volume_id =
     bindE (liftR (json_int volume_id)) (\<lambda>i. sf_request sf ''DeleteVolume'' [(''volumeID'', JInt i)])"

definition sf_client_get_volume :: "'s solidfire \<Rightarrow> json \<Rightarrow> ('s sf_world, json) prog" where
  "sf_client_get_volume sf volume_id =
     bindE (liftR (json_int volume_id)) (\<lambda>i.
     bindE (sf_request sf ''ListVolumes'' [(''startVolumeID'', JInt i), (''limit'', JInt 1)]) (\<lambda>result.
     bindE (liftR (json_get_or result ''volumes'' (JArr []))) (\<lambda>volumes.
     let missing = Foreign ''Exception'' (''Volume '' @ json_show volume_id @ '' not found'') in
     liftR (case volumes of
         JArr (v # vs) \<Rightarrow> bindR (json_item v ''volumeID'') (\<lambda>j. if j = JInt i then Inr v else Inl missing)
       | _ \<Rightarrow> if json_truthy volumes then Inl (PyErr TypeError) else Inl missing))))"

definition sf_list_active_volumes :: "'s solidfire \<Rightarrow> ('s sf_world, json) prog" where
  "sf_list_active_volumes sf = sf_request sf ''ListActiveVolumes'' []"

definition sf_list_volumes_by_name :: "'s solidfire \<Rightarrow> str \<Rightarrow> ('s sf_world, json option) prog" where
  "sf_list_volumes_by_name sf name =
     bindE (sf_list_active_volumes sf) (\<lambda>result.
     liftR (bindR (json_get_or result ''volumes'' (JArr [])) (\<lambda>vs.
       bindR (json_iter vs) (first_where (has_member ''name'' (JStr name))))))"

definition sf_get_account_by_name :: "'s solidfire \<Rightarrow> str \<Rightarrow> ('s sf_world, json) prog" where
  "sf_get_account_by_name sf username =
     bindE (sf_request sf ''GetAccountByName'' [(''username'', JStr username)]) (\<lambda>result. liftR (json_get result ''account''))"

definition sf_create_account :: "'s solidfire \<Rightarrow> str \<Rightarrow> ('s sf_world, json) prog" where
  "sf_create_account sf username = sf_request sf ''AddAccount'' [(''username'', JStr username)]"

definition sf_list_volume_access_groups :: "'s solidfire \<Rightarrow> ('s sf_world, json) prog" where
  "sf_list_volume_access_groups sf = sf_request sf ''ListVolumeAccessGroups'' []"

definition sf_vags :: "'s solidfire \<Rightarrow> ('s sf_world, json list) prog" where
  "sf_vags sf =
     bindE (sf_list_volume_access_groups sf) (\<lambda>result.
     liftR (bindR (json_get_or result ''volumeAccessGroups'' (JArr [])) json_iter))"

text \<open>The volumes a group already has; what goes wrong while they are read is only logged.\<close>

definition sf_existing_volumes :: "'s solidfire \<Rightarrow> int \<Rightarrow> ('s sf_world, json) prog" where
  "sf_existing_volumes sf vag_id =
     catchE
       (bindE (sf_vags sf) (\<lambda>vags.
        liftR (bindR (first_where (\<lambda>v. bindR (json_get v ''volumeAccessGroupID'') (\<lambda>i. Inr (i = JInt vag_id))) vags) (\<lambda>vag.
          case vag of None \<Rightarrow> Inr (JArr []) | Some v \<Rightarrow> if json_truthy v then json_get_or v ''volumes'' (JArr []) else Inr (JArr [])))))
       (\<lambda>e. ret (JArr []))"

fun volumes_to_add :: "json list \<Rightarrow> int list \<Rightarrow> int list \<Rightarrow> int list" where
  "volumes_to_add existing acc [] = acc"
| "volumes_to_add existing acc (v # vs) =
     volumes_to_add existing (if JInt v \<notin> set existing \<and> v \<notin> set acc then acc @ [v] else acc) vs"

definition sf_add_volumes_to_volume_access_group ::
  "'s solidfire \<Rightarrow> json \<Rightarrow> json list \<Rightarrow> ('s sf_world, json) prog" where
  "sf_add_volumes_to_volume_access_group sf vag_id volume_ids =
     bindE (liftR (json_int vag_id)) (\<lambda>vag.
     bindE (sf_existing_volumes sf vag) (\<lambda>existing.
     bindE (liftR (mapR json_int volume_ids)) (\<lambda>ids.
     bindE (liftR (case existing of JArr vs \<Rightarrow> Inr vs | _ \<Rightarrow> if ids = [] then Inr [] else Inl (PyErr TypeError))) (\<lambda>present.
     let to_add = volumes_to_add present [] ids in
     if to_add = [] then ret (JObj [(''volumeAccessGroupID'', JInt vag), (''volumes'', existing)])
     else sf_request sf ''AddVolumesToVolumeAccessGroup''
            [(''volumeAccessGroupID'', JInt vag), (''volumes'', JArr (map JInt to_add))]))))"

definition sf_remove_volumes_from_volume_access_group ::
  "'s solidfire \<Rightarrow> json \<Rightarrow> json list \<Rightarrow> ('s sf_world, json) prog" where
  "sf_remove_volumes_from_volume_access_group sf vag_id volume_ids =
     bindE (liftR (mapR json_int volume_ids)) (\<lambda>ids.
     sf_request sf ''RemoveVolumesFromVolumeAccessGroup''
       [(''volumeAccessGroupID'', vag_id), (''volumes'', JArr (map JInt ids))])"

definition sf_get_lun_assignments :: "'s solidfire \<Rightarrow> json \<Rightarrow> ('s sf_world, json) prog" where
  "sf_get_lun_assignments sf vag_id =
     bindE (liftR (json_int vag_id)) (\<lambda>i.
     sf_request sf ''GetVolumeAccessGroupLunAssignments'' [(''volumeAccessGroupID'', JInt i)])"

definition sf_modify_volume :: "'s solidfire \<Rightarrow> json \<Rightarrow> int \<Rightarrow> ('s sf_world, json) prog" where
  "sf_modify_volume sf volume_id total_size_bytes =
     bindE (liftR (json_int volume_id)) (\<lambda>i.
     sf_request sf ''ModifyVolume'' [(''volumeID'', JInt i), (''totalSize'', JInt total_size_bytes)])"

subsection \<open>Volumes\<close>

text \<open>Underscores become dashes.\<close>

definition sf_safe_name :: "str \<Rightarrow> str" where
  "sf_safe_name name = map (\<lambda>c. if c = CHR ''_'' then CHR ''-'' else c) name"

text \<open>The first of the two ids that is there, or else the number of the volume.\<close>

definition sf_strong_id :: "json \<Rightarrow> exn + str" where
  "sf_strong_id vol =
     bindR (json_get vol ''scsiNAADeviceID'') (\<lambda>naa.
     if json_truthy naa then Inr (json_show naa)
     else bindR (json_get vol ''scsiEUIDeviceID'') (\<lambda>eui.
          if json_truthy eui then Inr (json_show eui)
          else bindR (json_item vol ''volumeID'') (\<lambda>i. Inr (json_show i))))"

definition sf_to_volume_object :: "'s solidfire \<Rightarrow> json \<Rightarrow> exn + volume" where
  "sf_to_volume_object sf vol =
     bindR (sf_strong_id vol) (\<lambda>strong_id.
     bindR (bindR (json_item vol ''totalSize'') json_int) (\<lambda>size.
     bindR (json_item vol ''volumeID'') (\<lambda>internal_id.
     bindR (json_item vol ''name'') (\<lambda>name.
     Inr \<lparr>vol_name = json_show name, vol_id = strong_id, vol_internal_id = json_show internal_id,
          vol_array_type = ARRAY_TYPE_SOLIDFIRE, vol_capacity_bytes = size,
          vol_array_address = [hd (sf_endpoint sf)], vol_source_id = None, vol_pool = ''default'',
          vol_space_efficiency_aliases = [], vol_volume_group_id = None, vol_volume_group_name = None,
          vol_partition_name = None\<rparr>))))"

text \<open>Whether a volume of the list has the identifier as NAA, EUI, name or number.\<close>

definition sf_is_identified :: "str \<Rightarrow> json \<Rightarrow> exn + bool" where
  "sf_is_identified identifier vol =
     bindR (json_get vol ''scsiNAADeviceID'') (\<lambda>naa.
     bindR (json_get vol ''scsiEUIDeviceID'') (\<lambda>eui.
     bindR (json_get vol ''name'') (\<lambda>name.
     bindR (json_get vol ''volumeID'') (\<lambda>i.
     Inr (naa = JStr identifier \<or> eui = JStr identifier \<or> name = JStr identifier \<or> json_show i = identifier)))))"

text \<open>An identifier that is a number is tried as the number of a volume first, then as a name, then as an id.\<close>

definition sf_get_volume_data :: "'s solidfire \<Rightarrow> json \<Rightarrow> ('s sf_world, json) prog" where
  "sf_get_volume_data sf identifier =
     bindE (catchE
         (bindE (liftR (json_int identifier)) (\<lambda>i. bindE (sf_client_get_volume sf (JInt i)) (\<lambda>v. ret (Some v))))
         (\<lambda>e. ret None)) (\<lambda>by_number.
     case by_number of
       Some v \<Rightarrow> ret v
     | None \<Rightarrow>
         bindE (liftR (case identifier of JStr s \<Rightarrow> Inr s | _ \<Rightarrow> Inl (PyErr AttributeError))) (\<lambda>text.
         bindE (sf_list_volumes_by_name sf (sf_safe_name text)) (\<lambda>named.
         case named of
           Some v \<Rightarrow> ret v
         | None \<Rightarrow>
             bindE (sf_list_active_volumes sf) (\<lambda>result.
             bindE (liftR (bindR (json_get_or result ''volumes'' (JArr [])) (\<lambda>vs.
               bindR (json_iter vs) (first_where (sf_is_identified text))))) (\<lambda>found.
             case found of
               Some v \<Rightarrow> ret v | None \<Rightarrow> raiseE (ArrayErr (ObjectNotFoundError text)))))))"

text \<open>Whatever goes wrong, the volume is reported as not found.\<close>

definition sf_get_volume :: "'s solidfire \<Rightarrow> json \<Rightarrow> ('s sf_world, volume) prog" where
  "sf_get_volume sf identifier =
     catchE (bindE (sf_get_volume_data sf identifier) (\<lambda>v. liftR (sf_to_volume_object sf v)))
       (\<lambda>e. raiseE (ArrayErr (ObjectNotFoundError (json_show identifier))))"

definition sf_account_id :: "'s solidfire \<Rightarrow> ('s sf_world, json) prog" where
  "sf_account_id sf =
     bindE (sf_get_account_by_name sf ''csi-admin'') (\<lambda>account.
     if json_truthy account then liftR (json_item account ''accountID'')
     else bindE (sf_create_account sf ''csi-admin'') (\<lambda>res. liftR (json_item res ''accountID'')))"

definition sf_create_volume ::
  "'s solidfire \<Rightarrow> str \<Rightarrow> int \<Rightarrow> str option \<Rightarrow> str \<Rightarrow> str option \<Rightarrow> str option \<Rightarrow> object_ids \<Rightarrow> str option \<Rightarrow> bool \<Rightarrow>
    str option \<Rightarrow> str option \<Rightarrow> sdict \<Rightarrow> ('s sf_world, volume) prog" where
  "sf_create_volume sf name size_in_bytes space_efficiency pool io_group volume_group source_ids source_type
     is_virt_snap_func partition_name partition_vg extra_parameters =
     bindE (sf_account_id sf) (\<lambda>account_id.
     let final_name = sf_safe_name (sf_prefix sf @ name) in
     catchE
       (bindE (sf_client_create_volume sf final_name size_in_bytes account_id) (\<lambda>res.
        bindE (liftR (json_item res ''volumeID'')) (sf_get_volume sf)))
       (\<lambda>e. raiseE (ArrayErr (VolumeCreationError final_name))))"

definition sf_delete_volume :: "'s solidfire \<Rightarrow> str \<Rightarrow> str option \<Rightarrow> ('s sf_world, unit) prog" where
  "sf_delete_volume sf volume_id partition_name =
     catchE (bindE (sf_client_delete_volume sf (JStr volume_id)) (\<lambda>_. ret ()))
       (\<lambda>e. if py_contains (exn_text e) ''xVolumeIDDoesNotExist'' \<or> py_contains (exn_text e) ''already deleted''
            then ret () else raiseE (ArrayErr (ObjectNotFoundError volume_id)))"

definition sf_expand_volume :: "'s solidfire \<Rightarrow> str \<Rightarrow> int \<Rightarrow> str option \<Rightarrow> ('s sf_world, unit) prog" where
  "sf_expand_volume sf volume_id required_bytes partition_name =
     catchE
       (bindE (sf_client_get_volume sf (JStr volume_id)) (\<lambda>v.
        bindE (liftR (json_item v ''totalSize'')) (\<lambda>current.
        bindE (liftR (json_int current)) (\<lambda>size.
        if required_bytes \<le> size
        then raiseE (ArrayErr (InvalidArgumentError
               (''Requested size '' @ int_str required_bytes @ '' must be greater than current size '' @ json_show current)))
        else bindE (sf_modify_volume sf (JStr volume_id) required_bytes) (\<lambda>_. ret ())))))
       (\<lambda>e. if is_InvalidArgumentError e then raiseE e else raiseE (ArrayErr (InvalidArgumentError (exn_text e))))"

definition sf_get_object_by_id :: "'s solidfire \<Rightarrow> str \<Rightarrow> str option \<Rightarrow> bool \<Rightarrow> ('s sf_world, volume option) prog" where
  "sf_get_object_by_id sf object_id object_type is_virt_snap_func =
     (if object_type = Some VOLUME_TYPE_NAME
      then catchE (bindE (sf_get_volume sf (JStr object_id)) (\<lambda>v. ret (Some v))) (\<lambda>e. ret None)
      else ret None)"

definition sf_validate_supported_space_efficiency :: "str option \<Rightarrow> exn + unit" where
  "sf_validate_supported_space_efficiency space_efficiency =
     raise_if (truthy space_efficiency \<and> py_lower (the space_efficiency) \<noteq> ''thin'')
       (ArrayErr (SpaceEfficiencyNotSupported (the space_efficiency)))"

subsection \<open>Hosts are volume access groups\<close>

definition sf_find_vag :: "'s solidfire \<Rightarrow> str \<Rightarrow> ('s sf_world, json option) prog" where
  "sf_find_vag sf target_vag_name =
     bindE (sf_vags sf) (\<lambda>vags. liftR (first_where (has_member ''name'' (JStr target_vag_name)) vags))"

definition sf_resolve_volume_internal_id :: "'s solidfire \<Rightarrow> str \<Rightarrow> ('s sf_world, str \<times> json) prog" where
  "sf_resolve_volume_internal_id sf volume_identifier =
     bindE (sf_get_volume_data sf (JStr volume_identifier)) (\<lambda>vol.
     bindE (liftR (json_item vol ''volumeID'')) (\<lambda>i. ret (json_show i, vol)))"

text \<open>The LUN of a volume in the answer for its group: the first entry with its number, or \<open>0\<close>.\<close>

definition sf_assigned_lun :: "str \<Rightarrow> json \<Rightarrow> exn + str" where
  "sf_assigned_lun internal_id lun_info =
     bindR (json_get_or lun_info ''volumeAccessGroupLunAssignments'' (JObj [])) (\<lambda>assignments.
     bindR (bindR (json_get_or assignments ''lunAssignments'' (JArr [])) json_iter) (\<lambda>entries.
     bindR (first_where (\<lambda>entry. bindR (bindR (json_get entry ''volumeID'') json_int) (\<lambda>v.
              bindR (json_int (JStr internal_id)) (\<lambda>i. Inr (v = i)))) entries) (\<lambda>found.
     case found of
       None \<Rightarrow> Inr ''0'' | Some entry \<Rightarrow> bindR (json_get entry ''lun'') (\<lambda>lun. Inr (json_show lun)))))"

definition sf_map_volume :: "'s solidfire \<Rightarrow> str \<Rightarrow> str \<Rightarrow> str option \<Rightarrow> ('s sf_world, str) prog" where
  "sf_map_volume sf volume_id hname connectivity_type =
     bindE (sf_resolve_volume_internal_id sf volume_id) (\<lambda>(internal_id, vol).
     bindE (sf_find_vag sf (sf_prefix sf @ hname)) (\<lambda>found.
     case found of
       None \<Rightarrow> raiseE (ArrayErr (HostNotFoundError (sf_prefix sf @ hname)))
     | Some vag \<Rightarrow>
         catchE
           (bindE (liftR (json_item vag ''volumeAccessGroupID'')) (\<lambda>vag_id.
            thenE (sf_add_volumes_to_volume_access_group sf vag_id [JStr internal_id])
              (catchE (bindE (sf_get_lun_assignments sf vag_id) (\<lambda>info. liftR (sf_assigned_lun internal_id info)))
                 (\<lambda>e. ret ''0''))))
           (\<lambda>e. raiseE (ArrayErr (MappingError volume_id hname (exn_text e))))))"

text \<open>A group that does not exist, and errors of the removal, are not reported.\<close>

definition sf_unmap_volume :: "'s solidfire \<Rightarrow> str \<Rightarrow> str \<Rightarrow> ('s sf_world, unit) prog" where
  "sf_unmap_volume sf volume_id hname =
     bindE (sf_resolve_volume_internal_id sf volume_id) (\<lambda>(internal_id, vol).
     bindE (sf_find_vag sf (sf_prefix sf @ hname)) (\<lambda>found.
     case found of
       None \<Rightarrow> ret ()
     | Some vag \<Rightarrow>
         catchE
           (bindE (liftR (json_item vag ''volumeAccessGroupID'')) (\<lambda>vag_id.
            bindE (sf_remove_volumes_from_volume_access_group sf vag_id [JStr internal_id]) (\<lambda>_. ret ())))
           (\<lambda>e. ret ())))"

definition sf_get_host_by_name :: "'s solidfire \<Rightarrow> str \<Rightarrow> ('s sf_world, host) prog" where
  "sf_get_host_by_name sf hname =
     bindE (sf_find_vag sf (sf_prefix sf @ hname)) (\<lambda>found.
     case found of
       None \<Rightarrow> raiseE (ArrayErr (HostNotFoundError (sf_prefix sf @ hname)))
     | Some vag \<Rightarrow>
         bindE (liftR (bindR (json_item vag ''initiators'') json_iter_strs)) (\<lambda>iqns.
         ret \<lparr>host_name = hname, host_connectivity_types = [ISCSI], host_initiators = mk_initiators [] [] iqns\<rparr>))"

fun vag_of_initiators :: "str list \<Rightarrow> json list \<Rightarrow> exn + json option" where
  "vag_of_initiators iqns [] = Inr None"
| "vag_of_initiators iqns (vag # vags) =
     bindR (bindR (json_get_or vag ''initiators'' (JArr [])) json_iter_strs) (\<lambda>vag_iqns.
     if list_ex (\<lambda>q. py_lower q \<in> set (map py_lower vag_iqns)) iqns then Inr (Some vag)
     else vag_of_initiators iqns vags)"

definition sf_get_host_by_host_identifiers :: "'s solidfire \<Rightarrow> initiators \<Rightarrow> ('s sf_world, str \<times> str list) prog" where
  "sf_get_host_by_host_identifiers sf i =
     bindE (sf_vags sf) (\<lambda>vags.
     bindE (liftR (vag_of_initiators (iscsi_iqns i) vags)) (\<lambda>found. case found of
       None \<Rightarrow> raiseE (ArrayErr (HostNotFoundError (list_repr (map snd (initiators_iter i)))))
     | Some vag \<Rightarrow> bindE (liftR (json_item vag ''name'')) (\<lambda>n. ret (json_show n, [ISCSI]))))"

definition sf_svip :: "'s solidfire \<Rightarrow> ('s sf_world, str) prog" where
  "sf_svip sf =
     bindE (sf_get_cluster_info sf) (\<lambda>info.
     liftR (bindR (json_item info ''clusterInfo'') (\<lambda>c. bindR (json_item c ''svip'') (\<lambda>v. Inr (json_show v)))))"

text \<open>\<open>get_iscsi_targets_by_iqn\<close> and \<open>_get_array_initiators\<close>.\<close>

definition sf_get_iscsi_targets_by_iqn :: "'s solidfire \<Rightarrow> str \<Rightarrow> ('s sf_world, (str \<times> str list) list) prog" where
  "sf_get_iscsi_targets_by_iqn sf hname = bindE (sf_svip sf) (\<lambda>svip. ret [(''solidfire'', [svip])])"

definition sf_get_array_initiators_for_volume :: "'s solidfire \<Rightarrow> str \<Rightarrow> ('s sf_world, array_initiators) prog" where
  "sf_get_array_initiators_for_volume sf volume_id =
     bindE (catchE
        (bindE (sf_resolve_volume_internal_id sf volume_id) (\<lambda>(i, vol).
         liftR (bindR (json_get vol ''iqn'') (\<lambda>iqn.
           if json_truthy iqn then Inr (json_show iqn)
           else bindR (json_get vol ''volumeID'') (\<lambda>n. Inr (''solidfire-'' @ json_show n))))))
        (\<lambda>e. ret (''solidfire-'' @ volume_id))) (\<lambda>volume_iqn.
     bindE (sf_svip sf) (\<lambda>svip. ret (TargetMap [(volume_iqn, [svip])])))"

text \<open>The list of ports it passes on as the iSCSI ports of a host is one of pairs, which cannot be stripped.\<close>

definition sf_create_host :: "initiators \<Rightarrow> ('s sf_world, unit) prog" where
  "sf_create_host i = (if initiators_iter i = [] then ret () else raiseE (PyErr AttributeError))"

definition sf_identifier :: "'s solidfire \<Rightarrow> ('s sf_world, str) prog" where
  "sf_identifier sf =
     bindE (sf_get_cluster_info sf) (\<lambda>info.
     liftR (bindR (json_item info ''clusterInfo'') (\<lambda>c. bindR (json_item c ''uniqueID'') (\<lambda>v. Inr (json_show v)))))"

subsection \<open>The mediator\<close>

text \<open>
  \<open>register_plugin\<close> and \<open>get_host_connectivity_ports\<close> have other parameters than their callers give
  them: calling them is a \<open>TypeError\<close>.  \<open>verify_host_partition\<close> gives \<open>None\<close>, which its caller takes for false.
\<close>

definition solidfire_mediator :: "'s solidfire \<Rightarrow> 's sf_world mediator" where
  "solidfire_mediator sf =
     (array_mediator_interface (list_repr (sf_endpoint sf)))\<lparr>
        md_limits := \<lparr>max_object_prefix_length = 32, max_object_name_length = 64, default_object_prefix = Some ''CSI''\<rparr>,
        md_minimal_volume_size_in_bytes := 100 * 1024 * 1024,
        md_maximal_volume_size_in_bytes := 100 * 1024 * 1024 * 1024 * 1024,
        md_max_lun_retries := 10,
        md_get_volume := (\<lambda>name pool virt. sf_get_volume sf (JStr name)),
        md_create_volume := sf_create_volume sf,
        md_delete_volume := sf_delete_volume sf,
        md_expand_volume := sf_expand_volume sf,
        md_get_volume_mappings := (\<lambda>_. ret []),
        md_map_volume := sf_map_volume sf,
        md_unmap_volume := sf_unmap_volume sf,
        md_get_snapshot := (\<lambda>volume_id snapshot_name pool virt. raiseE (ArrayErr (ObjectNotFoundError snapshot_name))),
        md_get_object_by_id := sf_get_object_by_id sf,
        md_get_iscsi_targets_by_iqn := sf_get_iscsi_targets_by_iqn sf,
        md_get_array_fc_wwns := (\<lambda>_. ret []),
        md_get_nvme_target_ports := ret [],
        md_get_host_by_host_identifiers := sf_get_host_by_host_identifiers sf,
        md_get_host_by_name := sf_get_host_by_name sf,
        md_create_host := (\<lambda>hname i t iog part portset. sf_create_host i),
        md_delete_host := (\<lambda>_. ret ()),
        md_add_ports_to_host := (\<lambda>_ _ _. ret ()),
        md_remove_ports_from_host := (\<lambda>_ _ _. ret ()),
        md_get_host_connectivity_ports := (\<lambda>_ _. raiseE (PyErr TypeError)),
        md_get_host_connectivity_type := (\<lambda>_. ret (Some ISCSI)),
        md_get_host_io_group := (\<lambda>_. ret None),
        md_add_io_group_to_host := (\<lambda>_ _. ret ()),
        md_remove_io_group_from_host := (\<lambda>_ _. ret ()),
        md_change_host_protocol := (\<lambda>_ _. ret ()),
        md_verify_host_partition := (\<lambda>_ _. ret False),
        md_verify_volume_partition := (\<lambda>_ _ _. ret ()),
        md_verify_volume_group_partition := (\<lambda>_ _ _. ret ()),
        md_validate_supported_space_efficiency := (\<lambda>se. liftR (sf_validate_supported_space_efficiency se)),
        md_get_volume_group := (\<lambda>_. raiseE (PyErr AttributeError)),
        md_create_volume_group := (\<lambda>_ _. raiseE (PyErr AttributeError)),
        md_delete_volume_group := (\<lambda>_. raiseE (PyErr AttributeError)),
        md_add_volume_to_volume_group := (\<lambda>_ _ _. raiseE (PyErr AttributeError)),
        md_remove_volume_from_volume_group := (\<lambda>_ _ _. raiseE (PyErr AttributeError)),
        md_register_plugin := (\<lambda>_ _. raiseE (PyErr TypeError)),
        md_get_array_initiators := (\<lambda>hname t. bindE (sf_get_iscsi_targets_by_iqn sf hname) (\<lambda>ts. ret (TargetMap ts)))\<rparr>"

text \<open>The override of \<open>map_volume_by_initiators\<close>: the ports are those of the volume, and are read after the mapping.\<close>

definition sf_map_volume_by_initiators ::
  "'s solidfire \<Rightarrow> 's sf_world mediator \<Rightarrow> str \<Rightarrow> initiators \<Rightarrow> bool \<Rightarrow>
    ('s sf_world, str \<times> str option \<times> array_initiators) prog" where
  "sf_map_volume_by_initiators sf md vid inits exclusive_access =
     bindE (md_get_volume_mappings md vid) (\<lambda>mappings.
     if exclusive_access \<and> 1 < length mappings
     then raiseE (ArrayErr (VolumeAlreadyMappedToDifferentHostsError (map fst mappings)))
     else bindE (find_mapped_host md inits mappings) (\<lambda>found. case found of
       Some (lun, host) \<Rightarrow>
         bindE (sf_get_array_initiators_for_volume sf vid) (\<lambda>ai.
         ret (lun, choose_connectivity_type (host_connectivity_types host), ai))
     | None \<Rightarrow>
         if exclusive_access \<and> length mappings = 1
         then raiseE (ArrayErr (VolumeAlreadyMappedToDifferentHostsError (map fst mappings)))
         else bindE (md_get_host_by_host_identifiers md inits) (\<lambda>(hname, connectivity_types).
           let connectivity_type = choose_connectivity_type connectivity_types in
           bindE (map_with_retries (md_max_lun_retries md) (md_map_volume md vid hname connectivity_type)) (\<lambda>lun.
           bindE (sf_get_array_initiators_for_volume sf vid) (\<lambda>ai.
           ret (lun, connectivity_type, ai))))))"

subsection \<open>Properties\<close>

lemma sf_delete_by_text:
  "py_int volume_id = None \<Longrightarrow>
   sf_delete_volume sf volume_id p w = (Inr (), w) \<or>
   sf_delete_volume sf volume_id p w = (Inl (ArrayErr (ObjectNotFoundError volume_id)), w)"
  by (simp add: sf_delete_volume_def sf_client_delete_volume_def json_int_def catchE_def bindE_def liftR_def
      raiseE_def ret_def)

text \<open>
  Deleting a SolidFire volume by the strong id that its volume id carries: the client takes only numbers, so for an
  id that is not one (an NAA or EUI with a letter) \<open>DeleteVolume\<close> reports success although no request was sent
  and the volume is still there.
\<close>

theorem solidfire_delete_keeps_volume:
  assumes "validate_delete_volume_request r = Inr ()" "get_volume_id_info (or_object_id r) = Inr info"
    "get_array_connection_info_from_secrets (or_secrets r) None (oi_system_id info) = Inr ci"
    "env_acquire env ci (oi_array_type info) s = (Inr (inherit_methods (solidfire_mediator sf) f g h), s1)"
    "py_int (oi_uid info) = None"
  shows "DeleteVolume env r s = (Inr (Ok ()), env_release env s1)"
  using assms sf_delete_by_text [OF assms(5), of sf "ci_partition_name ci" s1]
  by (auto simp: DeleteVolume_def with_agent_def prog_defs prog_simps solidfire_mediator_def inherit_methods_def
      mediator.extend_def full_mediator.fields_def)

definition example_solidfire :: "json list solidfire" where
  "example_solidfire = \<lparr>sf_post = (\<lambda>payload log. (Inr (JObj [(''result'', JObj [])]), log @ [payload])),
     sf_endpoint = [''10.0.0.1''], sf_prefix = []\<rparr>"

theorem solidfire_delete_keeps_volume_witness:
  "DeleteVolume (example_env (inherit_methods (solidfire_mediator example_solidfire) id id id)) example_object_request
     \<lparr>sfw_array = [], sfw_request_id = 0\<rparr> = (Inr (Ok ()), \<lparr>sfw_array = [], sfw_request_id = 0\<rparr>)"
proof -
  let ?env = "example_env (inherit_methods (solidfire_mediator example_solidfire) id id id)"
  have "DeleteVolume ?env example_object_request \<lparr>sfw_array = [], sfw_request_id = 0\<rparr> =
      (Inr (Ok ()), env_release ?env \<lparr>sfw_array = [], sfw_request_id = 0\<rparr>)"
  proof (rule solidfire_delete_keeps_volume)
    show "get_volume_id_info (or_object_id example_object_request) =
        Inr \<lparr>oi_array_type = ''SVC'', oi_system_id = None, oi_internal_id = Some ''0'', oi_uid = ''uid-1''\<rparr>"
      by (simp add: example_object_request_def example_volume_id)
    show "py_int (oi_uid \<lparr>oi_array_type = ''SVC'', oi_system_id = None, oi_internal_id = Some ''0'', oi_uid = ''uid-1''\<rparr>) = None"
      by code_simp
  qed (auto simp: example_object_request_def validate_delete_volume_request_def validate_minimum_request_fields_def
      example_secrets_valid example_connection_info example_env_def ret_def)
  then show ?thesis by (simp add: example_env_def)
qed

end
