(* ===== verification/Ds8kClient.thy ===== *)
theory Ds8kClient
  imports Mediator "HOL-Library.Word"
begin

unbundle bit_operations_syntax

text \<open>
  The DS8000 client of the driver (\<open>array_action/ds8k_rest_client.py\<close>) over the third-party package
  pyds8k, and the cache of volume ids (\<open>array_action/ds8k_volume_cache.py\<close>).  pyds8k is the
  parameter \<open>pyds8k\<close>: its operations over the state \<open>'s\<close> of the storage system, the relation
  of its exception classes, the details of an exception by its class and message, and its constants.
\<close>

subsection \<open>LUNs\<close>

text \<open>Hexadecimal texts: \<open>'\{:x\}'.format(n)\<close> and \<open>int(s, 16)\<close>.\<close>

definition hex_digit_char :: "nat \<Rightarrow> char" where
  "hex_digit_char d = (if d < 10 then digit_char d else char_of (d + 87))"

definition hex_value :: "char \<Rightarrow> nat option" where
  "hex_value c =
     (let n = of_char c :: nat in
      if 48 \<le> n \<and> n \<le> 57 then Some (n - 48)
      else if 97 \<le> n \<and> n \<le> 102 then Some (n - 87)
      else if 65 \<le> n \<and> n \<le> 70 then Some (n - 55)
      else None)"

fun hex_str :: "nat \<Rightarrow> str" where
  "hex_str n = (if n < 16 then [hex_digit_char n] else hex_str (n div 16) @ [hex_digit_char (n mod 16)])"

declare hex_str.simps [simp del]

fun hex_val_acc :: "nat \<Rightarrow> str \<Rightarrow> nat option" where
  "hex_val_acc a [] = Some a"
| "hex_val_acc a (c # cs) =
     (case hex_value c of None \<Rightarrow> None | Some d \<Rightarrow> hex_val_acc (16 * a + d) cs)"

text \<open>A text of digits only: the signs, prefixes and underscores that \<open>int\<close> also accepts are no LUNs.\<close>

definition hex_int :: "str \<Rightarrow> exn + nat" where
  "hex_int s =
     (if s = [] then Inl (PyErr ValueError)
      else case hex_val_acc 0 s of None \<Rightarrow> Inl (PyErr ValueError) | Some n \<Rightarrow> Inr n)"

text \<open>The two halves of 16 bits change places; bits above the lowest 32 are dropped.\<close>

definition swap_halves :: "nat \<Rightarrow> nat" where
  "swap_halves n = ((drop_bit 16 n AND 0xFFFF) OR push_bit 16 (n AND 0xFFFF))"

definition int_lunid_to_hex :: "nat \<Rightarrow> str" where
  "int_lunid_to_hex lunid = (let h = hex_str lunid in if length h < 2 then CHR ''0'' # h else h)"

definition int_to_scsilun :: "nat \<Rightarrow> str" where
  "int_to_scsilun lun = (if lun < 256 then int_lunid_to_hex lun else hex_str (swap_halves lun))"

definition scsilun_to_int :: "str \<Rightarrow> exn + nat" where
  "scsilun_to_int lun = bindR (hex_int lun) (\<lambda>n. Inr (if n < 256 then n else swap_halves n))"

lemma hex_value_digit: "d < 16 \<Longrightarrow> hex_value (hex_digit_char d) = Some d"
  by (auto simp: hex_value_def hex_digit_char_def digit_char_def Let_def)

lemma hex_val_acc_append:
  "hex_val_acc a (xs @ ys) = (case hex_val_acc a xs of None \<Rightarrow> None | Some b \<Rightarrow> hex_val_acc b ys)"
  by (induction xs arbitrary: a) (auto split: option.splits)

lemma hex_str_not_Nil [simp]: "hex_str n \<noteq> []"
  by (subst hex_str.simps) simp

lemma hex_val_hex_str: "hex_val_acc 0 (hex_str n) = Some n"
proof (induction n rule: hex_str.induct)
  case (1 n)
  show ?case
  proof (cases "n < 16")
    case True
    then show ?thesis by (subst hex_str.simps) (simp add: hex_value_digit)
  next
    case False
    with 1 show ?thesis by (subst hex_str.simps) (simp add: hex_val_acc_append hex_value_digit)
  qed
qed

lemma hex_int_hex_str [simp]: "hex_int (hex_str n) = Inr n"
  by (simp add: hex_int_def hex_val_hex_str)

lemma hex_int_lunid [simp]: "hex_int (int_lunid_to_hex n) = Inr n"
proof -
  have "hex_value (CHR ''0'') = Some 0" by (simp add: hex_value_def)
  then show ?thesis by (simp add: int_lunid_to_hex_def Let_def hex_int_def hex_val_hex_str)
qed

lemma swap_halves_arith: "n < 2 ^ 32 \<Longrightarrow> swap_halves n = n div 2 ^ 16 + n mod 2 ^ 16 * 2 ^ 16"
proof -
  assume n: "n < 2 ^ 32"
  have m: "x AND 0xFFFF = x mod 2 ^ 16" for x :: nat
    using take_bit_eq_mask [of 16 x] by (simp add: take_bit_eq_mod mask_eq_exp_minus_1)
  have hi: "n div 2 ^ 16 mod 2 ^ 16 = n div 2 ^ 16" using n by (simp add: less_mult_imp_div_less)
  have "push_bit 16 (n mod 2 ^ 16) OR n div 2 ^ 16 = push_bit 16 (n mod 2 ^ 16) + n div 2 ^ 16"
  proof (rule disjunctive_add [symmetric])
    fix k
    show "\<not> bit (push_bit 16 (n mod 2 ^ 16)) k \<or> \<not> bit (n div 2 ^ 16) k"
    proof (cases "k < 16")
      case True
      then show ?thesis by (simp add: bit_push_bit_iff)
    next
      case False
      have "n div 2 ^ 16 div 2 ^ k = 0"
        using n False power_increasing [of 16 k "2 :: nat"] by (simp add: less_mult_imp_div_less)
      then show ?thesis by (simp add: bit_iff_odd)
    qed
  qed
  then show ?thesis
    using hi by (simp add: swap_halves_def m drop_bit_eq_div push_bit_eq_mult or.commute add.commute)
qed

lemma swap_halves_involution: "n < 2 ^ 32 \<Longrightarrow> swap_halves n < 2 ^ 32 \<and> swap_halves (swap_halves n) = n"
proof -
  assume n: "n < 2 ^ 32"
  let ?h = "n div 2 ^ 16" and ?l = "n mod 2 ^ 16"
  have h: "?h < 2 ^ 16" using n by (simp add: less_mult_imp_div_less)
  have s: "swap_halves n = ?h + ?l * 2 ^ 16" by (rule swap_halves_arith [OF n])
  have l: "?l < 2 ^ 16" by simp
  have lt: "?h + ?l * 2 ^ 16 < 2 ^ 32" using h l by simp
  have "swap_halves (swap_halves n) = (?h + ?l * 2 ^ 16) div 2 ^ 16 + (?h + ?l * 2 ^ 16) mod 2 ^ 16 * 2 ^ 16"
    unfolding s by (rule swap_halves_arith [OF lt])
  also have "\<dots> = ?l + ?h * 2 ^ 16" using h by simp
  also have "\<dots> = n" by simp
  finally show ?thesis using lt s by simp
qed

subsection \<open>Resources\<close>

text \<open>\<open>fl_background\<close> is the attribute \<open>backgroundcopy\<close>; \<open>_repr\<close> stands for \<open>representation\<close>.\<close>

record api_flashcopy =
  fl_id :: str
  fl_source :: str
  fl_target :: str
  fl_background :: str
  fl_repr :: str

record api_flashcopy_process =
  fp_state :: str
  fp_out_of_sync_tracks :: str
  fp_repr :: str

record api_volume =
  av_id :: str
  av_name :: str
  av_cap :: int
  av_pool :: str
  av_tp :: str
  av_flashcopy :: "api_flashcopy list"

text \<open>\<open>ah_login_ports\<close> are the pairs of the WWPN and the state of a port, \<open>ah_mappings\<close> those of a volume and its LUN.\<close>

record api_host =
  ah_id :: str
  ah_name :: str
  ah_ports :: "str list"
  ah_login_ports :: "(str \<times> str) list"
  ah_mappings :: "(str \<times> str) list"

record api_system =
  as_id :: str
  as_name :: str
  as_bundle :: str
  as_wwnn :: str

text \<open>\<open>po_representation\<close> is the dictionary an answer was made of.\<close>

record api_pool =
  po_id :: str
  po_representation :: "(str \<times> json) list"

text \<open>
  \<open>pd_eserep\<close> loads the entries of the attribute \<open>eserep\<close> of a pool and gives their representations.
  \<open>pd_version_less\<close> compares the texts of two versions (the third-party package packaging).  Mappings of
  a host are the pairs of the id of the mapping and the volume.
\<close>

record 's pyds8k =
  pd_isinstance :: "str \<Rightarrow> str \<Rightarrow> bool"
  pd_details :: "str \<Rightarrow> str \<Rightarrow> str"
  pd_version_less :: "str \<Rightarrow> str \<Rightarrow> bool"
  pd_tp_ese :: str
  pd_tp_none :: str
  pd_option_per :: str
  pd_option_nbc :: str
  pd_option_pset :: str
  pd_get_systems :: "('s, api_system list) prog"
  pd_get_io_enclosures :: "('s, unit) prog"
  pd_get_volumes :: "str \<Rightarrow> ('s, api_volume) prog"
  pd_get_volumes_by_pool :: "str \<Rightarrow> ('s, api_volume list) prog"
  pd_get_flashcopies_by_volume :: "str \<Rightarrow> ('s, api_flashcopy list) prog"
  pd_get_host :: "str \<Rightarrow> ('s, api_host) prog"
  pd_get_hosts :: "('s, api_host list) prog"
  pd_get_mappings_by_host :: "str \<Rightarrow> ('s, (str \<times> str) list) prog"
  pd_create_volume_fb :: "str \<Rightarrow> int \<Rightarrow> str \<Rightarrow> str \<Rightarrow> ('s, api_volume list) prog"
  pd_update_volume_extend :: "str \<Rightarrow> int \<Rightarrow> ('s, unit) prog"
  pd_delete_volume :: "str \<Rightarrow> ('s, unit) prog"
  pd_create_host :: "str \<Rightarrow> str \<Rightarrow> ('s, api_host list) prog"
  pd_get_host_port :: "str \<Rightarrow> ('s, str) prog"
  pd_update_host_port_change_host :: "str \<Rightarrow> str \<Rightarrow> ('s, unit) prog"
  pd_create_host_port :: "str \<Rightarrow> str \<Rightarrow> ('s, unit) prog"
  pd_map_volume_to_host :: "str \<Rightarrow> str \<Rightarrow> str \<Rightarrow> ('s, str list) prog"
  pd_unmap_volume_from_host :: "str \<Rightarrow> str \<Rightarrow> ('s, unit) prog"
  pd_create_cs_flashcopy :: "str \<Rightarrow> str \<Rightarrow> str list \<Rightarrow> ('s, api_flashcopy list) prog"
  pd_delete_cs_flashcopy :: "str \<Rightarrow> ('s, unit) prog"
  pd_get_cs_flashcopies :: "str \<Rightarrow> ('s, api_flashcopy_process) prog"
  pd_get_pool :: "str \<Rightarrow> ('s, api_pool) prog"
  pd_eserep :: "api_pool \<Rightarrow> ('s, json list) prog"
  pd_get_pools :: "('s, api_pool list) prog"
  pd_get_lss :: "('s, str list) prog"
  pd_get_volumes_by_lss :: "str \<Rightarrow> ('s, api_volume list) prog"
  pd_get_mapping_by_host :: "str \<Rightarrow> str \<Rightarrow> ('s, str \<times> str) prog"
  pd_get_host_ports :: "('s, str list) prog"
  pd_get_users :: "str \<Rightarrow> ('s, str) prog"
  pd_update_volume_rename :: "str \<Rightarrow> str \<Rightarrow> ('s, unit) prog"
  pd_update_volume_move :: "str \<Rightarrow> str \<Rightarrow> ('s, unit) prog"
  pd_delete_host :: "str \<Rightarrow> ('s, unit) prog"
  pd_delete_host_port :: "str \<Rightarrow> ('s, unit) prog"

subsection \<open>The client of the driver\<close>

definition py_first :: "'a list \<Rightarrow> exn + 'a" where
  "py_first xs = (case xs of [] \<Rightarrow> Inl (PyErr IndexError) | x # _ \<Rightarrow> Inr x)"

definition dc_is_valid :: "'s pyds8k \<Rightarrow> ('s, bool) prog" where
  "dc_is_valid c = catchE (bindE (pd_get_io_enclosures c) (\<lambda>_. ret True)) (\<lambda>e. ret False)"

definition dc_get_system :: "'s pyds8k \<Rightarrow> ('s, api_system) prog" where
  "dc_get_system c = bindE (pd_get_systems c) (\<lambda>xs. liftR (py_first xs))"

text \<open>The methods that pass a call on.\<close>

definition dc_get_volume :: "'s pyds8k \<Rightarrow> str \<Rightarrow> ('s, api_volume) prog" where "dc_get_volume c volume_id = pd_get_volumes c volume_id"
definition dc_get_volumes_by_pool :: "'s pyds8k \<Rightarrow> str \<Rightarrow> ('s, api_volume list) prog" where "dc_get_volumes_by_pool c pool_id = pd_get_volumes_by_pool c pool_id"
definition dc_get_flashcopies_by_volume :: "'s pyds8k \<Rightarrow> str \<Rightarrow> ('s, api_flashcopy list) prog" where "dc_get_flashcopies_by_volume c volume_id = pd_get_flashcopies_by_volume c volume_id"
definition dc_get_host :: "'s pyds8k \<Rightarrow> str \<Rightarrow> ('s, api_host) prog" where "dc_get_host c hname = pd_get_host c hname"
definition dc_get_pools :: "'s pyds8k \<Rightarrow> ('s, api_pool list) prog" where "dc_get_pools c = pd_get_pools c"
definition dc_get_hosts :: "'s pyds8k \<Rightarrow> ('s, api_host list) prog" where "dc_get_hosts c = pd_get_hosts c"
definition dc_get_lss :: "'s pyds8k \<Rightarrow> ('s, str list) prog" where "dc_get_lss c = pd_get_lss c"
definition dc_get_volumes_by_lss :: "'s pyds8k \<Rightarrow> str \<Rightarrow> ('s, api_volume list) prog" where "dc_get_volumes_by_lss c lss_number = pd_get_volumes_by_lss c lss_number"
definition dc_get_host_ports :: "'s pyds8k \<Rightarrow> ('s, str list) prog" where "dc_get_host_ports c = pd_get_host_ports c"
definition dc_get_host_mappings :: "'s pyds8k \<Rightarrow> str \<Rightarrow> ('s, (str \<times> str) list) prog" where "dc_get_host_mappings c hname = pd_get_mappings_by_host c hname"
definition dc_rename_volume :: "'s pyds8k \<Rightarrow> str \<Rightarrow> str \<Rightarrow> ('s, unit) prog" where "dc_rename_volume c volume_id new_name = pd_update_volume_rename c volume_id new_name"
definition dc_extend_volume :: "'s pyds8k \<Rightarrow> str \<Rightarrow> int \<Rightarrow> ('s, unit) prog" where "dc_extend_volume c volume_id new_size_in_bytes = pd_update_volume_extend c volume_id new_size_in_bytes"
definition dc_delete_volume :: "'s pyds8k \<Rightarrow> str \<Rightarrow> ('s, unit) prog" where "dc_delete_volume c volume_id = pd_delete_volume c volume_id"
definition dc_move_volume :: "'s pyds8k \<Rightarrow> str \<Rightarrow> str \<Rightarrow> ('s, unit) prog" where "dc_move_volume c volume_id new_pool_id = pd_update_volume_move c volume_id new_pool_id"
definition dc_delete_host :: "'s pyds8k \<Rightarrow> str \<Rightarrow> ('s, unit) prog" where "dc_delete_host c hname = pd_delete_host c hname"
definition dc_detach_port_from_host :: "'s pyds8k \<Rightarrow> str \<Rightarrow> ('s, unit) prog" where "dc_detach_port_from_host c wwpn = pd_delete_host_port c wwpn"
definition dc_unmap_volume_from_host :: "'s pyds8k \<Rightarrow> str \<Rightarrow> str \<Rightarrow> ('s, unit) prog" where "dc_unmap_volume_from_host c hname lunid = pd_unmap_volume_from_host c hname lunid"
definition dc_delete_flashcopy :: "'s pyds8k \<Rightarrow> str \<Rightarrow> ('s, unit) prog" where "dc_delete_flashcopy c flashcopy_id = pd_delete_cs_flashcopy c flashcopy_id"
definition dc_get_flashcopies :: "'s pyds8k \<Rightarrow> str \<Rightarrow> ('s, api_flashcopy_process) prog" where "dc_get_flashcopies c fcid = pd_get_cs_flashcopies c fcid"

lemmas dc_passes [simp] =
  dc_get_volume_def dc_get_volumes_by_pool_def dc_get_flashcopies_by_volume_def dc_get_host_def
  dc_get_pools_def dc_get_hosts_def dc_get_lss_def dc_get_volumes_by_lss_def
  dc_get_host_ports_def dc_get_host_mappings_def dc_rename_volume_def dc_extend_volume_def
  dc_delete_volume_def dc_move_volume_def dc_delete_host_def dc_detach_port_from_host_def
  dc_unmap_volume_from_host_def dc_delete_flashcopy_def dc_get_flashcopies_def

definition dc_get_user :: "'s pyds8k \<Rightarrow> str \<Rightarrow> ('s, str) prog" where "dc_get_user c user = pd_get_users c user"

definition dc_get_host_mapping :: "'s pyds8k \<Rightarrow> str \<Rightarrow> nat \<Rightarrow> ('s, str \<times> str) prog" where
  "dc_get_host_mapping c hname lunid = pd_get_mapping_by_host c hname (int_to_scsilun lunid)"

text \<open>A pool with what it says of its extents, which is loaded when it is asked for; a pool may have none.\<close>

definition dc_get_pool :: "'s pyds8k \<Rightarrow> str \<Rightarrow> ('s, api_pool) prog" where
  "dc_get_pool c pool_id =
     bindE (pd_get_pool c pool_id) (\<lambda>pool.
     catchE
       (bindE (pd_eserep c pool) (\<lambda>entries. bindE (liftR (py_first entries)) (\<lambda>e.
          ret (pool\<lparr>po_representation := AList.update ''eserep'' e (po_representation pool)\<rparr>))))
       (\<lambda>e. if e = PyErr AttributeError then ret pool else raiseE e))"

definition dc_create_volume :: "'s pyds8k \<Rightarrow> str \<Rightarrow> int \<Rightarrow> str \<Rightarrow> str \<Rightarrow> ('s, api_volume) prog" where
  "dc_create_volume c name capacity_in_bytes pool_id thin_provisioning =
     bindE (pd_create_volume_fb c name capacity_in_bytes pool_id thin_provisioning) (\<lambda>xs. liftR (py_first xs))"

text \<open>\<open>lunid\<close> is \<open>None\<close> for the empty text: the storage system chooses the LUN.\<close>

definition dc_map_volume_to_host :: "'s pyds8k \<Rightarrow> str \<Rightarrow> str \<Rightarrow> nat option \<Rightarrow> ('s, str) prog" where
  "dc_map_volume_to_host c hname volume_id lunid =
     bindE (pd_map_volume_to_host c hname volume_id
              (case lunid of None \<Rightarrow> [] | Some n \<Rightarrow> if n = 0 then [] else int_to_scsilun n)) (\<lambda>xs. liftR (py_first xs))"

definition dc_create_flashcopy :: "'s pyds8k \<Rightarrow> str \<Rightarrow> str \<Rightarrow> str list \<Rightarrow> ('s, api_flashcopy) prog" where
  "dc_create_flashcopy c source_volume_id target_volume_id options =
     bindE (pd_create_cs_flashcopy c source_volume_id target_volume_id options) (\<lambda>xs. liftR (py_first xs))"

definition dc_get_used_lun_numbers_by_host :: "'s pyds8k \<Rightarrow> str \<Rightarrow> ('s, str list) prog" where
  "dc_get_used_lun_numbers_by_host c hname = bindE (pd_get_mappings_by_host c hname) (\<lambda>ms. ret (map fst ms))"

text \<open>A port that exists moves to the host, one that does not is made for it.\<close>

definition dc_attach_port_to_host :: "'s pyds8k \<Rightarrow> str \<Rightarrow> str \<Rightarrow> ('s, unit) prog" where
  "dc_attach_port_to_host c hname wwpn =
     catchE
       (bindE (pd_get_host_port c wwpn) (\<lambda>port. pd_update_host_port_change_host c port hname))
       (\<lambda>e. case e of
          Foreign cls m \<Rightarrow> if pd_isinstance c cls ''NotFound'' then pd_create_host_port c wwpn hname else raiseE e
        | _ \<Rightarrow> raiseE e)"

definition dc_create_host :: "'s pyds8k \<Rightarrow> str \<Rightarrow> str \<Rightarrow> str \<Rightarrow> ('s, str) prog" where
  "dc_create_host c hname wwpn host_type =
     bindE (pd_create_host c hname host_type) (\<lambda>hosts.
     bindE (liftR (py_first hosts)) (\<lambda>h.
     thenE (dc_attach_port_to_host c (ah_id h) wwpn) (ret (ah_id h))))"

subsection \<open>The cache of volume ids\<close>

type_synonym volume_cache = "(str \<times> (str \<times> str) list) list"

definition cache_get :: "volume_cache \<Rightarrow> str \<Rightarrow> str \<Rightarrow> str option" where
  "cache_get c address key = (case map_of c address of None \<Rightarrow> None | Some d \<Rightarrow> map_of d key)"

definition cache_add :: "str \<Rightarrow> str \<Rightarrow> str \<Rightarrow> volume_cache \<Rightarrow> volume_cache" where
  "cache_add address key v c = AList.update address (AList.update key v (dict_get_or c address [])) c"

definition cache_remove :: "str \<Rightarrow> str \<Rightarrow> volume_cache \<Rightarrow> volume_cache" where
  "cache_remove address key c =
     (if cache_get c address key \<noteq> None
      then AList.update address (AList.delete key (dict_get_or c address [])) c else c)"

definition cache_add_or_delete :: "str \<Rightarrow> str \<Rightarrow> str \<Rightarrow> volume_cache \<Rightarrow> volume_cache" where
  "cache_add_or_delete address key v c =
     (if cache_get c address key = None
      then AList.update address (AList.update key v (dict_get_or c address [])) c
      else AList.update address (AList.delete key (dict_get_or c address [])) c)"

interpretation volume_ids_cache: erasable_cache cache_get cache_add cache_remove
  by unfold_locales
     (auto simp: cache_get_def cache_add_def cache_remove_def update_conv' dict_get_or_def delete_conv'
       split: option.splits)

lemma add_or_delete_toggles:
  "cache_add_or_delete a k v = (\<lambda>c. if cache_get c a k = None then cache_add a k v c else cache_remove a k c)"
  by (auto simp: cache_add_or_delete_def cache_add_def cache_remove_def)

text \<open>
  A LUN of less than 32 bits is read back from the text it is sent as exactly when it is one byte, or
  has a part in one of the two halves that swapping brings above one byte.
\<close>
theorem scsilun_roundtrip:
  assumes "n < 2 ^ 32"
  shows "scsilun_to_int (int_to_scsilun n) = Inr n \<longleftrightarrow> n < 256 \<or> n mod 65536 \<noteq> 0 \<or> 256 \<le> n div 65536"
proof (cases "n < 256")
  case True
  then show ?thesis by (simp add: scsilun_to_int_def int_to_scsilun_def)
next
  case False
  have s: "swap_halves n = n div 65536 + n mod 65536 * 65536" using swap_halves_arith [OF assms] by simp
  have inv: "swap_halves (swap_halves n) = n" using swap_halves_involution [OF assms] by simp
  have small: "swap_halves n < 256 \<longleftrightarrow> n mod 65536 = 0 \<and> n div 65536 < 256"
    unfolding s by (cases "n mod 65536") auto
  have "swap_halves n \<noteq> n" if "swap_halves n < 256" using False that by linarith
  then show ?thesis
    using False inv small by (auto simp: scsilun_to_int_def int_to_scsilun_def)
qed

lemma scsilun_roundtrip_witness:
  "scsilun_to_int (int_to_scsilun 0x4001) = Inr 0x4001 \<and> scsilun_to_int (int_to_scsilun 0x10000) \<noteq> Inr 0x10000"
  using scsilun_roundtrip [of "0x4001"] scsilun_roundtrip [of "0x10000"] by simp

end
