(* ===== verification/Ds8k.thy ===== *)
theory Ds8k
  imports Ds8kClient Controller
begin

text \<open>
  The DS8000 mediator (\<open>array_action/array_mediator_ds8k.py\<close>) over the client and the cache of the theory
  \<open>Ds8kClient\<close>.  The state is the storage system and the cache, which all mediators share.  An
  exception of pyds8k is \<open>Foreign\<close> with its class and message; the decorator \<open>retry(Exception, tries, delay)\<close>
  of one rollback is the parameter \<open>dk_retry\<close>.
\<close>

subsection \<open>Mediator, state and errors\<close>

record 's dk_world =
  dkw_array :: 's
  dkw_cache :: volume_cache

record 's ds8k =
  dk_client :: "'s pyds8k"
  dk_address :: str
  dk_system :: api_system
  dk_retry :: "('s dk_world, unit) prog \<Rightarrow> ('s dk_world, unit) prog"

definition dk :: "('s, 'a) prog \<Rightarrow> ('s dk_world, 'a) prog" where
  "dk m = (\<lambda>w. case m (dkw_array w) of (r, s) \<Rightarrow> (r, w\<lparr>dkw_array := s\<rparr>))"

definition dk_cache :: "(volume_cache \<Rightarrow> volume_cache) \<Rightarrow> ('s dk_world, unit) prog" where
  "dk_cache f = modifyS (\<lambda>w. w\<lparr>dkw_cache := f (dkw_cache w)\<rparr>)"

definition ERROR_CODE_INVALID_CREDENTIALS :: str where "ERROR_CODE_INVALID_CREDENTIALS = ''BE7A002D''"
definition KNOWN_ERROR_CODE_INVALID_CREDENTIALS :: str where "KNOWN_ERROR_CODE_INVALID_CREDENTIALS = ''BE7A0029''"
definition ERROR_CODE_RESOURCE_NOT_EXISTS :: str where "ERROR_CODE_RESOURCE_NOT_EXISTS = ''BE7A0001''"
definition INCORRECT_ID :: str where "INCORRECT_ID = ''BE7A0005''"
definition HOST_DOES_NOT_EXIST :: str where "HOST_DOES_NOT_EXIST = ''BE7A0016''"
definition MAPPING_DOES_NOT_EXIST :: str where "MAPPING_DOES_NOT_EXIST = ''BE7A001F''"
definition ERROR_CODE_MAP_VOLUME_NOT_ENOUGH_EXTENTS :: str where "ERROR_CODE_MAP_VOLUME_NOT_ENOUGH_EXTENTS = ''BE74121B''"
definition ERROR_CODE_VOLUME_NOT_FOUND_FOR_MAPPING :: str where "ERROR_CODE_VOLUME_NOT_FOUND_FOR_MAPPING = ''BE586015''"
definition ERROR_CODE_ALREADY_FLASHCOPY :: str where "ERROR_CODE_ALREADY_FLASHCOPY = ''000000AE''"
definition ERROR_CODE_VOLUME_NOT_FOUND_OR_ALREADY_PART_OF_CS_RELATIONSHIP :: str where
  "ERROR_CODE_VOLUME_NOT_FOUND_OR_ALREADY_PART_OF_CS_RELATIONSHIP = ''00000013''"
definition ERROR_CODE_EXPAND_VOLUME_NOT_ENOUGH_EXTENTS :: str where
  "ERROR_CODE_EXPAND_VOLUME_NOT_ENOUGH_EXTENTS = ''BE531465''"
definition ERROR_CODE_CREATE_VOLUME_NOT_ENOUGH_EXTENTS :: str where
  "ERROR_CODE_CREATE_VOLUME_NOT_ENOUGH_EXTENTS = ''BE534459''"
definition FLASHCOPY_STATE_VALID :: str where "FLASHCOPY_STATE_VALID = ''valid''"
definition LOGIN_PORT_STATE_ONLINE :: str where "LOGIN_PORT_STATE_ONLINE = ''online''"

definition has_code :: "str \<Rightarrow> str list \<Rightarrow> bool" where
  "has_code message codes = list_ex (py_contains (py_upper message)) codes"

text \<open>
  \<open>except exceptions.C as ex\<close> for the classes \<open>C\<close> of the list, with the class and the message of the
  exception; clauses are tried in their order.
\<close>

fun pyds8k_clauses ::
  "'s ds8k \<Rightarrow> (str list \<times> (str \<Rightarrow> str \<Rightarrow> exn \<Rightarrow> ('w, 'a) prog)) list \<Rightarrow> exn \<Rightarrow> ('w, 'a) prog" where
  "pyds8k_clauses d [] e = raiseE e"
| "pyds8k_clauses d ((classes, h) # rest) e =
     (case e of
        Foreign cls m \<Rightarrow>
          if list_ex (pd_isinstance (dk_client d) cls) classes then h cls m e else pyds8k_clauses d rest e
      | _ \<Rightarrow> raiseE e)"

definition on_pyds8k ::
  "'s ds8k \<Rightarrow> ('w, 'a) prog \<Rightarrow> (str list \<times> (str \<Rightarrow> str \<Rightarrow> exn \<Rightarrow> ('w, 'a) prog)) list \<Rightarrow> ('w, 'a) prog" where
  "on_pyds8k d m clauses = catchE m (pyds8k_clauses d clauses)"

subsection \<open>Ids and versions\<close>

text \<open>\<open>\{0:0\{1\}\}\<close> with a width of two.\<close>

definition two_digits :: "int \<Rightarrow> str" where
  "two_digits n = (if 0 \<le> n \<and> n < 10 then CHR ''0'' # int_str n else int_str n)"

definition parse_version :: "str \<Rightarrow> exn + str" where
  "parse_version bundle =
     (case py_split (CHR ''.'') bundle of
        v1 # v2 # _ # _ \<Rightarrow>
          (case py_int v2 of
             None \<Rightarrow> Inl (PyErr ValueError)
           | Some n \<Rightarrow>
               if v1 = [] then Inl (PyErr IndexError)
               else Inr (py_join ''.'' [[last v1], [two_digits n ! 0], [two_digits n ! 1]]))
      | _ \<Rightarrow> Inl (PyErr ValueError))"

text \<open>\<open>scsi_id[-4:]\<close>, the id of a volume at the end of its SCSI identifier.\<close>

definition scsi_id_to_volume_id :: "str \<Rightarrow> str" where
  "scsi_id_to_volume_id scsi_id = drop (length scsi_id - 4) scsi_id"

definition generate_volume_scsi_identifier :: "'s ds8k \<Rightarrow> str \<Rightarrow> str" where
  "generate_volume_scsi_identifier d volume_id = ''6'' @ drop 1 (as_wwnn (dk_system d)) @ ''000000000000'' @ volume_id"

definition dk_identifier :: "'s ds8k \<Rightarrow> str" where "dk_identifier d = as_id (dk_system d)"

definition SUPPORTED_FROM_VERSION :: str where "SUPPORTED_FROM_VERSION = ''7.5.1''"

subsection \<open>Space efficiency and FlashCopies of a volume\<close>

definition get_array_space_efficiency :: "'s ds8k \<Rightarrow> str option \<Rightarrow> str" where
  "get_array_space_efficiency d space_efficiency =
     (if truthy space_efficiency \<and> py_lower (the space_efficiency) = ''thin'' then pd_tp_ese (dk_client d)
      else pd_tp_none (dk_client d))"

definition get_space_efficiency_aliases :: "'s ds8k \<Rightarrow> str \<Rightarrow> exn + str list" where
  "get_space_efficiency_aliases d array_space_efficiency =
     (if array_space_efficiency = pd_tp_ese (dk_client d) then Inr [''thin'']
      else if array_space_efficiency = pd_tp_none (dk_client d) then Inr [''none'', []]
      else Inl (ArrayErr (SpaceEfficiencyNotSupported array_space_efficiency)))"

definition is_snapshot :: "api_volume \<Rightarrow> bool" where
  "is_snapshot v = list_ex (\<lambda>f. fl_target f = av_id v \<and> fl_background f = ''disabled'') (av_flashcopy v)"

definition get_flashcopy_as_target_if_exists :: "api_volume \<Rightarrow> api_flashcopy option" where
  "get_flashcopy_as_target_if_exists v =
     (case filter (\<lambda>f. fl_target f = av_id v) (av_flashcopy v) of [f] \<Rightarrow> Some f | _ \<Rightarrow> None)"

definition get_source_id :: "'s ds8k \<Rightarrow> api_volume \<Rightarrow> str option" where
  "get_source_id d v =
     map_option (\<lambda>f. generate_volume_scsi_identifier d (fl_source f)) (get_flashcopy_as_target_if_exists v)"

definition dk_generate_volume_response :: "'s ds8k \<Rightarrow> api_volume \<Rightarrow> exn + volume" where
  "dk_generate_volume_response d v =
     bindR (get_space_efficiency_aliases d (av_tp v)) (\<lambda>aliases.
     Inr \<lparr>vol_name = av_name v, vol_id = generate_volume_scsi_identifier d (av_id v), vol_internal_id = av_id v,
          vol_array_type = ARRAY_TYPE_DS8K, vol_capacity_bytes = av_cap v, vol_array_address = [dk_address d],
          vol_source_id = get_source_id d v, vol_pool = av_pool v, vol_space_efficiency_aliases = aliases,
          vol_volume_group_id = None, vol_volume_group_name = None, vol_partition_name = None\<rparr>)"

text \<open>The attribute \<open>pool\<close> of a snapshot is \<open>None\<close>, here the empty text.\<close>

definition dk_generate_snapshot_response :: "'s ds8k \<Rightarrow> api_volume \<Rightarrow> str \<Rightarrow> snapshot" where
  "dk_generate_snapshot_response d v source_id =
     \<lparr>vol_name = av_name v, vol_id = generate_volume_scsi_identifier d (av_id v), vol_internal_id = av_id v,
      vol_array_type = ARRAY_TYPE_DS8K, vol_capacity_bytes = av_cap v, vol_array_address = [dk_address d],
      vol_source_id = Some (generate_volume_scsi_identifier d source_id), vol_pool = [],
      vol_space_efficiency_aliases = [], vol_volume_group_id = None, vol_volume_group_name = None,
      vol_partition_name = None, snap_is_ready = True\<rparr>"

definition dk_generate_snapshot_response_with_verification :: "'s ds8k \<Rightarrow> api_volume \<Rightarrow> exn + snapshot" where
  "dk_generate_snapshot_response_with_verification d v =
     (case get_flashcopy_as_target_if_exists v of
        None \<Rightarrow> Inl (ArrayErr (ExpectedSnapshotButFoundVolumeError (av_name v) (dk_address d)))
      | Some f \<Rightarrow>
          if fl_background f \<noteq> ''disabled''
          then Inl (ArrayErr (ExpectedSnapshotButFoundVolumeError (av_name v) (dk_address d)))
          else Inr (dk_generate_snapshot_response d v (fl_source f)))"

subsection \<open>Looking up\<close>

definition with_flashcopies :: "'s ds8k \<Rightarrow> api_volume \<Rightarrow> ('s dk_world, api_volume) prog" where
  "with_flashcopies d v =
     bindE (dk (dc_get_flashcopies_by_volume (dk_client d) (av_id v))) (\<lambda>fs. ret (v\<lparr>av_flashcopy := fs\<rparr>))"

text \<open>
  Errors of the client other than a wrong id are swallowed: the result is then \<open>None\<close>, as it is for a
  volume that does not exist when \<open>not_exist_err\<close> is false.
\<close>

definition get_api_volume_by_id :: "'s ds8k \<Rightarrow> str \<Rightarrow> bool \<Rightarrow> ('s dk_world, api_volume option) prog" where
  "get_api_volume_by_id d volume_id not_exist_err =
     on_pyds8k d
       (bindE (dk (dc_get_volume (dk_client d) volume_id)) (\<lambda>v. bindE (with_flashcopies d v) (\<lambda>v. ret (Some v))))
       [([''NotFound''], \<lambda>cls m e.
           if not_exist_err then raiseE (ArrayErr (ObjectNotFoundError volume_id)) else ret None),
        ([''ClientError'', ''InternalServerError''], \<lambda>cls m e.
           if has_code m [INCORRECT_ID] then raiseE (ArrayErr (InvalidArgumentError volume_id)) else ret None)]"

text \<open>An attribute of what may be \<open>None\<close>.\<close>

definition of_volume :: "api_volume option \<Rightarrow> (api_volume \<Rightarrow> ('w, 'a) prog) \<Rightarrow> ('w, 'a) prog" where
  "of_volume v k = (case v of None \<Rightarrow> raiseE (PyErr AttributeError) | Some v \<Rightarrow> k v)"

definition get_api_volume_from_volumes ::
  "'s ds8k \<Rightarrow> api_volume list \<Rightarrow> str \<Rightarrow> ('s dk_world, api_volume option) prog" where
  "get_api_volume_from_volumes d candidates volume_name =
     (case find (\<lambda>v. av_name v = volume_name) candidates of
        None \<Rightarrow> ret None | Some v \<Rightarrow> bindE (with_flashcopies d v) (\<lambda>v. ret (Some v)))"

definition get_api_volume_by_name :: "'s ds8k \<Rightarrow> str \<Rightarrow> str option \<Rightarrow> ('s dk_world, api_volume option) prog" where
  "get_api_volume_by_name d volume_name pool_id =
     (case pool_id of
        None \<Rightarrow> raiseE (ArrayErr (PoolParameterIsMissing ARRAY_TYPE_DS8K))
      | Some pool \<Rightarrow>
          bindE (on_pyds8k d (dk (dc_get_volumes_by_pool (dk_client d) pool))
             [([''ClientException''], \<lambda>cls m e.
                 if has_code m [ERROR_CODE_RESOURCE_NOT_EXISTS, INCORRECT_ID]
                 then raiseE (ArrayErr (PoolDoesNotExist pool (dk_identifier d))) else raiseE e)]) (\<lambda>candidates.
          get_api_volume_from_volumes d candidates volume_name))"

text \<open>The id of the cache is tried first; a volume that has another name by now is not taken.\<close>

definition get_api_volume_with_cache :: "'s ds8k \<Rightarrow> str \<Rightarrow> str option \<Rightarrow> ('s dk_world, api_volume option) prog" where
  "get_api_volume_with_cache d name pool_id =
     bindE (getS (\<lambda>w. cache_get (dkw_cache w) (dk_address d) name)) (\<lambda>cached.
     bindE (if truthy cached then get_api_volume_by_id d (the cached) True else ret None) (\<lambda>v.
     if (case v of None \<Rightarrow> True | Some v \<Rightarrow> av_name v \<noteq> name) then get_api_volume_by_name d name pool_id
     else ret v))"

definition dk_get_volume :: "'s ds8k \<Rightarrow> str \<Rightarrow> str option \<Rightarrow> bool \<Rightarrow> ('s dk_world, volume) prog" where
  "dk_get_volume d name pool is_virt_snap_func =
     bindE (get_api_volume_with_cache d name pool) (\<lambda>v. case v of
       None \<Rightarrow> raiseE (ArrayErr (ObjectNotFoundError name))
     | Some v \<Rightarrow>
         thenE (dk_cache (cache_add_or_delete (dk_address d) (av_name v) (av_id v)))
           (liftR (dk_generate_volume_response d v)))"

definition get_flashcopy_process :: "'s ds8k \<Rightarrow> str \<Rightarrow> ('s dk_world, api_flashcopy_process) prog" where
  "get_flashcopy_process d flashcopy_id = dk (dc_get_flashcopies (dk_client d) flashcopy_id)"

definition get_flashcopy_state :: "'s ds8k \<Rightarrow> str \<Rightarrow> ('s dk_world, str) prog" where
  "get_flashcopy_state d flashcopy_id = bindE (get_flashcopy_process d flashcopy_id) (\<lambda>p. ret (fp_state p))"

definition dk_delete_flashcopy :: "'s ds8k \<Rightarrow> str \<Rightarrow> ('s dk_world, unit) prog" where
  "dk_delete_flashcopy d flashcopy_id = dk (dc_delete_flashcopy (dk_client d) flashcopy_id)"

subsection \<open>Changing volumes\<close>

definition create_api_volume :: "'s ds8k \<Rightarrow> str \<Rightarrow> int \<Rightarrow> str \<Rightarrow> str \<Rightarrow> ('s dk_world, api_volume) prog" where
  "create_api_volume d name size_in_bytes array_space_efficiency pool_id =
     on_pyds8k d
       (bindE (dk (dc_create_volume (dk_client d) name size_in_bytes pool_id array_space_efficiency)) (\<lambda>v.
        dk (dc_get_volume (dk_client d) (av_id v))))
       [([''ClientException''], \<lambda>cls m e.
           if has_code m [ERROR_CODE_RESOURCE_NOT_EXISTS, INCORRECT_ID]
           then raiseE (ArrayErr (PoolDoesNotExist pool_id (dk_identifier d)))
           else if has_code m [ERROR_CODE_CREATE_VOLUME_NOT_ENOUGH_EXTENTS]
           then raiseE (ArrayErr (NotEnoughSpaceInPool pool_id))
           else raiseE (ArrayErr (VolumeCreationError name)))]"

definition dk_create_volume ::
  "'s ds8k \<Rightarrow> str \<Rightarrow> int \<Rightarrow> str option \<Rightarrow> str \<Rightarrow> str option \<Rightarrow> str option \<Rightarrow> object_ids \<Rightarrow> str option \<Rightarrow> bool \<Rightarrow>
    str option \<Rightarrow> str option \<Rightarrow> sdict \<Rightarrow> ('s dk_world, volume) prog" where
  "dk_create_volume d name size_in_bytes space_efficiency pool io_group volume_group source_ids source_type
     is_virt_snap_func partition_name partition_vg extra_parameters =
     bindE (create_api_volume d name size_in_bytes (get_array_space_efficiency d space_efficiency) pool) (\<lambda>v.
     thenE (dk_cache (cache_add (dk_address d) (av_name v) (av_id v)))
       (liftR (dk_generate_volume_response d v)))"

definition extend_volume :: "'s ds8k \<Rightarrow> api_volume \<Rightarrow> int \<Rightarrow> ('s dk_world, unit) prog" where
  "extend_volume d v new_size_in_bytes =
     on_pyds8k d (dk (dc_extend_volume (dk_client d) (av_id v) new_size_in_bytes))
       [([''NotFound''], \<lambda>cls m e. raiseE (ArrayErr (ObjectNotFoundError (av_id v)))),
        ([''ClientException''], \<lambda>cls m e.
           if has_code m [ERROR_CODE_EXPAND_VOLUME_NOT_ENOUGH_EXTENTS]
           then raiseE (ArrayErr (NotEnoughSpaceInPool (av_pool v))) else raiseE e)]"

text \<open>The options of the FlashCopy always end with the one that permits a space efficient target.\<close>

definition create_flashcopy :: "'s ds8k \<Rightarrow> str \<Rightarrow> str \<Rightarrow> str list \<Rightarrow> ('s dk_world, api_volume option) prog" where
  "create_flashcopy d source_volume_id target_volume_id options =
     bindE (on_pyds8k d
        (dk (dc_create_flashcopy (dk_client d) source_volume_id target_volume_id
               (options @ [pd_option_pset (dk_client d)])))
        [([''ClientException''], \<lambda>cls m e.
            if has_code m [ERROR_CODE_ALREADY_FLASHCOPY]
            then raiseE (ArrayErr (SnapshotAlreadyExists target_volume_id (dk_address d)))
            else if has_code m [ERROR_CODE_VOLUME_NOT_FOUND_OR_ALREADY_PART_OF_CS_RELATIONSHIP]
            then raiseE (ArrayErr (ObjectNotFoundError (source_volume_id @ '' or '' @ target_volume_id)))
            else raiseE e)]) (\<lambda>f.
     bindE (get_flashcopy_state d (fl_id f)) (\<lambda>state.
     if state \<noteq> FLASHCOPY_STATE_VALID
     then thenE (dk_delete_flashcopy d (fl_id f)) (raiseE (PyErr ValueError))
     else get_api_volume_by_id d target_volume_id True))"

text \<open>The target of a copy is extended when it was requested smaller than its source.\<close>

definition dk_copy_to_existing_volume :: "'s ds8k \<Rightarrow> str \<Rightarrow> str \<Rightarrow> int \<Rightarrow> int \<Rightarrow> ('s dk_world, unit) prog" where
  "dk_copy_to_existing_volume d volume_scsi_id source_scsi_id source_capacity_in_bytes minimum_volume_size_in_bytes =
     (let volume_id = scsi_id_to_volume_id volume_scsi_id; source_id = scsi_id_to_volume_id source_scsi_id in
      thenE
        (if minimum_volume_size_in_bytes < source_capacity_in_bytes
         then bindE (get_api_volume_by_id d volume_id True) (\<lambda>v.
              of_volume v (\<lambda>v. extend_volume d v source_capacity_in_bytes))
         else ret ())
        (bindE (create_flashcopy d source_id volume_id [pd_option_per (dk_client d)]) (\<lambda>_. ret ())))"

definition dk_delete_volume_by_id :: "'s ds8k \<Rightarrow> str \<Rightarrow> bool \<Rightarrow> ('s dk_world, unit) prog" where
  "dk_delete_volume_by_id d volume_id not_exist_err =
     on_pyds8k d (dk (dc_delete_volume (dk_client d) volume_id))
       [([''NotFound''], \<lambda>cls m e.
           if not_exist_err then raiseE (ArrayErr (ObjectNotFoundError volume_id)) else ret ()),
        ([''ClientException''], \<lambda>cls m e. raiseE (ArrayErr (VolumeDeletionError volume_id)))]"

definition ensure_flashcopy_safe_to_delete :: "'s ds8k \<Rightarrow> str \<Rightarrow> api_flashcopy \<Rightarrow> ('s dk_world, unit) prog" where
  "ensure_flashcopy_safe_to_delete d volume_name f =
     bindE (get_flashcopy_process d (fl_id f)) (\<lambda>p.
     if fl_background f = ''disabled'' then raiseE (ArrayErr (ObjectIsStillInUseError volume_name [fl_repr f]))
     else if fp_out_of_sync_tracks p \<noteq> ''0''
     then raiseE (ArrayErr (ObjectIsStillInUseError volume_name [fp_repr p]))
     else ret ())"

definition safe_delete_flashcopies :: "'s ds8k \<Rightarrow> api_flashcopy list \<Rightarrow> str \<Rightarrow> ('s dk_world, unit) prog" where
  "safe_delete_flashcopies d flashcopies volume_name =
     thenE (forE (ensure_flashcopy_safe_to_delete d volume_name) flashcopies)
       (forE (\<lambda>f. dk_delete_flashcopy d (fl_id f)) flashcopies)"

definition delete_object :: "'s ds8k \<Rightarrow> str \<Rightarrow> bool \<Rightarrow> ('s dk_world, unit) prog" where
  "delete_object d object_id object_is_snapshot =
     bindE (get_api_volume_by_id d object_id True) (\<lambda>v. of_volume v (\<lambda>v.
     if object_is_snapshot \<and> \<not> is_snapshot v then raiseE (ArrayErr (ObjectNotFoundError object_id))
     else
       thenE (safe_delete_flashcopies d (filter (\<lambda>f. fl_source f = av_id v) (av_flashcopy v)) (av_name v))
      (thenE (case get_flashcopy_as_target_if_exists v of None \<Rightarrow> ret () | Some f \<Rightarrow> dk_delete_flashcopy d (fl_id f))
      (thenE (dk_delete_volume_by_id d object_id True)
         (dk_cache (cache_remove (dk_address d) (av_name v)))))))"

definition dk_delete_volume :: "'s ds8k \<Rightarrow> str \<Rightarrow> str option \<Rightarrow> ('s dk_world, unit) prog" where
  "dk_delete_volume d volume_id partition_name = delete_object d (scsi_id_to_volume_id volume_id) False"

definition dk_expand_volume :: "'s ds8k \<Rightarrow> str \<Rightarrow> int \<Rightarrow> str option \<Rightarrow> ('s dk_world, unit) prog" where
  "dk_expand_volume d volume_id required_bytes partition_name =
     bindE (get_api_volume_by_id d (scsi_id_to_volume_id volume_id) True) (\<lambda>v. of_volume v (\<lambda>v.
     thenE (safe_delete_flashcopies d (av_flashcopy v) (av_name v)) (extend_volume d v required_bytes)))"

subsection \<open>Snapshots\<close>

definition get_api_snapshot :: "'s ds8k \<Rightarrow> str \<Rightarrow> str option \<Rightarrow> ('s dk_world, api_volume option) prog" where
  "get_api_snapshot d snapshot_name pool_id =
     bindE (get_api_volume_with_cache d snapshot_name pool_id) (\<lambda>v. case v of
       None \<Rightarrow> ret None
     | Some v \<Rightarrow>
         if is_snapshot v then ret (Some v)
         else raiseE (ArrayErr (ExpectedSnapshotButFoundVolumeError (av_name v) (dk_address d))))"

definition dk_get_snapshot :: "'s ds8k \<Rightarrow> str \<Rightarrow> str \<Rightarrow> str option \<Rightarrow> bool \<Rightarrow> ('s dk_world, snapshot option) prog" where
  "dk_get_snapshot d volume_id snapshot_name pool is_virt_snap_func =
     bindE (if truthy pool then ret pool
            else bindE (get_api_volume_by_id d (scsi_id_to_volume_id volume_id) True) (\<lambda>v.
                 of_volume v (\<lambda>v. ret (Some (av_pool v))))) (\<lambda>pool.
     bindE (get_api_snapshot d snapshot_name pool) (\<lambda>v. case v of
       None \<Rightarrow> ret None
     | Some v \<Rightarrow>
         thenE (dk_cache (cache_add_or_delete (dk_address d) (av_name v) (av_id v)))
           (bindE (liftR (dk_generate_snapshot_response_with_verification d v)) (\<lambda>s. ret (Some s)))))"

definition dk_create_similar_volume ::
  "'s ds8k \<Rightarrow> str \<Rightarrow> api_volume \<Rightarrow> str option \<Rightarrow> str option \<Rightarrow> ('s dk_world, api_volume) prog" where
  "dk_create_similar_volume d target_volume_name source space_efficiency pool =
     create_api_volume d target_volume_name (av_cap source)
       (if truthy space_efficiency then get_array_space_efficiency d space_efficiency else av_tp source)
       (if truthy pool then the pool else av_pool source)"

definition delete_target_volume_if_exist :: "'s ds8k \<Rightarrow> str \<Rightarrow> ('s dk_world, unit) prog" where
  "delete_target_volume_if_exist d target_volume_id = dk_retry d (dk_delete_volume_by_id d target_volume_id False)"

text \<open>The target is removed again when the copy could not be made, but not after a copy in a wrong state.\<close>

definition dk_create_flashcopy_snapshot ::
  "'s ds8k \<Rightarrow> str \<Rightarrow> api_volume \<Rightarrow> str option \<Rightarrow> str option \<Rightarrow> ('s dk_world, api_volume option) prog" where
  "dk_create_flashcopy_snapshot d target_volume_name source space_efficiency pool =
     bindE (dk_create_similar_volume d target_volume_name source space_efficiency pool) (\<lambda>target.
     catchE (create_flashcopy d (av_id source) (av_id target) [pd_option_nbc (dk_client d), pd_option_per (dk_client d)])
       (\<lambda>e. if isa ''ObjectNotFoundError'' e \<or> isa ''SnapshotAlreadyExists'' e
            then thenE (delete_target_volume_if_exist d (av_id target)) (raiseE e) else raiseE e))"

definition dk_create_snapshot ::
  "'s ds8k \<Rightarrow> str \<Rightarrow> str \<Rightarrow> str option \<Rightarrow> str option \<Rightarrow> bool \<Rightarrow> str option \<Rightarrow> int option \<Rightarrow> ('s dk_world, snapshot) prog" where
  "dk_create_snapshot d volume_scsi_id snapshot_name space_efficiency pool is_virt_snap_func partition_name pct =
     (let volume_id = scsi_id_to_volume_id volume_scsi_id in
      bindE (get_api_volume_by_id d volume_id True) (\<lambda>source. case source of
        None \<Rightarrow> raiseE (ArrayErr (ObjectNotFoundError volume_id))
      | Some source \<Rightarrow>
          bindE (dk_create_flashcopy_snapshot d snapshot_name source space_efficiency pool) (\<lambda>target.
          of_volume target (\<lambda>target.
          thenE (dk_cache (cache_add (dk_address d) (av_name target) (av_id target)))
            (ret (dk_generate_snapshot_response d target volume_id))))))"

definition dk_delete_snapshot :: "'s ds8k \<Rightarrow> str \<Rightarrow> str option \<Rightarrow> str option \<Rightarrow> ('s dk_world, unit) prog" where
  "dk_delete_snapshot d snapshot_id internal_snapshot_id partition_name =
     delete_object d (scsi_id_to_volume_id snapshot_id) True"

definition dk_get_object_by_id :: "'s ds8k \<Rightarrow> str \<Rightarrow> str option \<Rightarrow> bool \<Rightarrow> ('s dk_world, volume option) prog" where
  "dk_get_object_by_id d object_id object_type is_virt_snap_func =
     bindE (get_api_volume_by_id d (scsi_id_to_volume_id object_id) False) (\<lambda>v. case v of
       None \<Rightarrow> ret None
     | Some v \<Rightarrow>
         if object_type = Some SNAPSHOT_TYPE_NAME
         then bindE (liftR (dk_generate_snapshot_response_with_verification d v)) (\<lambda>s. ret (Some (volume.truncate s)))
         else bindE (liftR (dk_generate_volume_response d v)) (\<lambda>r. ret (Some r)))"

subsection \<open>Hosts and mappings\<close>

definition host_mapping :: "str \<Rightarrow> api_host \<Rightarrow> exn + (str \<times> str) list" where
  "host_mapping volume_id h =
     (case find (\<lambda>(v, lun). v = volume_id) (ah_mappings h) of
        None \<Rightarrow> Inr []
      | Some (v, lun) \<Rightarrow> bindR (scsilun_to_int lun) (\<lambda>n. Inr [(ah_name h, nat_str n)]))"

definition dk_get_volume_mappings :: "'s ds8k \<Rightarrow> str \<Rightarrow> ('s dk_world, (str \<times> str) list) prog" where
  "dk_get_volume_mappings d volume_scsi_id =
     bindE (dk (dc_get_hosts (dk_client d))) (\<lambda>hosts.
     bindE (liftR (mapR (host_mapping (scsi_id_to_volume_id volume_scsi_id)) hosts)) (\<lambda>ms.
     ret (fold (\<lambda>(h, lun) m. AList.update h lun m) (concat ms) [])))"

definition dk_map_volume :: "'s ds8k \<Rightarrow> str \<Rightarrow> str \<Rightarrow> str option \<Rightarrow> ('s dk_world, str) prog" where
  "dk_map_volume d volume_scsi_id hname connectivity_type =
     (let volume_id = scsi_id_to_volume_id volume_scsi_id in
      on_pyds8k d
        (bindE (dk (dc_map_volume_to_host (dk_client d) hname volume_id None)) (\<lambda>lunid.
         bindE (liftR (scsilun_to_int lunid)) (\<lambda>n. ret (nat_str n))))
        [([''NotFound''], \<lambda>cls m e. raiseE (ArrayErr (HostNotFoundError hname))),
         ([''ClientException''], \<lambda>cls m e.
            if has_code m [ERROR_CODE_MAP_VOLUME_NOT_ENOUGH_EXTENTS] then raiseE (ArrayErr (NoAvailableLunError volume_id))
            else if has_code m [ERROR_CODE_VOLUME_NOT_FOUND_FOR_MAPPING]
            then raiseE (ArrayErr (ObjectNotFoundError volume_id))
            else raiseE (ArrayErr (MappingError volume_id hname (pd_details (dk_client d) cls m))))])"

definition dk_unmap_volume :: "'s ds8k \<Rightarrow> str \<Rightarrow> str \<Rightarrow> ('s dk_world, unit) prog" where
  "dk_unmap_volume d volume_scsi_id hname =
     (let volume_id = scsi_id_to_volume_id volume_scsi_id in
      on_pyds8k d
        (bindE (dk (dc_get_host_mappings (dk_client d) hname)) (\<lambda>mappings.
         case find (\<lambda>(i, v). v = volume_id) mappings of
           Some (lunid, v) \<Rightarrow> dk (dc_unmap_volume_from_host (dk_client d) hname lunid)
         | None \<Rightarrow> raiseE (ArrayErr (ObjectNotFoundError volume_id))))
        [([''ClientException''], \<lambda>cls m e.
            if has_code m [HOST_DOES_NOT_EXIST] then raiseE (ArrayErr (HostNotFoundError hname))
            else if has_code m [MAPPING_DOES_NOT_EXIST] then raiseE (ArrayErr (VolumeAlreadyUnmappedError volume_id))
            else raiseE (ArrayErr (UnmappingError volume_id hname (pd_details (dk_client d) cls m))))])"

definition get_api_host :: "'s ds8k \<Rightarrow> str \<Rightarrow> ('s dk_world, api_host) prog" where
  "get_api_host d hname =
     on_pyds8k d (dk (dc_get_host (dk_client d) hname))
       [([''NotFound''], \<lambda>cls m e. raiseE (ArrayErr (HostNotFoundError hname)))]"

definition dk_get_array_fc_wwns :: "'s ds8k \<Rightarrow> str \<Rightarrow> ('s dk_world, str list) prog" where
  "dk_get_array_fc_wwns d hname =
     bindE (get_api_host d hname) (\<lambda>h.
     ret (map fst (filter (\<lambda>(wwpn, state). state = LOGIN_PORT_STATE_ONLINE) (ah_login_ports h))))"

definition dk_get_host_by_name :: "'s ds8k \<Rightarrow> str \<Rightarrow> ('s dk_world, host) prog" where
  "dk_get_host_by_name d hname =
     bindE (get_api_host d hname) (\<lambda>h.
     ret \<lparr>host_name = ah_name h, host_connectivity_types = (if ah_ports h \<noteq> [] then [FC] else []),
          host_initiators = mk_initiators [] (ah_ports h) []\<rparr>)"

text \<open>The name of the first host that shares a port; a host without a name counts as none found.\<close>

definition dk_get_host_by_host_identifiers :: "'s ds8k \<Rightarrow> initiators \<Rightarrow> ('s dk_world, str \<times> str list) prog" where
  "dk_get_host_by_host_identifiers d i =
     bindE (dk (dc_get_hosts (dk_client d))) (\<lambda>hosts.
     let found = (case find (\<lambda>h. is_array_wwns_match i (ah_ports h)) hosts of None \<Rightarrow> [] | Some h \<Rightarrow> ah_name h) in
     if found \<noteq> [] then ret (found, [FC])
     else raiseE (ArrayErr (HostNotFoundError (list_repr (map snd (initiators_iter i))))))"

definition dk_validate_supported_space_efficiency :: "str option \<Rightarrow> exn + unit" where
  "dk_validate_supported_space_efficiency space_efficiency =
     raise_if (truthy space_efficiency \<and> py_lower (the space_efficiency) \<notin> {''thin'', ''none''})
       (ArrayErr (SpaceEfficiencyNotSupported (the space_efficiency)))"

subsection \<open>The mediator\<close>

definition ds8k_mediator :: "'s ds8k \<Rightarrow> 's dk_world mediator" where
  "ds8k_mediator d =
     (let base = (array_mediator_interface (dk_address d))\<lparr>
        md_limits := \<lparr>max_object_prefix_length = 5, max_object_name_length = 16, default_object_prefix = None\<rparr>,
        md_minimal_volume_size_in_bytes := 512,
        md_maximal_volume_size_in_bytes := 16 * 1024 * 1024 * 1024 * 1024,
        md_max_lun_retries := 10,
        md_get_volume := dk_get_volume d,
        md_create_volume := dk_create_volume d,
        md_copy_to_existing_volume := dk_copy_to_existing_volume d,
        md_delete_volume := dk_delete_volume d,
        md_expand_volume := dk_expand_volume d,
        md_get_volume_mappings := dk_get_volume_mappings d,
        md_map_volume := dk_map_volume d,
        md_unmap_volume := dk_unmap_volume d,
        md_get_snapshot := dk_get_snapshot d,
        md_get_object_by_id := dk_get_object_by_id d,
        md_create_snapshot := dk_create_snapshot d,
        md_delete_snapshot := dk_delete_snapshot d,
        md_get_iscsi_targets_by_iqn := (\<lambda>_. ret []),
        md_get_array_fc_wwns := dk_get_array_fc_wwns d,
        md_get_host_by_host_identifiers := dk_get_host_by_host_identifiers d,
        md_get_host_by_name := dk_get_host_by_name d,
        md_validate_supported_space_efficiency := (\<lambda>se. liftR (dk_validate_supported_space_efficiency se)),
        md_get_volume_group := (\<lambda>_. raiseE (PyErr AttributeError)),
        md_create_volume_group := (\<lambda>_ _. raiseE (PyErr AttributeError)),
        md_delete_volume_group := (\<lambda>_. raiseE (PyErr AttributeError)),
        md_add_volume_to_volume_group := (\<lambda>_ _ _. raiseE (PyErr AttributeError)),
        md_remove_volume_from_volume_group := (\<lambda>_ _ _. raiseE (PyErr AttributeError)),
        md_verify_host_partition := (\<lambda>_ _. ret True),
        md_verify_volume_partition := (\<lambda>_ _ _. ret ()),
        md_verify_volume_group_partition := (\<lambda>_ _ _. ret ()),
        md_register_plugin := (\<lambda>_ _. ret ())\<rparr>
      in base\<lparr>md_get_array_initiators := abstract_get_array_initiators base\<rparr>)"

subsection \<open>What the mediator guarantees\<close>

text \<open>Programs of the storage system alone do not touch the cache.\<close>

definition cache_kept :: "('s dk_world, 'a) prog \<Rightarrow> bool" where
  "cache_kept m = (\<forall>w. dkw_cache (snd (m w)) = dkw_cache w)"

lemma cache_keptD: "cache_kept m \<Longrightarrow> m w = (r, w') \<Longrightarrow> dkw_cache w' = dkw_cache w"
  by (auto simp: cache_kept_def dest: spec [of _ w])

named_theorems cache_intros \<open>programs that do not touch the cache of volume ids\<close>

lemma cache_kept_basic [cache_intros]:
  "cache_kept (dk m)" "cache_kept (ret x)" "cache_kept (raiseE e)" "cache_kept (liftR r)" "cache_kept (getS g)"
  by (auto simp: cache_kept_def dk_def prog_run split: prod.splits)

lemma cache_kept_bind [cache_intros]: "cache_kept m \<Longrightarrow> (\<And>x. cache_kept (f x)) \<Longrightarrow> cache_kept (bindE m f)"
  unfolding cache_kept_def bindE_def by (auto split: prod.splits sum.splits) (metis snd_conv)+

lemma cache_kept_catch [cache_intros]: "cache_kept m \<Longrightarrow> (\<And>e. cache_kept (h e)) \<Longrightarrow> cache_kept (catchE m h)"
  unfolding cache_kept_def catchE_def by (auto split: prod.splits sum.splits) (metis snd_conv)+

lemma cache_kept_then [cache_intros]: "cache_kept m \<Longrightarrow> cache_kept k \<Longrightarrow> cache_kept (thenE m k)"
  by (simp add: thenE_def cache_kept_bind)

lemma cache_kept_on_pyds8k [cache_intros]:
  assumes "cache_kept m" and "\<And>cs h cls m e. (cs, h) \<in> set clauses \<Longrightarrow> cache_kept (h cls m e)"
  shows "cache_kept (on_pyds8k d m clauses)"
proof -
  have "cache_kept (pyds8k_clauses d clauses e)" for e
    using assms(2)
  proof (induction clauses)
    case (Cons x rest)
    obtain cs h where x: "x = (cs, h)" by (cases x)
    have "cache_kept (pyds8k_clauses d rest e)" using Cons.IH Cons.prems by (metis list.set_intros(2))
    moreover have "cache_kept (h cls m e)" for cls m using Cons.prems by (simp add: x) blast
    ultimately show ?case by (cases e) (simp_all add: x cache_intros)
  qed (simp add: cache_intros)
  then show ?thesis unfolding on_pyds8k_def using assms(1) by (intro cache_kept_catch)
qed

lemma get_api_volume_cache_kept [cache_intros]:
  "cache_kept (get_api_volume_by_id d i b)" "cache_kept (get_api_volume_by_name d n p)"
  by (auto simp: get_api_volume_by_id_def get_api_volume_by_name_def get_api_volume_from_volumes_def
        with_flashcopies_def split: option.splits intro!: cache_intros)

lemma get_api_volume_with_cache_kept [cache_intros]: "cache_kept (get_api_volume_with_cache d n p)"
  by (auto simp: get_api_volume_with_cache_def intro!: cache_intros)

lemma get_api_volume_by_name_name:
  "get_api_volume_by_name d n p w = (Inr (Some v), w') \<Longrightarrow> av_name v = n"
  by (auto simp: get_api_volume_by_name_def get_api_volume_from_volumes_def with_flashcopies_def prog_run
        find_Some_iff split: option.splits elim!: bindE_InrE)

lemma get_api_volume_with_cache_name:
  "get_api_volume_with_cache d n p w = (Inr (Some v), w') \<Longrightarrow> av_name v = n"
  by (auto simp: get_api_volume_with_cache_def prog_run split: option.splits if_splits elim!: bindE_InrE
        dest!: get_api_volume_by_name_name)

lemma dk_generate_volume_response_fields:
  "dk_generate_volume_response d v = Inr r \<Longrightarrow> vol_name r = av_name v \<and> vol_internal_id r = av_id v"
  by (auto simp: dk_generate_volume_response_def bindR_Inr_iff)

text \<open>
  A volume that get_volume returns has the name asked for, also when the id of the cache belongs to
  another volume by now.  The call toggles the entry of the name: one that was absent is added with the id of
  the volume, one that was present is removed, and all other entries stay as they are.
\<close>
theorem ds8k_get_volume_cache:
  assumes run: "dk_get_volume d name pool b w = (Inr v, w')"
  shows "vol_name v = name \<and>
    cache_get (dkw_cache w') (dk_address d) name =
      (if cache_get (dkw_cache w) (dk_address d) name = None then Some (vol_internal_id v) else None) \<and>
    (\<forall>a k. (a, k) \<noteq> (dk_address d, name) \<longrightarrow> cache_get (dkw_cache w') a k = cache_get (dkw_cache w) a k)"
proof -
  from run obtain r u where
    found: "get_api_volume_with_cache d name pool w = (Inr r, u)" and
    rest: "(case r of None \<Rightarrow> raiseE (ArrayErr (ObjectNotFoundError name))
      | Some v \<Rightarrow> thenE (dk_cache (cache_add_or_delete (dk_address d) (av_name v) (av_id v)))
          (liftR (dk_generate_volume_response d v))) u = (Inr v, w')"
    by (auto simp: dk_get_volume_def elim: bindE_InrE)
  from rest obtain x where x: "r = Some x" by (cases r) (auto simp: prog_run)
  have n: "av_name x = name" using found x by (auto dest: get_api_volume_with_cache_name)
  have c: "dkw_cache u = dkw_cache w" using cache_keptD [OF get_api_volume_with_cache_kept found] .
  from rest x n have resp: "dk_generate_volume_response d x = Inr v"
    and w': "dkw_cache w' = cache_add_or_delete (dk_address d) name (av_id x) (dkw_cache w)"
    by (auto simp: dk_cache_def thenE_def bindE_def prog_run c)
  show ?thesis
    using dk_generate_volume_response_fields [OF resp] n
    by (auto simp: w' volume_ids_cache.toggle(1) [OF add_or_delete_toggles])
qed

definition example_pyds8k :: "unit pyds8k" where
  "example_pyds8k =
    \<lparr>pd_isinstance = (=), pd_details = (\<lambda>_ m. m), pd_version_less = (\<lambda>_ _. False), pd_tp_ese = ''ese'',
     pd_tp_none = ''none'', pd_option_per = ''persistent'', pd_option_nbc = ''no_background_copy'',
     pd_option_pset = ''permit_space_efficient_target'',
     pd_get_systems = ret [], pd_get_io_enclosures = ret (),
     pd_get_volumes = (\<lambda>i. if i = ''0001''
        then ret \<lparr>av_id = ''0001'', av_name = ''vol'', av_cap = 1024, av_pool = ''P0'', av_tp = ''ese'', av_flashcopy = []\<rparr>
        else raiseE (Foreign ''NotFound'' [])),
     pd_get_volumes_by_pool = (\<lambda>p.
        ret [\<lparr>av_id = ''0001'', av_name = ''vol'', av_cap = 1024, av_pool = ''P0'', av_tp = ''ese'', av_flashcopy = []\<rparr>]),
     pd_get_flashcopies_by_volume = (\<lambda>i. ret
        [\<lparr>fl_id = ''0001:0002'', fl_source = ''0001'', fl_target = ''0002'', fl_background = ''disabled'', fl_repr = ''fc''\<rparr>]),
     pd_get_host = (\<lambda>_. raiseE (Foreign ''NotFound'' [])), pd_get_hosts = ret [],
     pd_get_mappings_by_host = (\<lambda>_. ret []), pd_create_volume_fb = (\<lambda>_ _ _ _. ret []),
     pd_update_volume_extend = (\<lambda>_ _. ret ()), pd_delete_volume = (\<lambda>_. ret ()), pd_create_host = (\<lambda>_ _. ret []),
     pd_get_host_port = ret, pd_update_host_port_change_host = (\<lambda>_ _. ret ()), pd_create_host_port = (\<lambda>_ _. ret ()),
     pd_map_volume_to_host = (\<lambda>_ _ _. ret []), pd_unmap_volume_from_host = (\<lambda>_ _. ret ()),
     pd_create_cs_flashcopy = (\<lambda>_ _ _. ret []), pd_delete_cs_flashcopy = (\<lambda>_. ret ()),
     pd_get_cs_flashcopies = (\<lambda>_. ret \<lparr>fp_state = ''valid'', fp_out_of_sync_tracks = ''0'', fp_repr = ''fp''\<rparr>),
     pd_get_pool = (\<lambda>_. raiseE (Foreign ''NotFound'' [])), pd_eserep = (\<lambda>_. raiseE (PyErr AttributeError)),
     pd_get_pools = ret [], pd_get_lss = ret [], pd_get_volumes_by_lss = (\<lambda>_. ret []),
     pd_get_mapping_by_host = (\<lambda>_ _. raiseE (Foreign ''NotFound'' [])), pd_get_host_ports = ret [],
     pd_get_users = (\<lambda>_. raiseE (Foreign ''NotFound'' [])), pd_update_volume_rename = (\<lambda>_ _. ret ()),
     pd_update_volume_move = (\<lambda>_ _. ret ()), pd_delete_host = (\<lambda>_. ret ()), pd_delete_host_port = (\<lambda>_. ret ())\<rparr>"

definition example_ds8k :: "unit ds8k" where
  "example_ds8k = \<lparr>dk_client = example_pyds8k, dk_address = ''ds8k'',
     dk_system = \<lparr>as_id = ''2107-1'', as_name = ''ds'', as_bundle = ''87.51.34.0'', as_wwnn = ''5005076306FFD3F1''\<rparr>,
     dk_retry = (\<lambda>m. m)\<rparr>"

definition example_dk_world :: "unit dk_world" where
  "example_dk_world = \<lparr>dkw_array = (), dkw_cache = [(''ds8k'', [(''old'', ''0009'')])]\<rparr>"

lemmas example_ds8k_run = example_ds8k_def example_pyds8k_def example_dk_world_def prog_defs prog_run dk_def
  get_api_volume_by_id_def with_flashcopies_def on_pyds8k_def of_volume_def

lemma ds8k_get_volume_cache_witness:
  "\<exists>v w'. dk_get_volume example_ds8k ''vol'' (Some ''P0'') False example_dk_world = (Inr v, w') \<and>
     cache_get (dkw_cache w') ''ds8k'' ''vol'' = Some (vol_internal_id v)"
proof -
  obtain v w' where run: "dk_get_volume example_ds8k ''vol'' (Some ''P0'') False example_dk_world = (Inr v, w')"
    by (simp add: dk_get_volume_def get_api_volume_with_cache_def get_api_volume_by_name_def dk_cache_def cache_get_def
          get_api_volume_from_volumes_def dk_generate_volume_response_def get_space_efficiency_aliases_def example_ds8k_run)
  have "cache_get (dkw_cache example_dk_world) ''ds8k'' ''vol'' = None" "dk_address example_ds8k = ''ds8k''"
    by (simp_all add: cache_get_def example_dk_world_def example_ds8k_def)
  with ds8k_get_volume_cache [OF run] run show ?thesis by auto
qed

text \<open>
  When the cache holds an id for the name and the storage system has no volume of that id any more,
  get_volume fails with the id as the object that is not found, whether or not the pool has a volume of the name,
  and the cache keeps the stale entry.
\<close>
theorem ds8k_stale_cache:
  assumes "cache_get (dkw_cache w) (dk_address d) name = Some i" and "i \<noteq> []"
    and "\<And>s. pd_get_volumes (dk_client d) i s = (Inl (Foreign cls m), s)" and "pd_isinstance (dk_client d) cls ''NotFound''"
  shows "dk_get_volume d name pool b w = (Inl (ArrayErr (ObjectNotFoundError i)), w)"
  using assms
  by (simp add: dk_get_volume_def get_api_volume_with_cache_def get_api_volume_by_id_def on_pyds8k_def prog_defs
      prog_run dk_def)

lemma ds8k_stale_cache_witness:
  "dk_get_volume example_ds8k ''old'' (Some ''P0'') False example_dk_world =
     (Inl (ArrayErr (ObjectNotFoundError ''0009'')), example_dk_world)"
  by (rule ds8k_stale_cache [where cls = "''NotFound''" and m = "[]"])
     (simp_all add: example_ds8k_def example_pyds8k_def example_dk_world_def cache_get_def raiseE_def)

subsection \<open>FlashCopies in use\<close>

lemma ensure_safe_reads:
  assumes "\<And>i s. snd (pd_get_cs_flashcopies (dk_client d) i s) = s"
  shows "snd (ensure_flashcopy_safe_to_delete d n f w) = w"
  using assms [of "fl_id f" "dkw_array w"]
  by (auto simp: ensure_flashcopy_safe_to_delete_def get_flashcopy_process_def dk_def bindE_def prog_run
      split: prod.splits sum.splits)

lemma ensure_unsafe:
  assumes "fl_background f = ''disabled''"
  shows "fst (ensure_flashcopy_safe_to_delete d n f w) \<noteq> Inr ()"
  using assms by (auto simp: ensure_flashcopy_safe_to_delete_def bindE_def prog_run split: prod.splits sum.splits)

lemma ensure_all_unsafe:
  assumes reads: "\<And>i s. snd (pd_get_cs_flashcopies (dk_client d) i s) = s"
    and f: "f \<in> set fs" "fl_background f = ''disabled''"
  shows "\<exists>e. forE (ensure_flashcopy_safe_to_delete d n) fs w = (Inl e, w)"
  using f(1)
proof (induction fs)
  case (Cons g fs)
  obtain r where g: "ensure_flashcopy_safe_to_delete d n g w = (r, w)"
    using ensure_safe_reads [OF reads] by (metis prod.collapse)
  show ?case
  proof (cases r)
    case (Inl e)
    then show ?thesis using g by (simp add: thenE_def bindE_def)
  next
    case (Inr u)
    then have "f \<noteq> g" using g ensure_unsafe [OF f(2), of d n w] by auto
    then show ?thesis using Cons g Inr by (auto simp: thenE_def bindE_def)
  qed
qed simp

lemma safe_delete_unsafe:
  assumes "\<And>i s. snd (pd_get_cs_flashcopies (dk_client d) i s) = s"
    and "f \<in> set fs" "fl_background f = ''disabled''"
  shows "\<exists>e. safe_delete_flashcopies d fs n w = (Inl e, w)"
  using ensure_all_unsafe [OF assms, of n w] by (auto simp: safe_delete_flashcopies_def thenE_def bindE_def)

text \<open>
  C26. A volume that is the source of a snapshot is neither expanded nor deleted, and nothing changes: no
  FlashCopy of it is deleted, those without a use included.
\<close>
theorem ds8k_snapshot_source_protected:
  assumes "\<And>i s. snd (pd_get_cs_flashcopies (dk_client d) i s) = s"
    and found: "get_api_volume_by_id d (scsi_id_to_volume_id volume_id) True w = (Inr (Some v), w)"
    and "f \<in> set (av_flashcopy v)" and "fl_source f = av_id v" and "fl_background f = ''disabled''"
  shows "(\<exists>e. dk_expand_volume d volume_id required_bytes part w = (Inl e, w)) \<and>
    (\<exists>e. dk_delete_volume d volume_id part w = (Inl e, w))"
proof -
  have "\<exists>e. safe_delete_flashcopies d (av_flashcopy v) (av_name v) w = (Inl e, w)"
    by (rule safe_delete_unsafe [OF assms(1,3,5)])
  moreover have "\<exists>e. safe_delete_flashcopies d (filter (\<lambda>f. fl_source f = av_id v) (av_flashcopy v)) (av_name v) w =
      (Inl e, w)"
    using assms(3,4) by (intro safe_delete_unsafe [OF assms(1) _ assms(5)]) simp
  ultimately show ?thesis
    using found by (auto simp: dk_expand_volume_def dk_delete_volume_def delete_object_def of_volume_def thenE_def bindE_def)
qed

lemma ds8k_snapshot_source_protected_witness:
  "\<exists>e. dk_delete_volume example_ds8k ''6005076306FFD3F10000000000000001'' None example_dk_world = (Inl e, example_dk_world)"
proof -
  have "get_api_volume_by_id example_ds8k (scsi_id_to_volume_id ''6005076306FFD3F10000000000000001'') True example_dk_world =
    (Inr (Some \<lparr>av_id = ''0001'', av_name = ''vol'', av_cap = 1024, av_pool = ''P0'', av_tp = ''ese'', av_flashcopy =
      [\<lparr>fl_id = ''0001:0002'', fl_source = ''0001'', fl_target = ''0002'', fl_background = ''disabled'', fl_repr = ''fc''\<rparr>]\<rparr>),
     example_dk_world)"
    by (simp add: scsi_id_to_volume_id_def example_ds8k_run)
  from ds8k_snapshot_source_protected [OF _ this, of _ 0 None]
  show ?thesis by (simp add: example_ds8k_def example_pyds8k_def ret_def)
qed

end
