(* ===== verification/Messages.thy ===== *)
theory Messages
  imports Server
begin

text \<open>
  The texts of exceptions: the constructors of \<open>array_action/errors.py\<close> and \<open>servers/errors.py\<close> with the formats of
  \<open>array_action/messages.py\<close> and \<open>servers/messages.py\<close>, and \<open>str(ex)\<close>.

  What an exception of this development carries is what the code puts into its text, except where it is an object
  of the storage system or of the interpreter; the text of such an object is a parameter, a field of \<open>texts\<close>.
  They are the texts of an \<open>Initiators\<close> object from its ports, of the hosts found and of a dictionary of mappings
  from their names, of the user of a volume, of a set of aliases, of an access mode, of the error of the JSON
  parser, of an exception that the interpreter raises, and of an exception of a third-party class.
\<close>

record texts =
  tx_initiators :: "str list \<Rightarrow> str"
  tx_hosts :: "str list \<Rightarrow> str"
  tx_mappings :: "str list \<Rightarrow> str"
  tx_user :: "str \<Rightarrow> str"
  tx_aliases :: "str list \<Rightarrow> str"
  tx_access_mode :: "int \<Rightarrow> str"
  tx_json_error :: "str \<Rightarrow> str"
  tx_python :: "py_error \<Rightarrow> str"
  tx_foreign :: "str \<Rightarrow> str \<Rightarrow> str"

definition SECRET_VALIDATION_REGEX :: str where
  "SECRET_VALIDATION_REGEX = ''^[a-zA-Z0-9][a-zA-Z0-9-_.]*[a-zA-Z0-9]$''"

text \<open>\<open>repr(s)\<close> of a text without quotes, and \<open>str(d)\<close> of a dictionary of such texts.\<close>

definition repr_str :: "str \<Rightarrow> str" where
  "repr_str s = [CHR 0x27] @ s @ [CHR 0x27]"

definition dict_repr :: "sdict \<Rightarrow> str" where
  "dict_repr d = ''{'' @ py_join '', '' (map (\<lambda>(k, v). repr_str k @ '': '' @ repr_str v) d) @ ''}''"

subsection \<open>The formats\<close>

text \<open>
  The constructor of \<open>ObjectIsStillInUseError\<close> reads the first user, so the list is not empty; of many users only the
  first is shown.
\<close>

primrec array_error_message :: "texts \<Rightarrow> array_error \<Rightarrow> str" where
  "array_error_message tx (NoConnectionAvailableException a) =
     ''Currently no connection is available to endpoint: '' @ a"
| "array_error_message tx (StorageManagementIPsNotSupportError a) =
     ''Invalid Management IP for SVC : '' @ a @ '' ''"
| "array_error_message tx (CredentialsError a) =
     ''Credential error has occurred while connecting to endpoint : '' @ a @ '' ''"
| "array_error_message tx (UnsupportedStorageVersionError a b) =
     ''Unsupported storage system microcode version '' @ a @ '', the version should not be lower than '' @ b"
| "array_error_message tx (InvalidArgumentError a) = a"
| "array_error_message tx (ObjectNotFoundError a) = ''Object was not found : '' @ a @ '' ''"
| "array_error_message tx (VolumeNameBelongsToSnapshotError a b) =
     ''Volume not found. Snapshot with the same id exists.'' @ replicate 58 CHR 0x20 @ ''Name : '' @ a @ '' , array : '' @ b"
| "array_error_message tx (VolumeCreationError a) = ''Failed to create volume '' @ a"
| "array_error_message tx (VolumeDeletionError a) = ''Failed to delete volume '' @ a"
| "array_error_message tx (VolumeAlreadyInVolumeGroup a b) =
     ''Volume '' @ a @ '' is already in a volume group '' @ b"
| "array_error_message tx (PoolDoesNotMatchSpaceEfficiency a b c) =
     ''Pool : '' @ a @ '' does not match the following space efficiency : '' @ b @ '' . error : '' @ c"
| "array_error_message tx (SpaceEfficiencyNotSupported a) =
     ''space efficiency is not supported : '' @ a @ '' ''"
| "array_error_message tx (SpaceEfficiencyMismatch a b) =
     ''space efficiency : '' @ a @ '' does not match the source volume space efficiency : '' @ b"
| "array_error_message tx (VolumeAlreadyExists a b) =
     ''volume'' @ '' already exists : '' @ a @ '' , array : '' @ b"
| "array_error_message tx (PoolDoesNotExist a b) = ''Pool does not exist: '' @ a @ '' , array : '' @ b"
| "array_error_message tx (PoolParameterIsMissing a) = ''Pool parameter is mandatory in '' @ a"
| "array_error_message tx (FailedToFindStorageSystemType a) =
     ''Could not identify the type for endpoint: '' @ a @ '' ''"
| "array_error_message tx (PermissionDeniedError a) = ''Permission was denied to operation : '' @ a"
| "array_error_message tx (MultipleHostsFoundError a b) =
     ''Multiple hosts found for port(s): '' @ tx_initiators tx a @ ''. hosts are : '' @ tx_hosts tx b"
| "array_error_message tx (HostNotFoundError a) =
     ''Host for node: '' @ a @ '' was not found, ensure all host ports are configured on storage''"
| "array_error_message tx (NoAvailableLunError a) = ''No available lun was found for host : '' @ a"
| "array_error_message tx (LunAlreadyInUseError a b) = ''Lun : '' @ a @ '' is already mapped for host : '' @ b"
| "array_error_message tx (MappingError a b c) =
     ''Mapping error has occurred while mapping volume : '' @ a @ '' to host : '' @ b @ ''. error : '' @ c"
| "array_error_message tx (VolumeAlreadyUnmappedError a) = ''Volume: '' @ a @ '' is already unmapped.''"
| "array_error_message tx (VolumeNotMappedToHostError a b) = ''Volume '' @ a @ '' is not mapped to host '' @ b"
| "array_error_message tx (UnmappingError a b c) =
     ''Unmapping error has occurred for volume : '' @ a @ '' and host : '' @ b @ ''. error : '' @ c"
| "array_error_message tx (VolumeAlreadyMappedToDifferentHostsError a) =
     ''Volume is already mapped to different hosts '' @ tx_mappings tx a"
| "array_error_message tx (NoIscsiTargetsFoundError a) = ''Could not find iSCSI targets for endpoint: '' @ a"
| "array_error_message tx (UnsupportedConnectivityTypeError a) = ''Unsupported connectivity type: '' @ a"
| "array_error_message tx (ExpectedSnapshotButFoundVolumeError a b) =
     ''Could not find info about the source of: '' @ a @ '', array: '' @ b"
| "array_error_message tx (SnapshotAlreadyExists a b) =
     ''snapshot'' @ '' already exists : '' @ a @ '' , array : '' @ b"
| "array_error_message tx (HostAlreadyExists a b) = ''host'' @ '' already exists : '' @ a @ '' , array : '' @ b"
| "array_error_message tx (VolumeGroupAlreadyExists a b) =
     ''volume group'' @ '' already exists : '' @ a @ '' , array : '' @ b"
| "array_error_message tx (NoPortFoundByConnectivityType a b) =
     ''no port in : '' @ tx_initiators tx a @ '' found by connectivity type : '' @ b"
| "array_error_message tx (SnapshotSourcePoolMismatch a b) =
     ''Snapshot pool : '' @ a @ '' does not match the source volume pool : '' @ b"
| "array_error_message tx (ObjectIsStillInUseError a b) =
     ''Object '' @ a @ '' is still in use by '' @ (case b of [] \<Rightarrow> [] | u # us \<Rightarrow> tx_user tx u @
        (if us \<noteq> [] then '' '' @ int_str (int (length us)) @ '' more were truncated.'' else []))"
| "array_error_message tx (InvalidCliResponseError a) = ''Invalid CLI response. Details : '' @ a"
| "array_error_message tx (NotEnoughSpaceInPool a) = ''Not enough space in pool '' @ a"
| "array_error_message tx (VirtSnapshotFunctionNotSupportedMessage a) =
     ''Snapshot function is enabled but not supported with object : '' @ a @ '' ''"
| "array_error_message tx (NoPortIsValid a) =
     ''All the ports for host '' @ a @ '' are already assigned or not valid''"
| "array_error_message tx (IoGroupIsInValid a) = ''IO group '' @ a @ '' is not valid''"
| "array_error_message tx (UnSupportedParameter a) = ''The parameter '' @ a @ '' is not a supported parameter''"
| "array_error_message tx (UnSupportedParameterThroughPartition a) =
     ''The parameter '' @ a @ '' is not supported when connected through partition ip''"
| "array_error_message tx (CannotChangeHostProtocolBecauseOfMappedPorts a) =
     ''The host protocol cannot be changed because the host '' @ a @ '' has ports configured.''"

primrec validation_message :: "texts \<Rightarrow> validation_msg \<Rightarrow> str" where
  "validation_message tx INVALID_SECRET_CONFIG = ''got an invalid secret config''"
| "validation_message tx INSUFFICIENT_DATA_TO_CHOOSE_A_STORAGE_SYSTEM =
     ''insufficient data to choose a storage system''"
| "validation_message tx (NO_SYSTEM_MATCH_REQUESTED_TOPOLOGIES a) =
     ''no system match requested topologies: '' @ dict_repr a"
| "validation_message tx SECRET_MISSING_CONNECTION_INFO = ''secret is missing connection info''"
| "validation_message tx SECRET_MISSING_TOPOLOGIES = ''secret is missing topologies''"
| "validation_message tx (INVALID_SYSTEM_ID a) =
     ''got an invalid system id: '' @ a @ '', validation regex: '' @
     SECRET_VALIDATION_REGEX"
| "validation_message tx (INVALID_JSON_PARAMETER a) =
     ''got an invalid json parameter: '' @ a @ '', error: '' @ tx_json_error tx a @ ''.''"
| "validation_message tx (INVALID_REPLICATION_COPY_TYPE a) = ''got an invalid copy type: '' @ a"
| "validation_message tx (INVALID_EAR_PARAMETER a) = ''got an invalid parameter: '' @ a"
| "validation_message tx SECRET_MISSING = ''secret is missing''"
| "validation_message tx CAPABILITIES_NOT_SET = ''capabilities were not set''"
| "validation_message tx (UNSUPPORTED_FS_TYPE a) = ''unsupported fs_type : '' @ a"
| "validation_message tx UNSUPPORTED_MOUNT_FLAGS = ''mount_flags is unsupported''"
| "validation_message tx UNSUPPORTED_VOLUME_ACCESS_TYPE = ''unsupported volume access type''"
| "validation_message tx UNSUPPORTED_REPLICATION_SOURCE_TYPE = ''unsupported replication source type''"
| "validation_message tx (UNSUPPORTED_ACCESS_MODE a) =
     ''unsupported access mode : '' @ tx_access_mode tx a"
| "validation_message tx (PARAMETER_SHOULD_NOT_BE_EMPTY a) = a @ '' should not be empty''"
| "validation_message tx VOLUME_ID_SHOULD_NOT_BE_EMPTY = ''volume id should not be empty''"
| "validation_message tx SIZE_SHOULD_NOT_BE_NEGATIVE = ''size should not be negative''"
| "validation_message tx NO_CAPACITY_RANGE = ''no capacity range set''"
| "validation_message tx POOL_IS_MISSING = ''pool parameter is missing.''"
| "validation_message tx POOL_SHOULD_NOT_BE_EMPTY = ''pool should not be empty''"
| "validation_message tx (WRONG_FORMAT a) = a @ '' has wrong format''"
| "validation_message tx READONLY_NOT_SUPPORTED = ''readonly parameter is not supported''"
| "validation_message tx (VOLUME_SOURCE_ID_IS_MISSING a) = ''volume source '' @ a @ '' id is missing''"
| "validation_message tx SNAPSHOT_SOURCE_VOLUME_ID_IS_MISSING = ''snapshot source volume id is missing''"
| "validation_message tx (PARAMETER_LENGTH_IS_TOO_LONG a b c) =
     a @ '' parameter: '' @ b @ '' is too long, max length is: '' @ int_str c"
| "validation_message tx VOLUME_CLONING_NOT_SUPPORTED = ''volume cloning is not supported''"
| "validation_message tx (VOLUME_CONTEXT_NOT_MATCH_VOLUME a b) =
     ''volume context: '' @ dict_repr a @ '' does not match existing volume context: '' @ dict_repr b"
| "validation_message tx (SPACE_EFFICIENCY_NOT_MATCH_VOLUME a b) =
     ''space efficiency: '' @ a @ '' does not match existing volume space efficiency: '' @ tx_aliases tx b"
| "validation_message tx (POOL_NOT_MATCH_VOLUME a b) =
     ''pool name: '' @ a @ '' does not match existing volume pool name: '' @ b"
| "validation_message tx (PREFIX_NOT_MATCH_VOLUME a b) =
     ''prefix: '' @ a @ '' does not match existing volume name: '' @ b"
| "validation_message tx (REQUIRED_BYTES_MISMATCH a b) =
     ''required bytes : '' @ int_str a @ '' does not match the source volume required bytes : '' @ int_str b"
| "validation_message tx UNSUPPORTED_STORAGECLASS_VOLUME_GROUP =
     ''Unsupported storage class volume group with volume group feature''"
| "validation_message tx (VOLUME_PARTITION_MISMATCH a b c) =
     ''Volume '' @ a @ '' is in partition '' @ b @ '', not part of partition '' @ c"
| "validation_message tx (VOLUME_GROUP_PARTITION_MISMATCH a b c) =
     ''Volume group '' @ a @ '' is in partition '' @ b @ '', not part of partition '' @ c"
| "validation_message tx (PARAMETER_SHOULD_BE_INTEGER a) = a @ '' parameter should be an integer''"
| "validation_message tx (PARAMETER_SHOULD_BE_GE a b) = a @ '' parameter should be >= '' @ int_str b"
| "validation_message tx (PARAMETER_SHOULD_BE_LE a b) = a @ '' parameter should be <= '' @ int_str b"

text \<open>
  \<open>str(ex)\<close>.  \<open>raise NotImplementedError\<close> gives the class no argument, and neither does \<open>next\<close> give \<open>StopIteration\<close> one: their
  texts are empty.
\<close>

primrec py_error_message :: "texts \<Rightarrow> py_error \<Rightarrow> str" where
  "py_error_message tx (KeyError k) = repr_str k"
| "py_error_message tx IndexError = tx_python tx IndexError"
| "py_error_message tx TypeError = tx_python tx TypeError"
| "py_error_message tx ValueError = tx_python tx ValueError"
| "py_error_message tx AttributeError = tx_python tx AttributeError"
| "py_error_message tx RuntimeError = tx_python tx RuntimeError"
| "py_error_message tx NotImplementedError = []"
| "py_error_message tx UnboundLocalError = tx_python tx UnboundLocalError"
| "py_error_message tx StopIteration = []"

primrec exception_text :: "texts \<Rightarrow> exn \<Rightarrow> str" where
  "exception_text tx (ArrayErr a) = array_error_message tx a"
| "exception_text tx (ValidationException m) = ''Validation error has occurred : '' @ validation_message tx m"
| "exception_text tx (InvalidNodeId node_id) = ''Wrong node id format or type : '' @ node_id"
| "exception_text tx (ObjectIdError object_type object_id) =
     ''Wrong '' @ object_type @ '' id format or type : '' @ object_id"
| "exception_text tx (ObjectAlreadyProcessingError i) =
     ''object '' @ i @ '' is already processing. request cannot be completed.''"
| "exception_text tx (PyErr p) = py_error_message tx p"
| "exception_text tx (RequestError status m) = m"
| "exception_text tx (Foreign cls m) = tx_foreign tx cls m"

subsection \<open>Exceptions without a text\<close>

text \<open>The driver's own classes format their arguments into a text; only \<open>InvalidArgumentError\<close> takes the text itself.\<close>

lemma error_message_empty: "array_error_message tx a = [] \<longleftrightarrow> a = InvalidArgumentError []"
  by (cases a) simp_all

definition silent :: "texts \<Rightarrow> exn \<Rightarrow> bool" where
  "silent tx e = (exception_text tx e = [])"

lemma silent_simps [simp]:
  "silent tx (ArrayErr a) = (a = InvalidArgumentError [])"
  "\<not> silent tx (ValidationException m)" "\<not> silent tx (InvalidNodeId n)" "\<not> silent tx (ObjectIdError t i)"
  "\<not> silent tx (ObjectAlreadyProcessingError i)" "\<not> silent tx (PyErr (KeyError k))"
  "silent tx (PyErr NotImplementedError)" "silent tx (PyErr StopIteration)"
  "silent tx (RequestError status msg) = (msg = [])" "silent tx (Foreign cls msg) = (tx_foreign tx cls msg = [])"
  by (simp_all add: silent_def error_message_empty repr_str_def)

text \<open>
  When the interpreter and the third-party classes give every exception a text, the exceptions without one are
  those that the code raises without an argument or with an empty one.
\<close>

lemma silent_iff:
  assumes "\<And>p. tx_python tx p \<noteq> []" and "\<And>cls m. tx_foreign tx cls m \<noteq> []"
  shows "silent tx e \<longleftrightarrow>
    e \<in> {PyErr NotImplementedError, PyErr StopIteration, ArrayErr (InvalidArgumentError [])} \<union> {RequestError st [] |st. True}"
proof (cases e)
  case (PyErr p)
  then show ?thesis using assms(1) by (cases p) (simp_all add: silent_def repr_str_def)
qed (use assms(2) in auto)

subsection \<open>The details of a reply\<close>

text \<open>
  What the caller reads beside the status.  Encoding the text as UTF-8 and decoding it again changes only surrogates, which are
  not among the characters here.
\<close>

primrec detail_text :: "texts \<Rightarrow> detail \<Rightarrow> str" where
  "detail_text tx (Exc e) = exception_text tx e"
| "detail_text tx (Msg m) = m"

primrec reply_details :: "texts \<Rightarrow> 'r reply \<Rightarrow> str" where
  "reply_details tx (Ok r) = []"
| "reply_details tx (Fail code d response_type) = detail_text tx d"

text \<open>A request that a lock refuses is told the object it waits for; one that fails is told why, except by a silent exception.\<close>

lemma refused_details:
  assumes "(key, Some i) \<in> ids_in_use sv" and "key \<noteq> []"
  shows "reply_details tx (fst (set_sync_lock (Some i) key response_type m sv)) =
    ''object '' @ i @ '' is already processing. request cannot be completed.''"
  using assms by (simp add: set_sync_lock_def lock_enter_def add_object_lock_def handle_exception_def)

lemma failed_details:
  assumes "method s = (Inl e, s')"
  shows "reply_details tx (fst (handle_common_exceptions method response_type s)) = [] \<longleftrightarrow> silent tx e"
  using assms by (simp add: handle_common_exceptions_def handle_exception_def silent_def)

definition plain_texts :: texts where
  "plain_texts =
     \<lparr>tx_initiators = list_repr, tx_hosts = list_repr, tx_mappings = list_repr, tx_user = (\<lambda>u. u), tx_aliases = list_repr,
      tx_access_mode = int_str, tx_json_error = (\<lambda>raw. ''Expecting value''), tx_python = (\<lambda>p. ''error''),
      tx_foreign = (\<lambda>cls m. m)\<rparr>"

end
