(* ===== verification/HostDefiner.thy ===== *)
theory HostDefiner
  imports Controller Messages "HOL-Library.Multiset"
begin

text \<open>
  The storage side of the host definer (\<open>servers/host_definer/storage_manager/host_definer_server.py\<close>,
  with the records of \<open>servers/host_definer/hd_types.py\<close>): it makes the definition of a node on a storage
  system what the request says, and removes it.  The storage system is reached as in the theory
  \<open>Controller\<close>, through any mediator.  A failure is answered with the text of its exception (theory
  \<open>Messages\<close>); the texts of hosts and initiators are parameters.
\<close>

subsection \<open>Requests and responses\<close>

record define_host_request =
  rq_prefix :: "str option"
  rq_connectivity_type_from_user :: "str option"
  rq_node_id_from_host_definition :: str
  rq_node_initiators_from_host_definition :: str
  rq_node_id_from_csi_node :: str
  rq_node_initiators_from_csi_node :: str
  rq_array_connection_info :: array_connection_info
  rq_io_group :: str

record define_host_response =
  rs_error_message :: str
  rs_connectivity_type :: "str option"
  rs_ports :: "str list"
  rs_node_name_on_storage :: str
  rs_io_group :: "int list"
  rs_management_address :: str

definition empty_response :: define_host_response where
  "empty_response =
     \<lparr>rs_error_message = [], rs_connectivity_type = Some [], rs_ports = [], rs_node_name_on_storage = [],
      rs_io_group = [], rs_management_address = []\<rparr>"

record 's definer =
  df_env :: "'s env"
  df_texts :: texts
  df_host_text :: "host \<Rightarrow> str"
  df_initiators_text :: "initiators \<Rightarrow> str"

definition SCSI_PROTOCOL :: str where "SCSI_PROTOCOL = ''scsi''"
definition NVME_PROTOCOL :: str where "NVME_PROTOCOL = ''nvme''"
definition IO_GROUP_DELIMITER :: char where "IO_GROUP_DELIMITER = CHR '':''"

definition csi_node_initiators :: "define_host_request \<Rightarrow> initiators" where
  "csi_node_initiators rq =
     get_initiators_from_csi_node (rq_node_initiators_from_csi_node rq) (rq_node_id_from_csi_node rq)"

definition requested_connectivity_type :: "define_host_request \<Rightarrow> str option" where
  "requested_connectivity_type rq =
     get_initiators_connectivity_type (csi_node_initiators rq) (rq_connectivity_type_from_user rq)"

definition rq_partition_name :: "define_host_request \<Rightarrow> str option" where
  "rq_partition_name rq = ci_partition_name (rq_array_connection_info rq)"

subsection \<open>Ports and protocols\<close>

definition is_protocol_scsi :: "str option \<Rightarrow> bool" where
  "is_protocol_scsi t = (t \<in> {Some FC, Some ISCSI})"

definition is_protocol_nvme :: "str option \<Rightarrow> bool" where
  "is_protocol_nvme t = (t \<in> {Some NVME_OVER_FC, Some NVME_OVER_ROCE})"

definition is_switching_from_nvme_to_scsi :: "str option \<Rightarrow> str option \<Rightarrow> bool" where
  "is_switching_from_nvme_to_scsi from_user from_host = (is_protocol_nvme from_host \<and> is_protocol_scsi from_user)"

definition is_switching_from_scsi_to_nvme :: "str option \<Rightarrow> str option \<Rightarrow> bool" where
  "is_switching_from_scsi_to_nvme from_user from_host = (is_protocol_scsi from_host \<and> is_protocol_nvme from_user)"

definition is_protocol_switched :: "str option \<Rightarrow> str option \<Rightarrow> bool" where
  "is_protocol_switched from_user from_host =
     (is_switching_from_nvme_to_scsi from_user from_host \<or> is_switching_from_scsi_to_nvme from_user from_host)"

definition get_host_protocol :: "str option \<Rightarrow> str" where
  "get_host_protocol t =
     (if is_protocol_scsi t then SCSI_PROTOCOL else if is_protocol_nvme t then NVME_PROTOCOL else [])"

text \<open>The list to keep, and the new one, are \<open>None\<close> when there are no ports of the type.\<close>

definition get_ports_to_remove :: "str list \<Rightarrow> str list option \<Rightarrow> str list" where
  "get_ports_to_remove all_ports keep =
     (case keep of
        None \<Rightarrow> all_ports
      | Some ks \<Rightarrow> if ks = [] then all_ports else filter (\<lambda>p. py_lower p \<notin> set (map py_lower ks)) all_ports)"

definition get_ports_to_add :: "str list option \<Rightarrow> str list \<Rightarrow> exn + str list" where
  "get_ports_to_add new_ports existing_ports =
     (case new_ports of
        None \<Rightarrow> if existing_ports = [] then Inr [] else Inl (PyErr TypeError)
      | Some ps \<Rightarrow>
          if existing_ports = [] then Inr ps
          else Inr (filter (\<lambda>p. py_lower p \<notin> set (map py_lower existing_ports)) ps))"

definition create_initiators_for_connectivity_type :: "str list \<Rightarrow> str option \<Rightarrow> initiators" where
  "create_initiators_for_connectivity_type ports t =
     (if t = Some FC then mk_initiators [] ports []
      else if t = Some ISCSI then mk_initiators [] [] ports
      else if t = Some NVME_OVER_FC then mk_initiators ports [] []
      else mk_initiators [] [] [])"

definition remove_host_ports :: "'s mediator \<Rightarrow> str \<Rightarrow> str list \<Rightarrow> str option \<Rightarrow> ('s, unit) prog" where
  "remove_host_ports md hname ports t =
     (if truthy t \<and> ports \<noteq> [] then md_remove_ports_from_host md hname ports t else ret ())"

definition hd_create_host :: "'s mediator \<Rightarrow> define_host_request \<Rightarrow> str \<Rightarrow> ('s, unit) prog" where
  "hd_create_host md rq hname =
     (let i = csi_node_initiators rq; t = requested_connectivity_type rq in
      thenE (md_create_host md hname i t (rq_io_group rq) (rq_partition_name rq)
               (ci_port_set (rq_array_connection_info rq)))
        (if truthy (rq_partition_name rq) then ret () else md_add_ports_to_host md hname i t))"

subsection \<open>Updating a host\<close>

text \<open>A host in another partition is deleted, and the caller makes it again.\<close>

definition update_host_partition :: "'s mediator \<Rightarrow> str \<Rightarrow> str option \<Rightarrow> ('s, unit) prog" where
  "update_host_partition md hname partition_name =
     bindE (md_verify_host_partition md hname partition_name) (\<lambda>ok.
     if ok then ret ()
     else thenE (md_delete_host md hname) (raiseE (ArrayErr (HostNotFoundError hname))))"

definition change_host_protocol_with_chhost ::
  "'s mediator \<Rightarrow> define_host_request \<Rightarrow> str \<Rightarrow> str option \<Rightarrow> ('s, unit) prog" where
  "change_host_protocol_with_chhost md rq hname existing_type =
     bindE (md_get_host_connectivity_ports md hname existing_type) (\<lambda>ports.
     thenE (if ports \<noteq> [] then remove_host_ports md hname ports existing_type else ret ())
    (thenE (md_change_host_protocol md hname (get_host_protocol (requested_connectivity_type rq)))
       (md_add_ports_to_host md hname (csi_node_initiators rq) (requested_connectivity_type rq))))"

definition hd_change_host_protocol ::
  "'s mediator \<Rightarrow> define_host_request \<Rightarrow> str \<Rightarrow> str option \<Rightarrow> ('s, unit) prog" where
  "hd_change_host_protocol md rq hname existing_type =
     catchE (change_host_protocol_with_chhost md rq hname existing_type)
       (\<lambda>e. thenE (md_delete_host md hname) (hd_create_host md rq hname))"

definition is_port_update_needed_when_same_protocol ::
  "define_host_request \<Rightarrow> str option \<Rightarrow> str option \<Rightarrow> bool" where
  "is_port_update_needed_when_same_protocol rq from_user from_host =
     (from_user \<noteq> from_host \<or> rq_node_id_from_csi_node rq \<noteq> rq_node_id_from_host_definition rq \<or>
      \<not> are_initiators_equal (rq_node_initiators_from_csi_node rq) (rq_node_initiators_from_host_definition rq)
          (rq_connectivity_type_from_user rq))"

text \<open>The ports of the host become those of the node, of the type that was asked for.\<close>

definition synchronize_ports :: "'s mediator \<Rightarrow> define_host_request \<Rightarrow> str \<Rightarrow> str option \<Rightarrow> ('s, unit) prog" where
  "synchronize_ports md rq hname existing_type =
     (let t = requested_connectivity_type rq in
      bindE (md_get_host_connectivity_ports md hname existing_type) (\<lambda>ports.
      let new_ports = (case t of None \<Rightarrow> None | Some t \<Rightarrow> get_by_connectivity_type (csi_node_initiators rq) t);
          to_remove = get_ports_to_remove ports new_ports in
      bindE (liftR (get_ports_to_add new_ports ports)) (\<lambda>to_add.
      thenE (if to_remove \<noteq> [] then remove_host_ports md hname to_remove existing_type else ret ())
        (if to_add \<noteq> []
         then md_add_ports_to_host md hname (create_initiators_for_connectivity_type to_add t) t else ret ()))))"

definition update_host_ports ::
  "'s mediator \<Rightarrow> define_host_request \<Rightarrow> str \<Rightarrow> str option \<Rightarrow> ('s, unit) prog" where
  "update_host_ports md rq hname partition_name =
     bindE (md_get_host_connectivity_type md hname) (\<lambda>existing_type.
     let t = requested_connectivity_type rq in
     if is_protocol_switched t existing_type then hd_change_host_protocol md rq hname existing_type
     else if is_port_update_needed_when_same_protocol rq t existing_type
     then catchE (synchronize_ports md rq hname existing_type)
            (\<lambda>e. if truthy partition_name then thenE (md_delete_host md hname) (hd_create_host md rq hname)
                  else raiseE e)
     else ret ())"

definition split_io_group_from_user :: "str \<Rightarrow> str list" where
  "split_io_group_from_user io_group =
     (if io_group = [] then py_split IO_GROUP_DELIMITER FULL_IO_GROUP else py_split IO_GROUP_DELIMITER io_group)"

text \<open>The groups to add and those that are left over of the host's, which are to be removed.\<close>

fun get_io_group_to_remove_and_add_lists :: "str list \<Rightarrow> str list \<Rightarrow> str list \<times> str list" where
  "get_io_group_to_remove_and_add_lists from_host [] = ([], from_host)"
| "get_io_group_to_remove_and_add_lists from_host (g # gs) =
     (if g \<in> set from_host then get_io_group_to_remove_and_add_lists (remove1 g from_host) gs
      else (case get_io_group_to_remove_and_add_lists from_host gs of (add, del) \<Rightarrow> (g # add, del)))"

definition get_io_group_to_modify :: "str list option \<Rightarrow> str \<Rightarrow> str \<times> str" where
  "get_io_group_to_modify from_host from_user =
     (let groups = split_io_group_from_user from_user in
      case from_host of
        None \<Rightarrow> ([], py_join [IO_GROUP_DELIMITER] groups)
      | Some ids \<Rightarrow>
          (case get_io_group_to_remove_and_add_lists ids groups of
             (add, del) \<Rightarrow> (py_join [IO_GROUP_DELIMITER] del, py_join [IO_GROUP_DELIMITER] add)))"

definition update_host_io_group :: "'s mediator \<Rightarrow> define_host_request \<Rightarrow> str \<Rightarrow> ('s, unit) prog" where
  "update_host_io_group md rq hname =
     bindE (md_get_host_io_group md hname) (\<lambda>from_host.
     case get_io_group_to_modify from_host (rq_io_group rq) of (to_remove, to_add) \<Rightarrow>
       thenE (md_remove_io_group_from_host md hname to_remove) (md_add_io_group_to_host md hname to_add))"

subsection \<open>Defining and undefining\<close>

definition hd_get_host_name :: "'s mediator \<Rightarrow> initiators \<Rightarrow> ('s, str) prog" where
  "hd_get_host_name md i = bindE (md_get_host_by_host_identifiers md i) (\<lambda>(hname, types). ret hname)"

definition validate_host :: "'s definer \<Rightarrow> host \<Rightarrow> initiators \<Rightarrow> define_host_response" where
  "validate_host df h i =
     (if \<not> initiators_contains i (host_initiators h)
      then empty_response\<lparr>rs_error_message := 
        ''host '' @ df_host_text df h @ '' found but with different initiators: '' @
        df_initiators_text df (host_initiators h)\<rparr>
      else empty_response)"

definition generate_response ::
  "'s mediator \<Rightarrow> str \<Rightarrow> str option \<Rightarrow> str \<Rightarrow> str option \<Rightarrow> ('s, define_host_response) prog" where
  "generate_response md hname t management_address partition_name =
     bindE (md_get_host_connectivity_ports md hname t) (\<lambda>ports.
     bindE (if truthy partition_name then ret (py_split IO_GROUP_DELIMITER FULL_IO_GROUP)
            else bindE (md_get_host_io_group md hname) (\<lambda>g. case g of
                   None \<Rightarrow> raiseE (PyErr AttributeError) | Some ids \<Rightarrow> ret ids)) (\<lambda>ids.
     bindE (liftR (mapR (\<lambda>i. case py_int i of None \<Rightarrow> Inl (PyErr ValueError) | Some n \<Rightarrow> Inr n) ids)) (\<lambda>io_groups.
     ret \<lparr>rs_error_message = [], rs_connectivity_type = t, rs_ports = ports, rs_node_name_on_storage = hname,
          rs_io_group = io_groups, rs_management_address = management_address\<rparr>)))"

text \<open>The host of the definition is updated; its name is the result.\<close>

definition update_existing_host :: "'s mediator \<Rightarrow> define_host_request \<Rightarrow> ('s, str) prog" where
  "update_existing_host md rq =
     (let i = get_initiators_from_host_definition (rq_node_initiators_from_host_definition rq)
                (rq_node_id_from_host_definition rq);
          partition_name = rq_partition_name rq in
      bindE (hd_get_host_name md i) (\<lambda>found.
      thenE (update_host_partition md found partition_name)
     (thenE (update_host_ports md rq found partition_name)
     (thenE (if truthy partition_name then ret () else update_host_io_group md rq found)
        (ret found)))))"

text \<open>\<open>Inl\<close> is the response that a host of the name with other ports gives at once.\<close>

definition create_new_host ::
  "'s definer \<Rightarrow> 's mediator \<Rightarrow> define_host_request \<Rightarrow> str \<Rightarrow> ('s, define_host_response + str) prog" where
  "create_new_host df md rq hname =
     tryE (hd_create_host md rq hname)
       (\<lambda>e. if isa ''HostAlreadyExists'' e
            then bindE (md_get_host_by_name md hname) (\<lambda>h.
                 let r = validate_host df h (csi_node_initiators rq) in
                 if rs_error_message r \<noteq> [] then ret (Inl r) else ret (Inr (host_name h)))
            else raiseE e)
       (\<lambda>_. ret (Inr hname))"

definition define_host_on ::
  "'s definer \<Rightarrow> 's mediator \<Rightarrow> define_host_request \<Rightarrow> ('s, define_host_response) prog" where
  "define_host_on df md rq =
     (let hname = join_object_prefix_with_name (rq_prefix rq) (node_id_info_name (rq_node_id_from_csi_node rq)) in
      bindE (catchE (bindE (update_existing_host md rq) (\<lambda>h. ret (Inr h)))
               (\<lambda>e. if isa ''HostNotFoundError'' e then create_new_host df md rq hname else raiseE e)) (\<lambda>r.
      case r of
        Inl response \<Rightarrow> ret response
      | Inr hname \<Rightarrow>
          bindE (liftR (case ci_array_addresses (rq_array_connection_info rq) of
                          [] \<Rightarrow> Inl (PyErr IndexError) | a # _ \<Rightarrow> Inr a)) (\<lambda>address.
          generate_response md hname (requested_connectivity_type rq) address (rq_partition_name rq))))"

definition answer_exception :: "'s definer \<Rightarrow> exn \<Rightarrow> ('s, define_host_response) prog" where
  "answer_exception df e = ret (empty_response\<lparr>rs_error_message := exception_text (df_texts df) e\<rparr>)"

text \<open>What the two requests do inside of their \<open>try\<close>.\<close>

definition reach_storage ::
  "'s definer \<Rightarrow> define_host_request \<Rightarrow> ('s mediator \<Rightarrow> ('s, define_host_response) prog) \<Rightarrow>
    ('s, define_host_response) prog" where
  "reach_storage df rq body =
     (let ci = rq_array_connection_info rq in
      bindE (env_detect (df_env df) (ci_array_addresses ci)) (\<lambda>array_type.
      with_agent (df_env df) ci array_type (\<lambda>md. body (mediator.truncate md))))"

definition on_storage ::
  "'s definer \<Rightarrow> define_host_request \<Rightarrow> ('s mediator \<Rightarrow> ('s, define_host_response) prog) \<Rightarrow>
    ('s, define_host_response) prog" where
  "on_storage df rq body =
     catchE (reach_storage df rq body) (answer_exception df)"

definition define_host :: "'s definer \<Rightarrow> define_host_request \<Rightarrow> ('s, define_host_response) prog" where
  "define_host df rq = on_storage df rq (\<lambda>md. define_host_on df md rq)"

definition undefine_host_on :: "'s mediator \<Rightarrow> define_host_request \<Rightarrow> ('s, define_host_response) prog" where
  "undefine_host_on md rq =
     thenE (catchE (bindE (hd_get_host_name md (csi_node_initiators rq)) (md_delete_host md))
              (\<lambda>e. if isa ''HostNotFoundError'' e then ret () else raiseE e))
       (ret empty_response)"

definition undefine_host :: "'s definer \<Rightarrow> define_host_request \<Rightarrow> ('s, define_host_response) prog" where
  "undefine_host df rq = on_storage df rq (\<lambda>md. undefine_host_on md rq)"

subsection \<open>What the host definer guarantees\<close>

lemma io_group_lists_mset:
  "get_io_group_to_remove_and_add_lists from_host gs = (add, del) \<Longrightarrow>
     mset add = mset gs - mset from_host \<and> mset del = mset from_host - mset gs"
proof (induction from_host gs arbitrary: add del rule: get_io_group_to_remove_and_add_lists.induct)
  case (2 from_host g gs)
  show ?case
  proof (cases "g \<in> set from_host")
    case True
    then have "add_mset g (mset (remove1 g from_host)) = mset from_host" by simp
    then show ?thesis using 2 True by (metis (no_types, lifting) add_mset_add_mset_same_iff add_mset_diff_bothsides
          get_io_group_to_remove_and_add_lists.simps(2) mset.simps(2))
  next
    case False
    then obtain add' where rec: "get_io_group_to_remove_and_add_lists from_host gs = (add', del)" "add = g # add'"
      using "2.prems" by (auto split: prod.splits)
    have "g \<notin># mset from_host" using False by simp
    then have "mset gs + {#g#} - mset from_host = (mset gs - mset from_host) + {#g#}"
      and "mset from_host - (mset gs + {#g#}) = mset from_host - mset gs"
      by (simp_all add: multiset_eq_iff not_in_iff)
    then show ?thesis using "2.IH"(2) [OF False rec(1)] rec(2) by simp
  qed
qed simp

text \<open>
  C27. The I/O groups of a host are brought to those of the request: the two lists are the differences
  of the multisets of the groups, so that removing the one and adding the other gives the groups that were
  asked for, and nothing is removed and added again.
\<close>
theorem io_groups_reconciled:
  assumes "get_io_group_to_remove_and_add_lists from_host (split_io_group_from_user io_group) = (add, del)"
  shows "mset del = mset from_host - mset (split_io_group_from_user io_group) \<and>
    mset add = mset (split_io_group_from_user io_group) - mset from_host \<and>
    mset from_host - mset del + mset add = mset (split_io_group_from_user io_group) \<and> set add \<inter> set del = {}"
proof -
  note m = io_group_lists_mset [OF assms]
  have "set_mset (mset add) \<inter> set_mset (mset del) = {}"
    using m by (auto simp: set_eq_iff in_diff_count)
  then have "set add \<inter> set del = {}" by simp
  moreover have "mset from_host - mset del + mset add = mset (split_io_group_from_user io_group)"
  proof (rule multiset_eqI)
    fix x
    have "count (mset add) x = count (mset (split_io_group_from_user io_group)) x - count (mset from_host) x"
      "count (mset del) x = count (mset from_host) x - count (mset (split_io_group_from_user io_group)) x"
      using m by simp_all
    then show "count (mset from_host - mset del + mset add) x = count (mset (split_io_group_from_user io_group)) x"
      by simp
  qed
  ultimately show ?thesis using m by simp
qed

lemma io_groups_reconciled_witness:
  "get_io_group_to_remove_and_add_lists [''0'', ''2''] (split_io_group_from_user ''0:1'') = ([''1''], [''2'']) \<and>
   mset [''0'', ''2''] - mset [''2''] + mset [''1''] = mset (split_io_group_from_user ''0:1'')"
proof -
  have run: "get_io_group_to_remove_and_add_lists [''0'', ''2''] (split_io_group_from_user ''0:1'') = ([''1''], [''2''])"
    by code_simp
  show ?thesis using run io_groups_reconciled [OF run] by blast
qed

text \<open>
  C28. When the node has ports of the type, the ports of the host become those of the node, ignoring case: what
  is kept and what is added are together the ports of the node, no port that is added was there, and nothing is
  removed or added when the ports already agree.
\<close>
theorem host_ports_reconciled:
  assumes "ps \<noteq> []" and "get_ports_to_add (Some ps) existing = Inr add"
  shows "lower_set (filter (\<lambda>p. p \<notin> set (get_ports_to_remove existing (Some ps))) existing) \<union> lower_set add = lower_set ps \<and>
    lower_set add \<inter> lower_set existing = {} \<and>
    lower_set (get_ports_to_remove existing (Some ps)) \<inter> lower_set ps = {} \<and>
    (lower_set existing = lower_set ps \<longrightarrow> get_ports_to_remove existing (Some ps) = [] \<and> add = [])"
proof -
  have rem: "get_ports_to_remove existing (Some ps) = filter (\<lambda>p. py_lower p \<notin> lower_set ps) existing"
    using assms(1) by (simp add: get_ports_to_remove_def lower_set_def)
  have add: "add = filter (\<lambda>p. py_lower p \<notin> lower_set existing) ps"
    using assms(2) by (auto simp: get_ports_to_add_def lower_set_def split: if_splits)
  have kept: "filter (\<lambda>p. p \<notin> set (get_ports_to_remove existing (Some ps))) existing =
      filter (\<lambda>p. py_lower p \<in> lower_set ps) existing"
    unfolding rem by (rule filter_cong) auto
  have "lower_set (filter (\<lambda>p. py_lower p \<in> lower_set ps) existing) \<union> lower_set add = lower_set ps"
  proof -
    have "py_lower p \<in> lower_set (filter (\<lambda>p. py_lower p \<in> lower_set ps) existing) \<union> lower_set add"
      if "p \<in> set ps" for p
    proof (cases "py_lower p \<in> lower_set existing")
      case True
      then obtain x where x: "x \<in> set existing" "py_lower x = py_lower p" by (auto simp: lower_set_def)
      then have "x \<in> set (filter (\<lambda>p. py_lower p \<in> lower_set ps) existing)" using that by (simp add: lower_set_def)
      then have "py_lower x \<in> lower_set (filter (\<lambda>p. py_lower p \<in> lower_set ps) existing)"
        unfolding lower_set_def set_map by (rule imageI)
      then show ?thesis using x(2) by simp
    next
      case False
      then show ?thesis using that by (auto simp: add lower_set_def)
    qed
    then show ?thesis by (auto simp: add lower_set_def)
  qed
  then show ?thesis
    unfolding kept by (auto simp: rem add lower_set_def filter_empty_conv)
qed

lemma host_ports_reconciled_witness:
  "get_ports_to_add (Some [''10000000C9'', ''10000000CA'']) [''10000000c9'', ''20000000c9''] = Inr [''10000000CA''] \<and>
   get_ports_to_remove [''10000000c9'', ''20000000c9''] (Some [''10000000C9'', ''10000000CA'']) = [''20000000c9''] \<and>
   lower_set [''10000000CA''] \<inter> lower_set [''10000000c9'', ''20000000c9''] = {}"
proof -
  have run: "get_ports_to_add (Some [''10000000C9'', ''10000000CA'']) [''10000000c9'', ''20000000c9''] = Inr [''10000000CA'']"
    by code_simp
  have rem: "get_ports_to_remove [''10000000c9'', ''20000000c9''] (Some [''10000000C9'', ''10000000CA'']) = [''20000000c9'']"
    by code_simp
  show ?thesis using host_ports_reconciled [OF _ run] run rem by simp
qed

lemma on_storage_answers:
  "\<exists>r t. on_storage df rq body s = (Inr r, t)"
  by (auto simp: on_storage_def Let_def catchE_def answer_exception_def prog_run split: prod.splits sum.splits)

lemma define_host_runs: obtains r t where "define_host df rq s = (Inr r, t)"
  using on_storage_answers unfolding define_host_def by metis

text \<open>Results of a program that succeeds.\<close>

lemma generate_response_result:
  assumes "generate_response md h t a p s = (Inr r, s')"
  shows "rs_error_message r = [] \<and> rs_node_name_on_storage r = h \<and> rs_management_address r = a \<and>
    (\<exists>s1. md_get_host_connectivity_ports md h t s = (Inr (rs_ports r), s1))"
  using assms unfolding generate_response_def by (auto elim!: bindE_InrE simp: prog_run)

text \<open>An answer without an error is the one that \<open>generate_response\<close> makes.\<close>

lemma define_host_on_response:
  assumes "define_host_on df md rq s = (Inr r, s')" and "rs_error_message r = []"
  shows "\<exists>h a as u. ci_array_addresses (rq_array_connection_info rq) = a # as \<and>
    generate_response md h (requested_connectivity_type rq) a (rq_partition_name rq) u = (Inr r, s')"
proof -
  let ?h = "join_object_prefix_with_name (rq_prefix rq) (node_id_info_name (rq_node_id_from_csi_node rq))"
  obtain x u where x: "catchE (bindE (update_existing_host md rq) (\<lambda>h. ret (Inr h)))
      (\<lambda>e. if isa ''HostNotFoundError'' e then create_new_host df md rq ?h else raiseE e) s = (Inr x, u)"
    and rest: "(case x of Inl response \<Rightarrow> ret response
      | Inr hname \<Rightarrow>
          bindE (liftR (case ci_array_addresses (rq_array_connection_info rq) of
                          [] \<Rightarrow> Inl (PyErr IndexError) | a # _ \<Rightarrow> Inr a)) (\<lambda>address.
          generate_response md hname (requested_connectivity_type rq) address (rq_partition_name rq))) u = (Inr r, s')"
    using assms(1) unfolding define_host_on_def Let_def by (elim bindE_InrE) auto
  show ?thesis
  proof (cases x)
    case (Inl response)
    have "rs_error_message response \<noteq> []"
      using x unfolding Inl
      by (auto simp: catchE_def create_new_host_def tryE_def prog_run bindE_def Let_def
          split: prod.splits sum.splits if_splits)
    then show ?thesis using rest assms(2) by (simp add: Inl prog_run)
  next
    case (Inr h)
    with rest obtain a as where "ci_array_addresses (rq_array_connection_info rq) = a # as"
      "generate_response md h (requested_connectivity_type rq) a (rq_partition_name rq) u = (Inr r, s')"
      by (auto simp: bindE_def prog_run split: list.splits)
    then show ?thesis by blast
  qed
qed

lemma define_host_on_result:
  assumes "define_host_on df md rq s = (Inr r, s')" and "rs_error_message r = []"
  shows "\<exists>s1 s2. md_get_host_connectivity_ports md (rs_node_name_on_storage r) (requested_connectivity_type rq) s1 =
      (Inr (rs_ports r), s2) \<and>
    (\<exists>rest. ci_array_addresses (rq_array_connection_info rq) = rs_management_address r # rest)"
  using define_host_on_response [OF assms] generate_response_result by (metis (no_types))

text \<open>What is answered is what the body gave on a mediator, or the text of the exception that was raised.\<close>

lemma on_storage_result:
  assumes "on_storage df rq body s = (Inr r, s')"
  obtains (raised) e where "reach_storage df rq body s = (Inl e, s')"
      "r = empty_response\<lparr>rs_error_message := exception_text (df_texts df) e\<rparr>"
  | (returned) t md s0 s1 s2 where "env_acquire (df_env df) (rq_array_connection_info rq) t s0 = (Inr md, s1)"
      "body (mediator.truncate md) s1 = (Inr r, s2)"
proof (cases "reach_storage df rq body s")
  case (Pair x u)
  show thesis
  proof (cases x)
    case (Inl e)
    then show thesis using assms Pair raised by (simp add: on_storage_def catchE_def answer_exception_def prog_run)
  next
    case (Inr r')
    then have "reach_storage df rq body s = (Inr r, s')" using assms Pair by (simp add: on_storage_def catchE_def)
    then obtain t s0 where
        "with_agent (df_env df) (rq_array_connection_info rq) t (\<lambda>md. body (mediator.truncate md)) s0 = (Inr r, s')"
      unfolding reach_storage_def Let_def by (elim bindE_InrE)
    then obtain md s1 where a: "env_acquire (df_env df) (rq_array_connection_info rq) t s0 = (Inr md, s1)"
      and "finallyE (body (mediator.truncate md)) (env_release (df_env df)) s1 = (Inr r, s')"
      unfolding with_agent_def by (elim bindE_InrE)
    then obtain s2 where "body (mediator.truncate md) s1 = (Inr r, s2)"
      by (auto simp: finallyE_def split: prod.splits)
    with a show thesis by (rule returned)
  qed
qed

text \<open>
  C29. Defining a host never raises: it answers with the text of what went wrong, or with no error. An answer without
  an error is about a host of the storage system that was reached, and has the ports that this system reports for
  it and the first of its addresses; or an exception was raised whose text is empty, and the answer is blank.
\<close>
theorem define_host_answers:
  shows "\<exists>r s'. define_host df rq s = (Inr r, s') \<and>
    (rs_error_message r = [] \<longrightarrow>
      (\<exists>t md s0 s1 s2 s3. env_acquire (df_env df) (rq_array_connection_info rq) t s0 = (Inr md, s1) \<and>
        md_get_host_connectivity_ports md (rs_node_name_on_storage r) (requested_connectivity_type rq) s2 =
          (Inr (rs_ports r), s3) \<and>
        (\<exists>rest. ci_array_addresses (rq_array_connection_info rq) = rs_management_address r # rest)) \<or>
      (\<exists>e. reach_storage df rq (\<lambda>md. define_host_on df md rq) s = (Inl e, s') \<and> silent (df_texts df) e \<and>
        r = empty_response))"
proof -
  obtain r s' where run: "define_host df rq s = (Inr r, s')" by (rule define_host_runs)
  from run [unfolded define_host_def] show ?thesis
  proof (cases rule: on_storage_result)
    case (raised e)
    then show ?thesis using run by (auto simp: silent_def empty_response_def)
  next
    case (returned t md s0 s1 s2)
    then show ?thesis using run define_host_on_result [OF returned(2)] by (fastforce simp: mediator.truncate_def)
  qed
qed

definition example_host_mediator :: "str list mediator" where
  "example_host_mediator =
     (array_mediator_interface ''10.0.0.1'')
       \<lparr>md_get_host_by_host_identifiers := (\<lambda>i. raiseE (ArrayErr (HostNotFoundError (list_repr (iscsi_iqns i))))),
        md_create_host := (\<lambda>h i t g p q. ret ()),
        md_add_ports_to_host := (\<lambda>h i t s. (Inr (), s @ iscsi_iqns i)),
        md_get_host_connectivity_ports := (\<lambda>h t s. (Inr s, s)),
        md_get_host_io_group := (\<lambda>h. ret (Some [''0'', ''1'']))\<rparr>"

definition example_definer :: "str list definer" where
  "example_definer =
     \<lparr>df_env = \<lparr>env_detect = (\<lambda>es. ret ARRAY_TYPE_SVC),
        env_acquire = (\<lambda>ci t. ret (inherit_methods example_host_mediator (\<lambda>m. m) (\<lambda>m. m) (\<lambda>m. m))),
        env_release = (\<lambda>s. s), env_read_node = (\<lambda>n. Inr None), env_hash = (\<lambda>s. s)\<rparr>,
      df_texts = plain_texts, df_host_text = host_name, df_initiators_text = (\<lambda>i. ''initiators'')\<rparr>"

definition example_define_request :: define_host_request where
  "example_define_request =
     \<lparr>rq_prefix = Some ''csi'', rq_connectivity_type_from_user = Some ISCSI, rq_node_id_from_host_definition = ''node1'',
      rq_node_initiators_from_host_definition = [], rq_node_id_from_csi_node = ''node1;;;iqn.1994-05.com.redhat:1'',
      rq_node_initiators_from_csi_node = [],
      rq_array_connection_info =
        \<lparr>ci_array_addresses = [''10.0.0.1''], ci_user = ''u'', ci_password = ''p'', ci_system_id = None,
         ci_partition_name = None, ci_partition_vg = None, ci_port_set = None, ci_verify_ssl = False\<rparr>,
      rq_io_group = ''0:1''\<rparr>"

lemma define_host_answers_witness:
  "\<exists>r s'. define_host example_definer example_define_request [] = (Inr r, s') \<and> rs_error_message r = [] \<and>
     rs_node_name_on_storage r = ''csi_node1'' \<and> rs_ports r = [''iqn.1994-05.com.redhat:1''] \<and>
     (\<exists>rest. [''10.0.0.1''] = rs_management_address r # rest)"
proof -
  have run: "define_host example_definer example_define_request [] =
    (Inr \<lparr>rs_error_message = [], rs_connectivity_type = Some ISCSI, rs_ports = [''iqn.1994-05.com.redhat:1''],
       rs_node_name_on_storage = ''csi_node1'', rs_io_group = [0, 1], rs_management_address = ''10.0.0.1''\<rparr>,
     [''iqn.1994-05.com.redhat:1''])"
    by code_simp
  from define_host_answers [of example_definer example_define_request "[]"] show ?thesis
    using run by (auto simp: example_define_request_def empty_response_def)
qed

text \<open>
  A host that is in another partition than the request is deleted before anything else happens to it, and
  is then made anew under the name of the node; in a partition no port is added in a second step and the I/O
  groups are left alone.
\<close>
theorem host_moves_partition:
  assumes "hd_get_host_name md (get_initiators_from_host_definition (rq_node_initiators_from_host_definition rq)
        (rq_node_id_from_host_definition rq)) s = (Inr found, s1)"
    and "md_verify_host_partition md found (rq_partition_name rq) s1 = (Inr False, s2)"
    and "md_delete_host md found s2 = (Inr (), s3)"
    and name: "hname = join_object_prefix_with_name (rq_prefix rq) (node_id_info_name (rq_node_id_from_csi_node rq))"
    and "md_create_host md hname (csi_node_initiators rq) (requested_connectivity_type rq) (rq_io_group rq)
        (rq_partition_name rq) (ci_port_set (rq_array_connection_info rq)) s3 = (Inr (), s4)"
    and "truthy (rq_partition_name rq)" and "ci_array_addresses (rq_array_connection_info rq) = a # as"
  shows "define_host_on df md rq s =
    generate_response md hname (requested_connectivity_type rq) a (rq_partition_name rq) s4"
  using assms
  by (simp add: define_host_on_def update_existing_host_def update_host_partition_def create_new_host_def
      hd_create_host_def Let_def prog_defs prog_run)

lemma host_moves_partition_witness:
  "\<exists>md rq. define_host_on example_definer md rq ([] :: str list) =
     generate_response md ''csi_node1'' (Some ISCSI) ''10.0.0.1'' (Some ''p1'') [''created'', ''deleted'']"
proof -
  let ?md = "example_host_mediator
     \<lparr>md_get_host_by_host_identifiers := (\<lambda>i. ret (''old'', [])), md_verify_host_partition := (\<lambda>h p. ret False),
      md_delete_host := (\<lambda>h s. (Inr (), ''deleted'' # s)), md_create_host := (\<lambda>h i t g p q s. (Inr (), ''created'' # s))\<rparr>"
  let ?rq = "example_define_request\<lparr>rq_array_connection_info :=
     (rq_array_connection_info example_define_request)\<lparr>ci_partition_name := Some ''p1''\<rparr>\<rparr>"
  have n: "''csi_node1'' = join_object_prefix_with_name (rq_prefix ?rq) (node_id_info_name (rq_node_id_from_csi_node ?rq))"
    by code_simp
  have t: "requested_connectivity_type ?rq = Some ISCSI" by code_simp
  have p: "rq_partition_name ?rq = Some ''p1''" by (simp add: rq_partition_name_def)
  have "define_host_on example_definer ?md ?rq ([] :: str list) =
     generate_response ?md ''csi_node1'' (requested_connectivity_type ?rq) ''10.0.0.1'' (rq_partition_name ?rq)
       [''created'', ''deleted'']"
    using host_moves_partition [of ?md ?rq "[]" "''old''" "[]" "[]" "[''deleted'']" "''csi_node1''"
      "[''created'', ''deleted'']" "''10.0.0.1''" "[]" example_definer] n
    by (simp add: hd_get_host_name_def prog_run rq_partition_name_def example_define_request_def bindE_def)
  then show ?thesis unfolding t p by blast
qed

subsection \<open>Storage systems that can not make hosts\<close>

text \<open>
  The mediators of the DS8000 and of the A9000 find hosts, but raise \<open>NotImplementedError\<close> when one is to be made, deleted or asked
  for its protocol, and they take every host to be in the right partition.
\<close>

definition hosts_unimplemented :: "'s mediator \<Rightarrow> bool" where
  "hosts_unimplemented md \<longleftrightarrow>
     (\<forall>h i t g p q. md_create_host md h i t g p q = raiseE (PyErr NotImplementedError)) \<and>
     (\<forall>h. md_delete_host md h = raiseE (PyErr NotImplementedError)) \<and>
     (\<forall>h. md_get_host_connectivity_type md h = raiseE (PyErr NotImplementedError)) \<and>
     (\<forall>h p. md_verify_host_partition md h p = ret True)"

definition lookup_of_definition :: "'s mediator \<Rightarrow> define_host_request \<Rightarrow> ('s, str \<times> str list) prog" where
  "lookup_of_definition md rq =
     md_get_host_by_host_identifiers md
       (get_initiators_from_host_definition (rq_node_initiators_from_host_definition rq) (rq_node_id_from_host_definition rq))"

definition found_or_absent :: "exn + 'a \<Rightarrow> bool" where
  "found_or_absent x = (case x of Inl e \<Rightarrow> isa ''HostNotFoundError'' e | Inr _ \<Rightarrow> True)"

lemma define_host_on_unimplemented:
  assumes "hosts_unimplemented md" and "lookup_of_definition md rq s = (x, s1)" and "found_or_absent x"
  shows "define_host_on df md rq s = (Inl (PyErr NotImplementedError), s1)"
proof (cases x)
  case (Inl e)
  then have "update_existing_host md rq s = (Inl e, s1)"
    using assms(2) by (simp add: update_existing_host_def hd_get_host_name_def lookup_of_definition_def Let_def bindE_def)
  moreover have "create_new_host df md rq h s1 = (Inl (PyErr NotImplementedError), s1)" for h
    using assms(1)
    by (simp add: create_new_host_def hd_create_host_def hosts_unimplemented_def Let_def tryE_def thenE_def bindE_def prog_run)
  moreover have "isa ''HostNotFoundError'' e" using assms(3) by (simp add: Inl found_or_absent_def)
  ultimately show ?thesis by (simp add: define_host_on_def Let_def bindE_def catchE_def)
next
  case (Inr y)
  then have "update_existing_host md rq s = (Inl (PyErr NotImplementedError), s1)"
    using assms(1,2)
    by (cases y) (simp add: update_existing_host_def hd_get_host_name_def lookup_of_definition_def update_host_partition_def
        update_host_ports_def hosts_unimplemented_def Let_def thenE_def bindE_def prog_run)
  then show ?thesis by (simp add: define_host_on_def Let_def bindE_def catchE_def prog_run)
qed

lemma undefine_host_on_unimplemented:
  assumes "hosts_unimplemented md"
    and "md_get_host_by_host_identifiers md (csi_node_initiators rq) s = (Inr y, s1)"
  shows "undefine_host_on md rq s = (Inl (PyErr NotImplementedError), s1)"
  using assms
  by (cases y) (simp add: undefine_host_on_def hd_get_host_name_def hosts_unimplemented_def thenE_def bindE_def catchE_def
      prog_run)

text \<open>The raise has no text, so the answer is the blank one, which has no error.\<close>

lemma on_storage_unimplemented:
  assumes "env_detect (df_env df) (ci_array_addresses (rq_array_connection_info rq)) s = (Inr t, s1)"
    and "env_acquire (df_env df) (rq_array_connection_info rq) t s1 = (Inr md, s2)"
    and "body (mediator.truncate md) s2 = (Inl (PyErr NotImplementedError), s3)"
  shows "on_storage df rq body s = (Inr empty_response, env_release (df_env df) s3)"
  using assms
  by (simp add: on_storage_def reach_storage_def with_agent_def finallyE_def answer_exception_def catchE_def bindE_def Let_def
      prog_run empty_response_def)

lemma hosts_unimplemented_blank:
  assumes "env_detect (df_env df) (ci_array_addresses (rq_array_connection_info rq)) s = (Inr t, s1)"
    and "env_acquire (df_env df) (rq_array_connection_info rq) t s1 = (Inr md, s2)"
    and "hosts_unimplemented (mediator.truncate md)"
  shows "lookup_of_definition (mediator.truncate md) rq s2 = (x, s3) \<Longrightarrow> found_or_absent x \<Longrightarrow>
      define_host df rq s = (Inr empty_response, env_release (df_env df) s3)"
    and "md_get_host_by_host_identifiers (mediator.truncate md) (csi_node_initiators rq) s2 = (Inr y, s3) \<Longrightarrow>
      undefine_host df rq s = (Inr empty_response, env_release (df_env df) s3)"
  unfolding define_host_def undefine_host_def
  using on_storage_unimplemented [OF assms(1,2), of "\<lambda>md. define_host_on df md rq"]
    on_storage_unimplemented [OF assms(1,2), of "\<lambda>md. undefine_host_on md rq"]
    define_host_on_unimplemented [OF assms(3)] undefine_host_on_unimplemented [OF assms(3)]
  by blast+

end
