(* ===== verification/Base64.thy ===== *)
theory Base64
  imports Prog "HOL-Library.Word"
begin

unbundle bit_operations_syntax

text \<open>
  \<open>base64.b64encode\<close> and \<open>base64.b64decode\<close> of the Python standard library, which the host definer uses on
  Kubernetes secrets.  Bytes are \<open>8 word\<close>.  The decoder is the one of \<open>binascii\<close>: characters outside
  the alphabet are skipped, and a padding that completes a group ends the text.
\<close>

definition b64_char :: "8 word \<Rightarrow> char" where
  "b64_char w =
     (let n = unat w in
      char_of (if n < 26 then n + 65 else if n < 52 then n + 71 else if n < 62 then n - 4
               else if n = 62 then 43 else 47))"

definition b64_index :: "char \<Rightarrow> nat option" where
  "b64_index c =
     (let n = of_char c :: nat in
      if 65 \<le> n \<and> n \<le> 90 then Some (n - 65)
      else if 97 \<le> n \<and> n \<le> 122 then Some (n - 71)
      else if 48 \<le> n \<and> n \<le> 57 then Some (n + 4)
      else if n = 43 then Some 62
      else if n = 47 then Some 63
      else None)"

definition b64_value :: "char \<Rightarrow> 8 word option" where
  "b64_value c = map_option of_nat (b64_index c)"

fun b64encode :: "8 word list \<Rightarrow> string" where
  "b64encode [] = []"
| "b64encode [a] = [b64_char (drop_bit 2 a), b64_char (push_bit 4 (take_bit 2 a)), CHR ''='', CHR ''='']"
| "b64encode [a, b] =
     [b64_char (drop_bit 2 a), b64_char (push_bit 4 (take_bit 2 a) OR drop_bit 4 b), b64_char (push_bit 2 (take_bit 4 b)),
      CHR ''='']"
| "b64encode (a # b # c # rest) =
     [b64_char (drop_bit 2 a), b64_char (push_bit 4 (take_bit 2 a) OR drop_bit 4 b),
      b64_char (push_bit 2 (take_bit 4 b) OR drop_bit 6 c), b64_char (take_bit 6 c)] @ b64encode rest"

text \<open>
  The state of the decoder: the position in the group of four, the bits left over of the last character, the
  paddings seen since then, and the bytes so far.  A mask of the \<open>k\<close> lowest bits is \<open>take_bit k\<close>.
\<close>

fun b64decode_from :: "nat \<Rightarrow> 8 word \<Rightarrow> nat \<Rightarrow> 8 word list \<Rightarrow> string \<Rightarrow> exn + 8 word list" where
  "b64decode_from pos left pads out [] = (if pos \<noteq> 0 then Inl (PyErr ValueError) else Inr out)"
| "b64decode_from pos left pads out (ch # cs) =
     (if ch = CHR ''=''
      then if 2 \<le> pos
           then if 4 \<le> pos + (pads + 1) then Inr out else b64decode_from pos left (pads + 1) out cs
           else b64decode_from pos left pads out cs
      else case b64_value ch of
          None \<Rightarrow> b64decode_from pos left pads out cs
        | Some v \<Rightarrow>
            if pos = 0 then b64decode_from 1 v 0 out cs
            else if pos = 1
            then b64decode_from 2 (take_bit 4 v) 0 (out @ [push_bit 2 left OR drop_bit 4 v]) cs
            else if pos = 2
            then b64decode_from 3 (take_bit 2 v) 0 (out @ [push_bit 4 left OR drop_bit 2 v]) cs
            else b64decode_from 0 0 0 (out @ [push_bit 6 left OR v]) cs)"

definition b64decode :: "string \<Rightarrow> exn + 8 word list" where
  "b64decode s = b64decode_from 0 0 0 [] s"

subsection \<open>The alphabet\<close>

lemma b64_value_char: "w < 64 \<Longrightarrow> b64_value (b64_char w) = Some w"
proof -
  assume "w < 64"
  then have n: "unat w < 64" by (simp add: word_less_nat_alt)
  have "b64_index (b64_char w) = Some (unat w)"
    using n by (auto simp: b64_char_def b64_index_def Let_def)
  then show ?thesis by (simp add: b64_value_def)
qed

lemma b64_char_not_pad: "w < 64 \<Longrightarrow> b64_char w \<noteq> CHR ''=''"
  using b64_value_char [of w] by (auto simp: b64_value_def b64_index_def)

lemma less_64I:
  fixes w :: "8 word"
  assumes "\<And>k. 6 \<le> k \<Longrightarrow> \<not> bit w k"
  shows "w < 64"
proof -
  have "take_bit 6 (unat w) = unat w"
    using assms by (intro bit_eqI) (auto simp: bit_take_bit_iff bit_unsigned_iff, metis not_less)
  then have "unat w < 2 ^ 6" by (simp only: take_bit_nat_eq_self_iff)
  then show ?thesis by (simp add: word_less_nat_alt)
qed

lemma bits_8_eqI:
  fixes v w :: "8 word"
  assumes "\<And>k. k \<in> {0, 1, 2, 3, 4, 5, 6, 7} \<Longrightarrow> bit v k \<longleftrightarrow> bit w k"
  shows "v = w"
proof (rule bit_word_eqI)
  fix k
  assume "k < LENGTH(8)"
  then have "k \<in> {0, 1, 2, 3, 4, 5, 6, 7}" by (simp, arith)
  then show "bit v k \<longleftrightarrow> bit w k" by (rule assms)
qed

lemma six_bits [simp]:
  fixes a b c :: "8 word"
  shows "drop_bit 2 a < 64" "push_bit 4 (take_bit 2 a) < 64" "push_bit 4 (take_bit 2 a) OR drop_bit 4 b < 64"
    "push_bit 2 (take_bit 4 b) < 64" "push_bit 2 (take_bit 4 b) OR drop_bit 6 c < 64" "take_bit 6 c < 64"
  by (rule less_64I; auto simp: bit_simps dest: bit_imp_le_length)+

text \<open>The bits of a byte that the decoder puts together again.\<close>

lemma joined_bits:
  fixes a b c :: "8 word"
  shows "push_bit 2 (drop_bit 2 a) OR drop_bit 4 (push_bit 4 (take_bit 2 a)) = a"
    "push_bit 2 (drop_bit 2 a) OR drop_bit 4 (push_bit 4 (take_bit 2 a) OR drop_bit 4 b) = a"
    "push_bit 4 (take_bit 4 (push_bit 4 (take_bit 2 a) OR drop_bit 4 b)) OR drop_bit 2 (push_bit 2 (take_bit 4 b)) = b"
    "push_bit 4 (take_bit 4 (push_bit 4 (take_bit 2 a) OR drop_bit 4 b)) OR drop_bit 2 (push_bit 2 (take_bit 4 b) OR drop_bit 6 c) = b"
    "push_bit 6 (take_bit 2 (push_bit 2 (take_bit 4 b) OR drop_bit 6 c)) OR (take_bit 6 c) = c"
  by (rule bits_8_eqI; auto simp: bit_simps; simp add: numeral_2_eq_2 numeral_3_eq_3)+

subsection \<open>Round trip\<close>

lemma b64decode_char:
  assumes "w < 64"
  shows "b64decode_from pos left pads out (b64_char w # cs) =
    (if pos = 0 then b64decode_from 1 w 0 out cs
     else if pos = 1 then b64decode_from 2 (take_bit 4 w) 0 (out @ [push_bit 2 left OR drop_bit 4 w]) cs
     else if pos = 2 then b64decode_from 3 (take_bit 2 w) 0 (out @ [push_bit 4 left OR drop_bit 2 w]) cs
     else b64decode_from 0 0 0 (out @ [push_bit 6 left OR w]) cs)"
  using assms by (simp add: b64_char_not_pad b64_value_char)

declare b64decode_from.simps(2) [simp del]

lemma b64decode_pad:
  "b64decode_from 2 left 0 out ''=='' = Inr out" "b64decode_from 3 left 0 out ''='' = Inr out"
  by (simp_all add: b64decode_from.simps(2))

lemma b64decode_encode: "b64decode_from 0 left pads out (b64encode bs) = Inr (out @ bs)"
proof (induction bs arbitrary: left pads out rule: b64encode.induct)
  case (4 a b c rest)
  then show ?case by (simp add: b64decode_char joined_bits del: take_bit_or push_bit_or drop_bit_or)
qed (simp_all add: b64decode_char b64decode_pad joined_bits del: take_bit_or push_bit_or drop_bit_or)

text \<open>
  Decoding the Base64 text of any sequence of bytes gives these bytes again.
\<close>
theorem b64_roundtrip: "b64decode (b64encode bs) = Inr bs"
  by (simp add: b64decode_def b64decode_encode)

end
