(* ===== verification/Kubernetes.thy ===== *)
theory Kubernetes
  imports HostDefiner Base64
begin

text \<open>
  The cluster side of the host definer: the records of \<open>servers/host_definer/hd_types.py\<close>, the
  Kubernetes manager (\<open>servers/host_definer/kubernetes_manager/manager.py\<close>) over the Kubernetes client, a
  third-party package, and \<open>servers/host_definer/utils.py\<close>.  The client is the parameter \<open>kube\<close>: its
  calls over the state \<open>'k\<close> of the cluster.  An \<open>ApiException\<close> (or an instance of a subclass) is
  \<open>Foreign ''ApiException'' status\<close> with the decimal text of its status.
\<close>

subsection \<open>Settings\<close>

definition CSI_PROVISIONER_NAME :: str where "CSI_PROVISIONER_NAME = ''santricity.block.csi.ibm.com''"
definition ADDED_EVENT :: str where "ADDED_EVENT = ''ADDED''"
definition DELETED_EVENT :: str where "DELETED_EVENT = ''DELETED''"
definition MODIFIED_EVENT :: str where "MODIFIED_EVENT = ''MODIFIED''"
definition PENDING_PREFIX :: str where "PENDING_PREFIX = ''Pending''"
definition PENDING_CREATION_PHASE :: str where "PENDING_CREATION_PHASE = ''PendingCreation''"
definition PENDING_DELETION_PHASE :: str where "PENDING_DELETION_PHASE = ''PendingDeletion''"
definition ERROR_PHASE :: str where "ERROR_PHASE = ''Error''"
definition READY_PHASE :: str where "READY_PHASE = ''Ready''"
definition DEFAULT_NAMESPACE :: str where "DEFAULT_NAMESPACE = ''default''"
definition MANAGE_NODE_LABEL :: str where
  "MANAGE_NODE_LABEL = ''hostdefiner.santricity.block.csi.ibm.com/manage-node''"
definition FORBID_DELETION_LABEL :: str where
  "FORBID_DELETION_LABEL = ''hostdefiner.santricity.block.csi.ibm.com/do-not-delete-definition''"
definition CONNECTIVITY_TYPE_LABEL :: str where
  "CONNECTIVITY_TYPE_LABEL = ''santricity.block.csi.ibm.com/connectivity-type''"
definition SUPPORTED_CONNECTIVITY_TYPES :: "str list" where "SUPPORTED_CONNECTIVITY_TYPES = [ISCSI, FC, NVME_OVER_FC]"
definition TRUE_STRING :: str where "TRUE_STRING = ''true''"
definition DEFINE_ACTION :: str where "DEFINE_ACTION = ''Define''"
definition UNDEFINE_ACTION :: str where "UNDEFINE_ACTION = ''Undefine''"
definition SUCCESS_MESSAGE :: str where "SUCCESS_MESSAGE = ''Host defined successfully on the array''"
definition FAILED_MESSAGE_TYPE :: str where "FAILED_MESSAGE_TYPE = ''Failed''"
definition SUCCESSFUL_MESSAGE_TYPE :: str where "SUCCESSFUL_MESSAGE_TYPE = ''Successful''"
definition NORMAL_EVENT_TYPE :: str where "NORMAL_EVENT_TYPE = ''Normal''"
definition WARNING_EVENT_TYPE :: str where "WARNING_EVENT_TYPE = ''Warning''"
definition CSI_IBM_FINALIZER :: str where "CSI_IBM_FINALIZER = ''hostdefinitions.csi.ibm.com''"
definition TOPOLOGY_PREFIXES :: "str list" where "TOPOLOGY_PREFIXES = [''topology.block.csi.ibm.com'']"
definition POSSIBLE_NUMBER_OF_IO_GROUP :: nat where "POSSIBLE_NUMBER_OF_IO_GROUP = 4"
definition IO_GROUP_LABEL_PREFIX :: str where
  "IO_GROUP_LABEL_PREFIX = ''hostdefiner.santricity.block.csi.ibm.com/io-group-''"

subsection \<open>Records\<close>

record csi_node_info =
  cn_name :: str
  cn_node_id :: str
  cn_node_initiators :: str

record node_info =
  ni_name :: str
  ni_labels :: sdict

record pod_info =
  pod_name :: str
  pod_node_name :: str

record storage_class_info =
  sci_name :: str
  sci_provisioner :: str
  sci_parameters :: "sdict option"

record managed_node =
  mn_name :: str
  mn_node_id :: str
  mn_node_initiators :: str
  mn_io_group :: str

record secret_info =
  si_name :: str
  si_namespace :: str
  si_nodes_with_system_id :: sdict
  si_system_ids_topologies :: "(str \<times> json) list"
  si_managed_storage_classes :: int

record host_definition_info =
  hi_name :: str
  hi_secret_name :: str
  hi_secret_namespace :: str
  hi_node_name :: str
  hi_node_id :: str
  hi_node_initiators :: str
  hi_phase :: str
  hi_resource_version :: str
  hi_uid :: str
  hi_connectivity_type :: str
  hi_ports :: "str list"

text \<open>
  Objects of the cluster.  Attributes that may be missing are options; the drivers of a CSI node are pairs of
  a driver and the id of the node.  The label of a managed node is written by \<open>kb_patch_node_label\<close>.
\<close>

record k8s_csi_node =
  kc_name :: str
  kc_drivers :: "(str \<times> str) list"

record k8s_host_definition =
  kh_name :: str
  kh_resource_version :: "str option"
  kh_resourceVersion :: str
  kh_uid :: str
  kh_phase :: "str option"
  kh_secret_name :: "str option"
  kh_secret_namespace :: "str option"
  kh_node_name :: "str option"
  kh_node_id :: "str option"
  kh_node_initiators :: "str option"
  kh_connectivity_type :: "str option"
  kh_ports :: "str list option"

record k8s_daemon_set =
  ds_name :: str
  ds_updated :: int
  ds_desired :: int

record k8s_event =
  ev_object_name :: str
  ev_resource_version :: str
  ev_uid :: str
  ev_action :: str
  ev_type :: str
  ev_reason :: str
  ev_message :: str

text \<open>
  The manifests the host definer sends: those fields that are \<open>None\<close> are not in the manifest, and merging a
  patch leaves them as they are.
\<close>

record hd_manifest =
  mf_name :: str
  mf_finalizers :: "str list option"
  mf_node_initiators :: "str option"
  mf_node_name :: "str option"
  mf_node_id :: "str option"
  mf_secret_name :: "str option"
  mf_secret_namespace :: "str option"
  mf_from_storage :: "(str option \<times> str list \<times> str \<times> int list) option"
  mf_management_address :: "str option"

record 'k kube =
  kb_list_csi_nodes :: "('k, k8s_csi_node list) prog"
  kb_get_csi_node :: "str \<Rightarrow> ('k, k8s_csi_node) prog"
  kb_list_nodes :: "('k, node_info list) prog"
  kb_read_node :: "str \<Rightarrow> ('k, node_info) prog"
  kb_node_annotations :: "'k \<Rightarrow> read_node"
  kb_patch_node_label :: "str \<Rightarrow> str \<Rightarrow> str option \<Rightarrow> ('k, unit) prog"
  kb_list_storage_classes :: "('k, storage_class_info list) prog"
  kb_list_host_definitions :: "('k, k8s_host_definition list) prog"
  kb_create_host_definition :: "hd_manifest \<Rightarrow> ('k, k8s_host_definition) prog"
  kb_patch_host_definition :: "hd_manifest \<Rightarrow> ('k, unit) prog"
  kb_delete_host_definition :: "str \<Rightarrow> ('k, unit) prog"
  kb_patch_status :: "str \<Rightarrow> str \<Rightarrow> ('k, unit) prog"
  kb_create_event :: "str \<Rightarrow> k8s_event \<Rightarrow> ('k, unit) prog"
  kb_read_secret :: "str \<Rightarrow> str \<Rightarrow> ('k, sdict option) prog"
  kb_list_daemon_sets :: "('k, k8s_daemon_set list) prog"
  kb_list_pods :: "('k, pod_info list) prog"
  kb_random_string :: "('k, str) prog"

text \<open>\<open>except ApiException as ex\<close>.\<close>

definition except_api :: "('w, 'a) prog \<Rightarrow> (str \<Rightarrow> ('w, 'a) prog) \<Rightarrow> ('w, 'a) prog" where
  "except_api m h =
     catchE m (\<lambda>e. case e of Foreign cls status \<Rightarrow> if cls = ''ApiException'' then h status else raiseE e | _ \<Rightarrow> raiseE e)"

subsection \<open>Nodes\<close>

text \<open>The I/O groups whose labels are \<open>true\<close>, joined by colons.\<close>

definition generate_io_group_from_labels :: "sdict \<Rightarrow> str" where
  "generate_io_group_from_labels labels =
     foldl (\<lambda>io_group index.
         if map_of labels (IO_GROUP_LABEL_PREFIX @ nat_str index) = Some TRUE_STRING
         then (if io_group \<noteq> [] then io_group @ [IO_GROUP_DELIMITER] else io_group) @ nat_str index
         else io_group)
       [] [0..<POSSIBLE_NUMBER_OF_IO_GROUP]"

definition new_managed_node :: "csi_node_info \<Rightarrow> sdict \<Rightarrow> managed_node" where
  "new_managed_node cn labels =
     \<lparr>mn_name = cn_name cn, mn_node_id = cn_node_id cn, mn_node_initiators = cn_node_initiators cn,
      mn_io_group = generate_io_group_from_labels labels\<rparr>"

definition is_k8s_csi_node_has_driver :: "k8s_csi_node \<Rightarrow> bool" where
  "is_k8s_csi_node_has_driver c = list_ex (\<lambda>(driver, node_id). driver = CSI_PROVISIONER_NAME) (kc_drivers c)"

definition get_node_id_from_k8s_csi_node :: "k8s_csi_node \<Rightarrow> str" where
  "get_node_id_from_k8s_csi_node c = dict_get_or (kc_drivers c) CSI_PROVISIONER_NAME []"

definition generate_csi_node_info :: "'k kube \<Rightarrow> k8s_csi_node \<Rightarrow> ('k, csi_node_info) prog" where
  "generate_csi_node_info kb c =
     bindE (getS (kb_node_annotations kb)) (\<lambda>read_node.
     let node_id = get_node_id_from_k8s_csi_node c in
     bindE (liftR (get_node_initiators_data read_node (kc_name c) (Some node_id))) (\<lambda>node_initiators.
     ret \<lparr>cn_name = kc_name c, cn_node_id = node_id, cn_node_initiators = node_initiators\<rparr>))"

definition get_k8s_csi_nodes :: "'k kube \<Rightarrow> ('k, k8s_csi_node list) prog" where
  "get_k8s_csi_nodes kb = except_api (kb_list_csi_nodes kb) (\<lambda>status. ret [])"

definition get_csi_nodes_info_with_driver :: "'k kube \<Rightarrow> ('k, csi_node_info list) prog" where
  "get_csi_nodes_info_with_driver kb =
     bindE (get_k8s_csi_nodes kb) (\<lambda>cs. mapE (generate_csi_node_info kb) (filter is_k8s_csi_node_has_driver cs))"

definition get_csi_node_info :: "'k kube \<Rightarrow> str \<Rightarrow> ('k, csi_node_info) prog" where
  "get_csi_node_info kb node_name =
     except_api (bindE (kb_get_csi_node kb node_name) (generate_csi_node_info kb))
       (\<lambda>status. ret \<lparr>cn_name = [], cn_node_id = [], cn_node_initiators = []\<rparr>)"

definition get_nodes_info :: "'k kube \<Rightarrow> ('k, node_info list) prog" where
  "get_nodes_info kb = except_api (kb_list_nodes kb) (\<lambda>status. ret [])"

definition get_node_info :: "'k kube \<Rightarrow> str \<Rightarrow> ('k, node_info) prog" where
  "get_node_info kb node_name = except_api (kb_read_node kb node_name) (\<lambda>status. ret \<lparr>ni_name = [], ni_labels = []\<rparr>)"

definition update_manage_node_label :: "'k kube \<Rightarrow> str \<Rightarrow> str option \<Rightarrow> ('k, unit) prog" where
  "update_manage_node_label kb node_name label_value =
     except_api (kb_patch_node_label kb node_name MANAGE_NODE_LABEL label_value) (\<lambda>status. ret ())"

definition get_storage_classes_info :: "'k kube \<Rightarrow> ('k, storage_class_info list) prog" where
  "get_storage_classes_info kb = except_api (kb_list_storage_classes kb) (\<lambda>status. ret [])"

definition get_csi_daemon_set :: "'k kube \<Rightarrow> ('k, k8s_daemon_set option) prog" where
  "get_csi_daemon_set kb =
     except_api (bindE (kb_list_daemon_sets kb) (\<lambda>ds. ret (case ds of [] \<Rightarrow> None | d # _ \<Rightarrow> Some d))) (\<lambda>status. ret None)"

definition get_csi_pods_info :: "'k kube \<Rightarrow> ('k, pod_info list) prog" where
  "get_csi_pods_info kb = except_api (kb_list_pods kb) (\<lambda>status. ret [])"

subsection \<open>Host definitions\<close>

definition get_k8s_object_resource_version :: "k8s_host_definition \<Rightarrow> str" where
  "get_k8s_object_resource_version h =
     (if truthy (kh_resource_version h) then the (kh_resource_version h) else kh_resourceVersion h)"

definition attr_or_empty :: "str option \<Rightarrow> str" where
  "attr_or_empty a = (case a of None \<Rightarrow> [] | Some s \<Rightarrow> s)"

definition generate_host_definition_info :: "k8s_host_definition \<Rightarrow> host_definition_info" where
  "generate_host_definition_info h =
     \<lparr>hi_name = kh_name h, hi_secret_name = attr_or_empty (kh_secret_name h),
      hi_secret_namespace = attr_or_empty (kh_secret_namespace h), hi_node_name = attr_or_empty (kh_node_name h),
      hi_node_id = attr_or_empty (kh_node_id h), hi_node_initiators = attr_or_empty (kh_node_initiators h),
      hi_phase = attr_or_empty (kh_phase h), hi_resource_version = get_k8s_object_resource_version h,
      hi_uid = kh_uid h, hi_connectivity_type = attr_or_empty (kh_connectivity_type h),
      hi_ports = (case kh_ports h of None \<Rightarrow> [] | Some ps \<Rightarrow> ps)\<rparr>"

definition get_k8s_host_definitions :: "'k kube \<Rightarrow> ('k, k8s_host_definition list) prog" where
  "get_k8s_host_definitions kb = except_api (kb_list_host_definitions kb) (\<lambda>status. ret [])"

definition is_host_definition_matches :: "host_definition_info \<Rightarrow> str \<Rightarrow> str \<Rightarrow> str \<Rightarrow> bool" where
  "is_host_definition_matches hi node_name secret_name secret_namespace =
     (hi_node_name hi = node_name \<and> hi_secret_name hi = secret_name \<and> hi_secret_namespace hi = secret_namespace)"

definition get_matching_host_definition_info ::
  "'k kube \<Rightarrow> str \<Rightarrow> str \<Rightarrow> str \<Rightarrow> ('k, host_definition_info option) prog" where
  "get_matching_host_definition_info kb node_name secret_name secret_namespace =
     bindE (get_k8s_host_definitions kb) (\<lambda>hs.
     ret (find (\<lambda>hi. is_host_definition_matches hi node_name secret_name secret_namespace)
            (map generate_host_definition_info hs)))"

text \<open>The status of a patch: \<open>200\<close>, or that of the exception.\<close>

definition patch_host_definition :: "'k kube \<Rightarrow> hd_manifest \<Rightarrow> ('k, str) prog" where
  "patch_host_definition kb manifest =
     except_api (thenE (kb_patch_host_definition kb manifest) (ret ''200'')) ret"

definition finalizer_manifest :: "str \<Rightarrow> str list \<Rightarrow> hd_manifest" where
  "finalizer_manifest name finalizers =
     \<lparr>mf_name = name, mf_finalizers = Some finalizers, mf_node_initiators = None, mf_node_name = None, mf_node_id = None,
      mf_secret_name = None, mf_secret_namespace = None, mf_from_storage = None, mf_management_address = None\<rparr>"

definition update_finalizer :: "'k kube \<Rightarrow> str \<Rightarrow> str list \<Rightarrow> ('k, str) prog" where
  "update_finalizer kb name finalizers = patch_host_definition kb (finalizer_manifest name finalizers)"

definition add_finalizer :: "'k kube \<Rightarrow> str \<Rightarrow> ('k, unit) prog" where
  "add_finalizer kb name = bindE (update_finalizer kb name [CSI_IBM_FINALIZER]) (\<lambda>_. ret ())"

definition remove_finalizer :: "'k kube \<Rightarrow> str \<Rightarrow> ('k, str) prog" where
  "remove_finalizer kb name = update_finalizer kb name []"

definition create_host_definition :: "'k kube \<Rightarrow> hd_manifest \<Rightarrow> ('k, host_definition_info option) prog" where
  "create_host_definition kb manifest =
     except_api
       (bindE (kb_create_host_definition kb manifest) (\<lambda>h.
        thenE (add_finalizer kb (kh_name h)) (ret (Some (generate_host_definition_info h)))))
       (\<lambda>status. ret None)"

definition delete_host_definition :: "'k kube \<Rightarrow> str \<Rightarrow> ('k, unit) prog" where
  "delete_host_definition kb name =
     except_api
       (bindE (remove_finalizer kb name) (\<lambda>status.
        if status = ''200'' then kb_delete_host_definition kb name else ret ()))
       (\<lambda>status. ret ())"

definition set_host_definition_status :: "'k kube \<Rightarrow> str \<Rightarrow> str \<Rightarrow> ('k, unit) prog" where
  "set_host_definition_status kb name phase = except_api (kb_patch_status kb name phase) (\<lambda>status. ret ())"

definition get_event_type :: "str \<Rightarrow> str" where
  "get_event_type message_type =
     (if message_type \<noteq> SUCCESSFUL_MESSAGE_TYPE then WARNING_EVENT_TYPE else NORMAL_EVENT_TYPE)"

definition generate_k8s_event :: "host_definition_info \<Rightarrow> str \<Rightarrow> str \<Rightarrow> str \<Rightarrow> k8s_event" where
  "generate_k8s_event hi message action message_type =
     \<lparr>ev_object_name = hi_name hi, ev_resource_version = hi_resource_version hi, ev_uid = hi_uid hi,
      ev_action = action, ev_type = get_event_type message_type, ev_reason = message_type @ action,
      ev_message = message\<rparr>"

definition create_k8s_event :: "'k kube \<Rightarrow> str \<Rightarrow> k8s_event \<Rightarrow> ('k, unit) prog" where
  "create_k8s_event kb namespace event = except_api (kb_create_event kb namespace event) (\<lambda>status. ret ())"

subsection \<open>Secrets\<close>

text \<open>
  Texts that are not the Base64 of an ASCII text stay as they are.  \<open>encode('ascii')\<close> and
  \<open>decode('ascii')\<close> refuse characters and bytes from 128 on.
\<close>

definition is_ascii :: "str \<Rightarrow> bool" where
  "is_ascii s = list_all (\<lambda>c. (of_char c :: nat) < 128) s"

definition bytes_of :: "str \<Rightarrow> 8 word list" where
  "bytes_of s = map (\<lambda>c. of_nat (of_char c)) s"

definition text_of :: "8 word list \<Rightarrow> str" where
  "text_of bs = map (\<lambda>b. char_of (unat b)) bs"

definition decode_base64_to_string :: "str \<Rightarrow> str" where
  "decode_base64_to_string content =
     (if is_ascii content
      then case b64decode content of
             Inl e \<Rightarrow> content
           | Inr bs \<Rightarrow> if is_ascii (text_of bs) then text_of bs else content
      else content)"

text \<open>
  The decoded text is encoded and decoded once more; the literal that \<open>str\<close> makes of the bytes evaluates to
  these bytes.  They are kept as their text: what reads them decodes them.
\<close>

definition decode_base64_to_dict :: "str \<Rightarrow> exn + str" where
  "decode_base64_to_dict content =
     bindR (b64decode (b64encode (bytes_of (decode_base64_to_string content)))) (\<lambda>bs. Inr (text_of bs))"

definition change_decode_base64_secret_config :: "sdict \<Rightarrow> exn + sdict" where
  "change_decode_base64_secret_config secret_data =
     (case map_of secret_data ''config'' of
        None \<Rightarrow> Inr secret_data
      | Some config \<Rightarrow> bindR (decode_base64_to_dict config) (\<lambda>c. Inr (AList.update ''config'' c secret_data)))"

definition get_secret_data :: "'k kube \<Rightarrow> str \<Rightarrow> str \<Rightarrow> ('k, sdict) prog" where
  "get_secret_data kb secret_name secret_namespace =
     except_api
       (bindE (kb_read_secret kb secret_name secret_namespace) (\<lambda>data. case data of
          None \<Rightarrow> raiseE (PyErr AttributeError)
        | Some d \<Rightarrow> liftR (change_decode_base64_secret_config d)))
       (\<lambda>status. ret [])"

lemma text_of_bytes_of [simp]: "text_of (bytes_of s) = s"
proof -
  have "char_of (unat (of_nat (of_char c) :: 8 word)) = c" for c
    using of_char_mod_256 [of c, where 'a = nat] by (simp add: unat_of_nat)
  then show ?thesis by (induction s) (simp_all add: text_of_def bytes_of_def)
qed

lemma decode_base64_to_dict_eq [simp]: "decode_base64_to_dict content = Inr (decode_base64_to_string content)"
  by (simp add: decode_base64_to_dict_def b64decode_def b64decode_encode)

lemma b64encode_ascii: "is_ascii (b64encode bs)"
proof -
  have c: "(of_char (b64_char w) :: nat) < 128" for w by (auto simp: b64_char_def Let_def)
  show ?thesis by (induction bs rule: b64encode.induct) (simp_all add: is_ascii_def c)
qed

lemma decode_base64_encoded: "is_ascii s \<Longrightarrow> decode_base64_to_string (b64encode (bytes_of s)) = s"
  by (simp add: decode_base64_to_string_def b64encode_ascii b64decode_def b64decode_encode)

end
