(* ===== verification/WatcherHelper.thy ===== *)
theory WatcherHelper
  imports Kubernetes
begin

text \<open>
  What the watchers of the host definer share (\<open>servers/host_definer/watcher/watcher_helper.py\<close>): the
  managed secrets \<open>MANAGED_SECRETS\<close>, the managed nodes \<open>NODES\<close>, and the definition and the removal of hosts
  for them.  The state has the cluster, the storage systems, these two global variables, the nodes with the
  driver that are not managed, the threads that were started and the watchers that an exception has ended.
  Objects that the code updates in place are threaded through: a function that changes its argument returns it.
\<close>

subsection \<open>State\<close>

text \<open>
  A thread of the CSI node watcher, and one of the host definition watcher with the retries it has left and
  its current delay.
\<close>

datatype hd_thread =
    UndefineWhenPodDeleted csi_node_info
  | VerifyPending host_definition_info nat int

datatype watcher_kind = CsiNodeWatcher | HostDefinitionWatcher | SecretWatcher | NodeWatcher | StorageClassWatcher

record ('k, 's) watch_world =
  ww_cluster :: 'k
  ww_storage :: 's
  ww_nodes :: "(str \<times> managed_node) list"
  ww_secrets :: "secret_info list"
  ww_unmanaged :: "str list"
  ww_threads :: "hd_thread list"
  ww_ended :: "watcher_kind set"

record ('k, 's) watcher =
  wt_kube :: "'k kube"
  wt_definer :: "'s definer"
  wt_getenv :: "str \<Rightarrow> str option"

definition onk :: "('k, 'a) prog \<Rightarrow> (('k, 's) watch_world, 'a) prog" where
  "onk m = (\<lambda>w. case m (ww_cluster w) of (r, k) \<Rightarrow> (r, w\<lparr>ww_cluster := k\<rparr>))"

definition ons :: "('s, 'a) prog \<Rightarrow> (('k, 's) watch_world, 'a) prog" where
  "ons m = (\<lambda>w. case m (ww_storage w) of (r, s) \<Rightarrow> (r, w\<lparr>ww_storage := s\<rparr>))"

definition node_of :: "str \<Rightarrow> (('k, 's) watch_world, managed_node option) prog" where
  "node_of node_name = getS (\<lambda>w. map_of (ww_nodes w) node_name)"

text \<open>\<open>NODES[node_name]\<close>.\<close>

definition node_item :: "str \<Rightarrow> (('k, 's) watch_world, managed_node) prog" where
  "node_item node_name =
     bindE (node_of node_name) (\<lambda>n. case n of None \<Rightarrow> raiseE (PyErr (KeyError node_name)) | Some n \<Rightarrow> ret n)"

definition set_node :: "str \<Rightarrow> managed_node \<Rightarrow> (('k, 's) watch_world, unit) prog" where
  "set_node node_name n = modifyS (\<lambda>w. w\<lparr>ww_nodes := AList.update node_name n (ww_nodes w)\<rparr>)"

definition pop_node :: "str \<Rightarrow> (('k, 's) watch_world, unit) prog" where
  "pop_node node_name = modifyS (\<lambda>w. w\<lparr>ww_nodes := AList.delete node_name (ww_nodes w)\<rparr>)"

subsection \<open>Secrets\<close>

definition same_secret :: "secret_info \<Rightarrow> secret_info \<Rightarrow> bool" where
  "same_secret a b = (si_name a = si_name b \<and> si_namespace a = si_namespace b)"

definition generate_secret_info :: "str \<Rightarrow> str \<Rightarrow> sdict \<Rightarrow> (str \<times> json) list \<Rightarrow> secret_info" where
  "generate_secret_info name namespace nodes_with_system_id system_ids_topologies =
     \<lparr>si_name = name, si_namespace = namespace, si_nodes_with_system_id = nodes_with_system_id,
      si_system_ids_topologies = system_ids_topologies, si_managed_storage_classes = 0\<rparr>"

text \<open>The managed secret of the same name with its index; \<open>None\<close> is the index \<open>-1\<close>.\<close>

fun find_secret :: "secret_info \<Rightarrow> secret_info list \<Rightarrow> (secret_info \<times> nat) option" where
  "find_secret si [] = None"
| "find_secret si (m # ms) =
     (if same_secret m si then Some (m, 0) else map_option (\<lambda>(x, i). (x, Suc i)) (find_secret si ms))"

definition get_matching_managed_secret_info :: "secret_info \<Rightarrow> secret_info list \<Rightarrow> secret_info \<times> nat option" where
  "get_matching_managed_secret_info si ms =
     (case find_secret si ms of None \<Rightarrow> (si, None) | Some (m, i) \<Rightarrow> (m, Some i))"

definition is_secret_managed :: "secret_info \<Rightarrow> secret_info list \<Rightarrow> bool" where
  "is_secret_managed si ms = (snd (get_matching_managed_secret_info si ms) \<noteq> None)"

definition is_node_should_managed_on_secret_info :: "str \<Rightarrow> secret_info \<Rightarrow> bool" where
  "is_node_should_managed_on_secret_info node_name si =
     (if si_nodes_with_system_id si \<noteq> [] \<and> truthy (map_of (si_nodes_with_system_id si) node_name) then True
      else if si_nodes_with_system_id si \<noteq> [] then False else True)"

text \<open>
  The configuration of a secret: its text, as bytes, is decoded and parsed.  It is never a dictionary when it is
  validated, because each validation is of a secret that was just read.
\<close>

definition get_secret_secret_config :: "sdict \<Rightarrow> exn + json" where
  "get_secret_secret_config secret_data =
     (case map_of secret_data ''config'' of
        None \<Rightarrow> Inr (JObj [])
      | Some config \<Rightarrow>
          if \<not> is_ascii config then Inl (PyErr ValueError)
          else case json_loads config of None \<Rightarrow> Inl (PyErr ValueError) | Some v \<Rightarrow> Inr v)"

definition validate_secret :: "sdict \<Rightarrow> exn + unit" where
  "validate_secret secret_data =
     catchR (validate_secrets secret_data) (\<lambda>e. case e of ValidationException m \<Rightarrow> Inr () | _ \<Rightarrow> Inl e)"

definition is_topology_secret :: "sdict \<Rightarrow> exn + bool" where
  "is_topology_secret secret_data =
     thenR (validate_secret secret_data)
       (bindR (get_secret_secret_config secret_data) (\<lambda>config. Inr (json_truthy config)))"

definition get_topology_labels :: "sdict \<Rightarrow> sdict" where
  "get_topology_labels labels = filter (\<lambda>(label, v). list_ex (py_startswith label) TOPOLOGY_PREFIXES) labels"

definition get_system_id_for_node :: "node_info \<Rightarrow> json \<Rightarrow> exn + str" where
  "get_system_id_for_node ni secret_config =
     catchR (bindR (get_system_info_for_topologies secret_config (get_topology_labels (ni_labels ni)))
               (\<lambda>(info, system_id). Inr system_id))
       (\<lambda>e. case e of ValidationException m \<Rightarrow> Inr [] | _ \<Rightarrow> Inl e)"

definition generate_nodes_with_system_id :: "('k, 's) watcher \<Rightarrow> sdict \<Rightarrow> (('k, 's) watch_world, sdict) prog" where
  "generate_nodes_with_system_id wt secret_data =
     bindE (liftR (get_secret_secret_config secret_data)) (\<lambda>config.
     bindE (onk (get_nodes_info (wt_kube wt))) (\<lambda>nodes.
     bindE (liftR (mapR (\<lambda>ni. bindR (get_system_id_for_node ni config) (\<lambda>i. Inr (ni_name ni, i))) nodes)) (\<lambda>ids.
     ret (foldl (\<lambda>d (n, i). AList.update n i d) [] ids))))"

definition generate_secret_system_ids_topologies :: "sdict \<Rightarrow> exn + (str \<times> json) list" where
  "generate_secret_system_ids_topologies secret_data =
     bindR (get_secret_secret_config secret_data) (\<lambda>config.
     bindR (json_items config) (\<lambda>systems.
     mapR (\<lambda>(system_id, info). bindR (json_get info ''supported_topologies'') (\<lambda>t. Inr (system_id, t))) systems))"

subsection \<open>The connection of a secret\<close>

definition decode_array_connectivity_info :: "array_connection_info \<Rightarrow> array_connection_info" where
  "decode_array_connectivity_info ci =
     ci\<lparr>ci_array_addresses := map decode_base64_to_string (ci_array_addresses ci),
        ci_user := decode_base64_to_string (ci_user ci), ci_password := decode_base64_to_string (ci_password ci),
        ci_partition_name := map_option decode_base64_to_string (ci_partition_name ci),
        ci_partition_vg := map_option decode_base64_to_string (ci_partition_vg ci),
        ci_port_set := map_option decode_base64_to_string (ci_port_set ci)\<rparr>"

definition get_array_connection_info_from_secret_data :: "sdict \<Rightarrow> sdict \<Rightarrow> exn + array_connection_info option" where
  "get_array_connection_info_from_secret_data secret_data labels =
     catchR
       (bindR (get_array_connection_info_from_secrets secret_data (Some labels) None) (\<lambda>ci.
        Inr (Some (decode_array_connectivity_info ci))))
       (\<lambda>e. case e of ValidationException m \<Rightarrow> Inr None | _ \<Rightarrow> Inl e)"

definition get_array_connection_info_from_secret ::
  "('k, 's) watcher \<Rightarrow> str \<Rightarrow> str \<Rightarrow> sdict \<Rightarrow> (('k, 's) watch_world, array_connection_info option) prog" where
  "get_array_connection_info_from_secret wt secret_name secret_namespace labels =
     bindE (onk (get_secret_data (wt_kube wt) secret_name secret_namespace)) (\<lambda>secret_data.
     if secret_data \<noteq> []
     then liftR (get_array_connection_info_from_secret_data secret_data (get_topology_labels labels))
     else ret None)"

subsection \<open>Labels and settings of a node\<close>

definition is_dynamic_node_labeling_allowed :: "('k, 's) watcher \<Rightarrow> bool" where
  "is_dynamic_node_labeling_allowed wt = (wt_getenv wt ''DYNAMIC_NODE_LABELING'' = Some TRUE_STRING)"

definition is_host_definer_can_delete_hosts :: "('k, 's) watcher \<Rightarrow> bool" where
  "is_host_definer_can_delete_hosts wt = (wt_getenv wt ''ALLOW_DELETE'' = Some TRUE_STRING)"

definition is_host_has_label_in_true :: "('k, 's) watcher \<Rightarrow> str \<Rightarrow> str \<Rightarrow> (('k, 's) watch_world, bool) prog" where
  "is_host_has_label_in_true wt node_name label =
     bindE (onk (get_node_info (wt_kube wt) node_name)) (\<lambda>ni. ret (map_of (ni_labels ni) label = Some TRUE_STRING))"

definition is_node_has_manage_node_label :: "('k, 's) watcher \<Rightarrow> str \<Rightarrow> (('k, 's) watch_world, bool) prog" where
  "is_node_has_manage_node_label wt node_name = is_host_has_label_in_true wt node_name MANAGE_NODE_LABEL"

definition is_node_has_forbid_deletion_label :: "('k, 's) watcher \<Rightarrow> str \<Rightarrow> (('k, 's) watch_world, bool) prog" where
  "is_node_has_forbid_deletion_label wt node_name = is_host_has_label_in_true wt node_name FORBID_DELETION_LABEL"

text \<open>\<open>x and y\<close> and \<open>not x\<close> of conditions that read the state.\<close>

definition andE :: "('w, bool) prog \<Rightarrow> ('w, bool) prog \<Rightarrow> ('w, bool) prog" where
  "andE m k = bindE m (\<lambda>b. if b then k else ret False)"

definition orE :: "('w, bool) prog \<Rightarrow> ('w, bool) prog \<Rightarrow> ('w, bool) prog" where
  "orE m k = bindE m (\<lambda>b. if b then ret True else k)"

definition notE :: "('w, bool) prog \<Rightarrow> ('w, bool) prog" where
  "notE m = bindE m (\<lambda>b. ret (\<not> b))"

definition ifE :: "('w, bool) prog \<Rightarrow> ('w, 'a) prog \<Rightarrow> ('w, 'a) prog \<Rightarrow> ('w, 'a) prog" where
  "ifE c m k = bindE c (\<lambda>b. if b then m else k)"

definition is_host_can_be_defined :: "('k, 's) watcher \<Rightarrow> str \<Rightarrow> (('k, 's) watch_world, bool) prog" where
  "is_host_can_be_defined wt node_name =
     orE (ret (is_dynamic_node_labeling_allowed wt)) (is_node_has_manage_node_label wt node_name)"

definition is_host_can_be_undefined :: "('k, 's) watcher \<Rightarrow> str \<Rightarrow> (('k, 's) watch_world, bool) prog" where
  "is_host_can_be_undefined wt node_name =
     andE (ret (is_host_definer_can_delete_hosts wt))
       (andE (is_node_has_manage_node_label wt node_name) (notE (is_node_has_forbid_deletion_label wt node_name)))"

definition get_connectivity_type_from_user :: "('k, 's) watcher \<Rightarrow> sdict \<Rightarrow> str option" where
  "get_connectivity_type_from_user wt labels =
     (case map_of labels CONNECTIVITY_TYPE_LABEL of
        Some t \<Rightarrow> if t \<in> set SUPPORTED_CONNECTIVITY_TYPES then Some t else wt_getenv wt ''CONNECTIVITY_TYPE''
      | None \<Rightarrow> wt_getenv wt ''CONNECTIVITY_TYPE'')"

subsection \<open>Managed nodes\<close>

definition generate_managed_node :: "('k, 's) watcher \<Rightarrow> csi_node_info \<Rightarrow> (('k, 's) watch_world, managed_node) prog" where
  "generate_managed_node wt cn =
     bindE (onk (get_node_info (wt_kube wt) (cn_name cn))) (\<lambda>ni. ret (new_managed_node cn (ni_labels ni)))"

definition add_manage_node_label_to_node :: "('k, 's) watcher \<Rightarrow> str \<Rightarrow> (('k, 's) watch_world, unit) prog" where
  "add_manage_node_label_to_node wt node_name =
     ifE (is_node_has_manage_node_label wt node_name) (ret ())
       (onk (update_manage_node_label (wt_kube wt) node_name (Some TRUE_STRING)))"

definition add_node_to_nodes :: "('k, 's) watcher \<Rightarrow> csi_node_info \<Rightarrow> (('k, 's) watch_world, unit) prog" where
  "add_node_to_nodes wt cn =
     thenE (add_manage_node_label_to_node wt (cn_name cn))
       (bindE (generate_managed_node wt cn) (set_node (cn_name cn)))"

definition is_node_has_ibm_block_csi :: "('k, 's) watcher \<Rightarrow> str \<Rightarrow> (('k, 's) watch_world, bool) prog" where
  "is_node_has_ibm_block_csi wt node_name =
     bindE (onk (get_csi_node_info (wt_kube wt) node_name)) (\<lambda>cn. ret (cn_node_id cn \<noteq> []))"

definition get_all_node_host_definitions_info ::
  "('k, 's) watcher \<Rightarrow> str \<Rightarrow> (('k, 's) watch_world, host_definition_info list) prog" where
  "get_all_node_host_definitions_info wt node_name =
     bindE (onk (get_k8s_host_definitions (wt_kube wt))) (\<lambda>hs.
     ret (filter (\<lambda>hi. hi_node_name hi = node_name) (map generate_host_definition_info hs)))"

definition is_node_has_host_definitions :: "('k, 's) watcher \<Rightarrow> str \<Rightarrow> (('k, 's) watch_world, bool) prog" where
  "is_node_has_host_definitions wt node_name =
     bindE (get_all_node_host_definitions_info wt node_name) (\<lambda>hs. ret (hs \<noteq> []))"

definition is_managed_by_host_definer_label_should_be_removed ::
  "('k, 's) watcher \<Rightarrow> str \<Rightarrow> (('k, 's) watch_world, bool) prog" where
  "is_managed_by_host_definer_label_should_be_removed wt node_name =
     andE (ret (is_dynamic_node_labeling_allowed wt))
       (andE (notE (is_node_has_ibm_block_csi wt node_name)) (notE (is_node_has_host_definitions wt node_name)))"

definition remove_manage_node_label :: "('k, 's) watcher \<Rightarrow> str \<Rightarrow> (('k, 's) watch_world, unit) prog" where
  "remove_manage_node_label wt node_name =
     ifE (is_managed_by_host_definer_label_should_be_removed wt node_name)
       (onk (update_manage_node_label (wt_kube wt) node_name None)) (ret ())"

subsection \<open>Requests\<close>

definition get_node_id_by_node :: "host_definition_info \<Rightarrow> (('k, 's) watch_world, str) prog" where
  "get_node_id_by_node hi =
     bindE (node_of (hi_node_name hi)) (\<lambda>n. ret (case n of None \<Rightarrow> hi_node_id hi | Some n \<Rightarrow> mn_node_id n))"

definition get_node_initiators_by_node :: "host_definition_info \<Rightarrow> (('k, 's) watch_world, str) prog" where
  "get_node_initiators_by_node hi =
     bindE (node_of (hi_node_name hi)) (\<lambda>n. ret (case n of None \<Rightarrow> hi_node_initiators hi | Some n \<Rightarrow> mn_node_initiators n))"

definition get_io_group_by_node :: "str \<Rightarrow> (('k, 's) watch_world, str) prog" where
  "get_io_group_by_node node_name =
     bindE (node_of node_name) (\<lambda>n. ret (case n of None \<Rightarrow> [] | Some n \<Rightarrow> mn_io_group n))"

definition normalized_initiators :: "str \<Rightarrow> str \<Rightarrow> str" where
  "normalized_initiators initiators_text node_id =
     convert_initiators_to_json_string (get_initiators_with_fallback initiators_text node_id)"

definition get_request_from_host_definition ::
  "('k, 's) watcher \<Rightarrow> host_definition_info \<Rightarrow> (('k, 's) watch_world, define_host_request option) prog" where
  "get_request_from_host_definition wt hi =
     bindE (onk (get_node_info (wt_kube wt) (hi_node_name hi))) (\<lambda>ni.
     bindE (get_array_connection_info_from_secret wt (hi_secret_name hi) (hi_secret_namespace hi) (ni_labels ni)) (\<lambda>ci.
     case ci of
       None \<Rightarrow> ret None
     | Some ci \<Rightarrow>
         bindE (get_node_id_by_node hi) (\<lambda>csi_node_id.
         bindE (get_node_initiators_by_node hi) (\<lambda>csi_node_initiators.
         bindE (get_io_group_by_node (hi_node_name hi)) (\<lambda>io_group.
         ret (Some \<lparr>rq_prefix = wt_getenv wt ''PREFIX'',
             rq_connectivity_type_from_user = get_connectivity_type_from_user wt (ni_labels ni),
             rq_node_id_from_host_definition = node_id_info_name (hi_node_id hi),
             rq_node_initiators_from_host_definition = normalized_initiators (hi_node_initiators hi) (hi_node_id hi),
             rq_node_id_from_csi_node = node_id_info_name csi_node_id,
             rq_node_initiators_from_csi_node = normalized_initiators csi_node_initiators csi_node_id,
             rq_array_connection_info = ci, rq_io_group = io_group\<rparr>))))))"

definition failed_to_get_secret :: "host_definition_info \<Rightarrow> str" where
  "failed_to_get_secret hi =
     ''Failed to get secret '' @ hi_secret_name hi @ '' in namespace '' @ hi_secret_namespace hi"

definition ensure_definition_state ::
  "('k, 's) watcher \<Rightarrow> host_definition_info \<Rightarrow> (define_host_request \<Rightarrow> ('s, define_host_response) prog) \<Rightarrow>
    (('k, 's) watch_world, define_host_response) prog" where
  "ensure_definition_state wt hi define_function =
     bindE (get_request_from_host_definition wt hi) (\<lambda>rq. case rq of
       None \<Rightarrow> ret (empty_response\<lparr>rs_error_message := failed_to_get_secret hi\<rparr>)
     | Some rq \<Rightarrow> ons (define_function rq))"

definition wh_define_host ::
  "('k, 's) watcher \<Rightarrow> host_definition_info \<Rightarrow> (('k, 's) watch_world, define_host_response) prog" where
  "wh_define_host wt hi = ensure_definition_state wt hi (define_host (wt_definer wt))"

definition wh_undefine_host ::
  "('k, 's) watcher \<Rightarrow> host_definition_info \<Rightarrow> (('k, 's) watch_world, define_host_response) prog" where
  "wh_undefine_host wt hi = ensure_definition_state wt hi (undefine_host (wt_definer wt))"

text \<open>A secret that is not managed counts as one without topologies, which manages every node.\<close>

definition is_node_should_be_managed_on_secret ::
  "('k, 's) watcher \<Rightarrow> str \<Rightarrow> str \<Rightarrow> str \<Rightarrow> (('k, 's) watch_world, bool) prog" where
  "is_node_should_be_managed_on_secret wt node_name secret_name secret_namespace =
     bindE (onk (get_secret_data (wt_kube wt) secret_name secret_namespace)) (\<lambda>secret_data.
     thenE (liftR (validate_secret secret_data))
       (getS (\<lambda>w. is_node_should_managed_on_secret_info node_name
          (fst (get_matching_managed_secret_info (generate_secret_info secret_name secret_namespace [] [])
                 (ww_secrets w))))))"

subsection \<open>Status and events\<close>

definition create_k8s_event_for_host_definition ::
  "('k, 's) watcher \<Rightarrow> host_definition_info \<Rightarrow> str \<Rightarrow> str \<Rightarrow> str \<Rightarrow> (('k, 's) watch_world, unit) prog" where
  "create_k8s_event_for_host_definition wt hi message action message_type =
     onk (create_k8s_event (wt_kube wt) DEFAULT_NAMESPACE (generate_k8s_event hi message action message_type))"

definition wh_set_status :: "('k, 's) watcher \<Rightarrow> str \<Rightarrow> str \<Rightarrow> (('k, 's) watch_world, unit) prog" where
  "wh_set_status wt name phase = onk (set_host_definition_status (wt_kube wt) name phase)"

definition set_host_definition_status_to_ready ::
  "('k, 's) watcher \<Rightarrow> host_definition_info \<Rightarrow> (('k, 's) watch_world, unit) prog" where
  "set_host_definition_status_to_ready wt hi =
     thenE (wh_set_status wt (hi_name hi) READY_PHASE)
       (create_k8s_event_for_host_definition wt hi SUCCESS_MESSAGE DEFINE_ACTION SUCCESSFUL_MESSAGE_TYPE)"

definition set_status_to_host_definition_after_definition ::
  "('k, 's) watcher \<Rightarrow> str \<Rightarrow> host_definition_info option \<Rightarrow> (('k, 's) watch_world, unit) prog" where
  "set_status_to_host_definition_after_definition wt message_from_storage found =
     (case found of
        None \<Rightarrow> ret ()
      | Some hi \<Rightarrow>
          if message_from_storage \<noteq> []
          then thenE (wh_set_status wt (hi_name hi) PENDING_CREATION_PHASE)
                 (create_k8s_event_for_host_definition wt hi message_from_storage DEFINE_ACTION FAILED_MESSAGE_TYPE)
          else set_host_definition_status_to_ready wt hi)"

definition handle_k8s_host_definition_after_undefine_action ::
  "('k, 's) watcher \<Rightarrow> str \<Rightarrow> host_definition_info \<Rightarrow> (('k, 's) watch_world, unit) prog" where
  "handle_k8s_host_definition_after_undefine_action wt message_from_storage hi =
     (if message_from_storage \<noteq> []
      then thenE (wh_set_status wt (hi_name hi) PENDING_DELETION_PHASE)
             (create_k8s_event_for_host_definition wt hi message_from_storage UNDEFINE_ACTION FAILED_MESSAGE_TYPE)
      else onk (delete_host_definition (wt_kube wt) (hi_name hi)))"

definition matching_definition ::
  "('k, 's) watcher \<Rightarrow> host_definition_info \<Rightarrow> (('k, 's) watch_world, host_definition_info option) prog" where
  "matching_definition wt hi =
     onk (get_matching_host_definition_info (wt_kube wt) (hi_node_name hi) (hi_secret_name hi) (hi_secret_namespace hi))"

definition handle_k8s_host_definition_after_undefine_action_if_exist ::
  "('k, 's) watcher \<Rightarrow> host_definition_info \<Rightarrow> define_host_response \<Rightarrow> (('k, 's) watch_world, unit) prog" where
  "handle_k8s_host_definition_after_undefine_action_if_exist wt hi response =
     bindE (matching_definition wt hi) (\<lambda>current. case current of
       None \<Rightarrow> ret ()
     | Some c \<Rightarrow> handle_k8s_host_definition_after_undefine_action wt (rs_error_message response) c)"

subsection \<open>Creating and deleting definitions\<close>

definition get_host_definition_manifest ::
  "host_definition_info \<Rightarrow> define_host_response \<Rightarrow> (('k, 's) watch_world, hd_manifest) prog" where
  "get_host_definition_manifest hi response =
     bindE (node_item (hi_node_name hi)) (\<lambda>n.
     ret \<lparr>mf_name = hi_name hi, mf_finalizers = None, mf_node_initiators = Some (mn_node_initiators n),
          mf_node_name = Some (hi_node_name hi), mf_node_id = Some (mn_node_id n),
          mf_secret_name = Some (hi_secret_name hi), mf_secret_namespace = Some (hi_secret_namespace hi),
          mf_from_storage = Some (rs_connectivity_type response, rs_ports response, rs_node_name_on_storage response,
             rs_io_group response),
          mf_management_address = Some (rs_management_address response)\<rparr>)"

definition create_host_definition_if_not_exist ::
  "('k, 's) watcher \<Rightarrow> host_definition_info \<Rightarrow> define_host_response \<Rightarrow>
    (('k, 's) watch_world, host_definition_info option) prog" where
  "create_host_definition_if_not_exist wt hi response =
     bindE (get_host_definition_manifest hi response) (\<lambda>manifest.
     bindE (matching_definition wt hi) (\<lambda>current. case current of
       Some c \<Rightarrow>
         bindE (onk (patch_host_definition (wt_kube wt) (manifest\<lparr>mf_name := hi_name c\<rparr>))) (\<lambda>_. ret (Some c))
     | None \<Rightarrow> onk (create_host_definition (wt_kube wt) manifest)))"

text \<open>What the cluster has of the definition replaces the node in the argument.\<close>

definition update_host_definition_info ::
  "('k, 's) watcher \<Rightarrow> host_definition_info \<Rightarrow> (('k, 's) watch_world, host_definition_info) prog" where
  "update_host_definition_info wt hi =
     bindE (matching_definition wt hi) (\<lambda>current. case current of
       None \<Rightarrow> ret hi
     | Some c \<Rightarrow>
         ret (hi\<lparr>hi_connectivity_type := hi_connectivity_type c, hi_node_id := node_id_info_name (hi_node_id c),
                 hi_node_initiators := normalized_initiators (hi_node_initiators c) (hi_node_id c)\<rparr>))"

definition create_definition ::
  "('k, 's) watcher \<Rightarrow> host_definition_info \<Rightarrow> (('k, 's) watch_world, host_definition_info) prog" where
  "create_definition wt hi =
     ifE (notE (is_node_should_be_managed_on_secret wt (hi_node_name hi) (hi_secret_name hi) (hi_secret_namespace hi)))
       (ret hi)
       (bindE (update_host_definition_info wt hi) (\<lambda>hi.
        bindE (wh_define_host wt hi) (\<lambda>response.
        bindE (create_host_definition_if_not_exist wt hi response) (\<lambda>current.
        thenE (set_status_to_host_definition_after_definition wt (rs_error_message response) current) (ret hi)))))"

definition delete_definition ::
  "('k, 's) watcher \<Rightarrow> host_definition_info \<Rightarrow> (('k, 's) watch_world, unit) prog" where
  "delete_definition wt hi =
     bindE (ifE (is_node_should_be_managed_on_secret wt (hi_node_name hi) (hi_secret_name hi) (hi_secret_namespace hi))
              (wh_undefine_host wt hi) (ret empty_response))
       (handle_k8s_host_definition_after_undefine_action_if_exist wt hi)"

definition get_host_definition_name :: "('k, 's) watcher \<Rightarrow> str \<Rightarrow> (('k, 's) watch_world, str) prog" where
  "get_host_definition_name wt node_name =
     bindE (onk (kb_random_string (wt_kube wt))) (\<lambda>r.
     ret (map (\<lambda>c. if c = CHR ''_'' then CHR ''.'' else c) (node_name @ ''-'' @ r)))"

definition get_host_definition_info_from_secret :: "secret_info \<Rightarrow> host_definition_info" where
  "get_host_definition_info_from_secret si =
     \<lparr>hi_name = [], hi_secret_name = si_name si, hi_secret_namespace = si_namespace si, hi_node_name = [],
      hi_node_id = [], hi_node_initiators = [], hi_phase = [], hi_resource_version = [], hi_uid = [],
      hi_connectivity_type = [], hi_ports = []\<rparr>"

definition add_name_to_host_definition_info ::
  "('k, 's) watcher \<Rightarrow> str \<Rightarrow> host_definition_info \<Rightarrow> (('k, 's) watch_world, host_definition_info) prog" where
  "add_name_to_host_definition_info wt node_name hi =
     bindE (node_item node_name) (\<lambda>n.
     bindE (get_host_definition_name wt node_name) (\<lambda>name.
     ret (hi\<lparr>hi_node_name := node_name, hi_node_id := mn_node_id n, hi_name := name\<rparr>)))"

definition add_node_initiators_to_host_definition_info ::
  "str \<Rightarrow> host_definition_info \<Rightarrow> (('k, 's) watch_world, host_definition_info) prog" where
  "add_node_initiators_to_host_definition_info node_name hi =
     bindE (node_item node_name) (\<lambda>n. ret (hi\<lparr>hi_node_initiators := mn_node_initiators n\<rparr>))"

definition get_host_definition_info_from_secret_and_node_name ::
  "('k, 's) watcher \<Rightarrow> str \<Rightarrow> secret_info \<Rightarrow> (('k, 's) watch_world, host_definition_info) prog" where
  "get_host_definition_info_from_secret_and_node_name wt node_name si =
     bindE (add_name_to_host_definition_info wt node_name (get_host_definition_info_from_secret si))
       (add_node_initiators_to_host_definition_info node_name)"

definition define_host_on_all_storages :: "('k, 's) watcher \<Rightarrow> str \<Rightarrow> (('k, 's) watch_world, unit) prog" where
  "define_host_on_all_storages wt node_name =
     bindE (getS ww_secrets) (\<lambda>secrets.
     forE (\<lambda>si. if si_managed_storage_classes si = 0 then ret ()
               else bindE (get_host_definition_info_from_secret_and_node_name wt node_name si) (\<lambda>hi.
                    bindE (create_definition wt hi) (\<lambda>_. ret ())))
       secrets)"

text \<open>One record goes through all the nodes, so that what one node leaves in it reaches the next.\<close>

fun define_nodes_in ::
  "('k, 's) watcher \<Rightarrow> str list \<Rightarrow> host_definition_info \<Rightarrow> (('k, 's) watch_world, unit) prog" where
  "define_nodes_in wt [] hi = ret ()"
| "define_nodes_in wt (node_name # rest) hi =
     bindE (add_name_to_host_definition_info wt node_name hi) (\<lambda>hi.
     bindE (add_node_initiators_to_host_definition_info node_name hi) (\<lambda>hi.
     bindE (create_definition wt hi) (define_nodes_in wt rest)))"

definition define_nodes :: "('k, 's) watcher \<Rightarrow> host_definition_info \<Rightarrow> (('k, 's) watch_world, unit) prog" where
  "define_nodes wt hi = bindE (getS ww_nodes) (\<lambda>nodes. define_nodes_in wt (map fst nodes) hi)"

subsection \<open>What definitions leave alone\<close>

text \<open>
  Defining and undefining hosts reads the managed nodes and secrets and changes only the cluster and the storage
  systems: each operation here keeps every predicate that does not depend on these two.
\<close>

lemma keeps_conditions [keeps_intros]:
  "keeps P m \<Longrightarrow> keeps P k \<Longrightarrow> keeps P (andE m k)" "keeps P m \<Longrightarrow> keeps P k \<Longrightarrow> keeps P (orE m k)"
  "keeps P m \<Longrightarrow> keeps P (notE m)" "keeps P c \<Longrightarrow> keeps P x \<Longrightarrow> keeps P y \<Longrightarrow> keeps P (ifE c x y)"
  by (auto simp: andE_def orE_def notE_def ifE_def intro!: keeps_intros)

locale kept_by_cluster =
  fixes I :: "('k, 's) watch_world \<Rightarrow> bool"
  assumes cluster: "I w \<Longrightarrow> I (w\<lparr>ww_cluster := k\<rparr>)" and storage: "I w \<Longrightarrow> I (w\<lparr>ww_storage := s\<rparr>)"
begin

lemma onk_keeps [keeps_intros]: "keeps I (onk m)" and ons_keeps [keeps_intros]: "keeps I (ons m')"
  by (auto simp: keeps_def onk_def ons_def cluster storage split: prod.splits)

lemma node_keeps [keeps_intros]: "keeps I (node_of n)" "keeps I (node_item n)"
  by (auto simp: node_of_def node_item_def intro!: keeps_intros)

lemma labels_keep [keeps_intros]:
  "keeps I (is_node_has_manage_node_label wt n)" "keeps I (is_node_has_forbid_deletion_label wt n)"
  "keeps I (is_host_can_be_defined wt n)" "keeps I (is_host_can_be_undefined wt n)"
  "keeps I (add_manage_node_label_to_node wt n)" "keeps I (generate_managed_node wt cn)"
  "keeps I (get_all_node_host_definitions_info wt n)" "keeps I (is_node_has_host_definitions wt n)"
  "keeps I (remove_manage_node_label wt n)"
  by (auto simp: is_node_has_manage_node_label_def is_node_has_forbid_deletion_label_def is_host_has_label_in_true_def
      is_host_can_be_defined_def is_host_can_be_undefined_def add_manage_node_label_to_node_def generate_managed_node_def
      get_all_node_host_definitions_info_def is_node_has_host_definitions_def remove_manage_node_label_def
      is_managed_by_host_definer_label_should_be_removed_def is_node_has_ibm_block_csi_def intro!: keeps_intros)

lemma secrets_keep [keeps_intros]:
  "keeps I (generate_nodes_with_system_id wt d)" "keeps I (get_array_connection_info_from_secret wt n ns ls)"
  "keeps I (is_node_should_be_managed_on_secret wt n s ns)"
  by (auto simp: generate_nodes_with_system_id_def get_array_connection_info_from_secret_def
      is_node_should_be_managed_on_secret_def intro!: keeps_intros)

lemma requests_keep [keeps_intros]:
  "keeps I (get_request_from_host_definition wt hi)" "keeps I (wh_define_host wt hi)" "keeps I (wh_undefine_host wt hi)"
  by (auto simp: get_request_from_host_definition_def wh_define_host_def wh_undefine_host_def ensure_definition_state_def
      get_node_id_by_node_def get_node_initiators_by_node_def get_io_group_by_node_def intro!: keeps_intros)

lemma status_keeps [keeps_intros]:
  "keeps I (create_k8s_event_for_host_definition wt hi m a t)" "keeps I (wh_set_status wt n p)"
  "keeps I (set_host_definition_status_to_ready wt hi)" "keeps I (matching_definition wt hi)"
  by (auto simp: create_k8s_event_for_host_definition_def wh_set_status_def set_host_definition_status_to_ready_def
      matching_definition_def intro!: keeps_intros)

lemma definitions_keep [keeps_intros]:
  "keeps I (create_definition wt hi)" "keeps I (delete_definition wt hi)"
  by (auto simp: create_definition_def delete_definition_def update_host_definition_info_def
      create_host_definition_if_not_exist_def get_host_definition_manifest_def
      set_status_to_host_definition_after_definition_def handle_k8s_host_definition_after_undefine_action_if_exist_def
      handle_k8s_host_definition_after_undefine_action_def intro!: keeps_intros)

lemma names_keep [keeps_intros]:
  "keeps I (add_name_to_host_definition_info wt n hi)" "keeps I (add_node_initiators_to_host_definition_info n hi)"
  "keeps I (get_host_definition_info_from_secret_and_node_name wt n si)"
  by (auto simp: add_name_to_host_definition_info_def add_node_initiators_to_host_definition_info_def
      get_host_definition_info_from_secret_and_node_name_def get_host_definition_name_def intro!: keeps_intros)

lemma define_nodes_in_keeps: "keeps I (define_nodes_in wt ns hi)"
  by (induction ns arbitrary: hi) (auto intro!: keeps_intros)

lemma define_all_keeps [keeps_intros]:
  "keeps I (define_host_on_all_storages wt n)" "keeps I (define_nodes wt hi)"
  by (auto simp: define_host_on_all_storages_def define_nodes_def intro!: keeps_intros define_nodes_in_keeps)

end

end
