(* ===== verification/Watchers.thy ===== *)
theory Watchers
  imports WatcherHelper
begin

text \<open>
  The five watchers of the host definer (\<open>servers/host_definer/watcher/\<close>) and their start
  (\<open>servers/host_definer/host_definer_manager.py\<close>).  A watcher handles the events of its stream one after the
  other; an exception that leaves a handler ends the watcher.  The handlers of different watchers and the threads
  they start are interleaved, each handler and each round of a thread in one step.
\<close>

subsection \<open>CSI nodes\<close>

definition spawn :: "hd_thread \<Rightarrow> (('k, 's) watch_world, unit) prog" where
  "spawn t = modifyS (\<lambda>w. w\<lparr>ww_threads := ww_threads w @ [t]\<rparr>)"

definition in_nodes :: "str \<Rightarrow> (('k, 's) watch_world, bool) prog" where
  "in_nodes node_name = bindE (node_of node_name) (\<lambda>n. ret (n \<noteq> None))"

definition add_initial_csi_nodes :: "('k, 's) watcher \<Rightarrow> (('k, 's) watch_world, unit) prog" where
  "add_initial_csi_nodes wt =
     bindE (onk (get_csi_nodes_info_with_driver (wt_kube wt)))
       (forE (\<lambda>cn. ifE (is_host_can_be_defined wt (cn_name cn)) (add_node_to_nodes wt cn) (ret ())))"

definition is_new_csi_node :: "('k, 's) watcher \<Rightarrow> csi_node_info \<Rightarrow> (('k, 's) watch_world, bool) prog" where
  "is_new_csi_node wt cn =
     andE (ret (cn_node_id cn \<noteq> [])) (andE (is_host_can_be_defined wt (cn_name cn)) (notE (in_nodes (cn_name cn))))"

definition handle_deleted_csi_node_pod :: "('k, 's) watcher \<Rightarrow> csi_node_info \<Rightarrow> (('k, 's) watch_world, unit) prog" where
  "handle_deleted_csi_node_pod wt cn =
     ifE (is_node_has_manage_node_label wt (cn_name cn)) (spawn (UndefineWhenPodDeleted cn)) (ret ())"

definition handle_modified_csi_node :: "('k, 's) watcher \<Rightarrow> csi_node_info \<Rightarrow> (('k, 's) watch_world, unit) prog" where
  "handle_modified_csi_node wt cn =
     ifE (is_new_csi_node wt cn)
       (thenE (add_node_to_nodes wt cn) (define_host_on_all_storages wt (cn_name cn)))
       (ifE (in_nodes (cn_name cn)) (handle_deleted_csi_node_pod wt cn) (ret ()))"

definition watch_csi_node :: "('k, 's) watcher \<Rightarrow> str \<Rightarrow> k8s_csi_node \<Rightarrow> (('k, 's) watch_world, unit) prog" where
  "watch_csi_node wt event_type c =
     bindE (onk (generate_csi_node_info (wt_kube wt) c)) (\<lambda>cn.
     ifE (andE (ret (event_type = DELETED_EVENT)) (in_nodes (cn_name cn)))
       (handle_deleted_csi_node_pod wt cn)
       (if event_type = MODIFIED_EVENT then handle_modified_csi_node wt cn else ret ()))"

text \<open>
  The rollout of the daemon set is polled until all pods are up to date; the loop ends only when it is, when
  there is no daemon set, or when no pods are desired.
\<close>

partial_function (option) wait_until_up_to_date ::
  "'k kube \<Rightarrow> k8s_daemon_set \<Rightarrow> 'k \<Rightarrow> ((exn + str option) \<times> 'k) option" where
  "wait_until_up_to_date kb ds k =
     (if ds_updated ds = ds_desired ds then Some (Inr (Some (ds_name ds)), k)
      else if ds_desired ds = 0 then Some (Inr None, k)
      else case get_csi_daemon_set kb k of
          (Inl e, k') \<Rightarrow> Some (Inl e, k')
        | (Inr None, k') \<Rightarrow> Some (Inr None, k')
        | (Inr (Some ds'), k') \<Rightarrow> wait_until_up_to_date kb ds' k')"

definition wait_until_all_daemon_set_pods_are_up_to_date :: "'k kube \<Rightarrow> 'k \<Rightarrow> ((exn + str option) \<times> 'k) option" where
  "wait_until_all_daemon_set_pods_are_up_to_date kb k =
     (case get_csi_daemon_set kb k of
        (Inl e, k') \<Rightarrow> Some (Inl e, k')
      | (Inr None, k') \<Rightarrow> Some (Inr None, k')
      | (Inr (Some ds), k') \<Rightarrow> wait_until_up_to_date kb ds k')"

definition is_csi_node_pod_running_on_worker :: "'k kube \<Rightarrow> str \<Rightarrow> str \<Rightarrow> ('k, bool) prog" where
  "is_csi_node_pod_running_on_worker kb worker daemon_set_name =
     bindE (get_csi_pods_info kb) (\<lambda>pods.
     ret (list_ex (\<lambda>p. pod_node_name p = worker \<and> py_contains (pod_name p) daemon_set_name) pods))"

text \<open>\<open>None\<close> when the waiting does not end.\<close>

definition is_host_part_of_update :: "'k kube \<Rightarrow> str \<Rightarrow> 'k \<Rightarrow> ((exn + bool) \<times> 'k) option" where
  "is_host_part_of_update kb worker k =
     (case wait_until_all_daemon_set_pods_are_up_to_date kb k of
        None \<Rightarrow> None
      | Some (Inl e, k') \<Rightarrow> Some (Inl e, k')
      | Some (Inr name, k') \<Rightarrow>
          Some (if truthy name then is_csi_node_pod_running_on_worker kb worker (the name) k' else (Inr False, k')))"

definition is_node_initiators_changed :: "host_definition_info \<Rightarrow> csi_node_info \<Rightarrow> bool" where
  "is_node_initiators_changed hi cn =
     (if hi_node_id hi = [] \<or> cn_node_id cn = [] then False
      else \<not> are_initiators_equal (hi_node_initiators hi) (cn_node_initiators cn) None)"

definition create_definitions_when_csi_node_changed ::
  "('k, 's) watcher \<Rightarrow> csi_node_info \<Rightarrow> (('k, 's) watch_world, unit) prog" where
  "create_definitions_when_csi_node_changed wt cn =
     bindE (getS ww_secrets) (\<lambda>secrets.
     forE (\<lambda>si.
         bindE (onk (get_matching_host_definition_info (wt_kube wt) (cn_name cn) (si_name si) (si_namespace si))) (\<lambda>found.
         case found of
           None \<Rightarrow> ret ()
         | Some hi \<Rightarrow>
             if is_node_initiators_changed hi cn
             then bindE (generate_managed_node wt cn) (\<lambda>n.
                  thenE (set_node (cn_name cn) n) (bindE (create_definition wt hi) (\<lambda>_. ret ())))
             else ret ()))
       secrets)"

definition undefine_hosts :: "('k, 's) watcher \<Rightarrow> str \<Rightarrow> (('k, 's) watch_world, unit) prog" where
  "undefine_hosts wt node_name =
     bindE (getS ww_secrets) (\<lambda>secrets.
     thenE (forE (\<lambda>si.
              bindE (get_host_definition_info_from_secret_and_node_name wt node_name si) (delete_definition wt)) secrets)
    (thenE (remove_manage_node_label wt node_name) (pop_node node_name)))"

definition undefine_host_when_node_pod_is_deleted ::
  "('k, 's) watcher \<Rightarrow> csi_node_info \<Rightarrow> ('k, 's) watch_world \<Rightarrow> ((exn + unit) \<times> ('k, 's) watch_world) option" where
  "undefine_host_when_node_pod_is_deleted wt cn w =
     (case is_host_part_of_update (wt_kube wt) (cn_name cn) (ww_cluster w) of
        None \<Rightarrow> None
      | Some (Inl e, k) \<Rightarrow> Some (Inl e, w\<lparr>ww_cluster := k\<rparr>)
      | Some (Inr b, k) \<Rightarrow>
          Some ((if b then create_definitions_when_csi_node_changed wt cn
                 else ifE (andE (ret (is_host_definer_can_delete_hosts wt))
                             (notE (is_node_has_forbid_deletion_label wt (cn_name cn))))
                        (undefine_hosts wt (cn_name cn)) (pop_node (cn_name cn)))
                (w\<lparr>ww_cluster := k\<rparr>)))"

subsection \<open>Host definitions\<close>

definition HOST_DEFINITION_PENDING_RETRIES :: nat where "HOST_DEFINITION_PENDING_RETRIES = 5"
definition HOST_DEFINITION_PENDING_EXPONENTIAL_BACKOFF_IN_SECONDS :: int where
  "HOST_DEFINITION_PENDING_EXPONENTIAL_BACKOFF_IN_SECONDS = 3"
definition HOST_DEFINITION_PENDING_DELAY_IN_SECONDS :: int where "HOST_DEFINITION_PENDING_DELAY_IN_SECONDS = 3"

definition is_host_definition_in_pending_phase :: "str \<Rightarrow> bool" where
  "is_host_definition_in_pending_phase phase = py_startswith phase PENDING_PREFIX"

definition define_host_definition_after_pending_state ::
  "host_definition_info \<Rightarrow> (('k, 's) watch_world, unit) prog" where
  "define_host_definition_after_pending_state hi =
     spawn (VerifyPending hi HOST_DEFINITION_PENDING_RETRIES HOST_DEFINITION_PENDING_DELAY_IN_SECONDS)"

definition watch_host_definition :: "str \<Rightarrow> k8s_host_definition \<Rightarrow> (('k, 's) watch_world, unit) prog" where
  "watch_host_definition event_type h =
     (let hi = generate_host_definition_info h in
      if is_host_definition_in_pending_phase (hi_phase hi) \<and> event_type \<noteq> DELETED_EVENT
      then define_host_definition_after_pending_state hi else ret ())"

definition is_host_definition_not_pending ::
  "('k, 's) watcher \<Rightarrow> host_definition_info \<Rightarrow> (('k, 's) watch_world, bool) prog" where
  "is_host_definition_not_pending wt hi =
     bindE (matching_definition wt hi) (\<lambda>current.
     ret (case current of None \<Rightarrow> True | Some c \<Rightarrow> hi_phase c = READY_PHASE))"

definition get_action :: "str \<Rightarrow> str" where
  "get_action phase = (if phase = PENDING_CREATION_PHASE then DEFINE_ACTION else UNDEFINE_ACTION)"

definition generate_host_definition_manifest :: "str \<Rightarrow> define_host_response \<Rightarrow> hd_manifest" where
  "generate_host_definition_manifest name response =
     \<lparr>mf_name = name, mf_finalizers = None, mf_node_initiators = None, mf_node_name = None, mf_node_id = None,
      mf_secret_name = None, mf_secret_namespace = None,
      mf_from_storage = Some (rs_connectivity_type response, rs_ports response, rs_node_name_on_storage response,
        rs_io_group response),
      mf_management_address = None\<rparr>"

definition update_host_definition_from_storage_response ::
  "('k, 's) watcher \<Rightarrow> str \<Rightarrow> define_host_response \<Rightarrow> (('k, 's) watch_world, unit) prog" where
  "update_host_definition_from_storage_response wt name response =
     bindE (onk (patch_host_definition (wt_kube wt) (generate_host_definition_manifest name response))) (\<lambda>_. ret ())"

definition define_host_after_pending ::
  "('k, 's) watcher \<Rightarrow> host_definition_info \<Rightarrow> (('k, 's) watch_world, define_host_response) prog" where
  "define_host_after_pending wt hi =
     ifE (is_node_should_be_managed_on_secret wt (hi_node_name hi) (hi_secret_name hi) (hi_secret_namespace hi))
       (bindE (wh_define_host wt hi) (\<lambda>response.
        thenE (update_host_definition_from_storage_response wt (hi_name hi) response) (ret response)))
       (thenE (onk (delete_host_definition (wt_kube wt) (hi_name hi))) (ret empty_response))"

definition undefine_host_after_pending ::
  "('k, 's) watcher \<Rightarrow> host_definition_info \<Rightarrow> (('k, 's) watch_world, define_host_response) prog" where
  "undefine_host_after_pending wt hi =
     ifE (is_node_should_be_managed_on_secret wt (hi_node_name hi) (hi_secret_name hi) (hi_secret_namespace hi))
       (wh_undefine_host wt hi) (ret empty_response)"

definition is_pending_for_deletion_need_to_be_handled ::
  "('k, 's) watcher \<Rightarrow> str \<Rightarrow> str \<Rightarrow> (('k, 's) watch_world, bool) prog" where
  "is_pending_for_deletion_need_to_be_handled wt phase node_name =
     andE (ret (phase = PENDING_DELETION_PHASE)) (is_host_can_be_undefined wt node_name)"

definition handle_message_from_storage ::
  "('k, 's) watcher \<Rightarrow> host_definition_info \<Rightarrow> str \<Rightarrow> str \<Rightarrow> (('k, 's) watch_world, unit) prog" where
  "handle_message_from_storage wt hi error_message action =
     (if error_message \<noteq> []
      then create_k8s_event_for_host_definition wt hi error_message action FAILED_MESSAGE_TYPE
      else if hi_phase hi = PENDING_CREATION_PHASE then set_host_definition_status_to_ready wt hi
      else ifE (is_pending_for_deletion_need_to_be_handled wt (hi_phase hi) (hi_node_name hi))
             (thenE (onk (delete_host_definition (wt_kube wt) (hi_name hi)))
                (remove_manage_node_label wt (hi_node_name hi)))
             (ret ()))"

definition handle_pending_host_definition ::
  "('k, 's) watcher \<Rightarrow> host_definition_info \<Rightarrow> (('k, 's) watch_world, unit) prog" where
  "handle_pending_host_definition wt hi =
     bindE (if hi_phase hi = PENDING_CREATION_PHASE then define_host_after_pending wt hi
            else ifE (is_pending_for_deletion_need_to_be_handled wt (hi_phase hi) (hi_node_name hi))
                   (undefine_host_after_pending wt hi) (ret empty_response)) (\<lambda>response.
     handle_message_from_storage wt hi (rs_error_message response) (get_action (hi_phase hi)))"

definition set_host_definition_phase_to_error ::
  "('k, 's) watcher \<Rightarrow> host_definition_info \<Rightarrow> (('k, 's) watch_world, unit) prog" where
  "set_host_definition_phase_to_error wt hi = wh_set_status wt (hi_name hi) ERROR_PHASE"

text \<open>
  One round of the loop, up to the sleep that ends it: the result is the delay of this sleep, or \<open>None\<close> when
  the loop is left.
\<close>

definition verify_pending_round ::
  "('k, 's) watcher \<Rightarrow> host_definition_info \<Rightarrow> nat \<Rightarrow> int \<Rightarrow> (('k, 's) watch_world, int option) prog" where
  "verify_pending_round wt hi retries delay =
     (if retries = 0 then thenE (set_host_definition_phase_to_error wt hi) (ret None)
      else ifE (andE (is_host_definition_not_pending wt hi) (ret (retries \<noteq> HOST_DEFINITION_PENDING_RETRIES)))
             (ret None)
             (thenE (handle_pending_host_definition wt hi)
                (ret (Some (delay * HOST_DEFINITION_PENDING_EXPONENTIAL_BACKOFF_IN_SECONDS)))))"

text \<open>The whole loop of one thread, undisturbed, with the delays it sleeps for.\<close>

fun define_host_using_exponential_backoff ::
  "('k, 's) watcher \<Rightarrow> host_definition_info \<Rightarrow> nat \<Rightarrow> int \<Rightarrow> (('k, 's) watch_world, int list) prog" where
  "define_host_using_exponential_backoff wt hi 0 delay =
     bindE (verify_pending_round wt hi 0 delay) (\<lambda>_. ret [])"
| "define_host_using_exponential_backoff wt hi (Suc retries) delay =
     bindE (verify_pending_round wt hi (Suc retries) delay) (\<lambda>slept. case slept of
       None \<Rightarrow> ret []
     | Some delay \<Rightarrow>
         bindE (define_host_using_exponential_backoff wt hi retries delay) (\<lambda>delays. ret (delay # delays)))"

subsection \<open>Nodes\<close>

definition is_unmanaged_csi_node_has_driver ::
  "('k, 's) watcher \<Rightarrow> csi_node_info \<Rightarrow> (('k, 's) watch_world, bool) prog" where
  "is_unmanaged_csi_node_has_driver wt cn =
     andE (ret (cn_node_id cn \<noteq> [])) (notE (is_host_can_be_defined wt (cn_name cn)))"

definition add_unmanaged :: "str \<Rightarrow> (('k, 's) watch_world, unit) prog" where
  "add_unmanaged n = modifyS (\<lambda>w. w\<lparr>ww_unmanaged := List.insert n (ww_unmanaged w)\<rparr>)"

text \<open>\<open>event.type in 'MODIFIED'\<close> asks for a part of the text.\<close>

definition add_new_unmanaged_nodes_with_ibm_csi_driver ::
  "('k, 's) watcher \<Rightarrow> str \<Rightarrow> csi_node_info \<Rightarrow> (('k, 's) watch_world, unit) prog" where
  "add_new_unmanaged_nodes_with_ibm_csi_driver wt event_type cn =
     ifE (andE (ret (py_contains MODIFIED_EVENT event_type)) (is_unmanaged_csi_node_has_driver wt cn))
       (add_unmanaged (cn_name cn)) (ret ())"

definition is_node_with_csi_ibm_csi_node_and_is_not_managed ::
  "csi_node_info \<Rightarrow> (('k, 's) watch_world, bool) prog" where
  "is_node_with_csi_ibm_csi_node_and_is_not_managed cn =
     andE (notE (in_nodes (cn_name cn)))
       (andE (ret (cn_node_id cn \<noteq> [])) (getS (\<lambda>w. cn_name cn \<in> set (ww_unmanaged w))))"

definition is_node_has_new_manage_node_label ::
  "('k, 's) watcher \<Rightarrow> csi_node_info \<Rightarrow> (('k, 's) watch_world, bool) prog" where
  "is_node_has_new_manage_node_label wt cn =
     andE (ret (\<not> is_dynamic_node_labeling_allowed wt))
       (andE (is_node_has_manage_node_label wt (cn_name cn)) (is_node_with_csi_ibm_csi_node_and_is_not_managed cn))"

definition define_new_managed_node ::
  "('k, 's) watcher \<Rightarrow> str \<Rightarrow> str \<Rightarrow> csi_node_info \<Rightarrow> (('k, 's) watch_world, unit) prog" where
  "define_new_managed_node wt event_type node_name cn =
     ifE (andE (ret (event_type = MODIFIED_EVENT)) (is_node_has_new_manage_node_label wt cn))
       (thenE (add_node_to_nodes wt cn)
       (thenE (define_host_on_all_storages wt node_name)
          (bindE (getS ww_unmanaged) (\<lambda>u.
           if cn_name cn \<in> set u then modifyS (\<lambda>w. w\<lparr>ww_unmanaged := remove1 (cn_name cn) (ww_unmanaged w)\<rparr>)
           else raiseE (PyErr (KeyError (cn_name cn)))))))
       (ret ())"

fun get_system_id_for_node_labels :: "(str \<times> json) list \<Rightarrow> sdict \<Rightarrow> exn + str" where
  "get_system_id_for_node_labels [] labels = Inr []"
| "get_system_id_for_node_labels ((system_id, topologies) # rest) labels =
     bindR (is_topology_match topologies (get_topology_labels labels)) (\<lambda>b.
     if b then Inr system_id else get_system_id_for_node_labels rest labels)"

definition is_node_in_system_ids_topologies :: "(str \<times> json) list \<Rightarrow> sdict \<Rightarrow> exn + bool" where
  "is_node_in_system_ids_topologies topologies labels =
     bindR (get_system_id_for_node_labels topologies labels) (\<lambda>i. Inr (i \<noteq> []))"

definition set_secret :: "nat \<Rightarrow> secret_info \<Rightarrow> (('k, 's) watch_world, unit) prog" where
  "set_secret index si = modifyS (\<lambda>w. w\<lparr>ww_secrets := (ww_secrets w)[index := si]\<rparr>)"

definition remove_node_if_topology_not_match ::
  "node_info \<Rightarrow> nat \<Rightarrow> secret_info \<Rightarrow> (('k, 's) watch_world, unit) prog" where
  "remove_node_if_topology_not_match ni index si =
     bindE (liftR (is_node_in_system_ids_topologies (si_system_ids_topologies si) (ni_labels ni))) (\<lambda>b.
     if b then ret ()
     else set_secret index
       (si\<lparr>si_nodes_with_system_id := AList.delete (ni_name ni) (si_nodes_with_system_id si)\<rparr>))"

definition define_host_with_new_topology ::
  "('k, 's) watcher \<Rightarrow> node_info \<Rightarrow> nat \<Rightarrow> secret_info \<Rightarrow> (('k, 's) watch_world, unit) prog" where
  "define_host_with_new_topology wt ni index si =
     bindE (liftR (get_system_id_for_node_labels (si_system_ids_topologies si) (ni_labels ni))) (\<lambda>system_id.
     thenE (set_secret index
              (si\<lparr>si_nodes_with_system_id := AList.update (ni_name ni) system_id (si_nodes_with_system_id si)\<rparr>))
       (define_host_on_all_storages wt (ni_name ni)))"

definition handle_topology_of_secret ::
  "('k, 's) watcher \<Rightarrow> node_info \<Rightarrow> nat \<Rightarrow> (('k, 's) watch_world, unit) prog" where
  "handle_topology_of_secret wt ni index =
     bindE (getS (\<lambda>w. ww_secrets w ! index)) (\<lambda>si.
     if si_system_ids_topologies si = [] then ret ()
     else if is_node_should_managed_on_secret_info (ni_name ni) si then remove_node_if_topology_not_match ni index si
     else bindE (liftR (is_node_in_system_ids_topologies (si_system_ids_topologies si) (ni_labels ni))) (\<lambda>b.
          if b then define_host_with_new_topology wt ni index si else ret ()))"

definition handle_node_topologies ::
  "('k, 's) watcher \<Rightarrow> node_info \<Rightarrow> str \<Rightarrow> (('k, 's) watch_world, unit) prog" where
  "handle_node_topologies wt ni event_type =
     ifE (orE (notE (in_nodes (ni_name ni))) (ret (event_type \<noteq> MODIFIED_EVENT)))
       (ret ())
       (bindE (getS (\<lambda>w. length (ww_secrets w))) (\<lambda>n. forE (handle_topology_of_secret wt ni) [0..<n]))"

definition update_io_group :: "('k, 's) watcher \<Rightarrow> node_info \<Rightarrow> (('k, 's) watch_world, unit) prog" where
  "update_io_group wt ni =
     (let io_group = generate_io_group_from_labels (ni_labels ni) in
      bindE (node_of (ni_name ni)) (\<lambda>n. case n of
        None \<Rightarrow> ret ()
      | Some n \<Rightarrow>
          if io_group \<noteq> mn_io_group n
          then thenE (set_node (ni_name ni) (n\<lparr>mn_io_group := io_group\<rparr>))
                 (define_host_on_all_storages wt (ni_name ni))
          else ret ()))"

definition watch_node :: "('k, 's) watcher \<Rightarrow> str \<Rightarrow> node_info \<Rightarrow> (('k, 's) watch_world, unit) prog" where
  "watch_node wt event_type ni =
     bindE (onk (get_csi_node_info (wt_kube wt) (ni_name ni))) (\<lambda>cn.
     thenE (add_new_unmanaged_nodes_with_ibm_csi_driver wt event_type cn)
    (thenE (define_new_managed_node wt event_type (ni_name ni) cn)
    (thenE (handle_node_topologies wt ni event_type) (update_io_group wt ni))))"

definition is_csi_node_pod_deleted_while_host_definer_was_down ::
  "('k, 's) watcher \<Rightarrow> csi_node_info \<Rightarrow> (('k, 's) watch_world, bool) prog" where
  "is_csi_node_pod_deleted_while_host_definer_was_down wt cn =
     andE (is_node_has_manage_node_label wt (cn_name cn))
       (andE (is_node_has_host_definitions wt (cn_name cn)) (ret (cn_node_id cn = [])))"

definition delete_host_definitions :: "('k, 's) watcher \<Rightarrow> str \<Rightarrow> (('k, 's) watch_world, unit) prog" where
  "delete_host_definitions wt node_name =
     ifE (notE (is_host_can_be_undefined wt node_name)) (ret ())
       (bindE (get_all_node_host_definitions_info wt node_name) (\<lambda>his.
        thenE (forE (delete_definition wt) his) (remove_manage_node_label wt node_name)))"

definition add_initial_nodes :: "('k, 's) watcher \<Rightarrow> (('k, 's) watch_world, unit) prog" where
  "add_initial_nodes wt =
     bindE (onk (get_nodes_info (wt_kube wt)))
       (forE (\<lambda>ni.
          bindE (onk (get_csi_node_info (wt_kube wt) (ni_name ni))) (\<lambda>cn.
          thenE (ifE (is_csi_node_pod_deleted_while_host_definer_was_down wt cn)
                   (thenE (delete_host_definitions wt (ni_name ni)) (remove_manage_node_label wt (ni_name ni))) (ret ()))
            (ifE (is_unmanaged_csi_node_has_driver wt cn) (add_unmanaged (cn_name cn)) (ret ())))))"

subsection \<open>Secrets\<close>

definition handle_storage_class_secret ::
  "('k, 's) watcher \<Rightarrow> secret_info \<Rightarrow> str \<Rightarrow> (('k, 's) watch_world, unit) prog" where
  "handle_storage_class_secret wt si event_type =
     bindE (getS (\<lambda>w. get_matching_managed_secret_info si (ww_secrets w))) (\<lambda>(managed, index).
     if event_type \<in> {ADDED_EVENT, MODIFIED_EVENT} \<and> 0 < si_managed_storage_classes managed
     then let si = si\<lparr>si_managed_storage_classes := si_managed_storage_classes managed\<rparr> in
          thenE (case index of None \<Rightarrow> ret () | Some i \<Rightarrow> set_secret i si)
            (define_nodes wt (get_host_definition_info_from_secret si))
     else ret ())"

definition topology_secret_info ::
  "('k, 's) watcher \<Rightarrow> str \<Rightarrow> str \<Rightarrow> sdict \<Rightarrow> (('k, 's) watch_world, secret_info) prog" where
  "topology_secret_info wt name namespace secret_data =
     bindE (liftR (is_topology_secret secret_data)) (\<lambda>b.
     if b
     then bindE (generate_nodes_with_system_id wt secret_data) (\<lambda>nodes_with_system_id.
          bindE (liftR (generate_secret_system_ids_topologies secret_data)) (\<lambda>system_ids_topologies.
          ret (generate_secret_info name namespace nodes_with_system_id system_ids_topologies)))
     else ret (generate_secret_info name namespace [] []))"

definition watch_secret ::
  "('k, 's) watcher \<Rightarrow> str \<Rightarrow> str \<Rightarrow> str \<Rightarrow> sdict option \<Rightarrow> (('k, 's) watch_world, unit) prog" where
  "watch_secret wt event_type name namespace data =
     ifE (getS (\<lambda>w. is_secret_managed (generate_secret_info name namespace [] []) (ww_secrets w)))
       (bindE (liftR (case data of None \<Rightarrow> Inl (PyErr AttributeError)
                                | Some d \<Rightarrow> change_decode_base64_secret_config d)) (\<lambda>secret_data.
        bindE (topology_secret_info wt name namespace secret_data) (\<lambda>si.
        handle_storage_class_secret wt si event_type)))
       (ret ())"

subsection \<open>Storage classes\<close>

definition SECRET_NAME_SUFFIX :: str where "SECRET_NAME_SUFFIX = ''secret-name''"
definition CSI_PARAMETER_PREFIX :: str where "CSI_PARAMETER_PREFIX = ''csi.storage.k8s.io/''"

definition is_secret :: "str \<Rightarrow> bool" where
  "is_secret parameter_name =
     (py_endswith parameter_name SECRET_NAME_SUFFIX \<and> py_startswith parameter_name CSI_PARAMETER_PREFIX)"

text \<open>\<open>s.split(d)[0]\<close> for a text \<open>d\<close>.\<close>

fun before_text :: "str \<Rightarrow> str \<Rightarrow> str" where
  "before_text d [] = []"
| "before_text d (c # cs) = (if py_startswith (c # cs) d then [] else c # before_text d cs)"

definition get_secret_name_and_namespace :: "sdict \<Rightarrow> str \<Rightarrow> exn + str \<times> str" where
  "get_secret_name_and_namespace parameters parameter_name =
     bindR (dict_item parameters parameter_name) (\<lambda>name.
     bindR (dict_item parameters (before_text SECRET_NAME_SUFFIX parameter_name @ ''secret-namespace'')) (\<lambda>namespace.
     Inr (name, namespace)))"

definition add_secret_info_to_list :: "secret_info \<Rightarrow> secret_info list \<Rightarrow> secret_info list" where
  "add_secret_info_to_list si sis = (if list_ex (\<lambda>x. same_secret x si) sis then sis else sis @ [si])"

fun get_secrets_info_from_parameters ::
  "('k, 's) watcher \<Rightarrow> sdict \<Rightarrow> str list \<Rightarrow> secret_info list \<Rightarrow> (('k, 's) watch_world, secret_info list) prog" where
  "get_secrets_info_from_parameters wt parameters [] sis = ret sis"
| "get_secrets_info_from_parameters wt parameters (parameter_name # rest) sis =
     (if is_secret parameter_name
      then bindE (liftR (get_secret_name_and_namespace parameters parameter_name)) (\<lambda>(name, namespace).
           bindE (onk (get_secret_data (wt_kube wt) name namespace)) (\<lambda>secret_data.
           bindE (topology_secret_info wt name namespace secret_data) (\<lambda>si.
           get_secrets_info_from_parameters wt parameters rest (add_secret_info_to_list si sis))))
      else get_secrets_info_from_parameters wt parameters rest sis)"

definition get_secrets_info_from_storage_class ::
  "('k, 's) watcher \<Rightarrow> storage_class_info \<Rightarrow> (('k, 's) watch_world, secret_info list) prog" where
  "get_secrets_info_from_storage_class wt sc =
     (case sci_parameters sc of
        None \<Rightarrow> raiseE (PyErr TypeError)
      | Some parameters \<Rightarrow> get_secrets_info_from_parameters wt parameters (map fst parameters) [])"

definition get_secrets_info_from_storage_class_with_driver_provisioner ::
  "('k, 's) watcher \<Rightarrow> storage_class_info \<Rightarrow> (('k, 's) watch_world, secret_info list) prog" where
  "get_secrets_info_from_storage_class_with_driver_provisioner wt sc =
     (if sci_provisioner sc = CSI_PROVISIONER_NAME then get_secrets_info_from_storage_class wt sc else ret [])"

definition define_nodes_from_secret_info :: "('k, 's) watcher \<Rightarrow> secret_info \<Rightarrow> (('k, 's) watch_world, unit) prog" where
  "define_nodes_from_secret_info wt si = define_nodes wt (get_host_definition_info_from_secret si)"

definition append_secret :: "secret_info \<Rightarrow> (('k, 's) watch_world, unit) prog" where
  "append_secret si = modifyS (\<lambda>w. w\<lparr>ww_secrets := ww_secrets w @ [si]\<rparr>)"

definition define_nodes_when_new_secret :: "('k, 's) watcher \<Rightarrow> secret_info \<Rightarrow> (('k, 's) watch_world, unit) prog" where
  "define_nodes_when_new_secret wt si =
     bindE (getS (\<lambda>w. get_matching_managed_secret_info si (ww_secrets w))) (\<lambda>(managed, index).
     let si = si\<lparr>si_managed_storage_classes := 1\<rparr> in
     case index of
       None \<Rightarrow> thenE (append_secret si) (define_nodes_from_secret_info wt si)
     | Some i \<Rightarrow>
         if si_managed_storage_classes managed = 0
         then thenE (set_secret i si) (define_nodes_from_secret_info wt si)
         else set_secret i (si\<lparr>si_managed_storage_classes := si_managed_storage_classes managed + 1\<rparr>))"

definition handle_added_watch_event :: "('k, 's) watcher \<Rightarrow> secret_info list \<Rightarrow> (('k, 's) watch_world, unit) prog" where
  "handle_added_watch_event wt sis = forE (define_nodes_when_new_secret wt) sis"

text \<open>The index \<open>-1\<close> of a secret that is not managed is that of the last one.\<close>

definition release_secret :: "secret_info \<Rightarrow> (('k, 's) watch_world, unit) prog" where
  "release_secret si =
     bindE (getS ww_secrets) (\<lambda>ms.
     case snd (get_matching_managed_secret_info si ms) of
       Some i \<Rightarrow> set_secret i ((ms ! i)\<lparr>si_managed_storage_classes := si_managed_storage_classes (ms ! i) - 1\<rparr>)
     | None \<Rightarrow>
         if ms = [] then raiseE (PyErr IndexError)
         else set_secret (length ms - 1)
                ((last ms)\<lparr>si_managed_storage_classes := si_managed_storage_classes (last ms) - 1\<rparr>))"

definition handle_deleted_watch_event :: "secret_info list \<Rightarrow> (('k, 's) watch_world, unit) prog" where
  "handle_deleted_watch_event sis = forE release_secret sis"

definition watch_storage_class ::
  "('k, 's) watcher \<Rightarrow> str \<Rightarrow> storage_class_info \<Rightarrow> (('k, 's) watch_world, unit) prog" where
  "watch_storage_class wt event_type sc =
     bindE (get_secrets_info_from_storage_class_with_driver_provisioner wt sc) (\<lambda>sis.
     thenE (if event_type = ADDED_EVENT then handle_added_watch_event wt sis else ret ())
       (if event_type = DELETED_EVENT then handle_deleted_watch_event sis else ret ()))"

definition add_initial_storage_classes :: "('k, 's) watcher \<Rightarrow> (('k, 's) watch_world, unit) prog" where
  "add_initial_storage_classes wt =
     bindE (onk (get_storage_classes_info (wt_kube wt)))
       (forE (\<lambda>sc. bindE (get_secrets_info_from_storage_class_with_driver_provisioner wt sc)
                   (handle_added_watch_event wt)))"

subsection \<open>The host definer\<close>

definition start_host_definition :: "('k, 's) watcher \<Rightarrow> (('k, 's) watch_world, unit) prog" where
  "start_host_definition wt =
     thenE (add_initial_csi_nodes wt) (thenE (add_initial_storage_classes wt) (add_initial_nodes wt))"

datatype watch_event =
    CsiNodeEvent str k8s_csi_node
  | HostDefinitionEvent str k8s_host_definition
  | SecretEvent str str str "sdict option"
  | NodeEvent str node_info
  | StorageClassEvent str storage_class_info

primrec watcher_of :: "watch_event \<Rightarrow> watcher_kind" where
  "watcher_of (CsiNodeEvent t c) = CsiNodeWatcher"
| "watcher_of (HostDefinitionEvent t h) = HostDefinitionWatcher"
| "watcher_of (SecretEvent t n ns d) = SecretWatcher"
| "watcher_of (NodeEvent t ni) = NodeWatcher"
| "watcher_of (StorageClassEvent t sc) = StorageClassWatcher"

primrec handle_event :: "('k, 's) watcher \<Rightarrow> watch_event \<Rightarrow> (('k, 's) watch_world, unit) prog" where
  "handle_event wt (CsiNodeEvent t c) = watch_csi_node wt t c"
| "handle_event wt (HostDefinitionEvent t h) = watch_host_definition t h"
| "handle_event wt (SecretEvent t n ns d) = watch_secret wt t n ns d"
| "handle_event wt (NodeEvent t ni) = watch_node wt t ni"
| "handle_event wt (StorageClassEvent t sc) = watch_storage_class wt t sc"

text \<open>One turn of a thread, which has been taken from the list; a loop that goes on is put back.\<close>

primrec run_thread ::
  "('k, 's) watcher \<Rightarrow> hd_thread \<Rightarrow> ('k, 's) watch_world \<Rightarrow> ((exn + unit) \<times> ('k, 's) watch_world) option" where
  "run_thread wt (UndefineWhenPodDeleted cn) w = undefine_host_when_node_pod_is_deleted wt cn w"
| "run_thread wt (VerifyPending hi retries delay) w =
     Some (bindE (verify_pending_round wt hi retries delay) (\<lambda>slept. case slept of
             None \<Rightarrow> ret ()
           | Some delay \<Rightarrow> spawn (VerifyPending hi (retries - 1) delay)) w)"

text \<open>
  A step of the host definer: an event is handled by its watcher, which may end; a watcher ends because its
  stream fails; a thread takes a turn; something else changes the cluster and the storage systems.
\<close>

inductive watch_step :: "('k, 's) watcher \<Rightarrow> ('k, 's) watch_world \<Rightarrow> ('k, 's) watch_world \<Rightarrow> bool"
  for wt where
  event: "watcher_of ev \<notin> ww_ended w \<Longrightarrow> handle_event wt ev w = (Inr (), w') \<Longrightarrow> watch_step wt w w'"
| event_raises: "watcher_of ev \<notin> ww_ended w \<Longrightarrow> handle_event wt ev w = (Inl e, w') \<Longrightarrow>
    watch_step wt w (w'\<lparr>ww_ended := insert (watcher_of ev) (ww_ended w')\<rparr>)"
| stream_fails: "watch_step wt w (w\<lparr>ww_ended := insert kind (ww_ended w)\<rparr>)"
| thread: "ww_threads w = ts @ t # us \<Longrightarrow> run_thread wt t (w\<lparr>ww_threads := ts @ us\<rparr>) = Some (r, w') \<Longrightarrow>
    watch_step wt w w'"
| outside: "watch_step wt w (w\<lparr>ww_cluster := k, ww_storage := s\<rparr>)"

definition watch_start :: "'k \<Rightarrow> 's \<Rightarrow> ('k, 's) watch_world" where
  "watch_start k s =
     \<lparr>ww_cluster = k, ww_storage = s, ww_nodes = [], ww_secrets = [], ww_unmanaged = [], ww_threads = [], ww_ended = {}\<rparr>"

definition watch_reachable :: "('k, 's) watcher \<Rightarrow> ('k, 's) watch_world \<Rightarrow> bool" where
  "watch_reachable wt w =
     (\<exists>k s w0. start_host_definition wt (watch_start k s) = (Inr (), w0) \<and> (watch_step wt)\<^sup>*\<^sup>* w0 w)"

subsection \<open>What the watchers keep\<close>

text \<open>
  Each managed secret is in the list once, each managed node is under its own name, and each thread of a
  pending definition has at most five rounds left, with the delay that belongs to them.
\<close>

definition secret_key :: "secret_info \<Rightarrow> str \<times> str" where
  "secret_key si = (si_name si, si_namespace si)"

definition thread_ok :: "hd_thread \<Rightarrow> bool" where
  "thread_ok t =
     (case t of
        UndefineWhenPodDeleted cn \<Rightarrow> True
      | VerifyPending hi retries delay \<Rightarrow>
          is_host_definition_in_pending_phase (hi_phase hi) \<and> retries \<le> 5 \<and> delay = 3 ^ (6 - retries))"

definition watch_inv :: "('k, 's) watch_world \<Rightarrow> bool" where
  "watch_inv w =
     (distinct (map secret_key (ww_secrets w)) \<and>
      distinct (map fst (ww_nodes w)) \<and> (\<forall>(k, n) \<in> set (ww_nodes w). mn_name n = k) \<and>
      (\<forall>t \<in> set (ww_threads w). thread_ok t))"

interpretation watched: kept_by_cluster watch_inv
  by unfold_locales (simp_all add: watch_inv_def)

text \<open>A read makes what the predicate says of the state available to the rest.\<close>

lemma keeps_getS_bind: "(\<And>s. P s \<Longrightarrow> P (snd (f (g s) s))) \<Longrightarrow> keeps P (bindE (getS g) f)"
  by (simp add: keeps_def bindE_def prog_run)

lemma same_secret_key: "same_secret a b = (secret_key a = secret_key b)"
  by (auto simp: same_secret_def secret_key_def)

lemma find_secret_Some: "find_secret si ms = Some (m, i) \<Longrightarrow> i < length ms \<and> m = ms ! i \<and> secret_key m = secret_key si"
  by (induction ms arbitrary: i) (auto simp: same_secret_key split: if_splits)

lemma find_secret_None: "find_secret si ms = None \<longleftrightarrow> secret_key si \<notin> secret_key ` set ms"
  by (induction ms) (auto simp: same_secret_key)

lemma matching_Some:
  "get_matching_managed_secret_info si ms = (m, Some i) \<Longrightarrow> i < length ms \<and> m = ms ! i \<and> secret_key m = secret_key si"
  by (auto simp: get_matching_managed_secret_info_def split: option.splits dest: find_secret_Some)

lemma matching_None:
  "get_matching_managed_secret_info si ms = (m, None) \<Longrightarrow> m = si \<and> secret_key si \<notin> secret_key ` set ms"
  by (auto simp: get_matching_managed_secret_info_def find_secret_None split: option.splits)

lemma secret_key_update [simp]:
  "secret_key (si\<lparr>si_managed_storage_classes := c\<rparr>) = secret_key si"
  "secret_key (si\<lparr>si_nodes_with_system_id := d\<rparr>) = secret_key si"
  by (simp_all add: secret_key_def)

lemma set_secret_inv:
  assumes "watch_inv w" "i < length (ww_secrets w) \<Longrightarrow> secret_key si = secret_key (ww_secrets w ! i)"
  shows "watch_inv (snd (set_secret i si w))"
proof -
  have "map secret_key ((ww_secrets w)[i := si]) = map secret_key (ww_secrets w)"
    using assms(2) by (cases "i < length (ww_secrets w)") (metis list_update_id map_update nth_map, metis list_update_beyond not_less)
  then show ?thesis using assms(1) by (simp add: watch_inv_def set_secret_def prog_run)
qed

lemma append_secret_inv:
  "watch_inv w \<Longrightarrow> secret_key si \<notin> secret_key ` set (ww_secrets w) \<Longrightarrow> watch_inv (snd (append_secret si w))"
  by (simp add: watch_inv_def append_secret_def prog_run)

lemma in_set_update: "x \<in> set (AList.update k v xs) \<Longrightarrow> x = (k, v) \<or> x \<in> set xs"
  by (induction xs) (auto split: if_splits)

lemma set_node_keeps [keeps_intros]: "mn_name n = k \<Longrightarrow> keeps watch_inv (set_node k n)"
  by (auto simp: set_node_def watch_inv_def distinct_update intro!: keeps_modifyS dest!: in_set_update)

lemma pop_node_keeps [keeps_intros]: "keeps watch_inv (pop_node k)"
  by (auto simp: pop_node_def watch_inv_def distinct_delete AList.delete_eq intro!: keeps_modifyS distinct_map_filter)


lemma generate_managed_node_keeps:
  assumes "\<And>n. mn_name n = cn_name cn \<Longrightarrow> keeps watch_inv (f n)"
  shows "keeps watch_inv (bindE (generate_managed_node wt cn) f)"
  unfolding generate_managed_node_def bindE_assoc bindE_ret
  by (intro keeps_bind watched.onk_keeps assms) (simp add: new_managed_node_def)

lemma add_node_to_nodes_keeps [keeps_intros]: "keeps watch_inv (add_node_to_nodes wt cn)"
  unfolding add_node_to_nodes_def by (intro keeps_intros generate_managed_node_keeps)

lemma spawn_keeps [keeps_intros]: "thread_ok t \<Longrightarrow> keeps watch_inv (spawn t)"
  by (auto simp: spawn_def watch_inv_def intro!: keeps_modifyS)

lemma watch_inv_irrelevant [simp]:
  "watch_inv (w\<lparr>ww_ended := e\<rparr>) = watch_inv w" "watch_inv (w\<lparr>ww_unmanaged := u\<rparr>) = watch_inv w"
  by (simp_all add: watch_inv_def)

lemma in_nodes_keeps [keeps_intros]: "keeps watch_inv (in_nodes n)"
  by (auto simp: in_nodes_def intro!: keeps_intros)

lemma add_unmanaged_keeps [keeps_intros]: "keeps watch_inv (add_unmanaged n)"
  by (auto simp: add_unmanaged_def intro!: keeps_modifyS)

lemma csi_node_handlers_keep [keeps_intros]:
  "keeps watch_inv (add_initial_csi_nodes wt)" "keeps watch_inv (watch_csi_node wt t c)"
  by (auto simp: add_initial_csi_nodes_def watch_csi_node_def handle_modified_csi_node_def is_new_csi_node_def
      handle_deleted_csi_node_pod_def thread_ok_def intro!: keeps_intros)

lemma csi_node_threads_keep:
  "keeps watch_inv (create_definitions_when_csi_node_changed wt cn)" "keeps watch_inv (undefine_hosts wt n)"
  by (auto simp: create_definitions_when_csi_node_changed_def undefine_hosts_def
      intro!: keeps_intros generate_managed_node_keeps)

lemma watch_host_definition_keeps [keeps_intros]: "keeps watch_inv (watch_host_definition t h)"
  by (auto simp: watch_host_definition_def define_host_definition_after_pending_state_def Let_def thread_ok_def
      HOST_DEFINITION_PENDING_RETRIES_def HOST_DEFINITION_PENDING_DELAY_IN_SECONDS_def intro!: keeps_intros)

lemma pending_keeps [keeps_intros]: "keeps watch_inv (handle_pending_host_definition wt hi)"
  by (auto simp: handle_pending_host_definition_def define_host_after_pending_def undefine_host_after_pending_def
      update_host_definition_from_storage_response_def is_pending_for_deletion_need_to_be_handled_def
      handle_message_from_storage_def intro!: keeps_intros)

lemma verify_pending_round_keeps [keeps_intros]: "keeps watch_inv (verify_pending_round wt hi r d)"
  by (auto simp: verify_pending_round_def set_host_definition_phase_to_error_def is_host_definition_not_pending_def
      intro!: keeps_intros)

text \<open>A handler that writes back a secret it has read at an index.\<close>

lemma secret_at_keeps:
  assumes "\<And>w. watch_inv w \<Longrightarrow> watch_inv (snd (f (ww_secrets w ! i) w))"
  shows "keeps watch_inv (bindE (getS (\<lambda>w. ww_secrets w ! i)) f)"
  using assms by (intro keeps_getS_bind)

lemma bind_pure_inv:
  assumes "\<And>x. r = Inr x \<Longrightarrow> watch_inv (snd (f x w))" "watch_inv w"
  shows "watch_inv (snd (bindE (liftR r) f w))"
  using assms by (cases r) (simp_all add: prog_run)

lemma then_keeps_inv: "watch_inv (snd (m w)) \<Longrightarrow> keeps watch_inv k \<Longrightarrow> watch_inv (snd (thenE m k w))"
  by (auto simp: thenE_def bindE_def keeps_def split: prod.splits sum.splits)

lemma topology_handler_keeps [keeps_intros]: "keeps watch_inv (handle_topology_of_secret wt ni i)"
  unfolding handle_topology_of_secret_def
proof (rule secret_at_keeps)
  fix w :: "('a, 'b) watch_world"
  assume w: "watch_inv w"
  have remove: "watch_inv (snd (remove_node_if_topology_not_match ni i (ww_secrets w ! i) w))"
    unfolding remove_node_if_topology_not_match_def
    by (rule bind_pure_inv) (simp_all add: w set_secret_inv prog_run)
  have new_system: "watch_inv (snd (define_host_with_new_topology wt ni i (ww_secrets w ! i) w))"
    unfolding define_host_with_new_topology_def
    by (rule bind_pure_inv) (simp_all add: w set_secret_inv then_keeps_inv watched.define_all_keeps)
  show "watch_inv (snd ((if si_system_ids_topologies (ww_secrets w ! i) = [] then ret ()
     else if is_node_should_managed_on_secret_info (ni_name ni) (ww_secrets w ! i)
     then remove_node_if_topology_not_match ni i (ww_secrets w ! i)
     else bindE (liftR (is_node_in_system_ids_topologies (si_system_ids_topologies (ww_secrets w ! i)) (ni_labels ni))) (\<lambda>b.
          if b then define_host_with_new_topology wt ni i (ww_secrets w ! i) else ret ())) w))"
    using w remove new_system by (auto intro!: bind_pure_inv simp: prog_run)
qed

lemma update_io_group_keeps [keeps_intros]: "keeps watch_inv (update_io_group wt ni)"
  unfolding update_io_group_def Let_def node_of_def
proof (rule keeps_getS_bind)
  fix w :: "('a, 'b) watch_world"
  assume w: "watch_inv w"
  let ?g = "generate_io_group_from_labels (ni_labels ni)"
  show "watch_inv (snd ((case map_of (ww_nodes w) (ni_name ni) of None \<Rightarrow> ret ()
      | Some n \<Rightarrow> if ?g \<noteq> mn_io_group n
          then thenE (set_node (ni_name ni) (n\<lparr>mn_io_group := ?g\<rparr>)) (define_host_on_all_storages wt (ni_name ni))
          else ret ()) w))"
  proof (cases "map_of (ww_nodes w) (ni_name ni)")
    case (Some n)
    then have "mn_name n = ni_name ni" using w by (auto simp: watch_inv_def dest!: map_of_SomeD)
    then have "keeps watch_inv (thenE (set_node (ni_name ni) (n\<lparr>mn_io_group := ?g\<rparr>)) (define_host_on_all_storages wt (ni_name ni)))"
      by (intro keeps_intros watched.define_all_keeps) simp
    then show ?thesis using w Some by (auto simp: prog_run dest: keepsD)
  qed (simp add: w prog_run)
qed

lemma node_handlers_keep [keeps_intros]:
  "keeps watch_inv (watch_node wt t ni)" "keeps watch_inv (add_initial_nodes wt)"
  by (auto simp: watch_node_def add_new_unmanaged_nodes_with_ibm_csi_driver_def is_unmanaged_csi_node_has_driver_def
      define_new_managed_node_def is_node_has_new_manage_node_label_def is_node_with_csi_ibm_csi_node_and_is_not_managed_def
      handle_node_topologies_def add_initial_nodes_def is_csi_node_pod_deleted_while_host_definer_was_down_def
      delete_host_definitions_def intro!: keeps_intros keeps_modifyS)


lemma topology_secret_keeps [keeps_intros]: "keeps watch_inv (topology_secret_info wt n ns d)"
  by (auto simp: topology_secret_info_def intro!: keeps_intros)

lemma storage_class_secret_keeps [keeps_intros]: "keeps watch_inv (handle_storage_class_secret wt si t)"
  unfolding handle_storage_class_secret_def
proof (rule keeps_getS_bind)
  fix w :: "('a, 'b) watch_world"
  assume w: "watch_inv w"
  obtain m i where f: "get_matching_managed_secret_info si (ww_secrets w) = (m, i)" by fastforce
  have "watch_inv (snd ((case i of None \<Rightarrow> ret () | Some i \<Rightarrow> set_secret i (si\<lparr>si_managed_storage_classes := c\<rparr>)) w))" for c
    using w f by (auto simp: prog_run set_secret_inv split: option.splits dest!: matching_Some)
  then show "watch_inv (snd ((case get_matching_managed_secret_info si (ww_secrets w) of (managed, index) \<Rightarrow>
     if t \<in> {ADDED_EVENT, MODIFIED_EVENT} \<and> 0 < si_managed_storage_classes managed
     then let si = si\<lparr>si_managed_storage_classes := si_managed_storage_classes managed\<rparr> in
          thenE (case index of None \<Rightarrow> ret () | Some i \<Rightarrow> set_secret i si)
            (define_nodes wt (get_host_definition_info_from_secret si))
     else ret ()) w))"
    using w by (auto simp: f Let_def prog_run intro!: then_keeps_inv watched.define_all_keeps)
qed

lemma watch_secret_keeps [keeps_intros]: "keeps watch_inv (watch_secret wt t n ns d)"
  by (auto simp: watch_secret_def intro!: keeps_intros)

lemma parameters_keep: "keeps watch_inv (get_secrets_info_from_parameters wt ps ks sis)"
  by (induction wt ps ks sis rule: get_secrets_info_from_parameters.induct)
     (auto intro!: keeps_intros split: prod.splits)

lemma new_secret_keeps [keeps_intros]: "keeps watch_inv (define_nodes_when_new_secret wt si)"
  unfolding define_nodes_when_new_secret_def
proof (rule keeps_getS_bind)
  fix w :: "('a, 'b) watch_world"
  assume w: "watch_inv w"
  obtain m i where f: "get_matching_managed_secret_info si (ww_secrets w) = (m, i)" by fastforce
  show "watch_inv (snd ((case get_matching_managed_secret_info si (ww_secrets w) of (managed, index) \<Rightarrow>
     let si = si\<lparr>si_managed_storage_classes := 1\<rparr> in
     case index of
       None \<Rightarrow> thenE (append_secret si) (define_nodes_from_secret_info wt si)
     | Some i \<Rightarrow>
         if si_managed_storage_classes managed = 0
         then thenE (set_secret i si) (define_nodes_from_secret_info wt si)
         else set_secret i (si\<lparr>si_managed_storage_classes := si_managed_storage_classes managed + 1\<rparr>)) w))"
  proof (cases i)
    case None
    then show ?thesis
      using w matching_None [of si "ww_secrets w" m] f
      by (auto simp: Let_def define_nodes_from_secret_info_def intro!: then_keeps_inv append_secret_inv watched.define_all_keeps)
  next
    case (Some j)
    then show ?thesis
      using w matching_Some [of si "ww_secrets w" m j] f
      by (auto simp: Let_def define_nodes_from_secret_info_def intro!: then_keeps_inv set_secret_inv watched.define_all_keeps)
  qed
qed

lemma release_secret_keeps [keeps_intros]: "keeps watch_inv (release_secret si)"
  unfolding release_secret_def
  by (rule keeps_getS_bind) (auto simp: prog_run last_conv_nth split: option.splits intro!: set_secret_inv)

lemma storage_class_handlers_keep [keeps_intros]:
  "keeps watch_inv (watch_storage_class wt t sc)" "keeps watch_inv (add_initial_storage_classes wt)"
  by (auto simp: watch_storage_class_def add_initial_storage_classes_def handle_added_watch_event_def
      handle_deleted_watch_event_def get_secrets_info_from_storage_class_with_driver_provisioner_def
      get_secrets_info_from_storage_class_def intro!: keeps_intros parameters_keep)

lemma handle_event_keeps: "keeps watch_inv (handle_event wt ev)"
  by (cases ev) (auto intro!: keeps_intros)

lemma round_delay:
  "verify_pending_round wt hi r d w = (Inr (Some d'), w') \<Longrightarrow> r \<noteq> 0 \<and> d' = 3 * d"
  by (auto simp: verify_pending_round_def ifE_def prog_run HOST_DEFINITION_PENDING_EXPONENTIAL_BACKOFF_IN_SECONDS_def
      split: if_splits elim!: bindE_InrE thenE_InrE)

lemma run_thread_inv:
  assumes "watch_inv w" and t: "thread_ok t" and "run_thread wt t w = Some (r, w')"
  shows "watch_inv w'"
proof (cases t)
  case (UndefineWhenPodDeleted cn)
  have w: "watch_inv (w\<lparr>ww_cluster := k\<rparr>)" for k using assms(1) by (rule watched.cluster)
  have "keeps watch_inv (if b then create_definitions_when_csi_node_changed wt cn
      else ifE (andE (ret (is_host_definer_can_delete_hosts wt)) (notE (is_node_has_forbid_deletion_label wt (cn_name cn))))
             (undefine_hosts wt (cn_name cn)) (pop_node (cn_name cn)))" for b
    by (intro keeps_intros csi_node_threads_keep watched.labels_keep)
  then show ?thesis
    using assms(3) w UndefineWhenPodDeleted
    by (auto simp: undefine_host_when_node_pod_is_deleted_def split: option.splits sum.splits prod.splits
        dest!: keeps_run)
next
  case (VerifyPending hi n d)
  show ?thesis
  proof (cases "verify_pending_round wt hi n d w")
    case (Pair x u)
    have u: "watch_inv u" using keeps_run [OF verify_pending_round_keeps assms(1) Pair] .
    show ?thesis
    proof (cases x)
      case (Inl e)
      then show ?thesis using assms(3) VerifyPending Pair u by (simp add: bindE_def)
    next
      case (Inr slept)
      have "thread_ok (VerifyPending hi (n - 1) d')" if "slept = Some d'" for d'
      proof -
        have "n \<noteq> 0" "d' = 3 * d" using round_delay Pair Inr that by blast+
        moreover have n: "n \<le> 5" "d = 3 ^ (6 - n)" "is_host_definition_in_pending_phase (hi_phase hi)"
          using t VerifyPending by (simp_all add: thread_ok_def)
        moreover have "6 - (n - 1) = Suc (6 - n)" using n(1) \<open>n \<noteq> 0\<close> by simp
        ultimately show ?thesis by (simp add: thread_ok_def del: diff_Suc_eq_diff_pred)
      qed
      then have "keeps watch_inv (case slept of None \<Rightarrow> ret () | Some d' \<Rightarrow> spawn (VerifyPending hi (n - 1) d'))"
        by (auto intro!: keeps_intros split: option.splits)
      then show ?thesis using assms(3) VerifyPending Pair Inr u by (auto simp: bindE_def dest: keeps_run)
    qed
  qed
qed

lemma watch_step_inv: "watch_step wt w w' \<Longrightarrow> watch_inv w \<Longrightarrow> watch_inv w'"
proof (induction rule: watch_step.induct)
  case (thread w ts t us r w')
  then have "thread_ok t" "watch_inv (w\<lparr>ww_threads := ts @ us\<rparr>)" by (auto simp: watch_inv_def)
  then show ?case using thread by (blast intro: run_thread_inv)
next
  case (outside w k s)
  then show ?case by (simp add: watch_inv_def)
qed (auto dest: keeps_run [OF handle_event_keeps])

text \<open>
  C30. In every reachable state of the host definer, whatever the order of the events, the turns of the threads,
  the exceptions and the changes from outside: no secret is managed twice, every managed node is stored under its
  own name, and every thread that verifies a pending definition has at most five attempts left and the
  delay that three to the power of six less these attempts is.
\<close>
theorem watch_reachable_inv:
  assumes "watch_reachable wt w"
  shows "distinct (map secret_key (ww_secrets w)) \<and> distinct (map fst (ww_nodes w)) \<and>
    (\<forall>n m. map_of (ww_nodes w) n = Some m \<longrightarrow> mn_name m = n) \<and>
    (\<forall>hi retries delay. VerifyPending hi retries delay \<in> set (ww_threads w) \<longrightarrow>
      py_startswith (hi_phase hi) PENDING_PREFIX \<and> retries \<le> 5 \<and> delay = 3 ^ (6 - retries))"
proof -
  obtain k s w0 where start: "start_host_definition wt (watch_start k s) = (Inr (), w0)"
    and steps: "(watch_step wt)\<^sup>*\<^sup>* w0 w" using assms by (auto simp: watch_reachable_def)
  have "keeps watch_inv (start_host_definition wt)"
    unfolding start_host_definition_def by (intro keeps_intros)
  moreover have "watch_inv (watch_start k s)" by (simp add: watch_inv_def watch_start_def)
  ultimately have "watch_inv w0" using start by (rule keeps_run)
  from steps this have "watch_inv w"
    by (induction rule: rtranclp_induct) (auto intro: watch_step_inv)
  then have inv: "distinct (map secret_key (ww_secrets w))" "distinct (map fst (ww_nodes w))"
    "\<forall>(k, n) \<in> set (ww_nodes w). mn_name n = k" "\<forall>t \<in> set (ww_threads w). thread_ok t"
    by (simp_all add: watch_inv_def)
  have "\<forall>n m. map_of (ww_nodes w) n = Some m \<longrightarrow> mn_name m = n"
    using inv(3) by (auto dest!: map_of_SomeD)
  moreover have "\<forall>hi retries delay. VerifyPending hi retries delay \<in> set (ww_threads w) \<longrightarrow>
      py_startswith (hi_phase hi) PENDING_PREFIX \<and> retries \<le> 5 \<and> delay = 3 ^ (6 - retries)"
    using inv(4) by (auto simp: thread_ok_def is_host_definition_in_pending_phase_def dest!: bspec)
  ultimately show ?thesis using inv(1,2) by blast
qed

subsection \<open>A cluster for the examples\<close>

text \<open>The host definitions of the cluster, and the phases it was told.\<close>

type_synonym example_cluster = "k8s_host_definition list \<times> sdict"

definition example_kube :: "example_cluster kube" where
  "example_kube =
     \<lparr>kb_list_csi_nodes = ret [\<lparr>kc_name = ''node1'', kc_drivers = [(CSI_PROVISIONER_NAME, ''node1'')]\<rparr>],
      kb_get_csi_node = (\<lambda>n. ret \<lparr>kc_name = n, kc_drivers = [(CSI_PROVISIONER_NAME, n)]\<rparr>),
      kb_list_nodes = ret [\<lparr>ni_name = ''node1'', ni_labels = [(MANAGE_NODE_LABEL, TRUE_STRING)]\<rparr>],
      kb_read_node = (\<lambda>n. ret \<lparr>ni_name = n, ni_labels = [(MANAGE_NODE_LABEL, TRUE_STRING)]\<rparr>),
      kb_node_annotations = (\<lambda>k n. Inr (Some (Some [(NODE_INITIATORS_FIELD, ''{}'')]))),
      kb_patch_node_label = (\<lambda>n l v. ret ()),
      kb_list_storage_classes = ret [],
      kb_list_host_definitions = getS fst,
      kb_create_host_definition = (\<lambda>m (hs, ps).
         let h = \<lparr>kh_name = mf_name m, kh_resource_version = None, kh_resourceVersion = ''1'', kh_uid = ''u'',
                  kh_phase = None, kh_secret_name = mf_secret_name m, kh_secret_namespace = mf_secret_namespace m,
                  kh_node_name = mf_node_name m, kh_node_id = mf_node_id m, kh_node_initiators = mf_node_initiators m,
                  kh_connectivity_type = None, kh_ports = None\<rparr>
         in (Inr h, (h # hs, ps))),
      kb_patch_host_definition = (\<lambda>m. ret ()),
      kb_delete_host_definition = (\<lambda>n (hs, ps). (Inr (), (filter (\<lambda>h. kh_name h \<noteq> n) hs, ps))),
      kb_patch_status = (\<lambda>n p (hs, ps). (Inr (), (map (\<lambda>h. if kh_name h = n then h\<lparr>kh_phase := Some p\<rparr> else h) hs, AList.update n p ps))),
      kb_create_event = (\<lambda>ns e. ret ()),
      kb_read_secret = (\<lambda>n ns. raiseE (Foreign ''ApiException'' ''404'')),
      kb_list_daemon_sets = ret [\<lparr>ds_name = ''driver-node'', ds_updated = 1, ds_desired = 1\<rparr>],
      kb_list_pods = ret [\<lparr>pod_name = ''driver-node-x'', pod_node_name = ''node1''\<rparr>],
      kb_random_string = ret ''abc''\<rparr>"

definition example_watcher :: "(example_cluster, str list) watcher" where
  "example_watcher = \<lparr>wt_kube = example_kube, wt_definer = example_definer, wt_getenv = (\<lambda>v. None)\<rparr>"

lemma example_kube_calls [simp]:
  "kb_list_csi_nodes example_kube = ret [\<lparr>kc_name = ''node1'', kc_drivers = [(CSI_PROVISIONER_NAME, ''node1'')]\<rparr>]"
  "kb_get_csi_node example_kube n = ret \<lparr>kc_name = n, kc_drivers = [(CSI_PROVISIONER_NAME, n)]\<rparr>"
  "kb_list_nodes example_kube = ret [\<lparr>ni_name = ''node1'', ni_labels = [(MANAGE_NODE_LABEL, TRUE_STRING)]\<rparr>]"
  "kb_read_node example_kube n = ret \<lparr>ni_name = n, ni_labels = [(MANAGE_NODE_LABEL, TRUE_STRING)]\<rparr>"
  "kb_node_annotations example_kube k n = Inr (Some (Some [(NODE_INITIATORS_FIELD, ''{}'')]))"
  "kb_list_storage_classes example_kube = ret []" "kb_list_host_definitions example_kube = getS fst"
  "wt_kube example_watcher = example_kube" "wt_getenv example_watcher v = None"
  by (simp_all add: example_kube_def example_watcher_def)

lemma example_node_info [simp]: "generate_csi_node_info example_kube \<lparr>kc_name = n, kc_drivers = [(CSI_PROVISIONER_NAME, n)]\<rparr> k =
    (Inr \<lparr>cn_name = n, cn_node_id = n, cn_node_initiators = ''{}''\<rparr>, k)"
  by (simp add: generate_csi_node_info_def bindE_def prog_run get_node_id_from_k8s_csi_node_def dict_get_or_def
      get_node_initiators_data_def annotation_get_or_def Let_def)

lemma example_kube_reads [simp]:
  "get_csi_nodes_info_with_driver example_kube k =
     (Inr [\<lparr>cn_name = ''node1'', cn_node_id = ''node1'', cn_node_initiators = ''{}''\<rparr>], k)"
  "get_csi_node_info example_kube n k = (Inr \<lparr>cn_name = n, cn_node_id = n, cn_node_initiators = ''{}''\<rparr>, k)"
  "get_node_info example_kube n k = (Inr \<lparr>ni_name = n, ni_labels = [(MANAGE_NODE_LABEL, TRUE_STRING)]\<rparr>, k)"
  "get_storage_classes_info example_kube k = (Inr [], k)"
  "get_nodes_info example_kube k = (Inr [\<lparr>ni_name = ''node1'', ni_labels = [(MANAGE_NODE_LABEL, TRUE_STRING)]\<rparr>], k)"
  "get_k8s_host_definitions example_kube k = (Inr (fst k), k)"
  by (simp_all add: get_csi_nodes_info_with_driver_def get_k8s_csi_nodes_def except_api_def catchE_def bindE_def prog_run
      is_k8s_csi_node_has_driver_def get_csi_node_info_def get_node_info_def get_storage_classes_info_def
      get_nodes_info_def get_k8s_host_definitions_def)

lemma example_labels [simp]:
  "is_node_has_manage_node_label example_watcher n w = (Inr True, w)"
  "is_host_can_be_defined example_watcher n w = (Inr True, w)"
  by (simp_all add: is_node_has_manage_node_label_def is_host_has_label_in_true_def is_host_can_be_defined_def
      is_dynamic_node_labeling_allowed_def orE_def bindE_def onk_def prog_run TRUE_STRING_def)

lemma example_starts:
  "\<exists>w0. start_host_definition example_watcher (watch_start ([], []) []) = (Inr (), w0) \<and>
     map fst (ww_nodes w0) = [''node1'']"
proof -
  define w1 :: "(example_cluster, str list) watch_world" where
    "w1 = (watch_start ([], []) [])\<lparr>ww_nodes := [(''node1'', new_managed_node
       \<lparr>cn_name = ''node1'', cn_node_id = ''node1'', cn_node_initiators = ''{}''\<rparr> [(MANAGE_NODE_LABEL, TRUE_STRING)])]\<rparr>"
  have csi: "add_initial_csi_nodes example_watcher (watch_start ([], []) []) = (Inr (), w1)"
    "map fst (ww_nodes w1) = [''node1'']" "ww_cluster w1 = ([], [])"
    by (simp_all add: add_initial_csi_nodes_def onk_def bindE_def thenE_def ifE_def add_node_to_nodes_def
        add_manage_node_label_to_node_def generate_managed_node_def set_node_def prog_run watch_start_def w1_def)
  have "add_initial_storage_classes example_watcher w1 = (Inr (), w1)"
    by (simp add: add_initial_storage_classes_def onk_def bindE_def prog_run)
  moreover have "add_initial_nodes example_watcher w1 = (Inr (), w1)"
    using csi(3) by (simp add: add_initial_nodes_def onk_def bindE_def thenE_def ifE_def andE_def notE_def prog_run
        is_csi_node_pod_deleted_while_host_definer_was_down_def is_unmanaged_csi_node_has_driver_def
        is_node_has_host_definitions_def get_all_node_host_definitions_info_def)
  ultimately have "start_host_definition example_watcher (watch_start ([], []) []) = (Inr (), w1)"
    by (simp add: start_host_definition_def thenE_def bindE_def csi(1))
  with csi(2) show ?thesis by (intro exI [of _ w1] conjI)
qed

lemma watch_reachable_inv_witness:
  "\<exists>w :: (example_cluster, str list) watch_world.
     watch_reachable example_watcher w \<and> map fst (ww_nodes w) = [''node1''] \<and>
     (\<forall>n m. map_of (ww_nodes w) n = Some m \<longrightarrow> mn_name m = n)"
proof -
  obtain w0 where w0: "start_host_definition example_watcher (watch_start ([], []) []) = (Inr (), w0)"
    "map fst (ww_nodes w0) = [''node1'']"
    using example_starts by auto
  have reach: "watch_reachable example_watcher w0"
    unfolding watch_reachable_def
    by (rule exI [of _ "([], [])"], rule exI [of _ "[]"], rule exI [of _ w0]) (simp add: w0(1))
  show ?thesis using watch_reachable_inv [OF reach] w0(2) reach by (intro exI [of _ w0] conjI) simp_all
qed

subsection \<open>Waiting for the daemon set\<close>

definition rolled_out :: "k8s_daemon_set \<Rightarrow> bool" where
  "rolled_out ds = (ds_updated ds = ds_desired ds \<or> ds_desired ds = 0)"

text \<open>The daemon set after a number of polls, while there is one.\<close>

fun daemon_set_after :: "'k kube \<Rightarrow> nat \<Rightarrow> k8s_daemon_set \<Rightarrow> 'k \<Rightarrow> k8s_daemon_set option" where
  "daemon_set_after kb 0 ds k = Some ds"
| "daemon_set_after kb (Suc n) ds k =
     (case get_csi_daemon_set kb k of (Inr (Some ds'), k') \<Rightarrow> daemon_set_after kb n ds' k' | _ \<Rightarrow> None)"

definition waiting_ends :: "'k kube \<Rightarrow> nat \<Rightarrow> k8s_daemon_set \<Rightarrow> 'k \<Rightarrow> bool" where
  "waiting_ends kb n ds k = (case daemon_set_after kb n ds k of None \<Rightarrow> True | Some ds' \<Rightarrow> rolled_out ds')"

lemma waiting_endsD: "waiting_ends kb n ds k \<Longrightarrow> wait_until_up_to_date kb ds k \<noteq> None"
proof (induction n arbitrary: ds k)
  case 0
  then show ?case by (subst wait_until_up_to_date.simps) (auto simp: waiting_ends_def rolled_out_def)
next
  case (Suc n)
  show ?case
  proof (cases "get_csi_daemon_set kb k")
    case (Pair r k')
    have "wait_until_up_to_date kb ds' k' \<noteq> None" if "r = Inr (Some ds')" for ds'
      using Suc that Pair by (simp add: waiting_ends_def)
    then show ?thesis
      by (subst wait_until_up_to_date.simps) (auto simp: Pair split: sum.splits option.splits)
  qed
qed

lemma wait_returnsD: "wait_until_up_to_date kb ds k = Some y \<Longrightarrow> \<exists>n. waiting_ends kb n ds k"
proof (erule wait_until_up_to_date.raw_induct [where P = "\<lambda>kb ds k y. \<exists>n. waiting_ends kb n ds k", rotated])
  fix f :: "'a kube \<Rightarrow> k8s_daemon_set \<Rightarrow> 'a \<Rightarrow> ((exn + str option) \<times> 'a) option"
    and kb :: "'a kube" and ds :: k8s_daemon_set and k :: 'a and y :: "(exn + str option) \<times> 'a"
  assume IH: "\<And>kb ds k y. f kb ds k = Some y \<Longrightarrow> \<exists>n. waiting_ends kb n ds k"
    and body: "(if ds_updated ds = ds_desired ds then Some (Inr (Some (ds_name ds)), k)
      else if ds_desired ds = 0 then Some (Inr None, k)
      else case get_csi_daemon_set kb k of
          (Inl e, k') \<Rightarrow> Some (Inl e, k')
        | (Inr None, k') \<Rightarrow> Some (Inr None, k')
        | (Inr (Some ds'), k') \<Rightarrow> f kb ds' k') = Some y"
  obtain r k' where get: "get_csi_daemon_set kb k = (r, k')" by fastforce
  consider "rolled_out ds" | ds' where "\<not> rolled_out ds" "r = Inr (Some ds')" | "\<not> (\<exists>ds'. r = Inr (Some ds'))" by blast
  then show "\<exists>n. waiting_ends kb n ds k"
  proof cases
    case 1
    then have "waiting_ends kb 0 ds k" by (simp add: waiting_ends_def)
    then show ?thesis by blast
  next
    case 2
    then have "f kb ds' k' = Some y" using body get by (simp add: rolled_out_def)
    then obtain n where "waiting_ends kb n ds' k'" using IH by blast
    then have "waiting_ends kb (Suc n) ds k" using get 2 by (simp add: waiting_ends_def)
    then show ?thesis by blast
  next
    case 3
    then have "waiting_ends kb (Suc 0) ds k"
      using get by (auto simp: waiting_ends_def split: sum.splits option.splits)
    then show ?thesis by blast
  qed
qed

text \<open>
  C31. The loop that waits for the rollout of the driver returns exactly when, after some number of polls, the
  daemon set is up to date, desires no pods, or can not be read any more; a thread whose cluster never gets there
  waits for ever.
\<close>
theorem rollout_wait_terminates:
  "wait_until_up_to_date kb ds k \<noteq> None \<longleftrightarrow>
     (\<exists>n. case daemon_set_after kb n ds k of None \<Rightarrow> True | Some ds' \<Rightarrow> ds_updated ds' = ds_desired ds' \<or> ds_desired ds' = 0)"
  using waiting_endsD [of kb _ ds k] wait_returnsD [of kb ds k]
  unfolding waiting_ends_def rolled_out_def by blast

subsection \<open>Verifying pending definitions\<close>

lemma backoff_from:
  "define_host_using_exponential_backoff wt hi r d w = (Inr delays, w') \<Longrightarrow>
     \<exists>n \<le> r. delays = map (\<lambda>i. d * 3 ^ Suc i) [0..<n] \<and>
       (n = r \<longrightarrow> (\<exists>u. set_host_definition_phase_to_error wt hi u = (Inr (), w')))"
proof (induction r arbitrary: d delays w)
  case 0
  then show ?case by (auto simp: verify_pending_round_def prog_run elim!: bindE_InrE thenE_InrE)
next
  case (Suc r)
  then obtain slept u where round: "verify_pending_round wt hi (Suc r) d w = (Inr slept, u)"
    and rest: "(case slept of None \<Rightarrow> ret []
     | Some delay \<Rightarrow>
         bindE (define_host_using_exponential_backoff wt hi r delay) (\<lambda>delays. ret (delay # delays))) u = (Inr delays, w')"
    by (auto elim: bindE_InrE)
  show ?case
  proof (cases slept)
    case None
    then show ?thesis using rest by (intro exI [of _ 0]) (simp add: prog_run)
  next
    case (Some d')
    then have d': "d' = 3 * d" using round round_delay by blast
    from rest Some obtain ds where ds: "define_host_using_exponential_backoff wt hi r d' u = (Inr ds, w')" "delays = d' # ds"
      by (auto simp: prog_run elim!: bindE_InrE)
    from Suc.IH [OF ds(1)] obtain n where n: "n \<le> r" "ds = map (\<lambda>i. d' * 3 ^ Suc i) [0..<n]"
      "n = r \<longrightarrow> (\<exists>u. set_host_definition_phase_to_error wt hi u = (Inr (), w'))" by blast
    have "delays = map (\<lambda>i. d * 3 ^ Suc i) [0..<Suc n]"
      unfolding ds(2) n(2) d' map_upt_Suc by simp
    then show ?thesis using n by (intro exI [of _ "Suc n"]) auto
  qed
qed



definition example_pending :: host_definition_info where
  "example_pending = (get_host_definition_info_from_secret (generate_secret_info ''secret'' ''default'' [] []))
     \<lparr>hi_name := ''node1-abc'', hi_node_name := ''node1'', hi_phase := PENDING_DELETION_PHASE\<rparr>"


subsection \<open>The phase of a definition\<close>

text \<open>
  What the phase of a definition is afterwards, when the cluster stores what it is told:
  \<open>phase_of\<close> reads the phase from the state of the cluster.
\<close>

lemma status_after_definition:
  assumes store: "\<And>n p k. \<exists>k'. kb_patch_status (wt_kube wt) n p k = (Inr (), k') \<and> phase_of k' n = p"
    and events: "\<And>ns e k n. phase_of (snd (kb_create_event (wt_kube wt) ns e k)) n = phase_of k n"
    and run: "set_status_to_host_definition_after_definition wt message (Some hi) w = (r, w')"
  shows "phase_of (ww_cluster w') (hi_name hi) = (if message \<noteq> [] then PENDING_CREATION_PHASE else READY_PHASE)"
proof -
  have status: "\<exists>w1. wh_set_status wt n p w = (Inr (), w1) \<and> phase_of (ww_cluster w1) n = p" for n p
    using store [of n p "ww_cluster w"]
    by (auto simp: wh_set_status_def set_host_definition_status_def except_api_def catchE_def onk_def)
  have event: "phase_of (ww_cluster (snd (create_k8s_event_for_host_definition wt hi m a t w1))) n =
      phase_of (ww_cluster w1) n" for m a t w1 n
    using events [of DEFAULT_NAMESPACE "generate_k8s_event hi m a t" "ww_cluster w1" n]
    by (auto simp: create_k8s_event_for_host_definition_def create_k8s_event_def except_api_def catchE_def onk_def
        raiseE_def ret_def split: prod.splits sum.splits exn.splits)
  let ?p = "if message \<noteq> [] then PENDING_CREATION_PHASE else READY_PHASE"
  obtain w1 where w1: "wh_set_status wt (hi_name hi) ?p w = (Inr (), w1)" "phase_of (ww_cluster w1) (hi_name hi) = ?p"
    using status by blast
  have "\<exists>m a t. (r, w') = create_k8s_event_for_host_definition wt hi m a t w1"
    using run w1(1)
    by (auto simp: set_status_to_host_definition_after_definition_def set_host_definition_status_to_ready_def
        thenE_def bindE_def split: if_splits) metis+
  then show ?thesis using event w1(2) by (metis snd_conv)
qed

lemma create_definition_sets_status:
  assumes "is_node_should_be_managed_on_secret wt (hi_node_name hi) (hi_secret_name hi) (hi_secret_namespace hi) w =
      (Inr True, w1)"
    and "update_host_definition_info wt hi w1 = (Inr hi', w2)"
    and "wh_define_host wt hi' w2 = (Inr response, w3)"
    and "create_host_definition_if_not_exist wt hi' response w3 = (Inr (Some c), w4)"
    and "create_definition wt hi w = (r, w')"
  obtains r' where "set_status_to_host_definition_after_definition wt (rs_error_message response) (Some c) w4 = (r', w')"
  using assms
  by (auto simp: create_definition_def ifE_def notE_def bindE_def thenE_def prog_run split: prod.splits sum.splits)

text \<open>
  After a definition was made for a node that the secret manages, on a cluster that stores the phases it
  is told and keeps them when an event is created, the phase of the definition follows the answer of the
  storage system: PendingCreation when it carries an error, and Ready otherwise.
\<close>
theorem definition_phase_follows_storage:
  assumes "\<And>n p k. \<exists>k'. kb_patch_status (wt_kube wt) n p k = (Inr (), k') \<and> phase_of k' n = p"
    and "\<And>ns e k n. phase_of (snd (kb_create_event (wt_kube wt) ns e k)) n = phase_of k n"
    and "is_node_should_be_managed_on_secret wt (hi_node_name hi) (hi_secret_name hi) (hi_secret_namespace hi) w =
      (Inr True, w1)"
    and "update_host_definition_info wt hi w1 = (Inr hi', w2)"
    and "wh_define_host wt hi' w2 = (Inr response, w3)"
    and "create_host_definition_if_not_exist wt hi' response w3 = (Inr (Some c), w4)"
    and "create_definition wt hi w = (r, w')"
  shows "phase_of (ww_cluster w') (hi_name c) =
    (if rs_error_message response \<noteq> [] then PENDING_CREATION_PHASE else READY_PHASE)"
proof -
  obtain r' where "set_status_to_host_definition_after_definition wt (rs_error_message response) (Some c) w4 = (r', w')"
    using create_definition_sets_status [OF assms(3-7)] .
  then show ?thesis by (rule status_after_definition [where phase_of = phase_of, OF assms(1,2)])
qed

definition example_phase :: "example_cluster \<Rightarrow> str \<Rightarrow> str" where
  "example_phase k n = attr_or_empty (map_of (snd k) n)"

definition example_new :: host_definition_info where
  "example_new = (get_host_definition_info_from_secret (generate_secret_info ''secret'' ''default'' [] []))
     \<lparr>hi_name := ''node1-abc'', hi_node_name := ''node1''\<rparr>"

lemma definition_phase_follows_storage_witness:
  "\<exists>w r w'. create_definition example_watcher example_new w = (r, w') \<and>
     example_phase (ww_cluster w') ''node1-abc'' = PENDING_CREATION_PHASE"
proof -
  let ?n = "\<lparr>mn_name = ''node1'', mn_node_id = ''node1'', mn_node_initiators = ''{}'', mn_io_group = ''0''\<rparr>"
  define w :: "(example_cluster, str list) watch_world" where
    "w = (watch_start ([], []) [])\<lparr>ww_nodes := [(''node1'', ?n)]\<rparr>"
  have store: "\<exists>k'. kb_patch_status (wt_kube example_watcher) n p k = (Inr (), k') \<and> example_phase k' n = p" for n p k
    by (cases k) (simp add: example_kube_def example_phase_def attr_or_empty_def update_conv')
  have events: "example_phase (snd (kb_create_event (wt_kube example_watcher) ns e k)) n = example_phase k n" for ns e k n
    by (simp add: example_kube_def prog_run)
  have secret: "get_secret_data example_kube s ns k = (Inr [], k)" for s ns k
    by (simp add: get_secret_data_def except_api_def catchE_def bindE_def example_kube_def prog_run)
  have managed: "is_node_should_be_managed_on_secret example_watcher (hi_node_name example_new) (hi_secret_name example_new)
      (hi_secret_namespace example_new) w = (Inr True, w)"
    by (simp add: is_node_should_be_managed_on_secret_def onk_def bindE_def thenE_def prog_run secret w_def watch_start_def
        validate_secret_def validate_secrets_def is_node_should_managed_on_secret_info_def generate_secret_info_def
        get_matching_managed_secret_info_def)
  have absent: "matching_definition example_watcher example_new w = (Inr None, w)"
    by (simp add: matching_definition_def get_matching_host_definition_info_def onk_def bindE_def prog_run w_def watch_start_def)
  then have update: "update_host_definition_info example_watcher example_new w = (Inr example_new, w)"
    by (simp add: update_host_definition_info_def bindE_def prog_run)
  let ?failed = "empty_response\<lparr>rs_error_message := failed_to_get_secret example_new\<rparr>"
  have failed: "wh_define_host example_watcher example_new w = (Inr ?failed, w)"
    by (simp add: wh_define_host_def ensure_definition_state_def get_request_from_host_definition_def onk_def bindE_def
        prog_run get_array_connection_info_from_secret_def secret w_def watch_start_def)
  have made: "\<exists>c k'. create_host_definition example_kube m k = (Inr (Some c), k') \<and> hi_name c = mf_name m" for m k
    by (cases k) (simp add: create_host_definition_def except_api_def catchE_def bindE_def thenE_def prog_run
        example_kube_def add_finalizer_def update_finalizer_def patch_host_definition_def Let_def
        generate_host_definition_info_def)
  have node: "node_item (hi_node_name example_new) w = (Inr ?n, w)"
    by (simp add: node_item_def node_of_def bindE_def prog_run w_def example_new_def)
  have "\<exists>c w4. create_host_definition_if_not_exist example_watcher example_new ?failed w = (Inr (Some c), w4) \<and>
      hi_name c = hi_name example_new"
  proof -
    obtain m where m: "get_host_definition_manifest example_new ?failed w = (Inr m, w)" "mf_name m = hi_name example_new"
      by (simp add: get_host_definition_manifest_def bindE_def prog_run node)
    obtain c k' where "create_host_definition example_kube m (ww_cluster w) = (Inr (Some c), k')" "hi_name c = mf_name m"
      using made by blast
    then show ?thesis
      using m by (simp add: create_host_definition_if_not_exist_def bindE_def prog_run absent onk_def)
  qed
  then obtain c w4 where created: "create_host_definition_if_not_exist example_watcher example_new ?failed w =
      (Inr (Some c), w4)" and c: "hi_name c = ''node1-abc''"
    by (auto simp: example_new_def)
  obtain r w' where run: "create_definition example_watcher example_new w = (r, w')" by fastforce
  have "example_phase (ww_cluster w') (hi_name c) = PENDING_CREATION_PHASE"
    using definition_phase_follows_storage [where phase_of = example_phase, OF store events managed update failed created run]
    by (simp add: failed_to_get_secret_def)
  with run c show ?thesis by auto
qed

text \<open>
  A definition in the phase PendingCreation for a node that its secret does not manage: the definition is
  deleted, and then it is reported as made, with the phase Ready and the event of a success.
\<close>
theorem pending_unmanaged_reported_ready:
  assumes "hi_phase hi = PENDING_CREATION_PHASE"
    and "is_node_should_be_managed_on_secret wt (hi_node_name hi) (hi_secret_name hi) (hi_secret_namespace hi) w =
      (Inr False, w1)"
    and "onk (delete_host_definition (wt_kube wt) (hi_name hi)) w1 = (Inr (), w2)"
  shows "handle_pending_host_definition wt hi w = set_host_definition_status_to_ready wt hi w2"
  using assms
  by (simp add: handle_pending_host_definition_def define_host_after_pending_def handle_message_from_storage_def
      ifE_def bindE_def thenE_def prog_run empty_response_def)

text \<open>
  When the last node of a secret with topologies leaves them, the secret counts as one that manages every
  node: the node that just left is managed on it again.
\<close>
theorem last_node_leaves_topologies:
  assumes "si_nodes_with_system_id si = [(node_name, system_id)]"
  shows "is_node_should_managed_on_secret_info n
    (si\<lparr>si_nodes_with_system_id := AList.delete node_name (si_nodes_with_system_id si)\<rparr>)"
  using assms by (simp add: is_node_should_managed_on_secret_info_def)

text \<open>Releasing a secret that is not managed takes a storage class from the last one of the list.\<close>

lemma release_unmanaged_secret:
  assumes "\<not> is_secret_managed si (ms @ [m])" and "ww_secrets w = ms @ [m]"
  shows "release_secret si w =
    (Inr (), w\<lparr>ww_secrets := ms @ [m\<lparr>si_managed_storage_classes := si_managed_storage_classes m - 1\<rparr>]\<rparr>)"
  using assms
  by (simp add: release_secret_def set_secret_def bindE_def prog_run is_secret_managed_def list_update_append)

subsection \<open>The credentials of a secret\<close>

text \<open>
  C33. The host definer does not read the list of addresses that the documentation of the secret allows (a finding).  For a
  secret without topologies with the management addresses \<open>as\<close>, joined by commas, the controller, which is given the values
  as texts, reads user, password and the list of the addresses.  The host definer is given the same values in Base64; it
  reads the same user and password, but splits the addresses before it decodes them, and gets one address with the commas
  in it: the two agree just when there is one address.
\<close>
theorem k8s_secret_connection:
  assumes "is_ascii user" "is_ascii password" "\<forall>a \<in> set as. is_ascii a \<and> CHR '','' \<notin> set a" "as \<noteq> []"
  shows "\<exists>ci hd. get_array_connection_info_from_secrets
      [(''username'', user), (''password'', password), (''management_address'', py_join '','' as)] topologies None = Inr ci \<and>
    get_array_connection_info_from_secret_data
      [(''username'', b64encode (bytes_of user)), (''password'', b64encode (bytes_of password)),
       (''management_address'', b64encode (bytes_of (py_join '','' as)))] labels = Inr (Some hd) \<and>
    ci_user ci = user \<and> ci_password ci = password \<and> ci_array_addresses ci = as \<and>
    ci_user hd = user \<and> ci_password hd = password \<and> ci_array_addresses hd = [py_join '','' as] \<and>
    (ci_array_addresses hd = ci_array_addresses ci \<longleftrightarrow> length as = 1)"
proof -
  have no_comma: "CHR '','' \<notin> set (b64encode bs)" for bs
  proof -
    have "b64_char w \<noteq> CHR '',''" for w by (auto simp: b64_char_def Let_def dest!: arg_cong [where f = "of_char :: char \<Rightarrow> nat"])
    then show ?thesis by (induction bs rule: b64encode.induct) (auto, metis+)
  qed
  have encoded: "py_split (CHR '','') (b64encode bs) = [b64encode bs]" for bs
    using no_comma by (rule py_split_nodelim)
  have list: "py_split (CHR '','') (py_join '','' as) = as"
    using assms(3,4) by (intro py_split_join) auto
  have ascii: "is_ascii (py_join '','' as)"
    using assms(3) by (induction "'',''" as rule: py_join.induct) (auto simp: is_ascii_def)
  have one: "[py_join '','' as] = as \<longleftrightarrow> length as = 1"
    using list assms(4) by (cases as; cases "tl as") auto
  note read = get_array_connection_info_from_secrets_def get_system_info_from_secrets_def
    get_array_connection_info_from_system_info_def sdict_json_def json_item_def json_get_def json_get_or_def json_text_def
    json_opt_text_def json_str_def dict_get_or_def dict_item_def dict_get_def
  show ?thesis
    using assms(1,2) ascii one
    by (simp add: get_array_connection_info_from_secret_data_def read encoded list decode_array_connectivity_info_def
        decode_base64_encoded)
qed

lemma k8s_secret_connection_witness:
  "\<exists>ci hd. get_array_connection_info_from_secrets
      [(''username'', ''admin''), (''password'', ''pw''), (''management_address'', ''10.0.0.1,10.0.0.2'')] None None = Inr ci \<and>
    get_array_connection_info_from_secret_data
      [(''username'', b64encode (bytes_of ''admin'')), (''password'', b64encode (bytes_of ''pw'')),
       (''management_address'', b64encode (bytes_of ''10.0.0.1,10.0.0.2''))] [] = Inr (Some hd) \<and>
    ci_array_addresses ci = [''10.0.0.1'', ''10.0.0.2''] \<and> ci_array_addresses hd = [''10.0.0.1,10.0.0.2'']"
proof -
  have join: "py_join '','' [''10.0.0.1'', ''10.0.0.2''] = ''10.0.0.1,10.0.0.2''" by simp
  have "\<exists>ci hd. get_array_connection_info_from_secrets
      [(''username'', ''admin''), (''password'', ''pw''), (''management_address'', py_join '','' [''10.0.0.1'', ''10.0.0.2''])] None None = Inr ci \<and>
    get_array_connection_info_from_secret_data
      [(''username'', b64encode (bytes_of ''admin'')), (''password'', b64encode (bytes_of ''pw'')),
       (''management_address'', b64encode (bytes_of (py_join '','' [''10.0.0.1'', ''10.0.0.2''])))] [] = Inr (Some hd) \<and>
    ci_user ci = ''admin'' \<and> ci_password ci = ''pw'' \<and> ci_array_addresses ci = [''10.0.0.1'', ''10.0.0.2''] \<and>
    ci_user hd = ''admin'' \<and> ci_password hd = ''pw'' \<and> ci_array_addresses hd = [py_join '','' [''10.0.0.1'', ''10.0.0.2'']] \<and>
    (ci_array_addresses hd = ci_array_addresses ci \<longleftrightarrow> length [''10.0.0.1'', ''10.0.0.2''] = 1)"
    by (rule k8s_secret_connection) (simp_all add: is_ascii_def)
  then show ?thesis unfolding join by blast
qed

end
