(* ===== verification/SantricityClient.thy ===== *)
theory SantricityClient
  imports JsonValues
begin

text \<open>
  The SANtricity client library of the repository (\<open>array_action/santricity_client/\<close>): requests
  (\<open>client.py\<close>, \<open>http.py\<close>, \<open>config.py\<close>, \<open>exceptions.py\<close>), the profiles of releases (\<open>capabilities.py\<close>) and
  the resources (\<open>resources/\<close>).  The session of the third-party package requests is a parameter: it takes a
  request and gives a response or raises one of its classes.  The state is that of the storage system
  together with what the client remembers, the id of the system and the prefix of the scoped paths.

  Values of answers are \<open>json\<close>; a reference that goes into a path or a payload is one as well, since the
  client passes on whatever the answer held.
\<close>

subsection \<open>Profiles of releases\<close>

datatype sn_version = Version nat nat nat

text \<open>They are compared as the tuples they are in the code.\<close>

instantiation sn_version :: linorder
begin

fun less_eq_sn_version :: "sn_version \<Rightarrow> sn_version \<Rightarrow> bool" where
  "less_eq_sn_version (Version a b c) (Version a' b' c') =
     (a < a' \<or> (a = a' \<and> (b < b' \<or> (b = b' \<and> c \<le> c'))))"

definition less_sn_version :: "sn_version \<Rightarrow> sn_version \<Rightarrow> bool" where
  "less_sn_version v w = (v \<le> w \<and> \<not> w \<le> v)"

instance
proof
  fix u v w :: sn_version
  show "(v < w) = (v \<le> w \<and> \<not> w \<le> v)" by (rule less_sn_version_def)
  show "v \<le> v" by (cases v) simp
  show "v \<le> w \<or> w \<le> v" by (cases v; cases w) auto
  show "u \<le> v \<Longrightarrow> v \<le> w \<Longrightarrow> u \<le> w" by (cases u; cases v; cases w) auto
  show "v \<le> w \<Longrightarrow> w \<le> v \<Longrightarrow> v = w" by (cases v; cases w) auto
qed

end

record capability_profile =
  cp_label :: str
  cp_min_version :: sn_version
  cp_supports_jwt :: bool
  cp_mapping_endpoint :: str
  cp_legacy_mapping_endpoint :: "str option"
  cp_clone_endpoint :: str
  cp_legacy_clone_endpoint :: "str option"
  cp_detected_release :: "str option"
  cp_is_future_release :: bool

definition base_profile :: "str \<Rightarrow> sn_version \<Rightarrow> bool \<Rightarrow> capability_profile" where
  "base_profile label version jwt =
     \<lparr>cp_label = label, cp_min_version = version, cp_supports_jwt = jwt,
      cp_mapping_endpoint = ''/volume-mappings'', cp_legacy_mapping_endpoint = None,
      cp_clone_endpoint = ''/volume-clones'', cp_legacy_clone_endpoint = None,
      cp_detected_release = None, cp_is_future_release = False\<rparr>"

definition BASE_PROFILES :: "capability_profile list" where
  "BASE_PROFILES =
     [base_profile ''11.80'' (Version 11 80 0) False, base_profile ''11.90'' (Version 11 90 0) True,
      base_profile ''12.00'' (Version 12 0 0) True]"

text \<open>\<open>ch.isdigit()\<close> also holds of three superscript digits below 256, which \<open>int\<close> does not read.\<close>

definition is_unicode_digit :: "char \<Rightarrow> bool" where
  "is_unicode_digit c = (is_digit c \<or> (of_char c :: nat) \<in> {178, 179, 185})"

definition version_part :: "str \<Rightarrow> exn + nat" where
  "version_part part =
     (let digits = filter is_unicode_digit part in
      if list_all is_digit digits then Inr (digits_val digits) else Inl (PyErr ValueError))"

definition parse_release :: "str option \<Rightarrow> exn + sn_version option" where
  "parse_release release =
     (if \<not> truthy release then Inr None
      else bindR (mapR version_part (take 3 (py_split (CHR ''.'') (the release)))) (\<lambda>parts.
           let padded = parts @ replicate (3 - length parts) 0
           in Inr (Some (Version (padded ! 0) (padded ! 1) (padded ! 2)))))"

text \<open>The last profile whose release is not newer, the first one when there is none.\<close>

definition choose_profile :: "sn_version \<Rightarrow> capability_profile \<Rightarrow> capability_profile list \<Rightarrow> capability_profile" where
  "choose_profile version = foldl (\<lambda>profile candidate. if cp_min_version candidate \<le> version then candidate else profile)"

definition resolve_capabilities :: "str option \<Rightarrow> exn + capability_profile" where
  "resolve_capabilities release =
     bindR (parse_release release) (\<lambda>version.
     let profile = (case version of
                      None \<Rightarrow> last BASE_PROFILES
                    | Some v \<Rightarrow> choose_profile v (hd BASE_PROFILES) BASE_PROFILES);
         future = (case version of
                      None \<Rightarrow> False
                    | Some v \<Rightarrow> \<not> v < cp_min_version (hd BASE_PROFILES) \<and> cp_min_version (last BASE_PROFILES) < v)
     in Inr (profile\<lparr>cp_detected_release := if truthy release then release else Some (cp_label profile),
                     cp_is_future_release := future\<rparr>))"

subsection \<open>Authentication\<close>

datatype auth_strategy = BasicAuth str str | JWTAuth str | SAMLAuthStub "str option"

text \<open>\<open>basic_auth_str\<close> is the function of requests that encodes a user and a password.\<close>

definition basic_auth_apply :: "(str \<Rightarrow> str \<Rightarrow> str) \<Rightarrow> str \<Rightarrow> str \<Rightarrow> sdict \<Rightarrow> sdict" where
  "basic_auth_apply basic_auth_str username password = AList.update ''Authorization'' (basic_auth_str username password)"

definition jwt_auth_apply :: "str \<Rightarrow> sdict \<Rightarrow> sdict" where
  "jwt_auth_apply token = AList.update ''Authorization'' (''Bearer '' @ token)"

definition saml_auth_apply :: "str option \<Rightarrow> sdict \<Rightarrow> exn + sdict" where
  "saml_auth_apply assertion headers = Inl (PyErr NotImplementedError)"

definition auth_apply :: "(str \<Rightarrow> str \<Rightarrow> str) \<Rightarrow> auth_strategy \<Rightarrow> sdict \<Rightarrow> exn + sdict" where
  "auth_apply basic_auth_str auth headers =
     (case auth of
        BasicAuth username password \<Rightarrow> Inr (basic_auth_apply basic_auth_str username password headers)
      | JWTAuth token \<Rightarrow> Inr (jwt_auth_apply token headers)
      | SAMLAuthStub assertion \<Rightarrow> saml_auth_apply assertion headers)"

text \<open>Refreshing applies the strategy again; only a token can be replaced.\<close>

definition auth_refresh :: "(str \<Rightarrow> str \<Rightarrow> str) \<Rightarrow> auth_strategy \<Rightarrow> sdict \<Rightarrow> exn + sdict" where
  "auth_refresh = auth_apply"

definition update_token :: "str \<Rightarrow> auth_strategy \<Rightarrow> auth_strategy" where
  "update_token token auth = (case auth of JWTAuth old \<Rightarrow> JWTAuth token | _ \<Rightarrow> auth)"

definition describe_release :: "capability_profile \<Rightarrow> str" where
  "describe_release c =
     (if truthy (cp_detected_release c) then the (cp_detected_release c) else cp_label c)"

definition validate_auth_strategy :: "auth_strategy \<Rightarrow> capability_profile \<Rightarrow> exn + unit" where
  "validate_auth_strategy auth c =
     (case auth of
        JWTAuth token \<Rightarrow> raise_if (\<not> cp_supports_jwt c) (Foreign ''AuthenticationError''
          (''JWT authentication is unavailable on SANtricity release '' @ describe_release c))
      | _ \<Rightarrow> Inr ())"

subsection \<open>Requests\<close>

record http_request =
  hr_method :: str
  hr_url :: str
  hr_params :: sdict
  hr_headers :: sdict
  hr_json :: "json option"
  hr_timeout :: rat
  hr_verify :: "bool + str"

record http_response =
  rp_status_code :: int
  rp_text :: str

text \<open>
  \<open>sn_isinstance\<close> says of two class names of requests whether the first is, or is below, the second.  The
  certificates to verify with are a flag or a file; \<open>sn_endpoint\<close> is an attribute of the mediator.
\<close>

record 's santricity =
  sn_session_request :: "http_request \<Rightarrow> ('s, http_response) prog"
  sn_isinstance :: "str \<Rightarrow> str \<Rightarrow> bool"
  sn_basic_auth_str :: "str \<Rightarrow> str \<Rightarrow> str"
  sn_base_url :: str
  sn_auth :: auth_strategy
  sn_verify_ssl :: "bool + str"
  sn_timeout :: rat
  sn_default_headers :: sdict
  sn_query_defaults :: sdict
  sn_base_includes_scope :: bool
  sn_capabilities :: capability_profile
  sn_endpoint :: "str list"

record 's sn_world =
  snw_array :: 's
  snw_system_id :: "str option"
  snw_scoped_prefix :: "str option"

text \<open>\<open>d.update(e)\<close>.\<close>

definition dict_update :: "sdict \<Rightarrow> sdict \<Rightarrow> sdict" where
  "dict_update = foldl (\<lambda>d (k, v). AList.update k v d)"

definition resolved_headers :: "'s santricity \<Rightarrow> sdict" where
  "resolved_headers sn =
     dict_update [(''Accept'', ''application/json''), (''Content-Type'', ''application/json'')] (sn_default_headers sn)"

definition prepare_headers :: "'s santricity \<Rightarrow> exn + sdict" where
  "prepare_headers sn = auth_apply (sn_basic_auth_str sn) (sn_auth sn) (resolved_headers sn)"

definition prepare_params :: "'s santricity \<Rightarrow> sdict \<Rightarrow> sdict" where
  "prepare_params sn params = dict_update (sn_query_defaults sn) params"

definition ensure_success :: "http_response \<Rightarrow> exn + unit" where
  "ensure_success r =
     raise_if (\<not> (200 \<le> rp_status_code r \<and> rp_status_code r < 300))
       (RequestError (Some (rp_status_code r))
          (''SANtricity API error '' @ int_str (rp_status_code r) @ '': '' @ take 200 (rp_text r)))"

definition parse_json :: "http_response \<Rightarrow> exn + json" where
  "parse_json r =
     (case json_loads (rp_text r) of
        Some v \<Rightarrow> Inr v
      | None \<Rightarrow> Inl (Foreign ''UnexpectedResponseError'' ''Response did not contain valid JSON''))"

definition response_data :: "bool \<Rightarrow> http_response \<Rightarrow> exn + json" where
  "response_data expect_json r =
     thenR (ensure_success r)
       (if rp_text r = [] then Inr JNull else if expect_json then parse_json r else Inr (JStr (rp_text r)))"

text \<open>What the session raises becomes an error of the client.\<close>

definition communication_error :: "'s santricity \<Rightarrow> exn \<Rightarrow> exn" where
  "communication_error sn e =
     (case e of
        Foreign cls m \<Rightarrow>
          if sn_isinstance sn cls ''HTTPError'' then Foreign ''AuthenticationError'' ''Authentication failed''
          else if sn_isinstance sn cls ''RequestException''
          then RequestError None (''Failed to communicate with SANtricity API: '' @
                 (if py_strip m \<noteq> [] then py_strip m else cls))
          else e
      | _ \<Rightarrow> e)"

definition session_request :: "'s santricity \<Rightarrow> http_request \<Rightarrow> ('s sn_world, http_response) prog" where
  "session_request sn q = (\<lambda>w. case sn_session_request sn q (snw_array w) of (r, s) \<Rightarrow> (r, w\<lparr>snw_array := s\<rparr>))"

definition sn_perform_request ::
  "'s santricity \<Rightarrow> str \<Rightarrow> str \<Rightarrow> sdict \<Rightarrow> json option \<Rightarrow> bool \<Rightarrow> ('s sn_world, json) prog" where
  "sn_perform_request sn verb url params payload expect_json =
     bindE (liftR (prepare_headers sn)) (\<lambda>headers.
     bindE (catchE
         (session_request sn
            \<lparr>hr_method = verb, hr_url = url, hr_params = prepare_params sn params, hr_headers = headers,
             hr_json = payload, hr_timeout = sn_timeout sn, hr_verify = sn_verify_ssl sn\<rparr>)
         (\<lambda>e. raiseE (communication_error sn e)))
       (\<lambda>r. liftR (response_data expect_json r)))"

text \<open>
  A path of the API under the base; the paths of the resources all start with a slash, so none is a URL of its own.
  \<open>urljoin\<close> also resolves dot segments and drops empty ones, which refs of the storage system do not contain.
\<close>

definition resolve_url :: "'s santricity \<Rightarrow> str \<Rightarrow> str" where
  "resolve_url sn scoped_path = sn_base_url sn @ ''/'' @ dropWhile (\<lambda>c. c = CHR ''/'') scoped_path"

definition normalized_path :: "str \<Rightarrow> str" where
  "normalized_path path = (if py_startswith path ''/'' then path else ''/'' @ path)"

text \<open>The id of the first storage system of the list.\<close>

definition system_id_of_payload :: "json \<Rightarrow> exn + str" where
  "system_id_of_payload payload =
     (let unable = Inl (RequestError None
            ''Unable to determine SANtricity storage-system identifier from /storage-systems.'') in
      case payload of
        JArr (JObj ms # vs) \<Rightarrow>
          (let candidate = (if json_truthy (dict_get_or ms ''wwn'' JNull) then dict_get_or ms ''wwn'' JNull
                            else dict_get_or ms ''id'' JNull) in
           case candidate of JStr s \<Rightarrow> if py_strip s \<noteq> [] then Inr (py_strip s) else unable | _ \<Rightarrow> unable)
      | _ \<Rightarrow> unable)"

definition discover_system_id :: "'s santricity \<Rightarrow> ('s sn_world, str) prog" where
  "discover_system_id sn =
     bindE (sn_perform_request sn ''GET'' (resolve_url sn ''/storage-systems'') [] None True)
       (\<lambda>payload. liftR (system_id_of_payload payload))"

definition sn_get_system_id :: "'s santricity \<Rightarrow> ('s sn_world, str) prog" where
  "sn_get_system_id sn =
     bindE (getS snw_system_id) (\<lambda>known.
     if truthy known then ret (the known)
     else bindE (discover_system_id sn) (\<lambda>i. thenE (modifyS (\<lambda>w. w\<lparr>snw_system_id := Some i\<rparr>)) (ret i)))"

definition system_scope_prefix :: "'s santricity \<Rightarrow> ('s sn_world, str) prog" where
  "system_scope_prefix sn =
     bindE (getS snw_scoped_prefix) (\<lambda>cached.
     if truthy cached then ret (the cached)
     else bindE (sn_get_system_id sn) (\<lambda>i.
          let prefix = ''/storage-systems/'' @ i in
          thenE (modifyS (\<lambda>w. w\<lparr>snw_scoped_prefix := Some prefix\<rparr>)) (ret prefix)))"

definition maybe_scope_path :: "'s santricity \<Rightarrow> str \<Rightarrow> bool \<Rightarrow> ('s sn_world, str) prog" where
  "maybe_scope_path sn path system_scope =
     (let normalized = normalized_path path in
      if \<not> system_scope \<or> py_startswith normalized ''/storage-systems/'' \<or> sn_base_includes_scope sn
      then ret normalized
      else bindE (system_scope_prefix sn) (\<lambda>prefix. ret (prefix @ normalized)))"

definition sn_request ::
  "'s santricity \<Rightarrow> str \<Rightarrow> str \<Rightarrow> sdict \<Rightarrow> json option \<Rightarrow> bool \<Rightarrow> ('s sn_world, json) prog" where
  "sn_request sn verb path params payload system_scope =
     bindE (maybe_scope_path sn path system_scope) (\<lambda>scoped.
     sn_perform_request sn verb (resolve_url sn scoped) params payload True)"

subsection \<open>Constructing a client\<close>

text \<open>
  The path of a URL, as \<open>urlparse\<close> splits it; the parameters after a semicolon belong to the last segment of the path
  of http and of a URL without a scheme.  The host is not validated.
\<close>

definition is_alpha :: "char \<Rightarrow> bool" where
  "is_alpha c = (let n = of_char (lower_char c) :: nat in 97 \<le> n \<and> n \<le> 122 \<and> (of_char c :: nat) < 128)"

definition split_scheme :: "str \<Rightarrow> str \<times> str" where
  "split_scheme url =
     (let scheme = takeWhile (\<lambda>c. c \<noteq> CHR '':'') url in
      if CHR '':'' \<in> set url \<and> scheme \<noteq> [] \<and> is_alpha (hd scheme) \<and>
         list_all (\<lambda>c. is_alpha c \<or> is_digit c \<or> c \<in> {CHR ''+'', CHR ''-'', CHR ''.''}) scheme
      then (py_lower scheme, drop (Suc (length scheme)) url) else ([], url))"

definition without_netloc :: "str \<Rightarrow> str" where
  "without_netloc t =
     (if py_startswith t ''//'' then dropWhile (\<lambda>c. c \<notin> {CHR ''/'', CHR ''?'', CHR ''#''}) (drop 2 t) else t)"

definition without_params :: "str \<Rightarrow> str" where
  "without_params path =
     (let final = last (py_split (CHR ''/'') path) in
      take (length path - length final) path @ takeWhile (\<lambda>c. c \<noteq> CHR '';'') final)"

definition url_path :: "str \<Rightarrow> str" where
  "url_path url =
     (let t = filter (\<lambda>c. (of_char c :: nat) \<notin> {9, 10, 13}) (dropWhile (\<lambda>c. (of_char c :: nat) \<le> 32) url) in
      case split_scheme t of (scheme, rest) \<Rightarrow>
        let path = takeWhile (\<lambda>c. c \<noteq> CHR ''?'' \<and> c \<noteq> CHR ''#'') (without_netloc rest)
        in if scheme \<in> {[], ''http'', ''https''} then without_params path else path)"

fun detect_scoped_segments :: "str list \<Rightarrow> bool \<times> str option" where
  "detect_scoped_segments (segment # i # rest) =
     (if segment = ''storage-systems'' then (True, Some i) else detect_scoped_segments (i # rest))"
| "detect_scoped_segments _ = (False, None)"

definition detect_scoped_base :: "str \<Rightarrow> bool \<times> str option" where
  "detect_scoped_base base_url =
     detect_scoped_segments (filter (\<lambda>segment. segment \<noteq> []) (py_split (CHR ''/'') (url_path base_url)))"

definition without_slashes :: "str \<Rightarrow> str" where
  "without_slashes url = rev (dropWhile (\<lambda>c. c = CHR ''/'') (rev url))"

text \<open>Nothing of the repository gives a client default headers or parameters; they are empty when they are not given.\<close>

record client_arguments =
  ca_base_url :: str
  ca_auth :: auth_strategy
  ca_verify_ssl :: "bool + str"
  ca_timeout :: rat
  ca_default_headers :: sdict
  ca_query_defaults :: sdict
  ca_release_version :: "str option"
  ca_system_id :: "str option"

definition initial_system_id :: "client_arguments \<Rightarrow> str option" where
  "initial_system_id a =
     (if truthy (ca_system_id a) then ca_system_id a else snd (detect_scoped_base (ca_base_url a)))"

definition configured :: "'s santricity \<Rightarrow> capability_profile \<Rightarrow> client_arguments \<Rightarrow> 's santricity" where
  "configured sn c a =
     sn\<lparr>sn_base_url := without_slashes (ca_base_url a), sn_auth := ca_auth a, sn_verify_ssl := ca_verify_ssl a,
        sn_timeout := ca_timeout a, sn_default_headers := ca_default_headers a, sn_query_defaults := ca_query_defaults a,
        sn_base_includes_scope := fst (detect_scoped_base (ca_base_url a)), sn_capabilities := c\<rparr>"

text \<open>\<open>__init__\<close>, over a session and the functions of requests in \<open>sn\<close>.\<close>

definition new_client :: "'s santricity \<Rightarrow> client_arguments \<Rightarrow> ('s sn_world, 's santricity) prog" where
  "new_client sn a =
     bindE (liftR (resolve_capabilities (ca_release_version a))) (\<lambda>c.
     thenE (liftR (validate_auth_strategy (ca_auth a) c))
    (thenE (modifyS (\<lambda>w. w\<lparr>snw_system_id := initial_system_id a, snw_scoped_prefix := None\<rparr>))
     (ret (configured sn c a))))"

definition sn_set_system_id :: "str \<Rightarrow> ('s sn_world, unit) prog" where
  "sn_set_system_id value =
     thenE (liftR (raise_if (py_strip value = []) (PyErr ValueError)))
       (modifyS (\<lambda>w. w\<lparr>snw_system_id := Some (py_strip value), snw_scoped_prefix := None\<rparr>))"

text \<open>A token is only accepted for a release that knows them; the first releases do not.\<close>

lemma jwt_needs_release:
  assumes "new_client sn a w = (Inr c, w')" "ca_auth a = JWTAuth token"
  shows "cp_supports_jwt (sn_capabilities c)"
  using assms
  by (auto simp: new_client_def validate_auth_strategy_def raise_if_def configured_def bindE_def thenE_def liftR_def
      modifyS_def ret_def split: sum.splits prod.splits if_splits)

subsection \<open>What the resources share\<close>

definition request_with_fallback ::
  "'s santricity \<Rightarrow> str \<Rightarrow> str \<Rightarrow> sdict \<Rightarrow> json option \<Rightarrow> str option \<Rightarrow> bool \<Rightarrow> ('s sn_world, json) prog" where
  "request_with_fallback sn verb path params payload fallback_path system_scope =
     catchE (sn_request sn verb path params payload system_scope)
       (\<lambda>e. case e of
          RequestError status m \<Rightarrow>
            if truthy fallback_path \<and> fallback_path \<noteq> Some path \<and> status \<in> {Some 404, Some 405}
            then sn_request sn verb (the fallback_path) params payload system_scope
            else raiseE e
        | _ \<Rightarrow> raiseE e)"

definition resource_get :: "'s santricity \<Rightarrow> str \<Rightarrow> ('s sn_world, json) prog" where
  "resource_get sn path = request_with_fallback sn ''GET'' path [] None None True"

definition resource_post :: "'s santricity \<Rightarrow> str \<Rightarrow> json \<Rightarrow> ('s sn_world, json) prog" where
  "resource_post sn path payload = request_with_fallback sn ''POST'' path [] (Some payload) None True"

definition resource_delete :: "'s santricity \<Rightarrow> str \<Rightarrow> ('s sn_world, json) prog" where
  "resource_delete sn path = sn_request sn ''DELETE'' path [] None True"

text \<open>The first entry of a list with the wanted text under one of the keys.\<close>

definition json_has_text :: "str list \<Rightarrow> json \<Rightarrow> json \<Rightarrow> exn + bool" where
  "json_has_text keys x v = bindR (mapR (json_get v) keys) (\<lambda>values. Inr (x \<in> set values))"

definition find_entry :: "str list \<Rightarrow> json \<Rightarrow> json \<Rightarrow> exn + json" where
  "find_entry keys x entries =
     bindR (json_iter entries) (\<lambda>vs. bindR (first_where (json_has_text keys x) vs) (\<lambda>found.
     Inr (case found of None \<Rightarrow> JNull | Some v \<Rightarrow> v)))"

text \<open>\<open>v.get(k) or v.get(l) or ...\<close>: the first value that is true, the last one when there is none.\<close>

fun json_first_of :: "json \<Rightarrow> str list \<Rightarrow> exn + json" where
  "json_first_of v [] = Inr JNull"
| "json_first_of v [k] = json_get v k"
| "json_first_of v (k # l # ks) =
     bindR (json_get v k) (\<lambda>x. if json_truthy x then Inr x else json_first_of v (l # ks))"

end
