(* ===== verification/SantricityResources.thy ===== *)
theory SantricityResources
  imports SantricityClient
begin

text \<open>
  The resources of the SANtricity client (\<open>santricity_client/resources/\<close>): one definition per method, which
  builds the path and the payload of a request and reads the answer.  Optional arguments that are values of
  answers are \<open>json\<close> with \<open>JNull\<close> for \<open>None\<close>.
\<close>

definition path_of :: "str \<Rightarrow> json \<Rightarrow> str" where
  "path_of prefix ref = prefix @ json_show ref"

text \<open>The entries of a payload that are only there when their value is true.\<close>

definition payload_of :: "(str \<times> json) list \<Rightarrow> (str \<times> json) list \<Rightarrow> json" where
  "payload_of always optional = JObj (always @ filter (\<lambda>(k, v). json_truthy v) optional)"

definition given :: "str \<Rightarrow> json option \<Rightarrow> (str \<times> json) list" where
  "given k v = (case v of None \<Rightarrow> [] | Some x \<Rightarrow> [(k, x)])"

subsection \<open>Pools\<close>

definition pools_list :: "'s santricity \<Rightarrow> ('s sn_world, json) prog" where
  "pools_list sn = resource_get sn ''/storage-pools''"

definition pools_get :: "'s santricity \<Rightarrow> json \<Rightarrow> ('s sn_world, json) prog" where
  "pools_get sn pool_ref = resource_get sn (path_of ''/storage-pools/'' pool_ref)"

definition pools_get_by_name :: "'s santricity \<Rightarrow> str \<Rightarrow> ('s sn_world, json) prog" where
  "pools_get_by_name sn name =
     bindE (pools_list sn) (\<lambda>pools. liftR (find_entry [''label'', ''name''] (JStr name) pools))"

subsection \<open>Volumes\<close>

definition volumes_list :: "'s santricity \<Rightarrow> ('s sn_world, json) prog" where
  "volumes_list sn = resource_get sn ''/volumes''"

definition volumes_get :: "'s santricity \<Rightarrow> json \<Rightarrow> ('s sn_world, json) prog" where
  "volumes_get sn volume_ref = resource_get sn (path_of ''/volumes/'' volume_ref)"

text \<open>The first volume of the name, and in the pool when there is one to be in.\<close>

definition volume_named :: "str \<Rightarrow> json \<Rightarrow> json \<Rightarrow> exn + bool" where
  "volume_named name target_pool_ref vol =
     bindR (json_has_text [''label'', ''name''] (JStr name) vol) (\<lambda>named.
     bindR (json_get vol ''volumeGroupRef'') (\<lambda>pool_ref.
     Inr (named \<and> \<not> (json_truthy target_pool_ref \<and> pool_ref \<noteq> target_pool_ref))))"

definition volumes_get_volume_by_name :: "'s santricity \<Rightarrow> str \<Rightarrow> str option \<Rightarrow> ('s sn_world, json) prog" where
  "volumes_get_volume_by_name sn name pool_name =
     bindE (if truthy pool_name
            then bindE (pools_get_by_name sn (the pool_name)) (\<lambda>pool.
                 if json_truthy pool
                 then bindE (liftR (json_first_of pool [''volumeGroupRef'', ''id''])) (\<lambda>r. ret (Some r))
                 else ret None)
            else ret (Some JNull)) (\<lambda>target.
     case target of
       None \<Rightarrow> ret JNull
     | Some target_pool_ref \<Rightarrow>
         bindE (volumes_list sn) (\<lambda>volumes.
         liftR (bindR (json_iter volumes) (\<lambda>vs.
           bindR (first_where (volume_named name target_pool_ref) vs) (\<lambda>found.
           Inr (case found of None \<Rightarrow> JNull | Some v \<Rightarrow> v))))))"

definition volumes_delete :: "'s santricity \<Rightarrow> json \<Rightarrow> ('s sn_world, json) prog" where
  "volumes_delete sn volume_ref = resource_delete sn (path_of ''/volumes/'' volume_ref)"

definition volumes_create :: "'s santricity \<Rightarrow> json \<Rightarrow> ('s sn_world, json) prog" where
  "volumes_create sn payload = resource_post sn ''/volumes'' payload"

definition volumes_map_to_host :: "'s santricity \<Rightarrow> json \<Rightarrow> json \<Rightarrow> ('s sn_world, json) prog" where
  "volumes_map_to_host sn volume_ref payload = resource_post sn (path_of ''/volumes/'' volume_ref @ ''/mappings'') payload"

definition unit_multipliers :: "(str \<times> int) list" where
  "unit_multipliers =
     [(''bytes'', 1), (''b'', 1), (''mb'', 1000 ^ 2), (''gb'', 1000 ^ 3), (''tb'', 1000 ^ 4),
      (''mib'', 1024 ^ 2), (''gib'', 1024 ^ 3), (''tib'', 1024 ^ 4)]"

definition volumes_expand :: "'s santricity \<Rightarrow> json \<Rightarrow> int \<Rightarrow> str \<Rightarrow> ('s sn_world, json) prog" where
  "volumes_expand sn volume_ref expansion_size unit_name =
     (case map_of unit_multipliers (py_lower unit_name) of
        None \<Rightarrow> raiseE (Foreign ''ValueError'' (''Invalid unit: '' @ unit_name @ ''. Supported units: '' @
                  py_join '', '' (map fst unit_multipliers)))
      | Some m \<Rightarrow>
          resource_post sn (path_of ''/volumes/'' volume_ref @ ''/expand'')
            (JObj [(''expansionSize'', JInt (expansion_size * m)), (''sizeUnit'', JStr ''bytes'')]))"

text \<open>\<open>PoolsResource.create_volume\<close>.\<close>

definition pools_create_volume :: "'s santricity \<Rightarrow> json \<Rightarrow> (str \<times> json) list \<Rightarrow> ('s sn_world, json) prog" where
  "pools_create_volume sn pool_ref payload =
     (let body = JObj (if dict_has payload ''poolId'' then payload else payload @ [(''poolId'', pool_ref)]) in
      catchE (resource_post sn (path_of ''/storage-pools/'' pool_ref @ ''/volumes'') body)
        (\<lambda>e. case e of
           RequestError status m \<Rightarrow>
             if status \<in> {Some 404, Some 405} then volumes_create sn body else raiseE e
         | _ \<Rightarrow> raiseE e))"

subsection \<open>Hosts\<close>

definition hosts_list :: "'s santricity \<Rightarrow> ('s sn_world, json) prog" where
  "hosts_list sn = resource_get sn ''/hosts''"

definition hosts_get :: "'s santricity \<Rightarrow> json \<Rightarrow> ('s sn_world, json) prog" where
  "hosts_get sn host_ref = resource_get sn (path_of ''/hosts/'' host_ref)"

definition hosts_delete :: "'s santricity \<Rightarrow> json \<Rightarrow> ('s sn_world, json) prog" where
  "hosts_delete sn host_ref = resource_delete sn (path_of ''/hosts/'' host_ref)"

definition hosts_create :: "'s santricity \<Rightarrow> json \<Rightarrow> int \<Rightarrow> str \<Rightarrow> str \<Rightarrow> str option \<Rightarrow> ('s sn_world, json) prog" where
  "hosts_create sn name index port port_type iscsi_chap_secret =
     resource_post sn ''/hosts''
       (JObj [(''name'', name), (''hostType'', JObj [(''index'', JInt index)]),
              (''ports'', JArr [payload_of
                 [(''label'', JStr (json_show name @ ''_1'')), (''port'', JStr port), (''type'', JStr port_type)]
                 [(''iscsiChapSecret'', opt_json iscsi_chap_secret)]])])"

definition hosts_update ::
  "'s santricity \<Rightarrow> json \<Rightarrow> str option \<Rightarrow> int option \<Rightarrow> str option \<Rightarrow> json \<Rightarrow> json \<Rightarrow> json \<Rightarrow> ('s sn_world, json) prog" where
  "hosts_update sn host_ref name index group_id ports ports_to_update ports_to_remove =
     (let when_true = filter (\<lambda>(k, v). json_truthy v) in
      resource_post sn (path_of ''/hosts/'' host_ref)
        (JObj (when_true [(''name'', opt_json name)] @
               given ''hostType'' (map_option (\<lambda>i. JObj [(''index'', JInt i)]) index) @
               when_true [(''groupId'', opt_json group_id), (''ports'', ports), (''portsToUpdate'', ports_to_update),
                          (''portsToRemove'', ports_to_remove)])))"

definition hosts_add_initiator ::
  "'s santricity \<Rightarrow> json \<Rightarrow> str \<Rightarrow> str \<Rightarrow> str option \<Rightarrow> str option \<Rightarrow> ('s sn_world, json) prog" where
  "hosts_add_initiator sn host_ref name type_name chap_secret label =
     resource_post sn (path_of ''/hosts/'' host_ref @ ''/initiators'')
       (payload_of [(''type'', JStr type_name), (''port'', JStr name)]
          [(''label'', opt_json label), (''iscsiChapSecret'', opt_json chap_secret)])"

definition hosts_list_groups :: "'s santricity \<Rightarrow> ('s sn_world, json) prog" where
  "hosts_list_groups sn = resource_get sn ''/host-groups''"

definition hosts_get_group :: "'s santricity \<Rightarrow> json \<Rightarrow> ('s sn_world, json) prog" where
  "hosts_get_group sn group_ref = resource_get sn (path_of ''/host-groups/'' group_ref)"

text \<open>The entries of a list for which a test that may raise holds.\<close>

fun filter_where :: "(json \<Rightarrow> exn + bool) \<Rightarrow> json list \<Rightarrow> exn + json list" where
  "filter_where p [] = Inr []"
| "filter_where p (v # vs) =
     bindR (p v) (\<lambda>b. bindR (filter_where p vs) (\<lambda>ws. Inr (if b then v # ws else ws)))"

definition json_is :: "str \<Rightarrow> json \<Rightarrow> json \<Rightarrow> exn + bool" where
  "json_is k x v = bindR (json_get v k) (\<lambda>y. Inr (y = x))"

definition hosts_delete_group :: "'s santricity \<Rightarrow> str \<Rightarrow> bool \<Rightarrow> ('s sn_world, json) prog" where
  "hosts_delete_group sn group_ref force =
     thenE (if force then ret ()
            else bindE (hosts_list sn) (\<lambda>hosts.
                 bindE (liftR (bindR (json_iter hosts) (filter_where (json_is ''clusterRef'' (JStr group_ref))))) (\<lambda>group_hosts.
                 if group_hosts = [] then ret ()
                 else bindE (liftR (mapR (\<lambda>h. json_get h ''label'') group_hosts)) (\<lambda>labels.
                      raiseE (RequestError (Some 400) (''Host group '' @ group_ref @ '' is not empty and force=False. '' @
                        ''Hosts: '' @ json_repr (JArr labels)))))))
       (resource_delete sn (''/host-groups/'' @ group_ref))"

definition hosts_create_group :: "'s santricity \<Rightarrow> str \<Rightarrow> json \<Rightarrow> ('s sn_world, json) prog" where
  "hosts_create_group sn name hosts =
     resource_post sn ''/host-groups'' (payload_of [(''name'', JStr name)] [(''hosts'', hosts)])"

definition hosts_update_group :: "'s santricity \<Rightarrow> str \<Rightarrow> str option \<Rightarrow> json option \<Rightarrow> ('s sn_world, json) prog" where
  "hosts_update_group sn group_ref name hosts =
     resource_post sn (''/host-groups/'' @ group_ref)
       (JObj (filter (\<lambda>(k, v). json_truthy v) [(''name'', opt_json name)] @ given ''hosts'' hosts))"

definition hosts_get_by_name :: "'s santricity \<Rightarrow> str \<Rightarrow> ('s sn_world, json) prog" where
  "hosts_get_by_name sn name =
     bindE (hosts_list sn) (\<lambda>hosts. liftR (find_entry [''label'', ''name''] (JStr name) hosts))"

text \<open>Whether a host has the identifier as name, id or reference, or as the address of one of its ports or initiators.\<close>

definition initiator_matches :: "str \<Rightarrow> json \<Rightarrow> exn + bool" where
  "initiator_matches identifier initiator =
     bindR (json_get_or initiator ''nodeName'' (JObj [])) (\<lambda>n.
     json_has_text [''iscsiNodeName'', ''nvmeNodeName'', ''remoteNodeWWN''] (JStr identifier)
       (if json_truthy n then n else JObj []))"

definition host_matches :: "str \<Rightarrow> json \<Rightarrow> exn + bool" where
  "host_matches identifier host =
     bindR (json_has_text [''label'', ''name'', ''id'', ''hostRef''] (JStr identifier) host) (\<lambda>named.
     if named then Inr True
     else bindR (bindR (json_get_or host ''hostSidePorts'' (JArr [])) json_iter) (\<lambda>ports.
          bindR (first_where (json_is ''address'' (JStr identifier)) ports) (\<lambda>port.
          if port \<noteq> None then Inr True
          else bindR (bindR (json_get_or host ''initiators'' (JArr [])) json_iter) (\<lambda>inits.
               bindR (first_where (initiator_matches identifier) inits) (\<lambda>found. Inr (found \<noteq> None))))))"

definition hosts_get_by_identifiers :: "'s santricity \<Rightarrow> str \<Rightarrow> ('s sn_world, json) prog" where
  "hosts_get_by_identifiers sn identifier =
     bindE (hosts_list sn) (\<lambda>hosts.
     liftR (bindR (json_iter hosts) (\<lambda>hs. bindR (first_where (host_matches identifier) hs) (\<lambda>found.
       Inr (case found of None \<Rightarrow> JNull | Some h \<Rightarrow> h)))))"

definition hosts_find_group :: "'s santricity \<Rightarrow> str \<Rightarrow> ('s sn_world, json) prog" where
  "hosts_find_group sn identifier =
     bindE (hosts_list_groups sn) (\<lambda>groups.
     liftR (find_entry [''label'', ''name'', ''id'', ''clusterRef''] (JStr identifier) groups))"

definition NO_CLUSTER :: str where "NO_CLUSTER = replicate 40 (CHR ''0'')"

definition hosts_get_mapping_target :: "'s santricity \<Rightarrow> str \<Rightarrow> ('s sn_world, json) prog" where
  "hosts_get_mapping_target sn identifier =
     bindE (hosts_get_by_identifiers sn identifier) (\<lambda>host.
     if \<not> json_truthy host then hosts_find_group sn identifier
     else bindE (liftR (json_get host ''clusterRef'')) (\<lambda>group_ref.
          if json_truthy group_ref \<and> group_ref \<noteq> JStr NO_CLUSTER then hosts_get_group sn group_ref else ret host))"

subsection \<open>Mappings\<close>

definition mappings_list :: "'s santricity \<Rightarrow> ('s sn_world, json) prog" where
  "mappings_list sn =
     request_with_fallback sn ''GET'' (cp_mapping_endpoint (sn_capabilities sn)) [] None
       (cp_legacy_mapping_endpoint (sn_capabilities sn)) True"

definition mappings_create :: "'s santricity \<Rightarrow> json \<Rightarrow> ('s sn_world, json) prog" where
  "mappings_create sn payload =
     request_with_fallback sn ''POST'' (cp_mapping_endpoint (sn_capabilities sn)) [] (Some payload)
       (cp_legacy_mapping_endpoint (sn_capabilities sn)) True"

text \<open>A host or a group that is given by name has to be there and to have its reference.\<close>

definition resolved_ref :: "str \<Rightarrow> str \<Rightarrow> str \<Rightarrow> json \<Rightarrow> exn + json" where
  "resolved_ref kind name key entry =
     (if \<not> json_truthy entry
      then Inl (Foreign ''ResolutionError'' (kind @ '' '' @ [CHR 0x27] @ name @ [CHR 0x27] @ '' was not found on the array.''))
      else bindR (json_get entry key) (\<lambda>r.
           if json_truthy r then Inr r
           else Inl (Foreign ''ResolutionError'' (kind @ '' '' @ [CHR 0x27] @ name @ [CHR 0x27] @ '' did not include a '' @ key @ '' field.''))))"

definition resolve_target_id ::
  "'s santricity \<Rightarrow> str option \<Rightarrow> json \<Rightarrow> str option \<Rightarrow> json \<Rightarrow> ('s sn_world, json) prog" where
  "resolve_target_id sn host host_ref host_group cluster_ref =
     (let wrong = (\<lambda>m. raiseE (Foreign ''ResolutionError'' m)) in
      if \<not> (truthy host \<or> json_truthy host_ref \<or> truthy host_group \<or> json_truthy cluster_ref)
      then wrong ''Provide host/host-ref or host-group/cluster-ref when mapping a volume.''
      else if host_ref \<noteq> JNull \<and> cluster_ref \<noteq> JNull
      then wrong ''Specify only one of host-ref or cluster-ref for direct mappings.''
      else if json_truthy host_ref \<and> (truthy host \<or> truthy host_group \<or> json_truthy cluster_ref)
      then wrong ''host-ref cannot be combined with other target options.''
      else if json_truthy cluster_ref \<and> (truthy host \<or> truthy host_group \<or> json_truthy host_ref)
      then wrong ''cluster-ref cannot be combined with other target options.''
      else if json_truthy host_ref then ret host_ref
      else if json_truthy cluster_ref then ret cluster_ref
      else if truthy host
      then bindE (hosts_get_by_name sn (the host)) (\<lambda>h. liftR (resolved_ref ''Host'' (the host) ''hostRef'' h))
      else bindE (hosts_find_group sn (the host_group)) (\<lambda>g.
           liftR (resolved_ref ''Host group'' (the host_group) ''clusterRef'' g)))"

definition mappings_map_volume ::
  "'s santricity \<Rightarrow> json \<Rightarrow> str option \<Rightarrow> json \<Rightarrow> str option \<Rightarrow> json \<Rightarrow> int option \<Rightarrow> int option \<Rightarrow> ('s sn_world, json) prog" where
  "mappings_map_volume sn volume_ref host host_ref host_group cluster_ref lun perms =
     bindE (resolve_target_id sn host host_ref host_group cluster_ref) (\<lambda>target_id.
     mappings_create sn (JObj ([(''mappableObjectId'', volume_ref), (''targetId'', target_id)] @
       given ''lun'' (map_option JInt lun) @ given ''perms'' (map_option JInt perms))))"

definition mappings_move :: "'s santricity \<Rightarrow> json \<Rightarrow> json \<Rightarrow> int option \<Rightarrow> ('s sn_world, json) prog" where
  "mappings_move sn map_ref target_id lun =
     sn_request sn ''POST'' (path_of (cp_mapping_endpoint (sn_capabilities sn) @ ''/'') map_ref @ ''/move'') []
       (Some (JObj ([(''targetId'', target_id)] @ given ''lun'' (map_option JInt lun)))) True"

definition mappings_delete :: "'s santricity \<Rightarrow> json \<Rightarrow> ('s sn_world, json) prog" where
  "mappings_delete sn map_ref =
     request_with_fallback sn ''DELETE'' (path_of (cp_mapping_endpoint (sn_capabilities sn) @ ''/'') map_ref) [] None
       (if truthy (cp_legacy_mapping_endpoint (sn_capabilities sn))
        then Some (path_of (the (cp_legacy_mapping_endpoint (sn_capabilities sn)) @ ''/'') map_ref) else None) True"

end
