(* ===== verification/SantricitySnapshots.thy ===== *)
theory SantricitySnapshots
  imports SantricityResources "HOL-Library.Product_Lexorder" "HOL-Library.List_Lexorder" "HOL-Library.Char_ord"
begin

text \<open>
  Snapshots of the SANtricity client: the resources of snapshots, consistency groups, clones, interfaces and
  the system, and the workflow that chooses or makes a snapshot group
  (\<open>santricity_client/automation/snapshots.py\<close>), whose percentages are floats.
\<close>

subsection \<open>Resources\<close>

definition list_snapshot_groups :: "'s santricity \<Rightarrow> ('s sn_world, json) prog" where
  "list_snapshot_groups sn = resource_get sn ''/snapshot-groups''"

definition create_group :: "'s santricity \<Rightarrow> json \<Rightarrow> ('s sn_world, json) prog" where
  "create_group sn payload = resource_post sn ''/snapshot-groups'' payload"

definition delete_group :: "'s santricity \<Rightarrow> json \<Rightarrow> ('s sn_world, unit) prog" where
  "delete_group sn group_ref = bindE (resource_delete sn (path_of ''/snapshot-groups/'' group_ref)) (\<lambda>_. ret ())"

definition list_images :: "'s santricity \<Rightarrow> json \<Rightarrow> ('s sn_world, json) prog" where
  "list_images sn group_ref = resource_get sn (path_of ''/snapshot-groups/'' group_ref @ ''/images'')"

definition create_image :: "'s santricity \<Rightarrow> json \<Rightarrow> ('s sn_world, json) prog" where
  "create_image sn group_ref =
     catchE (resource_post sn ''/snapshot-images'' (JObj [(''groupId'', group_ref)]))
       (\<lambda>e. case e of
          RequestError status m \<Rightarrow>
            if status \<in> {Some 400, Some 404, Some 405}
            then resource_post sn (path_of ''/snapshot-groups/'' group_ref @ ''/images'') (JObj []) else raiseE e
        | _ \<Rightarrow> raiseE e)"

definition delete_image :: "'s santricity \<Rightarrow> json \<Rightarrow> ('s sn_world, unit) prog" where
  "delete_image sn image_ref = bindE (resource_delete sn (path_of ''/snapshot-images/'' image_ref)) (\<lambda>_. ret ())"

definition list_all_images :: "'s santricity \<Rightarrow> ('s sn_world, json) prog" where
  "list_all_images sn = resource_get sn ''/snapshot-images''"

definition list_snapshot_volumes :: "'s santricity \<Rightarrow> ('s sn_world, json) prog" where
  "list_snapshot_volumes sn = resource_get sn ''/snapshot-volumes''"

definition create_snapshot_volume :: "'s santricity \<Rightarrow> json \<Rightarrow> ('s sn_world, json) prog" where
  "create_snapshot_volume sn payload = resource_post sn ''/snapshot-volumes'' payload"

definition delete_snapshot_volume :: "'s santricity \<Rightarrow> json \<Rightarrow> ('s sn_world, unit) prog" where
  "delete_snapshot_volume sn volume_ref =
     bindE (resource_delete sn (path_of ''/snapshot-volumes/'' volume_ref)) (\<lambda>_. ret ())"

definition list_repositories :: "'s santricity \<Rightarrow> ('s sn_world, json) prog" where
  "list_repositories sn = resource_get sn ''/repositories/concat''"

definition expand_repository :: "'s santricity \<Rightarrow> str \<Rightarrow> (str \<times> json) list \<Rightarrow> ('s sn_world, json) prog" where
  "expand_repository sn repository_ref expansion_candidate =
     resource_post sn (''/repositories/concat/'' @ repository_ref @ ''/expand'')
       (JObj [(''repositoryRef'', JStr repository_ref), (''expansionCandidate'', JObj expansion_candidate)])"

definition get_repo_group_candidates_single ::
  "'s santricity \<Rightarrow> str \<Rightarrow> int \<Rightarrow> bool \<Rightarrow> str \<Rightarrow> ('s sn_world, json) prog" where
  "get_repo_group_candidates_single sn base_volume_ref percent_capacity use_free concat_volume_type =
     resource_post sn ''/repositories/concat/single''
       (JObj [(''useFreeRepositoryVolumes'', JBool use_free),
              (''candidateRequest'', JObj [(''baseVolumeRef'', JStr base_volume_ref),
                 (''percentCapacity'', JInt percent_capacity), (''concatVolumeType'', JStr concat_volume_type)])])"

definition create_repo_group_single ::
  "'s santricity \<Rightarrow> str \<Rightarrow> int \<Rightarrow> bool \<Rightarrow> str \<Rightarrow> ('s sn_world, json) prog" where
  "create_repo_group_single = get_repo_group_candidates_single"

definition list_group_repo_utilization :: "'s santricity \<Rightarrow> ('s sn_world, json) prog" where
  "list_group_repo_utilization sn = resource_get sn ''/snapshot-groups/repository-utilization''"

definition list_volume_repo_utilization :: "'s santricity \<Rightarrow> ('s sn_world, json) prog" where
  "list_volume_repo_utilization sn = resource_get sn ''/snapshot-volumes/repository-utilization''"

definition list_async_mirror_repo_utilization :: "'s santricity \<Rightarrow> ('s sn_world, json) prog" where
  "list_async_mirror_repo_utilization sn = resource_get sn ''/async-mirrors/pairs/repository-utilization''"

definition list_consistency_group_members :: "'s santricity \<Rightarrow> ('s sn_world, json) prog" where
  "list_consistency_group_members sn = resource_get sn ''/consistency-groups/member-volumes''"

definition list_schedules :: "'s santricity \<Rightarrow> ('s sn_world, json) prog" where
  "list_schedules sn = resource_get sn ''/snapshot-schedules''"

text \<open>Clones.\<close>

definition clones_list :: "'s santricity \<Rightarrow> ('s sn_world, json) prog" where
  "clones_list sn =
     request_with_fallback sn ''GET'' (cp_clone_endpoint (sn_capabilities sn)) [] None
       (cp_legacy_clone_endpoint (sn_capabilities sn)) True"

definition clones_create :: "'s santricity \<Rightarrow> json \<Rightarrow> ('s sn_world, json) prog" where
  "clones_create sn payload =
     request_with_fallback sn ''POST'' (cp_clone_endpoint (sn_capabilities sn)) [] (Some payload)
       (cp_legacy_clone_endpoint (sn_capabilities sn)) True"

text \<open>Consistency groups.\<close>

definition cg_path :: "str \<Rightarrow> str \<Rightarrow> str" where
  "cg_path cg_ref rest = ''/consistency-groups/'' @ cg_ref @ rest"

definition cg_list_groups :: "'s santricity \<Rightarrow> ('s sn_world, json) prog" where
  "cg_list_groups sn = resource_get sn ''/consistency-groups''"

definition cg_get_group :: "'s santricity \<Rightarrow> str \<Rightarrow> ('s sn_world, json) prog" where
  "cg_get_group sn cg_ref = resource_get sn (cg_path cg_ref [])"

definition cg_create_group :: "'s santricity \<Rightarrow> json \<Rightarrow> ('s sn_world, json) prog" where
  "cg_create_group sn payload = resource_post sn ''/consistency-groups'' payload"

definition cg_delete_group :: "'s santricity \<Rightarrow> str \<Rightarrow> ('s sn_world, unit) prog" where
  "cg_delete_group sn cg_ref = bindE (resource_delete sn (cg_path cg_ref [])) (\<lambda>_. ret ())"

definition cg_list_member_volumes :: "'s santricity \<Rightarrow> str \<Rightarrow> ('s sn_world, json) prog" where
  "cg_list_member_volumes sn cg_ref = resource_get sn (cg_path cg_ref ''/member-volumes'')"

definition cg_add_member_volume :: "'s santricity \<Rightarrow> str \<Rightarrow> json \<Rightarrow> ('s sn_world, json) prog" where
  "cg_add_member_volume sn cg_ref payload = resource_post sn (cg_path cg_ref ''/member-volumes'') payload"

definition cg_remove_member_volume :: "'s santricity \<Rightarrow> str \<Rightarrow> str \<Rightarrow> ('s sn_world, unit) prog" where
  "cg_remove_member_volume sn cg_ref member_ref =
     bindE (resource_delete sn (cg_path cg_ref (''/member-volumes/'' @ member_ref))) (\<lambda>_. ret ())"

definition cg_list_snapshots :: "'s santricity \<Rightarrow> str \<Rightarrow> ('s sn_world, json) prog" where
  "cg_list_snapshots sn cg_ref = resource_get sn (cg_path cg_ref ''/snapshots'')"

definition cg_create_snapshot :: "'s santricity \<Rightarrow> str \<Rightarrow> ('s sn_world, json) prog" where
  "cg_create_snapshot sn cg_ref = resource_post sn (cg_path cg_ref ''/snapshots'') (JObj [])"

definition cg_delete_snapshot :: "'s santricity \<Rightarrow> str \<Rightarrow> int \<Rightarrow> ('s sn_world, unit) prog" where
  "cg_delete_snapshot sn cg_ref sequence_number =
     bindE (resource_delete sn (cg_path cg_ref (''/snapshots/'' @ int_str sequence_number))) (\<lambda>_. ret ())"

definition cg_list_views :: "'s santricity \<Rightarrow> ('s sn_world, json) prog" where
  "cg_list_views sn = resource_get sn ''/consistency-groups/views''"

definition cg_list_views_for_group :: "'s santricity \<Rightarrow> str \<Rightarrow> ('s sn_world, json) prog" where
  "cg_list_views_for_group sn cg_ref = resource_get sn (cg_path cg_ref ''/views'')"

text \<open>Interfaces and target settings.\<close>

definition interfaces_list :: "'s santricity \<Rightarrow> ('s sn_world, json) prog" where
  "interfaces_list sn = resource_get sn ''/interfaces''"

definition interfaces_get :: "'s santricity \<Rightarrow> str \<Rightarrow> ('s sn_world, json) prog" where
  "interfaces_get sn interface_id = resource_get sn (''/interfaces/'' @ interface_id)"

definition is_hostside :: "json \<Rightarrow> exn + bool" where
  "is_hostside interface =
     bindR (json_get_or interface ''channelType'' (JStr [])) (\<lambda>t. Inr (py_lower (json_show t) = ''hostside''))"

definition get_system_hostside_interfaces :: "'s santricity \<Rightarrow> ('s sn_world, json list) prog" where
  "get_system_hostside_interfaces sn =
     bindE (interfaces_list sn) (\<lambda>listed.
     liftR (bindR (json_iter (if json_truthy listed then listed else JArr [])) (filter_where is_hostside)))"

definition iscsi_target_settings :: "'s santricity \<Rightarrow> ('s sn_world, json) prog" where
  "iscsi_target_settings sn = resource_get sn ''/iscsi/target-settings''"

definition nvme_target_settings :: "'s santricity \<Rightarrow> ('s sn_world, json) prog" where
  "nvme_target_settings sn = resource_get sn ''/nvmeof/initiator-settings''"

text \<open>The entry of the storage system: that of the id, or else the first one that is an object.\<close>

definition is_object :: "json \<Rightarrow> bool" where
  "is_object v = (case v of JObj ms \<Rightarrow> True | _ \<Rightarrow> False)"

definition has_system_id :: "str \<Rightarrow> json \<Rightarrow> bool" where
  "has_system_id i v =
     (case json_first_of v [''wwn'', ''id''] of Inr (JStr s) \<Rightarrow> py_strip s = py_strip i | _ \<Rightarrow> False)"

definition select_system_payload :: "json list \<Rightarrow> str \<Rightarrow> json option" where
  "select_system_payload payload system_id =
     (let entries = filter is_object payload in
      case List.find (has_system_id system_id) entries of
        Some v \<Rightarrow> Some v
      | None \<Rightarrow> (case entries of [] \<Rightarrow> None | v # vs \<Rightarrow> Some v))"

definition system_get_info :: "'s santricity \<Rightarrow> ('s sn_world, json) prog" where
  "system_get_info sn =
     bindE (sn_request sn ''GET'' ''/storage-systems'' [] None False) (\<lambda>payload.
     case payload of
       JObj ms \<Rightarrow> ret payload
     | JArr vs \<Rightarrow>
         bindE (sn_get_system_id sn) (\<lambda>i.
         case select_system_payload vs i of
           Some v \<Rightarrow> ret v
         | None \<Rightarrow> raiseE (RequestError None (''Unable to find storage-system metadata for system id '' @
                     [CHR 0x27] @ i @ [CHR 0x27] @ ''.'')))
     | _ \<Rightarrow> raiseE (RequestError None ''Unexpected /storage-systems payload shape; expected list or object.''))"

subsection \<open>Choosing a snapshot group\<close>

text \<open>\<open>int(value)\<close>, with 0 when there is no such number; \<open>OverflowError\<close>, of an infinite float, is not caught.\<close>

definition coerce_int_default :: "json \<Rightarrow> exn + int" where
  "coerce_int_default value =
     (case json_int value of
        Inl (PyErr TypeError) \<Rightarrow> Inr 0
      | Inl (PyErr ValueError) \<Rightarrow> Inr 0
      | Inl (Foreign cls m) \<Rightarrow> if cls = ''ValueError'' then Inr 0 else Inl (Foreign cls m)
      | r \<Rightarrow> r)"

fun pick_group_field_int :: "json \<Rightarrow> str list \<Rightarrow> exn + int" where
  "pick_group_field_int g [] = Inr 0"
| "pick_group_field_int g (k # ks) =
     bindR (json_get g k) (\<lambda>v. if v \<noteq> JNull then coerce_int_default v else pick_group_field_int g ks)"

text \<open>\<open>str(v.get(k) or v.get(l) or '')\<close>.\<close>

definition text_of_first :: "json \<Rightarrow> str list \<Rightarrow> exn + str" where
  "text_of_first v ks = bindR (json_first_of v ks) (\<lambda>x. Inr (if json_truthy x then json_show x else []))"

text \<open>
  The object of each schedule, once per schedule, and a dictionary of entries by reference, in which the last entry
  of a reference stays; entries without one are left out.
\<close>

definition schedule_refs :: "json list \<Rightarrow> exn + str list" where
  "schedule_refs schedules = mapR (\<lambda>s. text_of_first s [''targetObject'', ''id'']) schedules"

definition by_ref :: "str list \<Rightarrow> json list \<Rightarrow> exn + (str \<times> json) list" where
  "by_ref keys items =
     bindR (mapR (\<lambda>i. bindR (text_of_first i keys) (\<lambda>r. Inr (r, i))) items) (\<lambda>pairs.
     Inr (dict_of_pairs (filter (\<lambda>(r, i). r \<noteq> []) pairs)))"

definition entry_of :: "(str \<times> json) list \<Rightarrow> str \<Rightarrow> json" where
  "entry_of d ref = dict_get_or d ref (JObj [])"

record group_limits =
  gl_volume_ref :: str
  gl_include_schedule_owned_groups :: bool
  gl_min_free_percent :: rat
  gl_max_repo_group_capacity_percent :: rat
  gl_max_repo_volumes_per_group :: int

record grow_target =
  gt_group_ref :: str
  gt_repository_ref :: str
  gt_base_volume_ref :: str
  gt_available_bytes :: int
  gt_min_free_bytes :: int
  gt_member_count :: int

datatype group_choice =
    Skipped
  | Eligible int int str
  | Growable int int int grow_target

definition min_free_bytes :: "rat \<Rightarrow> int \<Rightarrow> int" where
  "min_free_bytes percent base_bytes =
     (if 0 < base_bytes
      then float_trunc (float_mult (float_of_int base_bytes) (nearest_float (percent / 100))) else 0)"

definition repo_percent :: "int \<Rightarrow> int \<Rightarrow> rat" where
  "repo_percent repo_bytes base_bytes =
     (if 0 < base_bytes then float_mult (int_ratio repo_bytes base_bytes) 100 else 0)"

definition member_count_of :: "json \<Rightarrow> exn + int" where
  "member_count_of repository =
     bindR (pick_group_field_int repository
              [''memberCount'', ''totalRepositoryVolumes'', ''repositoryVolumeCount'', ''volumeCount'']) (\<lambda>n.
     bindR (json_get repository ''members'') (\<lambda>members.
     Inr (case members of JArr vs \<Rightarrow> if n \<le> 0 then int (length vs) else n | _ \<Rightarrow> n)))"

text \<open>The available bytes of a group, and the sizes of its volume and of its repository.\<close>

definition group_room :: "json \<Rightarrow> json \<Rightarrow> exn + int \<times> int \<times> int" where
  "group_room util g =
     bindR (bindR (json_get util ''pitGroupBytesAvailable'') coerce_int_default) (\<lambda>available.
     bindR (bindR (json_get util ''pitGroupBytesUsed'') coerce_int_default) (\<lambda>used.
     bindR (pick_group_field_int g [''maxBaseCapacity'', ''baseVolumeCapacity'']) (\<lambda>base.
     bindR (pick_group_field_int g [''repositoryCapacity'']) (\<lambda>repo.
     Inr (available, if base \<le> 0 then available + used else base, if repo \<le> 0 then available + used else repo)))))"

text \<open>The body of the loop over the groups.\<close>

definition consider_group ::
  "group_limits \<Rightarrow> str list \<Rightarrow> (str \<times> json) list \<Rightarrow> (str \<times> json) list \<Rightarrow> json \<Rightarrow> exn + group_choice" where
  "consider_group l scheduled utilization repositories g =
     bindR (text_of_first g [''pitGroupRef'', ''id'']) (\<lambda>group_ref.
     if group_ref = [] then Inr Skipped else
     bindR (text_of_first g [''baseVolume'']) (\<lambda>base_volume.
     if base_volume \<noteq> gl_volume_ref l then Inr Skipped
     else if group_ref \<in> set scheduled \<and> \<not> gl_include_schedule_owned_groups l then Inr Skipped else
     bindR (group_room (entry_of utilization group_ref) g) (\<lambda>(available, base_bytes, repo_bytes).
     bindR (bindR (json_get g ''snapshotCount'') coerce_int_default) (\<lambda>snapshots.
     if min_free_bytes (gl_min_free_percent l) base_bytes \<le> available
     then Inr (Eligible available (- snapshots) group_ref)
     else if gl_max_repo_group_capacity_percent l \<le> repo_percent repo_bytes base_bytes then Inr Skipped
     else bindR (text_of_first g [''repositoryVolume'']) (\<lambda>repository_ref.
          bindR (member_count_of (if repository_ref = [] then JObj [] else entry_of repositories repository_ref)) (\<lambda>members.
          if gl_max_repo_volumes_per_group l \<le> members then Inr Skipped
          else Inr (Growable available (- snapshots) (- members)
                 \<lparr>gt_group_ref = group_ref, gt_repository_ref = repository_ref, gt_base_volume_ref = base_volume,
                  gt_available_bytes = available, gt_min_free_bytes = min_free_bytes (gl_min_free_percent l) base_bytes,
                  gt_member_count = members\<rparr>)))))))"

definition eligible_keys :: "group_choice list \<Rightarrow> (int \<times> int \<times> str) list" where
  "eligible_keys cs = concat (map (\<lambda>c. case c of Eligible a n r \<Rightarrow> [(a, n, r)] | _ \<Rightarrow> []) cs)"

definition growable_keys :: "group_choice list \<Rightarrow> ((int \<times> int \<times> int \<times> str) \<times> grow_target) list" where
  "growable_keys cs =
     concat (map (\<lambda>c. case c of Growable a n m t \<Rightarrow> [((a, n, m, gt_group_ref t), t)] | _ \<Rightarrow> []) cs)"

text \<open>
  The first of the sorted candidates is the largest.  Two candidates to grow that agree up to the dictionary
  cannot be ordered: comparing dictionaries is a \<open>TypeError\<close>.
\<close>

definition choose_snapshot_group ::
  "group_limits \<Rightarrow> json \<Rightarrow> json \<Rightarrow> json \<Rightarrow> json \<Rightarrow> exn + str option \<times> grow_target option" where
  "choose_snapshot_group l groups schedules utilization repositories =
     bindR (bindR (json_iter schedules) schedule_refs) (\<lambda>scheduled.
     bindR (bindR (json_iter utilization) (by_ref [''groupRef''])) (\<lambda>utils.
     bindR (bindR (json_iter repositories) (by_ref [''id'', ''repositoryRef'', ''concatRef''])) (\<lambda>repos.
     bindR (bindR (json_iter groups) (mapR (consider_group l scheduled utils repos))) (\<lambda>choices.
     if eligible_keys choices \<noteq> [] then Inr (Some (snd (snd (last (sort (eligible_keys choices))))), None)
     else if growable_keys choices = [] then Inr (None, None)
     else if distinct (map fst (growable_keys choices))
     then Inr (None, map_of (growable_keys choices) (last (sort (map fst (growable_keys choices)))))
     else Inl (PyErr TypeError)))))"

subsection \<open>Taking a snapshot\<close>

definition json_index0 :: "json \<Rightarrow> exn + json" where
  "json_index0 v =
     (case v of
        JArr (x # xs) \<Rightarrow> Inr x | JArr [] \<Rightarrow> Inl (PyErr IndexError)
      | JStr (c # cs) \<Rightarrow> Inr (JStr [c]) | JStr [] \<Rightarrow> Inl (PyErr IndexError)
      | JObj ms \<Rightarrow> Inl (PyErr (KeyError ''0''))
      | _ \<Rightarrow> Inl (PyErr TypeError))"

text \<open>Growing the repository of a group; without a candidate or a repository nothing is grown.\<close>

definition grow_group :: "'s santricity \<Rightarrow> int \<Rightarrow> grow_target \<Rightarrow> ('s sn_world, json) prog" where
  "grow_group sn percent t =
     bindE (get_repo_group_candidates_single sn (gt_base_volume_ref t) percent False ''snapshot'') (\<lambda>candidates.
     bindE (liftR (case candidates of JArr (c # cs) \<Rightarrow> json_get c ''candidate'' | _ \<Rightarrow> Inr JNull)) (\<lambda>candidate.
     if json_truthy candidate \<and> gt_repository_ref t \<noteq> []
     then bindE (liftR (case candidate of JObj ms \<Rightarrow> Inr ms | _ \<Rightarrow> Inl (PyErr TypeError))) (\<lambda>ms.
          bindE (expand_repository sn (gt_repository_ref t) ms) (\<lambda>_. ret (JStr (gt_group_ref t))))
     else ret JNull))"

definition new_group :: "'s santricity \<Rightarrow> str \<Rightarrow> str option \<Rightarrow> int option \<Rightarrow> ('s sn_world, json) prog" where
  "new_group sn volume_ref name initial_repo_group_size_pct =
     (let size_pct = (case initial_repo_group_size_pct of None \<Rightarrow> 20 | Some p \<Rightarrow> if p = 0 then 20 else p) in
      bindE (get_repo_group_candidates_single sn volume_ref size_pct False ''snapshot'') (\<lambda>candidates.
      if \<not> json_truthy candidates
      then raiseE (Foreign ''Exception'' (''No repository candidates found to create a new group for volume '' @ volume_ref))
      else bindE (liftR (bindR (json_index0 candidates) (\<lambda>c. json_get c ''candidate''))) (\<lambda>candidate.
           bindE (create_group sn (JObj
               [(''baseMappableObjectId'', JStr volume_ref),
                (''name'', JStr (if truthy name then the name else ''auto_snapshot_group'')),
                (''repositoryCandidate'', candidate)])) (\<lambda>group_data.
           liftR (json_item group_data ''id'')))))"

definition auto_create_snapshot ::
  "'s santricity \<Rightarrow> group_limits \<Rightarrow> str option \<Rightarrow> int \<Rightarrow> bool \<Rightarrow> int option \<Rightarrow> ('s sn_world, json) prog" where
  "auto_create_snapshot sn l name growth_step_percent auto_grow_if_needed initial_repo_group_size_pct =
     bindE (list_snapshot_groups sn) (\<lambda>groups.
     bindE (list_schedules sn) (\<lambda>schedules.
     bindE (list_group_repo_utilization sn) (\<lambda>utilization.
     bindE (list_repositories sn) (\<lambda>repositories.
     bindE (liftR (choose_snapshot_group l groups schedules utilization repositories)) (\<lambda>(resolved, target).
     bindE (case (resolved, target) of
              (None, Some t) \<Rightarrow> if auto_grow_if_needed then grow_group sn growth_step_percent t else ret JNull
            | (Some r, _) \<Rightarrow> ret (JStr r)
            | _ \<Rightarrow> ret JNull) (\<lambda>group_ref.
     bindE (if json_truthy group_ref then ret group_ref
            else new_group sn (gl_volume_ref l) name initial_repo_group_size_pct) (\<lambda>group_ref.
     create_image sn group_ref)))))))"

definition create_cg_snapshot :: "'s santricity \<Rightarrow> str \<Rightarrow> ('s sn_world, json) prog" where
  "create_cg_snapshot sn cg_ref =
     bindE (cg_list_member_volumes sn cg_ref) (\<lambda>members.
     if json_truthy members then cg_create_snapshot sn cg_ref
     else raiseE (Foreign ''RuntimeError'' (''Cannot take snapshot of consistency group '' @ [CHR 0x27] @ cg_ref @ [CHR 0x27] @
            '': it has no member volumes.'')))"

subsection \<open>The group that is chosen\<close>

text \<open>What a group has to be for each of the answers of the loop.\<close>

lemma consider_eligible:
  assumes "consider_group l scheduled utils repos g = Inr (Eligible a n r)"
  shows "text_of_first g [''pitGroupRef'', ''id''] = Inr r" "r \<noteq> []"
    "text_of_first g [''baseVolume''] = Inr (gl_volume_ref l)"
    "r \<in> set scheduled \<Longrightarrow> gl_include_schedule_owned_groups l"
    "\<exists>base repo. group_room (entry_of utils r) g = Inr (a, base, repo) \<and> min_free_bytes (gl_min_free_percent l) base \<le> a"
  using assms unfolding consider_group_def
  by (elim inr_elims; force split: prod.splits elim!: inr_elims)+

lemma consider_growable:
  assumes "consider_group l scheduled utils repos g = Inr (Growable a n m t)"
  shows "text_of_first g [''pitGroupRef'', ''id''] = Inr (gt_group_ref t)" "gt_base_volume_ref t = gl_volume_ref l"
    "\<exists>base repo. group_room (entry_of utils (gt_group_ref t)) g = Inr (a, base, repo) \<and>
       a < min_free_bytes (gl_min_free_percent l) base \<and> repo_percent repo base < gl_max_repo_group_capacity_percent l"
    "gt_member_count t < gl_max_repo_volumes_per_group l"
  using assms unfolding consider_group_def
  by (elim inr_elims; force simp: not_le split: prod.splits elim!: inr_elims)+

lemma last_sort: "xs \<noteq> [] \<Longrightarrow> last (sort xs) \<in> set xs \<and> (\<forall>x \<in> set xs. x \<le> last (sort xs))"
  for xs :: "'a::linorder list"
proof -
  assume "xs \<noteq> []"
  then have ne: "sort xs \<noteq> []" by (metis length_0_conv length_sort)
  then have "sorted (butlast (sort xs) @ [last (sort xs)])" by simp
  then have "\<forall>x \<in> set (butlast (sort xs)). x \<le> last (sort xs)" unfolding sorted_append by simp
  moreover have "set xs = insert (last (sort xs)) (set (butlast (sort xs)))"
    using ne by (metis append_butlast_last_id list.simps(15) rotate1.simps(2) set_rotate1 set_sort)
  ultimately show ?thesis by auto
qed

lemma mapR_member: "mapR f xs = Inr ys \<Longrightarrow> y \<in> set ys \<Longrightarrow> \<exists>x \<in> set xs. f x = Inr y"
  by (induction xs arbitrary: ys) (auto elim!: bindR_InrE)

lemma mapR_covers: "mapR f xs = Inr ys \<Longrightarrow> x \<in> set xs \<Longrightarrow> \<exists>y \<in> set ys. f x = Inr y"
  by (induction xs arbitrary: ys) (auto elim!: bindR_InrE)

lemma eligible_keys_iff: "(a, n, r) \<in> set (eligible_keys cs) \<longleftrightarrow> Eligible a n r \<in> set cs"
  by (auto simp: eligible_keys_def split: group_choice.splits)

lemma growable_keys_iff:
  "(k, t) \<in> set (growable_keys cs) \<longleftrightarrow> (\<exists>a n m. k = (a, n, m, gt_group_ref t) \<and> Growable a n m t \<in> set cs)"
  by (auto simp: growable_keys_def split: group_choice.splits)

lemma choose_cases:
  assumes "choose_snapshot_group l (JArr gs) (JArr ss) (JArr us) (JArr rs) = Inr (resolved, target)"
  obtains scheduled utils repos choices where "by_ref [''groupRef''] us = Inr utils"
    "mapR (consider_group l scheduled utils repos) gs = Inr choices"
    "resolved = (if eligible_keys choices \<noteq> [] then Some (snd (snd (last (sort (eligible_keys choices))))) else None)"
    "target = (if eligible_keys choices \<noteq> [] \<or> growable_keys choices = [] then None
               else map_of (growable_keys choices) (last (sort (map fst (growable_keys choices)))))"
proof -
  from assms obtain scheduled utils repos choices where u: "by_ref [''groupRef''] us = Inr utils"
    and m: "mapR (consider_group l scheduled utils repos) gs = Inr choices"
    and r: "(if eligible_keys choices \<noteq> [] then Inr (Some (snd (snd (last (sort (eligible_keys choices))))), None)
     else if growable_keys choices = [] then Inr (None, None)
     else if distinct (map fst (growable_keys choices))
     then Inr (None, map_of (growable_keys choices) (last (sort (map fst (growable_keys choices)))))
     else Inl (PyErr TypeError)) = Inr (resolved, target)"
    unfolding choose_snapshot_group_def json_iter_def json.case bindR_simps by (elim bindR_InrE)
  show thesis using r by (intro that [OF u m]) (simp_all split: if_splits)
qed

text \<open>
  C34. The group a snapshot is taken in without growing anything is a group of the volume that has at least the
  wanted free space, and among the groups that have it one with the most available bytes.  When a group is to be
  grown instead, no group of the volume has enough free space, and the chosen one is below the limits on the
  size of its repository and on the number of its volumes.
\<close>
theorem snapshot_group_choice:
  assumes "choose_snapshot_group l (JArr gs) (JArr ss) (JArr us) (JArr rs) = Inr (resolved, target)"
  shows "\<exists>scheduled utils repos. by_ref [''groupRef''] us = Inr utils \<and>
    (\<forall>r. resolved = Some r \<longrightarrow> target = None \<and>
       (\<exists>g \<in> set gs. \<exists>a base repo.
          text_of_first g [''pitGroupRef'', ''id''] = Inr r \<and> text_of_first g [''baseVolume''] = Inr (gl_volume_ref l) \<and>
          group_room (entry_of utils r) g = Inr (a, base, repo) \<and> min_free_bytes (gl_min_free_percent l) base \<le> a \<and>
          (\<forall>g' \<in> set gs. \<forall>a' n' r'. consider_group l scheduled utils repos g' = Inr (Eligible a' n' r') \<longrightarrow> a' \<le> a))) \<and>
    (\<forall>t. target = Some t \<longrightarrow>
       gt_base_volume_ref t = gl_volume_ref l \<and> gt_member_count t < gl_max_repo_volumes_per_group l \<and>
       (\<exists>g \<in> set gs. \<exists>a base repo.
          text_of_first g [''pitGroupRef'', ''id''] = Inr (gt_group_ref t) \<and>
          group_room (entry_of utils (gt_group_ref t)) g = Inr (a, base, repo) \<and>
          repo_percent repo base < gl_max_repo_group_capacity_percent l) \<and>
       (\<forall>g \<in> set gs. \<forall>a n r. consider_group l scheduled utils repos g \<noteq> Inr (Eligible a n r)))"
proof -
  from choose_cases [OF assms] obtain scheduled utils repos choices where u: "by_ref [''groupRef''] us = Inr utils"
    and m: "mapR (consider_group l scheduled utils repos) gs = Inr choices"
    and r: "resolved = (if eligible_keys choices \<noteq> [] then Some (snd (snd (last (sort (eligible_keys choices))))) else None)"
    and t: "target = (if eligible_keys choices \<noteq> [] \<or> growable_keys choices = [] then None
               else map_of (growable_keys choices) (last (sort (map fst (growable_keys choices)))))"
    by (rule choose_cases [OF assms])
  have eligible: "(a', n', r') \<in> set (eligible_keys choices)"
    if "g \<in> set gs" "consider_group l scheduled utils repos g = Inr (Eligible a' n' r')" for g a' n' r'
    using mapR_covers [OF m that(1)] that(2) by (auto simp: eligible_keys_iff)
  have 1: "\<exists>g \<in> set gs. \<exists>a base repo.
          text_of_first g [''pitGroupRef'', ''id''] = Inr x \<and> text_of_first g [''baseVolume''] = Inr (gl_volume_ref l) \<and>
          group_room (entry_of utils x) g = Inr (a, base, repo) \<and> min_free_bytes (gl_min_free_percent l) base \<le> a \<and>
          (\<forall>g' \<in> set gs. \<forall>a' n' r'. consider_group l scheduled utils repos g' = Inr (Eligible a' n' r') \<longrightarrow> a' \<le> a)"
    if "resolved = Some x" for x
  proof -
    have ne: "eligible_keys choices \<noteq> []" using r that by (auto split: if_splits)
    obtain a n y where top: "last (sort (eligible_keys choices)) = (a, n, y)"
      by (cases "last (sort (eligible_keys choices))")
    then have "y = x" using r that ne by simp
    with top last_sort [OF ne] have "(a, n, x) \<in> set (eligible_keys choices)"
      and max: "\<And>k. k \<in> set (eligible_keys choices) \<Longrightarrow> k \<le> (a, n, x)" by auto
    then have "Eligible a n x \<in> set choices" by (simp add: eligible_keys_iff)
    then obtain g where g: "g \<in> set gs" "consider_group l scheduled utils repos g = Inr (Eligible a n x)"
      using mapR_member [OF m] by blast
    have "a' \<le> a" if "g' \<in> set gs" "consider_group l scheduled utils repos g' = Inr (Eligible a' n' r')" for g' a' n' r'
      using max [OF eligible [OF that]] by (auto simp: less_eq_prod_def)
    with g consider_eligible [OF g(2)] show ?thesis by blast
  qed
  have 2: "gt_base_volume_ref x = gl_volume_ref l \<and> gt_member_count x < gl_max_repo_volumes_per_group l \<and>
       (\<exists>g \<in> set gs. \<exists>a base repo.
          text_of_first g [''pitGroupRef'', ''id''] = Inr (gt_group_ref x) \<and>
          group_room (entry_of utils (gt_group_ref x)) g = Inr (a, base, repo) \<and>
          repo_percent repo base < gl_max_repo_group_capacity_percent l) \<and>
       (\<forall>g \<in> set gs. \<forall>a n r. consider_group l scheduled utils repos g \<noteq> Inr (Eligible a n r))"
    if "target = Some x" for x
  proof -
    have none: "eligible_keys choices = []"
      and "map_of (growable_keys choices) (last (sort (map fst (growable_keys choices)))) = Some x"
      using t that by (simp_all split: if_splits)
    then have "(last (sort (map fst (growable_keys choices))), x) \<in> set (growable_keys choices)" by (simp add: map_of_SomeD)
    then obtain a n k where "Growable a n k x \<in> set choices" unfolding growable_keys_iff by blast
    then obtain g where g: "g \<in> set gs" "consider_group l scheduled utils repos g = Inr (Growable a n k x)"
      using mapR_member [OF m] by blast
    moreover have "consider_group l scheduled utils repos g \<noteq> Inr (Eligible a n r)" if "g \<in> set gs" for g a n r
      using eligible [OF that] none by fastforce
    ultimately show ?thesis using consider_growable [OF g(2)] by blast
  qed
  have "target = None" if "resolved = Some x" for x using r t that by (auto split: if_splits)
  with u 1 2 show ?thesis by blast
qed

definition example_groups :: "json list" where
  "example_groups =
     [JObj [(''pitGroupRef'', JStr ''3301''), (''baseVolume'', JStr ''0201'')],
      JObj [(''id'', JStr ''3302''), (''baseVolume'', JStr ''0200''), (''snapshotCount'', JStr ''2'')]]"

definition example_limits :: group_limits where
  "example_limits = \<lparr>gl_volume_ref = ''0200'', gl_include_schedule_owned_groups = True, gl_min_free_percent = 10,
     gl_max_repo_group_capacity_percent = 200, gl_max_repo_volumes_per_group = 16\<rparr>"

lemma example_choice:
  "choose_snapshot_group example_limits (JArr example_groups) (JArr []) (JArr []) (JArr []) = Inr (Some ''3302'', None)"
  by code_simp

theorem snapshot_group_choice_witness:
  "\<exists>g \<in> set example_groups. text_of_first g [''pitGroupRef'', ''id''] = Inr ''3302'' \<and>
     text_of_first g [''baseVolume''] = Inr ''0200''"
  using snapshot_group_choice [OF example_choice] by (auto simp: example_limits_def)

end
