(* ===== verification/SantricityReports.thy ===== *)
theory SantricityReports
  imports SantricitySnapshots
begin

text \<open>
  The report of the host-side interfaces (\<open>santricity_client/reports/interfaces_report.py\<close>), from which the
  mediator takes the addresses of the iSCSI and NVMe portals.  A row is a dictionary; fields are read along a path
  through nested dictionaries and lists, and a transformation that raises leaves \<open>None\<close>.
\<close>

subsection \<open>Transformations of fields\<close>

type_synonym transform = "json \<Rightarrow> exn + json"
type_synonym field_mapping = "str \<times> str \<times> transform option"

definition text_or_none :: "str \<Rightarrow> json" where
  "text_or_none s = (if s = [] then JNull else JStr s)"

definition lower_string :: "json \<Rightarrow> json" where
  "lower_string v = (case v of JStr s \<Rightarrow> text_or_none (py_lower (py_strip s)) | _ \<Rightarrow> JNull)"

definition strip_string :: "json \<Rightarrow> json" where
  "strip_string v = (case v of JStr s \<Rightarrow> text_or_none (py_strip s) | _ \<Rightarrow> JNull)"

definition coerce_int :: transform where
  "coerce_int v = (if v = JNull then Inr JNull else bindR (json_int v) (\<lambda>i. Inr (JInt i)))"

definition convert_link_status_to_bool :: transform where
  "convert_link_status_to_bool v =
     (case v of
        JStr s \<Rightarrow> if py_lower (py_strip s) = ''up'' then Inr (JBool True)
                  else if py_lower (py_strip s) = ''down'' then Inr (JBool False) else Inl (PyErr ValueError)
      | _ \<Rightarrow> Inl (PyErr ValueError))"

definition convert_speed_string :: transform where
  "convert_speed_string v =
     (case v of
        JStr s \<Rightarrow>
          (let l = py_lower (py_strip s) in
           if l \<in> {''speedunknown'', ''__undefined'', ''unknown'', ''''} then Inr JNull
           else if py_startswith l ''speed'' \<and> py_endswith l ''gig''
           then (case py_int (py_slice 5 (length l - 3) l) of Some n \<Rightarrow> Inr (JInt (n * 1000)) | None \<Rightarrow> Inl (PyErr ValueError))
           else Inl (PyErr ValueError))
      | _ \<Rightarrow> Inl (PyErr ValueError))"

text \<open>\<open>value in {0, None}\<close> holds of \<open>False\<close> and \<open>0.0\<close> as well, and \<open>True\<close> is the number 1; a list cannot be hashed.\<close>

definition convert_fc_speed_code :: transform where
  "convert_fc_speed_code v =
     (case v of
        JNull \<Rightarrow> Inr JNull
      | JInt i \<Rightarrow> Inr (if i = 0 then JNull else JInt (i * 10))
      | JBool b \<Rightarrow> Inr (if b then JInt 10 else JNull)
      | JFloat r \<Rightarrow> if float_is_zero r then Inr JNull else Inl (PyErr ValueError)
      | JStr s \<Rightarrow> Inl (PyErr ValueError)
      | _ \<Rightarrow> Inl (PyErr TypeError))"

fun pairs_of :: "str \<Rightarrow> str list" where
  "pairs_of (a # b # cs) = [a, b] # pairs_of cs"
| "pairs_of [a] = [[a]]"
| "pairs_of [] = []"

definition format_wwn :: "json \<Rightarrow> json" where
  "format_wwn v =
     (case strip_string v of
        JStr s \<Rightarrow> JStr (py_join '':'' (pairs_of (filter (\<lambda>c. c \<noteq> CHR '':'') s)))
      | _ \<Rightarrow> JNull)"

definition list_to_semicolon_string :: "transform \<Rightarrow> transform" where
  "list_to_semicolon_string item v =
     (case v of
        JArr vs \<Rightarrow> bindR (mapR item vs) (\<lambda>ws.
          let items = map json_show (filter (\<lambda>w. w \<noteq> JNull) ws) in
          Inr (if items = [] then JNull else JStr (py_join '';'' items)))
      | _ \<Rightarrow> Inl (PyErr ValueError))"

definition speed_list_to_semicolon_string :: transform where
  "speed_list_to_semicolon_string = list_to_semicolon_string convert_speed_string"

definition normalize_report_protocol :: "json \<Rightarrow> json" where
  "normalize_report_protocol v =
     (if lower_string v = JStr ''fc'' then JStr ''fibre''
      else if lower_string v = JStr ''infiniband'' then JStr ''ib'' else lower_string v)"

definition normalize_command_provider :: "json \<Rightarrow> json" where
  "normalize_command_provider v =
     (if lower_string v = JStr ''providerrocev2'' then JStr ''provider_roce_v2''
      else if lower_string v = JStr ''providerinfiniband'' then JStr ''provider_infiniband'' else lower_string v)"

definition normalize_filter_value :: "str \<Rightarrow> str" where
  "normalize_filter_value value =
     (let n = py_lower (py_strip value) in
      if n = ''*'' then ''all'' else if n \<in> {''fc'', ''fiber'', ''fibre_channel''} then ''fibre''
      else if n = ''infiniband'' then ''ib'' else n)"

subsection \<open>Fields\<close>

definition pure_field :: "str \<Rightarrow> str \<Rightarrow> (json \<Rightarrow> json) \<Rightarrow> field_mapping" where
  "pure_field source target f = (source, target, Some (\<lambda>v. Inr (f v)))"

definition field :: "str \<Rightarrow> str \<Rightarrow> transform \<Rightarrow> field_mapping" where
  "field source target f = (source, target, Some f)"

definition raw_field :: "str \<Rightarrow> str \<Rightarrow> field_mapping" where
  "raw_field source target = (source, target, None)"

definition COMMON_FIELDS :: "field_mapping list" where
  "COMMON_FIELDS =
     [pure_field ''controllerRef'' ''controller_ref'' strip_string,
      pure_field ''interfaceRef'' ''interface_ref'' strip_string,
      pure_field ''channelType'' ''channel_type'' lower_string,
      pure_field ''ioInterfaceTypeData_interfaceType'' ''protocol'' normalize_report_protocol]"

definition HOSTSIDE_INTERFACE_ISCSI :: "field_mapping list" where
  "HOSTSIDE_INTERFACE_ISCSI =
     [field ''channel'' ''channel'' coerce_int,
      pure_field ''channelPortRef'' ''channel_port_ref'' strip_string,
      field ''tcpListenPort'' ''tcp_listen_port'' coerce_int,
      raw_field ''ipv4Enabled'' ''is_ipv4_enabled'',
      pure_field ''ipv4Data_ipv4Address'' ''ipv4_address'' strip_string,
      pure_field ''interfaceData_type'' ''transport'' normalize_report_protocol,
      field ''interfaceData_ethernetData_maximumFramePayloadSize'' ''maximum_mtu_bytes'' coerce_int,
      field ''interfaceData_ethernetData_currentInterfaceSpeed'' ''current_interface_speed_mebibits_per_second'' convert_speed_string,
      field ''interfaceData_ethernetData_maximumInterfaceSpeed'' ''maximum_interface_speed_mebibits_per_second'' convert_speed_string,
      pure_field ''iqn'' ''iqn'' strip_string,
      pure_field ''interfaceData_ethernetData_linkStatus'' ''link_status'' lower_string,
      field ''interfaceData_ethernetData_linkStatus'' ''is_link_up'' convert_link_status_to_bool,
      pure_field ''controllerId'' ''controller_id'' strip_string,
      pure_field ''interfaceId'' ''interface_id'' strip_string,
      pure_field ''addressId'' ''address_id'' strip_string,
      pure_field ''id'' ''id'' strip_string]"

definition HOSTSIDE_INTERFACE_IB :: "field_mapping list" where
  "HOSTSIDE_INTERFACE_IB =
     [pure_field ''interfaceId'' ''interface_id'' strip_string,
      field ''channel'' ''channel'' coerce_int,
      pure_field ''channelPortRef'' ''channel_port_ref'' strip_string,
      pure_field ''linkState'' ''link_state'' lower_string,
      pure_field ''portState'' ''port_state'' lower_string,
      field ''maximumTransmissionUnit'' ''maximum_mtu_bytes'' coerce_int,
      field ''currentSpeed'' ''current_interface_speed_mebibits_per_second'' convert_speed_string,
      field ''supportedSpeed'' ''supported_speeds_mebibits_per_second_list'' speed_list_to_semicolon_string,
      pure_field ''currentLinkWidth'' ''current_link_width'' lower_string,
      field ''supportedLinkWidth'' ''supported_link_widths_list'' (list_to_semicolon_string Inr),
      field ''currentDataVirtualLanes'' ''current_data_virtual_lane_count'' coerce_int,
      field ''maximumDataVirtualLanes'' ''maximum_data_virtual_lane_count'' coerce_int,
      raw_field ''isNVMeSupported'' ''is_nvme_supported'',
      pure_field ''controllerId'' ''controller_id'' strip_string,
      pure_field ''addressId'' ''address_id'' strip_string,
      pure_field ''id'' ''id'' strip_string]"

definition HOSTSIDE_INTERFACE_ETHERNET :: "field_mapping list" where
  "HOSTSIDE_INTERFACE_ETHERNET =
     [pure_field ''interfaceId'' ''interface_id'' strip_string,
      field ''channel'' ''channel'' coerce_int,
      pure_field ''channelPortRef'' ''channel_port_ref'' strip_string,
      pure_field ''interfaceData_type'' ''transport'' normalize_report_protocol,
      pure_field ''interfaceData_ethernetData_macAddress'' ''mac_address'' strip_string,
      field ''interfaceData_ethernetData_maximumFramePayloadSize'' ''maximum_mtu_bytes'' coerce_int,
      field ''interfaceData_ethernetData_currentInterfaceSpeed'' ''current_interface_speed_mebibits_per_second'' convert_speed_string,
      field ''interfaceData_ethernetData_maximumInterfaceSpeed'' ''maximum_interface_speed_mebibits_per_second'' convert_speed_string,
      pure_field ''interfaceData_ethernetData_linkStatus'' ''link_status'' lower_string,
      field ''interfaceData_ethernetData_linkStatus'' ''is_link_up'' convert_link_status_to_bool,
      pure_field ''controllerId'' ''controller_id'' strip_string,
      pure_field ''addressId'' ''address_id'' strip_string,
      pure_field ''id'' ''id'' strip_string]"

definition HOSTSIDE_INTERFACE_FIBRE :: "field_mapping list" where
  "HOSTSIDE_INTERFACE_FIBRE =
     [field ''channel'' ''channel'' coerce_int,
      field ''speed'' ''speed_mebibits_per_second'' convert_fc_speed_code,
      pure_field ''nodeName'' ''node_name'' format_wwn,
      pure_field ''topology'' ''topology'' lower_string,
      raw_field ''chanMiswire'' ''is_channel_miswired'',
      raw_field ''esmMiswire'' ''is_esm_miswired'',
      pure_field ''linkStatus'' ''link_status'' lower_string,
      field ''linkStatus'' ''is_link_up'' convert_link_status_to_bool,
      raw_field ''isDegraded'' ''is_degraded'',
      pure_field ''speedControl'' ''speed_control'' lower_string,
      field ''maxSpeed'' ''max_speed_mebibits_per_second'' convert_fc_speed_code,
      raw_field ''speedNegError'' ''is_speed_negotiation_error'',
      raw_field ''isLocal'' ''is_local'',
      field ''currentInterfaceSpeed'' ''current_interface_speed_mebibits_per_second'' convert_speed_string,
      raw_field ''isTrunkCapable'' ''is_trunk_capable'',
      raw_field ''trunkMiswire'' ''is_trunk_miswired'',
      pure_field ''interfaceId'' ''interface_id'' strip_string,
      pure_field ''addressId'' ''address_id'' strip_string,
      pure_field ''id'' ''id'' strip_string]"

definition PROTOCOL_FIELD_MAPPINGS :: "(str \<times> field_mapping list) list" where
  "PROTOCOL_FIELD_MAPPINGS =
     [(''ethernet'', HOSTSIDE_INTERFACE_ETHERNET), (''iscsi'', HOSTSIDE_INTERFACE_ISCSI),
      (''ib'', HOSTSIDE_INTERFACE_IB), (''fibre'', HOSTSIDE_INTERFACE_FIBRE)]"

definition command_path :: "str \<Rightarrow> str" where
  "command_path rest = ''commandProtocolPropertiesList_commandProtocolProperties[0]_'' @ rest"

definition nvmeof_path :: "str \<Rightarrow> str" where
  "nvmeof_path rest = command_path (''nvmeProperties_nvmeofProperties_'' @ rest)"

definition COMMAND_PROTOCOL_COMMON_FIELDS :: "field_mapping list" where
  "COMMAND_PROTOCOL_COMMON_FIELDS =
     [pure_field (command_path ''commandProtocol'') ''command_protocol'' lower_string,
      pure_field (nvmeof_path ''provider'') ''command_provider'' normalize_command_provider]"

definition COMMAND_PROTOCOL_IB_FIELDS :: "field_mapping list" where
  "COMMAND_PROTOCOL_IB_FIELDS =
     [pure_field (nvmeof_path ''ibProperties_ipAddressData_ipv4Data_configState'') ''infiniband_ipv4_config_state'' lower_string,
      pure_field (nvmeof_path ''ibProperties_ipAddressData_ipv4Data_ipv4Address'') ''infiniband_ipv4_address'' strip_string]"

definition COMMAND_PROTOCOL_ROCE_V2_FIELDS :: "field_mapping list" where
  "COMMAND_PROTOCOL_ROCE_V2_FIELDS =
     [raw_field (nvmeof_path ''roceV2Properties_ipv4Enabled'') ''is_roce_v2_ipv4_enabled'',
      pure_field (nvmeof_path ''roceV2Properties_ipv4Data_ipv4Address'') ''roce_v2_ipv4_address'' strip_string,
      raw_field (nvmeof_path ''roceV2Properties_ipv4Data_ipv4OutboundPacketPriority_isEnabled'') ''is_roce_v2_pfc_enabled'',
      field (nvmeof_path ''roceV2Properties_ipv4Data_ipv4OutboundPacketPriority_value'') ''roce_v2_pfc_value'' coerce_int]"

subsection \<open>Reading fields\<close>

text \<open>A part of a path is a key, or a key with an index in brackets (\<open>INDEXED_PATH_PART\<close>).\<close>

definition indexed_path_part :: "str \<Rightarrow> (str \<times> nat option) option" where
  "indexed_path_part part =
     (let key = takeWhile (\<lambda>c. c \<noteq> CHR ''['' \<and> c \<noteq> CHR '']'') part; rest = drop (length key) part;
          index = butlast (tl rest) in
      if key = [] then None
      else if rest = [] then Some (key, None)
      else if hd rest = CHR ''['' \<and> last rest = CHR '']'' \<and> index \<noteq> [] \<and> list_all is_digit index
      then Some (key, Some (digits_val index)) else None)"

fun resolve_parts :: "json \<Rightarrow> str list \<Rightarrow> json" where
  "resolve_parts v [] = v"
| "resolve_parts v (part # parts) =
     (case indexed_path_part part of
        None \<Rightarrow> JNull
      | Some (key, index) \<Rightarrow>
          (case v of
             JObj ms \<Rightarrow>
               (case map_of ms key of
                  None \<Rightarrow> JNull
                | Some w \<Rightarrow>
                    (case index of
                       None \<Rightarrow> resolve_parts w parts
                     | Some i \<Rightarrow>
                         (case w of JArr vs \<Rightarrow> if i < length vs then resolve_parts (vs ! i) parts else JNull | _ \<Rightarrow> JNull)))
           | _ \<Rightarrow> JNull))"

definition resolve_field_path :: "json \<Rightarrow> str \<Rightarrow> json" where
  "resolve_field_path v source_field = resolve_parts v (py_split (CHR ''_'') source_field)"

definition field_value :: "json \<Rightarrow> str \<Rightarrow> transform option \<Rightarrow> json" where
  "field_value data source_field f =
     (let v = resolve_field_path data source_field in
      case f of None \<Rightarrow> v | Some g \<Rightarrow> if v = JNull then v else (case g v of Inr w \<Rightarrow> w | Inl e \<Rightarrow> JNull))"

type_synonym row = "(str \<times> json) list"

definition row_get :: "row \<Rightarrow> str \<Rightarrow> json" where
  "row_get row k = dict_get_or row k JNull"

definition row_update :: "row \<Rightarrow> row \<Rightarrow> row" where
  "row_update row other = foldl (\<lambda>r (k, v). AList.update k v r) row other"

definition extract_fields :: "json \<Rightarrow> field_mapping list \<Rightarrow> row" where
  "extract_fields data mappings =
     foldl (\<lambda>r (source_field, target_field, f). AList.update target_field (field_value data source_field f) r) [] mappings"

definition extract_protocol_payload :: "json \<Rightarrow> exn + (str \<times> json) option" where
  "extract_protocol_payload entry =
     bindR (json_get entry ''ioInterfaceTypeData'') (\<lambda>data.
     case data of
       JObj ms \<Rightarrow>
         (case normalize_report_protocol (row_get ms ''interfaceType'') of
            JStr protocol \<Rightarrow>
              Inr (case row_get ms protocol of JObj payload \<Rightarrow> Some (protocol, JObj payload) | _ \<Rightarrow> None)
          | _ \<Rightarrow> Inr None)
     | _ \<Rightarrow> Inr None)"

definition row_truthy :: "row \<Rightarrow> str \<Rightarrow> bool" where
  "row_truthy row k = json_truthy (row_get row k)"

definition apply_command_protocol_details :: "json \<Rightarrow> row \<Rightarrow> row" where
  "apply_command_protocol_details entry row =
     (let row = row_update row (extract_fields entry COMMAND_PROTOCOL_COMMON_FIELDS) in
      if row_get row ''command_provider'' = JStr ''provider_infiniband''
      then let row = row_update row (extract_fields entry COMMAND_PROTOCOL_IB_FIELDS);
               address = row_get row ''infiniband_ipv4_address'' in
           row_update row [(''command_ipv4_address'', address),
             (''is_command_ipv4_ready'',
                JBool (row_get row ''infiniband_ipv4_config_state'' = JStr ''configured'' \<and> json_truthy address))]
      else if row_get row ''command_provider'' = JStr ''provider_roce_v2''
      then let row = row_update row (extract_fields entry COMMAND_PROTOCOL_ROCE_V2_FIELDS);
               address = row_get row ''roce_v2_ipv4_address'' in
           row_update row [(''command_ipv4_address'', address),
             (''is_command_ipv4_ready'', JBool (row_truthy row ''is_roce_v2_ipv4_enabled'' \<and> json_truthy address))]
      else row)"

text \<open>The details of a controller, found by its id, its reference and its label.\<close>

definition controller_details :: "row \<Rightarrow> row" where
  "controller_details c =
     (let controller_id = strip_string (row_get c ''id'');
          ref = strip_string (row_get c ''controllerRef'');
          label = (case row_get c ''physicalLocation'' of
                     JObj ms \<Rightarrow> (case strip_string (row_get ms ''label'') of JStr s \<Rightarrow> JStr (py_lower s) | v \<Rightarrow> v)
                   | _ \<Rightarrow> JNull)
      in [(''controller_id'', controller_id), (''controller_ref'', if json_truthy ref then ref else controller_id),
          (''controller_label'', label)])"

definition add_controller :: "(str \<times> row) list \<Rightarrow> json \<Rightarrow> (str \<times> row) list" where
  "add_controller d c =
     (case c of
        JObj ms \<Rightarrow>
          foldl (\<lambda>d (k, v). case v of JStr s \<Rightarrow> if s = [] then d else AList.update s (controller_details ms) d | _ \<Rightarrow> d)
            d (controller_details ms)
      | _ \<Rightarrow> d)"

definition controller_lookup :: "'s santricity \<Rightarrow> ('s sn_world, (str \<times> row) list) prog" where
  "controller_lookup sn =
     tryE (sn_request sn ''GET'' ''/controllers'' [] None True)
       (\<lambda>e. case e of RequestError status m \<Rightarrow> ret [] | _ \<Rightarrow> raiseE e)
       (\<lambda>controllers.
          bindE (liftR (json_iter (if json_truthy controllers then controllers else JArr []))) (\<lambda>cs.
          ret (foldl add_controller [] cs)))"

definition with_controller :: "row \<Rightarrow> row \<Rightarrow> row" where
  "with_controller row controller =
     foldl (\<lambda>r k. if \<not> row_truthy r k \<and> row_truthy controller k then AList.update k (row_get controller k) r else r)
       row [''controller_id'', ''controller_ref'', ''controller_label'']"

fun apply_candidates :: "row \<Rightarrow> (str \<times> row) list \<Rightarrow> json list \<Rightarrow> row" where
  "apply_candidates row by_key [] = row"
| "apply_candidates row by_key (candidate # rest) =
     (case candidate of
        JStr s \<Rightarrow>
          (case (if s = [] then None else map_of by_key s) of
             Some controller \<Rightarrow> with_controller row controller
           | None \<Rightarrow> apply_candidates row by_key rest)
      | _ \<Rightarrow> apply_candidates row by_key rest)"

definition apply_controller_details :: "(str \<times> row) list \<Rightarrow> row \<Rightarrow> row" where
  "apply_controller_details by_key row =
     apply_candidates row by_key [row_get row ''controller_ref'', row_get row ''controller_id'']"

definition row_matches :: "str list \<Rightarrow> str \<Rightarrow> row \<Rightarrow> bool" where
  "row_matches keys wanted row =
     (wanted = ''all'' \<or>
      list_ex (\<lambda>k. row_truthy row k \<and> normalize_filter_value (json_show (row_get row k)) = wanted) keys)"

definition matches_controller :: "row \<Rightarrow> str \<Rightarrow> bool" where
  "matches_controller row wanted = row_matches [''controller_label'', ''controller_ref'', ''controller_id''] wanted row"

definition matches_protocol :: "row \<Rightarrow> str \<Rightarrow> bool" where
  "matches_protocol row wanted = row_matches [''protocol'', ''transport''] wanted row"

definition finalize_row :: "row \<Rightarrow> row" where
  "finalize_row row =
     (let p = row_get row ''protocol'';
          row = (if p \<in> {JStr ''ib'', JStr ''ethernet'', JStr ''fibre''} \<and> \<not> dict_has row ''transport''
                 then row @ [(''transport'', p)] else row)
      in filter (\<lambda>(k, v). v \<noteq> JNull) row)"

subsection \<open>The report\<close>

definition interface_row :: "(str \<times> row) list \<Rightarrow> json \<Rightarrow> exn + row option" where
  "interface_row by_key entry =
     bindR (extract_protocol_payload entry) (\<lambda>found.
     case found of
       None \<Rightarrow> Inr None
     | Some (protocol, payload) \<Rightarrow>
         (case map_of PROTOCOL_FIELD_MAPPINGS protocol of
            None \<Rightarrow> Inr None
          | Some mappings \<Rightarrow>
              let row = row_update (extract_fields entry COMMON_FIELDS) (extract_fields payload mappings);
                  fallback = strip_string (resolve_field_path payload ''controllerRef'');
                  row = (if \<not> row_truthy row ''controller_ref'' \<and> json_truthy fallback
                         then AList.update ''controller_ref'' fallback row else row);
                  row = AList.update ''protocol'' (JStr protocol) (apply_command_protocol_details entry row)
              in Inr (Some (finalize_row (apply_controller_details by_key row)))))"

definition hostside_interfaces_report :: "'s santricity \<Rightarrow> str \<Rightarrow> str \<Rightarrow> ('s sn_world, row list) prog" where
  "hostside_interfaces_report sn controller protocol =
     bindE (controller_lookup sn) (\<lambda>by_key.
     bindE (get_system_hostside_interfaces sn) (\<lambda>entries.
     liftR (bindR (mapR (interface_row by_key) (filter is_object entries)) (\<lambda>rows.
       Inr (filter (\<lambda>r. matches_controller r (normalize_filter_value controller) \<and>
                        matches_protocol r (normalize_filter_value protocol))
              (concat (map (\<lambda>r. case r of None \<Rightarrow> [] | Some x \<Rightarrow> [x]) rows)))))))"

end
