(* ===== verification/Santricity.thy ===== *)
theory Santricity
  imports Controller SantricityReports
begin

text \<open>
  The SANtricity mediator (\<open>array_action/array_mediator_santricity.py\<close>) and the wrapper of the client it works with
  (\<open>array_action/santricity_rest_client.py\<close>), which fails over from one management address to the next.
\<close>

subsection \<open>Connecting\<close>

text \<open>The arguments of the wrapper are in \<open>sn\<close>: the user and the password, the certificates, the addresses.\<close>

definition endpoint_arguments :: "'s santricity \<Rightarrow> str option \<Rightarrow> str \<Rightarrow> client_arguments" where
  "endpoint_arguments sn system_id base_url =
     \<lparr>ca_base_url = base_url, ca_auth = sn_auth sn, ca_verify_ssl = sn_verify_ssl sn, ca_timeout = 30,
      ca_default_headers = [], ca_query_defaults = [], ca_release_version = None, ca_system_id = system_id\<rparr>"

definition endpoint_port :: "int list \<Rightarrow> nat \<Rightarrow> int" where
  "endpoint_port ports i = (if i < length ports then ports ! i else hd ports)"

definition endpoint_url :: "str \<Rightarrow> int \<Rightarrow> str" where
  "endpoint_url ip port = ''https://'' @ ip @ '':'' @ int_str port @ ''/devmgr/v2''"

text \<open>A new client, which has told the id of its storage system.\<close>

definition connect_to_endpoint :: "'s santricity \<Rightarrow> str option \<Rightarrow> str \<Rightarrow> ('s sn_world, 's santricity) prog" where
  "connect_to_endpoint sn system_id base_url =
     bindE (new_client sn (endpoint_arguments sn system_id base_url)) (\<lambda>client.
     bindE (sn_get_system_id client) (\<lambda>_. ret client))"

fun connect_to_endpoints ::
  "'s santricity \<Rightarrow> str option \<Rightarrow> int list \<Rightarrow> nat \<Rightarrow> exn option \<Rightarrow> str list \<Rightarrow> ('s sn_world, 's santricity) prog" where
  "connect_to_endpoints sn system_id ports i last_error [] =
     raiseE (Foreign ''Exception'' (''Could not connect to any SANtricity endpoints: '' @
       (case last_error of None \<Rightarrow> ''None'' | Some e \<Rightarrow> exn_text e)))"
| "connect_to_endpoints sn system_id ports i last_error (ip # ips) =
     catchE (connect_to_endpoint sn system_id (endpoint_url ip (endpoint_port ports i)))
       (\<lambda>e. connect_to_endpoints sn system_id ports (Suc i) (Some e) ips)"

definition connect_to_available_endpoint :: "'s santricity \<Rightarrow> str option \<Rightarrow> ('s sn_world, 's santricity) prog" where
  "connect_to_available_endpoint sn system_id = connect_to_endpoints sn system_id [8443, 8443] 0 None (sn_endpoint sn)"

subsection \<open>The wrapper of the client\<close>

definition rc_system_id :: "'s santricity \<Rightarrow> ('s sn_world, str) prog" where
  "rc_system_id sn = catchE (sn_get_system_id sn) (\<lambda>e. ret ''1'')"

definition rc_get_storage_systems :: "'s santricity \<Rightarrow> ('s sn_world, json) prog" where
  "rc_get_storage_systems sn = sn_request sn ''GET'' ''/storage-systems'' [] None False"

definition rc_create_volume ::
  "'s santricity \<Rightarrow> json \<Rightarrow> str \<Rightarrow> int \<Rightarrow> str option \<Rightarrow> str option \<Rightarrow> json list \<Rightarrow> ('s sn_world, json) prog" where
  "rc_create_volume sn pool_id name size_bytes raid_level workload_id meta_tags =
     volumes_create sn (payload_of
       [(''poolId'', pool_id), (''name'', JStr name), (''sizeUnit'', JStr ''bytes''), (''size'', JStr (int_str size_bytes))]
       [(''raidLevel'', opt_json raid_level), (''workloadId'', opt_json workload_id), (''metaTags'', JArr meta_tags)])"

definition rc_delete_volume :: "'s santricity \<Rightarrow> str \<Rightarrow> ('s sn_world, unit) prog" where
  "rc_delete_volume sn volume_id =
     catchE (bindE (volumes_delete sn (JStr volume_id)) (\<lambda>_. ret ()))
       (\<lambda>e. case e of
          RequestError status m \<Rightarrow>
            if status \<in> {Some 404, Some 405, Some 422} then delete_snapshot_volume sn (JStr volume_id) else raiseE e
        | _ \<Rightarrow> raiseE e)"

definition rc_get_volume :: "'s santricity \<Rightarrow> json \<Rightarrow> ('s sn_world, json) prog" where
  "rc_get_volume sn volume_id =
     catchE (volumes_get sn volume_id)
       (\<lambda>e. case e of
          RequestError status m \<Rightarrow>
            if status = Some 404
            then bindE (list_snapshot_volumes sn) (\<lambda>listed.
                 bindE (liftR (bindR (json_iter listed) (first_where (json_has_text [''viewRef'', ''id''] volume_id)))) (\<lambda>found.
                 case found of Some v \<Rightarrow> ret v | None \<Rightarrow> raiseE e))
            else raiseE e
        | _ \<Rightarrow> raiseE e)"

text \<open>\<open>a + b\<close> of two lists.\<close>

definition json_append :: "json \<Rightarrow> json \<Rightarrow> exn + json" where
  "json_append a b = (case (a, b) of (JArr vs, JArr ws) \<Rightarrow> Inr (JArr (vs @ ws)) | _ \<Rightarrow> Inl (PyErr TypeError))"

definition rc_list_volumes :: "'s santricity \<Rightarrow> ('s sn_world, json) prog" where
  "rc_list_volumes sn =
     bindE (volumes_list sn) (\<lambda>volumes. bindE (list_snapshot_volumes sn) (\<lambda>snapshots. liftR (json_append volumes snapshots)))"

text \<open>A volume of the name, of the pool when one is asked for; a snapshot volume counts for every pool.\<close>

definition is_volume_of :: "str \<Rightarrow> json \<Rightarrow> json \<Rightarrow> exn + bool" where
  "is_volume_of name pool_id vol =
     bindR (json_has_text [''name'', ''label''] (JStr name) vol) (\<lambda>named.
     if \<not> named then Inr False
     else if \<not> json_truthy pool_id then Inr True
     else case pool_id of
            JStr p \<Rightarrow>
              bindR (json_get vol ''viewRef'') (\<lambda>view.
              if json_truthy view then Inr True
              else bindR (json_get vol ''volumeGroupRef'') (\<lambda>r. bindR (json_get vol ''poolId'') (\<lambda>q.
                   Inr (r = pool_id \<or> q = pool_id))))
          | _ \<Rightarrow> Inl (PyErr AttributeError))"

definition rc_get_volume_by_name :: "'s santricity \<Rightarrow> str \<Rightarrow> json \<Rightarrow> ('s sn_world, json) prog" where
  "rc_get_volume_by_name sn name pool_id =
     bindE (rc_list_volumes sn) (\<lambda>volumes.
     liftR (bindR (json_iter volumes) (\<lambda>vs. bindR (first_where (is_volume_of name pool_id) vs) (\<lambda>found.
       Inr (case found of None \<Rightarrow> JNull | Some v \<Rightarrow> v)))))"

definition rc_expand_volume :: "'s santricity \<Rightarrow> str \<Rightarrow> int \<Rightarrow> ('s sn_world, json) prog" where
  "rc_expand_volume sn volume_id size_bytes = volumes_expand sn (JStr volume_id) size_bytes ''bytes''"

definition rc_create_volume_mapping :: "'s santricity \<Rightarrow> str \<Rightarrow> json \<Rightarrow> int option \<Rightarrow> ('s sn_world, json) prog" where
  "rc_create_volume_mapping sn volume_id target_id lun =
     mappings_map_volume sn (JStr volume_id) None target_id None JNull lun None"

definition rc_delete_volume_mapping :: "'s santricity \<Rightarrow> json \<Rightarrow> ('s sn_world, json) prog" where
  "rc_delete_volume_mapping sn mapping_id = sn_request sn ''DELETE'' (path_of ''/volume-mappings/'' mapping_id) [] None True"

definition rc_get_system_serial :: "'s santricity \<Rightarrow> ('s sn_world, json) prog" where
  "rc_get_system_serial sn =
     catchE (bindE (system_get_info sn) (\<lambda>info. liftR (json_first_of info [''serialNumber'', ''chassisSerialNumber''])))
       (\<lambda>e. ret JNull)"

text \<open>The payload is passed on as the name of the host.\<close>

definition rc_register_host :: "'s santricity \<Rightarrow> str \<Rightarrow> json list \<Rightarrow> int \<Rightarrow> ('s sn_world, json) prog" where
  "rc_register_host sn name ports host_type_index =
     hosts_create sn (JObj [(''name'', JStr name), (''hostType'', JObj [(''index'', JInt host_type_index)]),
                            (''ports'', JArr ports)]) 28 [] ''iscsi'' None"

text \<open>The request has no argument \<open>payload\<close>: the call is a \<open>TypeError\<close>.\<close>

definition rc_append_host_port :: "'s santricity \<Rightarrow> json \<Rightarrow> str \<Rightarrow> str \<Rightarrow> str \<Rightarrow> ('s sn_world, json) prog" where
  "rc_append_host_port sn host_id label port_type address = raiseE (PyErr TypeError)"

definition rc_discard_host_port :: "'s santricity \<Rightarrow> json \<Rightarrow> json \<Rightarrow> ('s sn_world, json) prog" where
  "rc_discard_host_port sn host_id port_ref =
     sn_request sn ''DELETE'' (path_of (path_of ''/hosts/'' host_id @ ''/ports/'') port_ref) [] None True"

definition rc_get_host_types :: "'s santricity \<Rightarrow> ('s sn_world, json) prog" where
  "rc_get_host_types sn = sn_request sn ''GET'' ''/host-types'' [] None True"

definition rc_create_snapshot_group :: "'s santricity \<Rightarrow> str \<Rightarrow> str \<Rightarrow> int \<Rightarrow> ('s sn_world, json) prog" where
  "rc_create_snapshot_group sn volume_id name percent_capacity =
     bindE (get_repo_group_candidates_single sn volume_id percent_capacity False ''snapshot'') (\<lambda>candidates.
     if \<not> json_truthy candidates
     then raiseE (Foreign ''Exception'' (''No repository candidates found for volume '' @ volume_id))
     else bindE (liftR (json_index0 candidates)) (\<lambda>c.
          create_group sn (JObj [(''baseMappableObjectId'', JStr volume_id), (''name'', JStr name),
                                 (''repositoryCandidate'', c)])))"

definition rc_get_snapshot_group :: "'s santricity \<Rightarrow> json \<Rightarrow> ('s sn_world, json) prog" where
  "rc_get_snapshot_group sn group_id =
     bindE (list_snapshot_groups sn) (\<lambda>groups. liftR (find_entry [''id'', ''pitGroupRef''] group_id groups))"

definition rc_create_snapshot_volume :: "'s santricity \<Rightarrow> str \<Rightarrow> json \<Rightarrow> str \<Rightarrow> ('s sn_world, json) prog" where
  "rc_create_snapshot_volume sn name snapshot_image_id view_mode =
     create_snapshot_volume sn
       (JObj [(''name'', JStr name), (''snapshotImageId'', snapshot_image_id), (''viewMode'', JStr view_mode)])"

subsection \<open>Volumes\<close>

definition text_or_blank :: "json \<Rightarrow> str" where
  "text_or_blank v = (if v = JNull then [] else json_show v)"

definition sa_to_volume_object :: "'s santricity \<Rightarrow> json \<Rightarrow> exn + volume" where
  "sa_to_volume_object sn vol =
     bindR (json_first_of vol [''volumeRef'', ''id'', ''viewRef'']) (\<lambda>vol_id.
     bindR (json_first_of vol [''capacity'', ''viewCapacity'']) (\<lambda>capacity.
     bindR (json_get vol ''volumeGroupRef'') (\<lambda>pool_id.
     bindR (if json_truthy capacity then json_int capacity else Inr 0) (\<lambda>bytes.
     bindR (json_get vol ''label'') (\<lambda>label.
     bindR (json_get_or vol ''name'' (JStr [])) (\<lambda>name.
     Inr \<lparr>vol_name = text_or_blank (if json_truthy label then label else name), vol_id = text_or_blank vol_id,
          vol_internal_id = text_or_blank vol_id, vol_array_type = ARRAY_TYPE_SANTRICITY, vol_capacity_bytes = bytes,
          vol_array_address = sn_endpoint sn, vol_source_id = None,
          vol_pool = (if json_truthy pool_id then json_show pool_id else []),
          vol_space_efficiency_aliases = [], vol_volume_group_id = None, vol_volume_group_name = None,
          vol_partition_name = None\<rparr>))))))"

fun pool_ref_in :: "json \<Rightarrow> json list \<Rightarrow> exn + json" where
  "pool_ref_in pool_name [] = Inr pool_name"
| "pool_ref_in pool_name (p # ps) =
     bindR (json_has_text [''label'', ''volumeGroupRef''] pool_name p) (\<lambda>b.
     if b then json_item p ''volumeGroupRef'' else pool_ref_in pool_name ps)"

definition sa_get_pool_id :: "'s santricity \<Rightarrow> str option \<Rightarrow> ('s sn_world, json) prog" where
  "sa_get_pool_id sn pool_name =
     bindE (pools_list sn) (\<lambda>pools. liftR (bindR (json_iter pools) (pool_ref_in (opt_json pool_name))))"

definition RAID_LEVELS :: "str list" where
  "RAID_LEVELS = [''raid1'', ''raid5'', ''raid6'', ''raid10'']"

definition raid_level_of :: "str option \<Rightarrow> str option" where
  "raid_level_of space_efficiency =
     (if truthy space_efficiency
      then let l = py_lower (the space_efficiency) in
           if l \<in> set RAID_LEVELS then Some l else if l = ''none'' then None else Some ''raidAll''
      else Some ''raidAll'')"

definition metadata_mapping :: "(str \<times> str) list" where
  "metadata_mapping =
     [(''csi.storage.k8s.io/pvc/name'', ''pvc_name''), (''csi.storage.k8s.io/pvc/namespace'', ''pvc_namespace''),
      (''csi.storage.k8s.io/pv/name'', ''pv_name''), (''csi.storage.k8s.io/fstype'', ''fstype'')]"

definition meta_tags_of :: "sdict \<Rightarrow> json list" where
  "meta_tags_of extra_parameters =
     concat (map (\<lambda>(k8s_key, tag_key).
        if truthy (map_of extra_parameters k8s_key)
        then [JObj [(''key'', JStr tag_key), (''value'', JStr (the (map_of extra_parameters k8s_key)))]] else [])
       metadata_mapping)"

text \<open>\<open>sort(key=lambda x: int(x.get('pitTimestamp', '0')), reverse=True)\<close>: equal images stay in their order.\<close>

definition newest_first :: "json list \<Rightarrow> exn + json list" where
  "newest_first images =
     bindR (mapR (\<lambda>v. bindR (bindR (json_get_or v ''pitTimestamp'' (JStr ''0'')) json_int) (\<lambda>t. Inr (t, v))) images) (\<lambda>keyed.
     Inr (map snd (sort_key (\<lambda>(t, v). - t) keyed)))"

text \<open>The image a snapshot volume is made of; the id of a group stands for its newest image.\<close>

definition source_image :: "'s santricity \<Rightarrow> object_ids \<Rightarrow> ('s sn_world, json) prog" where
  "source_image sn source_ids =
     (let i = (if truthy (ids_uid source_ids) then ids_uid source_ids else ids_internal_id source_ids) in
      case i of
        None \<Rightarrow> raiseE (PyErr AttributeError)
      | Some text \<Rightarrow>
          let image_id = (if CHR '';'' \<in> set text then hd (py_split (CHR '';'') text) else text) in
          if \<not> py_startswith image_id ''33'' then ret (JStr image_id)
          else bindE (list_all_images sn) (\<lambda>listed.
               liftR (bindR (json_iter listed) (\<lambda>images.
                 bindR (filter_where (json_is ''pitGroupRef'' (JStr image_id)) images) (\<lambda>g_images.
                 bindR (newest_first g_images) (\<lambda>sorted.
                 case sorted of [] \<Rightarrow> Inr (JStr image_id) | v # vs \<Rightarrow> json_first_of v [''pitRef'', ''id'']))))))"

definition sa_create_volume ::
  "'s santricity \<Rightarrow> str \<Rightarrow> int \<Rightarrow> str option \<Rightarrow> str \<Rightarrow> str option \<Rightarrow> str option \<Rightarrow> object_ids \<Rightarrow> str option \<Rightarrow> bool \<Rightarrow>
    str option \<Rightarrow> str option \<Rightarrow> sdict \<Rightarrow> ('s sn_world, volume) prog" where
  "sa_create_volume sn name size_in_bytes space_efficiency pool io_group volume_group source_ids source_type
     is_virt_snap_func partition_name partition_vg extra_parameters =
     bindE (sa_get_pool_id sn (Some pool)) (\<lambda>pool_id.
     let raid_level = raid_level_of space_efficiency;
         create = (\<lambda>raid. bindE (rc_create_volume sn pool_id name size_in_bytes raid None (meta_tags_of extra_parameters))
                     (\<lambda>v. liftR (sa_to_volume_object sn v)));
         failed = raiseE (ArrayErr (VolumeCreationError name)) in
     catchE
       (if source_type = Some SNAPSHOT_TYPE_NAME \<and> object_ids_truthy source_ids
        then bindE (source_image sn source_ids) (\<lambda>image_id.
             bindE (rc_create_snapshot_volume sn name image_id ''readOnly'') (\<lambda>v. liftR (sa_to_volume_object sn v)))
        else create raid_level)
       (\<lambda>e. if source_type = Some SNAPSHOT_TYPE_NAME then raiseE e
            else if raid_level = Some ''raidAll'' \<and> \<not> truthy space_efficiency then catchE (create None) (\<lambda>_. failed)
            else failed))"

text \<open>Whatever goes wrong, the volume is reported as not found.\<close>

definition sa_delete_volume :: "'s santricity \<Rightarrow> str \<Rightarrow> str option \<Rightarrow> ('s sn_world, unit) prog" where
  "sa_delete_volume sn volume_id partition_name =
     catchE (rc_delete_volume sn volume_id) (\<lambda>e. raiseE (ArrayErr (ObjectNotFoundError volume_id)))"

definition sa_get_volume :: "'s santricity \<Rightarrow> str \<Rightarrow> str option \<Rightarrow> bool \<Rightarrow> ('s sn_world, volume) prog" where
  "sa_get_volume sn name pool is_virt_snap_func =
     bindE (sa_get_pool_id sn pool) (\<lambda>pool_id.
     bindE (rc_get_volume_by_name sn name pool_id) (\<lambda>vol_data.
     if \<not> json_truthy vol_data then raiseE (ArrayErr (ObjectNotFoundError name))
     else liftR (sa_to_volume_object sn vol_data)))"

text \<open>The module of errors has no class \<open>ExpandVolumeError\<close>.\<close>

definition sa_expand_volume :: "'s santricity \<Rightarrow> str \<Rightarrow> int \<Rightarrow> str option \<Rightarrow> ('s sn_world, unit) prog" where
  "sa_expand_volume sn volume_id required_bytes partition_name =
     catchE (bindE (rc_expand_volume sn volume_id required_bytes) (\<lambda>_. ret ())) (\<lambda>e. raiseE (PyErr AttributeError))"

subsection \<open>Mappings\<close>

text \<open>The id of a host, and what it is mapped as: its cluster when it has one.\<close>

definition host_id_of :: "json \<Rightarrow> exn + json" where
  "host_id_of host = json_first_of host [''id'', ''hostRef'']"

definition is_cluster :: "json \<Rightarrow> bool" where
  "is_cluster cluster_ref = (json_truthy cluster_ref \<and> cluster_ref \<noteq> JStr NO_CLUSTER)"

definition mapping_target :: "json \<Rightarrow> exn + json" where
  "mapping_target host =
     bindR (host_id_of host) (\<lambda>host_id. bindR (json_get host ''clusterRef'') (\<lambda>cluster_ref.
     Inr (if is_cluster cluster_ref then cluster_ref else host_id)))"

definition require_host :: "'s santricity \<Rightarrow> str \<Rightarrow> ('s sn_world, json) prog" where
  "require_host sn hname =
     bindE (hosts_get_by_identifiers sn hname) (\<lambda>host.
     if json_truthy host then ret host else raiseE (ArrayErr (HostNotFoundError hname)))"

definition sa_map_volume :: "'s santricity \<Rightarrow> str \<Rightarrow> str \<Rightarrow> str option \<Rightarrow> ('s sn_world, str) prog" where
  "sa_map_volume sn volume_id hname connectivity_type =
     bindE (require_host sn hname) (\<lambda>host.
     bindE (liftR (mapping_target host)) (\<lambda>target.
     catchE
       (bindE (rc_create_volume_mapping sn volume_id target None) (\<lambda>mapping.
        liftR (bindR (json_item mapping ''lun'') (\<lambda>lun. Inr (json_show lun)))))
       (\<lambda>e. raiseE (ArrayErr (MappingError volume_id hname (exn_text e))))))"

definition mapping_volume :: "json \<Rightarrow> exn + json" where
  "mapping_volume m = json_first_of m [''volumeRef'', ''mappableObjectId'']"

definition mapping_target_ref :: "json \<Rightarrow> exn + json" where
  "mapping_target_ref m = json_first_of m [''mapRef'', ''targetId'']"

text \<open>The LUN of the volume per target; a later mapping of a target replaces an earlier one.\<close>

definition hashable :: "json \<Rightarrow> exn + json" where
  "hashable v = (case v of JArr vs \<Rightarrow> Inl (PyErr TypeError) | JObj ms \<Rightarrow> Inl (PyErr TypeError) | _ \<Rightarrow> Inr v)"

fun target_luns :: "str \<Rightarrow> (json \<times> str) list \<Rightarrow> json list \<Rightarrow> exn + (json \<times> str) list" where
  "target_luns volume_id acc [] = Inr acc"
| "target_luns volume_id acc (m # ms) =
     bindR (mapping_volume m) (\<lambda>vol_ref.
     if vol_ref \<noteq> JStr volume_id then target_luns volume_id acc ms
     else bindR (mapping_target_ref m) (\<lambda>target_ref.
          bindR (json_get m ''lun'') (\<lambda>lun.
          if json_truthy target_ref \<and> lun \<noteq> JNull
          then bindR (hashable target_ref) (\<lambda>t. target_luns volume_id (AList.update t (json_show lun) acc) ms)
          else target_luns volume_id acc ms)))"

fun mapped_hosts :: "(json \<times> str) list \<Rightarrow> (str \<times> str) list \<Rightarrow> json list \<Rightarrow> exn + (str \<times> str) list" where
  "mapped_hosts luns acc [] = Inr acc"
| "mapped_hosts luns acc (host # hosts) =
     bindR (bindR (host_id_of host) hashable) (\<lambda>host_id.
     bindR (json_get host ''clusterRef'') (\<lambda>cluster_ref.
     bindR (json_first_of host [''label'', ''name'']) (\<lambda>hname.
     case map_of luns host_id of
       Some lun \<Rightarrow> mapped_hosts luns (AList.update (json_show hname) lun acc) hosts
     | None \<Rightarrow>
         bindR (hashable cluster_ref) (\<lambda>c.
         case map_of luns c of
           Some lun \<Rightarrow>
             mapped_hosts luns (if c \<noteq> JStr NO_CLUSTER then AList.update (json_show hname) lun acc else acc) hosts
         | None \<Rightarrow> mapped_hosts luns acc hosts))))"

definition sa_get_volume_mappings :: "'s santricity \<Rightarrow> str \<Rightarrow> ('s sn_world, (str \<times> str) list) prog" where
  "sa_get_volume_mappings sn volume_id =
     catchE
       (bindE (mappings_list sn) (\<lambda>mappings.
        bindE (liftR (bindR (json_iter mappings) (target_luns volume_id []))) (\<lambda>luns.
        if luns = [] then ret []
        else bindE (hosts_list sn) (\<lambda>hosts. liftR (bindR (json_iter hosts) (mapped_hosts luns []))))))
       (\<lambda>e. raiseE (ArrayErr (MappingError volume_id ''all'' (exn_text e))))"

text \<open>The first mapping of the volume to the host, or to its cluster, that has an id.\<close>

definition is_mapping_of :: "str \<Rightarrow> json \<Rightarrow> json \<Rightarrow> json \<Rightarrow> exn + bool" where
  "is_mapping_of volume_id host_id cluster_ref m =
     bindR (mapping_volume m) (\<lambda>vol_ref. bindR (mapping_target_ref m) (\<lambda>target_ref.
     bindR (json_first_of m [''id'', ''lunMappingRef'', ''mappingRef'']) (\<lambda>mapping_id.
     Inr (vol_ref = JStr volume_id \<and> (target_ref = host_id \<or> json_truthy cluster_ref \<and> target_ref = cluster_ref) \<and>
          json_truthy mapping_id))))"

definition sa_unmap_volume :: "'s santricity \<Rightarrow> str \<Rightarrow> str \<Rightarrow> ('s sn_world, unit) prog" where
  "sa_unmap_volume sn volume_id hname =
     bindE (hosts_get_by_identifiers sn hname) (\<lambda>host.
     if \<not> json_truthy host then ret ()
     else bindE (liftR (host_id_of host)) (\<lambda>host_id.
          bindE (liftR (json_get host ''clusterRef'')) (\<lambda>cluster_ref.
          bindE (mappings_list sn) (\<lambda>mappings.
          bindE (liftR (bindR (json_iter mappings) (first_where (is_mapping_of volume_id host_id cluster_ref)))) (\<lambda>found.
          case found of
            None \<Rightarrow> ret ()
          | Some m \<Rightarrow>
              bindE (liftR (json_first_of m [''id'', ''lunMappingRef'', ''mappingRef''])) (\<lambda>mapping_id.
              bindE (rc_delete_volume_mapping sn mapping_id) (\<lambda>_. ret ())))))))"

subsection \<open>Hosts\<close>

definition host_side_ports :: "json \<Rightarrow> exn + json list" where
  "host_side_ports host = bindR (json_get_or host ''hostSidePorts'' (JArr [])) json_iter"

definition NVME_PORT_TYPES :: "json list" where
  "NVME_PORT_TYPES = [JStr ''nvmeof'', JStr ''nvmeRoce'', JStr ''nvme'']"

text \<open>The type of connectivity of a port, when it is one of the wanted ones, with its address.\<close>

definition typed_port :: "str list \<Rightarrow> json \<Rightarrow> exn + (str \<times> str) option" where
  "typed_port wanted p =
     bindR (json_get p ''type'') (\<lambda>ptype.
     let address = (\<lambda>t. bindR (bindR (json_item p ''address'') json_str) (\<lambda>a. Inr (Some (t, a)))) in
     if ptype = JStr ''iscsi'' \<and> ISCSI \<in> set wanted then address ISCSI
     else if ptype \<in> set NVME_PORT_TYPES \<and> NVME_OVER_ROCE \<in> set wanted then address NVME_OVER_ROCE
     else Inr None)"

definition typed_ports :: "str list \<Rightarrow> json \<Rightarrow> exn + (str \<times> str) list" where
  "typed_ports wanted host =
     bindR (host_side_ports host) (\<lambda>ports. bindR (mapR (typed_port wanted) ports) (\<lambda>found.
     Inr (concat (map (\<lambda>p. case p of None \<Rightarrow> [] | Some x \<Rightarrow> [x]) found))))"

definition ports_of_type :: "str \<Rightarrow> (str \<times> str) list \<Rightarrow> str list" where
  "ports_of_type t ports = map snd (filter (\<lambda>(u, a). u = t) ports)"

definition sa_get_host_by_name :: "'s santricity \<Rightarrow> str \<Rightarrow> ('s sn_world, host) prog" where
  "sa_get_host_by_name sn hname =
     bindE (require_host sn hname) (\<lambda>host.
     bindE (liftR (typed_ports [ISCSI, NVME_OVER_ROCE] host)) (\<lambda>ports.
     bindE (liftR (json_item host ''label'')) (\<lambda>label.
     ret \<lparr>host_name = json_show label, host_connectivity_types = foldl (\<lambda>ts (t, a). if t \<in> set ts then ts else ts @ [t]) [] ports,
          host_initiators = mk_initiators (ports_of_type NVME_OVER_ROCE ports) [] (ports_of_type ISCSI ports)\<rparr>)))"

fun host_with_port :: "'s santricity \<Rightarrow> str \<Rightarrow> str list \<Rightarrow> ('s sn_world, (str \<times> str list) option) prog" where
  "host_with_port sn t [] = ret None"
| "host_with_port sn t (port # ports) =
     bindE (hosts_get_by_identifiers sn port) (\<lambda>host.
     if json_truthy host
     then bindE (liftR (json_item host ''label'')) (\<lambda>label. ret (Some (json_show label, [t])))
     else host_with_port sn t ports)"

definition sa_get_host_by_host_identifiers :: "'s santricity \<Rightarrow> initiators \<Rightarrow> ('s sn_world, str \<times> str list) prog" where
  "sa_get_host_by_host_identifiers sn i =
     bindE (host_with_port sn NVME_OVER_ROCE (nvme_nqns i)) (\<lambda>by_nqn.
     case by_nqn of
       Some h \<Rightarrow> ret h
     | None \<Rightarrow>
         bindE (host_with_port sn ISCSI (iscsi_iqns i)) (\<lambda>by_iqn.
         case by_iqn of
           Some h \<Rightarrow> ret h
         | None \<Rightarrow> raiseE (ArrayErr (HostNotFoundError (list_repr (map snd (initiators_iter i)))))))"

text \<open>The name of the target, which the answer has in a dictionary or as a text.\<close>

definition target_name :: "str \<Rightarrow> json \<Rightarrow> exn + json" where
  "target_name k target_settings =
     bindR (json_get target_settings ''nodeName'') (\<lambda>field. case field of JObj ms \<Rightarrow> json_get field k | _ \<Rightarrow> Inr field)"

definition is_iscsi_portal :: "row \<Rightarrow> bool" where
  "is_iscsi_portal i = (row_truthy i ''is_link_up'' \<and> row_truthy i ''is_ipv4_enabled'' \<and> row_truthy i ''ipv4_address'')"

definition is_nvme_portal :: "row \<Rightarrow> bool" where
  "is_nvme_portal i =
     (row_get i ''command_protocol'' = JStr ''nvme'' \<and> row_truthy i ''is_link_up'' \<and>
      row_truthy i ''is_command_ipv4_ready'' \<and> row_truthy i ''command_ipv4_address'')"

definition portals :: "(row \<Rightarrow> bool) \<Rightarrow> str \<Rightarrow> row list \<Rightarrow> str list" where
  "portals is_portal k interfaces = map (\<lambda>i. json_show (row_get i k)) (filter is_portal interfaces)"

definition sa_get_array_initiators :: "'s santricity \<Rightarrow> str \<Rightarrow> str option \<Rightarrow> ('s sn_world, array_initiators) prog" where
  "sa_get_array_initiators sn hname connectivity_type =
     (if connectivity_type = Some ISCSI
      then bindE (iscsi_target_settings sn) (\<lambda>target_settings.
           bindE (liftR (target_name ''iscsiNodeName'' target_settings)) (\<lambda>iqn.
           bindE (hostside_interfaces_report sn ''all'' ''iscsi'') (\<lambda>interfaces.
           ret (TargetMap (if json_truthy iqn
             then [(json_show iqn, portals is_iscsi_portal ''ipv4_address'' interfaces)] else [])))))
      else if connectivity_type = Some NVME_OVER_ROCE
      then bindE (nvme_target_settings sn) (\<lambda>target_settings.
           bindE (liftR (target_name ''nvmeNodeName'' target_settings)) (\<lambda>nqn.
           bindE (hostside_interfaces_report sn ''all'' ''ethernet'') (\<lambda>interfaces.
           bindE (rc_get_system_serial sn) (\<lambda>serial.
           let targets = (if json_truthy nqn
                 then [(json_show nqn, portals is_nvme_portal ''command_ipv4_address'' interfaces)] else []) in
           ret (TargetMap (if json_truthy serial
             then AList.update ''ARRAY_SERIAL_PARAM'' [json_show serial] targets else targets))))))
      else ret (TargetMap []))"

text \<open>A target whose name is a dictionary cannot be the key of one.\<close>

definition sa_get_iscsi_targets_by_iqn :: "'s santricity \<Rightarrow> str \<Rightarrow> ('s sn_world, (str \<times> str list) list) prog" where
  "sa_get_iscsi_targets_by_iqn sn hname =
     bindE (iscsi_target_settings sn) (\<lambda>target_settings.
     liftR (bindR (json_get target_settings ''nodeName'') (\<lambda>iqn.
       bindR (bindR (json_get_or target_settings ''portals'' (JArr [])) json_iter) (\<lambda>ps.
       bindR (mapR (\<lambda>p. json_get p ''address'') ps) (\<lambda>addresses.
       if \<not> json_truthy iqn \<or> addresses = [] then Inl (ArrayErr (NoIscsiTargetsFoundError (list_repr (sn_endpoint sn))))
       else bindR (hashable iqn) (\<lambda>n. Inr [(json_show n, map text_or_blank addresses)]))))))"

definition sa_create_host ::
  "'s santricity \<Rightarrow> str \<Rightarrow> initiators \<Rightarrow> str option \<Rightarrow> str \<Rightarrow> str option \<Rightarrow> str option \<Rightarrow> ('s sn_world, unit) prog" where
  "sa_create_host sn hname i connectivity_type io_group partition_name port_set =
     bindE (hosts_get_by_identifiers sn hname) (\<lambda>existing.
     if json_truthy existing then raiseE (ArrayErr (HostAlreadyExists hname (list_repr (sn_endpoint sn))))
     else
       let port = (\<lambda>t suffix a. JObj [(''type'', JStr t), (''address'', JStr a), (''label'', JStr (hname @ suffix))]);
           ports = (if connectivity_type = Some ISCSI then map (port ''iscsi'' ''_iscsi'') (iscsi_iqns i)
                    else if connectivity_type = Some NVME_OVER_ROCE then map (port ''nvmeof'' ''_nvme'') (nvme_nqns i)
                    else [])
       in bindE (rc_register_host sn hname ports (-1)) (\<lambda>_. ret ()))"

definition sa_delete_host :: "'s santricity \<Rightarrow> str \<Rightarrow> ('s sn_world, unit) prog" where
  "sa_delete_host sn hname =
     bindE (hosts_get_by_identifiers sn hname) (\<lambda>host.
     if \<not> json_truthy host then ret ()
     else bindE (liftR (json_item host ''id'')) (\<lambda>i. bindE (hosts_delete sn i) (\<lambda>_. ret ())))"

definition sa_add_ports_to_host :: "'s santricity \<Rightarrow> str \<Rightarrow> initiators \<Rightarrow> str option \<Rightarrow> ('s sn_world, unit) prog" where
  "sa_add_ports_to_host sn hname i connectivity_type =
     bindE (require_host sn hname) (\<lambda>host.
     bindE (liftR (json_item host ''id'')) (\<lambda>host_id.
     bindE (liftR (bindR (host_side_ports host) (mapR (\<lambda>p. json_item p ''address'')))) (\<lambda>current_ports.
     let append = (\<lambda>t suffix a. if JStr a \<in> set current_ports then ret ()
            else bindE (rc_append_host_port sn host_id (hname @ suffix) t a) (\<lambda>_. ret ())) in
     if connectivity_type = Some ISCSI then forE (append ''iscsi'' ''_iscsi'') (iscsi_iqns i)
     else if connectivity_type = Some NVME_OVER_ROCE then forE (append ''nvmeof'' ''_nvme'') (nvme_nqns i)
     else ret ())))"

definition sa_remove_ports_from_host :: "'s santricity \<Rightarrow> str \<Rightarrow> str list \<Rightarrow> str option \<Rightarrow> ('s sn_world, unit) prog" where
  "sa_remove_ports_from_host sn hname ports connectivity_type =
     bindE (hosts_get_by_identifiers sn hname) (\<lambda>host.
     if \<not> json_truthy host then ret ()
     else bindE (liftR (json_item host ''id'')) (\<lambda>host_id.
          bindE (liftR (host_side_ports host)) (\<lambda>found.
          forE (\<lambda>p. bindE (liftR (json_item p ''address'')) (\<lambda>a.
            if a \<in> JStr ` set ports
            then bindE (liftR (json_item p ''portRef'')) (\<lambda>r. bindE (rc_discard_host_port sn host_id r) (\<lambda>_. ret ()))
            else ret ())) found)))"

definition sa_get_host_connectivity_ports :: "'s santricity \<Rightarrow> str \<Rightarrow> str option \<Rightarrow> ('s sn_world, str list) prog" where
  "sa_get_host_connectivity_ports sn hname connectivity_type =
     bindE (require_host sn hname) (\<lambda>host.
     bindE (liftR (typed_ports (case connectivity_type of None \<Rightarrow> [] | Some t \<Rightarrow> [t]) host)) (\<lambda>ports.
     ret (map snd ports)))"

definition sa_get_host_connectivity_type :: "'s santricity \<Rightarrow> str \<Rightarrow> ('s sn_world, str option) prog" where
  "sa_get_host_connectivity_type sn hname =
     bindE (sa_get_host_by_name sn hname) (\<lambda>h.
     ret (case host_connectivity_types h of [] \<Rightarrow> None | t # ts \<Rightarrow> Some t))"

definition sa_is_active :: "'s santricity \<Rightarrow> ('s sn_world, bool) prog" where
  "sa_is_active sn = tryE (rc_list_volumes sn) (\<lambda>e. ret False) (\<lambda>_. ret True)"

subsection \<open>Snapshots\<close>

definition sa_to_snapshot_object :: "'s santricity \<Rightarrow> json \<Rightarrow> str \<Rightarrow> json \<Rightarrow> json \<Rightarrow> json \<Rightarrow> exn + snapshot" where
  "sa_to_snapshot_object sn snapshot_id name base_volume group_ref volume_data =
     bindR (if json_truthy volume_data then bindR (json_item volume_data ''capacity'') json_int else Inr 0) (\<lambda>bytes.
     Inr \<lparr>vol_name = name, vol_id = text_or_blank snapshot_id, vol_internal_id = text_or_blank snapshot_id,
          vol_array_type = ARRAY_TYPE_SANTRICITY, vol_capacity_bytes = bytes, vol_array_address = sn_endpoint sn,
          vol_source_id = (if base_volume = JNull then None else Some (json_show base_volume)),
          vol_pool = text_or_blank group_ref, vol_space_efficiency_aliases = [], vol_volume_group_id = None,
          vol_volume_group_name = None, vol_partition_name = None, snap_is_ready = True\<rparr>)"

text \<open>The snapshot of an image: its id, its group and the size of its volume.\<close>

definition snapshot_of_image :: "'s santricity \<Rightarrow> json \<Rightarrow> str \<Rightarrow> json \<Rightarrow> json \<Rightarrow> exn + snapshot" where
  "snapshot_of_image sn img name base_volume vol_data =
     bindR (json_first_of img [''pitRef'', ''id'']) (\<lambda>i. bindR (json_get img ''pitGroupRef'') (\<lambda>group_ref.
     sa_to_snapshot_object sn i name base_volume group_ref vol_data))"

definition sa_get_object_by_id :: "'s santricity \<Rightarrow> str \<Rightarrow> str option \<Rightarrow> bool \<Rightarrow> ('s sn_world, volume option) prog" where
  "sa_get_object_by_id sn object_id object_type is_virt_snap_func =
     (if object_type = Some VOLUME_TYPE_NAME
      then catchE (bindE (rc_get_volume sn (JStr object_id)) (\<lambda>v. liftR (bindR (sa_to_volume_object sn v) (\<lambda>r. Inr (Some r)))))
             (\<lambda>e. ret None)
      else if object_type = Some SNAPSHOT_TYPE_NAME
      then catchE
             (bindE (list_all_images sn) (\<lambda>listed.
              bindE (liftR (bindR (json_iter listed) (\<lambda>images. bindR (newest_first images)
                (first_where (json_has_text [''pitRef'', ''id'', ''pitGroupRef''] (JStr object_id)))))) (\<lambda>found.
              case found of
                None \<Rightarrow> ret None
              | Some img \<Rightarrow>
                  bindE (liftR (json_get img ''baseVol'')) (\<lambda>base_volume.
                  bindE (rc_get_volume sn base_volume) (\<lambda>vol_data.
                  liftR (bindR (snapshot_of_image sn img [] base_volume vol_data) (\<lambda>r. Inr (Some (volume.truncate r)))))))))
             (\<lambda>e. ret None)
      else ret None)"

text \<open>The last four characters of the name; an image counts when the name of its group ends with them.\<close>

definition short_suffix :: "str \<Rightarrow> str" where
  "short_suffix snapshot_name = (if 4 \<le> length snapshot_name then py_last_n 4 snapshot_name else snapshot_name)"

definition is_group_name :: "str \<Rightarrow> json \<Rightarrow> exn + bool" where
  "is_group_name snapshot_name g_name =
     (if g_name = JStr snapshot_name then Inr True
      else bindR (json_str g_name) (\<lambda>n. Inr (py_endswith n (''_'' @ short_suffix snapshot_name))))"

fun image_of_snapshot :: "'s santricity \<Rightarrow> str \<Rightarrow> str \<Rightarrow> json list \<Rightarrow> ('s sn_world, json option) prog" where
  "image_of_snapshot sn volume_id snapshot_name [] = ret None"
| "image_of_snapshot sn volume_id snapshot_name (img # images) =
     bindE (liftR (json_get img ''baseVol'')) (\<lambda>base_volume.
     if base_volume \<noteq> JStr volume_id then image_of_snapshot sn volume_id snapshot_name images
     else bindE (liftR (json_get img ''pitGroupRef'')) (\<lambda>group_ref.
          bindE (rc_get_snapshot_group sn group_ref) (\<lambda>g.
          bindE (liftR (bindR (if json_truthy g then json_get_or g ''name'' (JStr []) else Inr (JStr []))
            (is_group_name snapshot_name))) (\<lambda>b.
          if b then ret (Some img) else image_of_snapshot sn volume_id snapshot_name images))))"

definition sa_get_snapshot ::
  "'s santricity \<Rightarrow> str \<Rightarrow> str \<Rightarrow> str option \<Rightarrow> bool \<Rightarrow> ('s sn_world, snapshot option) prog" where
  "sa_get_snapshot sn volume_id snapshot_name pool is_virt_snap_func =
     bindE (list_all_images sn) (\<lambda>listed.
     bindE (liftR (json_iter listed)) (\<lambda>images.
     bindE (image_of_snapshot sn volume_id snapshot_name images) (\<lambda>found.
     case found of
       None \<Rightarrow> ret None
     | Some img \<Rightarrow>
         bindE (rc_get_volume sn (JStr volume_id)) (\<lambda>vol_data.
         liftR (bindR (snapshot_of_image sn img snapshot_name (JStr volume_id) vol_data) (\<lambda>r. Inr (Some r)))))))"

definition snapshot_group_name :: "json \<Rightarrow> str \<Rightarrow> exn + str" where
  "snapshot_group_name vol_data snapshot_name =
     bindR (bindR (json_get_or vol_data ''name'' (JStr ''unknown'')) json_text) (\<lambda>vol_name.
     Inr (take 24 vol_name @ ''_'' @ short_suffix snapshot_name))"

definition auto_limits :: "str \<Rightarrow> group_limits" where
  "auto_limits volume_id =
     \<lparr>gl_volume_ref = volume_id, gl_include_schedule_owned_groups = True, gl_min_free_percent = 10,
      gl_max_repo_group_capacity_percent = 200, gl_max_repo_volumes_per_group = 16\<rparr>"

text \<open>The newest image of the volume, or the one that was just taken when the list has none.\<close>

definition taken_image :: "'s santricity \<Rightarrow> str \<Rightarrow> json \<Rightarrow> ('s sn_world, json) prog" where
  "taken_image sn volume_id image_data =
     bindE (list_all_images sn) (\<lambda>listed.
     liftR (bindR (json_iter listed) (\<lambda>images.
       bindR (filter_where (json_is ''baseVol'' (JStr volume_id)) images) (\<lambda>v_images.
       bindR (newest_first v_images) (\<lambda>sorted.
       Inr (case sorted of [] \<Rightarrow> image_data | v # vs \<Rightarrow> v))))))"

definition sa_create_snapshot ::
  "'s santricity \<Rightarrow> str \<Rightarrow> str \<Rightarrow> str option \<Rightarrow> str option \<Rightarrow> bool \<Rightarrow> str option \<Rightarrow> int option \<Rightarrow> ('s sn_world, snapshot) prog" where
  "sa_create_snapshot sn volume_id snapshot_name space_efficiency pool is_virt_snap_func partition_name
     initial_repo_group_size_pct =
     bindE (sa_get_snapshot sn volume_id snapshot_name None False) (\<lambda>existing.
     case existing of
       Some s \<Rightarrow> ret s
     | None \<Rightarrow>
         bindE (rc_get_volume sn (JStr volume_id)) (\<lambda>vol_data.
         if \<not> json_truthy vol_data then raiseE (ArrayErr (ObjectNotFoundError volume_id))
         else bindE (liftR (snapshot_group_name vol_data snapshot_name)) (\<lambda>group_name.
              bindE (auto_create_snapshot sn (auto_limits volume_id) (Some group_name) 10 True initial_repo_group_size_pct)
                (\<lambda>image_data.
              bindE (rc_get_volume sn (JStr volume_id)) (\<lambda>vol_data.
              bindE (taken_image sn volume_id image_data) (\<lambda>img.
              liftR (snapshot_of_image sn img snapshot_name (JStr volume_id) vol_data)))))))"

text \<open>
  The id of an image leads to its group, which is what is deleted; an error of this look-up is only logged.
\<close>

definition group_of_image :: "'s santricity \<Rightarrow> str \<Rightarrow> ('s sn_world, json) prog" where
  "group_of_image sn snapshot_id =
     (if py_startswith snapshot_id ''34''
      then catchE
             (bindE (list_all_images sn) (\<lambda>listed.
              liftR (bindR (json_iter listed) (\<lambda>images.
                bindR (first_where (json_has_text [''pitRef'', ''id''] (JStr snapshot_id)) images) (\<lambda>found.
                case found of
                  None \<Rightarrow> Inr (JStr snapshot_id)
                | Some img \<Rightarrow> if json_truthy img then json_get img ''pitGroupRef'' else Inr (JStr snapshot_id))))))
             (\<lambda>e. ret (JStr snapshot_id))
      else ret (JStr snapshot_id))"

definition sa_delete_snapshot :: "'s santricity \<Rightarrow> str \<Rightarrow> ('s sn_world, unit) prog" where
  "sa_delete_snapshot sn snapshot_id =
     bindE (group_of_image sn snapshot_id) (\<lambda>group_ref.
     catchE (delete_group sn group_ref)
       (\<lambda>e. case e of
          RequestError status m \<Rightarrow>
            if status = Some 404 \<or> py_contains m ''objectNotFound''
            then raiseE (ArrayErr (ObjectNotFoundError snapshot_id)) else raiseE e
        | _ \<Rightarrow> raiseE e))"

subsection \<open>The mediator\<close>

text \<open>
  \<open>validate_supported_space_efficiency\<close> returns a truth value that its caller ignores; \<open>get_host_io_group\<close> gives an
  empty text, which has no ids.  There are no volume groups, and replication is not implemented.
\<close>

definition santricity_mediator :: "'s santricity \<Rightarrow> 's sn_world mediator" where
  "santricity_mediator sn =
     (array_mediator_interface (list_repr (sn_endpoint sn)))\<lparr>
        md_limits := \<lparr>max_object_prefix_length = 20, max_object_name_length = 30, default_object_prefix = None\<rparr>,
        md_minimal_volume_size_in_bytes := 1024 * 1024,
        md_maximal_volume_size_in_bytes := 256 * 1024 * 1024 * 1024 * 1024,
        md_max_lun_retries := 10,
        md_get_volume := sa_get_volume sn,
        md_create_volume := sa_create_volume sn,
        md_copy_to_existing_volume := (\<lambda>_ _ _ _. ret ()),
        md_delete_volume := sa_delete_volume sn,
        md_expand_volume := sa_expand_volume sn,
        md_get_volume_mappings := sa_get_volume_mappings sn,
        md_map_volume := sa_map_volume sn,
        md_unmap_volume := sa_unmap_volume sn,
        md_get_snapshot := sa_get_snapshot sn,
        md_get_object_by_id := sa_get_object_by_id sn,
        md_create_snapshot := sa_create_snapshot sn,
        md_delete_snapshot := (\<lambda>snapshot_id internal_snapshot_id partition_name. sa_delete_snapshot sn snapshot_id),
        md_get_iscsi_targets_by_iqn := sa_get_iscsi_targets_by_iqn sn,
        md_get_array_fc_wwns := (\<lambda>_. ret []),
        md_get_nvme_target_ports := ret [],
        md_get_host_by_host_identifiers := sa_get_host_by_host_identifiers sn,
        md_get_host_by_name := sa_get_host_by_name sn,
        md_create_host := sa_create_host sn,
        md_delete_host := sa_delete_host sn,
        md_add_ports_to_host := sa_add_ports_to_host sn,
        md_remove_ports_from_host := sa_remove_ports_from_host sn,
        md_get_host_connectivity_ports := sa_get_host_connectivity_ports sn,
        md_get_host_connectivity_type := sa_get_host_connectivity_type sn,
        md_get_host_io_group := (\<lambda>_. ret None),
        md_add_io_group_to_host := (\<lambda>_ _. ret ()),
        md_remove_io_group_from_host := (\<lambda>_ _. ret ()),
        md_change_host_protocol := (\<lambda>_ _. ret ()),
        md_verify_host_partition := (\<lambda>_ _. ret True),
        md_verify_volume_partition := (\<lambda>_ _ _. ret ()),
        md_verify_volume_group_partition := (\<lambda>_ _ _. ret ()),
        md_validate_supported_space_efficiency := (\<lambda>_. ret ()),
        md_get_volume_group := (\<lambda>_. raiseE (PyErr AttributeError)),
        md_create_volume_group := (\<lambda>_ _. raiseE (PyErr AttributeError)),
        md_delete_volume_group := (\<lambda>_. raiseE (PyErr AttributeError)),
        md_add_volume_to_volume_group := (\<lambda>_ _ _. raiseE (PyErr AttributeError)),
        md_remove_volume_from_volume_group := (\<lambda>_ _ _. raiseE (PyErr AttributeError)),
        md_register_plugin := (\<lambda>_ _. ret ()),
        md_get_array_initiators := sa_get_array_initiators sn\<rparr>"

subsection \<open>Properties\<close>

text \<open>
  C38. A volume whose deletion the storage system refuses is reported as deleted: whatever exception the
  client raised, \<open>DeleteVolume\<close> answers with success, and nothing was done after the refusal.
\<close>
theorem santricity_delete_failure_hidden:
  assumes "validate_delete_volume_request r = Inr ()" "get_volume_id_info (or_object_id r) = Inr info"
    "get_array_connection_info_from_secrets (or_secrets r) None (oi_system_id info) = Inr ci"
    "env_acquire env ci (oi_array_type info) s = (Inr (inherit_methods (santricity_mediator sn) f g h), s1)"
    "rc_delete_volume sn (oi_uid info) s1 = (Inl e, s2)"
  shows "DeleteVolume env r s = (Inr (Ok ()), env_release env s2)"
  using assms
  by (auto simp: DeleteVolume_def with_agent_def prog_defs prog_simps santricity_mediator_def inherit_methods_def
      mediator.extend_def full_mediator.fields_def sa_delete_volume_def)

subsection \<open>Connecting\<close>

lemma endpoint_port_8443: "endpoint_port [8443, 8443] i = 8443"
  by (cases i; cases "i - 1") (auto simp: endpoint_port_def less_Suc_eq)

text \<open>The client for a base URL, and the state it starts in.\<close>

definition newest_profile :: capability_profile where
  "newest_profile = (last BASE_PROFILES)\<lparr>cp_detected_release := Some ''12.00''\<rparr>"

definition client_at :: "'s santricity \<Rightarrow> str option \<Rightarrow> str \<Rightarrow> 's santricity" where
  "client_at sn system_id base_url = configured sn newest_profile (endpoint_arguments sn system_id base_url)"

definition fresh :: "'s santricity \<Rightarrow> str option \<Rightarrow> str \<Rightarrow> 's sn_world \<Rightarrow> 's sn_world" where
  "fresh sn system_id base_url w =
     w\<lparr>snw_system_id := initial_system_id (endpoint_arguments sn system_id base_url), snw_scoped_prefix := None\<rparr>"

lemma new_client_at:
  assumes "\<And>token. sn_auth sn \<noteq> JWTAuth token"
  shows "new_client sn (endpoint_arguments sn system_id base_url) w =
    (Inr (client_at sn system_id base_url), fresh sn system_id base_url w)"
proof -
  have "validate_auth_strategy (sn_auth sn) c = Inr ()" for c
    using assms by (auto simp: validate_auth_strategy_def split: auth_strategy.split)
  moreover have "resolve_capabilities None = Inr newest_profile"
    by (simp add: resolve_capabilities_def parse_release_def truthy_def bindR_def BASE_PROFILES_def base_profile_def
        newest_profile_def)
  ultimately show ?thesis
    by (auto simp: new_client_def client_at_def fresh_def endpoint_arguments_def prog_defs prog_simps)
qed

text \<open>
  The question a new client asks the storage system at an address, for the list of its storage systems, and the id that
  is in the answer: \<open>endpoint_reached\<close> when the request was answered with an id, \<open>endpoint_failed\<close> when the request raised
  or the answer has none.
\<close>

definition ask_systems :: "'s santricity \<Rightarrow> str option \<Rightarrow> str \<Rightarrow> ('s sn_world, json) prog" where
  "ask_systems sn system_id ip =
     (\<lambda>w. let c = client_at sn system_id (endpoint_url ip 8443) in
      sn_perform_request c ''GET'' (resolve_url c ''/storage-systems'') [] None True
        (fresh sn system_id (endpoint_url ip 8443) w))"

definition endpoint_reached :: "'s santricity \<Rightarrow> str option \<Rightarrow> str \<Rightarrow> 's sn_world \<Rightarrow> 's sn_world \<Rightarrow> bool" where
  "endpoint_reached sn system_id ip w w' =
     (\<exists>payload i w1. ask_systems sn system_id ip w = (Inr payload, w1) \<and> system_id_of_payload payload = Inr i \<and>
        w' = w1\<lparr>snw_system_id := Some i\<rparr>)"

definition endpoint_failed :: "'s santricity \<Rightarrow> str option \<Rightarrow> str \<Rightarrow> 's sn_world \<Rightarrow> 's sn_world \<Rightarrow> bool" where
  "endpoint_failed sn system_id ip w w' =
     (\<exists>answer. ask_systems sn system_id ip w = (answer, w') \<and>
        (case answer of Inl e \<Rightarrow> True | Inr payload \<Rightarrow> \<exists>e. system_id_of_payload payload = Inl e))"

text \<open>The address of a host, by name or number: none of the characters that end the host in a URL.\<close>

definition plain_host :: "str \<Rightarrow> bool" where
  "plain_host ip = list_all (\<lambda>c. c \<notin> {CHR ''/'', CHR ''?'', CHR ''#''} \<and> 32 < (of_char c :: nat)) ip"

lemma endpoint_url_text: "endpoint_url ip 8443 = ''https://'' @ ip @ '':8443/devmgr/v2''"
  by (simp add: endpoint_url_def int_str_def nat_str.simps digit_char_def char_of_def bit_0)

lemma plain_base_url:
  assumes "plain_host ip"
  shows "detect_scoped_base (endpoint_url ip 8443) = (False, None)"
proof -
  have chars: "\<forall>c \<in> set ip. c \<notin> {CHR ''/'', CHR ''?'', CHR ''#''}" "\<forall>c \<in> set ip. 32 < (of_char c :: nat)"
    using assms by (auto simp: plain_host_def list_all_iff)
  have "filter (\<lambda>c. (of_char c :: nat) \<notin> {9, 10, 13}) ip = ip"
    using chars(2) by (intro filter_True) (auto dest!: bspec)
  then have t: "filter (\<lambda>c. (of_char c :: nat) \<notin> {9, 10, 13}) (dropWhile (\<lambda>c. (of_char c :: nat) \<le> 32) (endpoint_url ip 8443)) =
      endpoint_url ip 8443"
    by (simp add: endpoint_url_text)
  have "list_all (\<lambda>c. is_alpha c \<or> is_digit c \<or> c \<in> {CHR ''+'', CHR ''-'', CHR ''.''}) ''https''" "py_lower ''https'' = ''https''"
    by (simp_all add: is_alpha_def lower_char_def py_lower_def)
  then have "split_scheme (endpoint_url ip 8443) = (''https'', ''//'' @ ip @ '':8443/devmgr/v2'')"
    by (auto simp: endpoint_url_text split_scheme_def Let_def is_alpha_def lower_char_def)
  moreover have "without_netloc (''//'' @ ip @ '':8443/devmgr/v2'') = ''/devmgr/v2''"
    using chars(1) by (simp add: without_netloc_def dropWhile_append2)
  moreover have "without_params ''/devmgr/v2'' = ''/devmgr/v2''" by (auto simp: without_params_def Let_def)
  ultimately show ?thesis unfolding detect_scoped_base_def url_path_def t by (simp add: Let_def)
qed

lemma fresh_system_id:
  assumes "plain_host ip"
  shows "snw_system_id (fresh sn system_id (endpoint_url ip 8443) w) = (if truthy system_id then system_id else None)"
  by (simp add: fresh_def initial_system_id_def endpoint_arguments_def plain_base_url [OF assms])

text \<open>A client that was given an id asks nothing; the others ask for the storage systems.\<close>

lemma connected_id:
  assumes "plain_host ip"
  shows "sn_get_system_id (client_at sn system_id (endpoint_url ip 8443)) (fresh sn system_id (endpoint_url ip 8443) w) =
    (if truthy system_id then (Inr (the system_id), fresh sn system_id (endpoint_url ip 8443) w)
     else bindE (ask_systems sn system_id ip) (\<lambda>payload. bindE (liftR (system_id_of_payload payload)) (\<lambda>i.
            thenE (modifyS (\<lambda>w. w\<lparr>snw_system_id := Some i\<rparr>)) (ret i))) w)"
  by (simp add: sn_get_system_id_def discover_system_id_def fresh_system_id [OF assms] ask_systems_def Let_def bindE_def
      prog_simps truthy_def split: prod.split sum.split)

lemma connect_to_endpoint_run:
  assumes "\<And>token. sn_auth sn \<noteq> JWTAuth token"
  shows "connect_to_endpoint sn system_id url w =
    bindE (sn_get_system_id (client_at sn system_id url)) (\<lambda>_. ret (client_at sn system_id url)) (fresh sn system_id url w)"
  using new_client_at [OF assms] by (simp add: connect_to_endpoint_def bindE_def)

text \<open>One address after the other: the states between the attempts.\<close>

fun all_failed :: "'s santricity \<Rightarrow> str option \<Rightarrow> str list \<Rightarrow> 's sn_world \<Rightarrow> 's sn_world \<Rightarrow> bool" where
  "all_failed sn system_id [] w w' = (w' = w)"
| "all_failed sn system_id (ip # ips) w w' = (\<exists>w1. endpoint_failed sn system_id ip w w1 \<and> all_failed sn system_id ips w1 w')"

lemma connect_to_endpoint_cases:
  assumes "\<And>token. sn_auth sn \<noteq> JWTAuth token" "plain_host ip" "\<not> truthy system_id"
    "connect_to_endpoint sn system_id (endpoint_url ip 8443) w = (r, w')"
  shows "case r of Inl e \<Rightarrow> endpoint_failed sn system_id ip w w'
    | Inr c \<Rightarrow> endpoint_reached sn system_id ip w w' \<and> c = client_at sn system_id (endpoint_url ip 8443)"
  using assms(3,4) unfolding connect_to_endpoint_run [OF assms(1)] bindE_cases [of _ "\<lambda>_. ret _"] connected_id [OF assms(2)]
  by (auto simp: endpoint_failed_def endpoint_reached_def bindE_def thenE_def prog_simps split: prod.splits sum.splits)

lemma connect_to_endpoints_cases:
  assumes "\<And>token. sn_auth sn \<noteq> JWTAuth token" "\<not> truthy system_id" "\<forall>ip \<in> set ips. plain_host ip"
    and "connect_to_endpoints sn system_id [8443, 8443] i le ips w = (r, w')"
  shows "(\<exists>e. r = Inl e) \<and> all_failed sn system_id ips w w' \<or>
    (\<exists>before ip after w1. ips = before @ ip # after \<and> all_failed sn system_id before w w1 \<and> endpoint_reached sn system_id ip w1 w' \<and>
       r = Inr (client_at sn system_id (endpoint_url ip 8443)))"
  using assms(3,4)
proof (induction ips arbitrary: i le w)
  case Nil
  then show ?case by (auto simp: raiseE_def)
next
  case (Cons ip ips)
  obtain a w1 where run: "connect_to_endpoint sn system_id (endpoint_url ip 8443) w = (a, w1)" by fastforce
  from Cons.prems(1) have "plain_host ip" by simp
  note cases = connect_to_endpoint_cases [OF assms(1) this assms(2) run]
  show ?case
  proof (cases a)
    case (Inl e)
    then have "connect_to_endpoints sn system_id [8443, 8443] (Suc i) (Some e) ips w1 = (r, w')"
      using Cons.prems run by (simp add: endpoint_port_8443 catchE_def)
    moreover have "\<forall>ip \<in> set ips. plain_host ip" using Cons.prems(1) by simp
    ultimately consider "\<exists>e. r = Inl e" "all_failed sn system_id ips w1 w'"
      | before ip' after w2 where "ips = before @ ip' # after" "all_failed sn system_id before w1 w2"
        "endpoint_reached sn system_id ip' w2 w'" "r = Inr (client_at sn system_id (endpoint_url ip' 8443))"
      using Cons.IH by blast
    then show ?thesis
    proof cases
      case 1
      then show ?thesis using cases Inl by auto
    next
      case (2 before ip' after w2)
      then have "ip # ips = (ip # before) @ ip' # after" "all_failed sn system_id (ip # before) w w2"
        using cases Inl by auto
      with 2 show ?thesis by blast
    qed
  next
    case (Inr c)
    then have "r = Inr c" "w' = w1" using Cons.prems run by (simp_all add: endpoint_port_8443 catchE_def)
    moreover have "ip # ips = [] @ ip # ips" "all_failed sn system_id [] w w" by simp_all
    moreover have "endpoint_reached sn system_id ip w w1" "c = client_at sn system_id (endpoint_url ip 8443)"
      using cases Inr by simp_all
    ultimately show ?thesis by blast
  qed
qed

text \<open>
  C35. Without the id of a system, the driver works with the first management address that answers the request for its
  storage systems with an id, after every address before it was asked and failed; no connection is made only when all of
  them were asked and fail.  With an id (the secrets with topologies give one) no address is asked anything, although the
  comment says that the connection is verified: the first address is taken, whether there is a storage system or not, so
  that the others are never tried.  The wrapper authenticates by user and password.
\<close>
theorem santricity_failover:
  assumes "sn_auth sn = BasicAuth user password" "\<forall>ip \<in> set (sn_endpoint sn). plain_host ip"
    and "connect_to_available_endpoint sn system_id w = (r, w')"
  shows "if truthy system_id
    then (case sn_endpoint sn of
        [] \<Rightarrow> \<exists>e. r = Inl e
      | ip # ips \<Rightarrow> r = Inr (client_at sn system_id (endpoint_url ip 8443)) \<and> 
          w' = w\<lparr>snw_system_id := system_id, snw_scoped_prefix := None\<rparr>)
    else (case r of
        Inr c \<Rightarrow> \<exists>before ip after w1. sn_endpoint sn = before @ ip # after \<and> all_failed sn system_id before w w1 \<and>
                   endpoint_reached sn system_id ip w1 w' \<and> c = client_at sn system_id (endpoint_url ip 8443)
      | Inl e \<Rightarrow> all_failed sn system_id (sn_endpoint sn) w w')"
proof -
  have auth: "sn_auth sn \<noteq> JWTAuth token" for token using assms(1) by simp
  show ?thesis
  proof (cases "truthy system_id")
    case False
    with connect_to_endpoints_cases [OF auth False assms(2) assms(3) [unfolded connect_to_available_endpoint_def]]
    show ?thesis by (auto split: sum.splits)
  next
    case True
    show ?thesis
    proof (cases "sn_endpoint sn")
      case Nil
      with True assms(3) show ?thesis by (auto simp: connect_to_available_endpoint_def raiseE_def)
    next
      case (Cons ip ips)
      with assms(2) have ip: "plain_host ip" by simp
      have "connect_to_endpoint sn system_id (endpoint_url ip 8443) w =
          (Inr (client_at sn system_id (endpoint_url ip 8443)), fresh sn system_id (endpoint_url ip 8443) w)"
        using True by (simp add: connect_to_endpoint_run [OF auth] bindE_cases [of _ "\<lambda>_. ret _"] connected_id [OF ip] prog_simps)
      then have "r = Inr (client_at sn system_id (endpoint_url ip 8443))" "w' = fresh sn system_id (endpoint_url ip 8443) w"
        using Cons assms(3) by (simp_all add: connect_to_available_endpoint_def endpoint_port_8443 catchE_def)
      moreover have "fresh sn system_id (endpoint_url ip 8443) w = w\<lparr>snw_system_id := system_id, snw_scoped_prefix := None\<rparr>"
        using True by (simp add: fresh_def initial_system_id_def endpoint_arguments_def)
      ultimately show ?thesis using True Cons by simp
    qed
  qed
qed

subsection \<open>Snapshots\<close>

lemma short_suffix_Nil: "short_suffix s = [] \<longleftrightarrow> s = []"
  by (auto simp: short_suffix_def py_last_n_def)

lemma same_group_name:
  assumes "short_suffix a = short_suffix b" "n \<notin> {JStr a, JStr b} \<or> n = JStr []"
  shows "is_group_name a n = is_group_name b n"
proof (cases "n = JStr []")
  case True
  have "a = [] \<longleftrightarrow> b = []" using assms(1) short_suffix_Nil by metis
  with True assms(1) show ?thesis by (auto simp: is_group_name_def)
qed (use assms in \<open>simp add: is_group_name_def\<close>)

text \<open>No group of the storage system is named exactly like one of two snapshots.\<close>

definition groups_not_named :: "'s santricity \<Rightarrow> str list \<Rightarrow> bool" where
  "groups_not_named sn names =
     (\<forall>ref w g w' n. rc_get_snapshot_group sn ref w = (Inr g, w') \<and> json_get_or g ''name'' (JStr []) = Inr n \<longrightarrow>
        n \<notin> JStr ` set names)"

lemma same_image:
  assumes "short_suffix a = short_suffix b" "groups_not_named sn [a, b]"
  shows "image_of_snapshot sn v a imgs w = image_of_snapshot sn v b imgs w"
proof (induction imgs arbitrary: w)
  case (Cons img imgs)
  have "bindR (if json_truthy g then json_get_or g ''name'' (JStr []) else Inr (JStr [])) (is_group_name a) =
      bindR (if json_truthy g then json_get_or g ''name'' (JStr []) else Inr (JStr [])) (is_group_name b)"
    if "rc_get_snapshot_group sn ref u = (Inr g, u')" for ref u g u'
  proof (cases "json_get_or g ''name'' (JStr [])")
    case (Inr n)
    with that assms(2) have "n \<notin> {JStr a, JStr b}" by (auto simp: groups_not_named_def)
    with Inr show ?thesis
      using same_group_name [OF assms(1), of n] same_group_name [OF assms(1), of "JStr []"] by simp
  qed (use same_group_name [OF assms(1), of "JStr []"] in simp)
  then show ?case
    using Cons.IH by (auto simp: bindE_def liftR_def fun_eq_iff split: prod.splits sum.splits)
qed simp


lemma same_snapshot_of_image:
  "snapshot_of_image sn img b (JStr v) vol_data =
     bindR (snapshot_of_image sn img a (JStr v) vol_data) (\<lambda>s. Inr (s\<lparr>vol_name := b\<rparr>))"
  by (simp add: snapshot_of_image_def sa_to_snapshot_object_def bindR_def split: sum.split)

lemma snapshot_of_image_source:
  assumes "snapshot_of_image sn img a (JStr v) vol_data = Inr s"
  shows "vol_source_id s = Some v"
  using assms by (auto simp: snapshot_of_image_def sa_to_snapshot_object_def elim!: inr_elims)

text \<open>A snapshot that is found under one name is found under every name with the same ending.\<close>

lemma same_snapshot:
  assumes "short_suffix a = short_suffix b" "groups_not_named sn [a, b]"
    "sa_get_snapshot sn v a pool flag w = (Inr (Some s), w')"
  shows "sa_get_snapshot sn v b pool flag w = (Inr (Some (s\<lparr>vol_name := b\<rparr>)), w')"
proof -
  have image: "image_of_snapshot sn v b = image_of_snapshot sn v a"
    using same_image [OF assms(1,2)] by (auto simp: fun_eq_iff)
  show ?thesis
    using assms(3) unfolding sa_get_snapshot_def image
    by (auto simp: bindE_def liftR_def ret_def same_snapshot_of_image [where a = a and b = b]
        split: prod.splits sum.splits option.splits elim!: inr_elims)
qed

lemma sa_get_snapshot_source:
  assumes "sa_get_snapshot sn v a pool flag w = (Inr (Some s), w')"
  shows "vol_source_id s = Some v"
  using assms snapshot_of_image_source
  by (auto simp: sa_get_snapshot_def bindE_def liftR_def ret_def split: prod.splits sum.splits option.splits elim!: inr_elims)

text \<open>
  C37. Snapshots of a volume whose names share their last four characters are one snapshot: when one exists, the
  request for the other is answered with the existing one, and nothing is created.
\<close>
theorem santricity_snapshot_names_collide:
  assumes "md = inherit_methods (santricity_mediator sn) f g h"
    "get_object_final_name (env_hash env) (md_limits md) (op_prefix sp) (cs_name r) SNAPSHOT_TYPE_NAME = Inr b"
    "short_suffix a = short_suffix b" "groups_not_named sn [a, b]"
    "sa_get_snapshot sn (oi_uid info) a (op_pool sp) flag w = (Inr (Some s), w')"
  shows "create_snapshot_on env md ci sp r info flag w =
    (Inr (Ok (generate_csi_create_snapshot_response (s\<lparr>vol_name := b\<rparr>) (oi_system_id info) (cs_source_volume_id r))), w')"
  using assms(2) same_snapshot [OF assms(3-5)] sa_get_snapshot_source [OF assms(5)] unfolding assms(1)
  by (simp add: create_snapshot_on_def prog_defs prog_simps santricity_mediator_def inherit_methods_def
      mediator.extend_def full_mediator.fields_def)

text \<open>
  Deleting one snapshot deletes its whole group: for every image of the group the storage system gets the same
  request, the deletion of the group with all its images.
\<close>
theorem santricity_delete_snapshot_deletes_group:
  assumes "py_startswith i ''34''" "list_all_images sn w = (Inr listed, w1)" "json_iter listed = Inr images"
    "first_where (json_has_text [''pitRef'', ''id''] (JStr i)) images = Inr (Some img)"
    "json_get img ''pitGroupRef'' = Inr group_ref" "json_truthy img"
  shows "snd (sa_delete_snapshot sn i w) = snd (delete_group sn group_ref w1)"
  using assms
  by (auto simp: sa_delete_snapshot_def group_of_image_def catchE_def bindE_def liftR_def raiseE_def
      split: prod.splits sum.splits exn.splits)

subsection \<open>A storage system for the examples\<close>

text \<open>It answers each request with a status and a document, and keeps a log of the requests.\<close>

type_synonym request_log = "(str \<times> str) list"

definition example_santricity :: "(str \<Rightarrow> str \<Rightarrow> int \<times> json) \<Rightarrow> request_log santricity" where
  "example_santricity answer =
     \<lparr>sn_session_request = (\<lambda>q log.
        (Inr \<lparr>rp_status_code = fst (answer (hr_method q) (hr_url q)), rp_text = json_dumps (snd (answer (hr_method q) (hr_url q)))\<rparr>,
         log @ [(hr_method q, hr_url q)])),
      sn_isinstance = (\<lambda>c d. c = d), sn_basic_auth_str = (\<lambda>u p. []), sn_base_url = [],
      sn_auth = BasicAuth ''u'' ''p'', sn_verify_ssl = Inl False, sn_timeout = 30, sn_default_headers = [],
      sn_query_defaults = [], sn_base_includes_scope = True, sn_capabilities = hd BASE_PROFILES, sn_endpoint = [''10.0.0.1'', ''10.0.0.2'']\<rparr>"

definition example_sn_world :: "request_log sn_world" where
  "example_sn_world = \<lparr>snw_array = [], snw_system_id = None, snw_scoped_prefix = None\<rparr>"

definition refused :: "int \<Rightarrow> json \<Rightarrow> exn" where
  "refused status v = RequestError (Some status) (''SANtricity API error '' @ int_str status @ '': '' @ take 200 (json_dumps v))"

lemma example_response:
  assumes "json_ok v"
  shows "response_data True \<lparr>rp_status_code = status, rp_text = json_dumps v\<rparr> =
    (if 200 \<le> status \<and> status < 300 then Inr v else Inl (refused status v))"
proof -
  have "json_dumps v \<noteq> []" using dumps_starts [OF assms, of "'' ''" "[]"] by (auto simp: json_dumps_def starts_value_def)
  moreover have "json_loads (json_dumps v) = Some v"
    using json_loads_dumps [OF assms, of "'' ''"] by (simp add: json_dumps_def is_ws_def)
  ultimately show ?thesis
    by (simp add: response_data_def ensure_success_def parse_json_def raise_if_def thenR_def refused_def)
qed

lemma example_auth [simp]: "sn_auth (example_santricity answer) = BasicAuth ''u'' ''p''"
  by (simp add: example_santricity_def)

lemma example_perform:
  assumes "sn_session_request sn = sn_session_request (example_santricity answer)" "sn_auth sn = BasicAuth user password"
    "json_ok (snd (answer verb url))"
  shows "sn_perform_request sn verb url params payload True w =
    (if 200 \<le> fst (answer verb url) \<and> fst (answer verb url) < 300 then Inr (snd (answer verb url))
     else Inl (refused (fst (answer verb url)) (snd (answer verb url))), w\<lparr>snw_array := snw_array w @ [(verb, url)]\<rparr>)"
  using assms(1,2)
  by (simp add: sn_perform_request_def session_request_def prepare_headers_def auth_apply_def example_santricity_def
      prog_defs prog_simps example_response [OF assms(3)])

lemma example_answer:
  assumes "json_ok (snd (answer verb path))" "path = ''/'' @ dropWhile (\<lambda>c. c = CHR ''/'') path"
  shows "sn_request (example_santricity answer) verb path params payload scope w =
    (if 200 \<le> fst (answer verb path) \<and> fst (answer verb path) < 300 then Inr (snd (answer verb path))
     else Inl (refused (fst (answer verb path)) (snd (answer verb path))), w\<lparr>snw_array := snw_array w @ [(verb, path)]\<rparr>)"
proof -
  obtain rest where path: "path = CHR ''/'' # rest" using assms(2) by (metis append_Cons append_Nil)
  have "sn_base_url (example_santricity answer) = []" "sn_base_includes_scope (example_santricity answer)"
    by (simp_all add: example_santricity_def)
  moreover have "py_startswith path ''/''" "resolve_url (example_santricity answer) path = path"
    using assms(2) by (simp_all add: path resolve_url_def example_santricity_def)
  ultimately show ?thesis
    using example_perform [OF refl, of answer "''u''" "''p''" verb path params payload w] assms(1)
    by (simp add: sn_request_def maybe_scope_path_def normalized_path_def prog_defs prog_simps Let_def)
qed


lemmas example_answers = example_answer resource_get_def resource_post_def resource_delete_def request_with_fallback_def
  path_of_def prog_defs prog_simps

subsection \<open>Witnesses\<close>

theorem santricity_delete_failure_hidden_witness:
  "DeleteVolume (example_env (inherit_methods (santricity_mediator (example_santricity (\<lambda>verb url. (500, JNull)))) id id id))
     example_object_request example_sn_world =
   (Inr (Ok ()), example_sn_world\<lparr>snw_array := [(''DELETE'', ''/volumes/uid-1'')]\<rparr>)"
proof -
  let ?sn = "example_santricity (\<lambda>verb url. (500, JNull))"
  let ?env = "example_env (inherit_methods (santricity_mediator ?sn) id id id)"
  let ?info = "\<lparr>oi_array_type = ''SVC'', oi_system_id = None, oi_internal_id = Some ''0'', oi_uid = ''uid-1''\<rparr>"
  let ?w = "example_sn_world\<lparr>snw_array := [(''DELETE'', ''/volumes/uid-1'')]\<rparr>"
  have "DeleteVolume ?env example_object_request example_sn_world = (Inr (Ok ()), env_release ?env ?w)"
  proof (rule santricity_delete_failure_hidden)
    show "get_volume_id_info (or_object_id example_object_request) = Inr ?info"
      by (simp add: example_object_request_def example_volume_id)
    show "rc_delete_volume ?sn (oi_uid ?info) example_sn_world = (Inl (refused 500 JNull), ?w)"
      by (simp add: rc_delete_volume_def volumes_delete_def example_answers refused_def example_sn_world_def)
  qed (auto simp: example_object_request_def validate_delete_volume_request_def validate_minimum_request_fields_def
      example_secrets_valid example_connection_info example_env_def ret_def)
  then show ?thesis by (simp add: example_env_def)
qed

definition example_image :: json where
  "example_image = JObj [(''pitRef'', JStr ''3401''), (''pitGroupRef'', JStr ''3301''), (''baseVol'', JStr ''0201'')]"

text \<open>One system with one volume, one group and one image in it.\<close>

definition example_system :: "str \<Rightarrow> str \<Rightarrow> int \<times> json" where
  "example_system verb url =
     (if url = ''/snapshot-images''
      then (200, JArr [example_image])
      else if url = ''/snapshot-groups''
      then (200, JArr [JObj [(''pitGroupRef'', JStr ''3301''), (''id'', JStr ''3301''), (''name'', JStr ''vol_1234'')]])
      else if url = ''/volumes/0201''
      then (200, JObj [(''volumeRef'', JStr ''0201''), (''name'', JStr ''vol''), (''capacity'', JInt 1048576)])
      else if url \<in> {''/storage-pools'', ''/snapshot-volumes''} \<or> verb = ''GET'' then (200, JArr [])
      else (200, JObj [(''volumeRef'', JStr ''0202''), (''name'', JStr ''clone''), (''capacity'', JInt 1048576)]))"

lemma example_system_ok: "json_ok (snd (example_system verb url))"
  by (simp add: example_system_def example_image_def)

theorem santricity_delete_snapshot_deletes_group_witness:
  "snd (sa_delete_snapshot (example_santricity example_system) ''3401'' example_sn_world) =
   snd (delete_group (example_santricity example_system) (JStr ''3301'')
     (example_sn_world\<lparr>snw_array := [(''GET'', ''/snapshot-images'')]\<rparr>))"
proof (rule santricity_delete_snapshot_deletes_group [where img = example_image and images = "[example_image]"])
  show "list_all_images (example_santricity example_system) example_sn_world =
      (Inr (snd (example_system ''GET'' ''/snapshot-images'')), example_sn_world\<lparr>snw_array := [(''GET'', ''/snapshot-images'')]\<rparr>)"
    by (simp add: list_all_images_def example_answers example_system_ok)
       (simp add: example_system_def example_sn_world_def)
qed (simp_all add: example_system_def example_image_def json_iter_def json_has_text_def json_get_def json_get_or_def dict_get_or_def)

lemmas example_json = json_iter_def json_has_text_def json_get_def json_get_or_def json_item_def dict_item_def dict_get_or_def
  json_first_of.simps

lemma example_groups_not_named:
  "groups_not_named (example_santricity example_system) [''snapshot-1-1234'', ''snapshot-2-1234'']"
  by (auto simp: groups_not_named_def rc_get_snapshot_group_def list_snapshot_groups_def example_answers example_system_ok
      bindE_def liftR_def example_system_def find_entry_def example_json split: if_splits json.splits)

lemmas example_run = example_answers example_system_def example_json example_image_def bindE_def thenE_def catchE_def tryE_def
  list_all_images_def list_snapshot_groups_def list_snapshot_volumes_def find_entry_def rc_get_volume_def volumes_get_def
  volumes_list_def

lemma example_image_found:
  "\<exists>s w. sa_get_snapshot (example_santricity example_system) ''0201'' ''snapshot-1-1234'' (Some ''P'') False example_sn_world = (Inr (Some s), w)"
  by (simp add: sa_get_snapshot_def rc_get_snapshot_group_def snapshot_of_image_def sa_to_snapshot_object_def
      is_group_name_def short_suffix_def py_last_n_def json_str_def json_int_def example_run py_endswith_def)

definition example_snapshot_request :: "str \<Rightarrow> create_snapshot_request" where
  "example_snapshot_request name =
     \<lparr>cs_name = name, cs_secrets = example_secrets, cs_source_volume_id = ''SANTRICITY:;0201'', cs_parameters = []\<rparr>"

definition example_sn_mediator :: "request_log sn_world full_mediator" where
  "example_sn_mediator = inherit_methods (santricity_mediator (example_santricity example_system)) id id id"

theorem santricity_snapshot_names_collide_witness:
  "\<exists>s w. create_snapshot_on (example_env example_sn_mediator) example_sn_mediator
     example_info (example_vp\<lparr>op_pool := Some ''P''\<rparr>) (example_snapshot_request ''snapshot-2-1234'')
     \<lparr>oi_array_type = ARRAY_TYPE_SANTRICITY, oi_system_id = None, oi_internal_id = None, oi_uid = ''0201''\<rparr> False example_sn_world =
     (Inr (Ok (generate_csi_create_snapshot_response (s\<lparr>vol_name := ''snapshot-2-1234''\<rparr>) None ''SANTRICITY:;0201'')), w)"
proof -
  let ?info = "\<lparr>oi_array_type = ARRAY_TYPE_SANTRICITY, oi_system_id = None, oi_internal_id = None, oi_uid = ''0201''\<rparr>"
  let ?sp = "example_vp\<lparr>op_pool := Some ''P''\<rparr>"
  obtain s w where found: "sa_get_snapshot (example_santricity example_system) (oi_uid ?info) ''snapshot-1-1234'' (op_pool ?sp) False
      example_sn_world = (Inr (Some s), w)"
    using example_image_found by auto
  have name: "get_object_final_name (env_hash (example_env example_sn_mediator))
      (md_limits example_sn_mediator) (op_prefix ?sp)
      (cs_name (example_snapshot_request ''snapshot-2-1234'')) SNAPSHOT_TYPE_NAME = Inr ''snapshot-2-1234''"
    by (simp add: get_object_final_name_def join_object_prefix_with_name_def example_env_def example_vp_def
        example_snapshot_request_def example_sn_mediator_def santricity_mediator_def inherit_methods_def mediator.extend_def full_mediator.fields_def)
  have "short_suffix ''snapshot-1-1234'' = short_suffix ''snapshot-2-1234''" by (simp add: short_suffix_def py_last_n_def)
  from santricity_snapshot_names_collide [OF example_sn_mediator_def name this example_groups_not_named found]
  show ?thesis by (auto simp: example_snapshot_request_def)
qed

subsection \<open>Clones\<close>

lemma create_clone_is_create:
  "sa_create_volume sn name n se pool io_group vg ids (Some VOLUME_TYPE_NAME) flag pn pvg extra =
   sa_create_volume sn name n se pool io_group vg ids None flag pn pvg extra"
  by (simp add: sa_create_volume_def type_name_defs)

lemma sa_to_volume_object_source:
  "sa_to_volume_object sn vol = Inr v \<Longrightarrow> vol_source_id v = None"
  by (auto simp: sa_to_volume_object_def elim!: inr_elims)

text \<open>
  A volume that is created as a clone of another one is a new and empty volume: the storage system runs
  exactly the requests of a creation without a source and then reads the source, nothing is copied,
  and the reply still declares the source of the content.
\<close>
theorem santricity_clone_is_blank:
  assumes "md = inherit_methods (santricity_mediator sn) f g h"
    "get_object_final_name (env_hash env) (md_limits md) (op_prefix vp) (cv_name r) VOLUME_TYPE_NAME = Inr name"
    "\<not> op_virt_snap_func vp" "\<not> truthy (ci_partition_name ci)" "cv_preferred_topologies r = None"
    "cv_required_bytes r = Some required" "0 < required" "required \<le> md_maximal_volume_size_in_bytes md" "source \<noteq> []"
    "sa_get_volume sn name (op_pool vp) False s = (Inl (ArrayErr (ObjectNotFoundError x)), s1)"
    "sa_create_volume sn name required (op_space_efficiency vp) (the (op_pool vp)) (op_io_group vp) (op_volume_group vp)
       ids None False (ci_partition_name ci) (ci_partition_vg ci) (cv_parameters r) s1 = (Inr v, s2)"
    "sa_get_object_by_id sn source (Some VOLUME_TYPE_NAME) False s2 = (Inr (Some src), s3)"
  shows "create_volume_on env md ci vp r (Some VOLUME_TYPE_NAME) ids (Some source) s =
    (Inr (Ok \<lparr>csi_capacity_bytes = vol_capacity_bytes v, csi_volume_id = get_volume_id v (ci_system_id ci),
              csi_content_source = Some (VolumeSource source)\<rparr>), s3)"
proof -
  have kinds: "VOLUME_TYPE_NAME \<noteq> SNAPSHOT_TYPE_NAME" by (simp add: type_name_defs)
  show ?thesis
    using assms(2-12) kinds unfolding assms(1) create_volume_on_def get_or_create_volume_def
    by (simp add: Let_def prog_defs prog_simps get_volume_topologies_def create_clone_is_create
      generate_csi_create_volume_response_def get_volume_id_def copy_to_existing_volume_from_source_def
      santricity_mediator_def inherit_methods_def mediator.extend_def full_mediator.fields_def)
qed

subsection \<open>The report\<close>

lemma keys_extract_fields: "distinct (map fst (extract_fields data mappings))"
proof -
  have "distinct (map fst r) \<Longrightarrow> distinct (map fst (foldl (\<lambda>r (source_field, target_field, f).
      AList.update target_field (field_value data source_field f) r) r mappings))" for r
    by (induction mappings arbitrary: r) (auto simp: distinct_update)
  then show ?thesis by (simp add: extract_fields_def)
qed

lemma keys_row_update: "distinct (map fst row) \<Longrightarrow> distinct (map fst (row_update row other))"
  unfolding row_update_def by (induction other arbitrary: row) (auto simp: distinct_update)

lemma keys_command_protocol:
  "distinct (map fst row) \<Longrightarrow> distinct (map fst (apply_command_protocol_details entry row))"
  by (simp add: apply_command_protocol_details_def Let_def keys_row_update)

lemma with_controller_keeps:
  assumes "distinct (map fst row)"
  shows "distinct (map fst (with_controller row c)) \<and> row_get (with_controller row c) ''protocol'' = row_get row ''protocol''"
  using assms by (simp add: with_controller_def distinct_update row_get_def dict_get_or_def update_conv')

lemma apply_candidates_keeps:
  assumes "distinct (map fst row)"
  shows "distinct (map fst (apply_candidates row by_key cs)) \<and>
    row_get (apply_candidates row by_key cs) ''protocol'' = row_get row ''protocol''"
  using assms with_controller_keeps by (induction row by_key cs rule: apply_candidates.induct) (auto split: json.split option.split)

lemma map_of_filter_distinct:
  "distinct (map fst row) \<Longrightarrow> map_of (filter p row) k = (case map_of row k of None \<Rightarrow> None | Some v \<Rightarrow> if p (k, v) then Some v else None)"
  by (induction row) (auto simp: map_of_eq_None_iff split: option.splits)

lemma distinct_keys_filter: "distinct (map fst row) \<Longrightarrow> distinct (map fst (filter p row))"
  by (induction row) auto

lemma finalize_row_wf:
  assumes "distinct (map fst row)"
  shows "distinct (map fst (finalize_row row))" "JNull \<notin> snd ` set (finalize_row row)"
    "row_get (finalize_row row) ''protocol'' = row_get row ''protocol''"
proof -
  define row' where "row' = (if row_get row ''protocol'' \<in> {JStr ''ib'', JStr ''ethernet'', JStr ''fibre''} \<and> \<not> dict_has row ''transport''
    then row @ [(''transport'', row_get row ''protocol'')] else row)"
  have final: "finalize_row row = filter (\<lambda>(k, v). v \<noteq> JNull) row'"
    by (simp add: finalize_row_def row'_def Let_def)
  have keys: "distinct (map fst row')" and protocol: "row_get row' ''protocol'' = row_get row ''protocol''"
    using assms by (auto simp: row'_def dict_has_def map_of_eq_None_iff row_get_def dict_get_or_def map_add_def split: option.splits)
  show "distinct (map fst (finalize_row row))" unfolding final by (rule distinct_keys_filter [OF keys])
  show "JNull \<notin> snd ` set (finalize_row row)" unfolding final by auto
  show "row_get (finalize_row row) ''protocol'' = row_get row ''protocol''"
    unfolding final protocol [symmetric] by (simp add: row_get_def dict_get_or_def map_of_filter_distinct [OF keys] split: option.split)
qed

text \<open>What a row of the report is: each field once, none without a value, and one of the known protocols.\<close>

definition row_wf :: "row \<Rightarrow> bool" where
  "row_wf row = (distinct (map fst row) \<and> JNull \<notin> snd ` set row \<and>
     row_get row ''protocol'' \<in> JStr ` set (map fst PROTOCOL_FIELD_MAPPINGS))"

lemma interface_row_wf:
  assumes "interface_row by_key entry = Inr (Some row)"
  shows "row_wf row"
proof -
  obtain found where found: "(case found of None \<Rightarrow> Inr None | Some (protocol, payload) \<Rightarrow>
      (case map_of PROTOCOL_FIELD_MAPPINGS protocol of None \<Rightarrow> Inr None | Some mappings \<Rightarrow>
        let row = row_update (extract_fields entry COMMON_FIELDS) (extract_fields payload mappings);
            fallback = strip_string (resolve_field_path payload ''controllerRef'');
            row = (if \<not> row_truthy row ''controller_ref'' \<and> json_truthy fallback
                   then AList.update ''controller_ref'' fallback row else row);
            row = AList.update ''protocol'' (JStr protocol) (apply_command_protocol_details entry row)
        in Inr (Some (finalize_row (apply_controller_details by_key row))))) = (Inr (Some row) :: exn + row option)"
    by (rule bindR_InrE [OF assms [unfolded interface_row_def]]) (rule that)
  obtain protocol payload where some: "found = Some (protocol, payload)" using found by (cases found) auto
  obtain mappings where mappings: "map_of PROTOCOL_FIELD_MAPPINGS protocol = Some mappings"
    using found some by (cases "map_of PROTOCOL_FIELD_MAPPINGS protocol") simp_all
  define read where "read = row_update (extract_fields entry COMMON_FIELDS) (extract_fields payload mappings)"
  define fallback where "fallback = strip_string (resolve_field_path payload ''controllerRef'')"
  define base where "base = (if \<not> row_truthy read ''controller_ref'' \<and> json_truthy fallback
    then AList.update ''controller_ref'' fallback read else read)"
  have protocol: "protocol \<in> set (map fst PROTOCOL_FIELD_MAPPINGS)" using map_of_SomeD [OF mappings] by force
  have base: "distinct (map fst base)" by (simp add: base_def read_def distinct_update keys_row_update keys_extract_fields)
  have row: "row = finalize_row (apply_controller_details by_key
      (AList.update ''protocol'' (JStr protocol) (apply_command_protocol_details entry base)))"
    using found unfolding some base_def read_def fallback_def
    by (simp only: option.case prod.case mappings Let_def sum.inject option.inject)
  let ?row = "AList.update ''protocol'' (JStr protocol) (apply_command_protocol_details entry base)"
  have p: "row_get ?row ''protocol'' = JStr protocol" by (simp add: row_get_def dict_get_or_def update_conv')
  have "distinct (map fst ?row)" by (simp add: distinct_update keys_command_protocol base)
  note keeps = apply_candidates_keeps [OF this]
  have "distinct (map fst (apply_controller_details by_key ?row))"
    "row_get (apply_controller_details by_key ?row) ''protocol'' = JStr protocol"
    using keeps p by (simp_all only: apply_controller_details_def)
  with protocol finalize_row_wf show ?thesis by (simp add: row_wf_def row)
qed

text \<open>
  C36. Every row of the report of the host-side interfaces has each field once, no field without a value, and one of
  the four protocols, and it passes the filters of the request; this is what the addresses of the portals are read from.
\<close>
theorem report_rows_wellformed:
  assumes "hostside_interfaces_report sn controller protocol w = (Inr rows, w')" "row \<in> set rows"
  shows "row_wf row \<and> matches_controller row (normalize_filter_value controller) \<and>
    matches_protocol row (normalize_filter_value protocol)"
proof -
  obtain by_key entries found
    where found: "mapR (interface_row by_key) entries = Inr found" and row: "Some row \<in> set found"
      "matches_controller row (normalize_filter_value controller)" "matches_protocol row (normalize_filter_value protocol)"
    using assms by (auto simp: hostside_interfaces_report_def bindE_def liftR_def split: prod.splits sum.splits option.splits elim!: inr_elims)
  then obtain entry where "interface_row by_key entry = Inr (Some row)" by (metis mapR_member)
  then show ?thesis using row by (simp add: interface_row_wf)
qed

definition example_w1 :: "request_log sn_world" where
  "example_w1 = example_sn_world\<lparr>snw_array := [(''GET'', ''/storage-pools''), (''GET'', ''/volumes''), (''GET'', ''/snapshot-volumes'')]\<rparr>"

definition example_w2 :: "request_log sn_world" where
  "example_w2 = example_w1\<lparr>snw_array := snw_array example_w1 @ [(''GET'', ''/storage-pools''), (''POST'', ''/volumes'')]\<rparr>"

lemma example_volume_missing:
  "sa_get_volume (example_santricity example_system) ''pvc-1'' (Some ''gold'') False example_sn_world =
     (Inl (ArrayErr (ObjectNotFoundError ''pvc-1'')), example_w1)"
  by (simp add: sa_get_volume_def sa_get_pool_id_def pools_list_def rc_get_volume_by_name_def rc_list_volumes_def json_append_def
      example_w1_def example_sn_world_def example_run)

lemma example_volume_created:
  "\<exists>v. sa_create_volume (example_santricity example_system) ''pvc-1'' 1048576 None ''gold'' None None ids None False None None
     [(''pool'', ''gold'')] example_w1 = (Inr v, example_w2) \<and> vol_capacity_bytes v = 1048576"
  by (simp add: sa_create_volume_def sa_get_pool_id_def pools_list_def raid_level_of_def rc_create_volume_def volumes_create_def
      sa_to_volume_object_def json_int_def example_w1_def example_w2_def example_sn_world_def example_run)

lemma example_source_read:
  "\<exists>v. sa_get_object_by_id (example_santricity example_system) ''0201'' (Some VOLUME_TYPE_NAME) False example_w2 =
     (Inr (Some v), example_w2\<lparr>snw_array := snw_array example_w2 @ [(''GET'', ''/volumes/0201'')]\<rparr>)"
  by (simp add: sa_get_object_by_id_def sa_to_volume_object_def json_int_def example_run)

theorem santricity_clone_is_blank_witness:
  "\<exists>v. create_volume_on (example_env example_sn_mediator) example_sn_mediator example_info example_vp (example_request 1048576)
     (Some VOLUME_TYPE_NAME) \<lparr>ids_internal_id = None, ids_uid = Some ''0201''\<rparr> (Some ''0201'') example_sn_world =
   (Inr (Ok \<lparr>csi_capacity_bytes = 1048576, csi_volume_id = v, csi_content_source = Some (VolumeSource ''0201'')\<rparr>),
    example_sn_world\<lparr>snw_array :=
      [(''GET'', ''/storage-pools''), (''GET'', ''/volumes''), (''GET'', ''/snapshot-volumes''),
       (''GET'', ''/storage-pools''), (''POST'', ''/volumes''), (''GET'', ''/volumes/0201'')]\<rparr>)"
proof -
  let ?ids = "\<lparr>ids_internal_id = None, ids_uid = Some ''0201''\<rparr>"
  obtain v where v: "sa_create_volume (example_santricity example_system) ''pvc-1'' 1048576 (op_space_efficiency example_vp)
      (the (op_pool example_vp)) (op_io_group example_vp) (op_volume_group example_vp) ?ids None False
      (ci_partition_name example_info) (ci_partition_vg example_info) (cv_parameters (example_request 1048576)) example_w1
      = (Inr v, example_w2)" and size: "vol_capacity_bytes v = 1048576"
    using example_volume_created [of ?ids] by (auto simp: example_vp_def example_info_def example_request_def)
  obtain src where src: "sa_get_object_by_id (example_santricity example_system) ''0201'' (Some VOLUME_TYPE_NAME) False example_w2 =
      (Inr (Some src), example_w2\<lparr>snw_array := snw_array example_w2 @ [(''GET'', ''/volumes/0201'')]\<rparr>)"
    using example_source_read by blast
  have name: "get_object_final_name (env_hash (example_env example_sn_mediator)) (md_limits example_sn_mediator)
      (op_prefix example_vp) (cv_name (example_request 1048576)) VOLUME_TYPE_NAME = Inr ''pvc-1''"
    by (simp add: get_object_final_name_def join_object_prefix_with_name_def example_env_def example_vp_def example_request_def
        example_sn_mediator_def santricity_mediator_def inherit_methods_def mediator.extend_def full_mediator.fields_def)
  have size_ok: "1048576 \<le> md_maximal_volume_size_in_bytes example_sn_mediator"
    by (simp add: example_sn_mediator_def santricity_mediator_def inherit_methods_def mediator.extend_def full_mediator.fields_def)
  have missing: "sa_get_volume (example_santricity example_system) ''pvc-1'' (op_pool example_vp) False example_sn_world =
      (Inl (ArrayErr (ObjectNotFoundError ''pvc-1'')), example_w1)"
    using example_volume_missing by (simp add: example_vp_def)
  from santricity_clone_is_blank [OF example_sn_mediator_def name _ _ _ _ _ size_ok _ missing v src]
  show ?thesis
    by (simp add: size example_vp_def example_info_def example_request_def example_w2_def example_w1_def)
qed

definition example_interface :: json where
  "example_interface =
     JObj [(''channelType'', JStr ''hostside''), (''controllerRef'', JStr ''C1''), (''interfaceRef'', JStr ''I1''),
           (''ioInterfaceTypeData'', JObj [(''interfaceType'', JStr ''iscsi''),
              (''iscsi'', JObj [(''channel'', JInt 1), (''ipv4Enabled'', JBool True),
                 (''ipv4Data'', JObj [(''ipv4Address'', JStr ''10.0.0.9'')])])])]"

definition example_interfaces :: "str \<Rightarrow> str \<Rightarrow> int \<times> json" where
  "example_interfaces verb url = (200, if url = ''/interfaces'' then JArr [example_interface] else JArr [])"

lemma example_interface_row:
  "case interface_row [] example_interface of
     Inr (Some row) \<Rightarrow> matches_controller row (normalize_filter_value ''all'') \<and> matches_protocol row (normalize_filter_value ''iscsi'') \<and>
       row_get row ''ipv4_address'' = JStr ''10.0.0.9''
   | _ \<Rightarrow> False"
  by code_simp

lemma example_report:
  "\<exists>row w'. hostside_interfaces_report (example_santricity example_interfaces) ''all'' ''iscsi'' example_sn_world = (Inr [row], w') \<and>
     row_get row ''ipv4_address'' = JStr ''10.0.0.9''"
proof -
  obtain row where "interface_row [] example_interface = Inr (Some row)" "matches_controller row (normalize_filter_value ''all'')"
    "matches_protocol row (normalize_filter_value ''iscsi'')" "row_get row ''ipv4_address'' = JStr ''10.0.0.9''"
    using example_interface_row by (auto split: sum.splits option.splits)
  moreover have "is_hostside example_interface = Inr True" "is_object example_interface" by code_simp+
  moreover have "json_ok example_interface" by code_simp
  ultimately show ?thesis
    by (simp add: hostside_interfaces_report_def controller_lookup_def get_system_hostside_interfaces_def interfaces_list_def
        example_answers bindE_def tryE_def liftR_def ret_def json_iter_def example_interfaces_def)
qed

theorem report_rows_wellformed_witness:
  "\<exists>row w'. hostside_interfaces_report (example_santricity example_interfaces) ''all'' ''iscsi'' example_sn_world = (Inr [row], w') \<and>
     row_get row ''ipv4_address'' = JStr ''10.0.0.9'' \<and> row_wf row"
proof -
  obtain row w' where run: "hostside_interfaces_report (example_santricity example_interfaces) ''all'' ''iscsi'' example_sn_world =
      (Inr [row], w')" "row_get row ''ipv4_address'' = JStr ''10.0.0.9''"
    using example_report by blast
  with report_rows_wellformed [OF run(1), of row] show ?thesis by auto
qed

text \<open>A system of which the first controller does not answer.\<close>

definition example_failing :: "str \<Rightarrow> str \<Rightarrow> int \<times> json" where
  "example_failing verb url =
     (if py_startswith url ''https://10.0.0.1'' then (500, JNull) else (200, JArr [JObj [(''wwn'', JStr ''6000'')]]))"

lemma example_asked:
  assumes "ip = ''10.0.0.'' @ [d]" "d \<in> {CHR ''1'', CHR ''2''}"
  shows "\<exists>w'. ask_systems (example_santricity example_failing) None ip w =
    (if ip = ''10.0.0.1'' then Inl (refused 500 JNull) else Inr (JArr [JObj [(''wwn'', JStr ''6000'')]]), w')"
proof -
  let ?sn = "client_at (example_santricity example_failing) None (endpoint_url ip 8443)"
  let ?url = "endpoint_url ip 8443 @ ''/storage-systems''"
  have session: "sn_session_request ?sn = sn_session_request (example_santricity example_failing)"
    "sn_auth ?sn = BasicAuth ''u'' ''p''"
    by (simp_all add: client_at_def configured_def endpoint_arguments_def)
  have "without_slashes (endpoint_url ip 8443) = endpoint_url ip 8443"
    using assms by (auto simp: endpoint_url_text without_slashes_def)
  then have url: "resolve_url ?sn ''/storage-systems'' = ?url"
    by (simp add: client_at_def configured_def endpoint_arguments_def resolve_url_def)
  have "py_startswith ?url ''https://10.0.0.1'' \<longleftrightarrow> ip = ''10.0.0.1''"
    using assms by (auto simp: endpoint_url_text)
  then have answer: "example_failing ''GET'' ?url =
      (if ip = ''10.0.0.1'' then (500, JNull) else (200, JArr [JObj [(''wwn'', JStr ''6000'')]]))"
    by (simp add: example_failing_def)
  then have ok: "json_ok (snd (example_failing ''GET'' ?url))" by simp
  show ?thesis
    unfolding ask_systems_def Let_def url example_perform [OF session ok] using answer by (simp split: if_splits)
qed

theorem santricity_failover_witness:
  "\<exists>w'. connect_to_available_endpoint (example_santricity example_failing) None example_sn_world =
      (Inr (client_at (example_santricity example_failing) None (endpoint_url ''10.0.0.2'' 8443)), w') \<and>
     connect_to_available_endpoint (example_santricity example_failing) (Some ''6000'') example_sn_world =
      (Inr (client_at (example_santricity example_failing) (Some ''6000'') (endpoint_url ''10.0.0.1'' 8443)),
       example_sn_world\<lparr>snw_system_id := Some ''6000''\<rparr>)"
proof -
  let ?sn = "example_santricity example_failing"
  have endpoints: "sn_endpoint ?sn = [''10.0.0.1'', ''10.0.0.2'']" by (simp add: example_santricity_def)
  have plain: "\<forall>ip \<in> set (sn_endpoint ?sn). plain_host ip" by (simp add: endpoints plain_host_def)
  obtain w1 where asked: "\<And>w. \<exists>w'. ask_systems ?sn None ''10.0.0.1'' w = (Inl (refused 500 JNull), w')"
      "\<And>w. \<exists>w'. ask_systems ?sn None ''10.0.0.2'' w = (Inr (JArr [JObj [(''wwn'', JStr ''6000'')]]), w')"
    using example_asked [of "''10.0.0.1''" "CHR ''1''"] example_asked [of "''10.0.0.2''" "CHR ''2''"] by simp_all
  have "py_strip ''6000'' = ''6000''" by code_simp
  then have known: "system_id_of_payload (JArr [JObj [(''wwn'', JStr ''6000'')]]) = Inr ''6000''"
    by (simp add: system_id_of_payload_def dict_get_or_def)
  obtain r w' where run: "connect_to_available_endpoint ?sn None example_sn_world = (r, w')" by fastforce
  have one: "\<not> endpoint_reached ?sn None ''10.0.0.1'' w w'" "\<not> endpoint_failed ?sn None ''10.0.0.2'' w w'" for w w'
    using asked(1) [of w] asked(2) [of w] known by (auto simp: endpoint_reached_def endpoint_failed_def)
  note all = santricity_failover [OF example_auth plain run, unfolded endpoints]
  have "r = Inr (client_at ?sn None (endpoint_url ''10.0.0.2'' 8443))"
  proof (cases r)
    case (Inl e)
    with all one show ?thesis by (auto simp: truthy_def)
  next
    case (Inr c)
    with all have "\<exists>before ip after w1. [''10.0.0.1'', ''10.0.0.2''] = before @ ip # after \<and>
        all_failed ?sn None before example_sn_world w1 \<and> endpoint_reached ?sn None ip w1 w' \<and>
        c = client_at ?sn None (endpoint_url ip 8443)"
      by (simp add: truthy_def)
    then obtain before ip after w1 where list: "[''10.0.0.1'', ''10.0.0.2''] = before @ ip # after"
      and "endpoint_reached ?sn None ip w1 w'" and c: "c = client_at ?sn None (endpoint_url ip 8443)"
      by (elim exE conjE)
    then have "ip \<noteq> ''10.0.0.1''" using one(1) by blast
    with list c Inr show ?thesis by (cases before) (auto simp: append_eq_Cons_conv Cons_eq_append_conv)
  qed
  moreover have "connect_to_available_endpoint ?sn (Some ''6000'') example_sn_world =
      (Inr (client_at ?sn (Some ''6000'') (endpoint_url ''10.0.0.1'' 8443)), example_sn_world\<lparr>snw_system_id := Some ''6000''\<rparr>)"
  proof -
    obtain r w' where given: "connect_to_available_endpoint ?sn (Some ''6000'') example_sn_world = (r, w')" by fastforce
    from santricity_failover [OF example_auth plain this, unfolded endpoints]
    show ?thesis using given
      by (auto simp: truthy_def example_sn_world_def)
  qed
  ultimately show ?thesis using run by blast
qed

end
