(* ===== verification/SantricityViews.thy ===== *)
theory SantricityViews
  imports SantricityReports
begin

text \<open>
  What the SANtricity client shows a person: the report of the volume mappings (\<open>santricity_client/reports/mappings.py\<close>), the
  report of the controllers (\<open>reports/controllers.py\<close>) and the summary of the releases
  (\<open>santricity_client/resources/system.py\<close>).
\<close>

subsection \<open>Dictionaries\<close>

definition setdefault :: "row \<Rightarrow> str \<Rightarrow> json \<Rightarrow> row" where
  "setdefault row k v = (if dict_has row k then row else row @ [(k, v)])"

text \<open>\<open>x or []\<close>.\<close>

definition or_empty :: "json \<Rightarrow> json" where
  "or_empty v = (if json_truthy v then v else JArr [])"

text \<open>The first of the values that is true, \<open>None\<close> when there is none.\<close>

fun first_true :: "json \<Rightarrow> str list \<Rightarrow> exn + json" where
  "first_true v [] = Inr JNull"
| "first_true v (k # ks) = bindR (json_get v k) (\<lambda>x. if json_truthy x then Inr x else first_true v ks)"

fun first_not_none :: "json \<Rightarrow> str list \<Rightarrow> exn + json" where
  "first_not_none v [] = Inr JNull"
| "first_not_none v (k # ks) = bindR (json_get v k) (\<lambda>x. if x \<noteq> JNull then Inr x else first_not_none v ks)"

text \<open>Each entry under the texts of its keys; the first entry with a text stays.\<close>

fun index_by :: "str list \<Rightarrow> (str \<times> json) list \<Rightarrow> json list \<Rightarrow> exn + (str \<times> json) list" where
  "index_by keys table [] = Inr table"
| "index_by keys table (v # vs) =
     bindR (mapR (json_get v) keys) (\<lambda>candidates.
     index_by keys (foldl (\<lambda>t c. if json_truthy c then setdefault t (json_show c) v else t) table candidates) vs)"

text \<open>\<open>dict(v)\<close>: of a sequence of pairs as well, which then has no method \<open>get\<close>.\<close>

definition pair_error :: "json \<Rightarrow> exn option" where
  "pair_error v =
     (case v of
        JArr [a, b] \<Rightarrow> (case a of JArr vs \<Rightarrow> Some (PyErr TypeError) | JObj ms \<Rightarrow> Some (PyErr TypeError) | _ \<Rightarrow> None)
      | JArr vs \<Rightarrow> Some (PyErr ValueError)
      | JStr s \<Rightarrow> if length s = 2 then None else Some (PyErr ValueError)
      | JObj ms \<Rightarrow> if length ms = 2 then None else Some (PyErr ValueError)
      | _ \<Rightarrow> Some (PyErr TypeError))"

definition mapping_dict :: "json \<Rightarrow> exn + row" where
  "mapping_dict v =
     (case v of
        JObj ms \<Rightarrow> Inr ms
      | JArr vs \<Rightarrow> (case List.find (\<lambda>x. pair_error x \<noteq> None) vs of
            Some x \<Rightarrow> Inl (the (pair_error x)) | None \<Rightarrow> Inl (PyErr AttributeError))
      | JStr s \<Rightarrow> if s = [] then Inl (PyErr AttributeError) else Inl (PyErr ValueError)
      | _ \<Rightarrow> Inl (PyErr TypeError))"

subsection \<open>The report of the mappings\<close>

definition raid_of_pool :: "json \<Rightarrow> exn + json" where
  "raid_of_pool pool =
     bindR (json_get pool ''raidLevel'') (\<lambda>raid.
     if json_truthy raid then Inr raid
     else bindR (json_get pool ''extents'') (\<lambda>extents.
          case extents of
            JArr (JObj ms # vs) \<Rightarrow> json_get (JObj ms) ''raidLevel''
          | _ \<Rightarrow> Inr raid))"

definition set_if_true :: "row \<Rightarrow> str \<Rightarrow> json \<Rightarrow> row" where
  "set_if_true row k v = (if json_truthy v then setdefault row k v else row)"

definition set_if_not_none :: "row \<Rightarrow> str \<Rightarrow> json \<Rightarrow> row" where
  "set_if_not_none row k v = (if v \<noteq> JNull then setdefault row k v else row)"

definition add_pool :: "(str \<times> json) list \<Rightarrow> json \<Rightarrow> row \<Rightarrow> exn + row" where
  "add_pool pools vol row =
     bindR (first_true vol [''volumeGroupRef'', ''poolId'', ''storagePoolId'']) (\<lambda>pool_id.
     case (if json_truthy pool_id then map_of pools (json_show pool_id) else None) of
       None \<Rightarrow> Inr row
     | Some pool \<Rightarrow>
         if \<not> json_truthy pool then Inr row else
         bindR (first_true pool [''label'', ''name'', ''volumeGroupLabel'', ''volumeGroupName'']) (\<lambda>pool_name.
         bindR (json_get pool ''freeSpace'') (\<lambda>free.
         bindR (raid_of_pool pool) (\<lambda>raid.
         Inr (set_if_true (set_if_not_none (set_if_true row ''poolName'' pool_name) ''poolFreeSpace'' free) ''raidLevel'' raid)))))"

definition add_volume :: "(str \<times> json) list \<Rightarrow> (str \<times> json) list \<Rightarrow> json \<Rightarrow> row \<Rightarrow> exn + row" where
  "add_volume vols pools mapping row =
     bindR (first_true mapping [''volumeRef'', ''mappableObjectId'', ''mappableObjectRef'', ''mappableObject'']) (\<lambda>volume_id.
     case (if json_truthy volume_id then map_of vols (json_show volume_id) else None) of
       None \<Rightarrow> Inr row
     | Some vol \<Rightarrow>
         if \<not> json_truthy vol then Inr row else
         bindR (first_true vol [''name'', ''label'', ''volumeName'', ''mappableObjectName'', ''mappableObjectLabel'']) (\<lambda>volume_name.
         bindR (first_not_none vol [''capacity'', ''reportedSize'', ''currentVolumeSize'']) (\<lambda>capacity.
         add_pool pools vol (set_if_not_none (set_if_true row ''mappableObjectName'' volume_name) ''capacity'' capacity))))"

text \<open>The first target that is a known host or group of hosts, with its label.\<close>

definition add_target :: "row \<Rightarrow> json \<Rightarrow> str list \<Rightarrow> str \<Rightarrow> str list \<Rightarrow> str \<Rightarrow> exn + row \<times> json \<times> bool" where
  "add_target row found label_keys label_field ref_keys ref_field =
     bindR (first_true found label_keys) (\<lambda>label.
     bindR (json_first_of found ref_keys) (\<lambda>ref.
     Inr (setdefault (set_if_true row label_field label) ref_field ref, label, True)))"

fun resolve_target :: "(str \<times> json) list \<Rightarrow> (str \<times> json) list \<Rightarrow> row \<Rightarrow> json list \<Rightarrow> exn + row \<times> json \<times> bool" where
  "resolve_target hosts groups row [] = Inr (row, JNull, False)"
| "resolve_target hosts groups row (candidate # rest) =
     (let known = (\<lambda>table. case map_of table (json_show candidate) of
            Some v \<Rightarrow> if json_truthy v then Some v else None | None \<Rightarrow> None) in
      if \<not> json_truthy candidate then resolve_target hosts groups row rest
      else case known hosts of
             Some host \<Rightarrow>
               add_target row host [''label'', ''name'', ''hostLabel'', ''hostName''] ''hostLabel'' [''hostRef'', ''id''] ''hostRef''
           | None \<Rightarrow>
               (case known groups of
                  Some cluster \<Rightarrow>
                    add_target row cluster [''label'', ''name'', ''hostGroupLabel'', ''clusterName''] ''hostGroup''
                      [''clusterRef'', ''id''] ''clusterRef''
                | None \<Rightarrow> resolve_target hosts groups row rest))"

definition text_of_true :: "json \<Rightarrow> json" where
  "text_of_true v = (if json_truthy v then JStr (json_show v) else JNull)"

definition target_label :: "row \<Rightarrow> json \<Rightarrow> bool \<Rightarrow> json list \<Rightarrow> exn + json" where
  "target_label row label resolved candidates =
     (let label = (if resolved then label
                   else case List.find json_truthy candidates of None \<Rightarrow> label | Some c \<Rightarrow> JStr (json_show c)) in
      if json_truthy label then Inr label
      else bindR (first_true (JObj row) [''targetLabel'', ''targetName'', ''hostGroupLabel'', ''clusterName'', ''hostLabel''])
             (\<lambda>v. Inr (text_of_true v)))"

definition mapping_row ::
  "(str \<times> json) list \<Rightarrow> (str \<times> json) list \<Rightarrow> (str \<times> json) list \<Rightarrow> (str \<times> json) list \<Rightarrow> json \<Rightarrow> exn + row" where
  "mapping_row vols pools hosts groups mapping =
     bindR (mapping_dict mapping) (\<lambda>row.
     bindR (add_volume vols pools mapping row) (\<lambda>row.
     bindR (mapR (json_get mapping) [''targetId'', ''clusterRef'', ''hostRef'', ''hostGroup'', ''mapRef'']) (\<lambda>candidates.
     bindR (resolve_target hosts groups row candidates) (\<lambda>(row, label, resolved).
     bindR (target_label row label resolved candidates) (\<lambda>label.
     bindR (first_true mapping [''mapRef'', ''mappingRef'', ''id'', ''lunMappingRef'']) (\<lambda>map_id.
     Inr (set_if_true (set_if_true row ''targetLabel'' label) ''mappingRef'' map_id)))))))"

definition mappings_report :: "'s santricity \<Rightarrow> ('s sn_world, row list) prog" where
  "mappings_report sn =
     bindE (volumes_list sn) (\<lambda>vols. bindE (pools_list sn) (\<lambda>pools. bindE (hosts_list sn) (\<lambda>hosts.
     bindE (hosts_list_groups sn) (\<lambda>groups. bindE (mappings_list sn) (\<lambda>mappings.
     liftR
       (bindR (bindR (json_iter (or_empty vols)) (index_by [''volumeRef'', ''id'', ''mappableObjectId'', ''mappableObjectRef''] [])) (\<lambda>vol_by_id.
        bindR (bindR (json_iter (or_empty pools)) (index_by [''id'', ''volumeGroupRef'', ''volumeGroupId'', ''volumeGroupRef''] [])) (\<lambda>pool_by_id.
        bindR (bindR (json_iter (or_empty hosts)) (index_by [''hostRef'', ''id'', ''clusterRef''] [])) (\<lambda>host_by_ref.
        bindR (bindR (json_iter (or_empty groups)) (index_by [''clusterRef'', ''id''] [])) (\<lambda>group_by_cluster.
        bindR (json_iter (or_empty mappings)) (mapR (mapping_row vol_by_id pool_by_id host_by_ref group_by_cluster))))))))))))"

subsection \<open>The report of the controllers\<close>

definition ctl_lower_string :: "json \<Rightarrow> json" where
  "ctl_lower_string v = (case strip_string v of JStr s \<Rightarrow> JStr (py_lower s) | _ \<Rightarrow> JNull)"

definition ctl_normalize_filter_value :: "str \<Rightarrow> str" where
  "ctl_normalize_filter_value value = (let n = py_lower (py_strip value) in if n = ''*'' then ''all'' else n)"

definition CONTROLLERS :: "field_mapping list" where
  "CONTROLLERS =
     [raw_field ''active'' ''active'',
      pure_field ''boardSubmodelID'' ''board_submodel_id'' strip_string,
      pure_field ''bootTime'' ''boot_time'' strip_string,
      field ''cacheMemorySize'' ''cache_memory_size_bytes'' coerce_int,
      pure_field ''controllerErrorMode'' ''controller_error_mode'' strip_string,
      pure_field ''controllerRef'' ''controller_ref'' strip_string,
      raw_field ''ctrlIocDumpData'' ''ctrl_ioc_dump_data'',
      field ''flashCacheMemorySize'' ''flash_cache_memory_size_bytes'' coerce_int,
      raw_field ''hasTrayIdentityIndicator'' ''has_tray_identity_indicator'',
      pure_field ''id'' ''id'' strip_string,
      raw_field ''locateInProgress'' ''is_locate_in_progress'',
      pure_field ''manufacturer'' ''manufacturer'' strip_string,
      pure_field ''modelName'' ''model_name'' strip_string,
      pure_field ''partNumber'' ''part_number'' strip_string,
      field ''physicalCacheMemorySize'' ''physical_cache_memory_size_bytes'' coerce_int,
      pure_field ''physicalLocation_label'' ''physical_location_label'' ctl_lower_string,
      raw_field ''quiesced'' ''is_quiesced'',
      raw_field ''readyToRemove'' ''is_ready_to_remove'',
      pure_field ''serialNumber'' ''serial_number'' strip_string,
      pure_field ''status'' ''status'' strip_string]"

fun ctl_path :: "json \<Rightarrow> str list \<Rightarrow> json" where
  "ctl_path v [] = v"
| "ctl_path v (part # parts) =
     (case v of JObj ms \<Rightarrow> (case map_of ms part of Some w \<Rightarrow> ctl_path w parts | None \<Rightarrow> JNull) | _ \<Rightarrow> JNull)"

text \<open>Here an error of a transformation is not caught.\<close>

definition ctl_field_value :: "json \<Rightarrow> field_mapping \<Rightarrow> exn + str \<times> json" where
  "ctl_field_value data = (\<lambda>(source_field, target_field, f).
     let v = ctl_path data (py_split (CHR ''_'') source_field) in
     case f of
       None \<Rightarrow> Inr (target_field, v)
     | Some g \<Rightarrow> if v = JNull then Inr (target_field, v) else bindR (g v) (\<lambda>w. Inr (target_field, w)))"

definition ctl_extract_fields :: "json \<Rightarrow> field_mapping list \<Rightarrow> exn + row" where
  "ctl_extract_fields data mappings = bindR (mapR (ctl_field_value data) mappings) (\<lambda>fields. Inr (row_update [] fields))"

text \<open>The texts of the true values of the fields.\<close>

definition true_texts :: "row \<Rightarrow> str list \<Rightarrow> str list" where
  "true_texts row ks = map (\<lambda>k. json_show (row_get row k)) (filter (row_truthy row) ks)"

definition ctl_matches_controller :: "row \<Rightarrow> str \<Rightarrow> bool" where
  "ctl_matches_controller row wanted =
     (wanted = ''all'' \<or>
      wanted \<in> set (map ctl_normalize_filter_value (true_texts row [''physical_location_label'', ''controller_ref'', ''id''])))"

text \<open>The interfaces grouped under a key, in their order.\<close>

definition grouped_under :: "row list \<Rightarrow> str \<Rightarrow> row list" where
  "grouped_under rows k =
     filter (\<lambda>r. k \<in> set (true_texts r [''controller_ref'', ''controller_id'', ''controller_label''])) rows"

definition hostside_items :: "row list \<Rightarrow> row \<Rightarrow> row list" where
  "hostside_items rows row =
     (case List.find (\<lambda>k. grouped_under rows k \<noteq> []) (true_texts row [''controller_ref'', ''id'', ''physical_location_label'']) of
        Some k \<Rightarrow> grouped_under rows k | None \<Rightarrow> [])"

definition ctl_finalize_row :: "row \<Rightarrow> row" where
  "ctl_finalize_row row = filter (\<lambda>(k, v). v \<noteq> JNull) row"

definition controller_row :: "str \<Rightarrow> row list option \<Rightarrow> json \<Rightarrow> exn + row option" where
  "controller_row controller_filter hostside_rows data =
     bindR (ctl_extract_fields data CONTROLLERS) (\<lambda>row.
     let row = setdefault row ''controller_ref'' (row_get row ''id'') in
     if \<not> ctl_matches_controller row controller_filter then Inr None
     else Inr (Some (ctl_finalize_row (case hostside_rows of
            None \<Rightarrow> row
          | Some rows \<Rightarrow>
              let items = hostside_items rows row in
              row_update row [(''hostside_interface_count'', JInt (int (length items))),
                              (''hostside_interfaces'', JArr (map JObj items))]))))"

definition controllers_report ::
  "'s santricity \<Rightarrow> str \<Rightarrow> str \<Rightarrow> bool \<Rightarrow> ('s sn_world, row list) prog" where
  "controllers_report sn controller protocol include_hostside_interfaces =
     bindE (sn_request sn ''GET'' ''/controllers'' [] None True) (\<lambda>controllers.
     bindE (if include_hostside_interfaces
            then bindE (hostside_interfaces_report sn ''all'' protocol) (\<lambda>rows. ret (Some rows))
            else ret None) (\<lambda>hostside_rows.
     liftR (bindR (json_iter (or_empty controllers)) (\<lambda>cs.
       bindR (mapR (controller_row (ctl_normalize_filter_value controller) hostside_rows) (filter is_object cs)) (\<lambda>rows.
       Inr (concat (map (\<lambda>r. case r of None \<Rightarrow> [] | Some x \<Rightarrow> [x]) rows)))))))"

subsection \<open>The summary of the releases\<close>

definition firmware_versions :: "'s santricity \<Rightarrow> ('s sn_world, json) prog" where
  "firmware_versions sn = request_with_fallback sn ''GET'' ''/firmware/embedded-firmware/1/versions'' [] None None False"

text \<open>The base URL has a scheme and neither query nor fragment.\<close>

definition url_root :: "str \<Rightarrow> str \<times> str" where
  "url_root url =
     (let scheme = takeWhile (\<lambda>c. c \<noteq> CHR '':'') url; rest = drop (length scheme + 3) url;
          netloc = takeWhile (\<lambda>c. c \<noteq> CHR ''/'') rest in
      (scheme @ ''://'' @ netloc, drop (length netloc) rest))"

fun before_devmgr :: "str \<Rightarrow> str option" where
  "before_devmgr [] = None"
| "before_devmgr (c # cs) =
     (if py_startswith (c # cs) ''/devmgr'' then Some [] else map_option (\<lambda>p. c # p) (before_devmgr cs))"

definition devmgr_root :: "'s santricity \<Rightarrow> str" where
  "devmgr_root sn =
     (let (host_root, path) = url_root (sn_base_url sn) in
      host_root @ (case before_devmgr path of Some prefix \<Rightarrow> prefix @ ''/devmgr'' | None \<Rightarrow> ''/devmgr''))"

definition buildinfo_url :: "'s santricity \<Rightarrow> str" where
  "buildinfo_url sn = devmgr_root sn @ ''/utils/buildinfo''"

definition build_info :: "'s santricity \<Rightarrow> ('s sn_world, json) prog" where
  "build_info sn = sn_perform_request sn ''GET'' (buildinfo_url sn) [] None True"

text \<open>The version of the first entry of the name that has one.\<close>

definition entry_version :: "str \<Rightarrow> str \<Rightarrow> str \<Rightarrow> json \<Rightarrow> json" where
  "entry_version name_key version_key target entry =
     (case entry of
        JObj ms \<Rightarrow>
          (case (row_get ms name_key, row_get ms version_key) of
             (JStr n, JStr v) \<Rightarrow> if py_lower n = py_lower target then text_or_none (py_strip v) else JNull
           | _ \<Rightarrow> JNull)
      | _ \<Rightarrow> JNull)"

definition extract_version :: "str \<Rightarrow> str \<Rightarrow> str \<Rightarrow> json \<Rightarrow> str \<Rightarrow> exn + json" where
  "extract_version list_key name_key version_key payload target =
     bindR (json_get payload list_key) (\<lambda>entries.
     Inr (case entries of
            JArr es \<Rightarrow>
              (case List.find (\<lambda>v. v \<noteq> JNull) (map (entry_version name_key version_key target) es) of
                 Some v \<Rightarrow> v | None \<Rightarrow> JNull)
          | _ \<Rightarrow> JNull))"

definition extract_code_version :: "json \<Rightarrow> str \<Rightarrow> exn + json" where
  "extract_code_version = extract_version ''codeVersions'' ''codeModule'' ''versionString''"

definition extract_component :: "json \<Rightarrow> str \<Rightarrow> exn + json" where
  "extract_component = extract_version ''components'' ''name'' ''version''"

definition is_version_text :: "json \<Rightarrow> bool" where
  "is_version_text v = (case v of JStr s \<Rightarrow> py_strip s \<noteq> [] | _ \<Rightarrow> False)"

definition select_version :: "row \<Rightarrow> json \<times> json" where
  "select_version summary =
     (case List.find (\<lambda>k. is_version_text (row_get summary k)) [''bundleDisplay'', ''management'', ''symbolApi'', ''symbolVersion''] of
        Some k \<Rightarrow> (row_get summary k, JStr k) | None \<Rightarrow> (JNull, JNull))"

text \<open>One source of versions: what it tells, or why it does not.\<close>

definition version_source ::
  "('s, json) prog \<Rightarrow> str \<Rightarrow> (json \<Rightarrow> exn + row) \<Rightarrow> ('s, row \<times> str list) prog" where
  "version_source request label read =
     tryE request
       (\<lambda>e. case e of RequestError status m \<Rightarrow> ret ([], [label @ '': '' @ m]) | _ \<Rightarrow> raiseE e)
       (\<lambda>payload. liftR (bindR (read payload) (\<lambda>fields. Inr (fields, []))))"

definition release_summary :: "'s santricity \<Rightarrow> ('s sn_world, row) prog" where
  "release_summary sn =
     bindE (version_source (firmware_versions sn) ''firmware versions'' (\<lambda>firmware.
       bindR (extract_code_version firmware ''bundleDisplay'') (\<lambda>bundle.
       bindR (extract_code_version firmware ''management'') (\<lambda>management.
       Inr [(''bundleDisplay'', bundle), (''management'', management)])))) (\<lambda>(firmware, errors).
     bindE (version_source (build_info sn) ''buildinfo'' (\<lambda>info.
       bindR (extract_component info ''symbolapi'') (\<lambda>api.
       bindR (extract_component info ''symbolversion'') (\<lambda>version.
       Inr [(''symbolApi'', api), (''symbolVersion'', version)])))) (\<lambda>(build, more_errors).
     let summary = row_update [(''version'', JNull), (''source'', JNull), (''bundleDisplay'', JNull), (''management'', JNull),
           (''symbolApi'', JNull), (''symbolVersion'', JNull), (''errors'', JArr [])] (firmware @ build);
         (version, source) = select_version summary in
     ret (row_update summary [(''version'', version), (''source'', source),
                              (''errors'', JArr (map JStr (errors @ more_errors)))])))"

subsection \<open>Properties\<close>

definition extends :: "row \<Rightarrow> row \<Rightarrow> bool" where
  "extends row row' = (map_of row \<subseteq>\<^sub>m map_of row')"

named_theorems extends_intros \<open>operations that only add fields to a row\<close>

lemma extends_refl [extends_intros]: "extends row row"
  by (simp add: extends_def)

lemma extends_setdefault [extends_intros]: "extends row row' \<Longrightarrow> extends row (setdefault row' k v)"
proof -
  have "map_of row' \<subseteq>\<^sub>m map_of (setdefault row' k v)"
    by (auto simp: setdefault_def dict_has_def map_le_def map_add_def dom_def split: option.splits)
  then show "extends row row' \<Longrightarrow> extends row (setdefault row' k v)" unfolding extends_def by (rule map_le_trans [rotated])
qed

lemma extends_set_if_true [extends_intros]: "extends row row' \<Longrightarrow> extends row (set_if_true row' k v)"
  by (simp add: set_if_true_def extends_setdefault)

lemma extends_set_if_not_none [extends_intros]: "extends row row' \<Longrightarrow> extends row (set_if_not_none row' k v)"
  by (simp add: set_if_not_none_def extends_setdefault)

lemma extends_trans: "extends a b \<Longrightarrow> extends b c \<Longrightarrow> extends a c"
  unfolding extends_def by (rule map_le_trans)

lemma add_pool_extends:
  assumes "add_pool pools vol row = Inr row'"
  shows "extends row row'"
proof -
  obtain pool_id where run: "(case (if json_truthy pool_id then map_of pools (json_show pool_id) else None) of
       None \<Rightarrow> Inr row
     | Some pool \<Rightarrow>
         if \<not> json_truthy pool then Inr row else
         bindR (first_true pool [''label'', ''name'', ''volumeGroupLabel'', ''volumeGroupName'']) (\<lambda>pool_name.
         bindR (json_get pool ''freeSpace'') (\<lambda>free.
         bindR (raid_of_pool pool) (\<lambda>raid.
         Inr (set_if_true (set_if_not_none (set_if_true row ''poolName'' pool_name) ''poolFreeSpace'' free) ''raidLevel'' raid)))))
       = (Inr row' :: exn + row)"
    by (rule bindR_InrE [OF assms [unfolded add_pool_def]]) (rule that)
  show ?thesis
  proof (cases "if json_truthy pool_id then map_of pools (json_show pool_id) else None")
    case None
    then show ?thesis using run by (simp add: extends_refl)
  next
    case (Some pool)
    show ?thesis
      using run unfolding Some option.case
      by (cases "json_truthy pool") (simp only: if_True if_False not_True_eq_False not_False_eq_True, elim inr_elims,
          auto intro!: extends_intros simp del: first_true.simps)
  qed
qed

lemma add_volume_extends:
  assumes "add_volume vols pools mapping row = Inr row'"
  shows "extends row row'"
proof -
  obtain volume_id where run: "(case (if json_truthy volume_id then map_of vols (json_show volume_id) else None) of
       None \<Rightarrow> Inr row
     | Some vol \<Rightarrow>
         if \<not> json_truthy vol then Inr row else
         bindR (first_true vol [''name'', ''label'', ''volumeName'', ''mappableObjectName'', ''mappableObjectLabel'']) (\<lambda>volume_name.
         bindR (first_not_none vol [''capacity'', ''reportedSize'', ''currentVolumeSize'']) (\<lambda>capacity.
         add_pool pools vol (set_if_not_none (set_if_true row ''mappableObjectName'' volume_name) ''capacity'' capacity))))
       = (Inr row' :: exn + row)"
    by (rule bindR_InrE [OF assms [unfolded add_volume_def]]) (rule that)
  show ?thesis
  proof (cases "if json_truthy volume_id then map_of vols (json_show volume_id) else None")
    case None
    then show ?thesis using run by (simp add: extends_refl)
  next
    case (Some vol)
    show ?thesis
    proof (cases "json_truthy vol")
      case True
      obtain name capacity where "add_pool pools vol (set_if_not_none (set_if_true row ''mappableObjectName'' name) ''capacity'' capacity)
          = Inr row'"
        using run True unfolding Some option.case by (simp only: not_True_eq_False if_False) (elim inr_elims, rule that)
      then show ?thesis by (rule extends_trans [OF _ add_pool_extends, rotated]) (intro extends_intros)
    qed (use run Some in \<open>simp add: extends_refl\<close>)
  qed
qed

lemma add_target_extends:
  "add_target row found ks f rs g = Inr (row', label, resolved) \<Longrightarrow> extends row row'"
  unfolding add_target_def by (elim inr_elims) (auto intro!: extends_intros)

lemma resolve_target_extends: "resolve_target hosts groups row cs = Inr (row', label, resolved) \<Longrightarrow> extends row row'"
  by (induction hosts groups row cs rule: resolve_target.induct)
     (auto simp: Let_def extends_refl split: if_splits option.splits dest: add_target_extends)

lemma mapping_row_extends:
  assumes "mapping_row vols pools hosts groups mapping = Inr row"
  shows "\<exists>m. mapping = JObj m \<and> extends m row"
proof -
  obtain m row1 cs t label map_id
    where m: "mapping_dict mapping = Inr m" and row1: "add_volume vols pools mapping m = Inr row1"
      and t: "resolve_target hosts groups row1 cs = Inr t"
      and row: "Inr (set_if_true (set_if_true (fst t) ''targetLabel'' label) ''mappingRef'' map_id) = (Inr row :: exn + row)"
    using assms unfolding mapping_row_def split_beta
    by (elim bindR_InrE) (rule that; assumption)
  have "extends row1 (fst t)" using resolve_target_extends t by (metis prod.collapse)
  with add_volume_extends [OF row1] have "extends m (fst t)" by (rule extends_trans)
  then have "extends m row" using row by (auto intro: extends_set_if_true)
  then show ?thesis using m by (auto simp: mapping_dict_def split: json.splits if_splits option.splits)
qed

lemma mapR_rows_extend:
  "mapR (mapping_row vols pools hosts groups) vs = Inr rows \<Longrightarrow> \<exists>ms. vs = map JObj ms \<and> list_all2 extends ms rows"
proof (induction vs arbitrary: rows)
  case (Cons v vs)
  then obtain row rest where row: "mapping_row vols pools hosts groups v = Inr row"
    and rest: "mapR (mapping_row vols pools hosts groups) vs = Inr rest" and rows: "rows = row # rest"
    by (auto elim!: bindR_InrE)
  obtain m where "v = JObj m" "extends m row" using mapping_row_extends [OF row] by blast
  moreover obtain ms where "vs = map JObj ms" "list_all2 extends ms rest" using Cons.IH [OF rest] by blast
  ultimately show ?case using rows by (intro exI [of _ "m # ms"]) simp
qed simp

text \<open>
  The report of the mappings has a row for each mapping of the storage system, in their order, and a row only adds to
  its mapping: every field of the mapping is in the row with its value.
\<close>
theorem mappings_report_extends:
  assumes "mappings_report sn w = (Inr rows, w')"
  shows "\<exists>listed ms w1. mappings_list sn w1 = (Inr listed, w') \<and> json_iter (or_empty listed) = Inr (map JObj ms) \<and>
    list_all2 extends ms rows"
proof -
  obtain listed w1 vs tables where "mappings_list sn w1 = (Inr listed, w')" "json_iter (or_empty listed) = Inr vs"
    and rows: "(case tables of (a, b, c, d) \<Rightarrow> mapR (mapping_row a b c d) vs) = Inr rows"
    using assms unfolding mappings_report_def
    by (elim bindE_InrE) (auto simp: liftR_def elim!: inr_elims)
  moreover obtain ms where "vs = map JObj ms" "list_all2 extends ms rows"
    using mapR_rows_extend rows by (cases tables) (metis (no_types, lifting) case_prod_conv)
  ultimately show ?thesis by blast
qed

end
