(* ===== verification/CallHome.thy ===== *)
theory CallHome
  imports JsonValues Base64
begin

text \<open>
  The metadata the driver sends with its registration (\<open>common/utils.py\<close>): the versions of the cluster, the architecture
  and the configuration of the user as a JSON document in Base64, compressed when it is too long, and with an
  error in place of the configuration when that does not help.  The files, the environment and the compression
  are parameters.
\<close>

subsection \<open>The environment\<close>

text \<open>
  \<open>ch_get\<close> is a \<open>GET\<close> request with its headers, the answer decoded as text; \<open>ch_frames\<close> is how many calls may
  still be nested.
\<close>

record 's callhome =
  ch_environ :: "str \<Rightarrow> str option"
  ch_token_exists :: bool
  ch_token :: "exn + str"
  ch_get :: "str \<Rightarrow> sdict \<Rightarrow> ('s, str) prog"
  ch_machine :: str
  ch_compress :: "8 word list \<Rightarrow> 8 word list"
  ch_frames :: nat

definition loads :: "str \<Rightarrow> exn + json" where
  "loads text = (case json_loads text of Some v \<Rightarrow> Inr v | None \<Rightarrow> Inl (PyErr ValueError))"

definition config_map_of :: "str option \<Rightarrow> exn + json" where
  "config_map_of cfgmap = (if \<not> truthy cfgmap \<or> cfgmap = Some ''null'' then Inr (JObj []) else loads (the cfgmap))"

definition get_config_map_info :: "'s callhome \<Rightarrow> exn + json" where
  "get_config_map_info ch =
     bindR (config_map_of (ch_environ ch ''CSI_NODE_CONFIG'')) (\<lambda>node_config.
     bindR (config_map_of (ch_environ ch ''CSI_HOSTDEFINER_CONFIG'')) (\<lambda>hd_config.
     Inr (JObj [(''csi_node_config'', node_config), (''csi_hd_config'', hd_config)])))"

subsection \<open>Encoding\<close>

text \<open>The text of a JSON document has only ASCII characters.\<close>

definition ascii_bytes :: "str \<Rightarrow> 8 word list" where
  "ascii_bytes s = map (\<lambda>c. of_nat (of_char c)) s"

definition MAX_METADATA :: nat where
  "MAX_METADATA = 1024"

definition config_map_too_large :: "(str \<times> json) list \<Rightarrow> (str \<times> json) list" where
  "config_map_too_large data =
     filter (\<lambda>(k, v). k \<noteq> ''config_map'') data @
     [(''config_map'', JObj [(''error'', JStr ''CONFIG_MAP_TOO_LARGE'')])]"

fun encode_to_base64 :: "'s callhome \<Rightarrow> nat \<Rightarrow> (str \<times> json) list \<Rightarrow> exn + str" where
  "encode_to_base64 ch 0 data = Inl (Foreign ''RecursionError'' ''maximum recursion depth exceeded'')"
| "encode_to_base64 ch (Suc frames) data =
     (let json_bytes = ascii_bytes (json_dumps_compact (JObj data));
          b64_encoded = b64encode json_bytes;
          b64_compressed = b64encode (ch_compress ch json_bytes) in
      if length b64_encoded \<le> MAX_METADATA then Inr b64_encoded
      else if length b64_compressed \<le> MAX_METADATA then Inr b64_compressed
      else if \<not> dict_has data ''config_map'' then Inl (PyErr (KeyError ''config_map''))
      else encode_to_base64 ch frames (config_map_too_large data))"

subsection \<open>Collecting\<close>

text \<open>The first match of \<open>redhat-operator-index:(v\d{1}\.\d{2})\<close>.\<close>

definition is_ocp_version :: "str \<Rightarrow> bool" where
  "is_ocp_version v =
     (case v of [c, a, d, x, y] \<Rightarrow> c = CHR ''v'' \<and> is_digit a \<and> d = CHR ''.'' \<and> is_digit x \<and> is_digit y | _ \<Rightarrow> False)"

fun ocp_version :: "str \<Rightarrow> str option" where
  "ocp_version [] = None"
| "ocp_version (c # cs) =
     (let version = take 5 (drop 22 (c # cs)) in
      if py_startswith (c # cs) ''redhat-operator-index:'' \<and> is_ocp_version version then Some version else ocp_version cs)"

definition environ_item :: "'s callhome \<Rightarrow> str \<Rightarrow> exn + str" where
  "environ_item ch k = (case ch_environ ch k of None \<Rightarrow> Inl (PyErr (KeyError k)) | Some v \<Rightarrow> Inr v)"

definition callhome_info :: "'s callhome \<Rightarrow> json \<Rightarrow> str option \<Rightarrow> json \<Rightarrow> (str \<times> json) list" where
  "callhome_info ch k8s_version ocp config_map =
     (if json_truthy k8s_version then [(''k8s'', k8s_version)] else []) @
     (if truthy ocp then [(''ocp'', JStr (the ocp))] else []) @
     [(''arch'', JStr (ch_machine ch)), (''config_map'', config_map)]"

definition default_callhome_metadata_aux :: "'s callhome \<Rightarrow> ('s, str) prog" where
  "default_callhome_metadata_aux ch =
     (if \<not> ch_token_exists ch then ret []
      else bindE (liftR (ch_token ch)) (\<lambda>token_text.
           bindE (liftR (environ_item ch ''KUBERNETES_SERVICE_HOST'')) (\<lambda>k8s_service_host.
           bindE (liftR (environ_item ch ''KUBERNETES_SERVICE_PORT'')) (\<lambda>k8s_service_port.
           let api_server = ''https://'' @ k8s_service_host @ '':'' @ k8s_service_port;
               headers = [(''Authorization'', ''Bearer '' @ py_strip token_text)] in
           bindE (ch_get ch (api_server @ ''/version'') headers) (\<lambda>version_text.
           bindE (liftR (loads version_text)) (\<lambda>version_info.
           bindE (liftR (json_get_or version_info ''gitVersion'' (JStr []))) (\<lambda>k8s_version.
           bindE (ch_get ch (api_server @ ''/api/v1/nodes'') headers) (\<lambda>nodes_text.
           bindE (liftR (get_config_map_info ch)) (\<lambda>config_map.
           liftR (encode_to_base64 ch (ch_frames ch)
             (callhome_info ch k8s_version (ocp_version nodes_text) config_map)))))))))))"

definition default_callhome_metadata :: "'s callhome \<Rightarrow> ('s, str) prog" where
  "default_callhome_metadata ch = catchE (default_callhome_metadata_aux ch) (\<lambda>e. ret [])"

subsection \<open>Properties\<close>

lemma config_map_too_large_has: "dict_has (config_map_too_large data) ''config_map''"
  by (auto simp: dict_has_def config_map_too_large_def map_of_eq_None_iff)

lemma config_map_too_large_idem: "config_map_too_large (config_map_too_large data) = config_map_too_large data"
  by (auto simp: config_map_too_large_def filter_id_conv)

text \<open>The second call decides: when its document is too long, so is that of every further call.\<close>

lemma encode_to_base64_again:
  "encode_to_base64 ch (Suc k) (config_map_too_large data) = encode_to_base64 ch (Suc 0) (config_map_too_large data)"
proof -
  let ?data = "config_map_too_large data"
  let ?json = "ascii_bytes (json_dumps_compact (JObj ?data))"
  have step: "encode_to_base64 ch (Suc k) ?data =
     (if length (b64encode ?json) \<le> MAX_METADATA then Inr (b64encode ?json)
      else if length (b64encode (ch_compress ch ?json)) \<le> MAX_METADATA then Inr (b64encode (ch_compress ch ?json))
      else encode_to_base64 ch k ?data)" for k
    by (simp add: Let_def config_map_too_large_idem config_map_too_large_has)
  show ?thesis
  proof (induction k)
    case (Suc k)
    show ?case unfolding step [of "Suc k"] Suc unfolding step [of 0] by presburger
  qed (rule refl)
qed

lemma encode_to_base64_frames: "encode_to_base64 ch (Suc (Suc n)) data = encode_to_base64 ch (Suc (Suc 0)) data"
  using encode_to_base64_again [of ch n data] by (simp add: Let_def)

text \<open>
  What was read, of the token file, the environment, the two requests to the cluster and the configuration of the user, when
  nothing raised.
\<close>

definition collects :: "'s callhome \<Rightarrow> 's \<Rightarrow> 's \<Rightarrow> json \<Rightarrow> str \<Rightarrow> json \<Rightarrow> bool" where
  "collects ch s s' k8s_version nodes_text config_map =
     (\<exists>token host port version_text s1 version_info.
        ch_token_exists ch \<and> ch_token ch = Inr token \<and>
        ch_environ ch ''KUBERNETES_SERVICE_HOST'' = Some host \<and> ch_environ ch ''KUBERNETES_SERVICE_PORT'' = Some port \<and>
        ch_get ch (''https://'' @ host @ '':'' @ port @ ''/version'') [(''Authorization'', ''Bearer '' @ py_strip token)] s =
          (Inr version_text, s1) \<and>
        json_loads version_text = Some version_info \<and> json_get_or version_info ''gitVersion'' (JStr []) = Inr k8s_version \<and>
        ch_get ch (''https://'' @ host @ '':'' @ port @ ''/api/v1/nodes'') [(''Authorization'', ''Bearer '' @ py_strip token)] s1 =
          (Inr nodes_text, s') \<and>
        get_config_map_info ch = Inr config_map)"

text \<open>The document of the metadata, with \<open>config\<close> in the place of the configuration of the user.\<close>

definition callhome_document :: "'s callhome \<Rightarrow> json \<Rightarrow> str \<Rightarrow> json \<Rightarrow> 8 word list" where
  "callhome_document ch k8s_version nodes_text config =
     ascii_bytes (json_dumps_compact (JObj (
       (if json_truthy k8s_version then [(''k8s'', k8s_version)] else []) @
       (case ocp_version nodes_text of None \<Rightarrow> [] | Some version \<Rightarrow> [(''ocp'', JStr version)]) @
       [(''arch'', JStr (ch_machine ch)), (''config_map'', config)])))"

lemma ocp_version_text: "ocp_version s = Some v \<Longrightarrow> v \<noteq> []"
  by (induction s) (auto simp: Let_def is_ocp_version_def split: if_splits)

lemma callhome_info_document:
  "ascii_bytes (json_dumps_compact (JObj (callhome_info ch k (ocp_version n) c))) = callhome_document ch k n c"
  "config_map_too_large (callhome_info ch k ocp c) = callhome_info ch k ocp (JObj [(''error'', JStr ''CONFIG_MAP_TOO_LARGE'')])"
  "dict_has (callhome_info ch k ocp c) ''config_map''"
  by (auto simp: callhome_info_def callhome_document_def config_map_too_large_def dict_has_def truthy_def
      split: option.splits dest: ocp_version_text)

text \<open>The encoding of the document is that of the first of its four forms that is short enough.\<close>

lemma encode_document:
  assumes "2 \<le> frames"
  shows "encode_to_base64 ch frames (callhome_info ch k (ocp_version n) c) =
    (let doc = callhome_document ch k n; err = JObj [(''error'', JStr ''CONFIG_MAP_TOO_LARGE'')] in
     case find (\<lambda>b. length (b64encode b) \<le> 1024) [doc c, ch_compress ch (doc c), doc err, ch_compress ch (doc err)] of
       Some b \<Rightarrow> Inr (b64encode b)
     | None \<Rightarrow> Inl (Foreign ''RecursionError'' ''maximum recursion depth exceeded''))"
proof -
  obtain m where "frames = Suc (Suc m)" using assms by (metis Suc_le_D numeral_2_eq_2 Suc_le_mono)
  then have two: "encode_to_base64 ch frames data = encode_to_base64 ch (Suc (Suc 0)) data" for data
    using encode_to_base64_frames by blast
  show ?thesis
    unfolding two by (simp add: Let_def callhome_info_document MAX_METADATA_def)
qed

lemma collects_run:
  assumes "collects ch s s' k n c"
  shows "default_callhome_metadata_aux ch s = (encode_to_base64 ch (ch_frames ch) (callhome_info ch k (ocp_version n) c), s')"
  using assms
  by (auto simp: collects_def default_callhome_metadata_aux_def environ_item_def loads_def Let_def bindE_def prog_run)

lemma aux_collects:
  assumes "default_callhome_metadata_aux ch s = (Inr m, s')"
  shows "m = [] \<or> (\<exists>k n c. collects ch s s' k n c)"
  using assms unfolding default_callhome_metadata_aux_def collects_def environ_item_def loads_def Let_def
  by (fastforce simp: prog_run elim!: bindE_InrE split: if_splits option.splits)

text \<open>
  C40. Collecting the metadata of a registration never raises and never gives more than 1024 characters (the interpreter
  allows at least two nested calls).  When the token, the address of the cluster, its version, its nodes and the
  configuration of the user can be read, what is sent is the Base64 text of the first of these that is short enough: the
  document made of them, that document compressed, the document with an error in place of the configuration, and that one
  compressed; it decodes to it.  When none is short enough, or anything could not be read, the metadata is empty.
\<close>
theorem callhome_metadata_bounded:
  assumes "2 \<le> ch_frames ch"
  shows "\<exists>m s'. default_callhome_metadata ch s = (Inr m, s') \<and> length m \<le> 1024 \<and>
    (if \<exists>t k8s nodes config. collects ch s t k8s nodes config
     then \<exists>k8s nodes config. collects ch s s' k8s nodes config \<and>
       (let doc = callhome_document ch k8s nodes; err = JObj [(''error'', JStr ''CONFIG_MAP_TOO_LARGE'')] in
        case find (\<lambda>b. length (b64encode b) \<le> 1024)
            [doc config, ch_compress ch (doc config), doc err, ch_compress ch (doc err)] of
          None \<Rightarrow> m = [] | Some bytes \<Rightarrow> m = b64encode bytes \<and> b64decode m = Inr bytes)
     else m = [])"
proof (cases "\<exists>t k8s nodes config. collects ch s t k8s nodes config")
  case True
  then obtain t k n c where got: "collects ch s t k n c" by blast
  let ?doc = "callhome_document ch k n" and ?err = "JObj [(''error'', JStr ''CONFIG_MAP_TOO_LARGE'')]"
  let ?find = "find (\<lambda>b. length (b64encode b) \<le> 1024) [?doc c, ch_compress ch (?doc c), ?doc ?err, ch_compress ch (?doc ?err)]"
  note run = collects_run [OF got, unfolded encode_document [OF assms]]
  define m where "m = (case ?find of None \<Rightarrow> [] | Some b \<Rightarrow> b64encode b)"
  have "default_callhome_metadata ch s = (Inr m, t)"
    using run by (simp add: default_callhome_metadata_def catchE_def ret_def Let_def m_def del: find.simps split: option.split)
  moreover have "length m \<le> 1024"
    unfolding m_def by (auto simp: find_Some_iff split: option.split simp del: find.simps)
  moreover have "case ?find of None \<Rightarrow> m = [] | Some bytes \<Rightarrow> m = b64encode bytes \<and> b64decode m = Inr bytes"
    using b64decode_encode [of 0 0 "[]"] by (simp add: m_def b64decode_def del: find.simps split: option.split)
  then have "\<exists>k8s nodes config. collects ch s t k8s nodes config \<and>
       (let doc = callhome_document ch k8s nodes; err = ?err in
        case find (\<lambda>b. length (b64encode b) \<le> 1024)
            [doc config, ch_compress ch (doc config), doc err, ch_compress ch (doc err)] of
          None \<Rightarrow> m = [] | Some bytes \<Rightarrow> m = b64encode bytes \<and> b64decode m = Inr bytes)"
    unfolding Let_def using got by blast
  ultimately show ?thesis using True by (simp only: if_True) blast
next
  case False
  obtain r s' where run: "default_callhome_metadata_aux ch s = (r, s')" by fastforce
  have "default_callhome_metadata ch s = (Inr [], s')"
    using run aux_collects [of ch s _ s'] False
    by (cases r) (auto simp: default_callhome_metadata_def catchE_def ret_def)
  then show ?thesis using False by auto
qed

text \<open>A pod of a cluster.\<close>

definition example_callhome :: "unit callhome" where
  "example_callhome =
     \<lparr>ch_environ = (\<lambda>k. if k = ''KUBERNETES_SERVICE_HOST'' then Some ''10.0.0.1''
        else if k = ''KUBERNETES_SERVICE_PORT'' then Some ''443'' else None),
      ch_token_exists = True, ch_token = Inr ''t'', ch_get = (\<lambda>url headers. ret ''{}''), ch_machine = ''x86_64'',
      ch_compress = (\<lambda>b. b), ch_frames = 1000\<rparr>"

lemma example_collects:
  "collects example_callhome s t k n c \<longleftrightarrow>
     k = JStr [] \<and> n = ''{}'' \<and> c = JObj [(''csi_node_config'', JObj []), (''csi_hd_config'', JObj [])]"
proof -
  have "json_loads ''{}'' = Some (JObj [])" by code_simp
  then show ?thesis
    by (auto simp: collects_def example_callhome_def prog_run get_config_map_info_def config_map_of_def truthy_def
        json_get_or_def dict_get_or_def)
qed

lemma example_document_fits:
  "length (b64encode (callhome_document example_callhome (JStr []) ''{}''
     (JObj [(''csi_node_config'', JObj []), (''csi_hd_config'', JObj [])]))) \<le> 1024"
  by code_simp

lemma callhome_metadata_bounded_witness:
  "\<exists>m. default_callhome_metadata example_callhome () = (Inr m, ()) \<and>
     b64decode m = Inr (callhome_document example_callhome (JStr []) ''{}''
       (JObj [(''csi_node_config'', JObj []), (''csi_hd_config'', JObj [])]))"
proof -
  have "2 \<le> ch_frames example_callhome" by (simp add: example_callhome_def)
  from callhome_metadata_bounded [OF this, of "()"] show ?thesis
    using example_document_fits by (auto simp: example_collects Let_def)
qed

end
