(* ===== verification/Sessions.thy ===== *)
theory Sessions
  imports Agent SvcMediator Xiv SolidFire Ds8k Santricity
begin

text \<open>
  The life of a mediator: constructing it and connecting to the storage system, testing whether the connection is alive
  and closing it (\<open>__init__\<close>, \<open>_connect\<close>, \<open>is_active\<close>, \<open>disconnect\<close> of the five mediators), and how the pool of
  connections constructs one (\<open>create\<close> of \<open>array_action/array_connection_pool.py\<close>).  Opening a session
  is done by the third-party clients and is a parameter; what it gives is the client the mediator works with.
\<close>

subsection \<open>SVC\<close>

text \<open>\<open>'k\<close> is an open session of pysvc; \<open>py_version_less\<close> compares two versions (the package packaging).\<close>

record ('k, 's) pysvc =
  py_connect :: "str \<Rightarrow> str \<Rightarrow> str \<Rightarrow> int \<Rightarrow> ('s, 'k) prog"
  py_client :: "'k \<Rightarrow> 's svc_client"
  py_close :: "'k \<Rightarrow> ('s, unit) prog"
  py_is_active :: "'k \<Rightarrow> ('s, bool) prog"
  py_isinstance :: "str \<Rightarrow> str \<Rightarrow> bool"
  py_version_less :: "str \<Rightarrow> str \<Rightarrow> exn + bool"

definition MIN_SUPPORTED_VERSION :: str where "MIN_SUPPORTED_VERSION = ''7.8''"

definition get_ssh_port_from_environment :: "sdict \<Rightarrow> exn + int" where
  "get_ssh_port_from_environment env =
     (case py_int (dict_get_or env ''SVC_SSH_PORT'' ''22'') of None \<Rightarrow> Inl (PyErr ValueError) | Some n \<Rightarrow> Inr n)"

definition is_custom_port :: "sdict \<Rightarrow> exn + bool" where
  "is_custom_port env = bindR (get_ssh_port_from_environment env) (\<lambda>port. Inr (port \<noteq> 22))"

definition code_level :: "'s svc \<Rightarrow> ('s svc_world, str) prog" where
  "code_level sv =
     bindE (system_info sv) (\<lambda>c. case c of
       None \<Rightarrow> raiseE (PyErr AttributeError)
     | Some x \<Rightarrow> (case py_words (cy_code_level x) of [] \<Rightarrow> raiseE (PyErr IndexError) | w # _ \<Rightarrow> ret w))"

definition svc_of_session :: "('k, 's) pysvc \<Rightarrow> 's svc \<Rightarrow> 'k \<Rightarrow> 's svc" where
  "svc_of_session ps sv session = sv\<lparr>sv_client := py_client ps session\<rparr>"

text \<open>The errors of the client that become errors of the credentials.\<close>

definition svc_connect_error :: "('k, 's) pysvc \<Rightarrow> str \<Rightarrow> exn \<Rightarrow> ('w, 'a) prog" where
  "svc_connect_error ps address e =
     (case e of
        Foreign cls m \<Rightarrow>
          if py_isinstance ps cls ''IncorrectCredentials'' \<or> py_isinstance ps cls ''StorageArrayClientException''
          then raiseE (ArrayErr (CredentialsError address)) else raiseE e
      | _ \<Rightarrow> raiseE e)"

definition svc_connect ::
  "('k, 's) pysvc \<Rightarrow> 's svc \<Rightarrow> sdict \<Rightarrow> str \<Rightarrow> str \<Rightarrow> ('s svc_world, 'k) prog" where
  "svc_connect ps sv env user password =
     catchE
       (bindE (liftR (get_ssh_port_from_environment env)) (\<lambda>port.
        bindE (cli (py_connect ps (sv_endpoint sv) user password port)) (\<lambda>session.
        bindE (code_level (svc_of_session ps sv session)) (\<lambda>version.
        bindE (liftR (py_version_less ps version MIN_SUPPORTED_VERSION)) (\<lambda>old.
        if old then raiseE (ArrayErr (UnsupportedStorageVersionError version MIN_SUPPORTED_VERSION))
        else ret session)))))
       (svc_connect_error ps (sv_endpoint sv))"

text \<open>\<open>__init__\<close>: one address only; the mediator has read no system row yet.\<close>

definition svc_init ::
  "('k, 's) pysvc \<Rightarrow> 's svc \<Rightarrow> sdict \<Rightarrow> str \<Rightarrow> str \<Rightarrow> str list \<Rightarrow> ('s svc_world, 'k) prog" where
  "svc_init ps sv env user password endpoint =
     bindE (liftR (new_svc_mediator endpoint)) (\<lambda>address.
     thenE (modifyS (\<lambda>w. w\<lparr>sw_cluster := None\<rparr>))
       (svc_connect ps (sv\<lparr>sv_endpoint := address\<rparr>) env user password))"

definition svc_disconnect :: "('k, 's) pysvc \<Rightarrow> 'k option \<Rightarrow> ('s svc_world, unit) prog" where
  "svc_disconnect ps session = (case session of None \<Rightarrow> ret () | Some k \<Rightarrow> cli (py_close ps k))"

definition svc_is_active :: "('k, 's) pysvc \<Rightarrow> 'k \<Rightarrow> ('s svc_world, bool) prog" where
  "svc_is_active ps session = cli (py_is_active ps session)"

subsection \<open>XIV\<close>

record ('k, 's) pyxcli =
  px_connect_multiendpoint_ssl :: "str \<Rightarrow> str \<Rightarrow> str list \<Rightarrow> ('s, 'k) prog"
  px_client :: "'k \<Rightarrow> 's xcli"
  px_is_connected :: "'k \<Rightarrow> ('s, bool) prog"
  px_close :: "'k \<Rightarrow> ('s, unit) prog"
  px_isinstance :: "str \<Rightarrow> str \<Rightarrow> bool"

definition xiv_connect :: "('k, 's) pyxcli \<Rightarrow> str \<Rightarrow> str \<Rightarrow> str list \<Rightarrow> ('s, 'k) prog" where
  "xiv_connect px user password endpoint =
     catchE (px_connect_multiendpoint_ssl px user password endpoint)
       (\<lambda>e. case e of
          Foreign cls m \<Rightarrow>
            if px_isinstance px cls ''CredentialsError'' then raiseE (ArrayErr (CredentialsError (list_repr endpoint)))
            else if px_isinstance px cls ''XCLIError'' then raiseE (ArrayErr (CredentialsError (list_repr endpoint)))
            else raiseE e
        | _ \<Rightarrow> raiseE e)"

definition xiv_disconnect :: "('k, 's) pyxcli \<Rightarrow> 'k option \<Rightarrow> ('s, unit) prog" where
  "xiv_disconnect px session =
     (case session of
        None \<Rightarrow> ret ()
      | Some k \<Rightarrow> bindE (px_is_connected px k) (\<lambda>connected. if connected then px_close px k else ret ()))"

definition xiv_is_active :: "('s, bool) prog" where "xiv_is_active = ret True"

text \<open>\<open>identifier\<close>: the serial number is read once and kept.\<close>

definition xiv_identifier :: "'s xiv \<Rightarrow> ('s \<times> str option, str) prog" where
  "xiv_identifier x = (\<lambda>(s, kept).
     case kept of
       Some i \<Rightarrow> (Inr i, (s, kept))
     | None \<Rightarrow> (case get_fully_qualified_serial x s of
                 (Inl e, s') \<Rightarrow> (Inl e, (s', None))
               | (Inr i, s') \<Rightarrow> (Inr i, (s', Some i))))"

subsection \<open>DS8000\<close>

text \<open>
  \<open>dsn_client\<close> is the constructor of the client of pyds8k over its keyword arguments.
\<close>

record 's pyds8k_package =
  dsn_client :: "kwargs \<Rightarrow> ('s, 's pyds8k) prog"
  dsn_isinstance :: "str \<Rightarrow> str \<Rightarrow> bool"

definition rest_client_kwargs :: "str \<Rightarrow> str \<Rightarrow> str \<Rightarrow> int option \<Rightarrow> str \<Rightarrow> kwargs" where
  "rest_client_kwargs service_address user password port hostname =
     [(''service_address'', CStr service_address), (''user'', CStr user), (''password'', CStr password),
      (''verify'', CBool False)] @
     (case port of Some p \<Rightarrow> if p = 0 then [] else [(''port'', CInt p)] | None \<Rightarrow> []) @
     (if hostname = [] then [] else [(''hostname'', CStr hostname)])"

definition rest_client :: "'s pyds8k_package \<Rightarrow> str \<Rightarrow> str \<Rightarrow> str \<Rightarrow> ('s, 's pyds8k) prog" where
  "rest_client pk service_address user password =
     dsn_client pk (rest_client_kwargs service_address user password None [])"

definition ds8k_connect_error :: "'s pyds8k_package \<Rightarrow> str \<Rightarrow> exn \<Rightarrow> ('s, 'a) prog" where
  "ds8k_connect_error pk address e =
     (case e of
        Foreign cls m \<Rightarrow>
          if dsn_isinstance pk cls ''ClientException'' \<and>
             has_code m [ERROR_CODE_INVALID_CREDENTIALS, KNOWN_ERROR_CODE_INVALID_CREDENTIALS]
          then raiseE (ArrayErr (CredentialsError address)) else raiseE e
      | _ \<Rightarrow> raiseE e)"

text \<open>\<open>_connect\<close>: a session is opened, the system is read and its version checked.\<close>

definition ds8k_connect :: "'s pyds8k_package \<Rightarrow> str \<Rightarrow> str \<Rightarrow> str \<Rightarrow> ('s, 's pyds8k \<times> api_system) prog" where
  "ds8k_connect pk address user password =
     catchE
       (bindE (rest_client pk address user password) (\<lambda>c.
        bindE (dc_get_system c) (\<lambda>system.
        bindE (liftR (parse_version (as_bundle system))) (\<lambda>version.
        if pd_version_less c version SUPPORTED_FROM_VERSION
        then raiseE (ArrayErr (UnsupportedStorageVersionError version SUPPORTED_FROM_VERSION))
        else ret (c, system)))))
       (ds8k_connect_error pk address)"

text \<open>\<open>__init__\<close>: only the first of the addresses is used.\<close>

definition ds8k_init ::
  "'s pyds8k_package \<Rightarrow> 's ds8k \<Rightarrow> str \<Rightarrow> str \<Rightarrow> str list \<Rightarrow> ('s dk_world, 's ds8k) prog" where
  "ds8k_init pk d user password endpoint =
     bindE (liftR (py_first endpoint)) (\<lambda>address.
     bindE (dk (ds8k_connect pk address user password)) (\<lambda>(c, system).
     ret (d\<lparr>dk_client := c, dk_address := address, dk_system := system\<rparr>)))"

definition ds8k_disconnect :: "('s dk_world, unit) prog" where "ds8k_disconnect = ret ()"

definition ds8k_is_active :: "'s ds8k \<Rightarrow> ('s dk_world, bool) prog" where
  "ds8k_is_active d = dk (dc_is_valid (dk_client d))"

subsection \<open>SolidFire\<close>

text \<open>What the session of requests is set up with.\<close>

record sf_session =
  ss_endpoint :: str
  ss_auth :: "str \<times> str"
  ss_verify :: bool
  ss_headers :: sdict

definition solidfire_session :: "str \<Rightarrow> str \<Rightarrow> str \<Rightarrow> int \<Rightarrow> bool \<Rightarrow> sf_session" where
  "solidfire_session mvip user password port verify_ssl =
     \<lparr>ss_endpoint = ''https://'' @ mvip @ '':'' @ int_str port @ ''/json-rpc/12.5'', ss_auth = (user, password),
      ss_verify = verify_ssl, ss_headers = [(''Content-Type'', ''application/json'')]\<rparr>"

text \<open>\<open>__init__\<close> sends nothing to the storage system; the requests are numbered from one again.\<close>

definition solidfire_init ::
  "(sf_session \<Rightarrow> json \<Rightarrow> ('s, json) prog) \<Rightarrow> str \<Rightarrow> str \<Rightarrow> str list \<Rightarrow> bool \<Rightarrow> str \<Rightarrow> ('s sf_world, 's solidfire) prog" where
  "solidfire_init post user password endpoint verify_ssl prefix =
     bindE (liftR (py_first endpoint)) (\<lambda>mvip.
     thenE (modifyS (\<lambda>w. w\<lparr>sfw_request_id := 0\<rparr>))
       (ret \<lparr>sf_post = post (solidfire_session mvip user password 443 verify_ssl), sf_endpoint = endpoint,
             sf_prefix = prefix\<rparr>))"

definition solidfire_disconnect :: "('s sf_world, unit) prog" where "solidfire_disconnect = ret ()"

definition solidfire_is_active :: "('s sf_world, bool) prog" where "solidfire_is_active = ret True"

subsection \<open>SANtricity\<close>

text \<open>The parameter \<open>verify_ssl\<close> of the wrapper, which is read from the environment when it is not given.\<close>

definition santricity_verify_ssl :: "sdict \<Rightarrow> bool option \<Rightarrow> bool" where
  "santricity_verify_ssl env verify_ssl =
     (case verify_ssl of
        Some b \<Rightarrow> b
      | None \<Rightarrow> py_lower (dict_get_or env ''SANTRICITY_VERIFY_SSL'' ''false'') \<notin> {''false'', ''0'', ''no'', ''off''})"

definition santricity_init ::
  "'s santricity \<Rightarrow> sdict \<Rightarrow> str \<Rightarrow> str \<Rightarrow> str list \<Rightarrow> bool \<Rightarrow> str option \<Rightarrow> ('s sn_world, 's santricity) prog" where
  "santricity_init sn env user password endpoint verify_ssl system_id =
     connect_to_available_endpoint
       (sn\<lparr>sn_auth := BasicAuth user password, sn_verify_ssl := Inl (santricity_verify_ssl env (Some verify_ssl)),
           sn_endpoint := endpoint\<rparr>) system_id"

definition santricity_disconnect :: "('s sn_world, unit) prog" where "santricity_disconnect = ret ()"

subsection \<open>Constructing a mediator\<close>

text \<open>The parameters of the constructors, by the type of the storage system.\<close>

definition init_parameters :: "(str \<times> str list) list" where
  "init_parameters =
     [(ARRAY_TYPE_XIV, [''user'', ''password'', ''endpoint'']),
      (ARRAY_TYPE_DS8K, [''user'', ''password'', ''endpoint'']),
      (ARRAY_TYPE_SVC, [''user'', ''password'', ''endpoint'']),
      (ARRAY_TYPE_SANTRICITY, [''user'', ''password'', ''endpoint'', ''verify_ssl'', ''system_id'']),
      (ARRAY_TYPE_SOLIDFIRE, [''user'', ''password'', ''endpoint'', ''verify_ssl''])]"

text \<open>A class over what its constructor does with three positional and some keyword arguments.\<close>

type_synonym 'c constructor = "str \<Rightarrow> str \<Rightarrow> str \<Rightarrow> str list \<Rightarrow> kwargs \<Rightarrow> exn + 'c"

text \<open>A keyword that is no parameter, or is already given by position, is a \<open>TypeError\<close> of the interpreter.\<close>

definition call_constructor :: "'c constructor \<Rightarrow> 'c constructor" where
  "call_constructor new array_type user password endpoints kw =
     bindR (dict_item init_parameters array_type) (\<lambda>params.
     if set (map fst kw) \<subseteq> set (drop 3 params) then new array_type user password endpoints kw
     else Inl (PyErr TypeError))"

definition pool_create_kwargs :: "str list \<Rightarrow> bool \<Rightarrow> str option \<Rightarrow> kwargs" where
  "pool_create_kwargs params verify_ssl system_id =
     (if ''verify_ssl'' \<in> set params then [(''verify_ssl'', CBool verify_ssl)] else []) @
     (if ''system_id'' \<in> set params then [(''system_id'', arg_opt system_id)] else [])"

definition pool_create :: "'c constructor \<Rightarrow> 'c connector" where
  "pool_create new array_type user password endpoints verify_ssl system_id =
     bindR (dict_item init_parameters array_type) (\<lambda>params.
     call_constructor new array_type user password endpoints (pool_create_kwargs params verify_ssl system_id))"

text \<open>The pool never constructs a mediator with a keyword its class does not know.\<close>

lemma pool_create_constructs:
  assumes "array_type \<in> set (map fst init_parameters)"
  shows "pool_create new array_type user password endpoints verify_ssl system_id =
    new array_type user password endpoints
      (pool_create_kwargs (the (map_of init_parameters array_type)) verify_ssl system_id)"
proof -
  obtain params where p: "map_of init_parameters array_type = Some params"
    using assms by (metis map_of_eq_None_iff not_None_eq set_map)
  then have "params \<in> set (map snd init_parameters)" by (force dest: map_of_SomeD)
  then have "set (map fst (pool_create_kwargs params verify_ssl system_id)) \<subseteq> set (drop 3 params)"
    by (auto simp: init_parameters_def pool_create_kwargs_def)
  with p show ?thesis by (simp add: pool_create_def call_constructor_def dict_item_def)
qed

end
