(* ===== verification/ConnectionManager.thy ===== *)
theory ConnectionManager
  imports Sessions
begin

text \<open>
  The connections counted by storage system (\<open>array_action/array_connection_manager.py\<close>), the way mediators were
  handed out before the pools of the theory \<open>Agent\<close>: a context manager that constructs a mediator when it is entered,
  unless the class has as many connections as it allows, and disconnects it when it is left.

  The state is \<open>array_connections_dict\<close>.  A method is one step: the lock by storage system, which each constructor of a
  manager replaces, is not modelled.
\<close>

subsection \<open>Managers\<close>

type_synonym connection_counts = "(str \<times> int) list"

record 'c manager =
  mg_array_type :: str
  mg_user :: str
  mg_password :: str
  mg_endpoints :: "str list"
  mg_verify_ssl :: bool
  mg_mediator :: "'c option"
  mg_connected :: bool

definition mg_endpoint_key :: "'c manager \<Rightarrow> str" where "mg_endpoint_key g = py_join '','' (mg_endpoints g)"

text \<open>The table of the types and ports: the SVC is tried before SANtricity and SolidFire.\<close>

definition manager_ports :: "nat \<Rightarrow> (str \<times> nat list) list" where
  "manager_ports svc_port =
     [(ARRAY_TYPE_XIV, [7778]), (ARRAY_TYPE_DS8K, [8452]), (ARRAY_TYPE_SVC, [svc_port]),
      (ARRAY_TYPE_SANTRICITY, [8443, 8443]), (ARRAY_TYPE_SOLIDFIRE, [443])]"

definition manager_detect_array_type :: "(str \<Rightarrow> nat \<Rightarrow> bool) \<Rightarrow> nat \<Rightarrow> str list \<Rightarrow> exn + str" where
  "manager_detect_array_type connects svc_port endpoints =
     (case find (\<lambda>(t, p, e). connects e p) (probe_order (manager_ports svc_port) endpoints) of
        None \<Rightarrow> Inl (ArrayErr (FailedToFindStorageSystemType (py_join '', '' endpoints)))
      | Some (t, p, e) \<Rightarrow> Inr t)"

definition new_manager ::
  "(str \<Rightarrow> nat \<Rightarrow> bool) \<Rightarrow> nat \<Rightarrow> str \<Rightarrow> str \<Rightarrow> str list \<Rightarrow> str option \<Rightarrow> bool \<Rightarrow> exn + 'c manager" where
  "new_manager connects svc_port user password endpoints array_type verify_ssl =
     bindR (case array_type of Some t \<Rightarrow> Inr t | None \<Rightarrow> manager_detect_array_type connects svc_port endpoints) (\<lambda>t.
     Inr \<lparr>mg_array_type = t, mg_user = user, mg_password = password, mg_endpoints = endpoints,
          mg_verify_ssl = verify_ssl, mg_mediator = None, mg_connected = False\<rparr>)"

text \<open>One connection less: the entry goes away with the last.\<close>

definition drop_count :: "str \<Rightarrow> (connection_counts, unit) prog" where
  "drop_count key = (\<lambda>counts.
     case dict_item counts key of
       Inl e \<Rightarrow> (Inl e, counts)
     | Inr n \<Rightarrow> (Inr (), if n = 1 then AList.delete key counts else AList.update key (n - 1) counts))"

text \<open>One connection more, unless the class allows no more.\<close>

definition add_count :: "int \<Rightarrow> str \<Rightarrow> (connection_counts, unit) prog" where
  "add_count max_connections key = (\<lambda>counts.
     case map_of counts key of
       Some n \<Rightarrow>
         if n < max_connections then (Inr (), AList.update key (n + 1) counts)
         else (Inl (ArrayErr (NoConnectionAvailableException key)), counts)
     | None \<Rightarrow> (Inr (), AList.update key 1 counts))"

text \<open>
  The mediator is constructed with the keyword \<open>verify_ssl\<close>; a \<open>TypeError\<close> is answered by constructing it without, and
  what is raised then is not handled: the count stays.
\<close>

definition construct_mediator :: "'c constructor \<Rightarrow> 'c manager \<Rightarrow> (connection_counts, 'c) prog" where
  "construct_mediator new g =
     (let make = call_constructor new (mg_array_type g) (mg_user g) (mg_password g) (mg_endpoints g) in
      catchE (liftR (make [(''verify_ssl'', CBool (mg_verify_ssl g))]))
        (\<lambda>e. if e = PyErr TypeError then liftR (make [])
             else thenE (drop_count (mg_endpoint_key g)) (raiseE e)))"

definition get_array_connection :: "'c constructor \<Rightarrow> 'c manager \<Rightarrow> (connection_counts, 'c \<times> 'c manager) prog" where
  "get_array_connection new g =
     bindE (liftR (dict_item array_type_to_max_connections (mg_array_type g))) (\<lambda>max_connections.
     thenE (add_count max_connections (mg_endpoint_key g))
    (bindE (construct_mediator new g) (\<lambda>c. ret (c, g\<lparr>mg_mediator := Some c, mg_connected := True\<rparr>))))"

text \<open>\<open>__exit__\<close>; an error of \<open>disconnect\<close> leaves the count and the flag as they are.\<close>

definition manager_exit :: "('c \<Rightarrow> exn + unit) \<Rightarrow> 'c manager \<Rightarrow> (connection_counts, 'c manager) prog" where
  "manager_exit disconnect g =
     (if mg_connected g
      then bindE (liftR (case mg_mediator g of None \<Rightarrow> Inl (PyErr AttributeError) | Some c \<Rightarrow> disconnect c)) (\<lambda>_.
           thenE (drop_count (mg_endpoint_key g)) (ret (g\<lparr>mg_connected := False\<rparr>)))
      else ret g)"

text \<open>\<open>with ArrayConnectionManager(...) as mediator: body\<close>; what \<open>__exit__\<close> raises replaces what the body raised.\<close>

definition with_connection ::
  "'c constructor \<Rightarrow> ('c \<Rightarrow> exn + unit) \<Rightarrow> 'c manager \<Rightarrow> ('c \<Rightarrow> exn + 'a) \<Rightarrow> (connection_counts, 'a) prog" where
  "with_connection new disconnect g body =
     bindE (get_array_connection new g) (\<lambda>(c, g').
     bindE (manager_exit disconnect g') (\<lambda>_. liftR (body c)))"

subsection \<open>The counts\<close>

definition counts_wf :: "connection_counts \<Rightarrow> bool" where
  "counts_wf counts = (distinct (map fst counts) \<and> (\<forall>k n. map_of counts k = Some n \<longrightarrow> 1 \<le> n))"

definition count_of :: "connection_counts \<Rightarrow> str \<Rightarrow> int" where "count_of counts key = dict_get_or counts key 0"

lemma counts_wf_update: "counts_wf counts \<Longrightarrow> 1 \<le> n \<Longrightarrow> counts_wf (AList.update key n counts)"
  by (auto simp: counts_wf_def distinct_update update_conv')

lemma counts_wf_delete: "counts_wf counts \<Longrightarrow> counts_wf (AList.delete key counts)"
  by (auto simp: counts_wf_def distinct_delete delete_conv')

lemma count_of_update: "count_of (AList.update key n counts) k = (if k = key then n else count_of counts k)"
  by (simp add: count_of_def dict_get_or_def update_conv')

lemma count_of_delete: "count_of (AList.delete key counts) k = (if k = key then 0 else count_of counts k)"
  by (simp add: count_of_def dict_get_or_def delete_conv')

lemmas count_of_simps = count_of_update count_of_delete

text \<open>What the steps do to the count of one key.\<close>

lemma add_count_cases:
  assumes "counts_wf counts" "1 \<le> m"
  obtains
    (full) "add_count m key counts = (Inl (ArrayErr (NoConnectionAvailableException key)), counts)" "m \<le> count_of counts key"
  | (counted) counts' where "add_count m key counts = (Inr (), counts')" "count_of counts key < m" "counts_wf counts'"
      "\<And>k. count_of counts' k = count_of counts k + (if k = key then 1 else 0)"
proof (cases "map_of counts key")
  case None
  with assms show ?thesis
    by (intro counted [of "AList.update key 1 counts"])
       (simp_all add: add_count_def counts_wf_update count_of_simps, simp_all add: count_of_def dict_get_or_def)
next
  case (Some n)
  then have c: "count_of counts key = n" "1 \<le> n" using assms(1) by (auto simp: count_of_def dict_get_or_def counts_wf_def)
  show ?thesis
  proof (cases "n < m")
    case True
    with assms(1) c Some show ?thesis
      by (intro counted [of "AList.update key (n + 1) counts"]) (simp_all add: add_count_def counts_wf_update count_of_simps)
  next
    case False
    with c Some show ?thesis by (intro full) (simp_all add: add_count_def)
  qed
qed

lemma drop_count_run:
  assumes "counts_wf counts" "1 \<le> count_of counts key"
  obtains counts' where "drop_count key counts = (Inr (), counts')" "counts_wf counts'"
    "\<And>k. count_of counts' k = count_of counts k - (if k = key then 1 else 0)"
proof -
  obtain n where n: "map_of counts key = Some n" "count_of counts key = n"
    using assms(2) by (auto simp: count_of_def dict_get_or_def split: option.splits)
  show ?thesis
    by (rule that [of "if n = 1 then AList.delete key counts else AList.update key (n - 1) counts"])
       (use assms n in \<open>auto simp: drop_count_def dict_item_def counts_wf_update counts_wf_delete count_of_simps\<close>)
qed

subsection \<open>Properties\<close>

text \<open>
  How a use of a connection ends, by what the constructor of the class does with the arguments the manager gives it.
\<close>

definition first_construction :: "'c constructor \<Rightarrow> 'c manager \<Rightarrow> exn + 'c" where
  "first_construction new g =
     call_constructor new (mg_array_type g) (mg_user g) (mg_password g) (mg_endpoints g)
       [(''verify_ssl'', CBool (mg_verify_ssl g))]"

definition second_construction :: "'c constructor \<Rightarrow> 'c manager \<Rightarrow> exn + 'c" where
  "second_construction new g =
     call_constructor new (mg_array_type g) (mg_user g) (mg_password g) (mg_endpoints g) []"

lemma construct_mediator_eq:
  "construct_mediator new g =
     (case first_construction new g of
        Inr c \<Rightarrow> ret c
      | Inl e \<Rightarrow> if e = PyErr TypeError then liftR (second_construction new g)
                 else thenE (drop_count (mg_endpoint_key g)) (raiseE e))"
  by (auto simp: construct_mediator_def first_construction_def second_construction_def Let_def catchE_def prog_run fun_eq_iff
      split: sum.splits)

text \<open>
  Using a connection leaves the counts as they were, unless the class had to be constructed a second time, without the
  keyword \<open>verify_ssl\<close>, and that failed: then the storage system has one connection less from then on.  It also changes
  nothing when there was none left.
\<close>

theorem connection_counts_restored:
  assumes "counts_wf counts" "mg_array_type g \<in> set (map fst array_type_to_max_connections)" "\<And>c. disconnect c = Inr ()"
    and "with_connection new disconnect g body counts = (r, counts')"
  shows "counts_wf counts' \<and>
    (\<forall>k. count_of counts' k = count_of counts k +
       (if k = mg_endpoint_key g \<and> count_of counts k < the (map_of array_type_to_max_connections (mg_array_type g)) \<and>
           first_construction new g = Inl (PyErr TypeError) \<and> (\<exists>e. second_construction new g = Inl e) then 1 else 0))"
proof -
  let ?key = "mg_endpoint_key g"
  obtain m where m: "map_of array_type_to_max_connections (mg_array_type g) = Some m"
    using assms(2) by (metis map_of_eq_None_iff not_None_eq set_map)
  then have m1: "1 \<le> m" by (auto simp: array_type_to_max_connections_def split: if_splits)
  from assms(1) m1 show ?thesis
  proof (cases rule: add_count_cases [where key = ?key])
    case full
    with assms(1,4) m show ?thesis
      by (auto simp: with_connection_def get_array_connection_def dict_item_def prog_run bindE_cases thenE_def)
  next
    case (counted counts1)
    then have key: "1 \<le> count_of counts1 ?key"
      using assms(1) by (cases "map_of counts ?key") (auto simp: count_of_def dict_get_or_def counts_wf_def, fastforce)
    from drop_count_run [OF counted(3) key] obtain counts2
      where drop: "drop_count ?key counts1 = (Inr (), counts2)" "counts_wf counts2"
        "\<And>k. count_of counts2 k = count_of counts1 k - (if k = ?key then 1 else 0)" by blast
    show ?thesis
      using assms(3,4) m counted drop
      by (auto simp: with_connection_def get_array_connection_def dict_item_def prog_run bindE_cases thenE_def
          construct_mediator_eq manager_exit_def mg_endpoint_key_def split: sum.splits if_splits)
  qed
qed

text \<open>
  The class of an SVC, an XIV or a DS8000 has no parameter \<open>verify_ssl\<close>, so that each attempt constructs it twice and an
  attempt that fails is never given back: after as many refused attempts as the class allows connections, every further
  attempt is refused by the manager itself, even when the storage system is well again.
\<close>

definition refused_attempts ::
  "'c constructor \<Rightarrow> ('c \<Rightarrow> exn + unit) \<Rightarrow> 'c manager \<Rightarrow> ('c \<Rightarrow> exn + 'a) \<Rightarrow> nat \<Rightarrow> connection_counts \<Rightarrow> connection_counts" where
  "refused_attempts new disconnect g body n =
     (\<lambda>counts. snd (with_connection new disconnect g body counts)) ^^ n"

theorem refused_attempts_use_up_connections:
  assumes "mg_array_type g \<in> {ARRAY_TYPE_XIV, ARRAY_TYPE_DS8K, ARRAY_TYPE_SVC}"
    and "\<And>c. disconnect c = Inr ()"
    and "\<And>t user password endpoints kw. new t user password endpoints kw = Inl e"
    and "map_of array_type_to_max_connections (mg_array_type g) = Some m" "m \<le> int n"
  shows "with_connection healthy disconnect g body (refused_attempts new disconnect g body n []) =
    (Inl (ArrayErr (NoConnectionAvailableException (mg_endpoint_key g))), refused_attempts new disconnect g body n [])"
proof -
  let ?counts = "\<lambda>n. refused_attempts new disconnect g body n []"
  have known: "mg_array_type g \<in> set (map fst array_type_to_max_connections)"
    using assms(1) by (auto simp: array_type_to_max_connections_def)
  have first: "first_construction new g = Inl (PyErr TypeError)"
    and second: "\<exists>e. second_construction new g = Inl e"
    using assms(1,3)
    by (auto simp: first_construction_def second_construction_def call_constructor_def init_parameters_def dict_item_def
        array_type_defs)
  have "counts_wf (?counts k) \<and> count_of (?counts k) (mg_endpoint_key g) = min (int k) m" for k
  proof (induction k)
    case 0
    from assms(1,4) show ?case
      by (auto simp: refused_attempts_def counts_wf_def count_of_def dict_get_or_def array_type_to_max_connections_def
          array_type_defs)
  next
    case (Suc k)
    obtain r counts' where run: "with_connection new disconnect g body (?counts k) = (r, counts')" by force
    then have "?counts (Suc k) = counts'" by (simp add: refused_attempts_def)
    with connection_counts_restored [OF _ known assms(2) run] Suc first second assms(4) show ?case by auto
  qed
  from this [of n] assms(5) have full: "counts_wf (?counts n)" "m \<le> count_of (?counts n) (mg_endpoint_key g)" by auto
  have "1 \<le> m" using assms(4) by (auto simp: array_type_to_max_connections_def split: if_splits)
  with full(1) show ?thesis
    by (rule add_count_cases [where key = "mg_endpoint_key g"])
       (use full assms(4) in \<open>simp_all add: with_connection_def get_array_connection_def dict_item_def prog_run bindE_cases thenE_def\<close>)
qed

lemma refused_attempts_use_up_connections_witness:
  "\<exists>counts. with_connection (\<lambda>t user password endpoints kw. Inr (7 :: nat)) (\<lambda>c. Inr ())
     \<lparr>mg_array_type = ARRAY_TYPE_SVC, mg_user = ''u'', mg_password = ''p'', mg_endpoints = [''10.0.0.1''],
      mg_verify_ssl = False, mg_mediator = None, mg_connected = False\<rparr> (\<lambda>c. Inr c) counts =
     (Inl (ArrayErr (NoConnectionAvailableException ''10.0.0.1'')), counts)"
  using refused_attempts_use_up_connections
    [where m = 2 and n = 2 and e = "ArrayErr (CredentialsError ''10.0.0.1'')" and disconnect = "\<lambda>c. Inr ()"
      and new = "\<lambda>t user password endpoints kw. Inl (ArrayErr (CredentialsError ''10.0.0.1''))"
      and healthy = "\<lambda>t user password endpoints kw. Inr (7 :: nat)" and body = "\<lambda>c. Inr c"
      and g = "\<lparr>mg_array_type = ARRAY_TYPE_SVC, mg_user = ''u'', mg_password = ''p'', mg_endpoints = [''10.0.0.1''],
      mg_verify_ssl = False, mg_mediator = None, mg_connected = False\<rparr>"]
  by (simp add: array_type_to_max_connections_def array_type_defs mg_endpoint_key_def) blast

end
