(* ===== verification/SantricityCli.thy ===== *)
theory SantricityCli
  imports SantricityViews Santricity
begin

text \<open>
  The command line tool of the SANtricity client (\<open>santricity_client/cli.py\<close>).  A command is a program on the
  storage system over its options and the client that \<open>_build_client\<close> makes of the shared ones; what it prints is
  its result, and \<open>typer.Exit\<close>, \<open>typer.BadParameter\<close> and \<open>typer.Abort\<close> are exceptions.  What goes to the
  error output, and the drawing of a table, are not modelled.
\<close>

subsection \<open>Output and errors\<close>

datatype cli_output = Echo json | Table str json | Say str

definition exit1 :: exn where "exit1 = Foreign ''Exit'' ''1''"
definition bad_parameter :: "str \<Rightarrow> exn" where "bad_parameter m = Foreign ''BadParameter'' m"
definition cli_abort :: exn where "cli_abort = Foreign ''Abort'' []"

text \<open>The views of \<open>CLI_TABLE_VIEWS\<close>.\<close>

definition CLI_VIEWS :: "str list" where
  "CLI_VIEWS =
     [''pools.list'', ''volumes.list'', ''mappings.list'', ''snapshots.list-groups'', ''snapshots.list-images'',
      ''snapshots.list-volumes'', ''snapshots.list-repo-groups'', ''snapshots.list-repo-volumes'',
      ''snapshots.list-group-util'', ''snapshots.list-volume-util'', ''snapshots.list-cg-members'',
      ''snapshots.list-schedules'', ''hosts.membership'', ''reports.interfaces'', ''reports.controllers'']"

text \<open>A list with at least one object is shown as a table of its objects, anything else as it is.\<close>

definition present_output :: "json \<Rightarrow> str \<Rightarrow> bool \<Rightarrow> cli_output list" where
  "present_output payload view json_output =
     (if json_output \<or> view \<notin> set CLI_VIEWS then [Echo payload]
      else case payload of
          JArr vs \<Rightarrow> if filter is_object vs = [] then [Echo payload] else [Table view (JArr (filter is_object vs))]
        | _ \<Rightarrow> [Echo payload])"

text \<open>\<open>except RequestError as exc: _handle_request_error(exc)\<close>, which ends the program.\<close>

definition on_request_error :: "('w, 'a) prog \<Rightarrow> ('w, 'a) prog" where
  "on_request_error m = catchE m (\<lambda>e. case e of RequestError status msg \<Rightarrow> raiseE exit1 | _ \<Rightarrow> raiseE e)"

text \<open>The classes of the client's errors are below \<open>RuntimeError\<close>.\<close>

definition is_runtime_error :: "exn \<Rightarrow> bool" where
  "is_runtime_error e =
     (case e of
        RequestError status msg \<Rightarrow> True
      | Foreign cls msg \<Rightarrow>
          cls \<in> {''RuntimeError'', ''SANtricityError'', ''AuthenticationError'', ''UnexpectedResponseError'', ''ResolutionError''}
      | PyErr p \<Rightarrow> p = RuntimeError \<or> p = NotImplementedError
      | _ \<Rightarrow> False)"

definition is_value_error :: "exn \<Rightarrow> bool" where
  "is_value_error e =
     (case e of PyErr p \<Rightarrow> p = ValueError | Foreign cls msg \<Rightarrow> cls = ''ValueError'' | _ \<Rightarrow> False)"

definition exit_on :: "(exn \<Rightarrow> bool) \<Rightarrow> ('w, 'a) prog \<Rightarrow> ('w, 'a) prog" where
  "exit_on p m = catchE m (\<lambda>e. if p e then raiseE exit1 else raiseE e)"

subsection \<open>The client\<close>

record cli_options =
  co_base_url :: str
  co_auth :: str
  co_username :: "str option"
  co_password :: "str option"
  co_token :: "str option"
  co_verify_ssl :: bool
  co_cert_path :: "str option"
  co_timeout :: rat
  co_release_version :: "str option"
  co_system_id :: "str option"

text \<open>\<open>default_verify\<close> of \<open>_shared_options\<close>, by the environment.\<close>

definition default_verify :: "sdict \<Rightarrow> bool" where
  "default_verify env =
     (case map_of env ''SANTRICITY_VERIFY_SSL'' of
        None \<Rightarrow> True
      | Some v \<Rightarrow> py_lower (py_strip v) \<notin> {''0'', ''false'', ''no'', ''off''})"

text \<open>\<open>expanded\<close> replaces the home directory of a path, \<open>file_exists\<close> asks for a file.\<close>

definition cli_auth_strategy :: "cli_options \<Rightarrow> exn + auth_strategy" where
  "cli_auth_strategy opts =
     (let auth = py_lower (co_auth opts) in
      if auth \<notin> {''basic'', ''jwt''} then Inl (bad_parameter ''--auth must be either 'basic' or 'jwt'.'')
      else if auth = ''jwt''
      then if truthy (co_token opts) then Inr (JWTAuth (the (co_token opts)))
           else Inl (bad_parameter ''--token is required when --auth jwt is selected.'')
      else if truthy (co_username opts) \<and> truthy (co_password opts)
      then Inr (BasicAuth (the (co_username opts)) (the (co_password opts)))
      else Inl (bad_parameter ''--username and --password are required for basic auth.''))"

definition build_client :: "(str \<Rightarrow> str) \<Rightarrow> (str \<Rightarrow> bool) \<Rightarrow> cli_options \<Rightarrow> exn + client_arguments" where
  "build_client expanded file_exists opts =
     bindR (cli_auth_strategy opts) (\<lambda>strategy.
     bindR (case co_cert_path opts of
              None \<Rightarrow> Inr (Inl (co_verify_ssl opts))
            | Some p \<Rightarrow>
                if \<not> file_exists (expanded p) then Inl (bad_parameter ''Certificate file not found for --cert option.'')
                else if \<not> co_verify_ssl opts then Inl (bad_parameter ''Cannot combine --cert with --no-verify.'')
                else Inr (Inr (expanded p))) (\<lambda>verify_target.
     Inr \<lparr>ca_base_url = co_base_url opts, ca_auth = strategy, ca_verify_ssl = verify_target, ca_timeout = co_timeout opts,
          ca_default_headers = [], ca_query_defaults = [], ca_release_version = co_release_version opts,
          ca_system_id = co_system_id opts\<rparr>))"

text \<open>
  \<open>with _build_client(...) as client\<close>.  The commands are over the program that makes the client, which is
  \<open>cli_client\<close> of the shared options; closing its session is not modelled.
\<close>

type_synonym 's built = "('s sn_world, 's santricity) prog"

definition cli_client :: "'s santricity \<Rightarrow> (str \<Rightarrow> str) \<Rightarrow> (str \<Rightarrow> bool) \<Rightarrow> cli_options \<Rightarrow> 's built" where
  "cli_client sn expanded file_exists opts = bindE (liftR (build_client expanded file_exists opts)) (new_client sn)"

definition with_client :: "'s built \<Rightarrow> ('s santricity \<Rightarrow> ('s sn_world, 'a) prog) \<Rightarrow> ('s sn_world, 'a) prog" where
  "with_client client f = bindE client f"

subsection \<open>Parsing options\<close>

text \<open>\<open>float(v)\<close> accepts a text with a point: digits on a side of it, maybe a sign and an exponent.\<close>

definition unsigned :: "str \<Rightarrow> str" where
  "unsigned s = (if s \<noteq> [] \<and> (hd s = CHR ''-'' \<or> hd s = CHR ''+'') then tl s else s)"

definition is_digits :: "str \<Rightarrow> bool" where "is_digits s = (drop_underscores s \<noteq> None)"

definition is_exponent :: "str \<Rightarrow> bool" where
  "is_exponent s = (s = [] \<or> (hd s = CHR ''e'' \<or> hd s = CHR ''E'') \<and> is_digits (unsigned (tl s)))"

definition is_point_float :: "str \<Rightarrow> bool" where
  "is_point_float v =
     (let s = unsigned v;
          whole = takeWhile (\<lambda>c. c \<noteq> CHR ''.'') s;
          rest = tl (dropWhile (\<lambda>c. c \<noteq> CHR ''.'') s);
          frac = takeWhile (\<lambda>c. c \<noteq> CHR ''e'' \<and> c \<noteq> CHR ''E'') rest;
          expo = dropWhile (\<lambda>c. c \<noteq> CHR ''e'' \<and> c \<noteq> CHR ''E'') rest
      in (is_digits whole \<and> (frac = [] \<or> is_digits frac) \<or> whole = [] \<and> is_digits frac) \<and> is_exponent expo)"

text \<open>As in the theory \<open>Json\<close> a float keeps its literal.\<close>

definition coerce_simple :: "str \<Rightarrow> json" where
  "coerce_simple value =
     (let v = py_strip value; low = py_lower v in
      if v = [] then JStr []
      else if low \<in> {''true'', ''yes'', ''on''} then JBool True
      else if low \<in> {''false'', ''no'', ''off''} then JBool False
      else if low \<in> {''null'', ''none''} then JNull
      else if CHR ''.'' \<in> set v then (if is_point_float v then JFloat v else JStr v)
      else case py_int v of Some n \<Rightarrow> JInt n | None \<Rightarrow> JStr v)"

text \<open>The two sides of the first \<open>=\<close>.\<close>

definition split_assignment :: "str \<Rightarrow> (str \<times> str) option" where
  "split_assignment s =
     (if CHR ''='' \<in> set s
      then Some (takeWhile (\<lambda>c. c \<noteq> CHR ''='') s, tl (dropWhile (\<lambda>c. c \<noteq> CHR ''='') s)) else None)"

definition parse_extras :: "str \<Rightarrow> (str \<times> json) list" where
  "parse_extras s =
     dict_of_pairs (map (\<lambda>part. case split_assignment part of
         Some (key, val) \<Rightarrow> (py_strip key, coerce_simple val)
       | None \<Rightarrow> (part, JBool True))
       (filter (\<lambda>p. p \<noteq> []) (map py_strip (py_split (CHR '','') s))))"

subsection \<open>Rows\<close>

text \<open>\<open>row[k] = v\<close> on an answer's object.\<close>

definition json_put :: "str \<Rightarrow> json \<Rightarrow> json \<Rightarrow> exn + json" where
  "json_put k x v = (case v of JObj ms \<Rightarrow> Inr (JObj (AList.update k x ms)) | _ \<Rightarrow> Inl (PyErr TypeError))"

definition rows_of :: "json \<Rightarrow> (json \<Rightarrow> exn + json) \<Rightarrow> exn + json" where
  "rows_of payload f = bindR (json_iter payload) (\<lambda>vs. bindR (mapR f vs) (\<lambda>ws. Inr (JArr ws)))"

text \<open>\<open>(volume.get("name") or volume.get("label") or "").strip()\<close>\<close>

definition stripped_name :: "str list \<Rightarrow> json \<Rightarrow> exn + str" where
  "stripped_name keys v =
     bindR (json_first_of v keys) (\<lambda>x.
     if \<not> json_truthy x then Inr []
     else case x of JStr s \<Rightarrow> Inr (py_strip s) | _ \<Rightarrow> Inl (PyErr AttributeError))"

text \<open>The volumes by their names, the names in the order they come up.\<close>

fun name_buckets :: "(str \<times> json list) list \<Rightarrow> json list \<Rightarrow> exn + (str \<times> json list) list" where
  "name_buckets buckets [] = Inr buckets"
| "name_buckets buckets (v # vs) =
     bindR (stripped_name [''name'', ''label''] v) (\<lambda>label.
     name_buckets (if label = [] then buckets
                   else AList.update label (dict_get_or buckets label [] @ [v]) buckets) vs)"

definition collect_duplicate_volume_names :: "json list \<Rightarrow> exn + json list" where
  "collect_duplicate_volume_names volumes =
     bindR (name_buckets [] volumes) (\<lambda>buckets.
     mapR (\<lambda>(label, items).
         bindR (mapR (\<lambda>i. json_get i ''volumeRef'') items) (\<lambda>refs.
         Inr (JObj [(''name'', JStr label), (''count'', JInt (int (length items))), (''volumeRefs'', JArr refs)])))
       (filter (\<lambda>(label, items). 1 < length items) buckets))"

definition has_name :: "str \<Rightarrow> json \<Rightarrow> exn + bool" where
  "has_name name v = bindR (json_first_of v [''name'', ''label'']) (\<lambda>x. Inr (x = JStr name))"

definition ensure_volume_name_is_unique :: "'s santricity \<Rightarrow> str \<Rightarrow> ('s sn_world, unit) prog" where
  "ensure_volume_name_is_unique sn name =
     bindE (on_request_error (volumes_list sn)) (\<lambda>volumes.
     bindE (liftR (bindR (json_iter volumes) (first_where (has_name name)))) (\<lambda>found.
     if found \<noteq> None then raiseE exit1 else ret ()))"

text \<open>\<open>^repos_[0-9]+$\<close>, in any case.\<close>

definition is_repo_volume_name :: "str \<Rightarrow> bool" where
  "is_repo_volume_name s =
     (py_startswith (py_lower s) ''repos_'' \<and> drop 6 s \<noteq> [] \<and> list_all is_digit (drop 6 s))"

definition is_snapshot_repo_volume :: "json \<Rightarrow> exn + bool" where
  "is_snapshot_repo_volume v =
     bindR (json_get v ''volumeUse'') (\<lambda>use.
     let volume_use = py_lower (py_strip (if json_truthy use then json_show use else [])) in
     if volume_use \<in> {''concatvolume'', ''freerepositoryvolume''} then Inr True
     else bindR (mapR (json_get v) [''label'', ''name'']) (\<lambda>candidates.
          Inr (list_ex (\<lambda>c. case c of JStr s \<Rightarrow> is_repo_volume_name (py_strip s) | _ \<Rightarrow> False) candidates)))"

definition text_is :: "str list \<Rightarrow> str \<Rightarrow> json \<Rightarrow> exn + bool" where
  "text_is keys x v = bindR (text_of_first v keys) (\<lambda>t. Inr (t = x))"

definition ref_and_label :: "str \<Rightarrow> json \<Rightarrow> exn + str \<times> str" where
  "ref_and_label volume v =
     bindR (json_first_of v [''volumeRef'', ''id'']) (\<lambda>r.
     bindR (json_first_of v [''label'', ''name'']) (\<lambda>l.
     Inr (json_show r, if json_truthy l then json_show l else volume)))"

text \<open>A volume by its reference, or else by its name if only one volume has it.\<close>

definition resolve_volume_ref :: "'s santricity \<Rightarrow> str \<Rightarrow> ('s sn_world, str \<times> str) prog" where
  "resolve_volume_ref sn volume =
     bindE (on_request_error (volumes_list sn)) (\<lambda>volumes.
     bindE (liftR (json_iter volumes)) (\<lambda>vs.
     bindE (liftR (filter_where (text_is [''volumeRef'', ''id''] volume) vs)) (\<lambda>by_id.
     case by_id of
       v # _ \<Rightarrow> liftR (ref_and_label volume v)
     | [] \<Rightarrow>
         bindE (liftR (filter_where (text_is [''label'', ''name''] volume) vs)) (\<lambda>by_label.
         case by_label of [v] \<Rightarrow> liftR (ref_and_label volume v) | _ \<Rightarrow> raiseE exit1))))"

definition list_schedules_best_effort :: "'s santricity \<Rightarrow> ('s sn_world, json) prog" where
  "list_schedules_best_effort sn = catchE (list_schedules sn) (\<lambda>e. ret (JArr []))"

fun count_targets :: "(str \<times> int) list \<Rightarrow> json list \<Rightarrow> exn + (str \<times> int) list" where
  "count_targets counts [] = Inr counts"
| "count_targets counts (s # ss) =
     bindR (json_get s ''targetObject'') (\<lambda>target.
     count_targets (if json_truthy target
                    then AList.update (json_show target) (dict_get_or counts (json_show target) 0 + 1) counts
                    else counts) ss)"

definition snapshot_schedule_counts :: "json \<Rightarrow> exn + (str \<times> int) list" where
  "snapshot_schedule_counts schedules = bindR (json_iter schedules) (count_targets [])"

definition with_schedules :: "(str \<times> int) list \<Rightarrow> str \<Rightarrow> json \<Rightarrow> exn + json" where
  "with_schedules counts ref v =
     (let n = dict_get_or counts ref 0 in
      bindR (json_put ''scheduleCount'' (JInt n) v) (json_put ''isScheduleOwned'' (JBool (0 < n))))"

text \<open>The names of the groups by reference, for groups that have one; keys are JSON values that are hashed.\<close>

fun group_names :: "(json \<times> json) list \<Rightarrow> json list \<Rightarrow> exn + (json \<times> json) list" where
  "group_names names [] = Inr names"
| "group_names names (g # gs) =
     bindR (json_contains g ''pitGroupRef'') (\<lambda>there.
     if \<not> there then group_names names gs
     else bindR (bindR (json_item g ''pitGroupRef'') hashable) (\<lambda>ref.
          bindR (json_first_of g [''name'', ''label'']) (\<lambda>name.
          group_names (AList.update ref (if json_truthy name then name else ref) names) gs)))"

definition with_group_name :: "(json \<times> json) list \<Rightarrow> str \<Rightarrow> json \<Rightarrow> exn + json" where
  "with_group_name names key v =
     bindR (bindR (json_get v key) hashable) (\<lambda>ref.
     json_put ''snapshotGroupName'' (dict_get_or names ref (if json_truthy ref then ref else JStr [])) v)"

subsection \<open>Commands that list\<close>

definition cli_system_version :: "'s built \<Rightarrow> ('s sn_world, cli_output list) prog" where
  "cli_system_version client =
     with_client client (\<lambda>sn. bindE (on_request_error (release_summary sn)) (\<lambda>row. ret [Echo (JObj row)]))"

definition cli_reports_interfaces :: "'s built \<Rightarrow> str \<Rightarrow> str \<Rightarrow> bool \<Rightarrow> ('s sn_world, cli_output list) prog" where
  "cli_reports_interfaces client controller protocol output_json =
     with_client client (\<lambda>sn.
     bindE (on_request_error (hostside_interfaces_report sn controller protocol)) (\<lambda>rows.
     ret (present_output (JArr (map JObj rows)) ''reports.interfaces'' output_json)))"

definition cli_reports_controllers :: "'s built \<Rightarrow> str \<Rightarrow> str \<Rightarrow> bool \<Rightarrow> bool \<Rightarrow> ('s sn_world, cli_output list) prog" where
  "cli_reports_controllers client controller protocol include_hostside_interfaces output_json =
     with_client client (\<lambda>sn.
     bindE (on_request_error (controllers_report sn controller protocol include_hostside_interfaces)) (\<lambda>rows.
     ret (present_output (JArr (map JObj rows)) ''reports.controllers'' output_json)))"

text \<open>The labels of the groups by cluster, and by the hosts they list.\<close>

fun group_labels ::
  "(json \<times> str) list \<Rightarrow> (str \<times> str) list \<Rightarrow> json list \<Rightarrow> exn + (json \<times> str) list \<times> (str \<times> str) list" where
  "group_labels clusters hosts [] = Inr (clusters, hosts)"
| "group_labels clusters hosts (g # gs) =
     bindR (stripped_name [''label'', ''name''] g) (\<lambda>label.
     bindR (json_get g ''clusterRef'') (\<lambda>cluster_ref.
     bindR (if json_truthy cluster_ref \<and> label \<noteq> []
            then bindR (hashable cluster_ref) (\<lambda>r. Inr (AList.update r label clusters)) else Inr clusters) (\<lambda>clusters'.
     bindR (json_get g ''hostRefs'') (\<lambda>host_refs.
     let hosts' = (case host_refs of
           JArr rs \<Rightarrow> foldl (\<lambda>hs r. case r of JStr h \<Rightarrow> if label \<noteq> [] then AList.update h label hs else hs | _ \<Rightarrow> hs) hosts rs
         | _ \<Rightarrow> hosts)
     in group_labels clusters' hosts' gs))))"

definition membership_row :: "(json \<times> str) list \<Rightarrow> (str \<times> str) list \<Rightarrow> json \<Rightarrow> exn + json" where
  "membership_row clusters hosts h =
     bindR (json_get h ''hostRef'') (\<lambda>host_ref.
     bindR (json_get h ''clusterRef'') (\<lambda>cluster_ref.
     bindR (if json_truthy host_ref then bindR (hashable host_ref) (\<lambda>r. Inr (case r of JStr t \<Rightarrow> map_of hosts t | _ \<Rightarrow> None))
            else Inr None) (\<lambda>by_host.
     bindR (case by_host of
              Some l \<Rightarrow> Inr (Some l)
            | None \<Rightarrow> if json_truthy cluster_ref then bindR (hashable cluster_ref) (\<lambda>r. Inr (map_of clusters r)) else Inr None) (\<lambda>group_label.
     bindR (json_get h ''label'') (\<lambda>label.
     Inr (JObj [(''hostLabel'', label), (''hostRef'', host_ref), (''clusterRef'', cluster_ref),
                (''hostGroup'', opt_json group_label), (''belongsToGroup'', JBool (truthy group_label))]))))))"

definition cli_hosts_membership :: "'s built \<Rightarrow> bool \<Rightarrow> ('s sn_world, cli_output list) prog" where
  "cli_hosts_membership client output_json =
     with_client client (\<lambda>sn.
     bindE (on_request_error (bindE (hosts_list sn) (\<lambda>hosts. bindE (hosts_list_groups sn) (\<lambda>groups. ret (hosts, groups))))) (\<lambda>(hosts, groups).
     bindE (liftR (bindR (json_iter groups) (group_labels [] []))) (\<lambda>(by_cluster, by_host).
     bindE (liftR (rows_of hosts (membership_row by_cluster by_host))) (\<lambda>memberships.
     ret (present_output memberships ''hosts.membership'' output_json)))))"

definition cli_volumes_check_names :: "'s built \<Rightarrow> ('s sn_world, cli_output list) prog" where
  "cli_volumes_check_names client =
     with_client client (\<lambda>sn.
     bindE (on_request_error (volumes_list sn)) (\<lambda>volumes.
     bindE (liftR (bindR (json_iter volumes) collect_duplicate_volume_names)) (\<lambda>duplicates.
     if duplicates \<noteq> [] then raiseE exit1 else ret [Say ''All volume names are unique.''])))"

definition cli_listing ::
  "('s santricity \<Rightarrow> ('s sn_world, json) prog) \<Rightarrow> str \<Rightarrow> 's built \<Rightarrow> bool \<Rightarrow> ('s sn_world, cli_output list) prog" where
  "cli_listing items view client output_json =
     with_client client (\<lambda>sn. bindE (on_request_error (items sn)) (\<lambda>v. ret (present_output v view output_json)))"

definition cli_pools_list :: "'s built \<Rightarrow> bool \<Rightarrow> ('s sn_world, cli_output list) prog" where
  "cli_pools_list = cli_listing pools_list ''pools.list''"

definition cli_volumes_list :: "'s built \<Rightarrow> bool \<Rightarrow> ('s sn_world, cli_output list) prog" where
  "cli_volumes_list = cli_listing volumes_list ''volumes.list''"

definition cli_snapshot_list_command ::
  "('s santricity \<Rightarrow> ('s sn_world, json) prog) \<Rightarrow> str \<Rightarrow> 's built \<Rightarrow> bool \<Rightarrow> ('s sn_world, cli_output list) prog" where
  "cli_snapshot_list_command = cli_listing"

definition cli_snapshots_list_volumes :: "'s built \<Rightarrow> bool \<Rightarrow> ('s sn_world, cli_output list) prog" where
  "cli_snapshots_list_volumes = cli_snapshot_list_command list_snapshot_volumes ''snapshots.list-volumes''"

definition cli_snapshots_list_repos :: "'s built \<Rightarrow> bool \<Rightarrow> ('s sn_world, cli_output list) prog" where
  "cli_snapshots_list_repos = cli_snapshot_list_command list_repositories ''snapshots.list-repo-groups''"

definition cli_snapshots_list_volume_util :: "'s built \<Rightarrow> bool \<Rightarrow> ('s sn_world, cli_output list) prog" where
  "cli_snapshots_list_volume_util = cli_snapshot_list_command list_volume_repo_utilization ''snapshots.list-volume-util''"

definition cli_snapshots_list_cg_members :: "'s built \<Rightarrow> bool \<Rightarrow> ('s sn_world, cli_output list) prog" where
  "cli_snapshots_list_cg_members = cli_snapshot_list_command list_consistency_group_members ''snapshots.list-cg-members''"

definition cli_snapshots_list_groups :: "'s built \<Rightarrow> bool \<Rightarrow> ('s sn_world, cli_output list) prog" where
  "cli_snapshots_list_groups client output_json =
     with_client client (\<lambda>sn.
     bindE (on_request_error (bindE (list_snapshot_groups sn) (\<lambda>groups. bindE (list_schedules_best_effort sn) (\<lambda>schedules. ret (groups, schedules))))) (\<lambda>(groups, schedules).
     bindE (liftR (snapshot_schedule_counts schedules)) (\<lambda>counts.
     bindE (liftR (rows_of groups (\<lambda>g. bindR (text_of_first g [''pitGroupRef'', ''id'']) (\<lambda>ref. with_schedules counts ref g)))) (\<lambda>rows.
     ret (present_output rows ''snapshots.list-groups'' output_json)))))"

definition cli_snapshots_list_snapshots :: "'s built \<Rightarrow> bool \<Rightarrow> ('s sn_world, cli_output list) prog" where
  "cli_snapshots_list_snapshots client output_json =
     with_client client (\<lambda>sn.
     bindE (on_request_error (bindE (list_all_images sn) (\<lambda>images. bindE (list_snapshot_groups sn) (\<lambda>groups. ret (images, groups))))) (\<lambda>(images, groups).
     bindE (liftR (bindR (json_iter groups) (group_names []))) (\<lambda>names.
     bindE (liftR (rows_of images (with_group_name names ''pitGroupRef''))) (\<lambda>rows.
     ret (present_output rows ''snapshots.list-images'' output_json)))))"

definition cli_snapshots_list_images :: "'s built \<Rightarrow> bool \<Rightarrow> ('s sn_world, cli_output list) prog" where
  "cli_snapshots_list_images = cli_snapshots_list_snapshots"

definition cli_snapshots_list_schedules :: "'s built \<Rightarrow> bool \<Rightarrow> ('s sn_world, cli_output list) prog" where
  "cli_snapshots_list_schedules client output_json =
     with_client client (\<lambda>sn.
     bindE (on_request_error (bindE (list_schedules sn) (\<lambda>schedules. bindE (list_snapshot_groups sn) (\<lambda>groups. ret (schedules, groups))))) (\<lambda>(schedules, groups).
     bindE (liftR (bindR (json_iter groups) (group_names []))) (\<lambda>names.
     bindE (liftR (rows_of schedules (with_group_name names ''targetObject''))) (\<lambda>rows.
     ret (present_output rows ''snapshots.list-schedules'' output_json)))))"

definition cli_snapshots_list_repo_volumes :: "'s built \<Rightarrow> bool \<Rightarrow> ('s sn_world, cli_output list) prog" where
  "cli_snapshots_list_repo_volumes client output_json =
     with_client client (\<lambda>sn.
     bindE (on_request_error (volumes_list sn)) (\<lambda>volumes.
     bindE (liftR (bindR (json_iter volumes) (\<lambda>vs. filter_where is_snapshot_repo_volume (filter is_object vs)))) (\<lambda>repo_volumes.
     ret (present_output (JArr repo_volumes) ''snapshots.list-repo-volumes'' output_json))))"

text \<open>The names of the groups by the text of their reference.\<close>

definition group_texts :: "json list \<Rightarrow> exn + (str \<times> json) list" where
  "group_texts groups =
     bindR (mapR (\<lambda>g. bindR (text_of_first g [''pitGroupRef'', ''id'']) (\<lambda>ref.
                      bindR (json_first_of g [''name'', ''label'']) (\<lambda>name.
                      Inr (ref, if json_truthy name then name else JStr ref)))) groups) (\<lambda>pairs.
     Inr (dict_of_pairs (filter (\<lambda>(ref, name). ref \<noteq> []) pairs)))"

definition group_util_row :: "(str \<times> json) list \<Rightarrow> (str \<times> int) list \<Rightarrow> json \<Rightarrow> exn + json" where
  "group_util_row names counts item =
     bindR (text_of_first item [''groupRef'']) (\<lambda>ref.
     bindR (json_put ''snapshotGroupName'' (dict_get_or names ref (JStr ref)) item) (\<lambda>item'.
     with_schedules counts ref item'))"

definition cli_snapshots_list_group_util :: "'s built \<Rightarrow> bool \<Rightarrow> ('s sn_world, cli_output list) prog" where
  "cli_snapshots_list_group_util client output_json =
     with_client client (\<lambda>sn.
     bindE (on_request_error
       (bindE (list_group_repo_utilization sn) (\<lambda>utilization.
        bindE (list_snapshot_groups sn) (\<lambda>groups.
        bindE (list_schedules_best_effort sn) (\<lambda>schedules. ret (utilization, groups, schedules)))))) (\<lambda>(utilization, groups, schedules).
     bindE (liftR (bindR (json_iter groups) group_texts)) (\<lambda>names.
     bindE (liftR (snapshot_schedule_counts schedules)) (\<lambda>counts.
     bindE (liftR (rows_of utilization (group_util_row names counts))) (\<lambda>rows.
     ret (present_output rows ''snapshots.list-group-util'' output_json))))))"

definition cli_mappings_list :: "'s built \<Rightarrow> bool \<Rightarrow> bool \<Rightarrow> ('s sn_world, cli_output list) prog" where
  "cli_mappings_list client resolve output_json =
     with_client client (\<lambda>sn.
     bindE (on_request_error
        (if resolve then bindE (mappings_report sn) (\<lambda>rows. ret (JArr (map JObj rows))) else mappings_list sn)) (\<lambda>mappings.
     ret (present_output mappings ''mappings.list'' output_json)))"

subsection \<open>Commands on snapshots\<close>

definition cli_snapshots_create_image :: "'s built \<Rightarrow> str \<Rightarrow> ('s sn_world, cli_output list) prog" where
  "cli_snapshots_create_image client group_ref =
     with_client client (\<lambda>sn. bindE (on_request_error (create_image sn (JStr group_ref))) (\<lambda>image. ret [Echo image]))"

definition cli_snapshots_plan_repo_group :: "'s built \<Rightarrow> str \<Rightarrow> int \<Rightarrow> bool \<Rightarrow> ('s sn_world, cli_output list) prog" where
  "cli_snapshots_plan_repo_group client volume percent_capacity use_free =
     with_client client (\<lambda>sn.
     bindE (resolve_volume_ref sn volume) (\<lambda>(volume_ref, label).
     bindE (on_request_error (get_repo_group_candidates_single sn volume_ref percent_capacity use_free ''snapshot'')) (\<lambda>candidates.
     ret [Echo candidates])))"

definition cli_snapshots_create_repo_group :: "'s built \<Rightarrow> str \<Rightarrow> int \<Rightarrow> bool \<Rightarrow> ('s sn_world, cli_output list) prog" where
  "cli_snapshots_create_repo_group = cli_snapshots_plan_repo_group"

record snapshot_group_options =
  so_name :: "str option"
  so_warning_threshold :: int
  so_auto_delete_limit :: int
  so_full_policy :: str

text \<open>\<open>candidates[0]["candidate"]\<close> of a list that is not empty, and an exit otherwise.\<close>

definition first_candidate :: "json \<Rightarrow> exn + json" where
  "first_candidate candidates =
     (case candidates of
        JArr (c # cs) \<Rightarrow>
          bindR (json_contains c ''candidate'') (\<lambda>there. if there then json_item c ''candidate'' else Inl exit1)
      | _ \<Rightarrow> Inl exit1)"

definition cli_snapshots_create_snapshot_group ::
  "'s built \<Rightarrow> str \<Rightarrow> int \<Rightarrow> bool \<Rightarrow> snapshot_group_options \<Rightarrow> ('s sn_world, cli_output list) prog" where
  "cli_snapshots_create_snapshot_group client volume percent_capacity use_free opts =
     with_client client (\<lambda>sn.
     bindE (resolve_volume_ref sn volume) (\<lambda>(volume_ref, volume_label).
     bindE (on_request_error (get_repo_group_candidates_single sn volume_ref percent_capacity use_free ''snapshot'')) (\<lambda>candidates.
     bindE (liftR (first_candidate candidates)) (\<lambda>candidate.
     bindE (on_request_error (create_group sn (JObj
         [(''baseMappableObjectId'', JStr volume_ref),
          (''name'', JStr (if truthy (so_name opts) then the (so_name opts) else volume_label @ ''_SG_01'')),
          (''repositoryCandidate'', candidate), (''warningThreshold'', JInt (so_warning_threshold opts)),
          (''autoDeleteLimit'', JInt (so_auto_delete_limit opts)), (''fullPolicy'', JStr (so_full_policy opts))]))) (\<lambda>g.
     ret [Echo g])))))"

text \<open>The options of the automatic choice of a group; the volume is filled in when it is resolved.\<close>

record auto_options =
  ao_auto :: bool
  ao_include_schedule_owned_groups :: bool
  ao_min_free_percent :: rat
  ao_auto_grow_if_needed :: bool
  ao_growth_step_percent :: int
  ao_max_repo_group_capacity_percent :: rat
  ao_max_repo_volumes_per_group :: int

definition auto_snapshot :: "'s santricity \<Rightarrow> auto_options \<Rightarrow> str \<Rightarrow> ('s sn_world, json) prog" where
  "auto_snapshot sn opts volume_ref =
     auto_create_snapshot sn
       \<lparr>gl_volume_ref = volume_ref, gl_include_schedule_owned_groups = ao_include_schedule_owned_groups opts,
        gl_min_free_percent = ao_min_free_percent opts,
        gl_max_repo_group_capacity_percent = ao_max_repo_group_capacity_percent opts,
        gl_max_repo_volumes_per_group = ao_max_repo_volumes_per_group opts\<rparr>
       None (ao_growth_step_percent opts) (ao_auto_grow_if_needed opts) (Some 20)"

definition cli_snapshots_create_snapshot ::
  "'s built \<Rightarrow> str option \<Rightarrow> str option \<Rightarrow> auto_options \<Rightarrow> ('s sn_world, cli_output list) prog" where
  "cli_snapshots_create_snapshot client group_ref volume opts =
     (if \<not> truthy group_ref \<and> \<not> ao_auto opts then raiseE exit1
      else if ao_auto opts \<and> \<not> truthy group_ref \<and> \<not> truthy volume then raiseE exit1
      else with_client client (\<lambda>sn.
        bindE (if truthy volume then bindE (resolve_volume_ref sn (the volume)) (\<lambda>(ref, label). ret (Some ref)) else ret None) (\<lambda>volume_ref.
        if \<not> truthy volume_ref then raiseE exit1
        else bindE (exit_on (\<lambda>e. is_runtime_error e \<or> is_value_error e) (auto_snapshot sn opts (the volume_ref))) (\<lambda>snapshot.
             ret [Echo snapshot]))))"

definition cli_snapshots_create_clone ::
  "'s built \<Rightarrow> str \<Rightarrow> str \<Rightarrow> str \<Rightarrow> str option \<Rightarrow> ('s sn_world, cli_output list) prog" where
  "cli_snapshots_create_clone client snapshot_id name clone_type extras =
     (if py_lower clone_type \<noteq> ''ro'' then raiseE exit1
      else let payload = [(''name'', JStr name), (''snapshotImageId'', JStr snapshot_id), (''viewMode'', JStr ''readOnly'')] in
        with_client client (\<lambda>sn.
        bindE (on_request_error (create_snapshot_volume sn
            (JObj (if truthy extras then row_update payload (parse_extras (the extras)) else payload)))) (\<lambda>clone.
        ret [Echo clone])))"

definition in_quotes :: "str \<Rightarrow> str" where "in_quotes s = [CHR 0x27] @ s @ [CHR 0x27]"

definition cli_snapshots_delete_snapshot :: "'s built \<Rightarrow> str \<Rightarrow> ('s sn_world, cli_output list) prog" where
  "cli_snapshots_delete_snapshot client snapshot_ref =
     with_client client (\<lambda>sn. bindE (on_request_error (delete_image sn (JStr snapshot_ref))) (\<lambda>_.
     ret [Say (''Snapshot '' @ str_repr snapshot_ref @ '' deleted.'')]))"

definition cli_snapshots_delete_image :: "'s built \<Rightarrow> str \<Rightarrow> ('s sn_world, cli_output list) prog" where
  "cli_snapshots_delete_image = cli_snapshots_delete_snapshot"

definition cli_snapshots_delete_group :: "'s built \<Rightarrow> str \<Rightarrow> ('s sn_world, cli_output list) prog" where
  "cli_snapshots_delete_group client group_ref =
     with_client client (\<lambda>sn. bindE (on_request_error (delete_group sn (JStr group_ref))) (\<lambda>_.
     ret [Say (''Snapshot group '' @ str_repr group_ref @ '' deleted.'')]))"

definition cli_snapshots_delete_repo_group :: "str \<Rightarrow> ('s sn_world, cli_output list) prog" where
  "cli_snapshots_delete_repo_group repo_group_ref = raiseE exit1"

subsection \<open>Commands on volumes\<close>

definition meta_tag :: "str \<Rightarrow> exn + json" where
  "meta_tag entry =
     (case split_assignment entry of
        None \<Rightarrow> Inl (bad_parameter ''Meta tags must be provided as key=value pairs.'')
      | Some (key, value) \<Rightarrow> Inr (JObj [(''key'', JStr key), (''value'', JStr value)]))"

record volume_options =
  vo_pool_id :: str
  vo_name :: str
  vo_size :: str
  vo_size_unit :: str
  vo_raid_level :: "str option"
  vo_block_size :: "int option"
  vo_data_assurance :: bool
  vo_tags :: "str list"

text \<open>The text of the payload file, or the error that reading it raised, takes the place of the other options.\<close>

definition build_volume_payload :: "volume_options \<Rightarrow> (exn + str) option \<Rightarrow> exn + json" where
  "build_volume_payload opts payload_file =
     (case payload_file of
        Some (Inl e) \<Rightarrow> Inl (bad_parameter (''Unable to read payload file: '' @ exn_text e))
      | Some (Inr text) \<Rightarrow>
          (case json_loads text of
             None \<Rightarrow> Inl (bad_parameter ''Payload file is not valid JSON'') | Some v \<Rightarrow> Inr v)
      | None \<Rightarrow>
          bindR (mapR meta_tag (vo_tags opts)) (\<lambda>tags.
          Inr (JObj ([(''poolId'', JStr (vo_pool_id opts)), (''name'', JStr (vo_name opts)), (''size'', JStr (vo_size opts)),
                 (''sizeUnit'', JStr (py_lower (vo_size_unit opts))), (''dataAssuranceEnabled'', JBool (vo_data_assurance opts))] @
                (if truthy (vo_raid_level opts) then [(''raidLevel'', JStr (the (vo_raid_level opts)))] else []) @
                (case vo_block_size opts of Some b \<Rightarrow> if b \<noteq> 0 then [(''blockSize'', JInt b)] else [] | None \<Rightarrow> []) @
                (if tags \<noteq> [] then [(''metaTags'', JArr tags)] else [])))))"

text \<open>What the extras are put into has to be an object.\<close>

definition add_extras :: "str option \<Rightarrow> json \<Rightarrow> exn + json" where
  "add_extras extras payload =
     (if \<not> truthy extras then Inr payload
      else case payload of
          JObj ms \<Rightarrow> Inr (JObj (row_update ms (parse_extras (the extras))))
        | _ \<Rightarrow> Inl (bad_parameter ''Invalid format for --extras; expected k=v pairs separated by commas.''))"

text \<open>
  \<open>dict(payload)\<close>.  A payload file that holds a list of pairs, of which \<open>dict\<close> makes an object, is not modelled: it is
  refused here.
\<close>

definition payload_members :: "json \<Rightarrow> exn + (str \<times> json) list" where
  "payload_members payload =
     (case payload of
        JObj ms \<Rightarrow> Inr ms
      | JArr [] \<Rightarrow> Inr []
      | JStr s \<Rightarrow> if s = [] then Inr [] else Inl (PyErr ValueError)
      | _ \<Rightarrow> Inl (PyErr TypeError))"

definition cli_volumes_create ::
  "'s built \<Rightarrow> volume_options \<Rightarrow> (exn + str) option \<Rightarrow> str option \<Rightarrow> bool \<Rightarrow> ('s sn_world, cli_output list) prog" where
  "cli_volumes_create client opts payload_file extras require_unique_name =
     bindE (liftR (bindR (build_volume_payload opts payload_file) (add_extras extras))) (\<lambda>payload.
     with_client client (\<lambda>sn.
     bindE (exit_on (\<lambda>e. case e of RequestError status m \<Rightarrow> True | Foreign cls m \<Rightarrow> cls = ''AuthenticationError'' | _ \<Rightarrow> False)
       (thenE (if require_unique_name then ensure_volume_name_is_unique sn (vo_name opts) else ret ())
          (bindE (liftR (payload_members payload)) (pools_create_volume sn (JStr (vo_pool_id opts)))))) (\<lambda>result.
     ret [Echo result])))"

text \<open>\<open>confirmed\<close> is the answer to the question, which is asked unless \<open>force\<close> is set.\<close>

definition confirm :: "bool \<Rightarrow> bool \<Rightarrow> ('w, unit) prog" where
  "confirm force confirmed = (if \<not> force \<and> \<not> confirmed then raiseE cli_abort else ret ())"

definition cli_volumes_delete :: "'s built \<Rightarrow> str \<Rightarrow> bool \<Rightarrow> bool \<Rightarrow> ('s sn_world, cli_output list) prog" where
  "cli_volumes_delete client volume_ref force confirmed =
     with_client client (\<lambda>sn.
     thenE (confirm force confirmed)
    (bindE (on_request_error (volumes_delete sn (JStr volume_ref))) (\<lambda>result.
     ret ([Say (''Volume '' @ in_quotes volume_ref @ '' deleted.'')] @ (if json_truthy result then [Echo result] else [])))))"

text \<open>\<open>client.volumes.expand\<close> with a size that is a float.\<close>

definition volumes_expand_to :: "'s santricity \<Rightarrow> str \<Rightarrow> rat \<Rightarrow> str \<Rightarrow> ('s sn_world, json) prog" where
  "volumes_expand_to sn volume_ref size_value unit_name =
     (case map_of unit_multipliers (py_lower unit_name) of
        None \<Rightarrow> raiseE (Foreign ''ValueError'' (''Invalid unit: '' @ unit_name @ ''. Supported units: '' @
                  py_join '', '' (map fst unit_multipliers)))
      | Some m \<Rightarrow>
          resource_post sn (path_of ''/volumes/'' (JStr volume_ref) @ ''/expand'')
            (JObj [(''expansionSize'', JInt (float_trunc (float_mult size_value (float_of_int m)))), (''sizeUnit'', JStr ''bytes'')]))"

definition cli_volumes_expand :: "'s built \<Rightarrow> str \<Rightarrow> rat \<Rightarrow> str \<Rightarrow> ('s sn_world, cli_output list) prog" where
  "cli_volumes_expand client volume_ref size_value unit_name =
     with_client client (\<lambda>sn. bindE (on_request_error (volumes_expand_to sn volume_ref size_value unit_name)) (\<lambda>result.
     ret [Echo result]))"

subsection \<open>Commands on mappings\<close>

text \<open>Exactly one of the four options: the values for host, host reference, host group and cluster reference.\<close>

definition build_mapping_target ::
  "str option \<Rightarrow> str option \<Rightarrow> str option \<Rightarrow> str option \<Rightarrow> exn + str option \<times> json \<times> str option \<times> json" where
  "build_mapping_target host host_ref host_group cluster_ref =
     (case filter (\<lambda>(k, v). truthy v)
         [(''host'', host), (''host_ref'', host_ref), (''host_group'', host_group), (''cluster_ref'', cluster_ref)] of
        [(key, value)] \<Rightarrow>
          Inr (if key = ''host'' then value else None, if key = ''host_ref'' then opt_json value else JNull,
               if key = ''host_group'' then value else None, if key = ''cluster_ref'' then opt_json value else JNull)
      | _ \<Rightarrow> Inl (bad_parameter ''Provide exactly one of --host, --host-ref, --host-group, or --cluster-ref.''))"

definition cli_mappings_create ::
  "'s built \<Rightarrow> str \<Rightarrow> str option \<Rightarrow> str option \<Rightarrow> str option \<Rightarrow> str option \<Rightarrow> int option \<Rightarrow> int option \<Rightarrow>
    ('s sn_world, cli_output list) prog" where
  "cli_mappings_create client volume_ref host host_ref host_group cluster_ref lun perms =
     bindE (liftR (build_mapping_target host host_ref host_group cluster_ref)) (\<lambda>(h, hr, hg, cr).
     with_client client (\<lambda>sn.
     bindE (on_request_error (exit_on (\<lambda>e. case e of Foreign cls m \<Rightarrow> cls = ''ResolutionError'' | _ \<Rightarrow> False)
        (mappings_map_volume sn (JStr volume_ref) h hr hg cr lun perms))) (\<lambda>result.
     ret [Echo result])))"

definition cli_mappings_remap :: "'s built \<Rightarrow> str \<Rightarrow> str \<Rightarrow> int option \<Rightarrow> ('s sn_world, cli_output list) prog" where
  "cli_mappings_remap client map_ref target_id lun =
     with_client client (\<lambda>sn. bindE (on_request_error (mappings_move sn (JStr map_ref) (JStr target_id) lun)) (\<lambda>result.
     ret [Echo result]))"

definition cli_mappings_delete :: "'s built \<Rightarrow> str \<Rightarrow> bool \<Rightarrow> bool \<Rightarrow> ('s sn_world, cli_output list) prog" where
  "cli_mappings_delete client map_ref force confirmed =
     with_client client (\<lambda>sn.
     thenE (confirm force confirmed)
    (bindE (on_request_error (mappings_delete sn (JStr map_ref))) (\<lambda>_.
     ret [Say (''Mapping '' @ in_quotes map_ref @ '' deleted.'')])))"

subsection \<open>Commands on consistency groups\<close>

text \<open>The id of the group of that id or name, and the given text when there is none.\<close>

definition is_cg :: "str \<Rightarrow> json \<Rightarrow> exn + bool" where
  "is_cg x c =
     bindR (json_item c ''id'') (\<lambda>i. if i = JStr x then Inr True else bindR (json_item c ''name'') (\<lambda>n. Inr (n = JStr x)))"

definition resolve_cg :: "'s santricity \<Rightarrow> str \<Rightarrow> ('s sn_world, str) prog" where
  "resolve_cg sn x =
     bindE (cg_list_groups sn) (\<lambda>cgs.
     liftR (bindR (json_iter cgs) (\<lambda>vs. bindR (first_where (is_cg x) vs) (\<lambda>found.
       case found of None \<Rightarrow> Inr x | Some c \<Rightarrow> bindR (json_item c ''id'') (\<lambda>i. Inr (json_show i))))))"

definition cg_command ::
  "('s santricity \<Rightarrow> str \<Rightarrow> ('s sn_world, 'a) prog) \<Rightarrow> 's built \<Rightarrow> str \<Rightarrow> ('s sn_world, 'a) prog" where
  "cg_command act client x =
     with_client client (\<lambda>sn. on_request_error (bindE (resolve_cg sn x) (act sn)))"

definition cli_cgs_list :: "'s built \<Rightarrow> ('s sn_world, cli_output list) prog" where
  "cli_cgs_list client = with_client client (\<lambda>sn. bindE (on_request_error (cg_list_groups sn)) (\<lambda>cgs. ret [Echo cgs]))"

definition cli_cgs_list_members :: "'s built \<Rightarrow> str \<Rightarrow> ('s sn_world, cli_output list) prog" where
  "cli_cgs_list_members client x = bindE (cg_command cg_list_member_volumes client x) (\<lambda>members. ret [Echo members])"

definition cli_cgs_list_snapshots :: "'s built \<Rightarrow> str \<Rightarrow> ('s sn_world, cli_output list) prog" where
  "cli_cgs_list_snapshots client x = bindE (cg_command cg_list_snapshots client x) (\<lambda>snapshots. ret [Echo snapshots])"

definition cli_cgs_list_clones :: "'s built \<Rightarrow> str \<Rightarrow> ('s sn_world, cli_output list) prog" where
  "cli_cgs_list_clones client x = bindE (cg_command cg_list_views_for_group client x) (\<lambda>views. ret [Echo views])"

definition cli_cgs_create :: "'s built \<Rightarrow> str \<Rightarrow> int \<Rightarrow> int \<Rightarrow> str \<Rightarrow> ('s sn_world, cli_output list) prog" where
  "cli_cgs_create client name full_warn_threshold auto_delete_limit full_policy =
     with_client client (\<lambda>sn.
     bindE (on_request_error (cg_create_group sn (JObj
        [(''name'', JStr name), (''fullWarnThresholdPercent'', JInt full_warn_threshold),
         (''autoDeleteThreshold'', JInt auto_delete_limit), (''repositoryFullPolicy'', JStr full_policy)]))) (\<lambda>cg.
     ret [Echo cg]))"

definition cli_cgs_create_snapshot :: "'s built \<Rightarrow> str \<Rightarrow> ('s sn_world, cli_output list) prog" where
  "cli_cgs_create_snapshot client x =
     with_client client (\<lambda>sn.
     bindE (exit_on is_runtime_error (bindE (resolve_cg sn x) (create_cg_snapshot sn))) (\<lambda>snaps. ret [Echo snaps]))"

definition cli_cgs_add_member :: "'s built \<Rightarrow> str \<Rightarrow> str \<Rightarrow> int \<Rightarrow> ('s sn_world, cli_output list) prog" where
  "cli_cgs_add_member client x volume repository_percent =
     bindE (cg_command (\<lambda>sn cg_ref. cg_add_member_volume sn cg_ref (JObj
        [(''volumeId'', JStr volume), (''repositoryPercent'', JInt repository_percent), (''scanMedia'', JBool False),
         (''validateParity'', JBool False)])) client x) (\<lambda>members.
     ret [Echo members])"

definition cli_cgs_delete :: "'s built \<Rightarrow> str \<Rightarrow> ('s sn_world, cli_output list) prog" where
  "cli_cgs_delete client x =
     bindE (cg_command cg_delete_group client x) (\<lambda>_. ret [Say (''Successfully deleted Consistency Group: '' @ x)])"

definition cli_cgs_remove_member :: "'s built \<Rightarrow> str \<Rightarrow> str \<Rightarrow> ('s sn_world, cli_output list) prog" where
  "cli_cgs_remove_member client x member =
     bindE (cg_command (\<lambda>sn cg_ref. cg_remove_member_volume sn cg_ref member) client x) (\<lambda>_.
     ret [Say (''Successfully removed member '' @ member @ '' from CG.'')])"

subsection \<open>Properties\<close>

lemma exit_on_InrD: "exit_on p m s = (Inr x, s') \<Longrightarrow> m s = (Inr x, s')"
  by (auto simp: exit_on_def catchE_def prog_run split: prod.splits sum.splits if_splits)

lemma on_request_error_InrD: "on_request_error m s = (Inr x, s') \<Longrightarrow> m s = (Inr x, s')"
  by (auto simp: on_request_error_def catchE_def prog_run split: prod.splits sum.splits exn.splits)

lemma first_where_NoneD: "first_where p vs = Inr None \<Longrightarrow> v \<in> set vs \<Longrightarrow> p v = Inr False"
  by (induction vs) (auto simp: bindR_Inr_iff split: if_splits)

lemma map_of_row_update: "map_of (row_update row other) k = (case map_of (rev other) k of None \<Rightarrow> map_of row k | Some v \<Rightarrow> Some v)"
  unfolding row_update_def
  by (induction other arbitrary: row) (auto simp: update_conv' split: option.splits)

lemma map_of_parse_extras_rev: "map_of (rev (parse_extras e)) = map_of (parse_extras e)"
proof -
  have "distinct (map fst (foldl (\<lambda>d (k, v). AList.update k v d) d ps))" if "distinct (map fst d)" for d :: "(str \<times> json) list" and ps
    using that by (induction ps arbitrary: d) (auto simp: distinct_update)
  then have "distinct (map fst (parse_extras e))" by (simp add: parse_extras_def dict_of_pairs_def)
  then have "map_of (rev (parse_extras e)) k = Some v \<longleftrightarrow> map_of (parse_extras e) k = Some v" for k v
    by (simp add: map_of_eq_Some_iff rev_map [symmetric])
  then show ?thesis by (metis (no_types) ext not_None_eq)
qed

definition extra_or :: "str option \<Rightarrow> str \<Rightarrow> json \<Rightarrow> json" where
  "extra_or extras key x = (if truthy extras then dict_get_or (parse_extras (the extras)) key x else x)"

lemma payload_name:
  assumes "build_volume_payload opts None = Inr payload" "add_extras extras payload = Inr payload'"
    "payload_members payload' = Inr ms"
  shows "map_of ms ''name'' = Some (extra_or extras ''name'' (JStr (vo_name opts)))"
  using assms
  by (auto simp: build_volume_payload_def add_extras_def payload_members_def bindR_Inr_iff extra_or_def map_of_row_update
      map_of_parse_extras_rev dict_get_or_def split: if_splits option.splits)

text \<open>
  When the command that creates a volume succeeds with the check of its name, no volume in the listing it reads first
  has the name of the option, and exactly one volume is asked for after that.  The check is of that option: the
  name the volume is asked for with is the one of the extras when they have one, which may be in use.
\<close>

theorem cli_create_checks_name:
  assumes "client s0 = (Inr sn, s)" "cli_volumes_create client opts None extras True s0 = (Inr out, s')"
  shows "\<exists>volumes vs s1 ms result. volumes_list sn s = (Inr volumes, s1) \<and> json_iter volumes = Inr vs \<and>
    (\<forall>v \<in> set vs. json_first_of v [''name'', ''label''] \<noteq> Inr (JStr (vo_name opts))) \<and>
    pools_create_volume sn (JStr (vo_pool_id opts)) ms s1 = (Inr result, s') \<and> out = [Echo result] \<and>
    map_of ms ''name'' = Some (extra_or extras ''name'' (JStr (vo_name opts)))"
proof -
  have "cli_volumes_create (ret sn) opts None extras True s = (Inr out, s')"
    using assms by (simp add: cli_volumes_create_def with_client_def bindE_def ret_def liftR_def split: sum.splits)
  then obtain payload payload' result where p: "build_volume_payload opts None = Inr payload" "add_extras extras payload = Inr payload'"
    and run: "thenE (ensure_volume_name_is_unique sn (vo_name opts))
          (bindE (liftR (payload_members payload')) (pools_create_volume sn (JStr (vo_pool_id opts)))) s = (Inr result, s')"
    and out: "out = [Echo result]"
    unfolding cli_volumes_create_def with_client_def
    by (elim bindE_InrE) (auto simp: prog_run bindR_Inr_iff elim!: bindE_InrE dest!: exit_on_InrD)
  from run obtain s1 ms where check: "ensure_volume_name_is_unique sn (vo_name opts) s = (Inr (), s1)"
    and ms: "payload_members payload' = Inr ms"
    and create: "pools_create_volume sn (JStr (vo_pool_id opts)) ms s1 = (Inr result, s')"
    by (auto simp: prog_run elim!: bindE_InrE thenE_InrE)
  from check obtain volumes vs where vs: "volumes_list sn s = (Inr volumes, s1)" "json_iter volumes = Inr vs"
      "first_where (has_name (vo_name opts)) vs = Inr None"
    by (auto simp: ensure_volume_name_is_unique_def prog_run bindR_Inr_iff elim!: bindE_InrE dest!: on_request_error_InrD split: if_splits)
  have "json_first_of v [''name'', ''label''] \<noteq> Inr (JStr (vo_name opts))" if "v \<in> set vs" for v
    using first_where_NoneD [OF vs(3) that] by (auto simp: has_name_def)
  with vs ms create out payload_name [OF p ms] show ?thesis by blast
qed

text \<open>Without the confirmation nothing is asked of the storage system.\<close>

theorem cli_delete_needs_confirmation:
  assumes "client s0 = (Inr sn, s)"
  shows "cli_volumes_delete client ref False False s0 = (Inl cli_abort, s)"
    "cli_mappings_delete client ref False False s0 = (Inl cli_abort, s)"
  using assms by (simp_all add: cli_volumes_delete_def cli_mappings_delete_def with_client_def confirm_def bindE_def thenE_def raiseE_def)

lemma auto_snapshot_auto: "auto_snapshot sn (opts\<lparr>ao_auto := b\<rparr>) ref = auto_snapshot sn opts ref"
  by (simp add: auto_snapshot_def)

text \<open>
  The group that is given to the command that takes a snapshot is never used: without a volume the command fails once the
  client is made, and with a volume the group of the snapshot is chosen as if none had been given.
\<close>

theorem cli_create_snapshot_ignores_group:
  assumes "ref \<noteq> []"
  shows "client s0 = (Inr sn, s) \<Longrightarrow> cli_snapshots_create_snapshot client (Some ref) None opts s0 = (Inl exit1, s)"
    "volume \<noteq> [] \<Longrightarrow> cli_snapshots_create_snapshot client (Some ref) (Some volume) opts =
       cli_snapshots_create_snapshot client None (Some volume) (opts\<lparr>ao_auto := True\<rparr>)"
proof -
  show "volume \<noteq> [] \<Longrightarrow> cli_snapshots_create_snapshot client (Some ref) (Some volume) opts =
       cli_snapshots_create_snapshot client None (Some volume) (opts\<lparr>ao_auto := True\<rparr>)"
    using assms by (simp add: cli_snapshots_create_snapshot_def auto_snapshot_auto cong: if_cong)
qed (use assms in \<open>simp add: cli_snapshots_create_snapshot_def with_client_def bindE_def raiseE_def ret_def\<close>)

text \<open>A mapping is created for exactly one target, the one that was given.\<close>

theorem build_mapping_target_one:
  "(\<exists>t. build_mapping_target host host_ref host_group cluster_ref = Inr t) \<longleftrightarrow>
     length (filter truthy [host, host_ref, host_group, cluster_ref]) = 1"
  by (cases "truthy host"; cases "truthy host_ref"; cases "truthy host_group"; cases "truthy cluster_ref")
     (simp_all add: build_mapping_target_def)

end
