(* ===== verification/SantricityTables.thy ===== *)
theory SantricityTables
  imports SantricityCli
begin

text \<open>
  The tables of the command line tool (\<open>santricity_client/cli_schema.py\<close>): what each column of a view shows of a row, and
  the order of the rows.  A text that is cut off ends in an ellipsis, which is no character of this development: it
  is \<open>Cut\<close>.
\<close>

subsection \<open>Numbers\<close>

text \<open>
  \<open>float(s)\<close> of a text: an optional sign, digits with an optional point, an optional exponent.  The names of
  infinities and of not-a-number, which Python also reads, give \<open>None\<close> here.
\<close>

definition float_text :: "str \<Rightarrow> rat option" where
  "float_text v =
     (let t = py_strip v;
          s = unsigned t;
          mant = takeWhile (\<lambda>c. c \<noteq> CHR ''e'' \<and> c \<noteq> CHR ''E'') s;
          expo = dropWhile (\<lambda>c. c \<noteq> CHR ''e'' \<and> c \<noteq> CHR ''E'') s;
          whole = takeWhile (\<lambda>c. c \<noteq> CHR ''.'') mant;
          frac = (if CHR ''.'' \<in> set mant then tl (dropWhile (\<lambda>c. c \<noteq> CHR ''.'') mant) else [])
      in if \<not> is_exponent expo \<or> (whole = [] \<and> frac = []) then None
         else case (if whole = [] then Some [] else drop_underscores whole, if frac = [] then Some [] else drop_underscores frac,
                    if expo = [] then Some 0 else py_int (tl expo)) of
             (Some w, Some f, Some e) \<Rightarrow>
               let x = rat_of_nat (digits_val (w @ f)) / 10 ^ length f;
                   y = (if e < 0 then x / 10 ^ nat (- e) else x * 10 ^ nat e)
               in Some (nearest_float (if t \<noteq> [] \<and> hd t = CHR ''-'' then - y else y))
           | _ \<Rightarrow> None)"

definition coerce_number :: "json \<Rightarrow> rat option" where
  "coerce_number v =
     (case v of
        JInt i \<Rightarrow> Some (float_of_int i)
      | JBool b \<Rightarrow> Some (if b then 1 else 0)
      | JFloat r \<Rightarrow> map_option nearest_float (float_value r)
      | JStr s \<Rightarrow> float_text s
      | _ \<Rightarrow> None)"

definition round_half_even :: "rat \<Rightarrow> nat" where
  "round_half_even x =
     (let q = nat \<lfloor>x\<rfloor>; r = x - of_nat q in if r > 1 / 2 \<or> (r = 1 / 2 \<and> odd q) then q + 1 else q)"

text \<open>\<open>f"\{x:.\{p\}f\}"\<close>, with at least one digit after the point.\<close>

definition fixed_point :: "nat \<Rightarrow> rat \<Rightarrow> str" where
  "fixed_point p x =
     (let n = round_half_even (\<bar>x\<bar> * 10 ^ p); frac = nat_str (n mod 10 ^ p)
      in (if x < 0 then ''-'' else []) @ nat_str (n div 10 ^ p) @ ''.'' @ replicate (p - length frac) (CHR ''0'') @ frac)"

subsection \<open>Formatters and extractors\<close>

datatype cell = Cell str | Cut str

type_synonym formatter = "json \<Rightarrow> cell"
type_synonym extractor = "row \<Rightarrow> exn + json"

definition bytes_formatter :: "nat \<Rightarrow> formatter" where
  "bytes_formatter precision v =
     Cell (case coerce_number v of None \<Rightarrow> [] | Some x \<Rightarrow> fixed_point precision (nearest_float (x / 1024 ^ 3)))"

definition bool_formatter :: formatter where
  "bool_formatter v = Cell (if v = JNull then [] else if json_truthy v then ''Yes'' else ''No'')"

definition cut_at :: "nat \<Rightarrow> str \<Rightarrow> cell" where
  "cut_at max_chars s = (if length s \<le> max_chars then Cell s else Cut (take (max_chars - 1) s))"

definition list_formatter :: "nat \<Rightarrow> formatter" where
  "list_formatter max_chars v =
     (case v of
        JNull \<Rightarrow> Cell []
      | JArr vs \<Rightarrow> cut_at max_chars (py_join '', '' (map json_show vs))
      | _ \<Rightarrow> cut_at max_chars (json_show v))"

definition truncate_formatter :: "nat \<Rightarrow> formatter" where
  "truncate_formatter max_chars v = (if v = JNull then Cell [] else cut_at max_chars (json_show v))"

text \<open>The first value that is true of some keys, as a text.\<close>

fun true_text :: "str list \<Rightarrow> row \<Rightarrow> str option" where
  "true_text [] row = None"
| "true_text (k # ks) row = (if json_truthy (row_get row k) then Some (json_show (row_get row k)) else true_text ks row)"

definition text_or :: "str \<Rightarrow> str list \<Rightarrow> row \<Rightarrow> str" where
  "text_or d ks row = (case true_text ks row of None \<Rightarrow> d | Some t \<Rightarrow> t)"

definition BLOCK_SIZE_KEYS :: "str list" where
  "BLOCK_SIZE_KEYS =
     [''isBlockSizeSupported'', ''supportedBlockSizes'', ''supportedSectorSizes'', ''blockSizesSupported'',
      ''blockSizeSupported'', ''blkSizeSupported'']"

definition supported_block_sizes :: extractor where
  "supported_block_sizes row =
     Inr (case List.find (dict_has row) BLOCK_SIZE_KEYS of
        None \<Rightarrow> JNull
      | Some key \<Rightarrow>
          (case row_get row key of
             JNull \<Rightarrow> JNull
           | JObj ms \<Rightarrow> JArr (map (\<lambda>(k, v). JStr k) (filter (\<lambda>(k, v). json_truthy v) ms))
           | JStr s \<Rightarrow> JArr (map JStr (filter (\<lambda>p. p \<noteq> []) (map py_strip (py_split (CHR '','') s))))
           | JArr vs \<Rightarrow> JArr (map (\<lambda>x. JStr (json_show x)) vs)
           | JBool b \<Rightarrow> JStr (if b then ''Yes'' else ''No'')
           | v \<Rightarrow> JArr [JStr (json_show v)]))"

definition mapping_target_text :: extractor where
  "mapping_target_text row =
     Inr (JStr (text_or ''-''
       [''targetLabel'', ''hostGroup'', ''hostLabel'', ''targetName'', ''hostGroupLabel'', ''clusterName'',
        ''targetId'', ''clusterRef'', ''hostRef'', ''mapRef'', ''ssid''] row))"

definition hostside_interfaces :: "row \<Rightarrow> row list" where
  "hostside_interfaces row =
     (case row_get row ''hostside_interfaces'' of
        JArr vs \<Rightarrow> concat (map (\<lambda>v. case v of JObj ms \<Rightarrow> [ms] | _ \<Rightarrow> []) vs) | _ \<Rightarrow> [])"

definition hostside_ready_summary :: extractor where
  "hostside_ready_summary row =
     (let interfaces = hostside_interfaces row;
          ready = length (filter (\<lambda>i. row_get i ''is_command_ipv4_ready'' = JBool True) interfaces)
      in Inr (JStr (if interfaces = [] then [] else nat_str ready @ ''/'' @ nat_str (length interfaces))))"

definition hostside_protocol_summary :: extractor where
  "hostside_protocol_summary row =
     (let texts = concat (map (\<lambda>i. case true_text [''command_provider'', ''protocol'', ''transport''] i of
            None \<Rightarrow> [] | Some t \<Rightarrow> [t]) (hostside_interfaces row))
      in Inr (JStr (py_join '', '' (sort (remdups texts)))))"

definition given_text :: "json \<Rightarrow> bool" where "given_text v = (v \<noteq> JNull \<and> v \<noteq> JStr [])"

definition raid_level_text :: extractor where
  "raid_level_text row =
     (let own = row_get row ''raidLevel'';
          of_extent = (case row_get row ''extents'' of JArr (JObj ms # _) \<Rightarrow> row_get ms ''raidLevel'' | _ \<Rightarrow> JNull);
          t = row_get row ''type''
      in Inr (JStr (if given_text own then json_show own
              else if given_text of_extent then json_show of_extent
              else if t \<noteq> JNull then json_show t else [])))"

text \<open>\<open>r.get("cache", \{\}).get(key)\<close>: a cache that is no object has no such method.\<close>

definition cache_flag :: "str \<Rightarrow> extractor" where
  "cache_flag key row = json_get (dict_get_or row ''cache'' (JObj [])) key"

subsection \<open>Columns and views\<close>

record column =
  col_header :: str
  col_keys :: "str list"
  col_extractor :: "extractor option"
  col_formatter :: "formatter option"
  col_justify :: str

record table_view =
  tv_title :: str
  tv_columns :: "column list"
  tv_sort_key :: "(row \<Rightarrow> str list) option"

text \<open>The value of the first key that has one, or else what the extractor finds.\<close>

definition column_value :: "column \<Rightarrow> row \<Rightarrow> exn + json" where
  "column_value c row =
     (case List.find (\<lambda>k. row_get row k \<noteq> JNull) (col_keys c) of
        Some k \<Rightarrow> Inr (row_get row k)
      | None \<Rightarrow> (case col_extractor c of None \<Rightarrow> Inr JNull | Some f \<Rightarrow> f row))"

definition render_cell :: "column \<Rightarrow> row \<Rightarrow> exn + cell" where
  "render_cell c row =
     bindR (column_value c row) (\<lambda>v.
     Inr (if v = JNull then Cell []
          else case col_formatter c of Some f \<Rightarrow> f v | None \<Rightarrow> Cell (json_show v)))"

text \<open>The rows of a table, in the order of the view.\<close>

definition render_rows :: "table_view \<Rightarrow> row list \<Rightarrow> exn + cell list list" where
  "render_rows view rows =
     mapR (\<lambda>row. mapR (\<lambda>c. render_cell c row) (tv_columns view))
       (case tv_sort_key view of None \<Rightarrow> rows | Some f \<Rightarrow> sort_key f rows)"

definition key_column :: "str \<Rightarrow> str list \<Rightarrow> column" where
  "key_column header keys =
     \<lparr>col_header = header, col_keys = keys, col_extractor = None, col_formatter = None, col_justify = ''left''\<rparr>"

definition right :: "column \<Rightarrow> column" where "right c = c\<lparr>col_justify := ''right''\<rparr>"
definition center :: "column \<Rightarrow> column" where "center c = c\<lparr>col_justify := ''center''\<rparr>"
definition formatted :: "formatter \<Rightarrow> column \<Rightarrow> column" where "formatted f c = c\<lparr>col_formatter := Some f\<rparr>"
definition extracted :: "extractor \<Rightarrow> column \<Rightarrow> column" where "extracted f c = c\<lparr>col_extractor := Some f\<rparr>"

definition gib :: "nat \<Rightarrow> column \<Rightarrow> column" where "gib precision c = right (formatted (bytes_formatter precision) c)"
definition flag :: "column \<Rightarrow> column" where "flag c = center (formatted bool_formatter c)"

definition lower_text :: "str list \<Rightarrow> row \<Rightarrow> str" where "lower_text ks row = py_lower (text_or [] ks row)"

definition sort_label :: "row \<Rightarrow> str list" where "sort_label row = [lower_text [''label'', ''name''] row]"

definition volume_pool_text :: extractor where
  "volume_pool_text row = Inr (JStr (text_or [] [''poolId'', ''storagePoolId'', ''volumeGroupRef''] row))"

definition pools_view :: table_view where
  "pools_view = \<lparr>tv_title = ''Storage Pools'', tv_columns =
     [key_column ''Label'' [''label'', ''name''],
      key_column ''Pool Ref'' [''poolRef'', ''id'', ''storagePoolId''],
      extracted raid_level_text (key_column ''RAID Lvl'' []),
      gib 1 (key_column ''Capacity (GiB)'' [''totalRaidedSpace'', ''capacity'']),
      gib 1 (key_column ''Free (GiB)'' [''freeSpace'', ''availableSpace'']),
      formatted (list_formatter 16) (extracted supported_block_sizes (key_column ''Supported sector sizes'' [])),
      key_column ''Status'' [''status'', ''state'']], tv_sort_key = Some sort_label\<rparr>"

definition volumes_view :: table_view where
  "volumes_view = \<lparr>tv_title = ''Volumes'', tv_columns =
     [key_column ''Name'' [''name'', ''label''],
      key_column ''Volume Ref'' [''volumeRef'', ''id''],
      key_column ''Pool Ref'' [''volumeGroupRef''],
      gib 2 (key_column ''Cap (GiB)'' [''capacity'', ''reportedSize'', ''currentVolumeSize'']),
      flag (extracted (cache_flag ''readCacheEnable'') (key_column ''Cache (r)'' [])),
      flag (extracted (cache_flag ''writeCacheEnable'') (key_column ''Cache (w)'' [])),
      key_column ''Status'' [''status'', ''state'']],
     tv_sort_key = Some (\<lambda>row. [lower_text [''name'', ''label''] row])\<rparr>"

definition mappings_view :: table_view where
  "mappings_view = \<lparr>tv_title = ''Volume Mappings'', tv_columns =
     [key_column ''Mapping Ref'' [''lunMappingRef'', ''mappingRef'', ''id''],
      key_column ''Volume'' [''mappableObjectName'', ''name'', ''label'', ''volumeName'', ''volumeRef'', ''mappableObjectId''],
      extracted mapping_target_text (key_column ''Target'' []),
      right (key_column ''LUN'' [''lun''])],
     tv_sort_key = Some (\<lambda>row. [text_or [] [''mappingRef'', ''id''] row])\<rparr>"

definition snapshot_groups_view :: table_view where
  "snapshot_groups_view = \<lparr>tv_title = ''Snapshot Groups'', tv_columns =
     [key_column ''Name'' [''name'', ''label''],
      key_column ''Pit Group Ref'' [''pitGroupRef'', ''id''],
      flag (key_column ''Sched Owned'' [''isScheduleOwned'']),
      right (key_column ''Sched Count'' [''scheduleCount'']),
      key_column ''Base Volume'' [''baseVolume''],
      right (key_column ''Snapshots'' [''snapshotCount'']),
      gib 2 (key_column ''Repo Cap (GiB)'' [''repositoryCapacity'']),
      flag (key_column ''CG'' [''consistencyGroup'']),
      key_column ''Status'' [''status'']], tv_sort_key = Some sort_label\<rparr>"

definition snapshot_images_view :: table_view where
  "snapshot_images_view = \<lparr>tv_title = ''Snapshot Images'', tv_columns =
     [key_column ''Snapshot Group'' [''snapshotGroupName''],
      key_column ''Pit Ref'' [''pitRef'', ''id''],
      right (key_column ''Seq #'' [''pitSequenceNumber'']),
      right (key_column ''Timestamp'' [''pitTimestamp'']),
      key_column ''Created By'' [''creationMethod''],
      right (key_column ''Repo Use %'' [''repositoryCapacityUtilization'']),
      key_column ''Status'' [''status'']], tv_sort_key = None\<rparr>"

definition snapshot_volumes_view :: table_view where
  "snapshot_volumes_view = \<lparr>tv_title = ''Snapshot Volumes'', tv_columns =
     [key_column ''Name'' [''name'', ''label''],
      key_column ''View Ref'' [''viewRef'', ''id''],
      key_column ''Base Vol'' [''baseVol''],
      key_column ''Access'' [''accessMode''],
      gib 2 (key_column ''Repo Cap (GiB)'' [''repositoryCapacity'']),
      key_column ''Status'' [''status'']], tv_sort_key = Some sort_label\<rparr>"

definition repo_groups_view :: table_view where
  "repo_groups_view = \<lparr>tv_title = ''Repository Volumes (Concat)'', tv_columns =
     [key_column ''Concat Vol Ref'' [''concatVolRef'', ''id''],
      key_column ''Base Object ID'' [''baseObjectId''],
      key_column ''Base Object Type'' [''baseObjectType''],
      right (key_column ''Members'' [''memberCount'']),
      gib 2 (key_column ''Aggregate Cap (GiB)'' [''aggregateCapacity'']),
      key_column ''Status'' [''status'']], tv_sort_key = None\<rparr>"

definition repo_volumes_view :: table_view where
  "repo_volumes_view = \<lparr>tv_title = ''Repository-related Volumes'', tv_columns =
     [key_column ''Name'' [''label'', ''name''],
      key_column ''Volume Ref'' [''volumeRef'', ''id''],
      key_column ''Use'' [''volumeUse''],
      flag (key_column ''Mapped'' [''mapped'']),
      gib 2 (key_column ''Cap (GiB)'' [''totalSizeInBytes'', ''capacity'', ''reportedSize'', ''currentVolumeSize'']),
      key_column ''Pool Ref'' [''volumeGroupRef''],
      key_column ''Status'' [''status'', ''state'']], tv_sort_key = Some sort_label\<rparr>"

definition group_util_view :: table_view where
  "group_util_view = \<lparr>tv_title = ''Snapshot Group Repository Utilization'', tv_columns =
     [key_column ''Group'' [''snapshotGroupName'', ''groupRef''],
      key_column ''Group Ref'' [''groupRef''],
      flag (key_column ''Sched Owned'' [''isScheduleOwned'']),
      right (key_column ''Sched Count'' [''scheduleCount'']),
      gib 2 (key_column ''Used (GiB)'' [''pitGroupBytesUsed'']),
      gib 2 (key_column ''Available (GiB)'' [''pitGroupBytesAvailable''])], tv_sort_key = None\<rparr>"

definition volume_util_view :: table_view where
  "volume_util_view = \<lparr>tv_title = ''Snapshot Volume Repository Utilization'', tv_columns =
     [key_column ''View Ref'' [''viewRef''],
      gib 2 (key_column ''Used (GiB)'' [''viewBytesUsed'']),
      gib 2 (key_column ''Available (GiB)'' [''viewBytesAvailable''])], tv_sort_key = None\<rparr>"

definition cg_members_view :: table_view where
  "cg_members_view = \<lparr>tv_title = ''Consistency Group Member Volumes'', tv_columns =
     [key_column ''Volume Name'' [''volumeName'', ''label''],
      key_column ''Volume Ref'' [''volumeRef''],
      key_column ''CG ID'' [''consistencyGroupId''],
      key_column ''Pit Group Ref'' [''pitGroupRef'']],
     tv_sort_key = Some (\<lambda>row. [lower_text [''volumeName'', ''label''] row])\<rparr>"

definition schedules_view :: table_view where
  "schedules_view = \<lparr>tv_title = ''Snapshot Schedules'', tv_columns =
     [key_column ''Snapshot Group'' [''snapshotGroupName''],
      key_column ''Sched Ref'' [''schedRef'', ''id''],
      key_column ''Status'' [''scheduleStatus''],
      right (key_column ''Next Run'' [''nextRunTime''])],
     tv_sort_key = Some (\<lambda>row. [lower_text [''snapshotGroupName''] row])\<rparr>"

definition membership_view :: table_view where
  "membership_view = \<lparr>tv_title = ''Host Membership'', tv_columns =
     [key_column ''Host'' [''hostLabel'', ''label''],
      key_column ''Host Ref'' [''hostRef''],
      key_column ''Group'' [''hostGroup'', ''clusterRef''],
      flag (key_column ''In Group'' [''belongsToGroup''])],
     tv_sort_key = Some (\<lambda>row. [lower_text [''hostLabel'', ''label''] row])\<rparr>"

definition interfaces_view :: table_view where
  "interfaces_view = \<lparr>tv_title = ''Host-side Interfaces'', tv_columns =
     [key_column ''Ctrl'' [''controller_label'', ''controller_id'', ''controller_ref''],
      key_column ''Protocol'' [''protocol''],
      formatted (truncate_formatter 18) (key_column ''Interface'' [''interface_id'']),
      right (key_column ''Channel'' [''channel'']),
      key_column ''Transport'' [''transport''],
      key_column ''Addr'' [''ipv4_address'', ''infiniband_ipv4_address'', ''roce_v2_ipv4_address'', ''node_name''],
      key_column ''Cmd IPv4'' [''command_ipv4_address''],
      flag (key_column ''NVMe Ready'' [''is_command_ipv4_ready'']),
      formatted (truncate_formatter 18) (key_column ''Provider'' [''command_provider''])],
     tv_sort_key = Some (\<lambda>row. [lower_text [''controller_label'', ''controller_id'', ''controller_ref''] row,
       lower_text [''protocol''] row, text_or [] [''channel''] row, lower_text [''interface_id''] row])\<rparr>"

definition controllers_view :: table_view where
  "controllers_view = \<lparr>tv_title = ''Controllers'', tv_columns =
     [key_column ''Ctrl'' [''physical_location_label'', ''id'', ''controller_ref''],
      formatted (truncate_formatter 18) (key_column ''Model'' [''model_name'']),
      key_column ''Status'' [''status''],
      right (key_column ''Ifaces'' [''hostside_interface_count'']),
      center (extracted hostside_ready_summary (key_column ''NVMe Ready'' [])),
      formatted (truncate_formatter 22) (extracted hostside_protocol_summary (key_column ''Protocols'' []))],
     tv_sort_key = Some (\<lambda>row. [lower_text [''physical_location_label'', ''id'', ''controller_ref''] row])\<rparr>"

definition CLI_TABLE_VIEWS :: "(str \<times> table_view) list" where
  "CLI_TABLE_VIEWS =
     [(''pools.list'', pools_view), (''volumes.list'', volumes_view), (''mappings.list'', mappings_view),
      (''snapshots.list-groups'', snapshot_groups_view), (''snapshots.list-images'', snapshot_images_view),
      (''snapshots.list-volumes'', snapshot_volumes_view), (''snapshots.list-repo-groups'', repo_groups_view),
      (''snapshots.list-repo-volumes'', repo_volumes_view), (''snapshots.list-group-util'', group_util_view),
      (''snapshots.list-volume-util'', volume_util_view), (''snapshots.list-cg-members'', cg_members_view),
      (''snapshots.list-schedules'', schedules_view), (''hosts.membership'', membership_view),
      (''reports.interfaces'', interfaces_view), (''reports.controllers'', controllers_view)]"

lemmas view_defs = pools_view_def volumes_view_def mappings_view_def snapshot_groups_view_def snapshot_images_view_def
  snapshot_volumes_view_def repo_groups_view_def repo_volumes_view_def group_util_view_def volume_util_view_def
  cg_members_view_def schedules_view_def membership_view_def interfaces_view_def controllers_view_def

lemmas column_defs = key_column_def right_def center_def formatted_def extracted_def gib_def flag_def

text \<open>The commands and the tables name the same views.\<close>

lemma cli_views: "map fst CLI_TABLE_VIEWS = CLI_VIEWS"
  by (simp add: CLI_TABLE_VIEWS_def CLI_VIEWS_def)

subsection \<open>Properties\<close>

lemma render_cell_total:
  assumes "\<And>f. col_extractor c = Some f \<Longrightarrow> \<exists>v. f row = Inr v"
  shows "\<exists>x. render_cell c row = Inr x"
  using assms by (auto simp: render_cell_def column_value_def split: option.splits)

lemma mapR_total: "(\<And>x. x \<in> set xs \<Longrightarrow> \<exists>y. f x = Inr y) \<Longrightarrow> \<exists>ys. mapR f xs = Inr ys"
proof (induction xs)
  case (Cons a xs)
  then obtain y ys where "f a = Inr y" "mapR f xs = Inr ys" by fastforce
  then show ?case by simp
qed simp

text \<open>
  Drawing a table never fails, with one exception: the table of the volumes fails on a volume whose \<open>cache\<close> is there
  but is no object, such as one that is null.
\<close>

theorem tables_render:
  assumes "map_of CLI_TABLE_VIEWS name = Some view"
    and "name = ''volumes.list'' \<Longrightarrow> (\<forall>row \<in> set rows. \<exists>ms. dict_get_or row ''cache'' (JObj []) = JObj ms)"
  shows "\<exists>cells. render_rows view rows = Inr cells \<and> length cells = length rows"
proof -
  have "\<exists>x. render_cell c row = Inr x" if "row \<in> set rows" "c \<in> set (tv_columns view)" for row c
  proof (cases "name = ''volumes.list''")
    case True
    then have view: "view = volumes_view" using assms(1) by (simp add: CLI_TABLE_VIEWS_def)
    from assms(2) True that(1) obtain ms where "dict_get_or row ''cache'' (JObj []) = JObj ms" by blast
    then show ?thesis
      using that(2) unfolding view
      by (intro render_cell_total) (auto simp: volumes_view_def column_defs cache_flag_def json_get_def json_get_or_def)
  next
    case False
    then have "view \<in> snd ` set (filter (\<lambda>p. fst p \<noteq> ''volumes.list'') CLI_TABLE_VIEWS)"
      using assms(1) by (force dest: map_of_SomeD)
    then show ?thesis
      using that(2)
      by (intro render_cell_total)
         (auto simp: CLI_TABLE_VIEWS_def view_defs column_defs raid_level_text_def supported_block_sizes_def Let_def
           mapping_target_text_def hostside_ready_summary_def hostside_protocol_summary_def)
  qed
  moreover have "set (case tv_sort_key view of None \<Rightarrow> rows | Some f \<Rightarrow> sort_key f rows) = set rows"
    "length (case tv_sort_key view of None \<Rightarrow> rows | Some f \<Rightarrow> sort_key f rows) = length rows"
    by (simp_all split: option.splits)
  ultimately obtain cells where "render_rows view rows = Inr cells"
    unfolding render_rows_def using mapR_total [of _ "\<lambda>row. mapR (\<lambda>c. render_cell c row) (tv_columns view)"] mapR_total by metis
  moreover from this have "length cells = length rows"
    using mapR_length by (fastforce simp: render_rows_def split: option.splits)
  ultimately show ?thesis by blast
qed

end
