(* ===== verification/Config.thy ===== *)
theory Config
  imports Controller Kubernetes
begin

text \<open>
  The configuration file (\<open>src/common/config.yaml\<close>, read by \<open>common/config.py\<close>): its contents as the tree the YAML parser
  makes of it, the access to its fields, and the settings that the modules of the driver take from it when they are loaded.
  The other theories have the values of these settings as constants; the lemmas here say that they are the
  configured ones.
\<close>

subsection \<open>The file\<close>

definition config :: json where
  "config = JObj
     [(''identity'', JObj
        [(''name'', JStr ''santricity.block.csi.ibm.com''), (''version'', JStr ''1.13.2''),
         (''capabilities'', JObj [(''Service'', JArr [JStr ''CONTROLLER_SERVICE'']), (''VolumeExpansion'', JStr ''ONLINE'')])]),
      (''controller'', JObj
        [(''publish_context_lun_parameter'', JStr ''PUBLISH_CONTEXT_LUN''),
         (''publish_context_connectivity_parameter'', JStr ''PUBLISH_CONTEXT_CONNECTIVITY''),
         (''publish_context_separator'', JStr '',''),
         (''publish_context_array_iqn'', JStr ''PUBLISH_CONTEXT_ARRAY_IQN''),
         (''publish_context_array_serial'', JStr ''PUBLISH_CONTEXT_ARRAY_SERIAL''),
         (''publish_context_fc_initiators'', JStr ''PUBLISH_CONTEXT_ARRAY_FC_INITIATORS''),
         (''publish_context_nvme_initiators'', JStr ''PUBLISH_CONTEXT_ARRAY_NVME_INITIATORS'')]),
      (''parameters'', JObj
        [(''object_id_info'', JObj [(''delimiter'', JStr '':''), (''ids_delimiter'', JStr '';'')]),
         (''node_id_info'', JObj [(''delimiter'', JStr '';''), (''fcs_delimiter'', JStr '':'')])]),
      (''connectivity_type'', JObj
        [(''nvme_over_fc'', JStr ''nvmeofc''), (''nvme_over_roce'', JStr ''nvmeoroce''), (''fc'', JStr ''fc''),
         (''iscsi'', JStr ''iscsi'')])]"

text \<open>
  \<open>DefaultMunch.fromDict\<close> of the package munch lets the fields of a dictionary be read as attributes.  How it does so is the
  parameter \<open>attr\<close>; that a field which is there is what the attribute gives is the hypothesis \<open>munch_access\<close>.
\<close>

type_synonym munch = "json \<Rightarrow> str \<Rightarrow> exn + json"

definition munch_access :: "munch \<Rightarrow> bool" where
  "munch_access attr \<longleftrightarrow> (\<forall>d k v. map_of d k = Some v \<longrightarrow> attr (JObj d) k = Inr v)"

fun munch_path :: "munch \<Rightarrow> json \<Rightarrow> str list \<Rightarrow> exn + json" where
  "munch_path attr v [] = Inr v"
| "munch_path attr v (k # ks) = bindR (attr v k) (\<lambda>u. munch_path attr u ks)"

definition config_text :: "munch \<Rightarrow> str list \<Rightarrow> exn + str" where
  "config_text attr path = bindR (munch_path attr config path) json_text"

lemma munch_accessD: "munch_access attr \<Longrightarrow> map_of d k = Some v \<Longrightarrow> attr (JObj d) k = Inr v"
  by (simp add: munch_access_def)

subsection \<open>What is taken from it\<close>

lemma config_connectivity:
  assumes "munch_access attr"
  shows "config_text attr [''connectivity_type'', ''nvme_over_fc''] = Inr NVME_OVER_FC"
    "config_text attr [''connectivity_type'', ''nvme_over_roce''] = Inr NVME_OVER_ROCE"
    "config_text attr [''connectivity_type'', ''fc''] = Inr FC"
    "config_text attr [''connectivity_type'', ''iscsi''] = Inr ISCSI"
  by (simp_all add: config_text_def config_def munch_accessD [OF assms] json_text_def connectivity_defs)

lemma config_delimiters:
  assumes "munch_access attr"
  shows "config_text attr [''parameters'', ''object_id_info'', ''delimiter''] = Inr [OBJECT_ID_INFO_DELIMITER]"
    "config_text attr [''parameters'', ''object_id_info'', ''ids_delimiter''] = Inr [OBJECT_IDS_DELIMITER]"
    "config_text attr [''parameters'', ''node_id_info'', ''delimiter''] = Inr [NODE_ID_DELIMITER]"
    "config_text attr [''parameters'', ''node_id_info'', ''fcs_delimiter''] = Inr [FCS_DELIMITER]"
  by (simp_all add: config_text_def config_def munch_accessD [OF assms] json_text_def)

lemma config_identity:
  assumes "munch_access attr"
  shows "config_text attr [''identity'', ''name''] = Inr CSI_PROVISIONER_NAME"
    "config_text attr [''identity'', ''version''] = Inr ''1.13.2''"
  by (simp_all add: config_text_def config_def munch_accessD [OF assms] json_text_def CSI_PROVISIONER_NAME_def)

subsection \<open>The identity of the plugin\<close>

definition configured_plugin_info :: "munch \<Rightarrow> ('s, (str \<times> str) reply) prog" where
  "configured_plugin_info attr =
     bindE (liftR (config_text attr [''identity'', ''name''])) (\<lambda>name.
     bindE (liftR (config_text attr [''identity'', ''version''])) (\<lambda>version.
     GetPluginInfo name version))"

definition json_texts :: "json \<Rightarrow> exn + str list" where
  "json_texts v = (case v of JArr vs \<Rightarrow> mapR json_text vs | _ \<Rightarrow> Inl (PyErr TypeError))"

definition configured_capabilities ::
  "munch \<Rightarrow> (str \<Rightarrow> bool) \<Rightarrow> (str \<Rightarrow> bool) \<Rightarrow> exn + plugin_capability list" where
  "configured_capabilities attr is_service is_expansion =
     bindR (munch_path attr config [''identity'', ''capabilities'']) (\<lambda>capabilities.
     bindR (attr capabilities ''Service'') (\<lambda>services.
     bindR (attr capabilities ''VolumeExpansion'') (\<lambda>expansion.
     bindR (if json_truthy services then bindR (json_texts services) (\<lambda>ts. Inr (Some ts)) else Inr None) (\<lambda>services.
     bindR (json_opt_text expansion) (\<lambda>expansion.
     GetPluginCapabilities is_service is_expansion services expansion)))))"

lemma configured_capabilities_value:
  assumes "munch_access attr" "is_service ''CONTROLLER_SERVICE''" "is_expansion ''ONLINE''"
  shows "configured_capabilities attr is_service is_expansion =
      Inr [ServiceCapability ''CONTROLLER_SERVICE'', VolumeExpansionCapability ''ONLINE'']"
  using assms(2,3)
  by (simp add: configured_capabilities_def config_def munch_accessD [OF assms(1)] json_texts_def json_text_def
      json_opt_text_def GetPluginCapabilities_def enum_value_def)

text \<open>
  The driver tells the kubelet the name under which it is then registered on the nodes, and the host definer
  recognises the nodes of the driver by a name of its own settings.  They are the same: a node is one of the driver exactly
  when the name the driver reports is registered on it.
\<close>

theorem plugin_name_recognised:
  assumes "munch_access attr"
  shows "\<exists>name version. configured_plugin_info attr s = (Inr (Ok (name, version)), s) \<and> name \<noteq> [] \<and> version \<noteq> [] \<and>
    (\<forall>c. is_k8s_csi_node_has_driver c = (name \<in> fst ` set (kc_drivers c)))"
proof -
  have "configured_plugin_info attr s = (Inr (Ok (CSI_PROVISIONER_NAME, ''1.13.2'')), s)"
    by (simp add: configured_plugin_info_def config_identity [OF assms] bindE_def prog_run GetPluginInfo_def
        CSI_PROVISIONER_NAME_def)
  moreover have "is_k8s_csi_node_has_driver c = (CSI_PROVISIONER_NAME \<in> fst ` set (kc_drivers c))" for c
    by (force simp: is_k8s_csi_node_has_driver_def list_ex_iff)
  ultimately show ?thesis by (force simp: CSI_PROVISIONER_NAME_def)
qed

definition plain_munch :: munch where
  "plain_munch v k = (case v of JObj d \<Rightarrow> Inr (dict_get_or d k JNull) | _ \<Rightarrow> Inl (PyErr AttributeError))"

lemma plugin_name_recognised_witness:
  "\<exists>name version. configured_plugin_info plain_munch () = (Inr (Ok (name, version)), ()) \<and> name \<noteq> [] \<and>
     is_k8s_csi_node_has_driver \<lparr>kc_name = ''node1'', kc_drivers = [(name, ''id'')]\<rparr>"
proof -
  have "munch_access plain_munch" by (simp add: munch_access_def plain_munch_def dict_get_or_def)
  from plugin_name_recognised [OF this, of "()"] show ?thesis by auto
qed

end
