(* ===== verification/Processes.thy ===== *)
theory Processes
  imports Agent
begin

text \<open>
  The process of the controller: its logger (\<open>common/csi_logger.py\<close>), the number of its threads, and its start
  (\<open>servers/csi/controller_server_manager.py\<close>, \<open>servers/csi/main.py\<close>).  The gRPC package is the parameter \<open>grpc_server\<close>.
\<close>

subsection \<open>The logger\<close>

text \<open>
  The state is the level of \<open>logger_properties\<close> and the one logger of the name \<open>csi_logger\<close>: its level, when one was set, the
  number of its handlers, and the attribute \<open>handler_set\<close>.  \<open>setLevel\<close> refuses names that the logging module does not know.
\<close>

record log_state =
  lg_properties_level :: str
  lg_level :: "str option"
  lg_handlers :: nat
  lg_handler_set :: bool

definition log_initial :: log_state where
  "log_initial = \<lparr>lg_properties_level = ''DEBUG'', lg_level = None, lg_handlers = 0, lg_handler_set = False\<rparr>"

definition LOG_LEVELS :: "str list" where
  "LOG_LEVELS = [''CRITICAL'', ''FATAL'', ''ERROR'', ''WARN'', ''WARNING'', ''INFO'', ''DEBUG'', ''NOTSET'']"

definition set_level :: "str \<Rightarrow> (log_state, unit) prog" where
  "set_level level =
     (if level \<in> set LOG_LEVELS then modifyS (\<lambda>l. l\<lparr>lg_level := Some level\<rparr>) else raiseE (PyErr ValueError))"

definition get_stdout_logger :: "(log_state, unit) prog" where
  "get_stdout_logger =
     bindE (getS lg_handler_set) (\<lambda>handler_set.
     if handler_set then ret ()
     else bindE (getS lg_properties_level) (\<lambda>level.
          thenE (set_level level)
            (modifyS (\<lambda>l. l\<lparr>lg_handlers := lg_handlers l + 1, lg_handler_set := True\<rparr>))))"

definition set_log_level :: "str option \<Rightarrow> (log_state, unit) prog" where
  "set_log_level level_to_set =
     (if truthy level_to_set
      then thenE (modifyS (\<lambda>l. l\<lparr>lg_properties_level := py_upper (the level_to_set)\<rparr>))
             (set_level (py_upper (the level_to_set)))
      else ret ())"

datatype log_call = GetLogger | SetLevel "str option"

primrec run_log_call :: "log_call \<Rightarrow> (log_state, unit) prog" where
  "run_log_call GetLogger = get_stdout_logger"
| "run_log_call (SetLevel level) = set_log_level level"

definition log_calls :: "log_call list \<Rightarrow> (log_state, unit) prog" where
  "log_calls cs = forE run_log_call cs"

text \<open>The level that was asked for last, and whether the calls touch the logger at all.\<close>

definition last_level :: "log_call list \<Rightarrow> str" where
  "last_level cs = foldl (\<lambda>l c. case c of SetLevel (Some s) \<Rightarrow> if s = [] then l else py_upper s | _ \<Rightarrow> l) ''DEBUG'' cs"

definition touches_logger :: "log_call \<Rightarrow> bool" where
  "touches_logger c = (case c of GetLogger \<Rightarrow> True | SetLevel level \<Rightarrow> truthy level)"

definition log_wf :: "log_state \<Rightarrow> bool" where
  "log_wf l \<longleftrightarrow> lg_handlers l = (if lg_handler_set l then 1 else 0) \<and>
     (lg_level l = None \<or> lg_level l = Some (lg_properties_level l)) \<and> (lg_handler_set l \<longrightarrow> lg_level l \<noteq> None)"

lemma run_log_call_result:
  assumes "run_log_call c l = (Inr (), l')" and "log_wf l"
  shows "log_wf l' \<and> lg_properties_level l' = foldl (\<lambda>l c. case c of SetLevel (Some s) \<Rightarrow> if s = [] then l else py_upper s | _ \<Rightarrow> l)
      (lg_properties_level l) [c] \<and>
    (touches_logger c \<or> lg_level l \<noteq> None \<longrightarrow> lg_level l' \<noteq> None) \<and>
    lg_handler_set l' = (lg_handler_set l \<or> c = GetLogger)"
  using assms
  by (cases c)
     (auto simp: get_stdout_logger_def set_log_level_def set_level_def log_wf_def touches_logger_def thenE_def bindE_def
       prog_run truthy_def modifyS_def split: if_splits option.splits)

lemma log_calls_run:
  assumes "forE run_log_call cs l = (Inr (), l')" and "log_wf l"
  shows "log_wf l' \<and> lg_properties_level l' = foldl (\<lambda>l c. case c of SetLevel (Some s) \<Rightarrow> if s = [] then l else py_upper s | _ \<Rightarrow> l)
      (lg_properties_level l) cs \<and>
    (list_ex touches_logger cs \<or> lg_level l \<noteq> None \<longrightarrow> lg_level l' \<noteq> None) \<and>
    lg_handler_set l' = (lg_handler_set l \<or> GetLogger \<in> set cs)"
  using assms
proof (induction cs arbitrary: l)
  case Nil
  then show ?case by (simp add: prog_run)
next
  case (Cons c cs)
  then obtain l1 where l1: "run_log_call c l = (Inr (), l1)" "forE run_log_call cs l1 = (Inr (), l')"
    by (auto simp: thenE_def elim!: bindE_InrE)
  show ?case using run_log_call_result [OF l1(1) Cons.prems(2)] Cons.IH [OF l1(2)] by auto
qed

text \<open>
  However often the logger is fetched and its level is set, and in whatever order: there is one handler and no line is
  written twice, and the level is the one that was asked for last.  In particular the level can be set after
  the logger was fetched.
\<close>

theorem log_level_last:
  assumes "log_calls cs log_initial = (Inr (), l)"
  shows "lg_handlers l = (if GetLogger \<in> set cs then 1 else 0) \<and>
    lg_level l = (if list_ex touches_logger cs then Some (last_level cs) else None)"
proof -
  have wf: "log_wf log_initial" by (simp add: log_wf_def log_initial_def)
  note run = log_calls_run [OF assms [unfolded log_calls_def] wf]
  have "lg_level l = None" if "\<not> list_ex touches_logger cs"
  proof -
    have "forE run_log_call cs l0 = (Inr (), l0)" if "\<not> list_ex touches_logger cs" for l0
      using that
    proof (induction cs)
      case (Cons c cs)
      then show ?case by (cases c) (auto simp: touches_logger_def set_log_level_def thenE_def bindE_def prog_run)
    qed (simp add: prog_run)
    then show ?thesis using assms that by (auto simp: log_calls_def log_initial_def)
  qed
  then show ?thesis using run by (auto simp: log_wf_def log_initial_def last_level_def)
qed

lemma log_level_last_witness:
  "\<exists>l. log_calls [GetLogger, SetLevel (Some ''info''), GetLogger] log_initial = (Inr (), l) \<and> lg_handlers l = 1 \<and>
     lg_level l = Some ''INFO''"
proof -
  have run: "log_calls [GetLogger, SetLevel (Some ''info''), GetLogger] log_initial =
      (Inr (), \<lparr>lg_properties_level = ''INFO'', lg_level = Some ''INFO'', lg_handlers = 1, lg_handler_set = True\<rparr>)"
    by code_simp
  have "last_level [GetLogger, SetLevel (Some ''info''), GetLogger] = ''INFO''" by code_simp
  then show ?thesis using log_level_last [OF run] run by (simp add: touches_logger_def)
qed

text \<open>A level that does not exist is kept for the loggers to come, although it is refused.\<close>

lemma unknown_level_kept:
  assumes "py_upper s \<notin> set LOG_LEVELS" and "s \<noteq> []"
  shows "set_log_level (Some s) l = (Inl (PyErr ValueError), l\<lparr>lg_properties_level := py_upper s\<rparr>)"
    and "\<not> lg_handler_set l \<Longrightarrow> set_log_level (Some s) l = (r, l') \<Longrightarrow> get_stdout_logger l' = (Inl (PyErr ValueError), l')"
  using assms
  by (auto simp: set_log_level_def set_level_def get_stdout_logger_def thenE_def bindE_def prog_run modifyS_def truthy_def)

subsection \<open>The threads\<close>

text \<open>
  \<open>os.cpu_count()\<close> is \<open>None\<close> when it is not known.  A \<open>ThreadPoolExecutor\<close> that is given no number takes four threads more than there
  are processors, and at most 32.
\<close>

definition cpu_count_plus_four :: "int option \<Rightarrow> int" where
  "cpu_count_plus_four cpus = (case cpus of None \<Rightarrow> 1 | Some n \<Rightarrow> if n = 0 then 1 else n) + 4"

definition get_max_workers_count :: "int option \<Rightarrow> int option" where
  "get_max_workers_count cpus =
     (let cpu_count = cpu_count_plus_four cpus in
      if cpu_count < CSI_CONTROLLER_SERVER_WORKERS then Some CSI_CONTROLLER_SERVER_WORKERS else None)"

definition executor_threads :: "int option \<Rightarrow> int option \<Rightarrow> int" where
  "executor_threads max_workers cpus =
     (case max_workers of Some n \<Rightarrow> n | None \<Rightarrow> min 32 (cpu_count_plus_four cpus))"

lemma executor_threads_value:
  "executor_threads (get_max_workers_count cpus) cpus = max 10 (min 32 (cpu_count_plus_four cpus))"
  by (simp add: executor_threads_def get_max_workers_count_def CSI_CONTROLLER_SERVER_WORKERS_def Let_def)

text \<open>
  The controller has at least as many threads as an agent has connections, whatever the machine, so that every
  connection of a storage system can be in use at once; it never has more than 32.
\<close>

theorem threads_for_connections:
  assumes "new_storage_agent connect connects svc_port ci array_type s = (Inr agent, s')"
  shows "p_max_size (ag_pool agent) \<le> executor_threads (get_max_workers_count cpus) cpus \<and>
    executor_threads (get_max_workers_count cpus) cpus \<le> 32"
proof -
  obtain t n c where "pool_init c (min n CSI_CONTROLLER_SERVER_WORKERS) = Inr (ag_pool agent)"
    using assms by (auto simp: new_storage_agent_def bindR_Inr_iff split: prod.splits sum.splits if_splits)
  moreover have "pool_init c m = Inr p \<Longrightarrow> p_max_size p = m" for c :: "exn + 'a" and m p
    by (auto simp: pool_init_def pool_get_def pool_put_def new_pool_def split: sum.splits if_splits)
  ultimately have "p_max_size (ag_pool agent) \<le> CSI_CONTROLLER_SERVER_WORKERS" by force
  then show ?thesis by (simp add: executor_threads_value CSI_CONTROLLER_SERVER_WORKERS_def)
qed

subsection \<open>The server\<close>

text \<open>
  The calls of the gRPC package on its state \<open>'g\<close>.  \<open>gs_sleep\<close> is one \<open>time.sleep\<close>, which an interrupt from the keyboard ends
  with \<open>True\<close>.
\<close>

datatype servicer = ControllerServicer | IdentityServicer | ReplicationServicer | VolumeGroupServicer

record 'g grpc_server =
  gs_server :: "int option \<Rightarrow> ('g, unit) prog"
  gs_add_servicer :: "servicer \<Rightarrow> ('g, unit) prog"
  gs_add_insecure_port :: "str \<Rightarrow> ('g, unit) prog"
  gs_start :: "('g, unit) prog"
  gs_sleep :: "'g \<Rightarrow> bool \<times> 'g"
  gs_stop :: "int \<Rightarrow> ('g, unit) prog"

definition set_up_server :: "'g grpc_server \<Rightarrow> int option \<Rightarrow> str \<Rightarrow> ('g, unit) prog" where
  "set_up_server gs cpus endpoint =
     thenE (gs_server gs (get_max_workers_count cpus))
    (thenE (gs_add_servicer gs ControllerServicer)
    (thenE (gs_add_servicer gs IdentityServicer)
    (thenE (gs_add_servicer gs ReplicationServicer)
    (thenE (gs_add_servicer gs VolumeGroupServicer)
    (thenE (gs_add_insecure_port gs endpoint)
       (gs_start gs))))))"

text \<open>The loop that waits for the interrupt; \<open>None\<close> when there is none.\<close>

partial_function (option) serve :: "'g grpc_server \<Rightarrow> 'g \<Rightarrow> ((exn + unit) \<times> 'g) option" where
  "serve gs g =
     (case gs_sleep gs g of (interrupted, g') \<Rightarrow> if interrupted then Some (gs_stop gs 0 g') else serve gs g')"

definition start_server :: "'g grpc_server \<Rightarrow> int option \<Rightarrow> str \<Rightarrow> 'g \<Rightarrow> ((exn + unit) \<times> 'g) option" where
  "start_server gs cpus endpoint g =
     (case set_up_server gs cpus endpoint g of
        (Inl e, g') \<Rightarrow> Some (Inl e, g')
      | (Inr _, g') \<Rightarrow> serve gs g')"

primrec slept :: "'g grpc_server \<Rightarrow> nat \<Rightarrow> 'g \<Rightarrow> bool \<times> 'g" where
  "slept gs 0 g = gs_sleep gs g"
| "slept gs (Suc n) g = slept gs n (snd (gs_sleep gs g))"

lemma serve_interrupted:
  "(\<And>i. i < n \<Longrightarrow> \<not> fst (slept gs i g)) \<Longrightarrow> slept gs n g = (True, g') \<Longrightarrow> serve gs g = Some (gs_stop gs 0 g')"
proof (induction n arbitrary: g)
  case 0
  then show ?case by (simp add: serve.simps [of gs g])
next
  case (Suc n)
  have "\<not> fst (gs_sleep gs g)" using Suc.prems(1) [of 0] by simp
  moreover have "serve gs (snd (gs_sleep gs g)) = Some (gs_stop gs 0 g')"
    using Suc.prems(2) Suc.prems(1) [of "Suc i" for i] by (intro Suc.IH) auto
  ultimately show ?case by (cases "gs_sleep gs g") (simp add: serve.simps [of gs g])
qed

lemma serve_ends_only_by_interrupt:
  assumes "serve gs g = Some x" shows "\<exists>n. fst (slept gs n g)"
proof (rule serve.raw_induct [OF _ assms])
  fix serve' gs' g' x'
  assume step: "\<And>gs g x. serve' gs g = Some x \<Longrightarrow> \<exists>n. fst (slept gs n g)"
    and run: "(case gs_sleep gs' g' of (interrupted, h) \<Rightarrow> if interrupted then Some (gs_stop gs' 0 h) else serve' gs' h) = Some x'"
  show "\<exists>n. fst (slept gs' n g')"
  proof (cases "fst (gs_sleep gs' g')")
    case True
    then have "fst (slept gs' 0 g')" by simp
    then show ?thesis by blast
  next
    case False
    then have "serve' gs' (snd (gs_sleep gs' g')) = Some x'" using run by (simp add: case_prod_unfold)
    then obtain n where "fst (slept gs' (Suc n) g')" using step by fastforce
    then show ?thesis by blast
  qed
qed

text \<open>
  A server that was set up runs until the first interrupt from the keyboard, and stopping it is the last thing that is
  done; without an interrupt it runs for ever.  A failure of the set-up ends the process before anything is served.
\<close>

theorem start_server_ends:
  assumes "set_up_server gs cpus endpoint g = (Inr (), g1)"
  shows "start_server gs cpus endpoint g =
    (if \<exists>n. fst (slept gs n g1) then Some (gs_stop gs 0 (snd (slept gs (LEAST n. fst (slept gs n g1)) g1))) else None)"
proof (cases "\<exists>n. fst (slept gs n g1)")
  case True
  let ?n = "LEAST n. fst (slept gs n g1)"
  have "fst (slept gs ?n g1)" using True by (rule LeastI_ex)
  then have at: "slept gs ?n g1 = (True, snd (slept gs ?n g1))" by (metis (full_types) prod.collapse)
  have before: "\<not> fst (slept gs i g1)" if "i < ?n" for i using not_less_Least [OF that] .
  have "serve gs g1 = Some (gs_stop gs 0 (snd (slept gs ?n g1)))" by (rule serve_interrupted [OF before at])
  then show ?thesis unfolding start_server_def assms using True by simp
next
  case False
  then have "serve gs g1 = None" using serve_ends_only_by_interrupt by (metis option.exhaust)
  then show ?thesis using False assms by (simp add: start_server_def)
qed

definition controller_main ::
  "'g grpc_server \<Rightarrow> int option \<Rightarrow> str \<Rightarrow> str option \<Rightarrow> log_state \<Rightarrow> 'g \<Rightarrow> (((exn + unit) \<times> 'g) option) \<times> log_state" where
  "controller_main gs cpus endpoint loglevel l g =
     (case set_log_level loglevel l of
        (Inl e, l') \<Rightarrow> (Some (Inl e, g), l')
      | (Inr _, l') \<Rightarrow> (start_server gs cpus endpoint g, l'))"

text \<open>A server that records its calls, and is interrupted in its third sleep.\<close>

definition example_grpc :: "str list grpc_server" where
  "example_grpc =
     \<lparr>gs_server = (\<lambda>w. modifyS (\<lambda>t. t @ [''server''])), gs_add_servicer = (\<lambda>v. modifyS (\<lambda>t. t @ [''add''])),
      gs_add_insecure_port = (\<lambda>e. modifyS (\<lambda>t. t @ [e])), gs_start = modifyS (\<lambda>t. t @ [''start'']),
      gs_sleep = (\<lambda>t. (9 \<le> length t, t @ [''sleep''])), gs_stop = (\<lambda>n. modifyS (\<lambda>t. t @ [''stop'']))\<rparr>"

lemma start_server_ends_witness:
  "start_server example_grpc (Some 8) ''unix:/csi'' [] =
     Some (Inr (), [''server'', ''add'', ''add'', ''add'', ''add'', ''unix:/csi'', ''start'', ''sleep'', ''sleep'', ''sleep'', ''stop''])"
proof -
  let ?t = "[''server'', ''add'', ''add'', ''add'', ''add'', ''unix:/csi'', ''start'']"
  have up: "set_up_server example_grpc (Some 8) ''unix:/csi'' [] = (Inr (), ?t)"
    by (simp add: set_up_server_def example_grpc_def thenE_def bindE_def modifyS_def)
  have two: "slept example_grpc (Suc (Suc 0)) ?t = (True, ?t @ [''sleep'', ''sleep'', ''sleep''])"
    by (simp add: example_grpc_def)
  have "(LEAST n. fst (slept example_grpc n ?t)) = Suc (Suc 0)"
  proof (rule Least_equality)
    show "fst (slept example_grpc (Suc (Suc 0)) ?t)" unfolding two by simp
    show "Suc (Suc 0) \<le> n" if "fst (slept example_grpc n ?t)" for n
      using that by (cases n; cases "n - 1") (auto simp: example_grpc_def)
  qed
  moreover have "\<exists>n. fst (slept example_grpc n ?t)" using two by (metis fst_conv)
  ultimately show ?thesis
    using start_server_ends [OF up] two by (simp add: example_grpc_def modifyS_def)
qed

end
