(* ===== verification/Lifecycle.thy ===== *)
theory Lifecycle
  imports Controller
begin

text \<open>
  A volume across requests: the id that \<open>CreateVolume\<close> answers with leads every later request that has the same
  secret back to the storage system on which the volume was created, and to that volume.
\<close>

subsection \<open>From the id of a new volume to its deletion\<close>

text \<open>
  The volume of a request, looked up in the state \<open>s\<close>: the one the storage system has under the name, or the one it made
  after it answered that there is none.
\<close>

definition found_or_made ::
  "'s full_mediator \<Rightarrow> array_connection_info \<Rightarrow> object_parameters \<Rightarrow> create_volume_request \<Rightarrow> str \<Rightarrow> str option \<Rightarrow> object_ids
    \<Rightarrow> 's \<Rightarrow> volume \<Rightarrow> bool" where
  "found_or_made md ci vp r name source_type source_ids s v =
     (let use_snap_object = op_virt_snap_func vp \<and> \<not> truthy (ci_partition_name ci);
          look_up = md_get_volume md name (op_pool vp) use_snap_object s in
      (\<exists>s1. look_up = (Inr v, s1)) \<or>
      (\<exists>e s1 s2 s3. look_up = (Inl e, s1) \<and> isa ''ObjectNotFoundError'' e \<and>
         thenE (md_validate_supported_space_efficiency md (op_space_efficiency vp))
           (if (case get_volume_topologies (cv_preferred_topologies r) of None \<Rightarrow> False | Some t \<Rightarrow> t \<noteq> [])
            then md_register_plugin md ''topology'' [] else ret ()) s1 = (Inr (), s2) \<and>
         md_create_volume md name (size_to_create md r) (op_space_efficiency vp) (the (op_pool vp)) (op_io_group vp)
           (op_volume_group vp) source_ids source_type use_snap_object (ci_partition_name ci) (ci_partition_vg ci)
           (cv_parameters r) s2 = (Inr v, s3)))"

text \<open>The answer of a successful creation is made of that volume.\<close>

definition volume_answer :: "array_connection_info \<Rightarrow> volume \<Rightarrow> csi_volume \<Rightarrow> bool" where
  "volume_answer ci v cv =
     (csi_capacity_bytes cv = vol_capacity_bytes v \<and> csi_volume_id cv = get_volume_id v (ci_system_id ci))"

lemma volume_answer_generated [simp]:
  "volume_answer ci v (generate_csi_create_volume_response v (ci_system_id ci) st)"
  "volume_answer ci v (generate_csi_create_volume_response (v\<lparr>vol_source_id := sid\<rparr>) (ci_system_id ci) st)"
  by (simp_all add: volume_answer_def generate_csi_create_volume_response_def get_volume_id_def)

lemma get_or_create_volume_early:
  assumes "get_or_create_volume md ci vp r name (size_to_create md r) (op_virt_snap_func vp \<and> \<not> truthy (ci_partition_name ci))
      st sids sid s = (Inr (Inl (Ok cv)), s')"
  shows "\<exists>v. found_or_made md ci vp r name st sids s v \<and> volume_answer ci v cv"
  using assms unfolding found_or_made_def Let_def
  by (auto simp: get_or_create_volume_def tryE_def existing_volume_source_response_def build_error_response_def prog_run
      elim!: bindE_InrE thenE_InrE split: prod.splits sum.splits if_splits option.splits)

lemma get_or_create_volume_found:
  assumes "get_or_create_volume md ci vp r name (size_to_create md r) (op_virt_snap_func vp \<and> \<not> truthy (ci_partition_name ci))
      st sids sid s = (Inr (Inr v), s')"
  shows "found_or_made md ci vp r name st sids s v"
proof (cases "md_get_volume md name (op_pool vp) (op_virt_snap_func vp \<and> \<not> truthy (ci_partition_name ci)) s")
  case (Pair a s1)
  show ?thesis
  proof (cases a)
    case (Inl e)
    with assms Pair have e: "isa ''ObjectNotFoundError'' e" by (auto simp: get_or_create_volume_def tryE_def prog_run split: if_splits)
    with assms Pair Inl show ?thesis
      unfolding found_or_made_def Let_def get_or_create_volume_def tryE_def
      by (fastforce simp: thenE_def bindE_def prog_run split: prod.splits sum.splits)
  next
    case (Inr w)
    with assms Pair have "w = v"
      by (auto simp: get_or_create_volume_def tryE_def existing_volume_source_response_def prog_run
          elim!: thenE_InrE split: if_splits option.splits)
    with Pair Inr show ?thesis by (simp add: found_or_made_def)
  qed
qed

lemma check_source_object_early: "check_source_object md ci se n use i st s \<noteq> (Inr (Some (Ok cv)), s')"
  by (auto simp: check_source_object_def prog_run elim!: bindE_InrE thenE_InrE split: option.splits)

lemma create_volume_on_answer:
  assumes "create_volume_on env md ci vp r st sids sid s = (Inr (Ok cv), s')"
  shows "\<exists>name s1 v. get_object_final_name (env_hash env) (md_limits md) (op_prefix vp) (cv_name r) VOLUME_TYPE_NAME = Inr name \<and>
    source_checked md ci vp (size_to_create md r) st sid s s1 \<and> found_or_made md ci vp r name st sids s1 v \<and> volume_answer ci v cv"
proof -
  let ?use = "op_virt_snap_func vp \<and> \<not> truthy (ci_partition_name ci)"
  from assms obtain name where
    name: "get_object_final_name (env_hash env) (md_limits md) (op_prefix vp) (cv_name r) VOLUME_TYPE_NAME = Inr name"
    unfolding create_volume_on_def by (auto elim!: bindE_InrE simp: prog_run)
  let ?check = "if (op_virt_snap_func vp \<or> truthy (ci_partition_name ci)) \<and> truthy sid
      then check_source_object md ci (op_space_efficiency vp) (size_to_create md r) ?use (the sid) st else ret None"
  let ?answer = "\<lambda>res. case res of Inl reply \<Rightarrow> ret reply
      | Inr v \<Rightarrow> thenE (if truthy sid \<and> \<not> (op_virt_snap_func vp \<or> truthy (ci_partition_name ci))
          then fm_copy_to_existing_volume_from_source md v (the sid) st (size_to_create md r) else ret ())
        (ret (Ok (generate_csi_create_volume_response (v\<lparr>vol_source_id := sid\<rparr>) (ci_system_id ci) st)))"
  let ?rest = "\<lambda>early. case early of Some reply \<Rightarrow> ret reply
      | None \<Rightarrow> bindE (get_or_create_volume md ci vp r name (size_to_create md r) ?use st sids sid) ?answer"
  have "bindE ?check ?rest s = (Inr (Ok cv), s')"
  proof (cases "md_maximal_volume_size_in_bytes md < the (cv_required_bytes r)")
    case True
    with assms show ?thesis by (simp add: create_volume_on_def name build_error_response_def prog_run)
  next
    case False
    with assms show ?thesis
      unfolding create_volume_on_def name liftR_Inr bindE_ret Let_def size_to_create_def [symmetric] by (simp only: if_False)
  qed
  then obtain early s1 where check: "?check s = (Inr early, s1)" and rest: "?rest early s1 = (Inr (Ok cv), s')"
    by (rule bindE_InrE)
  have early: "early = None"
    using check rest by (cases early) (auto simp: prog_run check_source_object_early split: if_splits)
  then have checked: "source_checked md ci vp (size_to_create md r) st sid s s1"
    using check by (auto simp: source_checked_def ret_def split: if_splits)
  have "bindE (get_or_create_volume md ci vp r name (size_to_create md r) ?use st sids sid) ?answer s1 = (Inr (Ok cv), s')"
    using rest unfolding early by (simp only: option.case)
  then obtain res s2 where res: "get_or_create_volume md ci vp r name (size_to_create md r) ?use st sids sid s1 = (Inr res, s2)"
    and answer: "?answer res s2 = (Inr (Ok cv), s')"
    by (rule bindE_InrE)
  have "\<exists>v. found_or_made md ci vp r name st sids s1 v \<and> volume_answer ci v cv"
  proof (cases res)
    case (Inl reply)
    with answer res show ?thesis by (auto simp: prog_run dest: get_or_create_volume_early)
  next
    case (Inr v)
    with answer have "cv = generate_csi_create_volume_response (v\<lparr>vol_source_id := sid\<rparr>) (ci_system_id ci) st"
      by (auto simp: prog_run elim!: thenE_InrE)
    with get_or_create_volume_found [OF res [unfolded Inr]] show ?thesis by auto
  qed
  with name checked show ?thesis by blast
qed

lemma CreateVolume_answer:
  assumes "CreateVolume env r s = (Inr (Ok cv), s')"
  shows "\<exists>ci vp md s1 st ids name s2 v. create_reaches env r s ci vp md s1 st ids \<and>
    get_object_final_name (env_hash env) (md_limits md) (op_prefix vp) (cv_name r) VOLUME_TYPE_NAME = Inr name \<and>
    source_checked md ci vp (size_to_create md r) st
      (if truthy (ids_uid ids) then ids_uid ids else ids_internal_id ids) s1 s2 \<and>
    found_or_made md ci vp r name st ids s2 v \<and> volume_answer ci v cv"
proof -
  from assms obtain st ids where valid: "validate_create_volume_request r = Inr ()"
    and ids: "get_source_type_and_ids (cv_source r) = Inr (st, ids)"
    and "CreateVolume_body env r st ids s = (Inr (Ok cv), s')"
    unfolding CreateVolume_def
    by (auto simp: catchE_def handle_exception_def prog_run elim!: bindE_InrE split: prod.splits sum.splits if_splits exn.splits)
  then obtain ci vp t s0 where
    ci: "get_array_connection_info_from_secrets (cv_secrets r) (get_volume_topologies (cv_preferred_topologies r)) None = Inr ci"
    and vp: "get_volume_parameters (cv_parameters r) (ci_system_id ci) = Inr vp" "truthy (op_pool vp)"
    and t: "env_detect env (ci_array_addresses ci) s = (Inr t, s0)"
    and on: "with_agent env ci t (\<lambda>md. create_volume_on env md ci vp r st ids
        (if truthy (ids_uid ids) then ids_uid ids else ids_internal_id ids)) s0 = (Inr (Ok cv), s')"
    unfolding CreateVolume_body_def Let_def by (auto simp: prog_run elim!: bindE_InrE split: if_splits)
  then obtain md s1 s3 where md: "env_acquire env ci t s0 = (Inr md, s1)"
    and run: "create_volume_on env md ci vp r st ids
        (if truthy (ids_uid ids) then ids_uid ids else ids_internal_id ids) s1 = (Inr (Ok cv), s3)"
    unfolding with_agent_def by (auto simp: finallyE_def elim!: bindE_InrE split: prod.splits)
  have "create_reaches env r s ci vp md s1 st ids"
    using valid ids ci vp t md by (auto simp: create_reaches_def)
  with create_volume_on_answer [OF run] show ?thesis by blast
qed

text \<open>What an id of a volume is read as, by a request with the secret that the volume was made with.\<close>

lemma created_id_read_back:
  assumes "get_array_connection_info_from_secrets secrets topologies None = Inr ci" "validate_secrets secrets = Inr ()"
    and "id_part (vol_array_type v)" "id_part (vol_internal_id v)" "id_part (vol_id (v :: volume))"
  shows "get_volume_id_info (get_volume_id v (ci_system_id ci)) =
    Inr \<lparr>oi_array_type = vol_array_type v, oi_system_id = ci_system_id ci, oi_internal_id = Some (vol_internal_id v),
         oi_uid = vol_id v\<rparr>"
proof -
  have "\<forall>i. ci_system_id ci = Some i \<longrightarrow> id_part i \<and> i \<noteq> []"
    using connection_by_system_id(2) [OF assms(1,2)] valid_system_id_part by auto
  then show ?thesis
    using assms(3-5) get_object_id_roundtrip [of "vol_array_type v" "vol_internal_id v" "vol_id v" "ci_system_id ci"]
    by (cases "ci_system_id ci") (auto simp: get_volume_id_def get_volume_id_info_def type_name_defs)
qed

lemma empty_volume_id: "get_volume_id_info [] \<noteq> Inr info"
  by (simp add: get_volume_id_info_def get_object_id_info_def split_ids_def)

text \<open>
  C10. The volume that is created is the one that is deleted.  A successful \<open>CreateVolume\<close> reached a storage system, the
  one that the secret gives (chosen by topology, among the systems of the secret, or the only one), and its answer carries
  the size and the id of the volume that this storage system has under the final name of the request, or else made for it
  with that name and size.  When the parts of that id are well formed, \<open>DeleteVolume\<close> of the id that was answered, with
  the same secret, goes to the same storage system, as a system of the type of the volume, and asks it to delete the uid of
  that volume; the answer is success when that succeeds or there is no such volume.
\<close>
theorem created_volume_deleted:
  assumes "CreateVolume env r s = (Inr (Ok cv), s')"
  shows "\<exists>ci vp md s1 st ids name s2 v. create_reaches env r s ci vp md s1 st ids \<and>
    get_object_final_name (env_hash env) (md_limits md) (op_prefix vp) (cv_name r) VOLUME_TYPE_NAME = Inr name \<and>
    source_checked md ci vp (size_to_create md r) st
      (if truthy (ids_uid ids) then ids_uid ids else ids_internal_id ids) s1 s2 \<and>
    found_or_made md ci vp r name st ids s2 v \<and>
    csi_capacity_bytes cv = vol_capacity_bytes v \<and> csi_volume_id cv = get_volume_id v (ci_system_id ci) \<and>
    (id_part (vol_array_type v) \<longrightarrow> id_part (vol_internal_id v) \<longrightarrow> id_part (vol_id v) \<longrightarrow>
      (\<forall>env'. DeleteVolume env' \<lparr>or_object_id = csi_volume_id cv, or_secrets = cv_secrets r\<rparr> =
        thenE (with_agent env' ci (vol_array_type v) (\<lambda>md.
            catchE (md_delete_volume md (vol_id v) (ci_partition_name ci))
              (\<lambda>e. if isa ''ObjectNotFoundError'' e then ret () else raiseE e)))
          (ret (Ok ()))))"
proof -
  obtain ci vp md s1 st ids name s2 v where reach: "create_reaches env r s ci vp md s1 st ids"
    and made: "get_object_final_name (env_hash env) (md_limits md) (op_prefix vp) (cv_name r) VOLUME_TYPE_NAME = Inr name"
      "source_checked md ci vp (size_to_create md r) st
        (if truthy (ids_uid ids) then ids_uid ids else ids_internal_id ids) s1 s2"
      "found_or_made md ci vp r name st ids s2 v"
    and answer: "csi_capacity_bytes cv = vol_capacity_bytes v" "csi_volume_id cv = get_volume_id v (ci_system_id ci)"
    using CreateVolume_answer [OF assms] unfolding volume_answer_def by blast
  have secrets: "validate_secrets (cv_secrets r) = Inr ()"
    and ci: "get_array_connection_info_from_secrets (cv_secrets r) (get_volume_topologies (cv_preferred_topologies r)) None = Inr ci"
    using reach
    by (auto simp: create_reaches_def validate_create_volume_request_def validate_minimum_request_fields_def thenR_Inr_iff)
  have "DeleteVolume env' \<lparr>or_object_id = csi_volume_id cv, or_secrets = cv_secrets r\<rparr> =
        thenE (with_agent env' ci (vol_array_type v) (\<lambda>md.
            catchE (md_delete_volume md (vol_id v) (ci_partition_name ci))
              (\<lambda>e. if isa ''ObjectNotFoundError'' e then ret () else raiseE e)))
          (ret (Ok ()))"
    if "id_part (vol_array_type v)" "id_part (vol_internal_id v)" "id_part (vol_id v)" for env' :: "'b env"
  proof -
    note info = created_id_read_back [OF ci secrets that, folded answer(2)]
    then have "csi_volume_id cv \<noteq> []" using empty_volume_id by metis
    with secrets have "validate_delete_volume_request \<lparr>or_object_id = csi_volume_id cv, or_secrets = cv_secrets r\<rparr> = Inr ()"
      by (simp add: validate_delete_volume_request_def validate_minimum_request_fields_def)
    then show ?thesis
      using info connection_by_system_id(1) [OF ci secrets]
      by (simp add: DeleteVolume_def thenE_def bindE_def fun_eq_iff prog_simps)
  qed
  with reach made answer show ?thesis by blast
qed

lemma example_created:
  assumes "create_reaches (example_env store_mediator) (example_request 1024) [] ci vp md s1 st ids"
    and "get_object_final_name (env_hash (example_env store_mediator)) (md_limits md) (op_prefix vp)
      (cv_name (example_request 1024)) VOLUME_TYPE_NAME = Inr name"
    and "source_checked md ci vp n st (if truthy (ids_uid ids) then ids_uid ids else ids_internal_id ids) s1 s2"
    and "found_or_made md ci vp (example_request 1024) name st ids s2 v"
  shows "md = store_mediator \<and> ci = example_info \<and> vol_array_type v = ARRAY_TYPE_SVC \<and> vol_internal_id v = ''0'' \<and>
    vol_id v = ''uid-pvc-1''"
proof -
  have ids: "st = None" "ids = \<lparr>ids_internal_id = Some [], ids_uid = Some []\<rparr>"
    using no_source [OF assms(1)] by (simp_all add: example_request_def)
  have given: "md = store_mediator" "s1 = []" "ci = example_info" "get_volume_parameters [(''pool'', ''gold'')] None = Inr vp"
    using assms(1) example_connection_info [of None None]
    by (auto simp: create_reaches_def example_env_def prog_run example_request_def get_volume_topologies_def example_info_def)
  then have vp: "vp = example_vp" by (simp add: example_parameters_read)
  have s2: "s2 = []" using assms(3) given ids by (simp add: source_checked_def)
  have name: "name = ''pvc-1''"
    using assms(2) unfolding given vp
    by (simp add: example_request_def example_env_def example_vp_def store_simps get_object_final_name_def join_object_prefix_with_name_def)
  have "get_volume_topologies (cv_preferred_topologies (example_request 1024)) = None"
    by (simp add: example_request_def get_volume_topologies_def)
  then have "vol_array_type v = ARRAY_TYPE_SVC \<and> vol_internal_id v = ''0'' \<and> vol_id v = ''uid-'' @ name"
    using assms(4) unfolding given s2 by (auto simp: found_or_made_def store_simps Let_def nat_str_0)
  with given name show ?thesis by simp
qed

lemma created_volume_deleted_witness:
  "\<exists>cv t. CreateVolume (example_env store_mediator) (example_request 1024) [] = (Inr (Ok cv), t) \<and> t \<noteq> [] \<and>
     DeleteVolume (example_env store_mediator) \<lparr>or_object_id = csi_volume_id cv, or_secrets = example_secrets\<rparr> t =
       (Inr (Ok ()), [])"
proof -
  let ?v = "\<lparr>vol_name = ''pvc-1'', vol_id = ''uid-pvc-1'', vol_internal_id = ''0'', vol_array_type = ARRAY_TYPE_SVC,
      vol_capacity_bytes = 1024, vol_array_address = [''10.0.0.1''], vol_source_id = None, vol_pool = ''gold'',
      vol_space_efficiency_aliases = [], vol_volume_group_id = None, vol_volume_group_name = None,
      vol_partition_name = None\<rparr>"
  let ?cv = "\<lparr>csi_capacity_bytes = 1024, csi_volume_id = get_volume_id ?v None, csi_content_source = None\<rparr>"
  have "create_volume_on (example_env store_mediator) store_mediator example_info example_vp (example_request 1024) None
      \<lparr>ids_internal_id = Some [], ids_uid = Some []\<rparr> (Some []) [] = (Inr (Ok ?cv), [?v])"
    using create_on_new [of example_vp "example_env store_mediator" store_mediator "example_request 1024" "''pvc-1''" "[]" "''pvc-1''" "[]" "[]" 1024
        "\<lparr>ids_internal_id = Some [], ids_uid = Some []\<rparr>" example_info ?v "[?v]"]
    by (simp add: example_request_def example_env_def example_vp_def example_info_def store_simps Let_def nat_str_0
        get_object_final_name_def join_object_prefix_with_name_def)
  then have "CreateVolume (example_env store_mediator) (example_request 1024) [] = (Inr (Ok ?cv), env_release (example_env store_mediator) [?v])"
    using CreateVolume_reaches [OF example_reaches [of 1024 store_mediator "[]"]] by simp
  then have run: "CreateVolume (example_env store_mediator) (example_request 1024) [] = (Inr (Ok ?cv), [?v])"
    by (simp add: example_env_def)
  have secrets: "cv_secrets (example_request 1024) = example_secrets" by (simp add: example_request_def)
  obtain ci vp md s1 st ids name s2 v where ex: "create_reaches (example_env store_mediator) (example_request 1024) [] ci vp md s1 st ids"
    "get_object_final_name (env_hash (example_env store_mediator)) (md_limits md) (op_prefix vp) (cv_name (example_request 1024))
      VOLUME_TYPE_NAME = Inr name"
    "source_checked md ci vp (size_to_create md (example_request 1024)) st
      (if truthy (ids_uid ids) then ids_uid ids else ids_internal_id ids) s1 s2"
    "found_or_made md ci vp (example_request 1024) name st ids s2 v"
    and delete: "id_part (vol_array_type v) \<longrightarrow> id_part (vol_internal_id v) \<longrightarrow> id_part (vol_id v) \<longrightarrow>
      (\<forall>env' :: volume list env. DeleteVolume env' \<lparr>or_object_id = csi_volume_id ?cv, or_secrets = example_secrets\<rparr> =
        thenE (with_agent env' ci (vol_array_type v) (\<lambda>md.
            catchE (md_delete_volume md (vol_id v) (ci_partition_name ci))
              (\<lambda>e. if isa ''ObjectNotFoundError'' e then ret () else raiseE e)))
          (ret (Ok ())))"
    using created_volume_deleted [OF run] unfolding secrets by blast
  from ex have known: "md = store_mediator \<and> ci = example_info \<and> vol_array_type v = ARRAY_TYPE_SVC \<and> vol_internal_id v = ''0'' \<and>
      vol_id v = ''uid-pvc-1''"
    by (rule example_created)
  have "id_part (vol_array_type v)" "id_part (vol_internal_id v)" "id_part (vol_id v)"
    using known by (simp_all add: id_part_def array_type_defs)
  with delete known have "DeleteVolume (example_env store_mediator) \<lparr>or_object_id = csi_volume_id ?cv, or_secrets = example_secrets\<rparr> =
        thenE (with_agent (example_env store_mediator) example_info ARRAY_TYPE_SVC (\<lambda>md.
            catchE (md_delete_volume md ''uid-pvc-1'' (ci_partition_name example_info))
              (\<lambda>e. if isa ''ObjectNotFoundError'' e then ret () else raiseE e)))
          (ret (Ok ()))"
    by auto
  then have "DeleteVolume (example_env store_mediator) \<lparr>or_object_id = csi_volume_id ?cv, or_secrets = example_secrets\<rparr> [?v] =
      (Inr (Ok ()), [])"
    by (simp add: with_agent_def finallyE_def thenE_def bindE_def catchE_def example_env_def store_simps)
  with run show ?thesis by (metis list.distinct(1))
qed

end
