(* ===== verification/Spec2Isabelle.thy ===== *)
theory Spec2Isabelle
  imports Agent Addons VolumeGroup SvcMediator Xiv SolidFire Ds8k Watchers Santricity SantricityViews CallHome ConnectionManager SantricityTables Config Processes Lifecycle
begin

text \<open>
  A model of the controller of the IBM block storage CSI driver (\<open>src/controllers/\<close>, in Python), with the theorems that
  say what it guarantees.

  \<^bold>\<open>The program.\<close>  Kubernetes sends the driver requests over gRPC: to create, copy, expand, delete, publish and group
  volumes, to take snapshots and to replicate.  A handler (\<open>servers/csi/\<close>) checks the request, takes the lock of the
  object it is about, borrows a connection from the pool of its storage system (\<open>array_action/storage_agent.py\<close>,
  \<open>array_connection_pool.py\<close>), and calls a mediator: one class per kind of storage system (SVC, XIV, DS8000, SolidFire and
  SANtricity) behind one interface.  An exception becomes a status of the reply.  A second program, the host definer
  (\<open>servers/host_definer/\<close>), watches the nodes of the cluster and defines them as hosts on the storage systems, through
  the same mediators.  A SANtricity client library with a command line tool (\<open>array_action/santricity_client/\<close>) is part of
  the repository.

  \<^bold>\<open>Method.\<close>  A method that can not touch the outside is a function to \<open>exn + 'a\<close>, where \<open>Inl\<close> is a raise.  A method that can
  is a program \<open>('s, 'a) prog\<close>, a function from a state to an outcome and a state, with \<open>bindE\<close>, \<open>catchE\<close> and their like
  in the place of sequencing and \<open>try\<close> (theory \<open>Prog\<close>).  Every raise, early return and handler of the source is a branch.
  A class is a record of its attributes, an interface a record of its operations.  Strings are lists of characters below
  256, integers are unbounded as in Python, dictionaries are association lists, in order, where their order shows, floats are rationals that are
  rounded to 53 bits after each operation (\<open>Floats\<close>; overflow and the special values do not occur with the sizes and
  percentages computed here).  A storage system is a state \<open>'s\<close> with the operations of the third-party package that
  reaches it as a parameter; theorems hold for every such system.

  \<^bold>\<open>Theories, from the bottom.\<close>
  \<^item> \<open>Prelude\<close>: Python's string functions, and the locale \<open>codec\<close> of a text form that can be read back.  \<open>Errors\<close>: the
    classes of exceptions (\<open>array_action/errors.py\<close>, \<open>servers/errors.py\<close>); \<open>Messages\<close>: their texts, and which of them
    have none.  \<open>Prog\<close>: the two shapes of a method, the rules to take their runs apart, and \<open>keeps\<close>, an invariant a program preserves.
  \<^item> \<open>Json\<close>: \<open>json.loads\<close> and \<open>json.dumps\<close>, inverse to each other on values that can be written.  The parser carries fuel,
    two more than twice the length of the text; \<open>parse_stable\<close> says that more gives the same.  \<open>JsonValues\<close>, \<open>Floats\<close>, \<open>Base64\<close>: the other
    parts of the language and its library that the clients compute with.
  \<^item> \<open>Types\<close> (settings, \<open>array_action_types.py\<close>, and the locales of caches by endpoint), \<open>Ids\<close>, \<open>NodeInitiators\<close>, \<open>Params\<close>,
    \<open>Validation\<close>: what \<open>servers/utils.py\<close> and \<open>common/node_info.py\<close> make of the texts of a request.  Ids and initiators are
    read back as they were written (C1, C6); the choice of a system by topology and the precedence of parameters are C4 and C5.
  \<^item> \<open>Server\<close>: the lock on an object and the translation of exceptions (\<open>servers/csi/sync_lock.py\<close>, \<open>decorators.py\<close>,
    \<open>exception_handler.py\<close>).  \<open>lock_step\<close> interleaves threads between entering and leaving the handlers, the locale
    \<open>lock_table\<close> has the mutual exclusion of C2; C3 is one call through the lock.
  \<^item> \<open>Mediator\<close>: the interface and the methods all mediators inherit (\<open>array_mediator_interface.py\<close>,
    \<open>array_mediator_abstract.py\<close>), with the locale \<open>lun_choice\<close>, which the SVC and the XIV mediator interpret.
  \<^item> \<open>Controller\<close>, \<open>Addons\<close>, \<open>VolumeGroup\<close>: the three services (\<open>csi_controller_server.py\<close>, \<open>addons_server.py\<close>,
    \<open>volume_group_server.py\<close>), each handler as a whole (C8, C9, C11, C13 to C16; C12 is on the inherited methods).  \<open>Lifecycle\<close>: a volume across requests, from the id it is created with to its deletion (C10).
  \<^item> \<open>Agent\<close>: the pool of connections.  \<open>pool_get\<close> and \<open>pool_put\<close> are run by one thread, \<open>pool_step\<close> interleaves the sections of
    many; the methods refine the steps (C18) and the number of connections is bounded (C17).  \<open>pool_close\<close>, the destructor, may
    loop for ever, so it is a partial function, and C7 says when it ends and what
    it closed: a pool keeps the history of the connections it closed.  \<open>ConnectionManager\<close>: the older
    way of counting connections.  \<open>Sessions\<close>: the life of a mediator, from its constructor to its end.
  \<^item> \<open>SvcCli\<close>, \<open>SvcVolumes\<close>, \<open>SvcOperations\<close>, \<open>SvcReplication\<close>, \<open>SvcHosts\<close>, \<open>SvcMediator\<close>: the SVC mediator
    (\<open>array_mediator_svc.py\<close>) over the commands of pysvc: the objects a command answers with and the handling of its errors,
    FlashCopy mappings and snapshots, sizes, replication by mirrors and by policies, hosts and LUNs (C19 to C24).
  \<^item> \<open>Xiv\<close> (C25), \<open>SolidFire\<close>, \<open>Ds8kClient\<close> and \<open>Ds8k\<close> (C26): the mediators over pyxcli, over JSON-RPC and over pyds8k.
  \<^item> \<open>SantricityClient\<close>, \<open>SantricityResources\<close>, \<open>SantricitySnapshots\<close>, \<open>SantricityReports\<close>, \<open>Santricity\<close>: the client over a
    session that sends requests, its resources, the choice and growth of the group a snapshot is taken in (C34), the report of the
    interfaces (C36), and the mediator with its fail-over (C35, C37, C38).  \<open>SantricityViews\<close>, \<open>SantricityTables\<close>, \<open>SantricityCli\<close>:
    the other reports, the tables and the commands of the tool.
  \<^item> \<open>HostDefiner\<close>: how a host is made to fit its node (C27 to C29), and what happens on storage systems
    that can not make hosts.  \<open>Kubernetes\<close>, \<open>WatcherHelper\<close>, \<open>Watchers\<close>: the managers of
    \<open>kubernetes_manager/\<close> and the five watchers (C30 to C33).  \<open>watch_step\<close> interleaves the handlers of events and the
    rounds of the threads they start; \<open>watch_inv\<close> holds in every state it reaches, by the locale \<open>kept_by_cluster\<close>.  The wait
    for the roll-out of the driver is a partial function, and C31 says exactly when it returns.
  \<^item> \<open>CallHome\<close>: the metadata of a registration (\<open>common/utils.py\<close>).  Its method calls itself; \<open>ch_frames\<close> is the depth that is
    left, and \<open>encode_to_base64_frames\<close> says that every depth of at least two gives the same (C40).
  \<^item> \<open>Config\<close>: the configuration file, with the settings that the other theories have as constants and the name under
    which the plugin is found on the nodes.  \<open>Processes\<close>: the logger, the number of threads, and the start of the controller, which
    runs until it is interrupted (\<open>csi_logger.py\<close>, \<open>controller_server_manager.py\<close>).

  The theorems that need the host definer and a mediator together, C39 among them, are in this theory.

  \<^bold>\<open>Parameters.\<close>  Code that is not in the repository is an argument of the definitions, and a property that relies on its behaviour says so in
  a hypothesis: the packages pysvc, pyxcli, pyds8k and the sessions of requests (one operation per command or
  request, with the classes of their exceptions and how they are related), the client of Kubernetes (\<open>kube\<close>), the decorators of
  retry, the comparison of versions of packaging, the attributes of munch, the server of grpc, the texts of exceptions that the
  interpreter or a package raises (\<open>texts\<close>), zlib, the files and variables of the environment, sockets, the clock, and the
  hash of names.  Where a hypothesis restricts one of them, a witness shows an instance of which it holds.

  \<^bold>\<open>Not modelled.\<close>
  \<^item> The texts of log messages.
  \<^item> Finer interleavings: a handler of a service or a watcher is one step between its locks, and a method of a cache, of the
    connection manager or of a mediator is one step.  The pool is the exception.
  \<^item> Starting the threads of the watchers and opening the streams of events: they only call the standard library and
    third-party packages.  What the threads do is in \<open>watch_step\<close>.
  \<^item> Reading the options of the command line (the package typer), its error output, and drawing tables (the package rich).
  \<^item> Parameters that are not texts: a number or a list as the pool of a system in \<open>by_management_id\<close> is stored by the code and
    shows where it is used; \<open>get_object_parameters\<close> raises a \<open>TypeError\<close> at once.  The source of a snapshot object that has none is passed
    on as the empty text, not as \<open>None\<close>.
  \<^item> The generated protocol code; its messages are records of the fields the driver reads and writes.
  \<^item> The node plugin (\<open>src/node\<close>), a program of its own in Go, and the tests.
\<close>

text \<open>
  A node can not be defined on a SolidFire storage system: whatever the request and the state of the
  system, no answer is that of a definition: it carries the text of an error, unless the exception that ended the request
  has none.
\<close>
theorem solidfire_defines_no_host:
  assumes "\<And>t s0 md s1. env_acquire (df_env df) (rq_array_connection_info rq) t s0 = (Inr md, s1) \<Longrightarrow>
      mediator.truncate md = solidfire_mediator sf"
    and "define_host df rq s = (Inr r, s')"
  shows "rs_error_message r \<noteq> [] \<or>
    (\<exists>e. reach_storage df rq (\<lambda>md. define_host_on df md rq) s = (Inl e, s') \<and> silent (df_texts df) e)"
  using assms(2) [unfolded define_host_def]
proof (cases rule: on_storage_result)
  case (raised e)
  then show ?thesis by (auto simp: silent_def)
next
  case (returned t md s0 s1 s2)
  then have "define_host_on df (solidfire_mediator sf) rq s1 = (Inr r, s2)" using assms(1) by metis
  from define_host_on_result [OF this] show ?thesis
    by (auto simp: solidfire_mediator_def Let_def prog_run)
qed

lemma solidfire_defines_no_host_witness:
  "\<exists>df r s'. define_host df example_define_request \<lparr>sfw_array = ([] :: json list), sfw_request_id = 0\<rparr> = (Inr r, s') \<and>
     (rs_error_message r \<noteq> [] \<or>
      (\<exists>e. reach_storage df example_define_request (\<lambda>md. define_host_on df md example_define_request)
         \<lparr>sfw_array = [], sfw_request_id = 0\<rparr> = (Inl e, s') \<and> silent (df_texts df) e))"
proof -
  define df where "df = \<lparr>df_env = example_env (inherit_methods (solidfire_mediator example_solidfire) (\<lambda>m. m) (\<lambda>m. m) (\<lambda>m. m)),
      df_texts = plain_texts, df_host_text = host_name, df_initiators_text = (\<lambda>i. [])\<rparr>"
  have md: "mediator.truncate md = solidfire_mediator example_solidfire"
    if "env_acquire (df_env df) (rq_array_connection_info example_define_request) t s0 = (Inr md, s1)" for t s0 md s1
    using that by (auto simp: df_def example_env_def inherit_methods_def prog_run mediator.truncate_def mediator.extend_def)
  obtain r s' where run: "define_host df example_define_request \<lparr>sfw_array = [], sfw_request_id = 0\<rparr> = (Inr r, s')" by (rule define_host_runs)
  have "rs_error_message r \<noteq> [] \<or>
      (\<exists>e. reach_storage df example_define_request (\<lambda>md. define_host_on df md example_define_request)
         \<lparr>sfw_array = [], sfw_request_id = 0\<rparr> = (Inl e, s') \<and> silent (df_texts df) e)"
    by (rule solidfire_defines_no_host [OF _ run]) (rule md)
  with run show ?thesis by blast
qed

text \<open>
  A node can not be defined on a SANtricity storage system outside of a partition: whatever the request and the
  state of the system, no answer is that of a definition: it carries the text of an error, unless the exception that ended the request
  has none.
\<close>
theorem santricity_defines_no_host:
  assumes "\<not> truthy (rq_partition_name rq)"
    and "\<And>t s0 md s1. env_acquire (df_env df) (rq_array_connection_info rq) t s0 = (Inr md, s1) \<Longrightarrow>
      mediator.truncate md = santricity_mediator sn"
    and "define_host df rq s = (Inr r, s')"
  shows "rs_error_message r \<noteq> [] \<or>
    (\<exists>e. reach_storage df rq (\<lambda>md. define_host_on df md rq) s = (Inl e, s') \<and> silent (df_texts df) e)"
  using assms(3) [unfolded define_host_def]
proof (cases rule: on_storage_result)
  case (raised e)
  then show ?thesis by (auto simp: silent_def)
next
  case (returned t md s0 s1 s2)
  then have "define_host_on df (santricity_mediator sn) rq s1 = (Inr r, s2)" using assms(2) by metis
  from define_host_on_response [OF this] show ?thesis
    using assms(1) by (auto simp: generate_response_def santricity_mediator_def prog_run elim!: bindE_InrE)
qed

lemma santricity_defines_no_host_witness:
  "\<exists>df r s'. define_host df example_define_request example_sn_world = (Inr r, s') \<and>
     (rs_error_message r \<noteq> [] \<or>
      (\<exists>e. reach_storage df example_define_request (\<lambda>md. define_host_on df md example_define_request) example_sn_world =
         (Inl e, s') \<and> silent (df_texts df) e))"
proof -
  define df where "df = \<lparr>df_env = example_env example_sn_mediator, df_texts = plain_texts, df_host_text = host_name,
      df_initiators_text = (\<lambda>i. [])\<rparr>"
  have md: "mediator.truncate md = santricity_mediator (example_santricity example_system)"
    if "env_acquire (df_env df) (rq_array_connection_info example_define_request) t s0 = (Inr md, s1)" for t s0 md s1
    using that
    by (auto simp: df_def example_env_def example_sn_mediator_def inherit_methods_def prog_run mediator.truncate_def
        mediator.extend_def)
  obtain r s' where run: "define_host df example_define_request example_sn_world = (Inr r, s')" by (rule define_host_runs)
  have "\<not> truthy (rq_partition_name example_define_request)"
    by (simp add: example_define_request_def rq_partition_name_def)
  then have "rs_error_message r \<noteq> [] \<or>
      (\<exists>e. reach_storage df example_define_request (\<lambda>md. define_host_on df md example_define_request) example_sn_world =
         (Inl e, s') \<and> silent (df_texts df) e)"
    by (rule santricity_defines_no_host [OF _ _ run]) (rule md)
  with run show ?thesis by blast
qed

text \<open>The DS8000 and the A9000 are such storage systems as the theory \<open>HostDefiner\<close> speaks of.\<close>

lemma ds8k_hosts_unimplemented: "hosts_unimplemented (ds8k_mediator d)"
  by (simp add: hosts_unimplemented_def ds8k_mediator_def array_mediator_interface_def Let_def)

lemma xiv_hosts_unimplemented: "hosts_unimplemented (xiv_mediator x)"
  by (simp add: hosts_unimplemented_def xiv_mediator_def array_mediator_interface_def Let_def)

text \<open>What only speaks to the cluster leaves the storage system alone.\<close>

lemma onk_keeps_storage: "keeps (\<lambda>w. ww_storage w = u) (onk m)"
  by (auto simp: keeps_def onk_def split: prod.splits)

lemma definition_keeps_storage:
  "keeps (\<lambda>w. ww_storage w = u) (create_host_definition_if_not_exist wt hi response)"
  "keeps (\<lambda>w. ww_storage w = u) (set_status_to_host_definition_after_definition wt message found)"
  by (auto simp: create_host_definition_if_not_exist_def get_host_definition_manifest_def matching_definition_def
      node_item_def node_of_def set_status_to_host_definition_after_definition_def set_host_definition_status_to_ready_def
      wh_set_status_def create_k8s_event_for_host_definition_def
      intro!: keeps_intros onk_keeps_storage split: option.splits)

text \<open>
  C39. On a storage system whose mediator can not make hosts, the definition of a node ends in the phase Ready
  all the same: no host was made, the storage system is as looking for the host left it, and no error is shown.
\<close>
theorem ready_without_host:
  assumes "\<And>n p k. \<exists>k'. kb_patch_status (wt_kube wt) n p k = (Inr (), k') \<and> phase_of k' n = p"
    and "\<And>ns e k n. phase_of (snd (kb_create_event (wt_kube wt) ns e k)) n = phase_of k n"
    and managed: "is_node_should_be_managed_on_secret wt (hi_node_name hi) (hi_secret_name hi) (hi_secret_namespace hi) w =
      (Inr True, w1)"
    and update: "update_host_definition_info wt hi w1 = (Inr hi', w2)"
    and request: "get_request_from_host_definition wt hi' w2 = (Inr (Some rq), w3)"
    and reached: "env_detect (df_env (wt_definer wt)) (ci_array_addresses (rq_array_connection_info rq)) (ww_storage w3) =
        (Inr t, s1)" "env_acquire (df_env (wt_definer wt)) (rq_array_connection_info rq) t s1 = (Inr md, s2)"
    and "hosts_unimplemented (mediator.truncate md)"
    and "lookup_of_definition (mediator.truncate md) rq s2 = (x, s3)" "found_or_absent x"
    and made: "create_host_definition_if_not_exist wt hi' empty_response
        (w3\<lparr>ww_storage := env_release (df_env (wt_definer wt)) s3\<rparr>) = (Inr (Some c), w4)"
    and run: "create_definition wt hi w = (r, w')"
  shows "phase_of (ww_cluster w') (hi_name c) = READY_PHASE \<and>
    ww_storage w' = env_release (df_env (wt_definer wt)) s3"
proof -
  let ?w = "w3\<lparr>ww_storage := env_release (df_env (wt_definer wt)) s3\<rparr>"
  have blank: "wh_define_host wt hi' w2 = (Inr empty_response, ?w)"
    unfolding wh_define_host_def ensure_definition_state_def bindE_def request ons_def
    by (simp add: hosts_unimplemented_blank(1) [OF reached assms(8-10)])
  have kept: "ww_storage w4 = env_release (df_env (wt_definer wt)) s3"
    by (rule keeps_run [OF definition_keeps_storage(1) _ made]) simp
  obtain r' where status: "set_status_to_host_definition_after_definition wt (rs_error_message empty_response) (Some c) w4 =
      (r', w')"
    using create_definition_sets_status [OF managed update blank made run] .
  have "ww_storage w' = env_release (df_env (wt_definer wt)) s3"
    by (rule keeps_run [OF definition_keeps_storage(2) kept status])
  moreover have "phase_of (ww_cluster w') (hi_name c) =
      (if rs_error_message empty_response \<noteq> [] then PENDING_CREATION_PHASE else READY_PHASE)"
    by (rule definition_phase_follows_storage [where phase_of = phase_of, OF assms(1,2) managed update blank made run])
  ultimately show ?thesis by (simp add: empty_response_def)
qed

definition example_a9000 :: "unit xiv" where
  "example_a9000 = \<lparr>xv_client = bare_xcli, xv_endpoint = [''xiv'']\<rparr>"

definition example_a9000_watcher :: "(example_cluster, unit) watcher" where
  "example_a9000_watcher =
     \<lparr>wt_kube = example_kube\<lparr>kb_read_secret := (\<lambda>n ns. ret (Some [(''username'', []), (''password'', []), (''management_address'', [])]))\<rparr>,
      wt_definer = \<lparr>df_env = (example_env (inherit_methods (xiv_mediator example_a9000) (\<lambda>m. m) (\<lambda>m. m) (\<lambda>m. m)))
          \<lparr>env_detect := (\<lambda>es. ret ARRAY_TYPE_XIV)\<rparr>,
        df_texts = plain_texts, df_host_text = host_name, df_initiators_text = (\<lambda>i. [])\<rparr>,
      wt_getenv = (\<lambda>v. None)\<rparr>"

lemma ready_without_host_witness:
  "\<exists>w r w'. create_definition example_a9000_watcher example_new w = (r, w') \<and>
     example_phase (ww_cluster w') ''node1-abc'' = READY_PHASE"
proof -
  let ?wt = "example_a9000_watcher"
  let ?n = "\<lparr>mn_name = ''node1'', mn_node_id = ''node1'', mn_node_initiators = ''{}'', mn_io_group = ''0''\<rparr>"
  define w :: "(example_cluster, unit) watch_world" where
    "w = (watch_start ([], []) ())\<lparr>ww_nodes := [(''node1'', ?n)]\<rparr>"
  have store: "\<exists>k'. kb_patch_status (wt_kube ?wt) n p k = (Inr (), k') \<and> example_phase k' n = p" for n p k
    by (cases k) (simp add: example_a9000_watcher_def example_kube_def example_phase_def attr_or_empty_def update_conv')
  have events: "example_phase (snd (kb_create_event (wt_kube ?wt) ns e k)) n = example_phase k n" for ns e k n
    by (simp add: example_a9000_watcher_def example_kube_def prog_run)
  have secret: "get_secret_data (wt_kube ?wt) s ns k = (Inr [(''username'', []), (''password'', []), (''management_address'', [])], k)" for s ns k
    by (simp add: example_a9000_watcher_def get_secret_data_def except_api_def catchE_def bindE_def prog_run change_decode_base64_secret_config_def)
  have valid: "validate_secret [(''username'', []), (''password'', []), (''management_address'', [])] = Inr ()"
    by code_simp
  have managed: "is_node_should_be_managed_on_secret ?wt (hi_node_name example_new) (hi_secret_name example_new)
      (hi_secret_namespace example_new) w = (Inr True, w)"
    by (simp add: is_node_should_be_managed_on_secret_def onk_def bindE_def thenE_def prog_run secret valid w_def watch_start_def
        is_node_should_managed_on_secret_info_def generate_secret_info_def
        get_matching_managed_secret_info_def)
  have absent: "matching_definition ?wt example_new w = (Inr None, w)" if "fst (ww_cluster w) = []" for w
    using that by (simp add: matching_definition_def get_matching_host_definition_info_def get_k8s_host_definitions_def
      except_api_def catchE_def onk_def bindE_def prog_run example_a9000_watcher_def)
  then have update: "update_host_definition_info ?wt example_new w = (Inr example_new, w)"
    by (simp add: update_host_definition_info_def bindE_def prog_run w_def watch_start_def)
  let ?ci = "\<lparr>ci_array_addresses = [[]], ci_user = [], ci_password = [], ci_system_id = None, ci_partition_name = None,
    ci_partition_vg = None, ci_port_set = None, ci_verify_ssl = False\<rparr>"
  have ci: "get_array_connection_info_from_secret_data [(''username'', []), (''password'', []), (''management_address'', [])]
      (get_topology_labels [(MANAGE_NODE_LABEL, TRUE_STRING)]) = Inr (Some ?ci)"
    by code_simp
  have node_info: "get_node_info (wt_kube ?wt) n k = (Inr \<lparr>ni_name = n, ni_labels = [(MANAGE_NODE_LABEL, TRUE_STRING)]\<rparr>, k)" for n k
    by (simp add: example_a9000_watcher_def get_node_info_def except_api_def catchE_def prog_run)
  have "\<exists>rq. get_request_from_host_definition ?wt example_new w = (Inr (Some rq), w)"
    by (simp add: get_request_from_host_definition_def onk_def bindE_def prog_run node_info
        get_array_connection_info_from_secret_def secret ci get_node_id_by_node_def get_node_initiators_by_node_def
        get_io_group_by_node_def node_of_def)
  then obtain rq where request: "get_request_from_host_definition ?wt example_new w = (Inr (Some rq), w)" by blast
  let ?md = "inherit_methods (xiv_mediator example_a9000) (\<lambda>m. m) (\<lambda>m. m) (\<lambda>m. m)"
  have md: "mediator.truncate ?md = xiv_mediator example_a9000"
    by (simp add: inherit_methods_def mediator.truncate_def mediator.extend_def)
  have reached: "env_detect (df_env (wt_definer ?wt)) a s = (Inr ARRAY_TYPE_XIV, s)"
    "env_acquire (df_env (wt_definer ?wt)) c t s = (Inr ?md, s)" "env_release (df_env (wt_definer ?wt)) s = s" for a c t s
    by (simp_all add: example_a9000_watcher_def example_env_def prog_run)
  have lookup: "\<exists>e. lookup_of_definition (mediator.truncate ?md) rq s = (Inl e, s) \<and> found_or_absent (Inl e)" for s
    unfolding md
    by (simp add: lookup_of_definition_def xiv_mediator_def Let_def xiv_get_host_by_host_identifiers_def example_a9000_def
        bare_xcli_def bindE_def prog_run found_or_absent_def)
  have made: "\<exists>c k'. create_host_definition (wt_kube ?wt) m k = (Inr (Some c), k') \<and> hi_name c = mf_name m" for m k
    by (cases k) (simp add: create_host_definition_def except_api_def catchE_def bindE_def thenE_def prog_run
        example_a9000_watcher_def example_kube_def add_finalizer_def update_finalizer_def patch_host_definition_def Let_def
        generate_host_definition_info_def)
  have "\<exists>c w4. create_host_definition_if_not_exist ?wt example_new empty_response (w\<lparr>ww_storage := u\<rparr>) = (Inr (Some c), w4) \<and>
      hi_name c = ''node1-abc''" for u
  proof -
    let ?w = "w\<lparr>ww_storage := u\<rparr>"
    obtain m where m: "get_host_definition_manifest example_new empty_response ?w = (Inr m, ?w)" "mf_name m = ''node1-abc''"
      by (simp add: get_host_definition_manifest_def node_item_def node_of_def bindE_def prog_run w_def example_new_def)
    obtain c k' where "create_host_definition (wt_kube ?wt) m (ww_cluster ?w) = (Inr (Some c), k')" "hi_name c = mf_name m"
      using made by blast
    then show ?thesis
      using m absent [of ?w] by (simp add: create_host_definition_if_not_exist_def bindE_def prog_run onk_def w_def watch_start_def)
  qed
  then obtain c w4 where made_now: "create_host_definition_if_not_exist ?wt example_new empty_response
      (w\<lparr>ww_storage := env_release (df_env (wt_definer ?wt)) (ww_storage w)\<rparr>) = (Inr (Some c), w4)" "hi_name c = ''node1-abc''"
    by blast
  obtain r w' where run: "create_definition ?wt example_new w = (r, w')" by fastforce
  obtain e where e: "lookup_of_definition (mediator.truncate ?md) rq (ww_storage w) = (Inl e, ww_storage w)"
    "found_or_absent (Inl e :: exn + str \<times> str list)"
    using lookup by blast
  have "hosts_unimplemented (mediator.truncate ?md)" unfolding md by (rule xiv_hosts_unimplemented)
  from ready_without_host [where phase_of = example_phase, OF store events managed update request reached(1,2) this e
      made_now(1) run] run made_now(2)
  show ?thesis by auto
qed

end
